(* ===== verification/Prelude.thy ===== *)
theory Prelude
  imports Main "HOL-Library.Sublist"
begin

text \<open>
  Shared vocabulary of the development: the JavaScript string and array operations the
  sources use, the result type of fallible code, and the generic lemmas the component
  theories rest on.

  A JavaScript string is a \<open>string\<close>: one \<open>char\<close> per UTF-16 code unit, with the
  code units restricted to 0..255.  Every literal and every character class of the modelled
  sources lies in that range (the section sign of \<open>glob.ts\<close> is 0xA7), so \<open>length\<close>
  is \<open>String.prototype.length\<close>.  A JavaScript array is a list, \<open>undefined\<close> and
  \<open>null\<close> are \<open>None\<close>, a thrown error is an \<open>Inl\<close>.
\<close>

named_theorems js_string \<open>evaluation rules of the string operations\<close>
named_theorems js_array \<open>rules for the array operations\<close>

type_synonym 'a result = "string + 'a"

abbreviation LF :: char where "LF \<equiv> CHR 0x0A"
abbreviation CR :: char where "CR \<equiv> CHR 0x0D"
abbreviation NUL :: char where "NUL \<equiv> CHR 0x00"

text \<open>A text between apostrophes, as the messages of the sources have it.\<close>

definition quoted :: "string \<Rightarrow> string" where
  "quoted s = [CHR 0x27] @ s @ [CHR 0x27]"

section \<open>Substrings\<close>

text \<open>\<open>s.startsWith(p)\<close>.\<close>

fun startsWith :: "string \<Rightarrow> string \<Rightarrow> bool" where
  "startsWith s [] = True"
| "startsWith [] (p # ps) = False"
| "startsWith (c # s) (p # ps) = (c = p \<and> startsWith s ps)"

text \<open>\<open>s.endsWith(p)\<close>.\<close>

definition endsWith :: "string \<Rightarrow> string \<Rightarrow> bool" where
  "endsWith s p = startsWith (rev s) (rev p)"

text \<open>\<open>s.includes(p)\<close>.\<close>

fun includesStr :: "string \<Rightarrow> string \<Rightarrow> bool" where
  "includesStr [] p = (p = [])"
| "includesStr (c # s) p = (startsWith (c # s) p \<or> includesStr s p)"

text \<open>\<open>s.indexOf(p)\<close>, with \<open>None\<close> for -1.\<close>

fun indexOf :: "string \<Rightarrow> string \<Rightarrow> nat option" where
  "indexOf [] p = (if p = [] then Some 0 else None)"
| "indexOf (c # s) p =
     (if startsWith (c # s) p then Some 0 else map_option Suc (indexOf s p))"

lemma startsWith_iff_prefix: "startsWith s p \<longleftrightarrow> prefix p s"
  by (induction s p rule: startsWith.induct) auto

lemma startsWith_iff_append: "startsWith s p \<longleftrightarrow> (\<exists>r. s = p @ r)"
  by (simp add: startsWith_iff_prefix prefix_def)

lemma startsWith_append [simp]: "startsWith (p @ r) p"
  by (auto simp: startsWith_iff_append)

lemma startsWith_refl [simp]: "startsWith p p"
  by (auto simp: startsWith_iff_append)

lemma startsWith_length: "startsWith s p \<Longrightarrow> length p \<le> length s"
  by (auto simp: startsWith_iff_append)

lemma startsWith_take_drop: "startsWith s p \<Longrightarrow> s = p @ drop (length p) s"
  by (auto simp: startsWith_iff_append)

lemma endsWith_iff_append: "endsWith s p \<longleftrightarrow> (\<exists>r. s = r @ p)"
proof -
  have "endsWith s p \<longleftrightarrow> (\<exists>r. rev s = rev p @ r)"
    by (simp add: endsWith_def startsWith_iff_append)
  also have "\<dots> \<longleftrightarrow> (\<exists>r. s = r @ p)"
    by (metis rev_append rev_rev_ident)
  finally show ?thesis .
qed

lemma includesStr_iff: "includesStr s p \<longleftrightarrow> (\<exists>a b. s = a @ p @ b)"
proof (induction s)
  case Nil
  then show ?case by auto
next
  case (Cons c s)
  show ?case
  proof
    assume "includesStr (c # s) p"
    then consider "startsWith (c # s) p" | "includesStr s p" by auto
    then show "\<exists>a b. c # s = a @ p @ b"
    proof cases
      case 1
      then show ?thesis by (metis append_Nil startsWith_iff_append)
    next
      case 2
      then show ?thesis using Cons.IH by (metis append_Cons)
    qed
  next
    assume "\<exists>a b. c # s = a @ p @ b"
    then obtain a b where ab: "c # s = a @ p @ b" by blast
    show "includesStr (c # s) p"
    proof (cases a)
      case Nil
      then have "startsWith (c # s) p" using ab by simp
      then show ?thesis by simp
    next
      case (Cons d a')
      then show ?thesis using ab Cons.IH by auto
    qed
  qed
qed

lemma includesStr_sublist: "includesStr s p \<longleftrightarrow> sublist p s"
  by (simp add: includesStr_iff sublist_def)

lemma includesStr_append_left [simp]: "includesStr s p \<Longrightarrow> includesStr (r @ s) p"
  by (metis append_assoc includesStr_iff)

lemma includesStr_append_right [simp]: "includesStr s p \<Longrightarrow> includesStr (s @ r) p"
  by (metis append_assoc includesStr_iff)

lemma includesStr_mid [simp]: "includesStr (a @ p @ b) p"
  by (auto simp: includesStr_iff)

lemma startsWith_includesStr: "startsWith s p \<Longrightarrow> includesStr s p"
  by (metis append_Nil includesStr_iff startsWith_iff_append)

lemma includesStr_singleton [simp]: "includesStr s [c] \<longleftrightarrow> c \<in> set s"
  by (induction s) auto

lemma indexOf_None: "indexOf s p = None \<longleftrightarrow> \<not> includesStr s p"
  by (induction s) auto

lemma indexOf_Some:
  "indexOf s p = Some i \<Longrightarrow> i \<le> length s \<and> startsWith (drop i s) p"
  by (induction s arbitrary: i) (auto split: if_splits)

lemma indexOf_least:
  "indexOf s p = Some i \<Longrightarrow> j < i \<Longrightarrow> \<not> startsWith (drop j s) p"
proof (induction s arbitrary: i j)
  case Nil
  then show ?case by (auto split: if_splits)
next
  case (Cons c s)
  then show ?case by (cases j) (auto split: if_splits)
qed

section \<open>Splitting and joining\<close>

text \<open>\<open>s.split(c)\<close> for a one-character separator: never empty.\<close>

fun splitOn :: "char \<Rightarrow> string \<Rightarrow> string list" where
  "splitOn c [] = [[]]"
| "splitOn c (d # s) =
     (if d = c then [] # splitOn c s
      else (case splitOn c s of [] \<Rightarrow> [[d]] | w # ws \<Rightarrow> (d # w) # ws))"

text \<open>\<open>xs.join(sep)\<close>.\<close>

fun joinWith :: "string \<Rightarrow> string list \<Rightarrow> string" where
  "joinWith sep [] = []"
| "joinWith sep [x] = x"
| "joinWith sep (x # y # ys) = x @ sep @ joinWith sep (y # ys)"

lemma splitOn_not_Nil [simp]: "splitOn c s \<noteq> []"
  by (induction s) (auto split: list.splits)

lemma joinWith_Cons: "ys \<noteq> [] \<Longrightarrow> joinWith sep (x # ys) = x @ sep @ joinWith sep ys"
  by (cases ys) auto

lemma joinWith_append:
  "xs \<noteq> [] \<Longrightarrow> ys \<noteq> [] \<Longrightarrow> joinWith sep (xs @ ys) = joinWith sep xs @ sep @ joinWith sep ys"
proof (induction xs)
  case Nil
  then show ?case by simp
next
  case (Cons x xs)
  then show ?case by (cases xs) (simp_all add: joinWith_Cons)
qed

lemma join_split: "joinWith [c] (splitOn c s) = s"
proof (induction s)
  case Nil
  then show ?case by simp
next
  case (Cons d s)
  show ?case
  proof (cases "d = c")
    case True
    then show ?thesis using Cons by (simp add: joinWith_Cons)
  next
    case False
    obtain w ws where w: "splitOn c s = w # ws"
      by (cases "splitOn c s") auto
    then show ?thesis using False Cons by (cases ws) auto
  qed
qed

lemma splitOn_nosep: "w \<in> set (splitOn c s) \<Longrightarrow> c \<notin> set w"
proof (induction s arbitrary: w)
  case Nil
  then show ?case by simp
next
  case (Cons d s)
  obtain v vs where v: "splitOn c s = v # vs"
    by (cases "splitOn c s") auto
  then show ?case using Cons by (auto split: if_splits)
qed

lemma splitOn_no_occurrence: "c \<notin> set s \<Longrightarrow> splitOn c s = [s]"
  by (induction s) auto

lemma splitOn_append_sep: "c \<notin> set w \<Longrightarrow> splitOn c (w @ c # s) = w # splitOn c s"
  by (induction w) auto

lemma splitOn_append: "splitOn c (s @ c # t) = splitOn c s @ splitOn c t"
proof (induction s)
  case (Cons d s)
  obtain w ws where "splitOn c s = w # ws" by (cases "splitOn c s") auto
  then show ?case using Cons by simp
qed simp

lemma split_join:
  "xs \<noteq> [] \<Longrightarrow> \<forall>x \<in> set xs. c \<notin> set x \<Longrightarrow> splitOn c (joinWith [c] xs) = xs"
proof (induction xs)
  case Nil
  then show ?case by simp
next
  case (Cons x xs)
  then show ?case
    by (cases xs) (simp_all add: splitOn_no_occurrence splitOn_append_sep)
qed

section \<open>Case, white space, numbers\<close>

text \<open>
  \<open>toLowerCase\<close> on code units 0..255: the ASCII capitals and the Latin-1 capitals
  0xC0..0xDE without the multiplication sign.
\<close>

definition toLowerC :: "char \<Rightarrow> char" where
  "toLowerC c = (let n = of_char c :: nat in
     if (65 \<le> n \<and> n \<le> 90) \<or> (192 \<le> n \<and> n \<le> 222 \<and> n \<noteq> 215) then char_of (n + 32) else c)"

definition toLowerCase :: "string \<Rightarrow> string" where
  "toLowerCase s = map toLowerC s"

text \<open>
  The white space of \<open>trim\<close> and of the regular-expression class \<open>\s\<close> below 256:
  tab, line feed, vertical tab, form feed, carriage return, space, no-break space.
\<close>

definition isSpace :: "char \<Rightarrow> bool" where
  "isSpace c = (let n = of_char c :: nat in (9 \<le> n \<and> n \<le> 13) \<or> n = 32 \<or> n = 160)"

definition trimStart :: "string \<Rightarrow> string" where
  "trimStart s = dropWhile isSpace s"

definition trimEnd :: "string \<Rightarrow> string" where
  "trimEnd s = rev (dropWhile isSpace (rev s))"

definition trim :: "string \<Rightarrow> string" where
  "trim s = trimEnd (trimStart s)"

text \<open>\<open>s.split(/\s+/)\<close>: maximal runs of white space separate.\<close>

function splitSpaces :: "string \<Rightarrow> string list" where
  "splitSpaces s =
     (let w = takeWhile (\<lambda>c. \<not> isSpace c) s; r = dropWhile (\<lambda>c. \<not> isSpace c) s
      in if r = [] then [w] else w # splitSpaces (dropWhile isSpace r))"
  by pat_completeness auto
termination
proof (relation "measure length", goal_cases)
  case 1
  then show ?case by simp
next
  case (2 s w r)
  then obtain c r' where r: "r = c # r'" "isSpace c"
    by (metis hd_dropWhile list.exhaust_sel)
  have "length (dropWhile isSpace r) < length r"
    using r by (simp add: le_imp_less_Suc length_dropWhile_le)
  also have "length r \<le> length s"
    using 2 by (simp add: length_dropWhile_le)
  finally show ?case by simp
qed

declare splitSpaces.simps [simp del]

lemma splitSpaces_not_Nil [simp]: "splitSpaces s \<noteq> []"
  by (subst splitSpaces.simps) (simp add: Let_def)

text \<open>\<open>String(n)\<close> of an integer.\<close>

fun digitsOf :: "nat \<Rightarrow> string" where
  "digitsOf n = (if n < 10 then [char_of (48 + n)] else digitsOf (n div 10) @ [char_of (48 + n mod 10)])"

declare digitsOf.simps [simp del]

lemma digitsOf_code [js_string]:
  "n < 10 \<Longrightarrow> digitsOf n = [char_of (48 + n)]"
  "\<not> n < 10 \<Longrightarrow> digitsOf n = digitsOf (n div 10) @ [char_of (48 + n mod 10)]"
  by (simp_all add: digitsOf.simps [of n])

definition intToString :: "int \<Rightarrow> string" where
  "intToString i = (if i < 0 then CHR ''-'' # digitsOf (nat (- i)) else digitsOf (nat i))"

definition isDigit :: "char \<Rightarrow> bool" where
  "isDigit c = (let n = of_char c :: nat in 48 \<le> n \<and> n \<le> 57)"

lemma char_of_digit [simp]: "n < 10 \<Longrightarrow> isDigit (char_of (48 + n :: nat))"
  by (simp add: isDigit_def)

lemma digitsOf_digits: "c \<in> set (digitsOf n) \<Longrightarrow> isDigit c"
proof (induction n rule: digitsOf.induct)
  case (1 n)
  then show ?case by (cases "n < 10") (auto simp: digitsOf.simps [of n])
qed

lemma digitsOf_not_Nil [simp]: "digitsOf n \<noteq> []"
  by (simp add: digitsOf.simps [of n])

text \<open>The decimal reading of a digit string inverts \<open>digitsOf\<close>.\<close>

definition digitVal :: "char \<Rightarrow> nat" where
  "digitVal c = of_char c - 48"

definition readDigits :: "string \<Rightarrow> nat" where
  "readDigits s = foldl (\<lambda>n c. 10 * n + digitVal c) 0 s"

lemma readDigits_digitsOf [simp]: "readDigits (digitsOf n) = n"
proof (induction n rule: digitsOf.induct)
  case (1 n)
  show ?case
  proof (cases "n < 10")
    case True
    then show ?thesis
      by (simp add: digitsOf.simps [of n] readDigits_def digitVal_def)
  next
    case False
    have "readDigits (digitsOf n) = 10 * readDigits (digitsOf (n div 10)) + n mod 10"
      using False by (simp add: digitsOf.simps [of n] readDigits_def digitVal_def)
    then show ?thesis using 1 False by simp
  qed
qed

lemma digitsOf_inject: "digitsOf m = digitsOf n \<Longrightarrow> m = n"
  by (metis readDigits_digitsOf)

section \<open>Sets built by insertion\<close>

text \<open>
  \<open>Array.from(new Set(xs))\<close>: the first occurrence of every element, in order.
\<close>

fun dedupList :: "'a list \<Rightarrow> 'a list" where
  "dedupList [] = []"
| "dedupList (x # xs) = x # filter (\<lambda>y. y \<noteq> x) (dedupList xs)"

lemma set_dedupList [simp]: "set (dedupList xs) = set xs"
  by (induction xs) auto

lemma distinct_dedupList [simp]: "distinct (dedupList xs)"
  by (induction xs) auto

lemma dedupList_distinct: "distinct xs \<Longrightarrow> dedupList xs = xs"
proof (induction xs)
  case Nil
  then show ?case by simp
next
  case (Cons x xs)
  then have "filter (\<lambda>y. y \<noteq> x) xs = xs" by (simp add: filter_id_conv) blast
  with Cons show ?case by simp
qed

section \<open>Where two readings of a text meet\<close>

lemma split_at_unique: "c \<notin> set a \<Longrightarrow> c \<notin> set b \<Longrightarrow> a @ c # s = b @ c # t \<Longrightarrow> a = b \<and> s = t"
proof (induction a arbitrary: b)
  case Nil
  then show ?case by (cases b) auto
next
  case (Cons x a)
  then show ?case by (cases b) auto
qed

lemma prefix_before: "c \<notin> set a \<Longrightarrow> a @ t = v @ c # r \<Longrightarrow> \<exists>x. v = a @ x"
proof (induction a arbitrary: v)
  case Nil
  then show ?case by simp
next
  case (Cons y a)
  then show ?case by (cases v) auto
qed

lemma last_not_in_rest:
  assumes "a @ x = p @ s" "a \<noteq> []" "last a \<notin> set s"
  shows "\<exists>y. p = a @ y"
proof -
  obtain us where us: "p = a @ us \<or> (a = p @ us \<and> us @ x = s)"
    using assms(1) by (auto simp: append_eq_append_conv2)
  show ?thesis
  proof (cases "us = []")
    case False
    then have "last us \<in> set us" by simp
    then show ?thesis using us assms(2,3) False by auto
  qed (use us in auto)
qed

end
