(* ===== verification/Review.thy ===== *)
theory Review
  imports Prelude Complex_Main
begin

text \<open>
  The data of a review (\<open>core/src/review.ts\<close>, \<open>core/src/limits.ts\<close>): severities,
  categories, confidences, inline comments, the persisted review state, and the mapping
  from findings to the pull-request review event.  Amounts in US dollars are rational
  numbers: the rounding of binary floating point is not modelled.
\<close>

datatype Severity = Critical | Major | Minor | Info
datatype Side = LEFT | RIGHT
datatype Confidence = High | Medium | Low
datatype Category = Bug | Security | Performance | Maintainability | Style | Docs | Tests

record ReviewOutputComment =
  c_path :: string
  c_line :: int
  c_side :: Side
  c_body :: string
  c_severity :: Severity
  c_category :: "Category option"
  c_confidence :: "Confidence option"
  c_ruleId :: "string option"
  c_suggestion :: "string option"

record InlineComment = ReviewOutputComment +
  c_fingerprint :: string

record ReviewState =
  rs_schemaVersion :: nat
  rs_lastReviewedSha :: string
  rs_baseSha :: string
  rs_reviewedAt :: string
  rs_modelUsed :: string
  rs_totalTokens :: int
  rs_totalCostUsd :: rat
  rs_commentFingerprints :: "string list"

datatype ReviewEvent = COMMENT | REQUEST_CHANGES | APPROVE
datatype RequestChangesThreshold = ThrCritical | ThrMajor | ThrNever

datatype ReviewAbortReason =
  UrlAllowlist | SchemaViolation | MaxFilesExceeded | MaxDiffLinesExceeded

datatype CostLedgerPhase = InjectionDetect | ReviewMain | ReviewRetry
datatype CostLedgerStatus = Success | Failed | Cancelled | CostExceeded

text \<open>
  The error classes of \<open>core/src/errors.ts\<close> that the modelled code throws or tests for,
  and \<open>OtherError\<close> for an error of any other class, by its message.
\<close>

datatype SecretLeakPhase = DiffPhase | OutputPhase

datatype GitleaksScanFailureReason = MalformedJson | UnexpectedShape | EmptyStdoutOnLeakExit | StdoutTooLarge

datatype AgentError =
    ConfigError string
  | SchemaValidationError "(string \<times> string) list"
  | CostExceededError rat rat
  | ToolDispatchRefusedError string string
  | SecretLeakAbortedError SecretLeakPhase nat "string list" string
  | GitleaksScanError GitleaksScanFailureReason int string
  | OtherError string

fun severityName :: "Severity \<Rightarrow> string" where
  "severityName Critical = ''critical''"
| "severityName Major = ''major''"
| "severityName Minor = ''minor''"
| "severityName Info = ''info''"

fun SEVERITY_RANK :: "Severity \<Rightarrow> nat" where
  "SEVERITY_RANK Critical = 3"
| "SEVERITY_RANK Major = 2"
| "SEVERITY_RANK Minor = 1"
| "SEVERITY_RANK Info = 0"

text \<open>\<open>CONFIDENCES.indexOf\<close>: the list runs from most to least confident.\<close>

definition CONFIDENCES :: "Confidence list" where
  "CONFIDENCES = [High, Medium, Low]"

fun confidenceIndex :: "Confidence \<Rightarrow> nat" where
  "confidenceIndex High = 0"
| "confidenceIndex Medium = 1"
| "confidenceIndex Low = 2"

lemma confidenceIndex_nth: "confidenceIndex c < length CONFIDENCES \<and> CONFIDENCES ! confidenceIndex c = c"
  by (cases c) (simp_all add: CONFIDENCES_def)

text \<open>Severities are ordered by rank, so that the library's order lemmas apply to them.\<close>

instantiation Severity :: linorder
begin

definition less_eq_Severity :: "Severity \<Rightarrow> Severity \<Rightarrow> bool" where
  "less_eq_Severity a b = (SEVERITY_RANK a \<le> SEVERITY_RANK b)"

definition less_Severity :: "Severity \<Rightarrow> Severity \<Rightarrow> bool" where
  "less_Severity a b = (SEVERITY_RANK a < SEVERITY_RANK b)"

instance
proof
  fix x y z :: Severity
  show "(x < y) = (x \<le> y \<and> \<not> y \<le> x)"
    by (auto simp: less_Severity_def less_eq_Severity_def)
  show "x \<le> x" by (simp add: less_eq_Severity_def)
  show "x \<le> y \<Longrightarrow> y \<le> z \<Longrightarrow> x \<le> z" by (simp add: less_eq_Severity_def)
  show "x \<le> y \<Longrightarrow> y \<le> x \<Longrightarrow> x = y"
    by (cases x; cases y) (auto simp: less_eq_Severity_def)
  show "x \<le> y \<or> y \<le> x" by (auto simp: less_eq_Severity_def)
qed

end

definition thresholdSeverity :: "RequestChangesThreshold \<Rightarrow> Severity option" where
  "thresholdSeverity t = (case t of ThrNever \<Rightarrow> None | ThrCritical \<Rightarrow> Some Critical | ThrMajor \<Rightarrow> Some Major)"

fun anyAtOrAbove :: "nat \<Rightarrow> Severity list \<Rightarrow> bool" where
  "anyAtOrAbove flr [] = False"
| "anyAtOrAbove flr (s # ss) = (if flr \<le> SEVERITY_RANK s then True else anyAtOrAbove flr ss)"

definition computeReviewEvent :: "Severity list \<Rightarrow> RequestChangesThreshold \<Rightarrow> ReviewEvent" where
  "computeReviewEvent sevs t =
     (case thresholdSeverity t of
        None \<Rightarrow> COMMENT
      | Some thr \<Rightarrow> if anyAtOrAbove (SEVERITY_RANK thr) sevs then REQUEST_CHANGES else COMMENT)"

section \<open>Caps of \<open>limits.ts\<close>\<close>

definition PATH_MAX :: nat where "PATH_MAX = 500"
definition BODY_MAX :: nat where "BODY_MAX = 5000"
definition SUGGESTION_MAX :: nat where "SUGGESTION_MAX = 5000"
definition SUMMARY_MAX :: nat where "SUMMARY_MAX = 10000"
definition LINE_MAX :: int where "LINE_MAX = 1000000"
definition COMMENTS_MAX :: nat where "COMMENTS_MAX = 50"
definition MODEL_NAME_MIN :: nat where "MODEL_NAME_MIN = 1"
definition MODEL_NAME_MAX :: nat where "MODEL_NAME_MAX = 128"
definition RULE_ID_MIN :: nat where "RULE_ID_MIN = 2"
definition RULE_ID_MAX :: nat where "RULE_ID_MAX = 64"
definition MAX_FILE_SIZE :: nat where "MAX_FILE_SIZE = 1000000"
definition MAX_GREP_PATTERN_LENGTH :: nat where "MAX_GREP_PATTERN_LENGTH = 200"
definition AUTO_FETCH_MAX_FILES :: nat where "AUTO_FETCH_MAX_FILES = 5"
definition AUTO_FETCH_MAX_BYTES_PER_FILE :: nat where "AUTO_FETCH_MAX_BYTES_PER_FILE = 50000"
definition AUTO_FETCH_MAX_TOTAL_BYTES :: nat where "AUTO_FETCH_MAX_TOTAL_BYTES = 250000"

section \<open>The review event\<close>

lemma anyAtOrAbove_iff: "anyAtOrAbove n ss \<longleftrightarrow> (\<exists>s \<in> set ss. n \<le> SEVERITY_RANK s)"
  by (induction ss) auto

lemma computeReviewEvent_iff:
  "computeReviewEvent sevs t = REQUEST_CHANGES \<longleftrightarrow>
     (\<exists>thr. thresholdSeverity t = Some thr \<and> (\<exists>s \<in> set sevs. thr \<le> s))"
  by (auto simp: computeReviewEvent_def anyAtOrAbove_iff less_eq_Severity_def split: option.splits)

lemma computeReviewEvent_never_approves: "computeReviewEvent sevs t \<noteq> APPROVE"
  by (auto simp: computeReviewEvent_def split: option.splits)

lemma computeReviewEvent_mono:
  "set xs \<subseteq> set ys \<Longrightarrow> computeReviewEvent xs t = REQUEST_CHANGES \<Longrightarrow>
     computeReviewEvent ys t = REQUEST_CHANGES"
  by (auto simp: computeReviewEvent_iff)

end
