(* ===== verification/Regex.thy ===== *)
theory Regex
  imports Prelude
begin

text \<open>
  The part of JavaScript's \<open>RegExp\<close> the sources use.  An expression is a datatype; the
  matcher \<open>rxm\<close> is the backtracking matcher of the language: from a position in the
  subject it lists every position a match can end at, in the order the engine tries them,
  so that the head of the list is the match \<open>exec\<close> reports (greedy quantifiers first).
  A position is a zipper: the text before it, reversed, and the text after it, which is
  what the assertions \<open>^\<close>, \<open>$\<close> and \<open>\b\<close> look at.  On top of it stand
  \<open>test\<close>, \<open>match\<close>, \<open>matchAll\<close> and \<open>replace\<close> with a fixed text.
  The matcher is shown equal to the regular language of the expression
  (\<open>rxm_lang\<close>, for expressions without assertions).
\<close>

type_synonym pos = "string \<times> string"

section \<open>Expressions\<close>

text \<open>
  A character class is a list of code ranges, possibly negated.  \<open>LitI\<close> is a literal
  under the \<open>i\<close> flag.
\<close>

datatype rx =
    Eps
  | Lit char
  | LitI char
  | Cls bool "(nat \<times> nat) list"
  | Seq rx rx
  | Alt rx rx
  | Star rx
  | Opt rx
  | Bol
  | Eol
  | Wb

fun rx_str :: "string \<Rightarrow> rx" where
  "rx_str [] = Eps"
| "rx_str (c # s) = Seq (Lit c) (rx_str s)"

fun rx_strI :: "string \<Rightarrow> rx" where
  "rx_strI [] = Eps"
| "rx_strI (c # s) = Seq (LitI c) (rx_strI s)"

fun rx_seq :: "rx list \<Rightarrow> rx" where
  "rx_seq [] = Eps"
| "rx_seq (r # rs) = Seq r (rx_seq rs)"

fun rx_alts :: "rx list \<Rightarrow> rx" where
  "rx_alts [] = Cls False []"
| "rx_alts [r] = r"
| "rx_alts (r # rs) = Alt r (rx_alts rs)"

text \<open>\<open>r{n}\<close>, \<open>r{n,}\<close>, \<open>r{n,m}\<close> and \<open>r+\<close>.\<close>

fun rx_rep :: "nat \<Rightarrow> rx \<Rightarrow> rx" where
  "rx_rep 0 r = Eps"
| "rx_rep (Suc n) r = Seq r (rx_rep n r)"

definition rx_atleast :: "nat \<Rightarrow> rx \<Rightarrow> rx" where
  "rx_atleast n r = Seq (rx_rep n r) (Star r)"

fun rx_upto :: "nat \<Rightarrow> rx \<Rightarrow> rx" where
  "rx_upto 0 r = Eps"
| "rx_upto (Suc n) r = Opt (Seq r (rx_upto n r))"

definition rx_between :: "nat \<Rightarrow> nat \<Rightarrow> rx \<Rightarrow> rx" where
  "rx_between n m r = Seq (rx_rep n r) (rx_upto (m - n) r)"

abbreviation rx_plus :: "rx \<Rightarrow> rx" where
  "rx_plus r \<equiv> Seq r (Star r)"

text \<open>The classes \<open>.\<close> (no line terminator), \<open>\s\<close>, \<open>\d\<close> and \<open>[^/]\<close>.\<close>

definition rx_dot :: rx where
  "rx_dot = Cls True [(10, 10), (13, 13)]"

definition rx_space :: rx where
  "rx_space = Cls False [(9, 13), (32, 32), (160, 160)]"

definition rx_digit :: rx where
  "rx_digit = Cls False [(48, 57)]"

definition rx_nonslash :: rx where
  "rx_nonslash = Cls True [(47, 47)]"

section \<open>The matcher\<close>

definition in_cls :: "bool \<Rightarrow> (nat \<times> nat) list \<Rightarrow> char \<Rightarrow> bool" where
  "in_cls neg rs c = (list_ex (\<lambda>(a, b). a \<le> of_char c \<and> of_char c \<le> b) rs \<noteq> neg)"

text \<open>The case folding of the \<open>i\<close> flag on ASCII letters.\<close>

definition foldA :: "char \<Rightarrow> char" where
  "foldA c = (let n = of_char c :: nat in if 65 \<le> n \<and> n \<le> 90 then char_of (n + 32) else c)"

definition isWordC :: "char \<Rightarrow> bool" where
  "isWordC c = in_cls False [(48, 57), (65, 90), (95, 95), (97, 122)] c"

definition word_boundary :: "pos \<Rightarrow> bool" where
  "word_boundary q =
     ((case fst q of [] \<Rightarrow> False | c # _ \<Rightarrow> isWordC c) \<noteq>
      (case snd q of [] \<Rightarrow> False | c # _ \<Rightarrow> isWordC c))"

definition one_char :: "(char \<Rightarrow> bool) \<Rightarrow> pos \<Rightarrow> pos list" where
  "one_char P q = (case snd q of [] \<Rightarrow> [] | c # s \<Rightarrow> if P c then [(c # fst q, s)] else [])"

function rxm :: "rx \<Rightarrow> pos \<Rightarrow> pos list" where
  "rxm Eps q = [q]"
| "rxm (Lit c) q = one_char (\<lambda>d. d = c) q"
| "rxm (LitI c) q = one_char (\<lambda>d. foldA d = foldA c) q"
| "rxm (Cls neg rs) q = one_char (in_cls neg rs) q"
| "rxm (Seq a b) q = concat (map (rxm b) (rxm a q))"
| "rxm (Alt a b) q = rxm a q @ rxm b q"
| "rxm (Star r) q =
     concat (map (\<lambda>q'. if length (snd q') < length (snd q) then rxm (Star r) q' else []) (rxm r q)) @ [q]"
| "rxm (Opt r) q = rxm r q @ [q]"
| "rxm Bol q = (if fst q = [] then [q] else [])"
| "rxm Eol q = (if snd q = [] then [q] else [])"
| "rxm Wb q = (if word_boundary q then [q] else [])"
  by pat_completeness auto
termination
  by (relation "measures [\<lambda>(r, q). size r, \<lambda>(r, q). length (snd q)]") auto

declare rxm.simps(7) [simp del]

text \<open>The first match of an expression at or after a position: its start and its end.\<close>

function rx_find :: "rx \<Rightarrow> pos \<Rightarrow> (pos \<times> pos) option" where
  "rx_find r q =
     (case rxm r q of
        q' # _ \<Rightarrow> Some (q, q')
      | [] \<Rightarrow> (case snd q of [] \<Rightarrow> None | c # s \<Rightarrow> rx_find r (c # fst q, s)))"
  by pat_completeness auto
termination
  by (relation "measure (\<lambda>(r, q). length (snd q))") auto

declare rx_find.simps [simp del]

definition matched :: "pos \<Rightarrow> pos \<Rightarrow> string" where
  "matched a b = take (length (snd a) - length (snd b)) (snd a)"

text \<open>\<open>re.test(s)\<close> for an expression without the \<open>g\<close> flag.\<close>

definition rx_test :: "rx \<Rightarrow> string \<Rightarrow> bool" where
  "rx_test r s = (rx_find r ([], s) \<noteq> None)"

text \<open>
  Successive matches under the \<open>g\<close> flag: the next search starts where the last match
  ended, one character later after an empty match.
\<close>

function rx_matches :: "rx \<Rightarrow> pos \<Rightarrow> (pos \<times> pos) list" where
  "rx_matches r q =
     (case rx_find r q of
        None \<Rightarrow> []
      | Some (a, b) \<Rightarrow>
          if length (snd b) < length (snd q) then (a, b) # rx_matches r b
          else (a, b) # (case snd b of
                           [] \<Rightarrow> []
                         | c # s \<Rightarrow> if length s < length (snd q) then rx_matches r (c # fst b, s) else []))"
  by pat_completeness auto
termination
  by (relation "measure (\<lambda>(r, q). length (snd q))") auto

declare rx_matches.simps [simp del]

definition rx_matchAll :: "rx \<Rightarrow> string \<Rightarrow> string list" where
  "rx_matchAll r s = map (\<lambda>(a, b). matched a b) (rx_matches r ([], s))"

text \<open>\<open>s.replace(re, fixed)\<close> with the \<open>g\<close> flag.\<close>

fun rx_splice :: "string \<Rightarrow> string \<Rightarrow> nat \<Rightarrow> (nat \<times> nat) list \<Rightarrow> string" where
  "rx_splice repl s i [] = drop i s"
| "rx_splice repl s i ((a, b) # ms) = take (a - i) (drop i s) @ repl @ rx_splice repl s b ms"

definition rx_replaceAll :: "rx \<Rightarrow> string \<Rightarrow> string \<Rightarrow> string" where
  "rx_replaceAll r repl s =
     rx_splice repl s 0 (map (\<lambda>(a, b). (length (fst a), length (fst b))) (rx_matches r ([], s)))"

section \<open>The matcher only moves forward over the subject\<close>

definition subject :: "pos \<Rightarrow> string" where
  "subject q = rev (fst q) @ snd q"

lemma one_char_set: "set (one_char P q) = {(c # fst q, s) |c s. snd q = c # s \<and> P c}"
  by (auto simp: one_char_def split: list.splits)

lemma rxm_Star_set:
  "set (rxm (Star r) q) =
     {q} \<union> (\<Union>q' \<in> {q' \<in> set (rxm r q). length (snd q') < length (snd q)}. set (rxm (Star r) q'))"
  by (subst rxm.simps(7)) auto

lemma rxm_advance:
  "q' \<in> set (rxm r q) \<Longrightarrow> \<exists>w. snd q = w @ snd q' \<and> fst q' = rev w @ fst q"
proof (induction r q arbitrary: q' rule: rxm.induct)
  case (5 a b q)
  then obtain q1 where q1: "q1 \<in> set (rxm a q)" "q' \<in> set (rxm b q1)" by auto
  obtain w where w: "snd q = w @ snd q1" "fst q1 = rev w @ fst q"
    using "5.IH"(1) q1 by blast
  obtain v where v: "snd q1 = v @ snd q'" "fst q' = rev v @ fst q1"
    using "5.IH"(2) q1 by blast
  have "snd q = (w @ v) @ snd q' \<and> fst q' = rev (w @ v) @ fst q" using w v by simp
  then show ?case by blast
next
  case (7 r q)
  consider "q' = q" | q1 where "q1 \<in> set (rxm r q)" "length (snd q1) < length (snd q)"
      "q' \<in> set (rxm (Star r) q1)"
    using "7.prems" by (subst (asm) rxm_Star_set) auto
  then show ?case
  proof cases
    case 1
    then show ?thesis by simp
  next
    case (2 q1)
    obtain w where w: "snd q = w @ snd q1" "fst q1 = rev w @ fst q"
      using "7.IH"(1) 2 by blast
    obtain v where v: "snd q1 = v @ snd q'" "fst q' = rev v @ fst q1"
      using "7.IH"(2) 2 by blast
    have "snd q = (w @ v) @ snd q' \<and> fst q' = rev (w @ v) @ fst q" using w v by simp
    then show ?thesis by blast
  qed
qed (auto simp: one_char_set split: if_splits)

lemma rxm_subject: "q' \<in> set (rxm r q) \<Longrightarrow> subject q' = subject q"
  by (drule rxm_advance) (auto simp: subject_def)

lemma rxm_length: "q' \<in> set (rxm r q) \<Longrightarrow> length (snd q') \<le> length (snd q)"
  by (drule rxm_advance) auto

lemma rx_find_Some:
  "rx_find r q = Some (a, b) \<Longrightarrow>
     b \<in> set (rxm r a) \<and> (\<exists>w. snd q = w @ snd a \<and> fst a = rev w @ fst q)"
proof (induction r q rule: rx_find.induct)
  case (1 r q)
  show ?case
  proof (cases "rxm r q")
    case (Cons q' qs)
    then show ?thesis using "1.prems" by (simp add: rx_find.simps [of r q])
  next
    case Nil
    then obtain c s where s: "snd q = c # s"
      using "1.prems" by (cases "snd q") (simp_all add: rx_find.simps [of r q])
    then have eq: "rx_find r (c # fst q, s) = Some (a, b)"
      using Nil "1.prems" by (simp add: rx_find.simps [of r q])
    with "1.IH" [OF Nil s]
    obtain w where w: "b \<in> set (rxm r a)" "s = w @ snd a" "fst a = rev w @ c # fst q"
      by auto
    then have "snd q = (c # w) @ snd a \<and> fst a = rev (c # w) @ fst q" using s by simp
    then show ?thesis using w by blast
  qed
qed

text \<open>
  \<open>test\<close> succeeds exactly when the expression matches at some position of the subject.
\<close>

lemma rx_find_None:
  "rx_find r (p, s) = None \<longleftrightarrow> (\<forall>w t. s = w @ t \<longrightarrow> rxm r (rev w @ p, t) = [])"
proof (induction s arbitrary: p)
  case Nil
  then show ?case by (auto simp: rx_find.simps [of r "(p, [])"] split: list.splits)
next
  case (Cons c s)
  have "rx_find r (p, c # s) = None \<longleftrightarrow> rxm r (p, c # s) = [] \<and> rx_find r (c # p, s) = None"
    by (subst rx_find.simps) (auto split: list.splits)
  also have "\<dots> \<longleftrightarrow> rxm r (p, c # s) = [] \<and> (\<forall>w t. s = w @ t \<longrightarrow> rxm r (rev w @ c # p, t) = [])"
    using Cons.IH by simp
  also have "\<dots> \<longleftrightarrow> (\<forall>w t. c # s = w @ t \<longrightarrow> rxm r (rev w @ p, t) = [])"
  proof (intro iffI allI impI conjI)
    fix w t
    assume "rxm r (p, c # s) = [] \<and> (\<forall>w t. s = w @ t \<longrightarrow> rxm r (rev w @ c # p, t) = [])"
      and "c # s = w @ t"
    then show "rxm r (rev w @ p, t) = []" by (cases w) auto
  next
    assume *: "\<forall>w t. c # s = w @ t \<longrightarrow> rxm r (rev w @ p, t) = []"
    from * [rule_format, of "[]" "c # s"] show "rxm r (p, c # s) = []" by simp
    fix w t assume "s = w @ t"
    with * [rule_format, of "c # w" t] show "rxm r (rev w @ c # p, t) = []" by simp
  qed
  finally show ?case .
qed

lemma rx_test_iff:
  "rx_test r s \<longleftrightarrow> (\<exists>w t. s = w @ t \<and> rxm r (rev w, t) \<noteq> [])"
  using rx_find_None [of r "[]" s] by (auto simp: rx_test_def)

section \<open>The language of an expression\<close>

inductive star_of :: "(string \<Rightarrow> bool) \<Rightarrow> string \<Rightarrow> bool" for L where
  star_nil: "star_of L []"
| star_app: "L u \<Longrightarrow> star_of L v \<Longrightarrow> star_of L (u @ v)"

primrec rx_lang :: "rx \<Rightarrow> string \<Rightarrow> bool" where
  "rx_lang Eps = (\<lambda>w. w = [])"
| "rx_lang (Lit c) = (\<lambda>w. w = [c])"
| "rx_lang (LitI c) = (\<lambda>w. \<exists>d. w = [d] \<and> foldA d = foldA c)"
| "rx_lang (Cls neg rs) = (\<lambda>w. \<exists>d. w = [d] \<and> in_cls neg rs d)"
| "rx_lang (Seq a b) = (\<lambda>w. \<exists>u v. w = u @ v \<and> rx_lang a u \<and> rx_lang b v)"
| "rx_lang (Alt a b) = (\<lambda>w. rx_lang a w \<or> rx_lang b w)"
| "rx_lang (Star r) = star_of (rx_lang r)"
| "rx_lang (Opt r) = (\<lambda>w. w = [] \<or> rx_lang r w)"
| "rx_lang Bol = (\<lambda>w. w = [])"
| "rx_lang Eol = (\<lambda>w. w = [])"
| "rx_lang Wb = (\<lambda>w. w = [])"

primrec no_assert :: "rx \<Rightarrow> bool" where
  "no_assert Eps = True"
| "no_assert (Lit c) = True"
| "no_assert (LitI c) = True"
| "no_assert (Cls neg rs) = True"
| "no_assert (Seq a b) = (no_assert a \<and> no_assert b)"
| "no_assert (Alt a b) = (no_assert a \<and> no_assert b)"
| "no_assert (Star r) = no_assert r"
| "no_assert (Opt r) = no_assert r"
| "no_assert Bol = False"
| "no_assert Eol = False"
| "no_assert Wb = False"

lemma star_of_nonempty:
  "star_of L w \<Longrightarrow> w = [] \<or> (\<exists>u v. w = u @ v \<and> u \<noteq> [] \<and> L u \<and> star_of L v)"
proof (induction rule: star_of.induct)
  case star_nil
  then show ?case by simp
next
  case (star_app u v)
  then show ?case by (cases "u = []") auto
qed

definition ends :: "pos \<Rightarrow> (string \<Rightarrow> bool) \<Rightarrow> pos set" where
  "ends q L = {(rev w @ fst q, t) |w t. snd q = w @ t \<and> L w}"

lemma ends_iff: "q' \<in> ends q L \<longleftrightarrow> (\<exists>w. snd q = w @ snd q' \<and> fst q' = rev w @ fst q \<and> L w)"
  by (cases q') (auto simp: ends_def)

lemma rxm_Star_ends:
  assumes IH: "\<And>q. set (rxm r q) = ends q (rx_lang r)"
  shows "set (rxm (Star r) q) = ends q (star_of (rx_lang r))"
proof (induction "length (snd q)" arbitrary: q rule: less_induct)
  case less
  have step: "q' \<in> set (rxm (Star r) q1) \<longleftrightarrow> q' \<in> ends q1 (star_of (rx_lang r))"
    if "length (snd q1) < length (snd q)" for q1 q'
    using less that by blast
  show ?case
  proof (intro set_eqI iffI)
    fix q' assume "q' \<in> set (rxm (Star r) q)"
    then consider "q' = q" | q1 where "q1 \<in> ends q (rx_lang r)" "length (snd q1) < length (snd q)"
        "q' \<in> ends q1 (star_of (rx_lang r))"
      using step by (subst (asm) rxm_Star_set) (auto simp: IH)
    then show "q' \<in> ends q (star_of (rx_lang r))"
    proof cases
      case 1
      then show ?thesis by (auto simp: ends_iff star_nil)
    next
      case (2 q1)
      then show ?thesis by (auto simp: ends_iff intro: star_app)
    qed
  next
    fix q' assume "q' \<in> ends q (star_of (rx_lang r))"
    then obtain w where w: "snd q = w @ snd q'" "fst q' = rev w @ fst q" "star_of (rx_lang r) w"
      by (auto simp: ends_iff)
    from star_of_nonempty [OF w(3)]
    show "q' \<in> set (rxm (Star r) q)"
    proof
      assume "w = []"
      then have "q' = q" using w by (simp add: prod_eq_iff)
      then show ?thesis by (subst rxm_Star_set) simp
    next
      assume "\<exists>u v. w = u @ v \<and> u \<noteq> [] \<and> rx_lang r u \<and> star_of (rx_lang r) v"
      then obtain u v where uv: "w = u @ v" "u \<noteq> []" "rx_lang r u" "star_of (rx_lang r) v" by blast
      define q1 where "q1 = (rev u @ fst q, v @ snd q')"
      have "q1 \<in> set (rxm r q)" using uv w by (auto simp: IH ends_iff q1_def)
      moreover have less1: "length (snd q1) < length (snd q)" using uv w by (simp add: q1_def)
      moreover have "q' \<in> set (rxm (Star r) q1)"
        using step [OF less1] uv w by (auto simp: ends_iff q1_def)
      ultimately show ?thesis by (subst rxm_Star_set) blast
    qed
  qed
qed

lemma ends_Seq:
  "(\<Union>q' \<in> ends q A. ends q' B) = ends q (\<lambda>w. \<exists>u v. w = u @ v \<and> A u \<and> B v)"
proof (intro set_eqI iffI)
  fix q'' assume "q'' \<in> (\<Union>q' \<in> ends q A. ends q' B)"
  then obtain u v q' where "snd q = u @ snd q'" "fst q' = rev u @ fst q" "A u"
      "snd q' = v @ snd q''" "fst q'' = rev v @ fst q'" "B v"
    by (auto simp: ends_iff)
  then have "snd q = (u @ v) @ snd q'' \<and> fst q'' = rev (u @ v) @ fst q \<and> A u \<and> B v" by simp
  then show "q'' \<in> ends q (\<lambda>w. \<exists>u v. w = u @ v \<and> A u \<and> B v)" unfolding ends_iff by blast
next
  fix q'' assume "q'' \<in> ends q (\<lambda>w. \<exists>u v. w = u @ v \<and> A u \<and> B v)"
  then obtain u v where uv: "snd q = u @ v @ snd q''" "fst q'' = rev v @ rev u @ fst q" "A u" "B v"
    by (auto simp: ends_iff)
  then have "(rev u @ fst q, v @ snd q'') \<in> ends q A" "q'' \<in> ends (rev u @ fst q, v @ snd q'') B"
    by (auto simp: ends_iff)
  then show "q'' \<in> (\<Union>q' \<in> ends q A. ends q' B)" by blast
qed

lemma rxm_lang: "no_assert r \<Longrightarrow> set (rxm r q) = ends q (rx_lang r)"
proof (induction r arbitrary: q)
  case (Seq a b)
  then have "set (rxm (Seq a b) q) = (\<Union>q' \<in> ends q (rx_lang a). ends q' (rx_lang b))" by simp
  also have "\<dots> = ends q (rx_lang (Seq a b))" by (simp add: ends_Seq)
  finally show ?case .
next
  case (Star r)
  then show ?case using rxm_Star_ends [of r] by simp
next
  case (Opt r)
  then show ?case by (auto simp: ends_iff prod_eq_iff)
qed (auto simp: one_char_set ends_iff prod_eq_iff)

text \<open>An anchored expression tests the whole subject.\<close>

lemma rx_test_anchored:
  assumes "no_assert r"
  shows "rx_test (Seq Bol (Seq r Eol)) s \<longleftrightarrow> rx_lang r s"
proof -
  have "rx_test (Seq Bol (Seq r Eol)) s \<longleftrightarrow> (\<exists>q' \<in> set (rxm r ([], s)). snd q' = [])"
    by (auto simp: rx_test_iff split: if_splits)
  also have "\<dots> \<longleftrightarrow> rx_lang r s"
    using assms by (auto simp: rxm_lang ends_def)
  finally show ?thesis .
qed

lemma rx_lang_str [simp]: "rx_lang (rx_str s) w \<longleftrightarrow> w = s"
  by (induction s arbitrary: w) auto

lemma no_assert_str [simp]: "no_assert (rx_str s)"
  by (induction s) auto

lemma no_assert_strI [simp]: "no_assert (rx_strI s)"
  by (induction s) auto

lemma no_assert_seq [simp]: "no_assert (rx_seq rs) \<longleftrightarrow> (\<forall>r \<in> set rs. no_assert r)"
  by (induction rs) auto

text \<open>An unanchored test of a literal is a substring test.\<close>

lemma rx_test_lang:
  assumes "no_assert r"
  shows "rx_test r s \<longleftrightarrow> (\<exists>a w b. s = a @ w @ b \<and> rx_lang r w)"
proof -
  have "rxm r q \<noteq> [] \<longleftrightarrow> (\<exists>w t. snd q = w @ t \<and> rx_lang r w)" for q
  proof -
    have "rxm r q \<noteq> [] \<longleftrightarrow> (\<exists>q'. q' \<in> set (rxm r q))" by (cases "rxm r q") auto
    also have "\<dots> \<longleftrightarrow> (\<exists>w t. snd q = w @ t \<and> rx_lang r w)"
      using assms by (auto simp: rxm_lang ends_iff)
    finally show ?thesis .
  qed
  then show ?thesis by (auto simp: rx_test_iff)
qed

lemma rx_test_str: "rx_test (rx_str p) s \<longleftrightarrow> includesStr s p"
  by (auto simp: rx_test_lang includesStr_iff)

lemma seq_char_lang [simp]:
  "(\<exists>u v. w = u @ v \<and> (\<exists>d. u = [d] \<and> P d) \<and> Q v) \<longleftrightarrow> (\<exists>c r. w = c # r \<and> P c \<and> Q r)"
proof
  assume "\<exists>c r. w = c # r \<and> P c \<and> Q r"
  then obtain c r where "w = [c] @ r" "P c" "Q r" by auto
  then show "\<exists>u v. w = u @ v \<and> (\<exists>d. u = [d] \<and> P d) \<and> Q v" by blast
qed auto

lemma rx_lang_SeqI: "rx_lang a u \<Longrightarrow> rx_lang b v \<Longrightarrow> rx_lang (Seq a b) (u @ v)"
  by auto

section \<open>Which characters a match can hold, and what a search reports\<close>

fun rx_only :: "(char \<Rightarrow> bool) \<Rightarrow> rx \<Rightarrow> bool" where
  "rx_only P (Lit c) = P c"
| "rx_only P (LitI c) = (\<forall>d. foldA d = foldA c \<longrightarrow> P d)"
| "rx_only P (Cls neg rs) = (\<forall>d. in_cls neg rs d \<longrightarrow> P d)"
| "rx_only P (Seq a b) = (rx_only P a \<and> rx_only P b)"
| "rx_only P (Alt a b) = (rx_only P a \<and> rx_only P b)"
| "rx_only P (Star r) = rx_only P r"
| "rx_only P (Opt r) = rx_only P r"
| "rx_only P _ = True"

lemma rx_only_lang: "rx_lang r w \<Longrightarrow> rx_only P r \<Longrightarrow> c \<in> set w \<Longrightarrow> P c"
proof (induction r arbitrary: w c)
  case (Star r)
  have "star_of (rx_lang r) w \<Longrightarrow> \<forall>c \<in> set w. P c"
    by (induction rule: star_of.induct) (use Star in auto)
  then show ?case using Star.prems by simp
qed auto

lemma rx_only_str: "rx_only P (rx_str s) \<longleftrightarrow> (\<forall>c \<in> set s. P c)"
  by (induction s) auto

lemma rx_only_strI: "rx_only P (rx_strI s) \<longleftrightarrow> (\<forall>c \<in> set s. \<forall>d. foldA d = foldA c \<longrightarrow> P d)"
  by (induction s) auto

lemma rx_only_rep: "rx_only P r \<Longrightarrow> rx_only P (rx_rep n r)"
  by (induction n) auto

lemma rx_only_upto: "rx_only P r \<Longrightarrow> rx_only P (rx_upto n r)"
  by (induction n) auto

lemma no_assert_rep [simp]: "no_assert r \<Longrightarrow> no_assert (rx_rep n r)"
  by (induction n) auto

lemma no_assert_upto [simp]: "no_assert r \<Longrightarrow> no_assert (rx_upto n r)"
  by (induction n) auto

lemma rx_find_lang:
  assumes "no_assert r" "rx_find r ([], s) = Some (a, b)"
  shows "\<exists>u. s = u @ matched a b @ snd b \<and> rx_lang r (matched a b)"
proof -
  obtain u where u: "s = u @ snd a" "b \<in> set (rxm r a)" using rx_find_Some [OF assms(2)] by auto
  then obtain w where "snd a = w @ snd b" "rx_lang r w" using rxm_lang [OF assms(1)] by (auto simp: ends_iff)
  then show ?thesis using u by (auto simp: matched_def)
qed

lemma foldA_non_letter: "\<not> (65 \<le> (of_char c :: nat) \<and> of_char c \<le> (90 :: nat)) \<Longrightarrow>
    \<not> (97 \<le> (of_char c :: nat) \<and> of_char c \<le> (122 :: nat)) \<Longrightarrow> foldA d = foldA c \<Longrightarrow> d = c"
  by (auto simp: foldA_def Let_def split: if_splits)

lemma matchAll_nonempty: "rx_test p s \<Longrightarrow> rx_matchAll p s \<noteq> []"
  by (auto simp: rx_test_def rx_matchAll_def rx_matches.simps [of p "([], s)"] split: option.splits prod.splits)

lemma star_cls: "star_of (\<lambda>w. \<exists>d. w = [d] \<and> P d) w \<longleftrightarrow> (\<forall>c \<in> set w. P c)"
proof
  show "star_of (\<lambda>w. \<exists>d. w = [d] \<and> P d) w \<Longrightarrow> \<forall>c \<in> set w. P c"
    by (induction rule: star_of.induct) auto
next
  show "\<forall>c \<in> set w. P c \<Longrightarrow> star_of (\<lambda>w. \<exists>d. w = [d] \<and> P d) w"
  proof (induction w)
    case Nil
    then show ?case by (simp add: star_nil)
  next
    case (Cons c w)
    then show ?case using star_app [of "\<lambda>w. \<exists>d. w = [d] \<and> P d" "[c]" w] by simp
  qed
qed

end
