(* ===== verification/Glob.thy ===== *)
theory Glob
  imports Regex
begin

text \<open>
  Glob patterns (\<open>core/src/glob.ts\<close>, and \<open>patternToRegExp\<close> of \<open>runner/src/tools.ts\<close>).
  The code turns a pattern into the source text of a regular expression by escaping and
  five textual replacements, and hands the text to \<open>new RegExp\<close>; the model does the same:
  the passes are string functions, \<open>parse_re\<close> reads the fragment of regular-expression
  syntax the passes can produce (\<open>None\<close> is a SyntaxError), and \<open>rx_test\<close> runs it.
  The main result is that for patterns without a question mark and without the markers'
  own text the compiled expression decides the documented meaning of globs on every path
  without a line break, and that a line break escapes a double star.
\<close>

section \<open>The textual passes\<close>

definition sect :: char where "sect = CHR 0xA7"

definition globMeta :: "char \<Rightarrow> bool" where
  "globMeta c = (c \<in> set (CHR 0x5C # ''.+^${}()|[]''))"

definition escapeC :: "char \<Rightarrow> string" where
  "escapeC c = (if globMeta c then [CHR 0x5C, c] else [c])"

definition escapeMeta :: "string \<Rightarrow> string" where
  "escapeMeta s = concat (map escapeC s)"

text \<open>\<open>s.replace(/literal/g, rep)\<close>.\<close>

function replaceStr :: "string \<Rightarrow> string \<Rightarrow> string \<Rightarrow> string" where
  "replaceStr pat rep s =
     (case s of
        [] \<Rightarrow> []
      | c # s' \<Rightarrow> if pat \<noteq> [] \<and> startsWith s pat then rep @ replaceStr pat rep (drop (length pat) s)
                  else c # replaceStr pat rep s')"
  by pat_completeness auto
termination
  by (relation "measure (\<lambda>(pat, rep, s). length s)") auto

declare replaceStr.simps [simp del]

definition M_DIR :: string where "M_DIR = sect # ''GLOBDOUBLEDIR'' @ [sect]"
definition M_DBL :: string where "M_DBL = sect # ''GLOBDOUBLE'' @ [sect]"

definition globSource :: "string \<Rightarrow> string" where
  "globSource pattern =
     (let s = escapeMeta pattern;
          s = replaceStr ''**/'' M_DIR s;
          s = replaceStr ''**'' M_DBL s;
          s = replaceStr ''*'' ''[^/]*'' s;
          s = replaceStr M_DIR ''(?:.*/)?'' s;
          s = replaceStr M_DBL ''.*'' s
      in s)"

section \<open>The fragment of regular-expression syntax\<close>

definition parse_atom :: "string \<Rightarrow> (rx \<times> string) option" where
  "parse_atom s =
     (case s of
        [] \<Rightarrow> None
      | c # r \<Rightarrow>
          if c = CHR 0x5C then (case r of [] \<Rightarrow> None | d # r' \<Rightarrow> Some (Lit d, r'))
          else if startsWith s ''[^/]'' then Some (rx_nonslash, drop 4 s)
          else if startsWith s ''(?:.*/)'' then Some (Seq (Star rx_dot) (Lit (CHR ''/'')), drop 7 s)
          else if c = CHR ''.'' then Some (rx_dot, r)
          else if c = CHR ''*'' \<or> c = CHR ''?'' \<or> globMeta c then None
          else Some (Lit c, r))"

text \<open>A lazy quantifier accepts the same subjects as a greedy one.\<close>

definition skip_lazy :: "string \<Rightarrow> string" where
  "skip_lazy s = (case s of [] \<Rightarrow> [] | c # r \<Rightarrow> if c = CHR ''?'' then r else s)"

definition parse_quant :: "rx \<Rightarrow> string \<Rightarrow> rx \<times> string" where
  "parse_quant a s =
     (case s of
        [] \<Rightarrow> (a, [])
      | c # r \<Rightarrow> if c = CHR ''*'' then (Star a, skip_lazy r)
                 else if c = CHR ''?'' then (Opt a, skip_lazy r)
                 else (a, s))"

function parse_re :: "string \<Rightarrow> rx list option" where
  "parse_re s =
     (if s = [] then Some []
      else case parse_atom s of
             None \<Rightarrow> None
           | Some (a, r) \<Rightarrow>
               (case parse_quant a r of
                  (q, r') \<Rightarrow> if length r' < length s then map_option ((#) q) (parse_re r') else None))"
  by pat_completeness auto
termination
  by (relation "measure length") auto

declare parse_re.simps [simp del]

definition anchored :: "rx list \<Rightarrow> rx" where
  "anchored rs = Seq Bol (Seq (rx_seq rs) Eol)"

definition newRegExpAnchored :: "string \<Rightarrow> rx result" where
  "newRegExpAnchored src =
     (case parse_re src of None \<Rightarrow> Inl ''SyntaxError'' | Some rs \<Rightarrow> Inr (anchored rs))"

definition globToRegExp :: "string \<Rightarrow> rx result" where
  "globToRegExp pattern =
     (if pattern = [] then Inl ''glob pattern must be non-empty''
      else if includesStr pattern [NUL] then Inl ''glob pattern must not contain a NUL byte''
      else newRegExpAnchored (globSource pattern))"

definition isValidGlob :: "string \<Rightarrow> bool" where
  "isValidGlob pattern = (case globToRegExp pattern of Inl _ \<Rightarrow> False | Inr _ \<Rightarrow> True)"

text \<open>
  The second glob compiler, used by the \<open>glob\<close> tool: no case for \<open>**/\<close>, and the marker
  is two section signs.
\<close>

definition patternSource :: "string \<Rightarrow> string" where
  "patternSource pattern =
     (let s = escapeMeta pattern;
          s = replaceStr ''**'' [sect, sect] s;
          s = replaceStr ''*'' ''[^/]*'' s;
          s = replaceStr [sect, sect] ''.*'' s
      in s)"

definition patternToRegExp :: "string \<Rightarrow> rx result" where
  "patternToRegExp pattern = newRegExpAnchored (patternSource pattern)"

section \<open>The reference meaning of a glob\<close>

datatype gtok = GLit char | GStar | GDouble | GDoubleDir

definition no_eol :: "string \<Rightarrow> bool" where
  "no_eol w = (LF \<notin> set w \<and> CR \<notin> set w)"

text \<open>
  \<open>globDoc\<close> is the documented meaning (the header of \<open>core/src/glob.ts\<close>): a star matches
  any characters but a slash, a double star any characters at all, and \<open>**/\<close> also
  zero directories.  \<open>glob_match\<close> is the meaning of the compiled expression, whose
  \<open>.*\<close> stops at a line break: the two differ on paths with a line break only.
\<close>

fun globDoc :: "gtok list \<Rightarrow> string \<Rightarrow> bool" where
  "globDoc [] s = (s = [])"
| "globDoc (GLit c # ts) s = (\<exists>r. s = c # r \<and> globDoc ts r)"
| "globDoc (GStar # ts) s = (\<exists>u v. s = u @ v \<and> CHR ''/'' \<notin> set u \<and> globDoc ts v)"
| "globDoc (GDouble # ts) s = (\<exists>u v. s = u @ v \<and> globDoc ts v)"
| "globDoc (GDoubleDir # ts) s = (globDoc ts s \<or> (\<exists>u v. s = u @ CHR ''/'' # v \<and> globDoc ts v))"

fun glob_match :: "gtok list \<Rightarrow> string \<Rightarrow> bool" where
  "glob_match [] s = (s = [])"
| "glob_match (GLit c # ts) s = (\<exists>r. s = c # r \<and> glob_match ts r)"
| "glob_match (GStar # ts) s = (\<exists>u v. s = u @ v \<and> CHR ''/'' \<notin> set u \<and> glob_match ts v)"
| "glob_match (GDouble # ts) s = (\<exists>u v. s = u @ v \<and> no_eol u \<and> glob_match ts v)"
| "glob_match (GDoubleDir # ts) s =
     (glob_match ts s \<or> (\<exists>u v. s = u @ CHR ''/'' # v \<and> no_eol u \<and> glob_match ts v))"

text \<open>Reading a pattern: a \<open>**/\<close> claims its two stars before a \<open>**\<close> on its left does.\<close>

fun tok1 :: "string \<Rightarrow> gtok list" where
  "tok1 [] = []"
| "tok1 (c # s) =
     (if startsWith (c # s) ''**/'' then GDoubleDir # tok1 (drop 2 s)
      else if c = CHR ''*'' then GStar # tok1 s
      else GLit c # tok1 s)"

fun tok2 :: "gtok list \<Rightarrow> gtok list" where
  "tok2 [] = []"
| "tok2 (t # ts) =
     (if t = GStar \<and> ts \<noteq> [] \<and> hd ts = GStar then GDouble # tok2 (tl ts) else t # tok2 ts)"

definition glob_tokens :: "string \<Rightarrow> gtok list" where
  "glob_tokens p = tok2 (tok1 p)"

definition globMatches :: "string \<Rightarrow> string \<Rightarrow> bool" where
  "globMatches p path = glob_match (glob_tokens p) path"

definition globDocumented :: "string \<Rightarrow> string \<Rightarrow> bool" where
  "globDocumented p path = globDoc (glob_tokens p) path"

lemma glob_match_documented: "glob_match ts s \<Longrightarrow> globDoc ts s"
  by (induction ts s rule: glob_match.induct) auto

lemma glob_documented_match: "globDoc ts s \<Longrightarrow> no_eol s \<Longrightarrow> glob_match ts s"
proof (induction ts s rule: globDoc.induct)
  case (3 ts s)
  then show ?case by (fastforce simp: no_eol_def)
next
  case (4 ts s)
  then show ?case by (fastforce simp: no_eol_def)
next
  case (5 ts s)
  then show ?case by (fastforce simp: no_eol_def)
qed (auto simp: no_eol_def)


section \<open>Replacement of a literal\<close>

lemma replaceStr_Nil [simp]: "replaceStr pat rep [] = []"
  by (simp add: replaceStr.simps)

lemma replaceStr_hit:
  assumes "pat \<noteq> []"
  shows "replaceStr pat rep (pat @ s) = rep @ replaceStr pat rep s"
proof -
  obtain c s' where eq: "pat @ s = c # s'" using assms by (cases "pat @ s") auto
  then have hit: "startsWith (c # s') pat" by (metis startsWith_append)
  have "replaceStr pat rep (c # s') = rep @ replaceStr pat rep (drop (length pat) (c # s'))"
    by (subst replaceStr.simps) (simp add: assms hit)
  then show ?thesis by (simp flip: eq)
qed

lemma replaceStr_miss:
  "\<not> startsWith (c # s) pat \<Longrightarrow> replaceStr pat rep (c # s) = c # replaceStr pat rep s"
  by (subst replaceStr.simps) simp

lemma startsWith_hd: "startsWith (c # s) pat \<Longrightarrow> pat = [] \<or> hd pat = c"
  by (cases pat) auto

lemma replaceStr_skip:
  "pat \<noteq> [] \<Longrightarrow> hd pat \<notin> set u \<Longrightarrow> replaceStr pat rep (u @ s) = u @ replaceStr pat rep s"
proof (induction u)
  case Nil
  then show ?case by simp
next
  case (Cons c u)
  then have "\<not> startsWith (c # u @ s) pat" by (auto dest: startsWith_hd)
  then show ?case using Cons by (simp add: replaceStr_miss)
qed

section \<open>The passes on the tokens of a pattern\<close>

fun render :: "string \<Rightarrow> string \<Rightarrow> string \<Rightarrow> gtok \<Rightarrow> string" where
  "render st db dd (GLit c) = escapeC c"
| "render st db dd GStar = st"
| "render st db dd GDouble = db"
| "render st db dd GDoubleDir = dd"

definition renders :: "string \<Rightarrow> string \<Rightarrow> string \<Rightarrow> gtok list \<Rightarrow> string" where
  "renders st db dd ts = concat (map (render st db dd) ts)"

lemma renders_simps [simp]:
  "renders st db dd [] = []"
  "renders st db dd (t # ts) = render st db dd t @ renders st db dd ts"
  by (simp_all add: renders_def)

definition lits :: "gtok list \<Rightarrow> char set" where
  "lits ts = {c. GLit c \<in> set ts}"

lemma lits_simps [simp]:
  "lits [] = {}"
  "lits (GLit c # ts) = insert c (lits ts)"
  "lits (GStar # ts) = lits ts" "lits (GDouble # ts) = lits ts" "lits (GDoubleDir # ts) = lits ts"
  by (auto simp: lits_def)

lemma set_escapeC: "set (escapeC c) \<subseteq> {c, CHR 0x5C}"
  by (auto simp: escapeC_def)

lemma escapeC_not_Nil [simp]: "escapeC c \<noteq> []"
  by (simp add: escapeC_def)

lemma hd_escapeC: "hd (escapeC c) = c \<or> hd (escapeC c) = CHR 0x5C"
  by (simp add: escapeC_def)

lemma set_tok1: "t \<in> set (tok1 p) \<Longrightarrow> t = GStar \<or> t = GDoubleDir \<or> (\<exists>c \<in> set p. c \<noteq> CHR ''*'' \<and> t = GLit c)"
proof (induction p rule: tok1.induct)
  case (2 c s)
  show ?case
  proof (cases "startsWith (c # s) ''**/''")
    case True
    then show ?thesis using 2 by (auto dest: in_set_dropD)
  next
    case False
    then show ?thesis using 2 by (cases "c = CHR ''*''") auto
  qed
qed simp

lemma lits_tok1: "lits (tok1 p) \<subseteq> set p - {CHR ''*''}"
  by (auto simp: lits_def dest: set_tok1)

lemma no_double_tok1: "GDouble \<notin> set (tok1 p)"
  by (auto dest: set_tok1)

lemma set_tok2: "t \<in> set (tok2 ts) \<Longrightarrow> t \<in> set ts \<or> t = GDouble"
proof (induction ts rule: tok2.induct)
  case (2 t ts)
  then show ?case by (auto split: if_splits dest: list.set_sel(2))
qed simp

lemma lits_tok2: "lits (tok2 ts) \<subseteq> lits ts"
  by (auto simp: lits_def dest: set_tok2)

lemma startsWith_escapeMeta:
  "\<forall>c \<in> set w. \<not> globMeta c \<Longrightarrow> startsWith (escapeMeta s) w \<longleftrightarrow> startsWith s w"
proof (induction s w rule: startsWith.induct)
  case (3 c s p ps)
  have "globMeta (CHR 0x5C)" by (simp add: globMeta_def)
  then have "p \<noteq> CHR 0x5C" using 3 by auto
  then show ?case using 3 by (auto simp: escapeMeta_def escapeC_def)
qed (auto simp: escapeMeta_def)

lemma escapeMeta_simps [simp]:
  "escapeMeta [] = []" "escapeMeta (c # s) = escapeC c @ escapeMeta s"
  by (simp_all add: escapeMeta_def)

lemma escapeC_star [simp]: "escapeC (CHR ''*'') = ''*''" "escapeC (CHR ''/'') = ''/''"
  by (simp_all add: escapeC_def globMeta_def)

lemma pass1: "replaceStr ''**/'' M_DIR (escapeMeta p) = renders ''*'' db M_DIR (tok1 p)"
proof (induction p rule: tok1.induct)
  case 1
  then show ?case by simp
next
  case (2 c s)
  show ?case
  proof (cases "startsWith (c # s) ''**/''")
    case True
    then obtain s' where s': "c = CHR ''*''" "s = CHR ''*'' # CHR ''/'' # s'"
      by (auto simp: startsWith_iff_append)
    have "replaceStr ''**/'' M_DIR (''**/'' @ escapeMeta s') = M_DIR @ replaceStr ''**/'' M_DIR (escapeMeta s')"
      by (rule replaceStr_hit) simp
    then show ?thesis using 2 s' by simp
  next
    case False
    show ?thesis
    proof (cases "c = CHR ''*''")
      case True
      have "\<not> startsWith (escapeMeta (c # s)) ''**/''"
        using False by (subst startsWith_escapeMeta) (simp_all add: globMeta_def)
      then show ?thesis using 2 False True by (simp add: replaceStr_miss)
    next
      case lit: False
      then have "CHR ''*'' \<notin> set (escapeC c)" using set_escapeC [of c] by auto
      then show ?thesis using 2 False lit by (simp add: replaceStr_skip)
    qed
  qed
qed

lemma renders_hd:
  assumes "renders st db dd ts = c # r" "st \<noteq> []" "db \<noteq> []" "dd \<noteq> []"
  shows "c \<in> lits ts \<or> c = CHR 0x5C \<or> c = hd st \<or> c = hd db \<or> c = hd dd"
proof (cases ts)
  case (Cons t ts')
  have "render st db dd t \<noteq> []" using assms by (cases t) auto
  then have "c = hd (render st db dd t)"
    using assms Cons by (metis hd_append2 list.sel(1) renders_simps(2))
  then show ?thesis using Cons hd_escapeC by (cases t) auto
qed (use assms in simp)

lemma pass2:
  "GDouble \<notin> set ts \<Longrightarrow> CHR ''*'' \<notin> lits ts \<Longrightarrow>
     replaceStr ''**'' M_DBL (renders ''*'' db M_DIR ts) = renders ''*'' M_DBL M_DIR (tok2 ts)"
proof (induction ts rule: tok2.induct)
  case 1
  then show ?case by simp
next
  case (2 t ts)
  have lits: "CHR ''*'' \<notin> lits ts" using "2.prems" by (auto simp: lits_def)
  show ?case
  proof (cases "t = GStar \<and> ts \<noteq> [] \<and> hd ts = GStar")
    case True
    then obtain ts' where ts': "ts = GStar # ts'" by (cases ts) auto
    have "replaceStr ''**'' M_DBL (''**'' @ renders ''*'' db M_DIR ts') =
        M_DBL @ replaceStr ''**'' M_DBL (renders ''*'' db M_DIR ts')"
      by (rule replaceStr_hit) simp
    then show ?thesis using 2 True ts' by simp
  next
    case False
    then have IH: "replaceStr ''**'' M_DBL (renders ''*'' db M_DIR ts) = renders ''*'' M_DBL M_DIR (tok2 ts)"
      using 2 lits by simp
    show ?thesis
    proof (cases t)
      case (GLit c)
      then have "CHR ''*'' \<notin> set (escapeC c)" using "2.prems" set_escapeC [of c] by auto
      then show ?thesis using IH GLit by (simp add: replaceStr_skip)
    next
      case GStar
      have "\<not> startsWith (CHR ''*'' # renders ''*'' db M_DIR ts) ''**''"
      proof (cases ts)
        case Nil
        then show ?thesis by simp
      next
        case (Cons u us)
        have u: "u \<noteq> GStar" "u \<noteq> GDouble" "u \<noteq> GLit (CHR ''*'')"
          using Cons False GStar "2.prems" by (auto simp: lits_def)
        have "\<exists>d r. render ''*'' db M_DIR u = d # r \<and> d \<noteq> CHR ''*''"
          using u by (cases u) (auto simp: M_DIR_def sect_def escapeC_def)
        then show ?thesis using Cons by auto
      qed
      then show ?thesis using IH GStar False by (auto simp: replaceStr_miss)
    next
      case GDouble
      then show ?thesis using "2.prems" by simp
    next
      case GDoubleDir
      have "CHR ''*'' \<notin> set M_DIR" by (simp add: M_DIR_def sect_def)
      then show ?thesis using IH GDoubleDir by (simp add: replaceStr_skip)
    qed
  qed
qed


lemma pass3:
  "CHR ''*'' \<notin> lits ts \<Longrightarrow>
     replaceStr ''*'' ''[^/]*'' (renders ''*'' M_DBL M_DIR ts) = renders ''[^/]*'' M_DBL M_DIR ts"
proof (induction ts)
  case Nil
  then show ?case by simp
next
  case (Cons t ts)
  then have IH: "replaceStr ''*'' ''[^/]*'' (renders ''*'' M_DBL M_DIR ts) = renders ''[^/]*'' M_DBL M_DIR ts"
    by (auto simp: lits_def)
  show ?case
  proof (cases "t = GStar")
    case True
    then show ?thesis using IH replaceStr_hit [of "''*''" "''[^/]*''" "renders ''*'' M_DBL M_DIR ts"] by simp
  next
    case False
    have "CHR ''*'' \<notin> set (render ''*'' M_DBL M_DIR t)"
      using False Cons.prems set_escapeC by (cases t) (fastforce simp: M_DBL_def M_DIR_def sect_def)+
    moreover have "render ''[^/]*'' M_DBL M_DIR t = render ''*'' M_DBL M_DIR t"
      using False by (cases t) auto
    ultimately show ?thesis using IH by (simp add: replaceStr_skip)
  qed
qed

text \<open>The text a token stands for in the pattern.\<close>

fun unread :: "gtok \<Rightarrow> string" where
  "unread (GLit c) = [c]"
| "unread GStar = ''*''"
| "unread GDouble = ''**''"
| "unread GDoubleDir = ''**/''"

lemma unread_tok1: "concat (map unread (tok1 p)) = p"
proof (induction p rule: tok1.induct)
  case (2 c s)
  show ?case
  proof (cases "startsWith (c # s) ''**/''")
    case True
    then obtain s' where s': "c = CHR ''*''" "s = CHR ''*'' # CHR ''/'' # s'"
      by (auto simp: startsWith_iff_append)
    then show ?thesis using 2 by simp
  next
    case False
    then show ?thesis using 2 by simp
  qed
qed simp

lemma unread_tok2: "concat (map unread (tok2 ts)) = concat (map unread ts)"
proof (induction ts rule: tok2.induct)
  case (2 t ts)
  then show ?case by (cases ts) auto
qed simp

lemma unread_glob_tokens: "concat (map unread (glob_tokens p)) = p"
  by (simp add: glob_tokens_def unread_tok1 unread_tok2)

text \<open>
  A run of capital letters at the start of the rendered text was a run of literals.
\<close>

definition capital :: "char \<Rightarrow> bool" where
  "capital c = (65 \<le> (of_char c :: nat) \<and> (of_char c :: nat) \<le> 90)"

lemma render_capital:
  assumes "capital c" "startsWith (render ''[^/]*'' M_DBL M_DIR t @ r) (c # w)"
  shows "t = GLit c \<and> render ''[^/]*'' M_DBL M_DIR t = [c]"
proof (cases t)
  case (GLit d)
  have "c \<noteq> CHR 0x5C" using assms(1) by (auto simp: capital_def)
  then show ?thesis using assms GLit by (auto simp: escapeC_def split: if_splits)
qed (use assms in \<open>auto simp: capital_def M_DBL_def M_DIR_def sect_def\<close>)

lemma capitals_literal:
  "\<forall>c \<in> set w. capital c \<Longrightarrow> startsWith (renders ''[^/]*'' M_DBL M_DIR ts) w \<Longrightarrow>
     startsWith (concat (map unread ts)) w"
proof (induction w arbitrary: ts)
  case Nil
  then show ?case by simp
next
  case (Cons c w)
  then obtain t ts' where ts: "ts = t # ts'" by (cases ts) auto
  then have "t = GLit c \<and> render ''[^/]*'' M_DBL M_DIR t = [c]"
    using Cons.prems by (intro render_capital [of c t _ w]) auto
  then show ?case using Cons ts by auto
qed

lemma pass4:
  "sect \<notin> lits ts \<Longrightarrow> \<not> includesStr (concat (map unread ts)) ''GLOBDOUBLE'' \<Longrightarrow>
     replaceStr M_DIR X (renders ''[^/]*'' M_DBL M_DIR ts) = renders ''[^/]*'' M_DBL X ts"
proof (induction ts)
  case Nil
  then show ?case by simp
next
  case (Cons t ts)
  let ?R = "renders ''[^/]*'' M_DBL M_DIR ts"
  have "\<not> includesStr (concat (map unread ts)) ''GLOBDOUBLE''"
    using Cons.prems(2) includesStr_append_left by fastforce
  then have IH: "replaceStr M_DIR X ?R = renders ''[^/]*'' M_DBL X ts"
    using Cons by (auto simp: lits_def)
  have ne: "M_DIR \<noteq> []" by (simp add: M_DIR_def)
  have skip: "sect \<notin> set u \<Longrightarrow> replaceStr M_DIR X (u @ v) = u @ replaceStr M_DIR X v" for u v
    by (rule replaceStr_skip) (simp_all add: M_DIR_def)
  show ?case
  proof (cases t)
    case (GLit c)
    then have "sect \<notin> set (escapeC c)" using Cons.prems set_escapeC [of c] by (auto simp: sect_def)
    then show ?thesis using IH GLit skip by simp
  next
    case GStar
    have "sect \<notin> set ''[^/]*''" by (simp add: sect_def)
    then show ?thesis using IH GStar skip [of "''[^/]*''" ?R] by simp
  next
    case GDouble
    have "\<not> startsWith (concat (map unread ts)) ''GLOBDOUBLE''"
      using Cons.prems GDouble by (auto dest: startsWith_includesStr)
    then have no: "\<not> startsWith ?R ''GLOBDOUBLE''"
      using capitals_literal [of "''GLOBDOUBLE''" ts] by (auto simp: capital_def)
    have "\<not> startsWith (sect # ?R) M_DIR"
    proof
      assume "startsWith (sect # ?R) M_DIR"
      then have "startsWith ?R (''GLOBDOUBLE'' @ ''DIR'' @ [sect])" by (simp add: M_DIR_def)
      then have "startsWith ?R ''GLOBDOUBLE''" by (auto simp: startsWith_iff_append)
      with no show False by simp
    qed
    then have tail: "replaceStr M_DIR X (sect # ?R) = sect # renders ''[^/]*'' M_DBL X ts"
      using IH by (simp add: replaceStr_miss)
    have first: "\<not> startsWith (sect # ''GLOBDOUBLE'' @ sect # ?R) M_DIR"
      by (simp add: M_DIR_def sect_def)
    have "replaceStr M_DIR X (''GLOBDOUBLE'' @ sect # ?R) = ''GLOBDOUBLE'' @ replaceStr M_DIR X (sect # ?R)"
      by (rule skip) (simp add: sect_def)
    then show ?thesis using GDouble first tail replaceStr_miss [OF first, of X]
      by (simp add: M_DBL_def)
  next
    case GDoubleDir
    then show ?thesis using IH replaceStr_hit [OF ne, of X ?R] by simp
  qed
qed

lemma pass5:
  "sect \<notin> lits ts \<Longrightarrow> sect \<notin> set st \<Longrightarrow> sect \<notin> set dd \<Longrightarrow>
     replaceStr M_DBL X (renders st M_DBL dd ts) = renders st X dd ts"
proof (induction ts)
  case Nil
  then show ?case by simp
next
  case (Cons t ts)
  have IH: "replaceStr M_DBL X (renders st M_DBL dd ts) = renders st X dd ts"
    using Cons by (auto simp: lits_def)
  have skip: "sect \<notin> set u \<Longrightarrow> replaceStr M_DBL X (u @ v) = u @ replaceStr M_DBL X v" for u v
    by (rule replaceStr_skip) (simp_all add: M_DBL_def)
  show ?case
  proof (cases "t = GDouble")
    case True
    have "M_DBL \<noteq> []" by (simp add: M_DBL_def)
    then show ?thesis using IH True by (simp add: replaceStr_hit)
  next
    case False
    have "sect \<notin> set (render st M_DBL dd t)"
      using False Cons.prems set_escapeC by (cases t) (fastforce simp: sect_def)+
    moreover have "render st X dd t = render st M_DBL dd t" using False by (cases t) auto
    ultimately show ?thesis using IH skip by simp
  qed
qed

lemma globSource_tokens:
  assumes "sect \<notin> set p" "\<not> includesStr p ''GLOBDOUBLE''"
  shows "globSource p = renders ''[^/]*'' ''.*'' ''(?:.*/)?'' (glob_tokens p)"
proof -
  have lits: "lits (glob_tokens p) \<subseteq> set p - {CHR ''*''}"
    using lits_tok1 [of p] lits_tok2 [of "tok1 p"] by (auto simp: glob_tokens_def)
  have star1: "CHR ''*'' \<notin> lits (tok1 p)" using lits_tok1 [of p] by auto
  have "replaceStr ''**'' M_DBL (replaceStr ''**/'' M_DIR (escapeMeta p)) =
      renders ''*'' M_DBL M_DIR (glob_tokens p)"
    using pass1 [of p M_DBL] pass2 [OF no_double_tok1 star1] by (simp add: glob_tokens_def)
  then have "replaceStr ''*'' ''[^/]*'' (replaceStr ''**'' M_DBL (replaceStr ''**/'' M_DIR (escapeMeta p)))
      = renders ''[^/]*'' M_DBL M_DIR (glob_tokens p)"
    using pass3 lits by auto
  moreover have "replaceStr M_DIR ''(?:.*/)?'' (renders ''[^/]*'' M_DBL M_DIR (glob_tokens p))
      = renders ''[^/]*'' M_DBL ''(?:.*/)?'' (glob_tokens p)"
    using assms lits by (intro pass4) (auto simp: unread_glob_tokens)
  moreover have "replaceStr M_DBL ''.*'' (renders ''[^/]*'' M_DBL ''(?:.*/)?'' (glob_tokens p))
      = renders ''[^/]*'' ''.*'' ''(?:.*/)?'' (glob_tokens p)"
    using assms lits by (intro pass5) (auto simp: sect_def)
  ultimately show ?thesis by (simp add: globSource_def Let_def)
qed


section \<open>Reading the source text back\<close>

fun tokRx :: "gtok \<Rightarrow> rx" where
  "tokRx (GLit c) = Lit c"
| "tokRx GStar = Star rx_nonslash"
| "tokRx GDouble = Star rx_dot"
| "tokRx GDoubleDir = Opt (Seq (Star rx_dot) (Lit (CHR ''/'')))"

abbreviation source :: "gtok list \<Rightarrow> string" where
  "source ts \<equiv> renders ''[^/]*'' ''.*'' ''(?:.*/)?'' ts"

lemma source_hd:
  assumes "source ts = c # r" "CHR ''*'' \<notin> lits ts" "CHR ''?'' \<notin> lits ts"
  shows "c \<noteq> CHR ''*'' \<and> c \<noteq> CHR ''?''"
  using renders_hd [OF assms(1)] assms by auto

lemma skip_lazy_source:
  "CHR ''*'' \<notin> lits ts \<Longrightarrow> CHR ''?'' \<notin> lits ts \<Longrightarrow> skip_lazy (source ts) = source ts"
  using source_hd [of ts] by (auto simp: skip_lazy_def split: list.splits)

lemma quant_source:
  "CHR ''*'' \<notin> lits ts \<Longrightarrow> CHR ''?'' \<notin> lits ts \<Longrightarrow> parse_quant a (source ts) = (a, source ts)"
  using source_hd [of ts] by (auto simp: parse_quant_def split: list.splits)

lemma parse_atom_lit:
  assumes "c \<noteq> CHR ''*''" "c \<noteq> CHR ''?''"
  shows "parse_atom (escapeC c @ r) = Some (Lit c, r)"
proof (cases "globMeta c")
  case True
  then show ?thesis by (simp add: escapeC_def parse_atom_def)
next
  case False
  then have "c \<noteq> CHR 0x5C" "c \<noteq> CHR ''[''" "c \<noteq> CHR ''(''" "c \<noteq> CHR ''.''"
    by (auto simp: globMeta_def)
  then show ?thesis using assms False by (simp add: escapeC_def parse_atom_def)
qed

lemma parse_re_step:
  assumes "parse_atom s = Some (a, r)" "parse_quant a r = (q, r')" "length r' < length s"
  shows "parse_re s = map_option ((#) q) (parse_re r')"
proof -
  have "s \<noteq> []" using assms(3) by auto
  then show ?thesis using assms by (subst parse_re.simps) simp
qed

lemma parse_re_source:
  "CHR ''*'' \<notin> lits ts \<Longrightarrow> CHR ''?'' \<notin> lits ts \<Longrightarrow> parse_re (source ts) = Some (map tokRx ts)"
proof (induction ts)
  case Nil
  then show ?case by (simp add: parse_re.simps)
next
  case (Cons t ts)
  then have IH: "parse_re (source ts) = Some (map tokRx ts)"
    and l: "CHR ''*'' \<notin> lits ts" "CHR ''?'' \<notin> lits ts" by (auto simp: lits_def)
  show ?case
  proof (cases t)
    case (GLit c)
    have "parse_re (escapeC c @ source ts) = map_option ((#) (Lit c)) (parse_re (source ts))"
    proof (rule parse_re_step)
      show "parse_atom (escapeC c @ source ts) = Some (Lit c, source ts)"
        using Cons.prems GLit by (intro parse_atom_lit) auto
      show "parse_quant (Lit c) (source ts) = (Lit c, source ts)" using l by (rule quant_source)
      show "length (source ts) < length (escapeC c @ source ts)" by simp
    qed
    then show ?thesis using IH GLit by simp
  next
    case GStar
    have "parse_re (''[^/]*'' @ source ts) = map_option ((#) (Star rx_nonslash)) (parse_re (source ts))"
      using l by (intro parse_re_step [where a = rx_nonslash and r = "CHR ''*'' # source ts"])
        (auto simp: parse_atom_def parse_quant_def skip_lazy_source)
    then show ?thesis using IH GStar by simp
  next
    case GDouble
    have "parse_re (''.*'' @ source ts) = map_option ((#) (Star rx_dot)) (parse_re (source ts))"
      using l by (intro parse_re_step [where a = rx_dot and r = "CHR ''*'' # source ts"])
        (auto simp: parse_atom_def parse_quant_def skip_lazy_source)
    then show ?thesis using IH GDouble by simp
  next
    case GDoubleDir
    have "parse_re (''(?:.*/)?'' @ source ts) =
        map_option ((#) (tokRx GDoubleDir)) (parse_re (source ts))"
      using l
      by (intro parse_re_step [where a = "Seq (Star rx_dot) (Lit (CHR ''/''))" and r = "CHR ''?'' # source ts"])
        (auto simp: parse_atom_def parse_quant_def skip_lazy_source)
    then show ?thesis using IH GDoubleDir by simp
  qed
qed

lemma char_codes:
  "(of_char c :: nat) = 47 \<longleftrightarrow> c = CHR ''/''"
  "(of_char c :: nat) = 10 \<longleftrightarrow> c = LF"
  "(of_char c :: nat) = 13 \<longleftrightarrow> c = CR"
  using of_char_eq_iff [of c "CHR ''/''", where 'a = nat] of_char_eq_iff [of c LF, where 'a = nat]
    of_char_eq_iff [of c CR, where 'a = nat] by simp_all

lemma between_eq: "(n \<le> m \<and> m \<le> n) \<longleftrightarrow> m = (n :: nat)"
  by auto

lemma star_nonslash [simp]: "rx_lang (Star rx_nonslash) w \<longleftrightarrow> CHR ''/'' \<notin> set w"
  unfolding rx_nonslash_def rx_lang.simps star_cls in_cls_def
  by (auto simp: between_eq char_codes)

lemma star_dot [simp]: "rx_lang (Star rx_dot) w \<longleftrightarrow> no_eol w"
  unfolding rx_dot_def rx_lang.simps star_cls no_eol_def in_cls_def
  by (auto simp: between_eq char_codes)

lemma tokRx_lang: "rx_lang (rx_seq (map tokRx ts)) s \<longleftrightarrow> glob_match ts s"
proof (induction ts s rule: glob_match.induct)
  case (5 ts s)
  have "rx_lang (rx_seq (map tokRx (GDoubleDir # ts))) s \<longleftrightarrow>
      rx_lang (rx_seq (map tokRx ts)) s \<or>
      (\<exists>u v. s = u @ CHR ''/'' # v \<and> no_eol u \<and> rx_lang (rx_seq (map tokRx ts)) v)"
    unfolding list.map tokRx.simps rx_seq.simps rx_lang.simps(5) rx_lang.simps(8) star_dot rx_lang.simps(2)
    by (auto, metis append.assoc append_Cons append_Nil)
  then show ?case using 5 by auto
qed (auto simp del: rx_lang.simps(7))

lemma no_assert_tokRx [simp]: "no_assert (tokRx t)"
  by (cases t) (auto simp: rx_dot_def rx_nonslash_def)

lemma globToRegExp_tokens:
  assumes "p \<noteq> []" "NUL \<notin> set p" "CHR ''?'' \<notin> set p" "sect \<notin> set p" "\<not> includesStr p ''GLOBDOUBLE''"
  shows "globToRegExp p = Inr (anchored (map tokRx (glob_tokens p)))"
proof -
  have lits: "lits (glob_tokens p) \<subseteq> set p - {CHR ''*''}"
    using lits_tok1 [of p] lits_tok2 [of "tok1 p"] by (auto simp: glob_tokens_def)
  then have "parse_re (globSource p) = Some (map tokRx (glob_tokens p))"
    using assms by (subst globSource_tokens) (auto intro!: parse_re_source)
  then show ?thesis using assms by (simp add: globToRegExp_def newRegExpAnchored_def)
qed

section \<open>Correctness of the compiler\<close>

text \<open>
  C1: glob compilation is correct up to line breaks.  For every pattern without the two
  control characters, the question mark and the internal marker text, \<open>globToRegExp\<close>
  succeeds; the compiled expression accepts no path the documented syntax does not describe
  (a star stays inside one path segment, a double star matches any characters, and a double
  star followed by a slash also zero directories), and it accepts every described path that
  has no line break.
\<close>

theorem glob_compile_correct:
  assumes "p \<noteq> []" "NUL \<notin> set p" "CHR ''?'' \<notin> set p" "sect \<notin> set p" "\<not> includesStr p ''GLOBDOUBLE''"
  shows "\<exists>re. globToRegExp p = Inr re \<and>
    (\<forall>path. (rx_test re path \<longrightarrow> globDocumented p path) \<and>
            (no_eol path \<longrightarrow> globDocumented p path \<longrightarrow> rx_test re path))"
proof -
  have "rx_test (anchored (map tokRx (glob_tokens p))) path \<longleftrightarrow> glob_match (glob_tokens p) path" for path
    by (simp add: anchored_def rx_test_anchored tokRx_lang)
  then show ?thesis
    using globToRegExp_tokens [OF assms] glob_match_documented glob_documented_match
    unfolding globDocumented_def by blast
qed

theorem glob_compile_correct_witness:
  "\<exists>re. globToRegExp ''src/**/*.ts'' = Inr re \<and>
    (\<forall>path. (rx_test re path \<longrightarrow> globDocumented ''src/**/*.ts'' path) \<and>
            (no_eol path \<longrightarrow> globDocumented ''src/**/*.ts'' path \<longrightarrow> rx_test re path))"
proof (rule glob_compile_correct)
  show "''src/**/*.ts'' \<noteq> []" by simp
  show "NUL \<notin> set ''src/**/*.ts''" by simp
  show "CHR ''?'' \<notin> set ''src/**/*.ts''" by simp
  show "sect \<notin> set ''src/**/*.ts''" by (simp add: sect_def)
  show "\<not> includesStr ''src/**/*.ts'' ''GLOBDOUBLE''" by simp
qed

text \<open>
  A line break escapes a double star.  The documented \<open>secrets/**\<close> matches every path
  below \<open>secrets\<close>, the compiled expression no path below it whose rest has a line break,
  so a denied or filtered directory does not cover such a file.
\<close>

theorem glob_line_break_escapes:
  "globDocumented ''secrets/**'' (''secrets/a'' @ LF # ''b.key'') \<and>
   (case globToRegExp ''secrets/**'' of
      Inr re \<Rightarrow> rx_test re ''secrets/ab.key'' \<and> \<not> rx_test re (''secrets/a'' @ LF # ''b.key'')
    | Inl _ \<Rightarrow> False)"
proof
  show "globDocumented ''secrets/**'' (''secrets/a'' @ LF # ''b.key'')"
    by (simp add: globDocumented_def glob_tokens_def)
  show "case globToRegExp ''secrets/**'' of
      Inr re \<Rightarrow> rx_test re ''secrets/ab.key'' \<and> \<not> rx_test re (''secrets/a'' @ LF # ''b.key'')
    | Inl _ \<Rightarrow> False"
    by code_simp
qed

text \<open>
  The question mark is not matched literally: it is left unescaped and reaches the regular
  expression as a quantifier of the preceding character, and a pattern that starts with it is
  rejected.
\<close>

theorem glob_question_mark:
  "(case globToRegExp ''ab?'' of Inr re \<Rightarrow> rx_test re ''a'' \<and> rx_test re ''ab'' \<and> \<not> rx_test re ''ab?''
     | Inl _ \<Rightarrow> False) \<and> \<not> isValidGlob ''?''"
  by code_simp

text \<open>
  The two compilers of the repository disagree on a double star followed by a slash: the one
  of \<open>core/src/glob.ts\<close> lets it match zero directories, the one of
  \<open>runner/src/tools.ts\<close> does not.
\<close>

theorem glob_pattern_disagree:
  "(case globToRegExp ''src/**/x.ts'' of Inr re \<Rightarrow> rx_test re ''src/x.ts'' | Inl _ \<Rightarrow> False) \<and>
   (case patternToRegExp ''src/**/x.ts'' of Inr re \<Rightarrow> \<not> rx_test re ''src/x.ts'' | Inl _ \<Rightarrow> False)"
  by code_simp

end
