(* ===== verification/Json.thy ===== *)
theory Json
  imports Prelude
begin

text \<open>
  What the sources use of \<open>JSON.stringify\<close> and of \<open>Date\<close>: quoting of strings, the
  compact form of values, and \<open>toISOString\<close>.  A \<open>Date\<close> is an integer, the
  milliseconds since 1970-01-01T00:00:00Z; the year, month and day are those of the
  ECMAScript definition (\<open>DayFromYear\<close>, \<open>YearFromTime\<close>, \<open>MonthFromTime\<close>).
  The encodings are proved uniquely readable, which is what the audit chain needs.
\<close>

section \<open>Unique readability\<close>

text \<open>
  A code is \<open>upto r\<close> readable when the encoded value and the rest of the text can be told
  apart, given that the rest satisfies \<open>r\<close>.
\<close>

definition readable :: "('a \<Rightarrow> string) \<Rightarrow> (string \<Rightarrow> bool) \<Rightarrow> bool" where
  "readable enc r = (\<forall>a b s t. r s \<longrightarrow> r t \<longrightarrow> enc a @ s = enc b @ t \<longrightarrow> a = b \<and> s = t)"

lemma readableD: "readable enc r \<Longrightarrow> enc a @ s = enc b @ t \<Longrightarrow> r s \<Longrightarrow> r t \<Longrightarrow> a = b \<and> s = t"
  by (auto simp: readable_def)

lemma readableI:
  "(\<And>a b s t. enc a @ s = enc b @ t \<Longrightarrow> r s \<Longrightarrow> r t \<Longrightarrow> a = b \<and> s = t) \<Longrightarrow> readable enc r"
  by (auto simp: readable_def)

section \<open>Quoting\<close>

definition hexDigit :: "nat \<Rightarrow> char" where
  "hexDigit n = (if n < 10 then char_of (48 + n) else char_of (87 + n))"

definition jsonEscape :: "char \<Rightarrow> string" where
  "jsonEscape c =
     (if c = CHR 0x22 then [CHR 0x5C, CHR 0x22]
      else if c = CHR 0x5C then [CHR 0x5C, CHR 0x5C]
      else if c = CHR 0x08 then [CHR 0x5C, CHR ''b'']
      else if c = CHR 0x0C then [CHR 0x5C, CHR ''f'']
      else if c = LF then [CHR 0x5C, CHR ''n'']
      else if c = CR then [CHR 0x5C, CHR ''r'']
      else if c = CHR 0x09 then [CHR 0x5C, CHR ''t'']
      else if (of_char c :: nat) < 32
        then [CHR 0x5C, CHR ''u'', CHR ''0'', CHR ''0'', hexDigit (of_char c div 16), hexDigit (of_char c mod 16)]
      else [c])"

definition jsonQuote :: "string \<Rightarrow> string" where
  "jsonQuote s = CHR 0x22 # concat (map jsonEscape s) @ [CHR 0x22]"

lemma hexDigit_inj: "m < 16 \<Longrightarrow> n < 16 \<Longrightarrow> hexDigit m = hexDigit n \<Longrightarrow> m = n"
proof -
  assume a: "m < 16" "n < 16" "hexDigit m = hexDigit n"
  have "(of_char (hexDigit m) :: nat) = (if m < 10 then 48 + m else 87 + m)" if "m < 16" for m
    using that by (auto simp: hexDigit_def)
  then have "(if m < 10 then 48 + m else 87 + m) = (if n < 10 then 48 + n else 87 + n)"
    using a by metis
  then show "m = n" using a by (auto split: if_splits)
qed

lemma jsonEscape_shape:
  "(jsonEscape c = [c] \<and> c \<noteq> CHR 0x22 \<and> c \<noteq> CHR 0x5C) \<or>
   (\<exists>d. jsonEscape c = [CHR 0x5C, d] \<and> d \<noteq> CHR ''u'') \<or>
   (jsonEscape c = CHR 0x5C # ''u00'' @ [hexDigit (of_char c div 16), hexDigit (of_char c mod 16)] \<and> (of_char c :: nat) < 32)"
  by (auto simp: jsonEscape_def)

lemma jsonEscape_two: "jsonEscape c = [CHR 0x5C, d] \<Longrightarrow> jsonEscape c' = [CHR 0x5C, d] \<Longrightarrow> c = c'"
  by (auto simp: jsonEscape_def split: if_splits)

lemma of_char_div_mod: 
  "(of_char c :: nat) div 16 = of_char d div 16 \<Longrightarrow> (of_char c :: nat) mod 16 = of_char d mod 16 \<Longrightarrow> c = d"
  by (metis div_mult_mod_eq of_char_eq_iff)

lemma jsonEscape_unique:
  assumes "jsonEscape c @ s = jsonEscape d @ t"
  shows "c = d \<and> s = t"
proof -
  consider "jsonEscape c = [c]" "c \<noteq> CHR 0x5C" | e where "jsonEscape c = [CHR 0x5C, e]" "e \<noteq> CHR ''u''" |
    "jsonEscape c = CHR 0x5C # ''u00'' @ [hexDigit (of_char c div 16), hexDigit (of_char c mod 16)]" "(of_char c :: nat) < 32"
    using jsonEscape_shape [of c] by blast
  then show ?thesis
  proof cases
    case 1
    then show ?thesis using jsonEscape_shape [of d] assms by auto
  next
    case (2 e)
    then show ?thesis using jsonEscape_shape [of d] assms jsonEscape_two [of c e d] by auto
  next
    case 3
    then have "jsonEscape d = CHR 0x5C # ''u00'' @ [hexDigit (of_char d div 16), hexDigit (of_char d mod 16)]"
        "(of_char d :: nat) < 32"
      using jsonEscape_shape [of d] assms by auto
    then have "hexDigit (of_char c div 16) = hexDigit (of_char d div 16)"
        "hexDigit (of_char c mod 16) = hexDigit (of_char d mod 16)" "s = t"
      using 3 assms by auto
    then show ?thesis
      using 3 \<open>(of_char d :: nat) < 32\<close> by (auto intro!: of_char_div_mod hexDigit_inj)
  qed
qed

lemma jsonEscape_not_quote: "jsonEscape c @ s \<noteq> CHR 0x22 # t"
  using jsonEscape_shape [of c] by auto

lemma jsonEscapes_unique:
  "concat (map jsonEscape a) @ CHR 0x22 # s = concat (map jsonEscape b) @ CHR 0x22 # t \<Longrightarrow> a = b \<and> s = t"
proof (induction a arbitrary: b)
  case Nil
  then have e: "concat (map jsonEscape b) @ CHR 0x22 # t = CHR 0x22 # s" by simp
  show ?case
  proof (cases b)
    case (Cons y b')
    then have "jsonEscape y @ (concat (map jsonEscape b') @ CHR 0x22 # t) = CHR 0x22 # s"
      using e by simp
    then show ?thesis using jsonEscape_not_quote by blast
  qed (use e in auto)
next
  case (Cons x a)
  show ?case
  proof (cases b)
    case Nil
    then have "jsonEscape x @ (concat (map jsonEscape a) @ CHR 0x22 # s) = CHR 0x22 # t"
      using Cons.prems by simp
    then show ?thesis using jsonEscape_not_quote by blast
  next
    case (Cons y b')
    then have "jsonEscape x @ (concat (map jsonEscape a) @ CHR 0x22 # s) =
        jsonEscape y @ (concat (map jsonEscape b') @ CHR 0x22 # t)"
      using Cons.prems by simp
    then show ?thesis using Cons Cons.IH [of b'] jsonEscape_unique by blast
  qed
qed

lemma jsonQuote_readable: "readable jsonQuote (\<lambda>_. True)"
  by (rule readableI) (auto simp: jsonQuote_def dest: jsonEscapes_unique)

section \<open>Values\<close>

text \<open>The members of an object keep their order; numbers are integers.\<close>

datatype json = JNull | JBool bool | JNum int | JStr string | JArr "json list" | JObj "(string \<times> json) list"

fun stringify :: "json \<Rightarrow> string" where
  "stringify JNull = ''null''"
| "stringify (JBool b) = (if b then ''true'' else ''false'')"
| "stringify (JNum n) = intToString n"
| "stringify (JStr s) = jsonQuote s"
| "stringify (JArr xs) = ''['' @ joinWith '','' (map stringify xs) @ '']''"
| "stringify (JObj ms) = ''{'' @ joinWith '','' (map (\<lambda>m. jsonQuote (fst m) @ '':'' @ stringify (snd m)) ms) @ ''}''"

definition jsonOpt :: "('a \<Rightarrow> json) \<Rightarrow> 'a option \<Rightarrow> json" where
  "jsonOpt f x = (case x of None \<Rightarrow> JNull | Some a \<Rightarrow> f a)"

lemma digits_readable: "isDigit c \<Longrightarrow> c \<noteq> CHR '','' \<and> c \<noteq> CHR ''}'' \<and> c \<noteq> CHR ''-'' \<and> c \<noteq> CHR ''n'' \<and> c \<noteq> CHR '':'' \<and> c \<noteq> CHR ''.'' \<and> c \<noteq> CHR ''T'' \<and> c \<noteq> CHR ''Z'' \<and> c \<noteq> CHR ''+''"
  by (auto simp: isDigit_def)

definition stops :: "string \<Rightarrow> bool" where
  "stops s = (case s of [] \<Rightarrow> True | c # _ \<Rightarrow> \<not> isDigit c)"

lemma all_prefix_unique:
  "\<forall>c \<in> set a. P c \<Longrightarrow> \<forall>c \<in> set b. P c \<Longrightarrow> a @ s = b @ t \<Longrightarrow>
    (case s of [] \<Rightarrow> True | c # _ \<Rightarrow> \<not> P c) \<Longrightarrow> (case t of [] \<Rightarrow> True | c # _ \<Rightarrow> \<not> P c) \<Longrightarrow> a = b \<and> s = t"
proof (induction a arbitrary: b)
  case Nil
  then show ?case by (cases b) auto
next
  case (Cons x a)
  then show ?case by (cases b) (auto split: list.splits)
qed

lemma digitsOf_readable: "readable digitsOf stops"
  by (rule readableI)
    (metis all_prefix_unique digitsOf_digits digitsOf_inject stops_def)

lemma intToString_readable: "readable intToString stops"
proof (rule readableI)
  fix a b s t
  assume e: "intToString a @ s = intToString b @ t" and st: "stops s" "stops t"
  have nm: "digitsOf n @ u \<noteq> CHR ''-'' # v" for n u v
    using digitsOf_not_Nil [of n] digitsOf_digits [of "hd (digitsOf n)" n] digits_readable [of "hd (digitsOf n)"]
    by (cases "digitsOf n") auto
  have d: "nat x = nat y \<and> s = t" if "digitsOf (nat x) @ s = digitsOf (nat y) @ t" for x y
    using readableD [OF digitsOf_readable that st] .
  show "a = b \<and> s = t"
  proof (cases "a < 0"; cases "b < 0")
    assume "a < 0" "b < 0"
    then show ?thesis using e d [of "- a" "- b"] by (auto simp: intToString_def eq_nat_nat_iff)
  next
    assume "a < 0" "\<not> b < 0"
    then show ?thesis using e nm [of "nat b" t] by (simp add: intToString_def) metis
  next
    assume "\<not> a < 0" "b < 0"
    then show ?thesis using e nm [of "nat a" s] by (simp add: intToString_def)
  next
    assume "\<not> a < 0" "\<not> b < 0"
    then show ?thesis using e d [of a b] by (auto simp: intToString_def eq_nat_nat_iff)
  qed
qed

section \<open>Dates\<close>

type_synonym Date = int

definition DayFromYear :: "int \<Rightarrow> int" where
  "DayFromYear y = 365 * (y - 1970) + (y - 1969) div 4 - (y - 1901) div 100 + (y - 1601) div 400"

definition msPerDay :: int where "msPerDay = 86400000"

definition YearFromDay :: "int \<Rightarrow> int" where
  "YearFromDay d =
     (let y = 1970 + 400 * d div 146097
      in if DayFromYear (y + 1) \<le> d then y + 1 else if d < DayFromYear y then y - 1 else y)"

definition InLeapYear :: "int \<Rightarrow> int" where
  "InLeapYear y = (if y mod 4 = 0 \<and> (y mod 100 \<noteq> 0 \<or> y mod 400 = 0) then 1 else 0)"

text \<open>The first day of each month within its year, most recent month first.\<close>

definition monthStarts :: "int \<Rightarrow> (nat \<times> int) list" where
  "monthStarts leap =
     [(12, 334 + leap), (11, 304 + leap), (10, 273 + leap), (9, 243 + leap), (8, 212 + leap), (7, 181 + leap),
      (6, 151 + leap), (5, 120 + leap), (4, 90 + leap), (3, 59 + leap), (2, 31), (1, 0)]"

fun monthDate :: "(nat \<times> int) list \<Rightarrow> int \<Rightarrow> nat \<times> nat" where
  "monthDate [] d = (1, nat (d + 1))"
| "monthDate ((m, s) # ms) d = (if s \<le> d then (m, nat (d - s + 1)) else monthDate ms d)"

definition padStart :: "nat \<Rightarrow> nat \<Rightarrow> string" where
  "padStart w n = (let s = digitsOf n in replicate (w - length s) (CHR ''0'') @ s)"

definition isoYear :: "int \<Rightarrow> string" where
  "isoYear y =
     (if 0 \<le> y \<and> y \<le> 9999 then padStart 4 (nat y)
      else if y < 0 then CHR ''-'' # padStart 6 (nat (- y)) else CHR ''+'' # padStart 6 (nat y))"

definition isoDay :: "int \<Rightarrow> string" where
  "isoDay day =
     (let y = YearFromDay day; (m, d) = monthDate (monthStarts (InLeapYear y)) (day - DayFromYear y)
      in isoYear y @ ''-'' @ padStart 2 m @ ''-'' @ padStart 2 d)"

definition toISOString :: "Date \<Rightarrow> string" where
  "toISOString t =
     (let ms = t mod msPerDay
      in isoDay (t div msPerDay) @ ''T'' @ padStart 2 (nat (ms div 3600000)) @ '':'' @
         padStart 2 (nat (ms div 60000 mod 60)) @ '':'' @ padStart 2 (nat (ms div 1000 mod 60)) @ ''.'' @
         padStart 3 (nat (ms mod 1000)) @ ''Z'')"

text \<open>The year is the one that contains the day.\<close>

lemma div_bounds: "0 < k \<Longrightarrow> k * (x div k) \<le> x \<and> x < k * (x div k) + (k :: int)"
  using mult_div_mod_eq [of k x] pos_mod_bound [of k x] pos_mod_sign [of k x] by linarith

lemma DayFromYear_bounds:
  "146097 * (y - 1970) - 508 \<le> 400 * DayFromYear y" "400 * DayFromYear y \<le> 146097 * (y - 1970) + 592"
  using div_bounds [of 4 "y - 1969"] div_bounds [of 100 "y - 1901"] div_bounds [of 400 "y - 1601"]
  by (simp_all add: DayFromYear_def)

lemma YearFromDay_contains: "DayFromYear (YearFromDay d) \<le> d \<and> d < DayFromYear (YearFromDay d + 1)"
proof -
  define y where "y = 1970 + 400 * d div 146097"
  have est: "146097 * (y - 1970) \<le> 400 * d" "400 * d < 146097 * (y - 1970) + 146097"
    using div_bounds [of 146097 "400 * d"] by (simp_all add: y_def)
  have "d < DayFromYear (y + 2)" using est DayFromYear_bounds(1) [of "y + 2"] by simp
  moreover have "DayFromYear (y - 1) \<le> d" using est DayFromYear_bounds(2) [of "y - 1"] by simp
  ultimately show ?thesis
    unfolding YearFromDay_def y_def [symmetric] Let_def by (auto simp: add.assoc)
qed

lemma monthDate_day:
  "0 \<le> d \<Longrightarrow> (leap = 0 \<or> leap = 1) \<Longrightarrow> monthDate (monthStarts leap) d = (m, k) \<Longrightarrow>
     (\<exists>s. (m, s) \<in> set (monthStarts leap) \<and> d = s + int k - 1)"
  by (auto simp: monthStarts_def split: if_splits)

lemma monthStarts_functional:
  "(m, s) \<in> set (monthStarts l) \<Longrightarrow> (m, t) \<in> set (monthStarts l) \<Longrightarrow> s = t"
  by (auto simp: monthStarts_def)

lemma isDigit_zero [simp]: "isDigit (CHR ''0'')"
  by (simp add: isDigit_def)

lemma padStart_digits: "c \<in> set (padStart w n) \<Longrightarrow> isDigit c"
  by (auto simp: padStart_def Let_def digitsOf_digits)

lemma readDigits_zeros: "readDigits (replicate k (CHR ''0'') @ s) = readDigits s"
  by (induction k) (auto simp: readDigits_def digitVal_def)

lemma padStart_inject: "padStart w m = padStart v n \<Longrightarrow> m = n"
  by (metis padStart_def readDigits_digitsOf readDigits_zeros)

lemma padStart_readable: "readable (padStart w) stops"
  by (rule readableI) (metis all_prefix_unique padStart_digits padStart_inject stops_def)

lemma padStart_not_Nil [simp]: "padStart w n \<noteq> []"
  by (simp add: padStart_def Let_def)

lemma stops_sep [simp]: "stops (CHR ''-'' # s)" "stops (CHR ''T'' # s)" "stops (CHR '':'' # s)" "stops (CHR ''.'' # s)"
    "stops (CHR ''Z'' # s)" "stops (CHR '','' # s)" "stops (CHR ''}'' # s)"
  by (simp_all add: stops_def isDigit_def)

lemma isoYear_readable: "readable isoYear stops"
proof (rule readableI)
  fix a b s t
  assume e: "isoYear a @ s = isoYear b @ t" and st: "stops s" "stops t"
  have sg: "padStart w n @ u \<noteq> c # v" if "\<not> isDigit c" for w n u v c
    using padStart_not_Nil [of w n] padStart_digits [of "hd (padStart w n)" w n] that
    by (cases "padStart w n") auto
  have d: "nat x = nat y \<and> s = t" if "padStart w (nat x) @ s = padStart w (nat y) @ t" for w x y
    using readableD [OF padStart_readable that st] .
  have pm: "\<not> isDigit (CHR ''-'')" "\<not> isDigit (CHR ''+'')" by (simp_all add: isDigit_def)
  consider "0 \<le> a \<and> a \<le> 9999" | "a < 0" | "9999 < a" by linarith
  then show "a = b \<and> s = t"
  proof cases
    case 1
    then have "0 \<le> b \<and> b \<le> 9999"
      using e sg [OF pm(1)] sg [OF pm(2)] by (auto simp: isoYear_def split: if_splits)
    then show ?thesis using 1 e d [of 4 a b] by (auto simp: isoYear_def eq_nat_nat_iff)
  next
    case 2
    then have "b < 0"
      using e sg [OF pm(1), of 4 "nat b" t] by (auto simp: isoYear_def split: if_splits) (metis append_Cons)
    then show ?thesis using 2 e d [of 6 "- a" "- b"] by (auto simp: isoYear_def eq_nat_nat_iff)
  next
    case 3
    then have "9999 < b"
      using e sg [OF pm(2), of 4 "nat b" t] by (auto simp: isoYear_def split: if_splits) (metis append_Cons)
    then show ?thesis using 3 e d [of 6 a b] by (auto simp: isoYear_def eq_nat_nat_iff)
  qed
qed

lemma isoDay_readable: "readable isoDay stops"
proof (rule readableI)
  fix a b s t
  assume e: "isoDay a @ s = isoDay b @ t" and st: "stops s" "stops t"
  define ya yb where y: "ya = YearFromDay a" "yb = YearFromDay b"
  define pa pb where p: "pa = monthDate (monthStarts (InLeapYear ya)) (a - DayFromYear ya)"
    "pb = monthDate (monthStarts (InLeapYear yb)) (b - DayFromYear yb)"
  have e': "isoYear ya @ (''-'' @ padStart 2 (fst pa) @ ''-'' @ padStart 2 (snd pa) @ s) =
      isoYear yb @ (''-'' @ padStart 2 (fst pb) @ ''-'' @ padStart 2 (snd pb) @ t)"
    using e by (simp add: isoDay_def y p Let_def case_prod_unfold)
  have yy: "ya = yb" and r: "padStart 2 (fst pa) @ (''-'' @ padStart 2 (snd pa) @ s) =
      padStart 2 (fst pb) @ (''-'' @ padStart 2 (snd pb) @ t)"
    using readableD [OF isoYear_readable e'] by simp_all
  have m: "fst pa = fst pb" and r': "padStart 2 (snd pa) @ s = padStart 2 (snd pb) @ t"
    using readableD [OF padStart_readable r] by simp_all
  have d: "snd pa = snd pb" and eq: "s = t"
    using readableD [OF padStart_readable r'] st by simp_all
  have l: "InLeapYear ya = 0 \<or> InLeapYear ya = 1" by (simp add: InLeapYear_def)
  have "0 \<le> a - DayFromYear ya" "0 \<le> b - DayFromYear ya"
    using YearFromDay_contains [of a] YearFromDay_contains [of b] y yy by simp_all
  then obtain u v where "(fst pa, u) \<in> set (monthStarts (InLeapYear ya))" "a - DayFromYear ya = u + int (snd pa) - 1"
      "(fst pa, v) \<in> set (monthStarts (InLeapYear ya))" "b - DayFromYear ya = v + int (snd pa) - 1"
    using monthDate_day [OF _ l] m d p yy by (metis prod.collapse)
  then have "a = b" using monthStarts_functional by fastforce
  then show "a = b \<and> s = t" using eq by simp
qed

lemma ms_of_day:
  "(t :: int) = 86400000 * (t div 86400000) + 3600000 * (t mod 86400000 div 3600000) +
     60000 * (t mod 86400000 div 60000 mod 60) + 1000 * (t mod 86400000 div 1000 mod 60) +
     t mod 86400000 mod 1000"
proof -
  define m where "m = t mod 86400000"
  have "m div 60000 = m div 1000 div 60" "m div 3600000 = m div 60000 div 60"
    by (simp_all add: div_mult2_eq [symmetric] zdiv_zmult2_eq [symmetric])
  then have "m = 3600000 * (m div 3600000) + 60000 * (m div 60000 mod 60) + 1000 * (m div 1000 mod 60) + m mod 1000"
    using mult_div_mod_eq [of 1000 m] mult_div_mod_eq [of 60 "m div 1000"] mult_div_mod_eq [of 60 "m div 60000"]
    by linarith
  then show ?thesis using mult_div_mod_eq [of 86400000 t] unfolding m_def by linarith
qed

lemma ms_eqI:
  fixes t u :: int
  assumes "t div 86400000 = u div 86400000" "t mod 86400000 div 3600000 = u mod 86400000 div 3600000"
    "t mod 86400000 div 60000 mod 60 = u mod 86400000 div 60000 mod 60"
    "t mod 86400000 div 1000 mod 60 = u mod 86400000 div 1000 mod 60"
    "t mod 86400000 mod 1000 = u mod 86400000 mod 1000"
  shows "t = u"
  by (rule trans [OF ms_of_day trans [OF _ ms_of_day [symmetric]]]) (simp only: assms)

lemma nat_div_eq: "nat (x div k) = nat (y div k) \<Longrightarrow> 0 \<le> x \<Longrightarrow> 0 \<le> y \<Longrightarrow> 0 < k \<Longrightarrow> x div k = (y div k :: int)"
  by (simp add: pos_imp_zdiv_nonneg_iff eq_nat_nat_iff)

lemma nat_mod_eq: "nat (x mod k) = nat (y mod k) \<Longrightarrow> 0 < k \<Longrightarrow> x mod k = (y mod k :: int)"
  by (metis eq_nat_nat_iff pos_mod_sign)

lemma toISOString_readable: "readable toISOString stops"
proof (rule readableI)
  fix a b :: int and s t :: string
  assume e: "toISOString a @ s = toISOString b @ t" and st: "stops s" "stops t"
  let ?f = "\<lambda>x. x mod msPerDay"
  note sep = readableD [OF padStart_readable]
  have e0: "isoDay (a div msPerDay) @ (''T'' @ padStart 2 (nat (?f a div 3600000)) @ '':'' @
         padStart 2 (nat (?f a div 60000 mod 60)) @ '':'' @ padStart 2 (nat (?f a div 1000 mod 60)) @ ''.'' @
         padStart 3 (nat (?f a mod 1000)) @ ''Z'' @ s) = isoDay (b div msPerDay) @ (''T'' @ padStart 2 (nat (?f b div 3600000)) @ '':'' @
         padStart 2 (nat (?f b div 60000 mod 60)) @ '':'' @ padStart 2 (nat (?f b div 1000 mod 60)) @ ''.'' @
         padStart 3 (nat (?f b mod 1000)) @ ''Z'' @ t)"
    using e by (simp add: toISOString_def Let_def)
  have day: "a div msPerDay = b div msPerDay" and e1: "padStart 2 (nat (?f a div 3600000)) @ ('':'' @
         padStart 2 (nat (?f a div 60000 mod 60)) @ '':'' @ padStart 2 (nat (?f a div 1000 mod 60)) @ ''.'' @
         padStart 3 (nat (?f a mod 1000)) @ ''Z'' @ s) = padStart 2 (nat (?f b div 3600000)) @ ('':'' @
         padStart 2 (nat (?f b div 60000 mod 60)) @ '':'' @ padStart 2 (nat (?f b div 1000 mod 60)) @ ''.'' @
         padStart 3 (nat (?f b mod 1000)) @ ''Z'' @ t)"
    using readableD [OF isoDay_readable e0] by (simp_all only: append.simps stops_sep list.inject simp_thms True_implies_equals)
  have h: "nat (?f a div 3600000) = nat (?f b div 3600000)" and
    e2: "padStart 2 (nat (?f a div 60000 mod 60)) @ ('':'' @ padStart 2 (nat (?f a div 1000 mod 60)) @ ''.'' @
         padStart 3 (nat (?f a mod 1000)) @ ''Z'' @ s) =
         padStart 2 (nat (?f b div 60000 mod 60)) @ ('':'' @ padStart 2 (nat (?f b div 1000 mod 60)) @ ''.'' @
         padStart 3 (nat (?f b mod 1000)) @ ''Z'' @ t)"
    using sep [OF e1] by (simp_all only: append.simps stops_sep list.inject simp_thms True_implies_equals)
  have mi: "nat (?f a div 60000 mod 60) = nat (?f b div 60000 mod 60)" and
    e3: "padStart 2 (nat (?f a div 1000 mod 60)) @ (''.'' @ padStart 3 (nat (?f a mod 1000)) @ ''Z'' @ s) =
         padStart 2 (nat (?f b div 1000 mod 60)) @ (''.'' @ padStart 3 (nat (?f b mod 1000)) @ ''Z'' @ t)"
    using sep [OF e2] by (simp_all only: append.simps stops_sep list.inject simp_thms True_implies_equals)
  have se: "nat (?f a div 1000 mod 60) = nat (?f b div 1000 mod 60)" and
    e4: "padStart 3 (nat (?f a mod 1000)) @ (''Z'' @ s) = padStart 3 (nat (?f b mod 1000)) @ (''Z'' @ t)"
    using sep [OF e3] by (simp_all only: append.simps stops_sep list.inject simp_thms True_implies_equals)
  have ml: "nat (?f a mod 1000) = nat (?f b mod 1000)" and eq: "s = t"
    using sep [OF e4] by (simp_all only: append.simps stops_sep list.inject simp_thms True_implies_equals)
  have "0 \<le> ?f a" "0 \<le> ?f b" by (simp_all add: msPerDay_def)
  then have "?f a div 3600000 = ?f b div 3600000" using h by (intro nat_div_eq) simp_all
  moreover have "?f a div 60000 mod 60 = ?f b div 60000 mod 60" by (rule nat_mod_eq [OF mi]) simp
  moreover have "?f a div 1000 mod 60 = ?f b div 1000 mod 60" by (rule nat_mod_eq [OF se]) simp
  moreover have "?f a mod 1000 = ?f b mod 1000" by (rule nat_mod_eq [OF ml]) simp
  ultimately have "a = b" using day unfolding msPerDay_def by - (rule ms_eqI)
  then show "a = b \<and> s = t" using eq by simp
qed

lemma toISOString_inject: "toISOString a = toISOString b \<Longrightarrow> a = b"
  using readableD [OF toISOString_readable, of a "[]" b "[]"] by (simp add: stops_def)

end
