(* ===== verification/AuditLog.thy ===== *)
theory AuditLog
  imports Json
begin

text \<open>
  The hash-chained audit log: \<open>core/src/audit.ts\<close> (payload, hash, verification of a chain
  and of a segment), \<open>db/src/audit-log.ts\<close> (appender and verification over the table),
  \<open>db/src/hmac-chain.ts\<close> and the pruning of \<open>db/src/audit-retention.ts\<close>.  SHA-256 is
  the parameter \<open>sha\<close>, a function from the hashed text to the hex digest.  The table is the
  list of its rows with the next value of the id sequence.  A connection has a role: one that
  bypasses row-level security, or the application role with the tenant its transaction has set;
  the policy \<open>tenant_isolation\<close> decides what the role sees and may write.  An append is a
  transaction of two statements, and other appends may run between them.
\<close>

section \<open>Data\<close>

record AuditFields =
  af_installationId :: "int option"
  af_prId :: "string option"
  af_event :: string
  af_model :: "string option"
  af_inputTokens :: "int option"
  af_outputTokens :: "int option"

record AuditEvent = AuditFields +
  ae_ts :: "Date option"

record AuditRow = AuditFields +
  ar_ts :: Date
  ar_prevHash :: string
  ar_hash :: string

record ChainLink = AuditFields +
  cl_ts :: Date
  cl_prevHash :: "string option"
  cl_hash :: string

record AuditLogRow = ChainLink +
  al_id :: int

record ChainBreak =
  cb_index :: nat
  cb_expected :: string
  cb_actual :: string
  cb_row :: ChainLink

record ChainReport =
  cr_ok :: bool
  cr_breaks :: "ChainBreak list"

section \<open>\<open>core/src/audit.ts\<close>\<close>

definition AUDIT_GENESIS_HASH :: string where
  "AUDIT_GENESIS_HASH = replicate 64 (CHR ''0'')"

definition canonicalPayload :: "'a AuditFields_scheme \<Rightarrow> Date \<Rightarrow> string" where
  "canonicalPayload ev ts =
     stringify (JObj
       [(''ts'', JStr (toISOString ts)),
        (''installationId'', jsonOpt (\<lambda>n. JStr (intToString n)) (af_installationId ev)),
        (''prId'', jsonOpt JStr (af_prId ev)),
        (''event'', JStr (af_event ev)),
        (''model'', jsonOpt JStr (af_model ev)),
        (''inputTokens'', jsonOpt JNum (af_inputTokens ev)),
        (''outputTokens'', jsonOpt JNum (af_outputTokens ev))])"

definition computeAuditHash :: "(string \<Rightarrow> string) \<Rightarrow> string \<Rightarrow> 'a AuditFields_scheme \<Rightarrow> Date \<Rightarrow> string" where
  "computeAuditHash sha prevHash ev ts = sha (prevHash @ canonicalPayload ev ts)"

text \<open>The loop both verifiers share: \<open>prev\<close> starts at the anchor and follows the stored hashes.\<close>

fun chainBreaks :: "(string \<Rightarrow> string) \<Rightarrow> string \<Rightarrow> nat \<Rightarrow> ChainLink list \<Rightarrow> ChainBreak list" where
  "chainBreaks sha prev index [] = []"
| "chainBreaks sha prev index (row # rows) =
     (let expected = computeAuditHash sha prev row (cl_ts row);
          rest = chainBreaks sha (cl_hash row) (Suc index) rows
      in if cl_hash row \<noteq> expected
         then \<lparr>cb_index = index, cb_expected = expected, cb_actual = cl_hash row, cb_row = row\<rparr> # rest
         else rest)"

definition verifyAuditChain :: "(string \<Rightarrow> string) \<Rightarrow> ChainLink list \<Rightarrow> ChainReport" where
  "verifyAuditChain sha rows =
     (let breaks = chainBreaks sha AUDIT_GENESIS_HASH 0 rows
      in \<lparr>cr_ok = (length breaks = 0), cr_breaks = breaks\<rparr>)"

definition verifyAuditChainSegment :: "(string \<Rightarrow> string) \<Rightarrow> ChainLink list \<Rightarrow> ChainReport" where
  "verifyAuditChainSegment sha rows =
     (case rows of
        [] \<Rightarrow> \<lparr>cr_ok = True, cr_breaks = []\<rparr>
      | head # _ \<Rightarrow>
          (let prev = (case cl_prevHash head of None \<Rightarrow> AUDIT_GENESIS_HASH | Some h \<Rightarrow> h);
               breaks = chainBreaks sha prev 0 rows
           in \<lparr>cr_ok = (length breaks = 0), cr_breaks = breaks\<rparr>))"

definition appendAuditRow :: "(string \<Rightarrow> string) \<Rightarrow> string option \<Rightarrow> AuditEvent \<Rightarrow> Date \<Rightarrow> AuditRow" where
  "appendAuditRow sha prevHash ev now =
     (let ts = (case ae_ts ev of None \<Rightarrow> now | Some t \<Rightarrow> t);
          usePrev = (case prevHash of None \<Rightarrow> AUDIT_GENESIS_HASH | Some h \<Rightarrow> h);
          hash = computeAuditHash sha usePrev ev ts
      in AuditFields.extend (AuditFields.truncate ev) \<lparr>ar_ts = ts, ar_prevHash = usePrev, ar_hash = hash\<rparr>)"

section \<open>The table: \<open>db/src/audit-log.ts\<close>, \<open>db/src/hmac-chain.ts\<close>, \<open>db/src/audit-retention.ts\<close>\<close>

record AuditTable =
  at_rows :: "AuditLogRow list"
  at_nextId :: int

definition emptyAuditTable :: AuditTable where
  "emptyAuditTable = \<lparr>at_rows = [], at_nextId = 1\<rparr>"

text \<open>\<open>ORDER BY id DESC LIMIT 1\<close>.\<close>

definition lastById :: "AuditLogRow list \<Rightarrow> AuditLogRow option" where
  "lastById rows = (case rev (sort_key al_id rows) of [] \<Rightarrow> None | r # _ \<Rightarrow> Some r)"

definition newAuditLogRow :: "int \<Rightarrow> AuditRow \<Rightarrow> AuditLogRow" where
  "newAuditLogRow i row =
     \<lparr>af_installationId = af_installationId row, af_prId = af_prId row,
      af_event = af_event row, af_model = af_model row,
      af_inputTokens = af_inputTokens row, af_outputTokens = af_outputTokens row,
      cl_ts = ar_ts row, cl_prevHash = Some (ar_prevHash row), cl_hash = ar_hash row,
      al_id = i\<rparr>"

text \<open>
  The role of a connection.  \<open>AppRole t\<close> is \<open>review_agent_app\<close> with \<open>app.current_tenant\<close>
  set to \<open>t\<close>, \<open>AppRole None\<close> without a tenant; the policy is written for that role only.
\<close>

datatype DbRole = BypassRls | AppRole "int option"

text \<open>\<open>USING\<close>: a comparison with an unset tenant, or of a row without installation, is not true.\<close>

definition rowVisible :: "DbRole \<Rightarrow> AuditLogRow \<Rightarrow> bool" where
  "rowVisible role r =
     (case role of BypassRls \<Rightarrow> True
      | AppRole t \<Rightarrow> af_installationId r \<noteq> None \<and> af_installationId r = t)"

text \<open>\<open>WITH CHECK\<close>.\<close>

definition rowAllowed :: "DbRole \<Rightarrow> AuditLogRow \<Rightarrow> bool" where
  "rowAllowed role r =
     (case role of BypassRls \<Rightarrow> True
      | AppRole t \<Rightarrow> af_installationId r = None \<or> af_installationId r = t)"

text \<open>The two statements of the append transaction.  The sequence advances also when the row is refused.\<close>

definition readPrevHash :: "DbRole \<Rightarrow> AuditTable \<Rightarrow> string option" where
  "readPrevHash role db = map_option cl_hash (lastById (filter (rowVisible role) (at_rows db)))"

definition insertAuditRow :: "(string \<Rightarrow> string) \<Rightarrow> DbRole \<Rightarrow> AuditTable \<Rightarrow> string option \<Rightarrow> AuditEvent \<Rightarrow> Date
    \<Rightarrow> AuditRow result \<times> AuditTable" where
  "insertAuditRow sha role db prevHash event now =
     (let row = appendAuditRow sha prevHash event now;
          insertRow = newAuditLogRow (at_nextId db) row;
          db = db\<lparr>at_nextId := at_nextId db + 1\<rparr>
      in if rowAllowed role insertRow then (Inr row, db\<lparr>at_rows := at_rows db @ [insertRow]\<rparr>)
         else (Inl ''new row violates row-level security policy for table audit_log'', db))"

text \<open>An append that no other append overlaps.\<close>

definition auditAppender :: "(string \<Rightarrow> string) \<Rightarrow> DbRole \<Rightarrow> AuditTable \<Rightarrow> AuditEvent \<Rightarrow> Date \<Rightarrow> AuditRow result \<times> AuditTable" where
  "auditAppender sha role db event now = insertAuditRow sha role db (readPrevHash role db) event now"

definition toLink :: "AuditLogRow \<Rightarrow> ChainLink" where
  "toLink r = (ChainLink.truncate r)
     \<lparr>cl_prevHash := Some (case cl_prevHash r of None \<Rightarrow> AUDIT_GENESIS_HASH | Some h \<Rightarrow> h)\<rparr>"

definition selectLinks :: "AuditTable \<Rightarrow> int option \<Rightarrow> ChainLink list" where
  "selectLinks db installationId =
     map toLink (filter (\<lambda>r. case installationId of None \<Rightarrow> True | Some i \<Rightarrow> af_installationId r = Some i)
       (sort_key al_id (at_rows db)))"

record VerificationReport =
  vr_ok :: bool
  vr_rowsChecked :: nat
  vr_breaks :: "ChainBreak list"

definition verifyAuditChainFromDb :: "(string \<Rightarrow> string) \<Rightarrow> AuditTable \<Rightarrow> int option \<Rightarrow> VerificationReport" where
  "verifyAuditChainFromDb sha db installationId =
     (let links = selectLinks db installationId; result = verifyAuditChain sha links
      in \<lparr>vr_ok = cr_ok result, vr_rowsChecked = length links, vr_breaks = cr_breaks result\<rparr>)"

definition verifyAuditChainSegmentFromDb :: "(string \<Rightarrow> string) \<Rightarrow> AuditTable \<Rightarrow> int option \<Rightarrow> VerificationReport" where
  "verifyAuditChainSegmentFromDb sha db installationId =
     (let links = selectLinks db installationId; result = verifyAuditChainSegment sha links
      in \<lparr>vr_ok = cr_ok result, vr_rowsChecked = length links, vr_breaks = cr_breaks result\<rparr>)"

record PruneAuditResult =
  pa_deleted :: nat
  pa_anchorId :: "int option"
  pa_anchorHash :: "string option"

definition pruneAuditLog :: "AuditTable \<Rightarrow> Date \<Rightarrow> PruneAuditResult \<times> AuditTable" where
  "pruneAuditLog db before =
     (case lastById (filter (\<lambda>r. cl_ts r < before) (at_rows db)) of
        None \<Rightarrow> (\<lparr>pa_deleted = 0, pa_anchorId = None, pa_anchorHash = None\<rparr>, db)
      | Some anchor \<Rightarrow>
          (let deletedRows = filter (\<lambda>r. al_id r < al_id anchor) (at_rows db)
           in (\<lparr>pa_deleted = length deletedRows, pa_anchorId = Some (al_id anchor), pa_anchorHash = Some (cl_hash anchor)\<rparr>,
               db\<lparr>at_rows := filter (\<lambda>r. \<not> al_id r < al_id anchor) (at_rows db)\<rparr>)))"

definition loadAuditLogForExport :: "AuditTable \<Rightarrow> int \<Rightarrow> Date \<Rightarrow> Date option \<Rightarrow> AuditLogRow list" where
  "loadAuditLogForExport db installationId since until =
     sort_key al_id (filter (\<lambda>r. af_installationId r = Some installationId \<and> since \<le> cl_ts r \<and>
       (case until of None \<Rightarrow> True | Some u \<Rightarrow> cl_ts r \<le> u)) (at_rows db))"

section \<open>The payload determines the row\<close>

lemma optStr_readable: "readable (\<lambda>x. stringify (jsonOpt JStr x)) (\<lambda>_. True)"
proof (rule readableI)
  fix a b :: "string option" and s t
  assume "stringify (jsonOpt JStr a) @ s = stringify (jsonOpt JStr b) @ t"
  then show "a = b \<and> s = t"
    using readableD [OF jsonQuote_readable, of "the a" s "the b" t]
    by (cases a; cases b) (auto simp: jsonOpt_def jsonQuote_def)
qed

lemma intToString_inject: "intToString a = intToString b \<Longrightarrow> a = b"
  using readableD [OF intToString_readable, of a "[]" b "[]"] by (simp add: stops_def)

lemma optIntStr_readable: "readable (\<lambda>x. stringify (jsonOpt (\<lambda>n. JStr (intToString n)) x)) (\<lambda>_. True)"
proof (rule readableI)
  fix a b :: "int option" and s t
  assume e: "stringify (jsonOpt (\<lambda>n. JStr (intToString n)) a) @ s = stringify (jsonOpt (\<lambda>n. JStr (intToString n)) b) @ t"
  have "stringify (jsonOpt (\<lambda>n. JStr (intToString n)) x) = stringify (jsonOpt JStr (map_option intToString x))" for x
    by (cases x) (auto simp: jsonOpt_def)
  then have "map_option intToString a = map_option intToString b \<and> s = t"
    using e readableD [OF optStr_readable, of "map_option intToString a" s "map_option intToString b" t] by simp
  then show "a = b \<and> s = t" using intToString_inject by (cases a; cases b) auto
qed

lemma intToString_hd: "intToString n @ s \<noteq> CHR ''n'' # t"
proof (cases "n < 0")
  case False
  have "isDigit (hd (digitsOf (nat n)))"
    by (intro digitsOf_digits [of _ "nat n"]) simp
  then show ?thesis using False digits_readable
    by (cases "digitsOf (nat n)") (auto simp: intToString_def)
qed (simp add: intToString_def)

lemma optInt_readable: "readable (\<lambda>x. stringify (jsonOpt JNum x)) stops"
proof (rule readableI)
  fix a b :: "int option" and s t
  assume e: "stringify (jsonOpt JNum a) @ s = stringify (jsonOpt JNum b) @ t" and st: "stops s" "stops t"
  show "a = b \<and> s = t"
  proof (cases a; cases b)
    fix m n assume "a = Some m" "b = Some n"
    then show ?thesis using e st readableD [OF intToString_readable, of m s n t] by (simp add: jsonOpt_def)
  next
    fix n assume "a = None" "b = Some n"
    then show ?thesis using e intToString_hd [of n t] by (simp add: jsonOpt_def) metis
  next
    fix m assume "a = Some m" "b = None"
    then show ?thesis using e intToString_hd [of m s] by (simp add: jsonOpt_def)
  qed (use e in \<open>auto simp: jsonOpt_def\<close>)
qed

lemma canonicalPayload_inject:
  assumes "canonicalPayload ev ts = canonicalPayload ev' ts'"
  shows "ts = ts' \<and> AuditFields.truncate ev = AuditFields.truncate ev'"
proof -
  let ?o = "\<lambda>x. stringify (jsonOpt JStr x)" and ?n = "\<lambda>x. stringify (jsonOpt JNum x)"
    and ?i = "\<lambda>x. stringify (jsonOpt (\<lambda>n. JStr (intToString n)) x)"
  let ?k = "\<lambda>k. CHR '','' # jsonQuote k @ '':''"
  have e0: "jsonQuote (toISOString ts) @ (?k ''installationId'' @ ?i (af_installationId ev) @
       ?k ''prId'' @ ?o (af_prId ev) @ ?k ''event'' @ jsonQuote (af_event ev) @ ?k ''model'' @ ?o (af_model ev) @
       ?k ''inputTokens'' @ ?n (af_inputTokens ev) @ ?k ''outputTokens'' @ ?n (af_outputTokens ev) @ ''}'') =
    jsonQuote (toISOString ts') @ (?k ''installationId'' @ ?i (af_installationId ev') @
       ?k ''prId'' @ ?o (af_prId ev') @ ?k ''event'' @ jsonQuote (af_event ev') @ ?k ''model'' @ ?o (af_model ev') @
       ?k ''inputTokens'' @ ?n (af_inputTokens ev') @ ?k ''outputTokens'' @ ?n (af_outputTokens ev') @ ''}'')"
    using assms unfolding canonicalPayload_def by simp
  have t: "toISOString ts = toISOString ts'" and e1: "?i (af_installationId ev) @
       (?k ''prId'' @ ?o (af_prId ev) @ ?k ''event'' @ jsonQuote (af_event ev) @ ?k ''model'' @ ?o (af_model ev) @
       ?k ''inputTokens'' @ ?n (af_inputTokens ev) @ ?k ''outputTokens'' @ ?n (af_outputTokens ev) @ ''}'') =
      ?i (af_installationId ev') @
       (?k ''prId'' @ ?o (af_prId ev') @ ?k ''event'' @ jsonQuote (af_event ev') @ ?k ''model'' @ ?o (af_model ev') @
       ?k ''inputTokens'' @ ?n (af_inputTokens ev') @ ?k ''outputTokens'' @ ?n (af_outputTokens ev') @ ''}'')"
    using readableD [OF jsonQuote_readable e0] by simp_all
  have i: "af_installationId ev = af_installationId ev'" and e2: "?o (af_prId ev) @ (?k ''event'' @ jsonQuote (af_event ev) @ ?k ''model'' @ ?o (af_model ev) @
       ?k ''inputTokens'' @ ?n (af_inputTokens ev) @ ?k ''outputTokens'' @ ?n (af_outputTokens ev) @ ''}'') =
      ?o (af_prId ev') @ (?k ''event'' @ jsonQuote (af_event ev') @ ?k ''model'' @ ?o (af_model ev') @
       ?k ''inputTokens'' @ ?n (af_inputTokens ev') @ ?k ''outputTokens'' @ ?n (af_outputTokens ev') @ ''}'')"
    using readableD [OF optIntStr_readable e1] by simp_all
  have p: "af_prId ev = af_prId ev'" and e3: "jsonQuote (af_event ev) @ (?k ''model'' @ ?o (af_model ev) @
       ?k ''inputTokens'' @ ?n (af_inputTokens ev) @ ?k ''outputTokens'' @ ?n (af_outputTokens ev) @ ''}'') =
      jsonQuote (af_event ev') @ (?k ''model'' @ ?o (af_model ev') @
       ?k ''inputTokens'' @ ?n (af_inputTokens ev') @ ?k ''outputTokens'' @ ?n (af_outputTokens ev') @ ''}'')"
    using readableD [OF optStr_readable e2] by simp_all
  have v: "af_event ev = af_event ev'" and e4: "?o (af_model ev) @ (?k ''inputTokens'' @ ?n (af_inputTokens ev) @
       ?k ''outputTokens'' @ ?n (af_outputTokens ev) @ ''}'') =
      ?o (af_model ev') @ (?k ''inputTokens'' @ ?n (af_inputTokens ev') @ ?k ''outputTokens'' @ ?n (af_outputTokens ev') @ ''}'')"
    using readableD [OF jsonQuote_readable e3] by simp_all
  have m: "af_model ev = af_model ev'" and e5: "?n (af_inputTokens ev) @ (?k ''outputTokens'' @ ?n (af_outputTokens ev) @ ''}'') =
      ?n (af_inputTokens ev') @ (?k ''outputTokens'' @ ?n (af_outputTokens ev') @ ''}'')"
    using readableD [OF optStr_readable e4] by simp_all
  have "af_inputTokens ev = af_inputTokens ev'" and e6: "?n (af_outputTokens ev) @ ''}'' = ?n (af_outputTokens ev') @ ''}''"
    using readableD [OF optInt_readable e5] by simp_all
  moreover have "af_outputTokens ev = af_outputTokens ev'"
    using readableD [OF optInt_readable e6] by simp
  ultimately show ?thesis
    using t i p v m by (simp add: AuditFields.truncate_def toISOString_inject)
qed

section \<open>Chains\<close>

definition rowPayload :: "ChainLink \<Rightarrow> string" where
  "rowPayload r = canonicalPayload r (cl_ts r)"

text \<open>What an intact chain is, and the texts that were hashed to build it.\<close>

fun chained :: "(string \<Rightarrow> string) \<Rightarrow> string \<Rightarrow> ChainLink list \<Rightarrow> bool" where
  "chained sha prev [] = True"
| "chained sha prev (r # rs) = (cl_hash r = sha (prev @ rowPayload r) \<and> chained sha (cl_hash r) rs)"

fun preimages :: "string \<Rightarrow> ChainLink list \<Rightarrow> string set" where
  "preimages prev [] = {}"
| "preimages prev (r # rs) = insert (prev @ rowPayload r) (preimages (cl_hash r) rs)"

definition endHash :: "string \<Rightarrow> ChainLink list \<Rightarrow> string" where
  "endHash prev rs = (if rs = [] then prev else cl_hash (last rs))"

definition linkContent :: "ChainLink \<Rightarrow> AuditFields \<times> Date \<times> string" where
  "linkContent r = (AuditFields.truncate r, cl_ts r, cl_hash r)"

lemma endHash_simps [simp]:
  "endHash p [] = p" "endHash p (rs @ [r]) = cl_hash r" "endHash p (r # rs) = endHash (cl_hash r) rs"
  by (auto simp: endHash_def)

lemma chainBreaks_Nil: "chainBreaks sha prev i rows = [] \<longleftrightarrow> chained sha prev rows"
  by (induction rows arbitrary: prev i) (auto simp: Let_def computeAuditHash_def rowPayload_def)

lemma verifyAuditChain_ok: "cr_ok (verifyAuditChain sha rows) \<longleftrightarrow> chained sha AUDIT_GENESIS_HASH rows"
  by (simp add: verifyAuditChain_def Let_def chainBreaks_Nil)

lemma verifyAuditChainSegment_ok:
  "cr_ok (verifyAuditChainSegment sha rows) \<longleftrightarrow>
     rows = [] \<or> chained sha (case cl_prevHash (hd rows) of None \<Rightarrow> AUDIT_GENESIS_HASH | Some h \<Rightarrow> h) rows"
  by (cases rows) (simp_all add: verifyAuditChainSegment_def Let_def chainBreaks_Nil del: chainBreaks.simps chained.simps)

lemma chained_append: "chained sha p (xs @ ys) \<longleftrightarrow> chained sha p xs \<and> chained sha (endHash p xs) ys"
  by (induction xs arbitrary: p) auto

lemma preimages_append: "preimages p (xs @ ys) = preimages p xs \<union> preimages (endHash p xs) ys"
  by (induction xs arbitrary: p) auto

lemma endHash_length:
  "chained sha p xs \<Longrightarrow> \<forall>x. length (sha x) = n \<Longrightarrow> length p = n \<Longrightarrow> length (endHash p xs) = n"
  by (induction xs arbitrary: p) auto

lemma endHash_in_image: "chained sha p xs \<Longrightarrow> xs \<noteq> [] \<Longrightarrow> endHash p xs \<in> sha ` preimages p xs"
  by (induction xs rule: rev_induct) (auto simp: chained_append preimages_append)

text \<open>The last hash pins the whole chain down.\<close>

lemma chained_unique:
  assumes "chained sha p xs" "chained sha p ys" "endHash p xs = endHash p ys"
    and "\<forall>x. length (sha x) = length p"
    and "inj_on sha (preimages p xs \<union> preimages p ys)" "p \<notin> sha ` (preimages p xs \<union> preimages p ys)"
  shows "map linkContent xs = map linkContent ys"
  using assms
proof (induction xs arbitrary: ys rule: rev_induct)
  case Nil
  then show ?case using endHash_in_image [of sha p ys] by (cases "ys = []") auto
next
  case (snoc x xs)
  show ?case
  proof (cases ys rule: rev_cases)
    case Nil
    then show ?thesis using snoc.prems endHash_in_image [of sha p "xs @ [x]"] by auto
  next
    case (snoc ys' y)
    let ?a = "endHash p xs @ rowPayload x" and ?b = "endHash p ys' @ rowPayload y"
    have h: "cl_hash x = sha ?a" "cl_hash y = sha ?b" "cl_hash x = cl_hash y"
      and c: "chained sha p xs" "chained sha p ys'"
      using snoc.prems snoc by (simp_all add: chained_append)
    have "?a = ?b"
      using h snoc.prems(5) snoc by (auto simp: preimages_append intro: inj_onD)
    moreover have "length (endHash p xs) = length (endHash p ys')"
      using c snoc.prems(4) by (metis endHash_length)
    ultimately have eq: "endHash p xs = endHash p ys'" "rowPayload x = rowPayload y" by simp_all
    have "map linkContent xs = map linkContent ys'"
    proof (rule snoc.IH [OF c eq(1) snoc.prems(4)])
      show "inj_on sha (preimages p xs \<union> preimages p ys')"
        using snoc.prems(5) snoc by (auto simp: preimages_append intro: inj_on_subset)
      show "p \<notin> sha ` (preimages p xs \<union> preimages p ys')"
        using snoc.prems(6) snoc by (auto simp: preimages_append)
    qed
    moreover have "linkContent x = linkContent y"
      using eq(2) h(3) canonicalPayload_inject unfolding rowPayload_def linkContent_def by fastforce
    ultimately show ?thesis using snoc by simp
  qed
qed

section \<open>Logs that stay verifiable\<close>

text \<open>
  The contract between the writer of a log and its verifier: appending keeps the log
  verifiable; a log that can be pruned stays verifiable under pruning as well.
\<close>

locale verified_log =
  fixes new_log :: 'log
    and append_entry :: "'log \<Rightarrow> 'ev \<Rightarrow> 'log"
    and wf :: "'log \<Rightarrow> bool"
    and verifies :: "'log \<Rightarrow> bool"
  assumes new_wf: "wf new_log" and new_verifies: "verifies new_log"
    and append_wf: "wf l \<Longrightarrow> wf (append_entry l e)"
    and append_verifies: "wf l \<Longrightarrow> verifies l \<Longrightarrow> verifies (append_entry l e)"
begin

lemma appends_verify: "wf l \<Longrightarrow> verifies l \<Longrightarrow> wf (foldl append_entry l es) \<and> verifies (foldl append_entry l es)"
  by (induction es arbitrary: l) (auto simp: append_wf append_verifies)

lemma log_verifies: "verifies (foldl append_entry new_log es)"
  using appends_verify new_wf new_verifies by blast

end

locale prunable_log = verified_log +
  fixes prune :: "'log \<Rightarrow> 't \<Rightarrow> 'log"
  assumes prune_wf: "wf l \<Longrightarrow> wf (prune l t)"
    and prune_verifies: "wf l \<Longrightarrow> verifies l \<Longrightarrow> verifies (prune l t)"
begin

lemma run_verifies:
  "wf l \<Longrightarrow> verifies l \<Longrightarrow>
     wf (foldl (\<lambda>l o'. case o' of Inl e \<Rightarrow> append_entry l e | Inr t \<Rightarrow> prune l t) l ops) \<and>
     verifies (foldl (\<lambda>l o'. case o' of Inl e \<Rightarrow> append_entry l e | Inr t \<Rightarrow> prune l t) l ops)"
  by (induction ops arbitrary: l) (auto simp: append_wf append_verifies prune_wf prune_verifies split: sum.splits)

end

text \<open>The ids of the table grow with the rows.\<close>

definition auditTable_wf :: "AuditTable \<Rightarrow> bool" where
  "auditTable_wf db = (sorted_wrt (<) (map al_id (at_rows db)) \<and> (\<forall>r \<in> set (at_rows db). al_id r < at_nextId db))"

definition segmentOk :: "(string \<Rightarrow> string) \<Rightarrow> AuditLogRow list \<Rightarrow> bool" where
  "segmentOk sha rows = (rows = [] \<or>
     chained sha (case cl_prevHash (hd rows) of None \<Rightarrow> AUDIT_GENESIS_HASH | Some h \<Rightarrow> h) (map toLink rows))"

lemma toLink_sel [simp]:
  "cl_hash (toLink r) = cl_hash r" "cl_ts (toLink r) = cl_ts r" "af_event (toLink r) = af_event r"
  by (simp_all add: toLink_def ChainLink.truncate_def)

lemma wf_sort: "auditTable_wf db \<Longrightarrow> sort_key al_id (at_rows db) = at_rows db"
  by (auto simp: auditTable_wf_def strict_sorted_iff sorted_sort_id intro!: sort_key_id_if_sorted)

lemma wf_filter: "auditTable_wf db \<Longrightarrow> auditTable_wf (db\<lparr>at_rows := filter P (at_rows db)\<rparr>)"
  by (auto simp: auditTable_wf_def sorted_wrt_map intro: sorted_wrt_filter)

lemma lastById_wf: "auditTable_wf db \<Longrightarrow>
    lastById (filter P (at_rows db)) = (case rev (filter P (at_rows db)) of [] \<Rightarrow> None | r # _ \<Rightarrow> Some r)"
  using wf_sort [OF wf_filter, of db P] by (simp add: lastById_def)

lemma lastById_all: "auditTable_wf db \<Longrightarrow>
    lastById (at_rows db) = (case rev (at_rows db) of [] \<Rightarrow> None | r # _ \<Rightarrow> Some r)"
  using lastById_wf [of db "\<lambda>_. True"] by simp

lemma selectLinks_wf: "auditTable_wf db \<Longrightarrow> selectLinks db None = map toLink (at_rows db)"
  by (simp add: selectLinks_def wf_sort)

lemma bypass_all [simp]: "rowVisible BypassRls = (\<lambda>_. True)" "rowAllowed BypassRls = (\<lambda>_. True)"
  by (auto simp: rowVisible_def rowAllowed_def)

lemma insert_wf: "auditTable_wf db \<Longrightarrow> auditTable_wf (snd (insertAuditRow sha role db pv ev now))"
  by (fastforce simp: insertAuditRow_def auditTable_wf_def Let_def sorted_wrt_append newAuditLogRow_def)

lemma appender_wf: "auditTable_wf db \<Longrightarrow> auditTable_wf (snd (auditAppender sha role db ev now))"
  by (simp add: auditAppender_def insert_wf)

lemma appender_bypass:
  "auditAppender sha BypassRls db ev now =
     (let row = appendAuditRow sha (map_option cl_hash (lastById (at_rows db))) ev now
      in (Inr row, db\<lparr>at_rows := at_rows db @ [newAuditLogRow (at_nextId db) row], at_nextId := at_nextId db + 1\<rparr>))"
  by (simp add: auditAppender_def insertAuditRow_def readPrevHash_def Let_def)

lemma tableHash_wf: "auditTable_wf db \<Longrightarrow>
    (case map_option cl_hash (lastById (at_rows db)) of None \<Rightarrow> g | Some h \<Rightarrow> h) = endHash g (map toLink (at_rows db))"
  by (cases "at_rows db" rule: rev_cases) (use lastById_all [of db] in \<open>auto\<close>)

lemma new_row_payload:
  "rowPayload (toLink (newAuditLogRow i (appendAuditRow sha pv ev now))) =
     canonicalPayload ev (ar_ts (appendAuditRow sha pv ev now))"
  by (simp add: rowPayload_def canonicalPayload_def newAuditLogRow_def appendAuditRow_def Let_def
      toLink_def ChainLink.defs AuditFields.defs)

lemma new_row_hash:
  "cl_prevHash (newAuditLogRow i (appendAuditRow sha pv ev now)) = Some (case pv of None \<Rightarrow> AUDIT_GENESIS_HASH | Some h \<Rightarrow> h)"
  "cl_hash (newAuditLogRow i (appendAuditRow sha pv ev now)) =
     sha ((case pv of None \<Rightarrow> AUDIT_GENESIS_HASH | Some h \<Rightarrow> h) @ canonicalPayload ev (ar_ts (appendAuditRow sha pv ev now)))"
  by (simp_all add: newAuditLogRow_def appendAuditRow_def Let_def AuditFields.defs computeAuditHash_def)

text \<open>The row the appender inserts continues the chain of the table.\<close>

lemma appender_row:
  assumes "auditTable_wf db"
  obtains r where "at_rows (snd (auditAppender sha BypassRls db ev now)) = at_rows db @ [r]"
    "cl_prevHash r = Some (endHash AUDIT_GENESIS_HASH (map toLink (at_rows db)))"
    "cl_hash r = sha (endHash AUDIT_GENESIS_HASH (map toLink (at_rows db)) @ rowPayload (toLink r))"
proof
  let ?r = "newAuditLogRow (at_nextId db) (appendAuditRow sha (map_option cl_hash (lastById (at_rows db))) ev now)"
  show "at_rows (snd (auditAppender sha BypassRls db ev now)) = at_rows db @ [?r]"
    by (simp add: appender_bypass Let_def)
  show "cl_prevHash ?r = Some (endHash AUDIT_GENESIS_HASH (map toLink (at_rows db)))"
    by (simp only: new_row_hash tableHash_wf [OF assms])
  show "cl_hash ?r = sha (endHash AUDIT_GENESIS_HASH (map toLink (at_rows db)) @ rowPayload (toLink ?r))"
    by (simp only: new_row_hash new_row_payload tableHash_wf [OF assms])
qed

lemma chained_appender:
  "auditTable_wf db \<Longrightarrow> chained sha AUDIT_GENESIS_HASH (map toLink (at_rows db)) \<Longrightarrow>
     chained sha AUDIT_GENESIS_HASH (map toLink (at_rows (snd (auditAppender sha BypassRls db ev now))))"
  by (rule appender_row [of db sha ev now]) (simp_all add: chained_append)

lemma segment_appender:
  assumes "auditTable_wf db" "segmentOk sha (at_rows db)"
  shows "segmentOk sha (at_rows (snd (auditAppender sha BypassRls db ev now)))"
proof -
  obtain r where r: "at_rows (snd (auditAppender sha BypassRls db ev now)) = at_rows db @ [r]"
    "cl_prevHash r = Some (endHash AUDIT_GENESIS_HASH (map toLink (at_rows db)))"
    "cl_hash r = sha (endHash AUDIT_GENESIS_HASH (map toLink (at_rows db)) @ rowPayload (toLink r))"
    using appender_row [OF assms(1)] .
  show ?thesis
  proof (cases "at_rows db")
    case Nil
    then show ?thesis using r by (simp add: segmentOk_def)
  next
    case (Cons x xs)
    then show ?thesis using r assms(2) by (auto simp: segmentOk_def chained_append)
  qed
qed

text \<open>Pruning keeps a suffix of the table, and a suffix of a segment is a segment.\<close>

lemma pruned_suffix:
  assumes "auditTable_wf db"
  obtains pre where "at_rows db = pre @ at_rows (snd (pruneAuditLog db t))"
proof (cases "lastById (filter (\<lambda>r. cl_ts r < t) (at_rows db))")
  case None
  then show ?thesis using that [of "[]"] by (simp add: pruneAuditLog_def)
next
  case (Some a)
  have "\<exists>pre. rs = pre @ filter (\<lambda>r. \<not> al_id r < al_id a) rs"
    if "sorted_wrt (<) (map al_id rs)" for rs :: "AuditLogRow list"
    using that
  proof (induction rs)
    case (Cons x rs)
    show ?case
    proof (cases "al_id x < al_id a")
      case True
      then show ?thesis using Cons by (auto intro: exI [of _ "x # _"])
    next
      case False
      then have "filter (\<lambda>r. \<not> al_id r < al_id a) (x # rs) = x # rs" using Cons.prems by (fastforce simp: filter_id_conv)
      then show ?thesis by simp
    qed
  qed simp
  then show ?thesis using that assms Some by (auto simp: pruneAuditLog_def auditTable_wf_def Let_def)
qed

text \<open>
  The verifiers never read the previous hash of an inner row, so that a suffix verifies also
  needs every row to name its predecessor's hash; the appender establishes that.
\<close>

fun linked :: "AuditLogRow list \<Rightarrow> bool" where
  "linked (x # y # rs) = (cl_prevHash y = Some (cl_hash x) \<and> linked (y # rs))"
| "linked _ = True"

definition segment_wf :: "AuditTable \<Rightarrow> bool" where
  "segment_wf db = (auditTable_wf db \<and> linked (at_rows db))"

lemma linked_append:
  "linked (xs @ ys) \<longleftrightarrow> linked xs \<and> linked ys \<and>
     (xs = [] \<or> ys = [] \<or> cl_prevHash (hd ys) = Some (cl_hash (last xs)))"
proof (induction xs)
  case (Cons x xs)
  then show ?case by (cases xs; cases ys) auto
qed simp

lemma segment_wf_appender: "segment_wf db \<Longrightarrow> segment_wf (snd (auditAppender sha BypassRls db ev now))"
  unfolding segment_wf_def
  by (rule appender_row [of db sha ev now]) (auto simp: appender_wf linked_append endHash_def last_map)

lemma pruned_wf: "auditTable_wf db \<Longrightarrow> auditTable_wf (snd (pruneAuditLog db t))"
  by (auto simp: pruneAuditLog_def wf_filter Let_def split: option.splits)

lemma segment_wf_prune: "segment_wf db \<Longrightarrow> segment_wf (snd (pruneAuditLog db t))"
  unfolding segment_wf_def by (metis linked_append pruned_wf pruned_suffix)

lemma segmentOk_suffix:
  assumes "linked (pre @ rows)" "segmentOk sha (pre @ rows)"
  shows "segmentOk sha rows"
proof (cases "pre = [] \<or> rows = []")
  case False
  then have "cl_prevHash (hd rows) = Some (cl_hash (last pre))" using assms(1) by (auto simp: linked_append)
  moreover have "endHash p (map toLink pre) = cl_hash (last pre)" for p
    using False by (simp add: endHash_def last_map)
  ultimately show ?thesis using assms(2) False by (simp add: segmentOk_def chained_append)
qed (use assms in \<open>auto simp: segmentOk_def\<close>)

lemma segmentOk_prune: "segment_wf db \<Longrightarrow> segmentOk sha (at_rows db) \<Longrightarrow> segmentOk sha (at_rows (snd (pruneAuditLog db t)))"
  unfolding segment_wf_def by (metis pruned_suffix segmentOk_suffix)

interpretation full_log: verified_log emptyAuditTable "\<lambda>db e. snd (auditAppender sha BypassRls db (fst e) (snd e))"
    auditTable_wf "\<lambda>db. chained sha AUDIT_GENESIS_HASH (map toLink (at_rows db))" for sha
  by unfold_locales (simp_all add: emptyAuditTable_def appender_wf chained_appender auditTable_wf_def [of "\<lparr>at_rows = [], at_nextId = 1\<rparr>"])

interpretation segment_log: prunable_log emptyAuditTable "\<lambda>db e. snd (auditAppender sha BypassRls db (fst e) (snd e))"
    segment_wf "\<lambda>db. segmentOk sha (at_rows db)" "\<lambda>db t. snd (pruneAuditLog db t)" for sha
  by unfold_locales
    (simp_all add: segment_wf_appender segment_wf_prune segmentOk_prune segment_appender emptyAuditTable_def
      segment_wf_def [of "\<lparr>at_rows = [], at_nextId = 1\<rparr>"] auditTable_wf_def [of "\<lparr>at_rows = [], at_nextId = 1\<rparr>"]
      segmentOk_def [of _ "[]"], simp add: segment_wf_def segment_appender)

section \<open>Properties\<close>

text \<open>Histories of appends one after the other, by connections that bypass row-level security.\<close>

definition runAppends :: "(string \<Rightarrow> string) \<Rightarrow> (AuditEvent \<times> Date) list \<Rightarrow> AuditTable" where
  "runAppends sha evs = foldl (\<lambda>db e. snd (auditAppender sha BypassRls db (fst e) (snd e))) emptyAuditTable evs"

definition runOps :: "(string \<Rightarrow> string) \<Rightarrow> ((AuditEvent \<times> Date) + Date) list \<Rightarrow> AuditTable" where
  "runOps sha ops = foldl (\<lambda>db o'. case o' of Inl e \<Rightarrow> snd (auditAppender sha BypassRls db (fst e) (snd e))
     | Inr t \<Rightarrow> snd (pruneAuditLog db t)) emptyAuditTable ops"

lemma runAppends_wf: "auditTable_wf (runAppends sha evs)"
  using full_log.appends_verify [of emptyAuditTable sha evs] full_log.new_wf full_log.new_verifies
  by (simp add: runAppends_def)

lemma runAppends_length: "length (at_rows (runAppends sha evs)) = length evs"
  by (induction evs rule: rev_induct) (simp_all add: runAppends_def emptyAuditTable_def appender_bypass Let_def)

lemma segment_vr_ok:
  "segment_wf db \<Longrightarrow> segmentOk sha (at_rows db) \<Longrightarrow> vr_ok (verifyAuditChainSegmentFromDb sha db None)"
  by (cases "at_rows db")
    (auto simp: verifyAuditChainSegmentFromDb_def Let_def verifyAuditChainSegment_ok segment_wf_def selectLinks_wf segmentOk_def toLink_def)

lemma runOps_segment: "segment_wf (runOps sha ops)" "segmentOk sha (at_rows (runOps sha ops))"
  using segment_log.run_verifies [OF segment_log.new_wf segment_log.new_verifies] by (simp_all add: runOps_def)

lemma audit_log_intact: "vr_ok (verifyAuditChainFromDb sha (runAppends sha evs) None)"
proof -
  have "chained sha AUDIT_GENESIS_HASH (map toLink (at_rows (runAppends sha evs)))"
    using full_log.log_verifies by (simp add: runAppends_def)
  then show ?thesis
    by (simp add: verifyAuditChainFromDb_def Let_def selectLinks_wf runAppends_wf verifyAuditChain_ok)
qed

text \<open>
  A log written by the appender under a role that bypasses the policy verifies: after any
  sequence of appends, whatever the events carry, the verification over the whole table reports success, counts every row and
  lists no break.
\<close>

theorem audit_appends_verify:
  "verifyAuditChainFromDb sha (runAppends sha evs) None = \<lparr>vr_ok = True, vr_rowsChecked = length evs, vr_breaks = []\<rparr>"
  using audit_log_intact [of sha evs]
  by (simp add: verifyAuditChainFromDb_def verifyAuditChain_def Let_def selectLinks_wf runAppends_wf runAppends_length)

section \<open>Appends by many connections\<close>

text \<open>
  The table with the transactions under way.  \<open>BeginAppend k\<close> is the read of connection
  \<open>k\<close>, \<open>InsertAppend k\<close> its insert and commit, \<open>Rollback k\<close> an abort in between;
  a prune runs over all rows, as the command does under a role that bypasses the policy.
\<close>

datatype AuditStep = BeginAppend nat DbRole AuditEvent | InsertAppend nat Date | Rollback nat | PruneBefore Date

record OpenAppend =
  oa_conn :: nat
  oa_role :: DbRole
  oa_event :: AuditEvent
  oa_prevHash :: "string option"

record AuditWorld =
  aw_table :: AuditTable
  aw_open :: "OpenAppend list"

definition closeAppend :: "nat \<Rightarrow> AuditWorld \<Rightarrow> AuditWorld" where
  "closeAppend k w = w\<lparr>aw_open := filter (\<lambda>s. oa_conn s \<noteq> k) (aw_open w)\<rparr>"

fun auditStep :: "(string \<Rightarrow> string) \<Rightarrow> AuditWorld \<Rightarrow> AuditStep \<Rightarrow> AuditWorld" where
  "auditStep sha w (BeginAppend k role event) =
     w\<lparr>aw_open := \<lparr>oa_conn = k, oa_role = role, oa_event = event, oa_prevHash = readPrevHash role (aw_table w)\<rparr> # aw_open w\<rparr>"
| "auditStep sha w (InsertAppend k now) =
     (case find (\<lambda>s. oa_conn s = k) (aw_open w) of
        None \<Rightarrow> w
      | Some s \<Rightarrow>
          closeAppend k (w\<lparr>aw_table := snd (insertAuditRow sha (oa_role s) (aw_table w) (oa_prevHash s) (oa_event s) now)\<rparr>))"
| "auditStep sha w (Rollback k) = closeAppend k w"
| "auditStep sha w (PruneBefore t) = w\<lparr>aw_table := snd (pruneAuditLog (aw_table w) t)\<rparr>"

definition runAudit :: "(string \<Rightarrow> string) \<Rightarrow> AuditStep list \<Rightarrow> AuditWorld" where
  "runAudit sha steps = foldl (auditStep sha) \<lparr>aw_table = emptyAuditTable, aw_open = []\<rparr> steps"

lemma uninterrupted_append:
  "aw_table (foldl (auditStep sha) w [BeginAppend k role ev, InsertAppend k now]) = snd (auditAppender sha role (aw_table w) ev now)"
  by (simp add: auditAppender_def closeAppend_def)

text \<open>
  A schedule is serialised when no two appends that read the same rows are open together:
  connections of different tenants may overlap, two of one tenant (or two that bypass the
  policy) may not.
\<close>

fun serialised :: "(nat \<times> DbRole) list \<Rightarrow> AuditStep list \<Rightarrow> bool" where
  "serialised opens [] = True"
| "serialised opens (BeginAppend k role event # steps) =
     (\<not> list_ex (\<lambda>(j, r). j = k \<or> r = role) opens \<and> serialised ((k, role) # opens) steps)"
| "serialised opens (InsertAppend k now # steps) = serialised (filter (\<lambda>(j, r). j \<noteq> k) opens) steps"
| "serialised opens (Rollback k # steps) = serialised (filter (\<lambda>(j, r). j \<noteq> k) opens) steps"
| "serialised opens (PruneBefore t # steps) = serialised opens steps"

text \<open>
  What is verified: the whole table where every connection bypasses the policy, the rows of
  one installation where every connection has the application role, of any tenant or none.
\<close>

fun deployedFor :: "int option \<Rightarrow> AuditStep \<Rightarrow> bool" where
  "deployedFor view (BeginAppend k role event) = ((view = None) = (role = BypassRls))"
| "deployedFor view _ = True"

definition viewRole :: "int option \<Rightarrow> DbRole" where
  "viewRole view = (case view of None \<Rightarrow> BypassRls | Some i \<Rightarrow> AppRole (Some i))"

abbreviation seenRows :: "int option \<Rightarrow> AuditTable \<Rightarrow> AuditLogRow list" where
  "seenRows view db \<equiv> filter (rowVisible (viewRole view)) (at_rows db)"

lemma rowVisible_view:
  "rowVisible (viewRole view) r = (case view of None \<Rightarrow> True | Some i \<Rightarrow> af_installationId r = Some i)"
  by (auto simp: viewRole_def rowVisible_def split: option.split)

lemma selectLinks_view: "auditTable_wf db \<Longrightarrow> selectLinks db view = map toLink (seenRows view db)"
  by (simp add: selectLinks_def wf_sort rowVisible_view [abs_def])

text \<open>The hash a connection reads is that of the last row it sees.\<close>

lemma readPrevHash_wf:
  assumes "auditTable_wf db"
  shows "readPrevHash role db =
    (if filter (rowVisible role) (at_rows db) = [] then None
     else Some (cl_hash (last (filter (rowVisible role) (at_rows db)))))"
  by (cases "filter (rowVisible role) (at_rows db)" rule: rev_cases)
    (use lastById_wf [OF assms, of "rowVisible role"] in \<open>auto simp: readPrevHash_def\<close>)

definition viewOk :: "(string \<Rightarrow> string) \<Rightarrow> int option \<Rightarrow> AuditTable \<Rightarrow> bool" where
  "viewOk sha view db =
     (auditTable_wf db \<and> linked (seenRows view db) \<and> segmentOk sha (seenRows view db))"

definition fresh :: "int option \<Rightarrow> AuditTable \<Rightarrow> OpenAppend \<Rightarrow> bool" where
  "fresh view db s =
     (oa_role s = viewRole view \<longrightarrow> seenRows view db = [] \<or> oa_prevHash s = Some (cl_hash (last (seenRows view db))))"

definition worldOk :: "(string \<Rightarrow> string) \<Rightarrow> int option \<Rightarrow> AuditWorld \<Rightarrow> bool" where
  "worldOk sha view w =
     (viewOk sha view (aw_table w) \<and> distinct (map oa_role (aw_open w)) \<and>
      (\<forall>s \<in> set (aw_open w). (view = None) = (oa_role s = BypassRls) \<and> fresh view (aw_table w) s))"

text \<open>A segment followed by a row that continues it.\<close>

lemma segment_snoc:
  assumes "linked rows" "segmentOk sha rows" "rows = [] \<or> pv = Some (cl_hash (last rows))"
    and "cl_prevHash r = Some (case pv of None \<Rightarrow> AUDIT_GENESIS_HASH | Some h \<Rightarrow> h)"
    and "cl_hash r = sha ((case pv of None \<Rightarrow> AUDIT_GENESIS_HASH | Some h \<Rightarrow> h) @ rowPayload (toLink r))"
  shows "linked (rows @ [r]) \<and> segmentOk sha (rows @ [r])"
proof (cases "rows = []")
  case True
  then show ?thesis using assms by (simp add: segmentOk_def)
next
  case False
  moreover have "endHash p (map toLink rows) = cl_hash (last rows)" for p
    using False by (simp add: endHash_def last_map)
  ultimately show ?thesis using assms by (auto simp: linked_append segmentOk_def chained_append)
qed

text \<open>An insert adds a row to the view of its own role only, and that row continues the segment.\<close>

lemma insert_view:
  assumes "viewOk sha view db" "(view = None) = (role = BypassRls)"
    and "role = viewRole view \<longrightarrow> seenRows view db = [] \<or> pv = Some (cl_hash (last (seenRows view db)))"
  shows "viewOk sha view (snd (insertAuditRow sha role db pv ev now))"
    and "role \<noteq> viewRole view \<Longrightarrow> seenRows view (snd (insertAuditRow sha role db pv ev now)) = seenRows view db"
proof -
  let ?db = "snd (insertAuditRow sha role db pv ev now)"
  let ?r = "newAuditLogRow (at_nextId db) (appendAuditRow sha pv ev now)"
  have wf: "auditTable_wf ?db" using assms(1) by (simp add: viewOk_def insert_wf)
  have rows: "at_rows ?db = at_rows db @ (if rowAllowed role ?r then [?r] else [])"
    by (simp add: insertAuditRow_def Let_def)
  have other: "seenRows view ?db = seenRows view db" if "role \<noteq> viewRole view"
    using that assms(2) by (auto simp: rows rowVisible_def viewRole_def rowAllowed_def split: option.splits DbRole.splits)
  show "role \<noteq> viewRole view \<Longrightarrow> seenRows view ?db = seenRows view db" by (rule other)
  show "viewOk sha view ?db"
  proof (cases "role = viewRole view \<and> rowAllowed role ?r \<and> rowVisible (viewRole view) ?r")
    case True
    then have "seenRows view ?db = seenRows view db @ [?r]" by (subst rows) auto
    moreover have "linked (seenRows view db @ [?r]) \<and> segmentOk sha (seenRows view db @ [?r])"
    proof (rule segment_snoc)
      show "seenRows view db = [] \<or> pv = Some (cl_hash (last (seenRows view db)))" using True assms(3) by blast
    qed (use assms(1) in \<open>simp_all add: viewOk_def new_row_hash new_row_payload\<close>)
    ultimately show ?thesis using wf by (simp add: viewOk_def)
  next
    case False
    then have "seenRows view ?db = seenRows view db" using other rows by auto
    then show ?thesis using wf assms(1) by (simp add: viewOk_def)
  qed
qed

lemma prune_view:
  assumes "viewOk sha view db"
  obtains pre where "seenRows view db = pre @ seenRows view (snd (pruneAuditLog db t))"
    "viewOk sha view (snd (pruneAuditLog db t))"
proof -
  have wf: "auditTable_wf db" using assms by (simp add: viewOk_def)
  obtain pre where pre: "at_rows db = pre @ at_rows (snd (pruneAuditLog db t))" using pruned_suffix [OF wf] .
  let ?pre = "filter (rowVisible (viewRole view)) pre" and ?post = "seenRows view (snd (pruneAuditLog db t))"
  have split: "seenRows view db = ?pre @ ?post" using arg_cong [OF pre, of "filter (rowVisible (viewRole view))"] by simp
  have "linked (?pre @ ?post)" "segmentOk sha (?pre @ ?post)" using assms by (simp_all only: viewOk_def split)
  then have "viewOk sha view (snd (pruneAuditLog db t))"
    using wf segmentOk_suffix pruned_wf by (auto simp: viewOk_def linked_append)
  then show ?thesis using that split by blast
qed

text \<open>The invariant of the world and the bookkeeping of the schedule.\<close>

definition scheduleOf :: "AuditWorld \<Rightarrow> (nat \<times> DbRole) list" where
  "scheduleOf w = map (\<lambda>s. (oa_conn s, oa_role s)) (aw_open w)"

lemma scheduleOf_close: "scheduleOf (closeAppend k w) = filter (\<lambda>(j, r). j \<noteq> k) (scheduleOf w)"
  by (simp add: scheduleOf_def closeAppend_def filter_map o_def)

lemma worldOk_begin:
  assumes "worldOk sha view w" "deployedFor view (BeginAppend k role ev)"
    and "\<not> list_ex (\<lambda>(j, r). j = k \<or> r = role) (scheduleOf w)"
  shows "worldOk sha view (auditStep sha w (BeginAppend k role ev))"
proof -
  have "role \<notin> oa_role ` set (aw_open w)" using assms(3) by (auto simp: scheduleOf_def list_ex_iff)
  then show ?thesis
    using assms(1,2) by (auto simp: worldOk_def fresh_def viewOk_def readPrevHash_wf)
qed

lemma worldOk_close: "worldOk sha view w \<Longrightarrow> worldOk sha view (closeAppend k w)"
  by (auto simp: worldOk_def closeAppend_def distinct_map_filter)

lemma worldOk_insert:
  assumes "worldOk sha view w"
  shows "worldOk sha view (auditStep sha w (InsertAppend k now))"
proof (cases "find (\<lambda>s. oa_conn s = k) (aw_open w)")
  case (Some s)
  then have s: "s \<in> set (aw_open w)" "oa_conn s = k" by (auto simp: find_Some_iff)
  let ?db = "snd (insertAuditRow sha (oa_role s) (aw_table w) (oa_prevHash s) (oa_event s) now)"
  let ?rest = "filter (\<lambda>s. oa_conn s \<noteq> k) (aw_open w)"
  have view: "viewOk sha view (aw_table w)" "(view = None) = (oa_role s = BypassRls)"
    "oa_role s = viewRole view \<longrightarrow> seenRows view (aw_table w) = [] \<or> oa_prevHash s = Some (cl_hash (last (seenRows view (aw_table w))))"
    using assms s(1) by (auto simp: worldOk_def fresh_def)
  have "fresh view ?db t" if "t \<in> set ?rest" for t
  proof (cases "oa_role t = viewRole view")
    case True
    have "t \<noteq> s" using that s(2) by auto
    then have "oa_role t \<noteq> oa_role s" using assms that s(1) by (auto simp: worldOk_def distinct_map dest: inj_onD)
    then have "seenRows view ?db = seenRows view (aw_table w)" using insert_view(2) [OF view] True by simp
    then show ?thesis using assms that by (auto simp: worldOk_def fresh_def)
  qed (simp add: fresh_def)
  then show ?thesis
    using assms insert_view(1) [OF view] Some by (auto simp: worldOk_def closeAppend_def distinct_map_filter)
qed (use assms in simp)

lemma worldOk_prune:
  assumes "worldOk sha view w"
  shows "worldOk sha view (auditStep sha w (PruneBefore t))"
proof -
  let ?db = "snd (pruneAuditLog (aw_table w) t)"
  have "viewOk sha view (aw_table w)" using assms by (simp add: worldOk_def)
  then obtain pre where pre: "seenRows view (aw_table w) = pre @ seenRows view ?db" "viewOk sha view ?db"
    by (rule prune_view)
  have "fresh view ?db s" if "fresh view (aw_table w) s" for s
    using that pre(1) by (cases "seenRows view ?db = []") (auto simp: fresh_def)
  then show ?thesis using assms pre(2) by (auto simp: worldOk_def)
qed

lemma worldOk_run:
  "worldOk sha view w \<Longrightarrow> serialised (scheduleOf w) steps \<Longrightarrow> list_all (deployedFor view) steps \<Longrightarrow>
     worldOk sha view (foldl (auditStep sha) w steps)"
proof (induction steps arbitrary: w)
  case (Cons step steps)
  have "worldOk sha view (auditStep sha w step) \<and> serialised (scheduleOf (auditStep sha w step)) steps"
  proof (cases step)
    case (BeginAppend k role ev)
    then show ?thesis using Cons.prems worldOk_begin by (auto simp: scheduleOf_def)
  next
    case (InsertAppend k now)
    have "scheduleOf (auditStep sha w step) = filter (\<lambda>(j, r). j \<noteq> k) (scheduleOf w)"
    proof (cases "find (\<lambda>s. oa_conn s = k) (aw_open w)")
      case None
      then have "\<forall>s \<in> set (aw_open w). oa_conn s \<noteq> k" by (simp add: find_None_iff)
      then show ?thesis using InsertAppend None by (auto simp: scheduleOf_def filter_id_conv)
    next
      case (Some s)
      then show ?thesis using InsertAppend by (simp add: scheduleOf_close) (simp add: scheduleOf_def)
    qed
    then show ?thesis using Cons.prems InsertAppend worldOk_insert by simp
  next
    case (Rollback k)
    then show ?thesis using Cons.prems worldOk_close by (simp add: scheduleOf_close)
  next
    case (PruneBefore t)
    then show ?thesis using Cons.prems worldOk_prune by (simp add: scheduleOf_def)
  qed
  then show ?case using Cons by simp
qed simp

lemma view_vr_ok:
  assumes "viewOk sha view db"
  shows "vr_ok (verifyAuditChainSegmentFromDb sha db view)"
  using assms
  by (cases "seenRows view db")
    (auto simp: viewOk_def verifyAuditChainSegmentFromDb_def Let_def verifyAuditChainSegment_ok selectLinks_view segmentOk_def toLink_def)

lemma run_world:
  assumes "serialised [] steps" "list_all (deployedFor view) steps"
  shows "worldOk sha view (runAudit sha steps)"
proof -
  have "worldOk sha view \<lparr>aw_table = emptyAuditTable, aw_open = []\<rparr>"
    by (simp add: worldOk_def viewOk_def auditTable_wf_def emptyAuditTable_def segmentOk_def)
  then show ?thesis unfolding runAudit_def by (rule worldOk_run) (use assms in \<open>simp_all add: scheduleOf_def\<close>)
qed

text \<open>
  C2: the log stays verifiable under appends and prunes.  Take any run of append transactions
  (their two statements apart, rolled-back ones included) and prunes in which no two appends
  that read the same rows are open together.  If every connection bypasses row-level security
  the segment verification of the whole table succeeds; if every connection has the
  application role, the rows of each installation verify as a segment, however the appends of
  the tenants interleave.
\<close>

theorem audit_segment_verifies:
  assumes "serialised [] steps" "list_all (deployedFor view) steps"
  shows "vr_ok (verifyAuditChainSegmentFromDb sha (aw_table (runAudit sha steps)) view)"
  using run_world [OF assms] by (auto simp: worldOk_def intro: view_vr_ok)

definition tenantEvent :: "int \<Rightarrow> AuditEvent" where
  "tenantEvent i = \<lparr>af_installationId = Some i, af_prId = None, af_event = ''review'', af_model = None,
     af_inputTokens = None, af_outputTokens = None, ae_ts = None\<rparr>"

text \<open>Two tenants whose appends overlap, and a prune.\<close>

definition tenantSteps :: "AuditStep list" where
  "tenantSteps = [BeginAppend 0 (AppRole (Some 1)) (tenantEvent 1), BeginAppend 1 (AppRole (Some 2)) (tenantEvent 2),
     InsertAppend 1 10, InsertAppend 0 20, PruneBefore 15, BeginAppend 0 (AppRole (Some 1)) (tenantEvent 1), InsertAppend 0 30]"

theorem audit_segment_verifies_witness:
  "vr_ok (verifyAuditChainSegmentFromDb (\<lambda>x. x) (aw_table (runAudit (\<lambda>x. x) tenantSteps)) (Some 1)) \<and>
   vr_ok (verifyAuditChainSegmentFromDb (\<lambda>x. x) (aw_table (runAudit (\<lambda>x. x) tenantSteps)) (Some 2))"
proof
  have s: "serialised [] tenantSteps" "list_all (deployedFor (Some i)) tenantSteps" for i
    by (simp_all add: tenantSteps_def)
  show "vr_ok (verifyAuditChainSegmentFromDb (\<lambda>x. x) (aw_table (runAudit (\<lambda>x. x) tenantSteps)) (Some 1))"
    by (rule audit_segment_verifies [OF s])
  show "vr_ok (verifyAuditChainSegmentFromDb (\<lambda>x. x) (aw_table (runAudit (\<lambda>x. x) tenantSteps)) (Some 2))"
    by (rule audit_segment_verifies [OF s])
qed

text \<open>
  A connection without a tenant cannot write the event of an installation: under the
  application role every such append is refused and the table keeps its rows.
\<close>

theorem append_without_tenant_refused:
  assumes "af_installationId ev = Some i"
  shows "isl (fst (auditAppender sha (AppRole None) db ev now)) \<and>
    at_rows (snd (auditAppender sha (AppRole None) db ev now)) = at_rows db"
  using assms
  by (simp add: auditAppender_def insertAuditRow_def Let_def rowAllowed_def newAuditLogRow_def appendAuditRow_def AuditFields.defs)

theorem append_without_tenant_refused_witness:
  "isl (fst (auditAppender (\<lambda>x. x) (AppRole None) emptyAuditTable (tenantEvent 7) 0)) \<and>
    at_rows (snd (auditAppender (\<lambda>x. x) (AppRole None) emptyAuditTable (tenantEvent 7) 0)) = at_rows emptyAuditTable"
  by (rule append_without_tenant_refused [of _ 7]) (simp add: tenantEvent_def)

text \<open>
  Two rows that both start at the genesis hash are no chain, for a digest that does not take
  the text of the second behind either hash to one value.
\<close>

lemma two_roots_break:
  assumes "at_rows db = [newAuditLogRow 1 (appendAuditRow sha None e1 n1), newAuditLogRow 2 (appendAuditRow sha None e2 n2)]"
    and "ae_ts e1 = Some t1" "ae_ts e2 = Some t2"
    and "h = sha (AUDIT_GENESIS_HASH @ canonicalPayload e1 t1)" "h \<noteq> AUDIT_GENESIS_HASH"
    and "inj_on sha {AUDIT_GENESIS_HASH @ canonicalPayload e2 t2, h @ canonicalPayload e2 t2}"
  shows "\<not> vr_ok (verifyAuditChainSegmentFromDb sha db None)"
proof -
  let ?r1 = "newAuditLogRow 1 (appendAuditRow sha None e1 n1)" and ?r2 = "newAuditLogRow 2 (appendAuditRow sha None e2 n2)"
  have ts: "ar_ts (appendAuditRow sha p e n) = t" if "ae_ts e = Some t" for p e n t
    using that by (simp add: appendAuditRow_def Let_def AuditFields.defs)
  have ids: "al_id ?r1 = 1" "al_id ?r2 = 2" by (simp_all add: newAuditLogRow_def)
  have h: "cl_hash ?r1 = h" using assms(4) by (simp add: new_row_hash ts [OF assms(2)])
  have "h @ canonicalPayload e2 t2 \<noteq> AUDIT_GENESIS_HASH @ canonicalPayload e2 t2" using assms(5) by simp
  then have "cl_hash ?r2 \<noteq> sha (h @ rowPayload (toLink ?r2))"
    using assms(6) by (auto simp: new_row_hash new_row_payload ts [OF assms(3)] dest: inj_onD)
  then have "\<not> chained sha p (map toLink [?r1, ?r2])" for p using h by simp
  moreover have "selectLinks db None = map toLink [?r1, ?r2]" using ids by (simp add: selectLinks_def assms(1))
  ultimately show ?thesis by (simp add: verifyAuditChainSegmentFromDb_def Let_def verifyAuditChainSegment_ok)
qed

text \<open>
  Two appends that overlap fork the chain.  The transaction does not serialise them: both read
  the same last hash, both inserts succeed, and the verification of the log fails.
\<close>

theorem audit_race_forks:
  assumes "ae_ts e1 = Some t1" "ae_ts e2 = Some t2"
    and "h = sha (AUDIT_GENESIS_HASH @ canonicalPayload e1 t1)" "h \<noteq> AUDIT_GENESIS_HASH"
    and "inj_on sha {AUDIT_GENESIS_HASH @ canonicalPayload e2 t2, h @ canonicalPayload e2 t2}"
  shows "\<not> vr_ok (verifyAuditChainSegmentFromDb sha (aw_table (runAudit sha
    [BeginAppend 0 BypassRls e1, BeginAppend 1 BypassRls e2, InsertAppend 0 n1, InsertAppend 1 n2])) None)"
  by (rule two_roots_break [OF _ assms, of _ n1 n2])
    (simp add: runAudit_def closeAppend_def insertAuditRow_def emptyAuditTable_def Let_def readPrevHash_def lastById_def)

text \<open>
  Row-level security splits the log into one chain per installation, while the command that
  prunes it verifies all rows as one: after two tenants have appended one event each, one
  after the other, the global verification reports a break.
\<close>

theorem tenant_chains_break_global:
  assumes "ae_ts e1 = Some t1" "ae_ts e2 = Some t2"
    and "af_installationId e1 = Some i" "af_installationId e2 = Some j" "i \<noteq> j"
    and "h = sha (AUDIT_GENESIS_HASH @ canonicalPayload e1 t1)" "h \<noteq> AUDIT_GENESIS_HASH"
    and "inj_on sha {AUDIT_GENESIS_HASH @ canonicalPayload e2 t2, h @ canonicalPayload e2 t2}"
  shows "\<not> vr_ok (verifyAuditChainSegmentFromDb sha (aw_table (runAudit sha
    [BeginAppend 0 (AppRole (Some i)) e1, InsertAppend 0 n1, BeginAppend 0 (AppRole (Some j)) e2, InsertAppend 0 n2])) None)"
  by (rule two_roots_break [OF _ assms(1,2,6,7,8), of _ n1 n2])
    (use assms(3,4,5) in \<open>simp add: runAudit_def closeAppend_def insertAuditRow_def emptyAuditTable_def Let_def readPrevHash_def lastById_def
      rowAllowed_def rowVisible_def newAuditLogRow_def appendAuditRow_def AuditFields.defs\<close>)

theorem tenant_chains_break_global_witness:
  "\<not> vr_ok (verifyAuditChainSegmentFromDb (\<lambda>x. x) (aw_table (runAudit (\<lambda>x. x)
    [BeginAppend 0 (AppRole (Some 1)) ((tenantEvent 1)\<lparr>ae_ts := Some 0\<rparr>), InsertAppend 0 0,
     BeginAppend 0 (AppRole (Some 2)) ((tenantEvent 2)\<lparr>ae_ts := Some 0\<rparr>), InsertAppend 0 0])) None)"
  by (rule tenant_chains_break_global [where h = "AUDIT_GENESIS_HASH @ canonicalPayload ((tenantEvent 1)\<lparr>ae_ts := Some 0\<rparr>) 0"])
    (simp_all add: tenantEvent_def canonicalPayload_def)


text \<open>A digest for examples: 63 fixed characters and one that depends on the length of the text.\<close>

definition lengthDigest :: "string \<Rightarrow> string" where
  "lengthDigest x = replicate 63 (CHR ''a'') @ [char_of (32 + length x mod 200)]"

definition sampleRows :: "ChainLink list" where
  "sampleRows =
     [\<lparr>af_installationId = Some 7, af_prId = None, af_event = ''review'', af_model = None, af_inputTokens = Some 10,
        af_outputTokens = None, cl_ts = 0, cl_prevHash = None, cl_hash = replicate 63 (CHR ''a'') @ [CHR 0xE5]\<rparr>,
      \<lparr>af_installationId = None, af_prId = Some ''o/r#1'', af_event = ''posted'', af_model = None, af_inputTokens = None,
        af_outputTokens = None, cl_ts = 1000, cl_prevHash = None, cl_hash = replicate 63 (CHR ''a'') @ [CHR 0x23]\<rparr>]"

lemma sample_lengths:
  "length (AUDIT_GENESIS_HASH @ rowPayload (sampleRows ! 0)) mod 200 = 197 \<and>
   length (cl_hash (sampleRows ! 0) @ rowPayload (sampleRows ! 1)) mod 200 = 3"
  by code_simp

lemma sample_rows: "sampleRows = [sampleRows ! 0, sampleRows ! 1]"
  by (simp add: sampleRows_def)

lemma sample_hashes:
  "cl_hash (sampleRows ! 0) = lengthDigest (AUDIT_GENESIS_HASH @ rowPayload (sampleRows ! 0))"
  "cl_hash (sampleRows ! 1) = lengthDigest (cl_hash (sampleRows ! 0) @ rowPayload (sampleRows ! 1))"
  by (simp_all only: lengthDigest_def sample_lengths) (simp_all add: sampleRows_def char_of_def bit_0)

lemma rowPayload_prevHash [simp]: "rowPayload (r\<lparr>cl_prevHash := p\<rparr>) = rowPayload r"
  by (simp add: rowPayload_def canonicalPayload_def)

lemma sample_verifies: "cr_ok (verifyAuditChain lengthDigest sampleRows)"
  unfolding verifyAuditChain_ok by (subst sample_rows) (simp add: sample_hashes [symmetric, simplified])

lemma sample_forged: "cr_ok (verifyAuditChain lengthDigest (map (\<lambda>r. r\<lparr>cl_prevHash := Some ''x''\<rparr>) sampleRows))"
  unfolding verifyAuditChain_ok by (subst sample_rows) (simp add: sample_hashes [symmetric, simplified])

lemma sample_preimages:
  "preimages AUDIT_GENESIS_HASH (map (\<lambda>r. r\<lparr>cl_prevHash := p\<rparr>) rs) = preimages AUDIT_GENESIS_HASH rs"
proof -
  have "preimages q (map (\<lambda>r. r\<lparr>cl_prevHash := p\<rparr>) rs) = preimages q rs" for q
    by (induction rs arbitrary: q) (simp_all add: rowPayload_def canonicalPayload_def)
  then show ?thesis .
qed

lemma sample_inj: "inj_on lengthDigest (preimages AUDIT_GENESIS_HASH sampleRows)"
proof -
  have "preimages AUDIT_GENESIS_HASH sampleRows =
      {AUDIT_GENESIS_HASH @ rowPayload (sampleRows ! 0), cl_hash (sampleRows ! 0) @ rowPayload (sampleRows ! 1)}"
    by (simp add: sampleRows_def)
  then show ?thesis using sample_lengths by (auto simp: lengthDigest_def)
qed

lemma genesis_not_digest: "AUDIT_GENESIS_HASH \<noteq> lengthDigest x"
proof
  assume "AUDIT_GENESIS_HASH = lengthDigest x"
  then have "AUDIT_GENESIS_HASH ! 0 = lengthDigest x ! 0" by simp
  then show False by (simp add: AUDIT_GENESIS_HASH_def lengthDigest_def nth_append)
qed


text \<open>
  Pruning keeps what it promises.  When timestamps grow with the ids, pruning deletes
  exactly the rows older than the cut-off except the most recent of them, reports how many, and
  names that row as the anchor.
\<close>

theorem prune_keeps_anchor:
  assumes "auditTable_wf db" "sorted (map cl_ts (at_rows db))" "filter (\<lambda>r. cl_ts r < t) (at_rows db) = old @ [a]"
  shows "\<exists>young. at_rows db = old @ a # young \<and> at_rows (snd (pruneAuditLog db t)) = a # young \<and>
     fst (pruneAuditLog db t) =
       \<lparr>pa_deleted = length old, pa_anchorId = Some (al_id a), pa_anchorHash = Some (cl_hash a)\<rparr>"
proof -
  let ?rows = "at_rows db"
  have l: "lastById (filter (\<lambda>r. cl_ts r < t) ?rows) = Some a"
    using lastById_wf [OF assms(1), of "\<lambda>r. cl_ts r < t"] assms(3) by simp
  have split: "\<exists>young. rs = filter (\<lambda>r. cl_ts r < t) rs @ young" if "sorted (map cl_ts rs)" for rs :: "AuditLogRow list"
    using that
  proof (induction rs)
    case (Cons x rs)
    show ?case
    proof (cases "cl_ts x < t")
      case False
      then have "filter (\<lambda>r. cl_ts r < t) (x # rs) = []" using Cons.prems by (fastforce simp: filter_empty_conv)
      then show ?thesis by simp
    qed (use Cons in auto)
  qed simp
  obtain young where y: "?rows = old @ a # young" using split [OF assms(2)] assms(3) by auto
  have "\<forall>r \<in> set old. al_id r < al_id a" "\<forall>r \<in> set young. \<not> al_id r < al_id a"
    using assms(1) y by (auto simp: auditTable_wf_def sorted_wrt_append)
  then have "filter (\<lambda>r. al_id r < al_id a) ?rows = old" "filter (\<lambda>r. \<not> al_id r < al_id a) ?rows = a # young"
    using y by (simp_all add: filter_id_conv filter_empty_conv)
  then show ?thesis using y l by (simp add: pruneAuditLog_def Let_def)
qed

definition sampleTable :: AuditTable where
  "sampleTable =
     (let e = \<lparr>af_installationId = Some 1, af_prId = None, af_event = ''review'', af_model = None,
                af_inputTokens = None, af_outputTokens = None, ae_ts = None\<rparr>
      in runAppends lengthDigest [(e, 10), (e\<lparr>af_installationId := Some 2\<rparr>, 20), (e, 30)])"

lemma sampleTable_old:
  "filter (\<lambda>r. cl_ts r < 25) (at_rows sampleTable) = [at_rows sampleTable ! 0] @ [at_rows sampleTable ! 1]"
  by (simp add: sampleTable_def runAppends_def Let_def appender_bypass emptyAuditTable_def newAuditLogRow_def
      appendAuditRow_def AuditFields.defs)

lemma sampleTable_sorted: "sorted (map cl_ts (at_rows sampleTable))"
  by (simp add: sampleTable_def runAppends_def Let_def appender_bypass emptyAuditTable_def newAuditLogRow_def
      appendAuditRow_def AuditFields.defs)

theorem prune_keeps_anchor_witness:
  "pa_deleted (fst (pruneAuditLog sampleTable 25)) = 1 \<and> pa_anchorId (fst (pruneAuditLog sampleTable 25)) = Some 2"
proof -
  have "al_id (at_rows sampleTable ! 1) = 2"
    by (simp add: sampleTable_def runAppends_def Let_def appender_bypass emptyAuditTable_def newAuditLogRow_def
        appendAuditRow_def AuditFields.defs)
  moreover have "auditTable_wf sampleTable" unfolding sampleTable_def Let_def by (rule runAppends_wf)
  ultimately show ?thesis
    using prune_keeps_anchor [OF _ sampleTable_sorted sampleTable_old] by auto
qed

text \<open>
  Where the connections bypass row-level security the chain runs across installations, so the
  per-installation verification reports a break on an intact log.  Append an event of another installation and then one of installation
  \<open>i\<close>: the whole log verifies, yet the verification restricted to \<open>i\<close> fails, for every
  digest that tells the two hashed texts apart.
\<close>

theorem audit_filtered_false_break:
  assumes "af_installationId e1 \<noteq> Some i" "af_installationId e2 = Some i" "ae_ts e1 = Some t1" "ae_ts e2 = Some t2"
    and "h = sha (AUDIT_GENESIS_HASH @ canonicalPayload e1 t1)" "h \<noteq> AUDIT_GENESIS_HASH"
    and "inj_on sha {AUDIT_GENESIS_HASH @ canonicalPayload e2 t2, h @ canonicalPayload e2 t2}"
  shows "vr_ok (verifyAuditChainFromDb sha (runAppends sha [(e1, n1), (e2, n2)]) None) \<and>
    \<not> vr_ok (verifyAuditChainFromDb sha (runAppends sha [(e1, n1), (e2, n2)]) (Some i))"
proof
  let ?db = "runAppends sha [(e1, n1), (e2, n2)]"
  show "vr_ok (verifyAuditChainFromDb sha ?db None)" by (simp add: audit_log_intact)
  let ?r1 = "newAuditLogRow 1 (appendAuditRow sha None e1 n1)"
  let ?r2 = "newAuditLogRow 2 (appendAuditRow sha (Some (cl_hash ?r1)) e2 n2)"
  have "at_rows ?db = [?r1, ?r2]"
    by (simp add: runAppends_def appender_bypass emptyAuditTable_def Let_def lastById_def newAuditLogRow_def)
  moreover have inst: "af_installationId ?r1 = af_installationId e1" "af_installationId ?r2 = af_installationId e2"
    by (simp_all add: newAuditLogRow_def appendAuditRow_def Let_def AuditFields.defs)
  ultimately have l: "selectLinks ?db (Some i) = [toLink ?r2]"
    using assms(1,2) wf_sort [OF runAppends_wf, of sha "[(e1, n1), (e2, n2)]"] by (simp add: selectLinks_def)
  have ts: "ar_ts (appendAuditRow sha p e n) = t" if "ae_ts e = Some t" for p e n t
    using that by (simp add: appendAuditRow_def Let_def AuditFields.defs)
  have "cl_hash ?r1 = h" using assms(5) by (simp add: new_row_hash ts [OF assms(3)])
  moreover have "h @ canonicalPayload e2 t2 \<noteq> AUDIT_GENESIS_HASH @ canonicalPayload e2 t2" using assms(6) by simp
  ultimately have "cl_hash ?r2 \<noteq> sha (AUDIT_GENESIS_HASH @ rowPayload (toLink ?r2))"
    using assms(7) by (simp add: new_row_hash new_row_payload ts [OF assms(4)])
  then show "\<not> vr_ok (verifyAuditChainFromDb sha ?db (Some i))"
    using l by (simp add: verifyAuditChainFromDb_def Let_def verifyAuditChain_ok)
qed

theorem audit_filtered_false_break_witness:
  "let e = \<lparr>af_installationId = Some 1, af_prId = None, af_event = ''a'', af_model = None,
              af_inputTokens = None, af_outputTokens = None, ae_ts = Some 0\<rparr>;
       db = runAppends (\<lambda>x. x) [(e, 0), (e\<lparr>af_installationId := Some 2\<rparr>, 0)]
   in vr_ok (verifyAuditChainFromDb (\<lambda>x. x) db None) \<and> \<not> vr_ok (verifyAuditChainFromDb (\<lambda>x. x) db (Some 2))"
  unfolding Let_def
  by (rule audit_filtered_false_break [where h = "AUDIT_GENESIS_HASH @ canonicalPayload
        \<lparr>af_installationId = Some 1, af_prId = None, af_event = ''a'', af_model = None,
              af_inputTokens = None, af_outputTokens = None, ae_ts = Some 0\<rparr> 0"])
    (simp_all add: canonicalPayload_def)

end
