(* ===== verification/Cost.thy ===== *)
theory Cost
  imports Review Json
begin

text \<open>
  Cost control: the decision function of \<open>core/src/cost.ts\<close>, the middleware of
  \<open>runner/src/middleware/cost-guard.ts\<close> and the ledger tables of
  \<open>db/src/cost-ledger.ts\<close>.  The middleware is a function of the ledger it reads and
  writes; the provider's estimate and the guarded call (\<open>next\<close>) are its arguments, and
  the callbacks it fires are logged in order.  The two options \<open>recorder\<close> and
  \<open>readTotals\<close> are parameters of the middleware, instantiated by the ledger below.
\<close>

section \<open>\<open>core/src/cost.ts\<close>\<close>

record RecordPhaseInput =
  ri_installationId :: int
  ri_jobId :: string
  ri_provider :: string
  ri_model :: string
  ri_callPhase :: CostLedgerPhase
  ri_inputTokens :: int
  ri_outputTokens :: int
  ri_cacheReadTokens :: "int option"
  ri_cacheCreationTokens :: "int option"
  ri_costUsd :: rat
  ri_status :: CostLedgerStatus
  ri_latencyMs :: "int option"

record CostTotals =
  ct_running :: rat
  ct_daily :: rat

datatype AbortReason = ReasonCostExceeded | ReasonDailyCap

datatype CostGuardDecision = Proceed | Fallback | Abort AbortReason rat rat | Kill rat rat

definition FALLBACK_RATIO :: rat where "FALLBACK_RATIO = 4 / 5"
definition ABORT_RATIO :: rat where "ABORT_RATIO = 1"
definition KILL_RATIO :: rat where "KILL_RATIO = 3 / 2"

record DecideCostInput =
  dc_running :: rat
  dc_estimate :: rat
  dc_perPrCap :: rat
  dc_daily :: rat
  dc_dailyCap :: rat

definition decideCostAction :: "DecideCostInput \<Rightarrow> CostGuardDecision" where
  "decideCostAction i =
     (let projected = dc_running i + dc_estimate i in
      if 0 < dc_dailyCap i \<and> dc_dailyCap i \<le> dc_daily i then Abort ReasonDailyCap (dc_daily i) (dc_dailyCap i)
      else if dc_perPrCap i \<le> 0 then Proceed
      else if dc_perPrCap i * KILL_RATIO < dc_running i then Kill (dc_running i) (dc_perPrCap i)
      else if dc_perPrCap i * ABORT_RATIO < projected then Abort ReasonCostExceeded projected (dc_perPrCap i)
      else if dc_perPrCap i * FALLBACK_RATIO < projected then Fallback
      else Proceed)"

section \<open>\<open>runner/src/middleware/cost-guard.ts\<close>\<close>

record CostGuardRecordContext =
  rc_installationId :: int
  rc_jobId :: string
  rc_provider :: string
  rc_model :: string

datatype CostThreshold = ThFallback | ThAbort | ThKill | ThDailyCap

record CostThresholdEvent =
  te_threshold :: CostThreshold
  te_cumulativeUsd :: rat
  te_capUsd :: rat

datatype CostEffect = FallbackHint | ThresholdCrossed CostThresholdEvent | NextCalled

record GuardedResult =
  gr_costUsd :: rat
  gr_inputTokens :: int
  gr_outputTokens :: int

record 'db CostGuardOptions =
  go_dailyCapUsd :: rat
  go_readTotals :: "('db \<Rightarrow> CostTotals) option"
  go_recorder :: "('db \<Rightarrow> RecordPhaseInput \<Rightarrow> 'db) option"
  go_recordContext :: "CostGuardRecordContext option"

text \<open>The mutable \<open>CostState\<close> together with the ledger the options give access to.\<close>

record 'db CostState =
  cs_totalCostUsd :: rat
  cs_db :: 'db

fun toThresholdEvent :: "CostGuardDecision \<Rightarrow> CostThresholdEvent" where
  "toThresholdEvent Fallback = \<lparr>te_threshold = ThFallback, te_cumulativeUsd = 0, te_capUsd = 0\<rparr>"
| "toThresholdEvent (Kill r c) = \<lparr>te_threshold = ThKill, te_cumulativeUsd = r, te_capUsd = c\<rparr>"
| "toThresholdEvent (Abort reason r c) =
     \<lparr>te_threshold = (if reason = ReasonDailyCap then ThDailyCap else ThAbort), te_cumulativeUsd = r, te_capUsd = c\<rparr>"
| "toThresholdEvent Proceed = \<lparr>te_threshold = ThFallback, te_cumulativeUsd = 0, te_capUsd = 0\<rparr>"

definition phaseInput :: "CostGuardRecordContext \<Rightarrow> int \<Rightarrow> int \<Rightarrow> rat \<Rightarrow> CostLedgerStatus \<Rightarrow> RecordPhaseInput" where
  "phaseInput ctx inp out cost status =
     \<lparr>ri_installationId = rc_installationId ctx, ri_jobId = rc_jobId ctx, ri_provider = rc_provider ctx,
      ri_model = rc_model ctx, ri_callPhase = ReviewMain, ri_inputTokens = inp, ri_outputTokens = out,
      ri_cacheReadTokens = None, ri_cacheCreationTokens = None, ri_costUsd = cost, ri_status = status,
      ri_latencyMs = None\<rparr>"

definition recordWith :: "'db CostGuardOptions \<Rightarrow> 'db \<Rightarrow> (CostGuardRecordContext \<Rightarrow> RecordPhaseInput) \<Rightarrow> 'db" where
  "recordWith opts db mk =
     (case (go_recorder opts, go_recordContext opts) of (Some rec, Some ctx) \<Rightarrow> rec db (mk ctx) | _ \<Rightarrow> db)"

definition recordExceeded :: "'db CostGuardOptions \<Rightarrow> 'db \<Rightarrow> rat \<Rightarrow> 'db" where
  "recordExceeded opts db estimatedUsd = recordWith opts db (\<lambda>ctx. phaseInput ctx 0 0 estimatedUsd CostExceeded)"

text \<open>What follows the guarded call: the state is updated, the call recorded, the cap tested again.\<close>

definition afterNext :: "'db CostGuardOptions \<Rightarrow> rat \<Rightarrow> rat \<Rightarrow> 'a GuardedResult_scheme \<Rightarrow> 'db \<Rightarrow>
    (AgentError + 'a GuardedResult_scheme) \<times> 'db CostState \<times> CostEffect list" where
  "afterNext opts cap running result db =
     (let total = running + gr_costUsd result;
          db = recordWith opts db (\<lambda>ctx. phaseInput ctx (gr_inputTokens result) (gr_outputTokens result)
                 (gr_costUsd result) Success)
      in if 0 < cap \<and> cap < total
         then (Inl (CostExceededError cap total),
               \<lparr>cs_totalCostUsd = total, cs_db = recordExceeded opts db 0\<rparr>,
               [ThresholdCrossed \<lparr>te_threshold = (if cap * (3 / 2) < total then ThKill else ThAbort),
                  te_cumulativeUsd = total, te_capUsd = cap\<rparr>])
         else (Inr result, \<lparr>cs_totalCostUsd = total, cs_db = db\<rparr>, []))"

definition costGuard :: "'db CostGuardOptions \<Rightarrow> rat \<Rightarrow> AgentError + rat \<Rightarrow> AgentError + 'a GuardedResult_scheme \<Rightarrow>
    'db CostState \<Rightarrow> (AgentError + 'a GuardedResult_scheme) \<times> 'db CostState \<times> CostEffect list" where
  "costGuard opts cap estimate next st =
     (if cap \<le> 0 \<and> go_dailyCapUsd opts \<le> 0 \<and> go_recorder opts = None then (next, st, [NextCalled])
      else case estimate of
        Inl e \<Rightarrow> (Inl e, st, [])
      | Inr estimatedUsd \<Rightarrow>
          (let totals = (case go_readTotals opts of Some rd \<Rightarrow> rd (cs_db st)
                          | None \<Rightarrow> \<lparr>ct_running = cs_totalCostUsd st, ct_daily = 0\<rparr>);
               decision = decideCostAction \<lparr>dc_running = ct_running totals, dc_estimate = estimatedUsd,
                 dc_perPrCap = cap, dc_daily = ct_daily totals, dc_dailyCap = go_dailyCapUsd opts\<rparr>;
               proceed = (\<lambda>effs. case next of
                   Inl e \<Rightarrow> (Inl e, st, effs @ [NextCalled])
                 | Inr result \<Rightarrow>
                     (case afterNext opts cap (ct_running totals) result (cs_db st) of
                        (r, st', effs') \<Rightarrow> (r, st', effs @ [NextCalled] @ effs')));
               refuse = (\<lambda>runningUsd capUsd.
                   (Inl (CostExceededError capUsd runningUsd),
                    st\<lparr>cs_db := recordExceeded opts (cs_db st) estimatedUsd\<rparr>,
                    [ThresholdCrossed (toThresholdEvent decision)]))
           in case decision of
                Abort _ r c \<Rightarrow> refuse r c
              | Kill r c \<Rightarrow> refuse r c
              | Fallback \<Rightarrow> proceed [FallbackHint, ThresholdCrossed (toThresholdEvent decision)]
              | Proceed \<Rightarrow> proceed []))"

section \<open>\<open>db/src/cost-ledger.ts\<close>\<close>

record CostLedgerRow =
  cl_id :: int
  cl_input :: RecordPhaseInput
  cl_createdAt :: Date

record CostDailyRow =
  cd_installationId :: int
  cd_date :: string
  cd_costUsd :: rat

record Ledger =
  lg_rows :: "CostLedgerRow list"
  lg_nextId :: int
  lg_daily :: "CostDailyRow list"

definition isoDate :: "Date \<Rightarrow> string" where
  "isoDate d =
     (let day = d div msPerDay; y = YearFromDay day;
          (m, dd) = monthDate (monthStarts (InLeapYear y)) (day - DayFromYear y)
      in intToString y @ ''-'' @ padStart 2 m @ ''-'' @ padStart 2 dd)"

definition withDefaults :: "RecordPhaseInput \<Rightarrow> RecordPhaseInput" where
  "withDefaults i = (let d = (\<lambda>x. Some (case x of None \<Rightarrow> 0 | Some n \<Rightarrow> n)) in
     i\<lparr>ri_cacheReadTokens := d (ri_cacheReadTokens i), ri_cacheCreationTokens := d (ri_cacheCreationTokens i),
       ri_latencyMs := d (ri_latencyMs i)\<rparr>)"

text \<open>\<open>INSERT ... ON CONFLICT (installation_id, date) DO UPDATE SET cost_usd = cost_usd + ...\<close>.\<close>

fun upsertDaily :: "int \<Rightarrow> string \<Rightarrow> rat \<Rightarrow> CostDailyRow list \<Rightarrow> CostDailyRow list" where
  "upsertDaily inst date cost [] = [\<lparr>cd_installationId = inst, cd_date = date, cd_costUsd = cost\<rparr>]"
| "upsertDaily inst date cost (r # rs) =
     (if cd_installationId r = inst \<and> cd_date r = date then r\<lparr>cd_costUsd := cd_costUsd r + cost\<rparr> # rs
      else r # upsertDaily inst date cost rs)"

definition costLedgerRecorder :: "Date \<Rightarrow> Ledger \<Rightarrow> RecordPhaseInput \<Rightarrow> Ledger" where
  "costLedgerRecorder now db input =
     db\<lparr>lg_rows := lg_rows db @ [\<lparr>cl_id = lg_nextId db, cl_input = withDefaults input, cl_createdAt = now\<rparr>],
        lg_nextId := lg_nextId db + 1,
        lg_daily := upsertDaily (ri_installationId input) (isoDate now) (ri_costUsd input) (lg_daily db)\<rparr>"

definition jobRows :: "Ledger \<Rightarrow> int \<Rightarrow> string \<Rightarrow> CostLedgerRow list" where
  "jobRows db inst job = filter (\<lambda>r. ri_installationId (cl_input r) = inst \<and> ri_jobId (cl_input r) = job) (lg_rows db)"

definition costTotalsReader :: "int \<Rightarrow> string \<Rightarrow> string \<Rightarrow> Ledger \<Rightarrow> CostTotals" where
  "costTotalsReader inst job date db =
     \<lparr>ct_running = sum_list (map (\<lambda>r. ri_costUsd (cl_input r)) (jobRows db inst job)),
      ct_daily = (case filter (\<lambda>r. cd_installationId r = inst \<and> cd_date r = date) (lg_daily db) of
                    [] \<Rightarrow> 0 | r # _ \<Rightarrow> cd_costUsd r)\<rparr>"

definition pruneCostLedger :: "Ledger \<Rightarrow> Date \<Rightarrow> nat \<times> Ledger" where
  "pruneCostLedger db before =
     (length (filter (\<lambda>r. cl_createdAt r < before) (lg_rows db)),
      db\<lparr>lg_rows := filter (\<lambda>r. \<not> cl_createdAt r < before) (lg_rows db)\<rparr>)"

definition loadCostLedgerForExport :: "Ledger \<Rightarrow> int \<Rightarrow> Date \<Rightarrow> Date option \<Rightarrow> CostLedgerRow list" where
  "loadCostLedgerForExport db inst since until =
     sort_key cl_id (filter (\<lambda>r. ri_installationId (cl_input r) = inst \<and> since \<le> cl_createdAt r \<and>
       (case until of None \<Rightarrow> True | Some u \<Rightarrow> cl_createdAt r \<le> u)) (lg_rows db))"

section \<open>The decision\<close>

definition blocks :: "CostGuardDecision \<Rightarrow> bool" where
  "blocks d = (case d of Abort _ _ _ \<Rightarrow> True | Kill _ _ \<Rightarrow> True | _ \<Rightarrow> False)"

lemma decide_blocks_iff:
  "blocks (decideCostAction i) \<longleftrightarrow>
     (0 < dc_dailyCap i \<and> dc_dailyCap i \<le> dc_daily i) \<or>
     (0 < dc_perPrCap i \<and> (dc_perPrCap i * (3 / 2) < dc_running i \<or> dc_perPrCap i < dc_running i + dc_estimate i))"
  by (auto simp: blocks_def decideCostAction_def Let_def KILL_RATIO_def ABORT_RATIO_def FALLBACK_RATIO_def not_le)

text \<open>Spending more never unblocks: the decision is monotone in everything it reads but the caps.\<close>

lemma decide_blocks_mono:
  assumes "blocks (decideCostAction i)" "dc_running i \<le> dc_running j" "dc_estimate i \<le> dc_estimate j"
    "dc_daily i \<le> dc_daily j" "dc_perPrCap i = dc_perPrCap j" "dc_dailyCap i = dc_dailyCap j"
  shows "blocks (decideCostAction j)"
  using assms unfolding decide_blocks_iff by auto

section \<open>A guarded job\<close>

text \<open>
  A run of guarded calls against one ledger.  Each call brings its own options (the clock moves),
  its estimate and the outcome the model provider would have.
\<close>

type_synonym ('db, 'a) GuardedCall = "'db CostGuardOptions \<times> (AgentError + rat) \<times> (AgentError + 'a GuardedResult_scheme)"

fun runGuarded :: "rat \<Rightarrow> ('db, 'a) GuardedCall list \<Rightarrow> 'db CostState \<Rightarrow> 'db CostState" where
  "runGuarded cap [] st = st"
| "runGuarded cap ((opts, est, nxt) # cs) st = runGuarded cap cs (fst (snd (costGuard opts cap est nxt st)))"

text \<open>
  The money an answered call costs beyond its estimate.  The drivers' estimates price the
  input tokens only, so a call has an overrun as a rule; the worst one of a run of calls.
\<close>

definition overrun :: "(AgentError + rat) \<Rightarrow> (AgentError + 'a GuardedResult_scheme) \<Rightarrow> rat" where
  "overrun est nxt = (case (est, nxt) of (Inr e, Inr r) \<Rightarrow> gr_costUsd r - e | _ \<Rightarrow> 0)"

definition worstOverrun :: "('db, 'a) GuardedCall list \<Rightarrow> rat" where
  "worstOverrun cs = foldr (\<lambda>(opts, est, nxt) m. max (overrun est nxt) m) cs 0"

definition estimateNonneg :: "(AgentError + rat) \<Rightarrow> bool" where
  "estimateNonneg est = (case est of Inl _ \<Rightarrow> True | Inr e \<Rightarrow> 0 \<le> e)"

lemma worstOverrun_simps [simp]:
  "worstOverrun [] = 0"
  "worstOverrun ((opts, est, nxt) # cs) = max (overrun est nxt) (worstOverrun cs)"
  by (simp_all add: worstOverrun_def)

lemma worstOverrun_nonneg: "0 \<le> worstOverrun cs"
  by (induction cs) (auto simp: worstOverrun_def)

definition ledgerOptions :: "rat \<Rightarrow> CostGuardRecordContext \<Rightarrow> ('db \<Rightarrow> CostTotals) \<Rightarrow> ('db \<Rightarrow> RecordPhaseInput \<Rightarrow> 'db) \<Rightarrow>
    'db CostGuardOptions" where
  "ledgerOptions daily ctx rd add =
     \<lparr>go_dailyCapUsd = daily, go_readTotals = Some rd, go_recorder = Some add, go_recordContext = Some ctx\<rparr>"

text \<open>
  The contract between the guard and the ledger of one job: what is added for the job shows in
  the running total, and in the money spent when the call succeeded.
\<close>

locale job_ledger =
  fixes ctx :: CostGuardRecordContext
    and add :: "'t \<Rightarrow> 'db \<Rightarrow> RecordPhaseInput \<Rightarrow> 'db"
    and totals :: "'t \<Rightarrow> 'db \<Rightarrow> CostTotals"
    and spent :: "'db \<Rightarrow> rat"
    and charged :: "'db \<Rightarrow> rat"
  assumes totals_running: "ct_running (totals t db) = charged db"
    and charged_add: "ri_installationId i = rc_installationId ctx \<Longrightarrow> ri_jobId i = rc_jobId ctx \<Longrightarrow>
      charged (add t db i) = charged db + ri_costUsd i"
    and spent_add: "ri_installationId i = rc_installationId ctx \<Longrightarrow> ri_jobId i = rc_jobId ctx \<Longrightarrow>
      spent (add t db i) = spent db + (if ri_status i = Success then ri_costUsd i else 0)"
begin

lemma add_phase:
  "charged (add t db (phaseInput ctx a b c s)) = charged db + c"
  "spent (add t db (phaseInput ctx a b c s)) = spent db + (if s = Success then c else 0)"
  by (simp_all add: charged_add spent_add phaseInput_def)

lemma guard_step:
  assumes "0 < cap" "estimateNonneg est" "spent (cs_db st) \<le> charged (cs_db st)" "spent (cs_db st) \<le> limit"
    and "cap + overrun est nxt \<le> limit"
  shows "spent (cs_db (fst (snd (costGuard (ledgerOptions daily ctx (totals t) (add t)) cap est nxt st)))) \<le> limit \<and>
    spent (cs_db (fst (snd (costGuard (ledgerOptions daily ctx (totals t) (add t)) cap est nxt st)))) \<le>
    charged (cs_db (fst (snd (costGuard (ledgerOptions daily ctx (totals t) (add t)) cap est nxt st))))"
proof (cases est)
  case (Inl e)
  then show ?thesis using assms by (simp add: costGuard_def ledgerOptions_def)
next
  case (Inr e)
  let ?i = "\<lparr>dc_running = charged (cs_db st), dc_estimate = e, dc_perPrCap = cap,
      dc_daily = ct_daily (totals t (cs_db st)), dc_dailyCap = daily\<rparr>"
  have e: "0 \<le> e" using assms(2) Inr by (simp add: estimateNonneg_def)
  show ?thesis
  proof (cases "blocks (decideCostAction ?i)")
    case True
    then show ?thesis using assms Inr e
      by (auto simp: costGuard_def ledgerOptions_def blocks_def recordExceeded_def recordWith_def add_phase totals_running
          Let_def split: CostGuardDecision.splits sum.splits)
  next
    case False
    then have "charged (cs_db st) + e \<le> cap" using assms(1) unfolding decide_blocks_iff by (simp add: not_less)
    then show ?thesis using assms Inr False e
      by (auto simp: costGuard_def ledgerOptions_def blocks_def recordExceeded_def recordWith_def add_phase totals_running
          afterNext_def overrun_def Let_def split: CostGuardDecision.splits sum.splits)
  qed
qed

lemma run_within_limit:
  assumes "0 < cap" "\<forall>(opts, est, nxt) \<in> set cs. (\<exists>daily t. opts = ledgerOptions daily ctx (totals t) (add t)) \<and> estimateNonneg est"
    and "spent (cs_db st) \<le> charged (cs_db st)" "spent (cs_db st) \<le> limit" "cap + worstOverrun cs \<le> limit"
  shows "spent (cs_db (runGuarded cap cs st)) \<le> limit"
  using assms(2-)
proof (induction cs arbitrary: st)
  case (Cons c cs)
  obtain opts est nxt where c: "c = (opts, est, nxt)" by (cases c)
  then obtain daily t where o: "opts = ledgerOptions daily ctx (totals t) (add t)" and n: "estimateNonneg est"
    using Cons.prems(1) by auto
  have l: "cap + overrun est nxt \<le> limit" "cap + worstOverrun cs \<le> limit" using Cons.prems(4) c by auto
  show ?case
    using Cons.IH [of "fst (snd (costGuard opts cap est nxt st))"] guard_step [OF assms(1) n Cons.prems(2,3) l(1), of daily t]
      Cons.prems(1) l(2) by (simp add: c o)
qed simp

end

section \<open>The ledger tables provide it\<close>

definition chargedOf :: "int \<Rightarrow> string \<Rightarrow> Ledger \<Rightarrow> rat" where
  "chargedOf inst job db = sum_list (map (\<lambda>r. ri_costUsd (cl_input r)) (jobRows db inst job))"

definition spentOf :: "int \<Rightarrow> string \<Rightarrow> Ledger \<Rightarrow> rat" where
  "spentOf inst job db =
     sum_list (map (\<lambda>r. ri_costUsd (cl_input r)) (filter (\<lambda>r. ri_status (cl_input r) = Success) (jobRows db inst job)))"

lemma withDefaults_sel [simp]:
  "ri_installationId (withDefaults i) = ri_installationId i" "ri_jobId (withDefaults i) = ri_jobId i"
  "ri_costUsd (withDefaults i) = ri_costUsd i" "ri_status (withDefaults i) = ri_status i"
  by (simp_all add: withDefaults_def Let_def)

interpretation ledger: job_ledger ctx "\<lambda>t. costLedgerRecorder (fst t)"
    "\<lambda>t. costTotalsReader (rc_installationId ctx) (rc_jobId ctx) (snd t)"
    "spentOf (rc_installationId ctx) (rc_jobId ctx)" "chargedOf (rc_installationId ctx) (rc_jobId ctx)" for ctx
  by unfold_locales
    (simp_all add: costTotalsReader_def chargedOf_def spentOf_def costLedgerRecorder_def jobRows_def)

definition emptyLedger :: Ledger where
  "emptyLedger = \<lparr>lg_rows = [], lg_nextId = 1, lg_daily = []\<rparr>"

lemma chargedOf_empty: "chargedOf inst job emptyLedger = 0"
  by (simp add: chargedOf_def jobRows_def emptyLedger_def)

text \<open>The options with which the guard runs on the tables: the clock, and the day it asks for.\<close>

definition dbOptions :: "rat \<Rightarrow> CostGuardRecordContext \<Rightarrow> Date \<Rightarrow> string \<Rightarrow> Ledger CostGuardOptions" where
  "dbOptions daily ctx now date =
     ledgerOptions daily ctx (costTotalsReader (rc_installationId ctx) (rc_jobId ctx) date) (costLedgerRecorder now)"


definition sampleCtx :: CostGuardRecordContext where
  "sampleCtx = \<lparr>rc_installationId = 1, rc_jobId = ''job'', rc_provider = ''p'', rc_model = ''m''\<rparr>"

text \<open>Two calls that cost more than estimated and a third that would fit only by its estimate.\<close>

definition sampleCalls :: "(Ledger, unit) GuardedCall list" where
  "sampleCalls = map (\<lambda>now. (dbOptions 0 sampleCtx now ''1970-01-01'', Inr (1/5),
     Inr \<lparr>gr_costUsd = 3/5, gr_inputTokens = 1, gr_outputTokens = 1\<rparr>)) [0, 1, 2]"


text \<open>
  The guard lets a call through exactly when the decision does not block, and a refused call
  is never made: the callback log holds the call iff the projected cost and the daily total are
  within their caps.
\<close>

theorem cost_guard_calls_next_iff:
  assumes "0 < cap"
  shows "NextCalled \<in> set (snd (snd (costGuard opts cap (Inr e) nxt st))) \<longleftrightarrow>
    (let tot = (case go_readTotals opts of Some rd \<Rightarrow> rd (cs_db st) | None \<Rightarrow> \<lparr>ct_running = cs_totalCostUsd st, ct_daily = 0\<rparr>)
     in \<not> (0 < go_dailyCapUsd opts \<and> go_dailyCapUsd opts \<le> ct_daily tot) \<and>
        ct_running tot \<le> cap * (3 / 2) \<and> ct_running tot + e \<le> cap)"
proof -
  let ?tot = "case go_readTotals opts of Some rd \<Rightarrow> rd (cs_db st) | None \<Rightarrow> \<lparr>ct_running = cs_totalCostUsd st, ct_daily = 0\<rparr>"
  let ?d = "decideCostAction \<lparr>dc_running = ct_running ?tot, dc_estimate = e, dc_perPrCap = cap,
      dc_daily = ct_daily ?tot, dc_dailyCap = go_dailyCapUsd opts\<rparr>"
  have "NextCalled \<in> set (snd (snd (costGuard opts cap (Inr e) nxt st))) \<longleftrightarrow> \<not> blocks ?d"
    using assms
    by (cases ?d) (auto simp: costGuard_def Let_def blocks_def split: sum.splits prod.splits)
  also have "\<dots> \<longleftrightarrow> \<not> (0 < go_dailyCapUsd opts \<and> go_dailyCapUsd opts \<le> ct_daily ?tot) \<and>
        ct_running ?tot \<le> cap * (3 / 2) \<and> ct_running ?tot + e \<le> cap"
    using assms unfolding decide_blocks_iff by (auto simp: not_less)
  finally show ?thesis by (simp add: Let_def)
qed

theorem cost_guard_calls_next_iff_witness:
  "NextCalled \<notin> set (snd (snd (costGuard (dbOptions 0 sampleCtx 0 ''1970-01-01'') 1 (Inr 2)
     (Inr \<lparr>gr_costUsd = 1, gr_inputTokens = 1, gr_outputTokens = 1\<rparr>) \<lparr>cs_totalCostUsd = 0, cs_db = emptyLedger\<rparr>)))"
  by (subst cost_guard_calls_next_iff)
    (simp_all add: dbOptions_def ledgerOptions_def costTotalsReader_def jobRows_def emptyLedger_def Let_def)

text \<open>
  A refused call is charged to the job.  When the guard refuses a call on the ledger, no call
  is made, yet the running total the next decision reads grows by the refused estimate, and the
  daily total of the installation grows by it as well.
\<close>

theorem cost_refusal_charged:
  assumes "0 < cap" "cap < chargedOf (rc_installationId ctx) (rc_jobId ctx) (cs_db st) + e"
  shows "NextCalled \<notin> set (snd (snd (costGuard (dbOptions daily ctx now (isoDate now)) cap (Inr e) nxt st))) \<and>
    (let db' = cs_db (fst (snd (costGuard (dbOptions daily ctx now (isoDate now)) cap (Inr e) nxt st)))
     in chargedOf (rc_installationId ctx) (rc_jobId ctx) db' = chargedOf (rc_installationId ctx) (rc_jobId ctx) (cs_db st) + e \<and>
        lg_daily db' = upsertDaily (rc_installationId ctx) (isoDate now) e (lg_daily (cs_db st)))"
proof -
  let ?i = "\<lparr>dc_running = chargedOf (rc_installationId ctx) (rc_jobId ctx) (cs_db st), dc_estimate = e, dc_perPrCap = cap,
      dc_daily = ct_daily (costTotalsReader (rc_installationId ctx) (rc_jobId ctx) (isoDate now) (cs_db st)), dc_dailyCap = daily\<rparr>"
  have r: "ct_running (costTotalsReader (rc_installationId ctx) (rc_jobId ctx) d db) =
      chargedOf (rc_installationId ctx) (rc_jobId ctx) db" for d db
    by (simp add: costTotalsReader_def chargedOf_def)
  have "blocks (decideCostAction ?i)" using assms unfolding decide_blocks_iff by simp
  then have g: "snd (costGuard (dbOptions daily ctx now (isoDate now)) cap (Inr e) nxt st) =
      (st\<lparr>cs_db := costLedgerRecorder now (cs_db st) (phaseInput ctx 0 0 e CostExceeded)\<rparr>,
       [ThresholdCrossed (toThresholdEvent (decideCostAction ?i))])"
    by (auto simp: costGuard_def dbOptions_def ledgerOptions_def blocks_def recordExceeded_def recordWith_def r Let_def
        split: CostGuardDecision.splits)
  have "lg_daily (costLedgerRecorder now (cs_db st) (phaseInput ctx 0 0 e CostExceeded)) =
      upsertDaily (rc_installationId ctx) (isoDate now) e (lg_daily (cs_db st))"
    by (simp add: costLedgerRecorder_def phaseInput_def)
  then show ?thesis
    using ledger.add_phase(1) [of ctx "(now, [])" "cs_db st" 0 0 e CostExceeded] by (simp add: g Let_def)
qed

theorem cost_refusal_charged_witness:
  "chargedOf 1 ''job'' (cs_db (fst (snd (costGuard (dbOptions 0 sampleCtx 0 (isoDate 0)) 1 (Inr 2)
     (Inr \<lparr>gr_costUsd = 1, gr_inputTokens = 1, gr_outputTokens = 1\<rparr>) \<lparr>cs_totalCostUsd = 0, cs_db = emptyLedger\<rparr>)))) = 2"
  using cost_refusal_charged [of 1 sampleCtx "\<lparr>cs_totalCostUsd = 0, cs_db = emptyLedger\<rparr>" 2 0 0
      "Inr \<lparr>gr_costUsd = 1, gr_inputTokens = 1, gr_outputTokens = 1\<rparr>"]
  by (simp add: sampleCtx_def chargedOf_empty Let_def)

section \<open>The two tables agree\<close>

definition dailyTotal :: "int \<Rightarrow> CostDailyRow list \<Rightarrow> rat" where
  "dailyTotal inst rows = sum_list (map cd_costUsd (filter (\<lambda>r. cd_installationId r = inst) rows))"

definition rowsTotal :: "int \<Rightarrow> CostLedgerRow list \<Rightarrow> rat" where
  "rowsTotal inst rows = sum_list (map (\<lambda>r. ri_costUsd (cl_input r)) (filter (\<lambda>r. ri_installationId (cl_input r) = inst) rows))"

lemma dailyTotal_upsert: "dailyTotal i (upsertDaily inst date c rows) = dailyTotal i rows + (if i = inst then c else 0)"
  by (induction rows) (auto simp: dailyTotal_def)

definition dailyKey :: "CostDailyRow \<Rightarrow> int \<times> string" where
  "dailyKey r = (cd_installationId r, cd_date r)"

lemma upsertDaily_keyset: "dailyKey ` set (upsertDaily inst date c rows) \<subseteq> insert (inst, date) (dailyKey ` set rows)"
  by (induction rows) (auto simp: dailyKey_def)

lemma upsertDaily_keys: "distinct (map dailyKey rows) \<Longrightarrow> distinct (map dailyKey (upsertDaily inst date c rows))"
proof (induction rows)
  case (Cons r rows)
  show ?case
  proof (cases "dailyKey r = (inst, date)")
    case True
    then show ?thesis using Cons.prems by (simp add: dailyKey_def)
  next
    case False
    then have "dailyKey r \<notin> dailyKey ` set (upsertDaily inst date c rows)"
      using Cons.prems upsertDaily_keyset [of inst date c rows] by auto
    then show ?thesis using Cons False by (auto simp: dailyKey_def)
  qed
qed simp

text \<open>
  The daily table is a faithful summary of the ledger: after any sequence of recorded
  calls it has one row per installation and day, and the daily rows of each installation add up to
  its ledger rows.
\<close>

theorem ledger_daily_conserved:
  "let db = foldl (\<lambda>db (now, i). costLedgerRecorder now db i) emptyLedger calls
   in dailyTotal inst (lg_daily db) = rowsTotal inst (lg_rows db) \<and>
      distinct (map dailyKey (lg_daily db))"
proof (induction calls rule: rev_induct)
  case Nil
  then show ?case by (simp add: emptyLedger_def dailyTotal_def rowsTotal_def)
next
  case (snoc c calls)
  then show ?case
    by (cases c) (auto simp: Let_def costLedgerRecorder_def dailyTotal_upsert upsertDaily_keys rowsTotal_def)
qed

end
