(* ===== verification/Retry.thy ===== *)
theory Retry
  imports Review Json
begin

text \<open>
  The generic retry loop of \<open>core/src/retry.ts\<close> and its two clients, the provider retry of
  \<open>llm/src/retry.ts\<close> and the write retry of \<open>action/src/retry.ts\<close>, with the
  extraction helpers of \<open>core/src/error-utils.ts\<close>.  The retried operation is a function
  from the attempt number to its outcome; the loop returns the outcome and the delays slept.
\<close>

section \<open>\<open>core/src/retry.ts\<close>\<close>

datatype 'e RetryDecision = GiveUp "'e option" | RetryAfter rat

definition DEFAULT_MAX_ATTEMPTS :: int where "DEFAULT_MAX_ATTEMPTS = 10"

text \<open>The body of the loop from attempt \<open>k\<close> on.\<close>

function retryFrom :: "(nat \<Rightarrow> 'e + 'a) \<Rightarrow> ('e \<Rightarrow> nat \<Rightarrow> 'e RetryDecision) \<Rightarrow> nat \<Rightarrow> nat \<Rightarrow> ('e + 'a) \<times> rat list" where
  "retryFrom fn classify mx k =
     (case fn k of
        Inr x \<Rightarrow> (Inr x, [])
      | Inl err \<Rightarrow>
          (case classify err k of
             GiveUp throwAs \<Rightarrow> (Inl (case throwAs of Some e \<Rightarrow> e | None \<Rightarrow> err), [])
           | RetryAfter delayMs \<Rightarrow>
               if mx \<le> k + 1 then (Inl err, [])
               else (case retryFrom fn classify mx (k + 1) of (r, ds) \<Rightarrow> (r, delayMs # ds))))"
  by pat_completeness auto
termination
  by (relation "measure (\<lambda>(fn, classify, mx, k). mx - k)") auto

declare retryFrom.simps [simp del]

definition attemptCap :: "int option \<Rightarrow> nat" where
  "attemptCap maxAttempts = nat (max 1 (case maxAttempts of None \<Rightarrow> DEFAULT_MAX_ATTEMPTS | Some n \<Rightarrow> n))"

definition withRetry :: "(nat \<Rightarrow> 'e + 'a) \<Rightarrow> ('e \<Rightarrow> nat \<Rightarrow> 'e RetryDecision) \<Rightarrow> int option \<Rightarrow> ('e + 'a) \<times> rat list" where
  "withRetry fn classify maxAttempts =
     retryFrom fn classify (attemptCap maxAttempts) 0"

section \<open>\<open>llm/src/retry.ts\<close>\<close>

datatype ErrorKind = RateLimit | Overloaded | ContextLength | Auth | Transient | Fatal

record ErrorClassification =
  ec_kind :: ErrorKind
  ec_retryAfterMs :: "rat option"

fun RETRY_LIMITS :: "ErrorKind \<Rightarrow> nat" where
  "RETRY_LIMITS RateLimit = 5"
| "RETRY_LIMITS Overloaded = 3"
| "RETRY_LIMITS Transient = 3"
| "RETRY_LIMITS _ = 0"

definition BACKOFF_MS :: "rat list" where
  "BACKOFF_MS = [1000, 2000, 4000, 8000, 16000]"

definition JITTER :: rat where "JITTER = 1 / 5"

definition MAX_ATTEMPTS :: int where
  "MAX_ATTEMPTS = int (Max (RETRY_LIMITS ` {RateLimit, Overloaded, Transient})) + 1"

text \<open>
  The classifier closure: \<open>classifyError\<close> is the driver's method, \<open>rnd\<close> the value
  \<open>random()\<close> returns at each attempt, \<open>ctxError\<close> builds the \<open>ContextLengthError\<close> with the cause.
\<close>

definition llmClassify :: "('e \<Rightarrow> ErrorClassification) \<Rightarrow> (nat \<Rightarrow> rat) \<Rightarrow> ('e \<Rightarrow> 'e) \<Rightarrow> 'e \<Rightarrow> nat \<Rightarrow> 'e RetryDecision" where
  "llmClassify classifyError rnd ctxError err attempt =
     (let c = classifyError err; kind = ec_kind c in
      if kind = Auth \<or> kind = Fatal then GiveUp None
      else if kind = ContextLength then GiveUp (Some (ctxError err))
      else if RETRY_LIMITS kind \<le> attempt then GiveUp None
      else (let base = (case ec_retryAfterMs c of Some ms \<Rightarrow> ms
                         | None \<Rightarrow> BACKOFF_MS ! min attempt (length BACKOFF_MS - 1));
                jitter = base * JITTER * (rnd attempt * 2 - 1)
            in RetryAfter (max 0 (base + jitter))))"

definition llmWithRetry :: "('e \<Rightarrow> ErrorClassification) \<Rightarrow> (nat \<Rightarrow> rat) \<Rightarrow> ('e \<Rightarrow> 'e) \<Rightarrow> (nat \<Rightarrow> 'e + 'a) \<Rightarrow> ('e + 'a) \<times> rat list" where
  "llmWithRetry classifyError rnd ctxError fn = withRetry fn (llmClassify classifyError rnd ctxError) (Some MAX_ATTEMPTS)"

section \<open>\<open>core/src/error-utils.ts\<close>\<close>

text \<open>
  An unknown thrown value: an \<open>Error\<close> carries its message, and its own properties as the
  members of a JSON object; anything else is the value itself.
\<close>

record UnknownError =
  ue_error :: "string option"
  ue_value :: json

fun jsonMember :: "json \<Rightarrow> string \<Rightarrow> json option" where
  "jsonMember (JObj ms) k = map_of ms k"
| "jsonMember _ k = None"

definition statusOf :: "json \<Rightarrow> int option" where
  "statusOf v = (case jsonMember v ''status'' of Some (JNum n) \<Rightarrow> Some n | _ \<Rightarrow> None)"

definition extractStatus :: "UnknownError \<Rightarrow> int option" where
  "extractStatus err =
     (case statusOf (ue_value err) of
        Some n \<Rightarrow> Some n
      | None \<Rightarrow> (case jsonMember (ue_value err) ''response'' of Some r \<Rightarrow> statusOf r | None \<Rightarrow> None))"

section \<open>\<open>action/src/retry.ts\<close>\<close>

definition DEFAULT_DELAYS_MS :: "rat list" where
  "DEFAULT_DELAYS_MS = [1000, 3000, 9000, 9000, 9000]"

definition isRetriable :: "UnknownError \<Rightarrow> bool" where
  "isRetriable err =
     (case extractStatus err of
        None \<Rightarrow> True
      | Some status \<Rightarrow>
          if status = 429 then True
          else if 500 \<le> status \<and> status < 600 then True
          else if 400 \<le> status \<and> status < 500 then False
          else True)"

definition delayAt :: "rat list \<Rightarrow> nat \<Rightarrow> rat" where
  "delayAt delays attempt = (let i = min attempt (length delays - 1) in if i < length delays then delays ! i else 0)"

definition actionClassify :: "('e \<Rightarrow> bool) \<Rightarrow> rat list \<Rightarrow> 'e \<Rightarrow> nat \<Rightarrow> 'e RetryDecision" where
  "actionClassify retriable delays err attempt = (if \<not> retriable err then GiveUp None else RetryAfter (delayAt delays attempt))"

text \<open>
  One log line per failed attempt that will be retried: attempt number, total and delay.
  The first component is \<open>Inl\<close> with the usage error when \<open>attempts\<close> is not positive.
\<close>

definition actionWithRetry :: "('e \<Rightarrow> bool) \<Rightarrow> rat list \<Rightarrow> int \<Rightarrow> (nat \<Rightarrow> 'e + 'a) \<Rightarrow> string + (('e + 'a) \<times> rat list)" where
  "actionWithRetry retriable delays attempts fn =
     (if attempts \<le> 0 then Inl ''attempts must be >= 1''
      else Inr (withRetry fn (actionClassify retriable delays) (Some (min attempts 10))))"

section \<open>What the loop does\<close>

definition wantsRetry :: "(nat \<Rightarrow> 'e + 'a) \<Rightarrow> ('e \<Rightarrow> nat \<Rightarrow> 'e RetryDecision) \<Rightarrow> nat \<Rightarrow> bool" where
  "wantsRetry fn classify j = (case fn j of Inr _ \<Rightarrow> False | Inl e \<Rightarrow> (case classify e j of RetryAfter _ \<Rightarrow> True | _ \<Rightarrow> False))"

definition delayOf :: "(nat \<Rightarrow> 'e + 'a) \<Rightarrow> ('e \<Rightarrow> nat \<Rightarrow> 'e RetryDecision) \<Rightarrow> nat \<Rightarrow> rat" where
  "delayOf fn classify j = (case fn j of Inr _ \<Rightarrow> 0 | Inl e \<Rightarrow> (case classify e j of RetryAfter d \<Rightarrow> d | _ \<Rightarrow> 0))"

text \<open>The outcome of a last attempt.\<close>

definition finalOutcome :: "(nat \<Rightarrow> 'e + 'a) \<Rightarrow> ('e \<Rightarrow> nat \<Rightarrow> 'e RetryDecision) \<Rightarrow> nat \<Rightarrow> 'e + 'a" where
  "finalOutcome fn classify j = (case fn j of Inr x \<Rightarrow> Inr x | Inl e \<Rightarrow>
     (case classify e j of GiveUp (Some e') \<Rightarrow> Inl e' | _ \<Rightarrow> Inl e))"

lemma retryFrom_last:
  assumes "k < mx"
  shows "\<exists>n. k \<le> n \<and> n < mx \<and> (\<forall>j. k \<le> j \<and> j < n \<longrightarrow> wantsRetry fn classify j) \<and>
    (n + 1 = mx \<or> \<not> wantsRetry fn classify n) \<and>
    retryFrom fn classify mx k = (finalOutcome fn classify n, map (delayOf fn classify) [k..<n])"
  using assms
proof (induction "mx - k" arbitrary: k rule: less_induct)
  case less
  show ?case
  proof (cases "wantsRetry fn classify k \<and> k + 1 < mx")
    case False
    then have "retryFrom fn classify mx k = (finalOutcome fn classify k, [])"
      using less.prems
      by (subst retryFrom.simps)
        (auto simp: wantsRetry_def finalOutcome_def split: sum.splits RetryDecision.splits option.splits)
    then show ?thesis using False less.prems by (intro exI [of _ k]) auto
  next
    case True
    then have "mx - (k + 1) < mx - k" "k + 1 < mx" by auto
    from less.hyps [OF this] obtain n where n: "k + 1 \<le> n" "n < mx" "\<forall>j. k + 1 \<le> j \<and> j < n \<longrightarrow> wantsRetry fn classify j"
      "n + 1 = mx \<or> \<not> wantsRetry fn classify n"
      "retryFrom fn classify mx (k + 1) = (finalOutcome fn classify n, map (delayOf fn classify) [k + 1..<n])" by blast
    have "retryFrom fn classify mx k = (finalOutcome fn classify n, delayOf fn classify k # map (delayOf fn classify) [k + 1..<n])"
      using True n(5)
      by (subst retryFrom.simps)
        (auto simp: wantsRetry_def delayOf_def split: sum.splits RetryDecision.splits)
    moreover have "delayOf fn classify k # map (delayOf fn classify) [k + 1..<n] = map (delayOf fn classify) [k..<n]"
      using n(1) by (simp add: upt_conv_Cons)
    moreover have "wantsRetry fn classify j" if "k \<le> j" "j < n" for j
      using n(3) True that by (cases "j = k") auto
    ultimately show ?thesis using n by (intro exI [of _ n]) auto
  qed
qed

lemma attemptCap_pos: "0 < attemptCap m"
  by (simp add: attemptCap_def)

lemma withRetry_last:
  obtains n where "n < attemptCap m" "\<forall>j < n. wantsRetry fn classify j"
    "n + 1 = attemptCap m \<or> \<not> wantsRetry fn classify n"
    "withRetry fn classify m = (finalOutcome fn classify n, map (delayOf fn classify) [0..<n])"
  using retryFrom_last [OF attemptCap_pos, of m fn classify] unfolding withRetry_def by auto

text \<open>
  The retry loop, exactly.  It stops at an attempt below the cap (at least one attempt is made),
  every earlier attempt failed with an error the classifier retries, the last one is the final
  allowed attempt or one that is not retried, its outcome (or the substitute error) is what the
  loop returns, and the loop slept once between two attempts, for the delay the classifier asked.
\<close>

theorem retry_loop_exact:
  "\<exists>n < attemptCap m.
     (\<forall>j < n. wantsRetry fn classify j) \<and> (n + 1 = attemptCap m \<or> \<not> wantsRetry fn classify n) \<and>
     withRetry fn classify m = (finalOutcome fn classify n, map (delayOf fn classify) [0..<n])"
  by (rule withRetry_last [of m fn classify]) blast

definition sampleOp :: "nat \<Rightarrow> string + nat" where
  "sampleOp k = (if k < 1 then Inl ''e'' else Inr k)"

theorem retry_loop_exact_witness:
  "\<exists>n < attemptCap (Some 3).
     (\<forall>j < n. wantsRetry sampleOp (\<lambda>_ _. RetryAfter 5) j) \<and>
     (n + 1 = attemptCap (Some 3) \<or> \<not> wantsRetry sampleOp (\<lambda>_ _. RetryAfter 5) n) \<and>
     withRetry sampleOp (\<lambda>_ _. RetryAfter 5) (Some 3) =
       (finalOutcome sampleOp (\<lambda>_ _. RetryAfter 5) n, map (delayOf sampleOp (\<lambda>_ _. RetryAfter 5)) [0..<n])"
  by (rule retry_loop_exact)

text \<open>A policy that stops retrying at some attempt bounds the number of sleeps whatever the cap.\<close>

locale retry_policy =
  fixes classify :: "'e \<Rightarrow> nat \<Rightarrow> 'e RetryDecision" and limit :: nat
  assumes stops_at_limit: "limit \<le> k \<Longrightarrow> classify e k \<noteq> RetryAfter d"
begin

lemma few_sleeps: "length (snd (withRetry fn classify m)) \<le> limit"
proof -
  obtain n where n: "\<forall>j < n. wantsRetry fn classify j"
    "withRetry fn classify m = (finalOutcome fn classify n, map (delayOf fn classify) [0..<n])"
    by (rule withRetry_last [of m fn classify])
  have "\<not> wantsRetry fn classify limit"
    using stops_at_limit by (auto simp: wantsRetry_def split: sum.splits RetryDecision.splits)
  then have "\<not> limit < n" using n(1) by blast
  then show ?thesis using n(2) by simp
qed

end

lemma RETRY_LIMITS_le: "RETRY_LIMITS k \<le> 5"
  by (cases k) simp_all

interpretation llm_policy: retry_policy "llmClassify classifyError rnd ctxError" 5 for classifyError rnd ctxError
proof unfold_locales
  show "llmClassify classifyError rnd ctxError e k \<noteq> RetryAfter d" if "5 \<le> k" for k e d
    using that RETRY_LIMITS_le [of "ec_kind (classifyError e)"] by (simp add: llmClassify_def Let_def)
qed

text \<open>
  How long the provider retry goes on.  When every attempt fails with a retriable kind, the
  loop makes exactly one more attempt than that kind's limit, and in every case at most six attempts.
\<close>

theorem llm_retry_attempts:
  "length (snd (llmWithRetry classifyError rnd ctxError fn)) \<le> 5 \<and>
   ((\<forall>k. \<exists>e. fn k = Inl e \<and> ec_kind (classifyError e) = kind) \<and> kind \<in> {RateLimit, Overloaded, Transient} \<longrightarrow>
     length (snd (llmWithRetry classifyError rnd ctxError fn)) = RETRY_LIMITS kind \<and>
     fst (llmWithRetry classifyError rnd ctxError fn) = fn (RETRY_LIMITS kind))"
proof (intro conjI impI)
  let ?cl = "llmClassify classifyError rnd ctxError"
  show "length (snd (llmWithRetry classifyError rnd ctxError fn)) \<le> 5"
    unfolding llmWithRetry_def by (rule llm_policy.few_sleeps)
  assume a: "(\<forall>k. \<exists>e. fn k = Inl e \<and> ec_kind (classifyError e) = kind) \<and> kind \<in> {RateLimit, Overloaded, Transient}"
  then have k: "kind \<noteq> Auth" "kind \<noteq> Fatal" "kind \<noteq> ContextLength" by auto
  have w: "wantsRetry fn ?cl k \<longleftrightarrow> k < RETRY_LIMITS kind" and f: "finalOutcome fn ?cl k = fn k" for k
  proof -
    obtain e where "fn k = Inl e" "ec_kind (classifyError e) = kind" using a by blast
    then show "wantsRetry fn ?cl k \<longleftrightarrow> k < RETRY_LIMITS kind" "finalOutcome fn ?cl k = fn k"
      using k by (auto simp: wantsRetry_def finalOutcome_def llmClassify_def Let_def)
  qed
  have cap: "attemptCap (Some MAX_ATTEMPTS) = 6" by (simp add: attemptCap_def MAX_ATTEMPTS_def)
  obtain n where n: "n < attemptCap (Some MAX_ATTEMPTS)" "\<forall>j < n. wantsRetry fn ?cl j"
    "n + 1 = attemptCap (Some MAX_ATTEMPTS) \<or> \<not> wantsRetry fn ?cl n"
    "withRetry fn ?cl (Some MAX_ATTEMPTS) = (finalOutcome fn ?cl n, map (delayOf fn ?cl) [0..<n])"
    by (rule withRetry_last [of "Some MAX_ATTEMPTS" fn ?cl])
  have "\<not> RETRY_LIMITS kind < n" using n(2) w [of "RETRY_LIMITS kind"] by auto
  then have "n \<le> RETRY_LIMITS kind" by simp
  moreover have "RETRY_LIMITS kind \<le> n" using n(3) w [of n] RETRY_LIMITS_le [of kind] by (auto simp: cap)
  ultimately show "length (snd (llmWithRetry classifyError rnd ctxError fn)) = RETRY_LIMITS kind"
    "fst (llmWithRetry classifyError rnd ctxError fn) = fn (RETRY_LIMITS kind)"
    using n(4) f by (simp_all add: llmWithRetry_def)
qed

theorem llm_retry_attempts_witness:
  "length (snd (llmWithRetry (\<lambda>_. \<lparr>ec_kind = Overloaded, ec_retryAfterMs = None\<rparr>) (\<lambda>_. 0) (\<lambda>e. e)
     (\<lambda>k. Inl ''overloaded'' :: string + nat))) = 3"
  using llm_retry_attempts [of "\<lambda>_. \<lparr>ec_kind = Overloaded, ec_retryAfterMs = None\<rparr>" "\<lambda>_. 0" "\<lambda>e. e"
      "\<lambda>k. Inl ''overloaded'' :: string + nat" Overloaded] by simp

lemma BACKOFF_length: "length BACKOFF_MS - 1 = 4"
  by (simp add: BACKOFF_MS_def)

text \<open>
  A provider delay stays within a fifth of its base: with a random draw between 0 and 1 and
  a base that is not negative, the delay lies between 80 and 120 percent of the server's
  retry-after when it gave one, and of the schedule entry otherwise, so never above 19.2 seconds
  then.
\<close>

theorem llm_retry_delay_window:
  assumes "llmClassify classifyError rnd ctxError err k = RetryAfter d" "0 \<le> rnd k" "rnd k \<le> 1"
    and "base = (case ec_retryAfterMs (classifyError err) of Some ms \<Rightarrow> ms | None \<Rightarrow> BACKOFF_MS ! min k 4)" "0 \<le> base"
  shows "base * 4 / 5 \<le> d \<and> d \<le> base * 6 / 5 \<and> (ec_retryAfterMs (classifyError err) = None \<longrightarrow> d \<le> 19200)"
proof -
  have d: "d = max 0 (base + base * JITTER * (rnd k * 2 - 1))"
    using assms(1,4) unfolding llmClassify_def Let_def BACKOFF_length by (auto split: if_splits)
  have j: "- (base / 5) \<le> base * JITTER * (rnd k * 2 - 1) \<and> base * JITTER * (rnd k * 2 - 1) \<le> base / 5"
    using assms(2,3,5) mult_left_mono [of "rnd k * 2 - 1" 1 "base / 5"] mult_left_mono [of "-1" "rnd k * 2 - 1" "base / 5"]
    by (simp add: JITTER_def)
  have w: "base * 4 / 5 \<le> d" "d \<le> base * 6 / 5" unfolding d using j assms(5) by (auto simp: max_def)
  moreover have "d \<le> 19200" if "ec_retryAfterMs (classifyError err) = None"
  proof -
    have "min k 4 < 5" by simp
    then have "BACKOFF_MS ! min k 4 \<le> 16000"
      unfolding BACKOFF_MS_def by (auto simp: less_Suc_eq numeral_eq_Suc)
    then show ?thesis using w(2) that assms(4) by simp
  qed
  ultimately show ?thesis by blast
qed

theorem llm_retry_delay_window_witness:
  "llmClassify (\<lambda>_ :: nat. \<lparr>ec_kind = RateLimit, ec_retryAfterMs = None\<rparr>) (\<lambda>_. 0) (\<lambda>e. e) 0 2 = RetryAfter 3200 \<and>
     (4000 :: rat) * 4 / 5 \<le> 3200 \<and> (3200 :: rat) \<le> 19200"
proof -
  have c: "llmClassify (\<lambda>_ :: nat. \<lparr>ec_kind = RateLimit, ec_retryAfterMs = None\<rparr>) (\<lambda>_. 0) (\<lambda>e. e) 0 2 = RetryAfter 3200"
    by (simp add: llmClassify_def Let_def BACKOFF_MS_def JITTER_def)
  from llm_retry_delay_window [OF this, of 4000] show ?thesis using c by (simp add: BACKOFF_MS_def)
qed

end
