(* ===== verification/Marker.thy ===== *)
theory Marker
  imports Regex
begin

text \<open>
  Fingerprints of findings: how they are computed (\<open>core/src/fingerprint.ts\<close>, SHA-256 a
  parameter), how they travel in a hidden comment (\<open>core/src/comment-fingerprint.ts\<close>) and
  how a \<open>/feedback\<close> reply is resolved to one (\<open>runner/src/feedback-fingerprint-resolver.ts\<close>).
\<close>

section \<open>\<open>core/src/fingerprint.ts\<close>\<close>

definition FINGERPRINT_LENGTH :: nat where "FINGERPRINT_LENGTH = 16"

record FingerprintInput =
  fi_path :: string
  fi_line :: int
  fi_ruleId :: string
  fi_suggestionType :: string

definition fingerprint :: "(string \<Rightarrow> string) \<Rightarrow> FingerprintInput \<Rightarrow> string" where
  "fingerprint sha c =
     (let normalized = fi_path c @ '':'' @ intToString (fi_line c) @ '':'' @ fi_ruleId c @ '':'' @ fi_suggestionType c
      in take FINGERPRINT_LENGTH (sha normalized))"

section \<open>\<open>core/src/comment-fingerprint.ts\<close>\<close>

definition hexI :: rx where
  "hexI = Cls False [(48, 57), (65, 70), (97, 102)]"

text \<open>What stands between the first and the last character of the expression.\<close>

definition markerMid :: rx where
  "markerMid = rx_seq [rx_str ''!--'', Star rx_space, rx_strI ''fingerprint:'', rx_between 8 16 hexI, Star rx_space, rx_str ''--'']"

definition FINGERPRINT_MARKER_REGEX :: rx where
  "FINGERPRINT_MARKER_REGEX = Seq (Lit (CHR ''<'')) (Seq markerMid (Lit (CHR ''>'')))"

definition expectedMarker :: "string \<Rightarrow> string" where
  "expectedMarker fp = ''<!-- fingerprint:'' @ fp @ '' -->''"

definition appendFingerprintMarker :: "string \<Rightarrow> string \<Rightarrow> string" where
  "appendFingerprintMarker body fp =
     (let expected = expectedMarker fp in
      if endsWith (trimEnd body) expected then body
      else (let sep = (if endsWith body [LF] then [] else [LF, LF]) in body @ sep @ expected))"

text \<open>
  The capture group: in a match the first colon is the one after \<open>fingerprint\<close>, and the
  group is the run of hexadecimal digits that follows.
\<close>

definition isHexI :: "char \<Rightarrow> bool" where
  "isHexI c = in_cls False [(48, 57), (65, 70), (97, 102)] c"

definition markerGroup :: "string \<Rightarrow> string" where
  "markerGroup m = takeWhile isHexI (tl (dropWhile (\<lambda>c. c \<noteq> CHR '':'') m))"

definition extractFingerprintFromComment :: "string \<Rightarrow> string option" where
  "extractFingerprintFromComment body =
     (case rx_find FINGERPRINT_MARKER_REGEX ([], body) of
        None \<Rightarrow> None
      | Some (a, b) \<Rightarrow>
          (let g = markerGroup (matched a b) in if g = [] then None else Some (toLowerCase g)))"

section \<open>\<open>runner/src/feedback-fingerprint-resolver.ts\<close>\<close>

record FingerprintResolutionInput =
  fr_commentBody :: string
  fr_fpPrefix :: "string option"
  fr_knownFingerprints :: "string list"

datatype ResolutionSource = SrcMarker | SrcPrefix
datatype ResolutionFailure = NoMatch | AmbiguousPrefix | NoMarkerAndNoPrefix
datatype FingerprintResolution = Resolved string ResolutionSource | Unresolved ResolutionFailure

definition resolveFingerprint :: "FingerprintResolutionInput \<Rightarrow> FingerprintResolution" where
  "resolveFingerprint i =
     (let marker = extractFingerprintFromComment (fr_commentBody i);
          byPrefix = (case fr_fpPrefix i of
             None \<Rightarrow> Unresolved NoMarkerAndNoPrefix
           | Some p \<Rightarrow>
               (let needle = toLowerCase p;
                    matches = filter (\<lambda>fp. startsWith fp needle) (fr_knownFingerprints i)
                in case matches of
                     [hit] \<Rightarrow> Resolved hit SrcPrefix
                   | _ \<Rightarrow> if length matches > 1 then Unresolved AmbiguousPrefix else Unresolved NoMatch))
      in case marker of
           Some mk \<Rightarrow> if mk \<in> set (fr_knownFingerprints i) then Resolved mk SrcMarker else byPrefix
         | None \<Rightarrow> byPrefix)"

section \<open>The shape of a match\<close>

lemma of_char_num: "(of_char c :: nat) = of_char d \<Longrightarrow> c = d"
  by simp

lemma markerMid_only: "rx_only (\<lambda>c. c \<noteq> CHR ''<'' \<and> c \<noteq> CHR ''>'') markerMid"
  by (auto simp: markerMid_def rx_only_str rx_only_strI rx_between_def rx_space_def hexI_def in_cls_def foldA_def
      intro!: rx_only_rep rx_only_upto)

lemma marker_match_shape:
  "rx_lang FINGERPRINT_MARKER_REGEX w \<longleftrightarrow>
     (\<exists>m. w = CHR ''<'' # m @ [CHR ''>''] \<and> rx_lang markerMid m)"
  by (auto simp: FINGERPRINT_MARKER_REGEX_def)

lemma markerMid_chars: "rx_lang markerMid m \<Longrightarrow> CHR ''<'' \<notin> set m \<and> CHR ''>'' \<notin> set m"
  using rx_only_lang [OF _ markerMid_only] by blast

lemma no_assert_marker [simp]: "no_assert FINGERPRINT_MARKER_REGEX"
  by (simp add: FINGERPRINT_MARKER_REGEX_def markerMid_def rx_between_def rx_space_def hexI_def)

definition isFingerprint :: "string \<Rightarrow> bool" where
  "isFingerprint fp = (8 \<le> length fp \<and> length fp \<le> 16 \<and>
     (\<forall>c \<in> set fp. in_cls False [(48, 57), (97, 102)] c))"

lemma rx_lang_rep_cls:
  "rx_lang (rx_rep n (Cls neg rs)) w \<longleftrightarrow> length w = n \<and> (\<forall>c \<in> set w. in_cls neg rs c)"
proof (induction n arbitrary: w)
  case (Suc n)
  then show ?case by (cases w) auto
qed auto

lemma rx_lang_upto_cls:
  "rx_lang (rx_upto n (Cls neg rs)) w \<longleftrightarrow> length w \<le> n \<and> (\<forall>c \<in> set w. in_cls neg rs c)"
proof (induction n arbitrary: w)
  case (Suc n)
  then show ?case by (cases w) auto
qed auto

lemma rx_lang_between_cls:
  assumes "n \<le> m"
  shows "rx_lang (rx_between n m (Cls neg rs)) w \<longleftrightarrow> n \<le> length w \<and> length w \<le> m \<and> (\<forall>c \<in> set w. in_cls neg rs c)"
    (is "?L = ?R")
proof
  assume ?R
  then have "w = take n w @ drop n w" "rx_lang (rx_rep n (Cls neg rs)) (take n w)" "rx_lang (rx_upto (m - n) (Cls neg rs)) (drop n w)"
    by (auto simp: rx_lang_rep_cls rx_lang_upto_cls dest: in_set_takeD in_set_dropD)
  then show ?L unfolding rx_between_def rx_lang.simps by blast
qed (use assms in \<open>auto simp: rx_between_def rx_lang_rep_cls rx_lang_upto_cls\<close>)

lemma rx_lang_strI_refl: "rx_lang (rx_strI s) s"
  by (induction s) auto

lemma star_one: "L w \<Longrightarrow> star_of L w"
  using star_app [of L w "[]"] star_nil by fastforce

lemma hex_lower_hexI: "in_cls False [(48, 57), (97, 102)] c \<Longrightarrow> in_cls False [(48, 57), (65, 70), (97, 102)] c"
  by (auto simp: in_cls_def)

lemma expectedMarker_mid:
  assumes "isFingerprint fp"
  shows "rx_lang markerMid (''!-- fingerprint:'' @ fp @ '' --'')"
proof -
  have sp: "rx_lang (Star rx_space) '' ''" 
    unfolding rx_lang.simps by (rule star_one) (simp add: rx_space_def in_cls_def)
  have h: "rx_lang (rx_between 8 16 hexI) fp"
    using assms by (auto simp: hexI_def rx_lang_between_cls isFingerprint_def hex_lower_hexI)
  have "rx_lang markerMid (''!--'' @ '' '' @ ''fingerprint:'' @ fp @ '' '' @ ''--'' @ [])"
    unfolding markerMid_def rx_seq.simps
    by (intro rx_lang_SeqI sp h rx_lang_strI_refl) (simp_all only: rx_lang_str rx_lang.simps)
  then show ?thesis by simp
qed

lemma expectedMarker_eq: "expectedMarker fp = CHR ''<'' # (''!-- fingerprint:'' @ fp @ '' --'') @ [CHR ''>'']"
  by (simp add: expectedMarker_def)

lemma expectedMarker_lang: "isFingerprint fp \<Longrightarrow> rx_lang FINGERPRINT_MARKER_REGEX (expectedMarker fp)"
  unfolding marker_match_shape expectedMarker_eq using expectedMarker_mid by blast

text \<open>
  In a text that ends in a marker and has none before it, the only match is that marker: a match
  opens at its only less-than sign and closes at its only greater-than sign.
\<close>

lemma only_match:
  assumes "u @ w @ t = pre @ sp @ expectedMarker fp" "rx_lang FINGERPRINT_MARKER_REGEX w" "isFingerprint fp"
    and "\<not> rx_test FINGERPRINT_MARKER_REGEX pre" "\<forall>c \<in> set sp. c = LF"
  shows "w = expectedMarker fp \<and> t = []"
proof -
  obtain m where m: "w = CHR ''<'' # m @ [CHR ''>'']" "CHR ''<'' \<notin> set m" "CHR ''>'' \<notin> set m"
    using assms(2) markerMid_chars unfolding marker_match_shape by blast
  obtain e where e: "expectedMarker fp = CHR ''<'' # e @ [CHR ''>'']" "CHR ''<'' \<notin> set e" "CHR ''>'' \<notin> set e"
    using expectedMarker_mid [OF assms(3)] markerMid_chars expectedMarker_eq [of fp] by blast
  consider v where "u = pre @ sp @ v" "v @ w @ t = expectedMarker fp" |
      v where "u @ v = pre @ sp" "w @ t = v @ expectedMarker fp" "v \<noteq> []"
    using assms(1) append_eq_append_conv2 [of u "w @ t" "pre @ sp" "expectedMarker fp"] by (auto, metis append_Nil2)
  then show ?thesis
  proof cases
    case (1 v)
    then show ?thesis
    proof (cases v)
      case Nil
      then have "m @ CHR ''>'' # t = e @ CHR ''>'' # []" using 1 m e by simp
      from split_at_unique [OF m(3) e(3) this] show ?thesis using m e by simp
    next
      case (Cons c v')
      then have "v' @ CHR ''<'' # (m @ CHR ''>'' # t) = e @ [CHR ''>'']" using 1 m e by simp
      then have "CHR ''<'' \<in> set (e @ [CHR ''>''])" by (metis in_set_conv_decomp)
      then show ?thesis using e by simp
    qed
  next
    case (2 v)
    obtain v' where v': "v = CHR ''<'' # v'" "(m @ [CHR ''>'']) @ t = v' @ CHR ''<'' # (e @ [CHR ''>''])"
      using 2 m e by (cases v) auto
    have "CHR ''<'' \<notin> set (m @ [CHR ''>''])" using m(2) by simp
    from prefix_before [OF this v'(2)] obtain x where "v' = (m @ [CHR ''>'']) @ x" by blast
    then have q: "(u @ w) @ x = pre @ sp" using 2 v' m by simp
    have "last (u @ w) = CHR ''>''" using m(1) by simp
    moreover have "CHR ''>'' \<notin> set sp" using assms(5) by blast
    ultimately have l: "last (u @ w) \<notin> set sp" by (simp only:) simp
    have "u @ w \<noteq> []" using m(1) by simp
    from last_not_in_rest [OF q this l] obtain y where "pre = (u @ w) @ y" by blast
    then have "pre = u @ w @ y" by simp
    then have "rx_test FINGERPRINT_MARKER_REGEX pre" unfolding rx_test_lang [OF no_assert_marker] using assms(2) by blast
    then show ?thesis using assms(4) by simp
  qed
qed

text \<open>
  A fingerprint survives its trip through a comment.  For a body that holds no marker and a
  fingerprint of 8 to 16 lower-case hexadecimal digits, reading the comment back gives the
  fingerprint that was appended, the body is kept as a prefix, and appending twice is the same as
  appending once.
\<close>

theorem marker_roundtrip:
  assumes "isFingerprint fp" "\<not> rx_test FINGERPRINT_MARKER_REGEX body"
  shows "extractFingerprintFromComment (appendFingerprintMarker body fp) = Some fp \<and>
    startsWith (appendFingerprintMarker body fp) body \<and>
    appendFingerprintMarker (appendFingerprintMarker body fp) fp = appendFingerprintMarker body fp"
proof -
  define sep where "sep = (if endsWith body [LF] then [] else [LF, LF])"
  have "\<not> endsWith (trimEnd body) (expectedMarker fp)"
  proof
    assume "endsWith (trimEnd body) (expectedMarker fp)"
    moreover obtain r where "body = trimEnd body @ r"
      unfolding trimEnd_def by (metis rev_append rev_rev_ident takeWhile_dropWhile_id)
    ultimately show False
      using assms expectedMarker_lang unfolding endsWith_iff_append rx_test_lang [OF no_assert_marker] by (metis append_assoc)
  qed
  then have a: "appendFingerprintMarker body fp = body @ sep @ expectedMarker fp"
    by (simp add: appendFingerprintMarker_def Let_def sep_def)
  have tr: "trimEnd (body @ sep @ expectedMarker fp) = body @ sep @ expectedMarker fp"
    by (simp add: trimEnd_def expectedMarker_def isSpace_def)
  have "rx_test FINGERPRINT_MARKER_REGEX (body @ sep @ expectedMarker fp)"
    using expectedMarker_lang [OF assms(1)] unfolding rx_test_lang [OF no_assert_marker] by (metis append_Nil2 append_assoc)
  then obtain p q where f: "rx_find FINGERPRINT_MARKER_REGEX ([], body @ sep @ expectedMarker fp) = Some (p, q)"
    unfolding rx_test_def by auto
  from rx_find_lang [OF no_assert_marker f] obtain u where
    e: "body @ sep @ expectedMarker fp = u @ matched p q @ snd q" and l: "rx_lang FINGERPRINT_MARKER_REGEX (matched p q)" by blast
  have "\<forall>c \<in> set sep. c = LF" by (simp add: sep_def)
  then have w: "matched p q = expectedMarker fp"
    using only_match [OF e [symmetric] l assms] by blast
  have hx: "c \<in> set fp \<Longrightarrow> isHexI c \<and> toLowerC c = c" for c
    using assms(1) by (auto simp: isFingerprint_def isHexI_def hex_lower_hexI toLowerC_def in_cls_def Let_def)
  then have "takeWhile isHexI (fp @ '' -->'') = fp" by (subst takeWhile_append2) (auto simp: isHexI_def in_cls_def)
  then have g: "markerGroup (expectedMarker fp) = fp" by (simp add: markerGroup_def expectedMarker_def)
  have "toLowerCase fp = fp" unfolding toLowerCase_def using hx by (simp add: map_idI)
  moreover have "fp \<noteq> []" using assms(1) by (auto simp: isFingerprint_def)
  ultimately have "extractFingerprintFromComment (appendFingerprintMarker body fp) = Some fp"
    by (simp add: extractFingerprintFromComment_def a f w g Let_def)
  moreover have "appendFingerprintMarker (body @ sep @ expectedMarker fp) fp = body @ sep @ expectedMarker fp"
    unfolding appendFingerprintMarker_def [of "body @ sep @ expectedMarker fp"] tr Let_def endsWith_iff_append
    by (metis append_assoc)
  ultimately show ?thesis using a by simp
qed

theorem marker_roundtrip_witness:
  "extractFingerprintFromComment (appendFingerprintMarker ''Use === here.'' ''0123456789abcdef'') = Some ''0123456789abcdef''"
proof -
  have "isFingerprint ''0123456789abcdef''" by (simp add: isFingerprint_def in_cls_def)
  moreover have "\<not> rx_test FINGERPRINT_MARKER_REGEX ''Use === here.''" by code_simp
  ultimately show ?thesis using marker_roundtrip by blast
qed

text \<open>
  The resolver only ever answers with a fingerprint the bot posted.  A resolution names a known
  fingerprint: the one embedded in the comment, or the only known one with the given prefix; an
  ambiguous prefix is refused.
\<close>

theorem resolve_known:
  assumes r: "resolveFingerprint i = Resolved fp src"
  shows "fp \<in> set (fr_knownFingerprints i) \<and>
     (case src of SrcMarker \<Rightarrow> extractFingerprintFromComment (fr_commentBody i) = Some fp
        | SrcPrefix \<Rightarrow> (\<exists>p. fr_fpPrefix i = Some p \<and>
            filter (\<lambda>f. startsWith f (toLowerCase p)) (fr_knownFingerprints i) = [fp]))"
proof (cases "\<exists>mk. extractFingerprintFromComment (fr_commentBody i) = Some mk \<and> mk \<in> set (fr_knownFingerprints i)")
    case True
    then show ?thesis using r by (auto simp: resolveFingerprint_def Let_def)
  next
    case False
    then obtain p where p: "fr_fpPrefix i = Some p"
      using r by (auto simp: resolveFingerprint_def Let_def split: option.splits if_splits)
    let ?f = "filter (\<lambda>f. startsWith f (toLowerCase p)) (fr_knownFingerprints i)"
    have "?f = [fp] \<and> src = SrcPrefix"
      using r False p by (auto simp: resolveFingerprint_def Let_def split: option.splits if_splits list.splits)
    moreover have "set ?f \<subseteq> set (fr_knownFingerprints i)" by auto
    ultimately show ?thesis using p by auto
qed

definition sampleReply :: FingerprintResolutionInput where
  "sampleReply = \<lparr>fr_commentBody = ''x'', fr_fpPrefix = Some ''ABCD1234'',
     fr_knownFingerprints = [''abcd1234abcd1234'', ''ffff0000ffff0000'']\<rparr>"

theorem resolve_known_witness:
  "''abcd1234abcd1234'' \<in> set (fr_knownFingerprints sampleReply) \<and>
     (\<exists>p. fr_fpPrefix sampleReply = Some p \<and>
       filter (\<lambda>f. startsWith f (toLowerCase p)) (fr_knownFingerprints sampleReply) = [''abcd1234abcd1234''])"
proof -
  have "resolveFingerprint sampleReply = Resolved ''abcd1234abcd1234'' SrcPrefix" by code_simp
  from resolve_known [OF this] show ?thesis by simp
qed

end
