(* ===== verification/Incremental.thy ===== *)
theory Incremental
  imports Regex Review
begin

text \<open>
  Which diff a review looks at (\<open>core/src/incremental.ts\<close>) and whether it yields to another
  bot (\<open>runner/src/coordination.ts\<close>).  Git is a parameter: the outcome of
  \<open>git merge-base a b\<close> at the first try and at the retry.
\<close>

section \<open>Classification of git failures\<close>

datatype IncrementalGitFailureReason = GitAuth | GitTransient | GitPermanent

definition AUTH_ERROR_PATTERNS :: "rx list" where
  "AUTH_ERROR_PATTERNS =
     [rx_strI ''permission denied'', rx_strI ''authentication failed'', rx_strI ''could not read from remote'',
      rx_strI ''unable to access'', rx_strI ''host key verification failed'', rx_strI ''could not read username'',
      rx_seq [Wb, rx_strI ''http/'', rx_plus (Cls False [(48, 57), (46, 46)]), rx_plus rx_space, rx_str ''40'',
        Cls False [(49, 49), (51, 51)], Wb]]"

definition TRANSIENT_ERROR_PATTERNS :: "rx list" where
  "TRANSIENT_ERROR_PATTERNS =
     [rx_strI ''timed out'', rx_seq [Wb, rx_strI ''timeout'', Wb], rx_strI ''could not resolve host'',
      rx_strI ''temporary failure'', rx_strI ''network is unreachable'', rx_strI ''connection reset'',
      rx_strI ''connection refused'',
      rx_alts [rx_seq [Wb, rx_strI ''bad gateway'', Wb], rx_seq [Wb, rx_strI ''service unavailable'', Wb],
        rx_seq [Wb, rx_strI ''gateway timeout'', Wb]],
      rx_str ''failed (null):'']"

definition classifyGitError :: "string \<Rightarrow> IncrementalGitFailureReason" where
  "classifyGitError message =
     (if list_ex (\<lambda>p. rx_test p message) AUTH_ERROR_PATTERNS then GitAuth
      else if list_ex (\<lambda>p. rx_test p message) TRANSIENT_ERROR_PATTERNS then GitTransient
      else GitPermanent)"

section \<open>The strategy\<close>

record IncrementalGitFailure =
  gf_reason :: IncrementalGitFailureReason
  gf_args :: "string list"
  gf_message :: string
  gf_retried :: bool

datatype DiffStrategy = Full | Since string

type_synonym RunGit = "string \<Rightarrow> string \<Rightarrow> nat \<Rightarrow> string + string"

text \<open>\<open>mergeBase\<close>: one retry after a transient failure; a failure is reported once and yields \<open>null\<close>.\<close>

definition mergeBase :: "RunGit \<Rightarrow> string \<Rightarrow> string \<Rightarrow> string option \<times> IncrementalGitFailure list" where
  "mergeBase runGit a b =
     (case runGit a b 0 of
        Inr out \<Rightarrow> (Some out, [])
      | Inl message \<Rightarrow>
          (let reason = classifyGitError message in
           if reason = GitTransient
           then (case runGit a b 1 of
                   Inr out \<Rightarrow> (Some out, [])
                 | Inl m2 \<Rightarrow> (None, [\<lparr>gf_reason = classifyGitError m2, gf_args = [''merge-base'', a, b], gf_message = m2, gf_retried = True\<rparr>]))
           else (None, [\<lparr>gf_reason = reason, gf_args = [''merge-base'', a, b], gf_message = message, gf_retried = False\<rparr>])))"

definition falsy :: "string option \<Rightarrow> bool" where
  "falsy x = (x = None \<or> x = Some [])"

definition computeDiffStrategy :: "RunGit \<Rightarrow> ReviewState option \<Rightarrow> string \<Rightarrow> string \<Rightarrow> DiffStrategy \<times> IncrementalGitFailure list" where
  "computeDiffStrategy runGit prevState baseSha headSha =
     (case prevState of
        None \<Rightarrow> (Full, [])
      | Some st \<Rightarrow>
          (let previousHead = rs_lastReviewedSha st; previousBase = rs_baseSha st in
           if previousHead = [] \<or> previousBase = [] then (Full, [])
           else (let (prevMb, f1) = mergeBase runGit previousBase previousHead;
                     (currMb, f2) = mergeBase runGit baseSha headSha
                 in if falsy prevMb \<or> falsy currMb then (Full, f1 @ f2)
                    else if prevMb \<noteq> currMb then (Full, f1 @ f2)
                    else (let (reachable, f3) = mergeBase runGit previousHead headSha
                          in if reachable \<noteq> Some previousHead then (Full, f1 @ f2 @ f3)
                             else (Since previousHead, f1 @ f2 @ f3)))))"

section \<open>Coordination with other bots\<close>

datatype CoordinationMode = Ignore | DeferIfPresent
datatype CoordinationDecision = CoordProceed | CoordDefer string

fun firstKnown :: "string list \<Rightarrow> string list \<Rightarrow> CoordinationDecision" where
  "firstKnown bots [] = CoordProceed"
| "firstKnown bots (a # as) = (if a \<in> set bots then CoordDefer a else firstKnown bots as)"

definition decideCoordination :: "CoordinationMode \<Rightarrow> string list \<Rightarrow> string list \<Rightarrow> CoordinationDecision" where
  "decideCoordination mode botLogins authors = (if mode = Ignore then CoordProceed else firstKnown botLogins authors)"

section \<open>Properties\<close>

lemma firstKnown_defer: "firstKnown bots as = CoordDefer b \<Longrightarrow> b \<in> set as \<and> b \<in> set bots"
  by (induction as) (auto split: if_splits)

lemma firstKnown_proceed: "firstKnown bots as = CoordProceed \<longleftrightarrow> set as \<inter> set bots = {}"
  by (induction as) auto

lemma mergeBase_ok: "mergeBase runGit a b = (Some out, fs) \<Longrightarrow>
    fs = [] \<and> (runGit a b 0 = Inr out \<or>
      (\<exists>m. runGit a b 0 = Inl m \<and> classifyGitError m = GitTransient \<and> runGit a b 1 = Inr out))"
  by (auto simp: mergeBase_def Let_def split: sum.splits if_splits)

lemma mergeBase_reports: "mergeBase runGit a b = (None, fs) \<Longrightarrow> \<exists>f. fs = [f] \<and> gf_args f = [''merge-base'', a, b]"
  by (auto simp: mergeBase_def Let_def split: sum.splits if_splits)

lemma mergeBase_cases: "snd (mergeBase runGit a b) = [] \<longleftrightarrow> fst (mergeBase runGit a b) \<noteq> None"
  using mergeBase_ok [of runGit a b] mergeBase_reports [of runGit a b]
  by (cases "mergeBase runGit a b"; cases "fst (mergeBase runGit a b)") auto

text \<open>
  An incremental review is only ever chosen on evidence.  The strategy is incremental exactly
  when there is a previous state with both commits recorded, the three merge-base queries all
  succeeded, the branch point did not move and the last reviewed commit is an ancestor of the new
  head; the review then starts at that commit and no failure was reported.  Every failure falls
  back to a full review.
\<close>

theorem incremental_iff:
  "computeDiffStrategy runGit prev baseSha headSha = (Since s, fs) \<longleftrightarrow>
     (\<exists>st mb. prev = Some st \<and> rs_lastReviewedSha st = s \<and> s \<noteq> [] \<and> rs_baseSha st \<noteq> [] \<and> mb \<noteq> [] \<and>
        mergeBase runGit (rs_baseSha st) s = (Some mb, []) \<and>
        mergeBase runGit baseSha headSha = (Some mb, []) \<and>
        mergeBase runGit s headSha = (Some s, []) \<and> fs = [])"
proof (cases prev)
  case None
  then show ?thesis by (simp add: computeDiffStrategy_def)
next
  case (Some st)
  let ?h = "rs_lastReviewedSha st"
  obtain a f1 where 1: "mergeBase runGit (rs_baseSha st) ?h = (a, f1)" by (cases "mergeBase runGit (rs_baseSha st) ?h")
  obtain b f2 where 2: "mergeBase runGit baseSha headSha = (b, f2)" by (cases "mergeBase runGit baseSha headSha")
  obtain c f3 where 3: "mergeBase runGit ?h headSha = (c, f3)" by (cases "mergeBase runGit ?h headSha")
  have "a \<noteq> None \<longleftrightarrow> f1 = []" "b \<noteq> None \<longleftrightarrow> f2 = []" "c \<noteq> None \<longleftrightarrow> f3 = []"
    using mergeBase_cases [of runGit "rs_baseSha st" ?h] mergeBase_cases [of runGit baseSha headSha]
      mergeBase_cases [of runGit ?h headSha] 1 2 3 by auto
  then show ?thesis using Some 1 2 3 by (cases a; cases b; cases c) (auto simp: computeDiffStrategy_def Let_def falsy_def)
qed

text \<open>
  Deferring to another bot happens exactly when the mode asks for it and one of the listed
  logins has commented, and the login named is one of them.
\<close>

theorem coordination_iff:
  "(decideCoordination mode bots authors \<noteq> CoordProceed) = (mode = DeferIfPresent \<and> (\<exists>a \<in> set authors. a \<in> set bots))"
proof -
  have "firstKnown bots authors \<noteq> CoordProceed \<longleftrightarrow> (\<exists>a \<in> set authors. a \<in> set bots)"
    using firstKnown_proceed [of bots authors] by blast
  then show ?thesis by (cases mode) (simp_all add: decideCoordination_def)
qed

end
