(* ===== verification/DiffFilter.thy ===== *)
theory DiffFilter
  imports Glob
begin

text \<open>
  Splitting the diff payload into files, dropping the excluded ones and putting the rest back
  together (\<open>runner/src/diff-filter.ts\<close>).
\<close>

record ParsedDiffFile =
  df_path :: string
  df_body :: string

record ParsedDiff =
  pd_preamble :: string
  pd_files :: "ParsedDiffFile list"

definition FILE_HEADER_LINE :: rx where
  "FILE_HEADER_LINE = Seq Bol (Seq (rx_seq [rx_str ''--- '', rx_plus rx_dot]) Eol)"

definition normalizeLine :: "string \<Rightarrow> string" where
  "normalizeLine line = (if endsWith line [CR] then butlast line else line)"

text \<open>The capture group of a match is what follows the four characters of the header.\<close>

definition headerPath :: "string \<Rightarrow> string option" where
  "headerPath line =
     (let normalized = normalizeLine line
      in if rx_test FILE_HEADER_LINE normalized then Some (drop 4 normalized) else None)"

text \<open>One turn of the loop over the lines: the preamble lines and the files so far, the last one open.\<close>

definition parseStep :: "string list \<times> (string \<times> string list) list \<Rightarrow> string \<Rightarrow> string list \<times> (string \<times> string list) list" where
  "parseStep st line =
     (case headerPath line of
        Some p \<Rightarrow> (fst st, snd st @ [(p, [])])
      | None \<Rightarrow>
          if snd st = [] then (fst st @ [line], snd st)
          else (fst st, butlast (snd st) @ [(fst (last (snd st)), snd (last (snd st)) @ [line])]))"

definition parseDiffByFile :: "string \<Rightarrow> ParsedDiff" where
  "parseDiffByFile diff =
     (if diff = [] then \<lparr>pd_preamble = [], pd_files = []\<rparr>
      else (case foldl parseStep ([], []) (splitOn LF diff) of
              (preambleLines, files) \<Rightarrow>
                \<lparr>pd_preamble = joinWith [LF] preambleLines,
                 pd_files = map (\<lambda>f. \<lparr>df_path = fst f, df_body = joinWith [LF] (snd f)\<rparr>) files\<rparr>))"

fun compileGlobs :: "string list \<Rightarrow> rx list result" where
  "compileGlobs [] = Inr []"
| "compileGlobs (g # gs) =
     (case globToRegExp g of
        Inl e \<Rightarrow> Inl e
      | Inr re \<Rightarrow> (case compileGlobs gs of Inl e \<Rightarrow> Inl e | Inr res \<Rightarrow> Inr (re # res)))"

definition applyPathFilters :: "ParsedDiff \<Rightarrow> string list \<Rightarrow> ParsedDiff result" where
  "applyPathFilters parsed filters =
     (if filters = [] then Inr parsed
      else (case compileGlobs filters of
              Inl e \<Rightarrow> Inl e
            | Inr matchers \<Rightarrow>
                (let kept = filter (\<lambda>f. \<not> list_ex (\<lambda>re. rx_test re (df_path f)) matchers) (pd_files parsed)
                 in if length kept = length (pd_files parsed) then Inr parsed
                    else Inr \<lparr>pd_preamble = pd_preamble parsed, pd_files = kept\<rparr>)))"

definition renderFile :: "ParsedDiffFile \<Rightarrow> string" where
  "renderFile f = (if df_body f \<noteq> [] then ''--- '' @ df_path f @ [LF] @ df_body f else ''--- '' @ df_path f)"

definition reassembleDiff :: "ParsedDiff \<Rightarrow> string" where
  "reassembleDiff parsed =
     joinWith [LF] ((if pd_preamble parsed \<noteq> [] then [pd_preamble parsed] else []) @ map renderFile (pd_files parsed))"

definition isDiffLine :: "string \<Rightarrow> bool" where
  "isDiffLine line =
     (case line of
        [] \<Rightarrow> False
      | c # _ \<Rightarrow> (c = CHR ''+'' \<or> c = CHR ''-'') \<and> \<not> (startsWith line ''+++ '' \<or> startsWith line ''--- ''))"

definition countDiffLines :: "ParsedDiff \<Rightarrow> nat" where
  "countDiffLines parsed =
     sum_list (map (\<lambda>f. if df_body f = [] then 0 else length (filter isDiffLine (splitOn LF (df_body f)))) (pd_files parsed))"

section \<open>The payload the entry points build\<close>

text \<open>\<open>files.map((f) => `--- ${f.path}\n${f.patch}`).join('\n')\<close>, as \<open>action/src/run.ts\<close> has it.\<close>

definition renderPayload :: "ParsedDiffFile list \<Rightarrow> string" where
  "renderPayload fs = joinWith [LF] (map (\<lambda>f. ''--- '' @ df_path f @ [LF] @ df_body f) fs)"

definition pathOk :: "string \<Rightarrow> bool" where
  "pathOk p = (p \<noteq> [] \<and> LF \<notin> set p \<and> CR \<notin> set p)"

definition fileOk :: "ParsedDiffFile \<Rightarrow> bool" where
  "fileOk f = (pathOk (df_path f) \<and> (\<forall>l \<in> set (splitOn LF (df_body f)). headerPath l = None))"

lemma dot_lang: "rx_lang rx_dot u \<longleftrightarrow> (\<exists>c. u = [c] \<and> c \<noteq> LF \<and> c \<noteq> CR)"
  unfolding rx_dot_def rx_lang.simps in_cls_def by (auto simp: between_eq char_codes)

lemma plus_dot_lang: "rx_lang (rx_plus rx_dot) w \<longleftrightarrow> w \<noteq> [] \<and> no_eol w"
  unfolding rx_lang.simps(5) star_dot dot_lang seq_char_lang
  by (cases w) (auto simp: no_eol_def)

lemma no_assert_header: "no_assert (rx_seq [rx_str ''--- '', rx_plus rx_dot])"
  by (simp add: rx_dot_def)

lemma header_test: "rx_test FILE_HEADER_LINE s \<longleftrightarrow> (\<exists>p. s = ''--- '' @ p \<and> p \<noteq> [] \<and> no_eol p)"
proof -
  have "rx_test FILE_HEADER_LINE s \<longleftrightarrow> rx_lang (rx_seq [rx_str ''--- '', rx_plus rx_dot]) s"
    unfolding FILE_HEADER_LINE_def by (rule rx_test_anchored [OF no_assert_header])
  also have "\<dots> \<longleftrightarrow> (\<exists>u v. s = u @ v \<and> u = ''--- '' \<and> (\<exists>x y. v = x @ y \<and> (x \<noteq> [] \<and> no_eol x) \<and> y = []))"
    unfolding rx_seq.simps rx_lang.simps(5) [of "rx_str _"] rx_lang.simps(5) [of "rx_plus rx_dot"]
      plus_dot_lang rx_lang_str rx_lang.simps(1) ..
  finally show ?thesis by auto
qed

lemma endsWith_CR: "endsWith s [c] \<longleftrightarrow> s \<noteq> [] \<and> last s = c"
  by (cases s rule: rev_cases) (auto simp: endsWith_def)

lemma headerPath_header:
  assumes "pathOk p"
  shows "headerPath (''--- '' @ p) = Some p"
proof -
  have "last p \<in> set p" using assms by (simp add: pathOk_def)
  then have "last p \<noteq> CR" "p \<noteq> []" using assms unfolding pathOk_def by metis+
  then have "normalizeLine (''--- '' @ p) = ''--- '' @ p"
    by (simp add: normalizeLine_def endsWith_CR)
  moreover have "no_eol p" using assms by (simp add: pathOk_def no_eol_def)
  ultimately show ?thesis
    using assms header_test [of "''--- '' @ p"] by (simp add: headerPath_def Let_def pathOk_def)
qed

text \<open>The loop over the lines of one file, and of a payload.\<close>

lemma parse_body:
  "\<forall>l \<in> set ls. headerPath l = None \<Longrightarrow>
     foldl parseStep (pre, fs @ [(p, b)]) ls = (pre, fs @ [(p, b @ ls)])"
  by (induction ls arbitrary: b) (auto simp: parseStep_def)

lemma parse_file:
  assumes "fileOk f"
  shows "foldl parseStep (pre, fs) ((''--- '' @ df_path f) # splitOn LF (df_body f)) =
    (pre, fs @ [(df_path f, splitOn LF (df_body f))])"
  using assms parse_body [of "splitOn LF (df_body f)" pre fs "df_path f" "[]"] headerPath_header [of "df_path f"]
  by (simp add: fileOk_def parseStep_def)

lemma payload_lines:
  "\<forall>f \<in> set fs. fileOk f \<Longrightarrow> fs \<noteq> [] \<Longrightarrow>
     splitOn LF (renderPayload fs) = concat (map (\<lambda>f. (''--- '' @ df_path f) # splitOn LF (df_body f)) fs)"
proof (induction fs)
  case (Cons f fs)
  have h: "LF \<notin> set (''--- '' @ df_path f)" using Cons.prems by (simp add: fileOk_def pathOk_def)
  have one: "splitOn LF ((''--- '' @ df_path f) @ LF # r) = (''--- '' @ df_path f) # splitOn LF r" for r
    by (rule splitOn_append_sep [OF h])
  show ?case
  proof (cases "fs = []")
    case True
    then show ?thesis using one by (simp add: renderPayload_def)
  next
    case False
    have "renderPayload (f # fs) = (''--- '' @ df_path f) @ LF # (df_body f @ LF # renderPayload fs)"
      using False by (simp add: renderPayload_def joinWith_Cons)
    then have "splitOn LF (renderPayload (f # fs)) = (''--- '' @ df_path f) # splitOn LF (df_body f) @ splitOn LF (renderPayload fs)"
      by (simp only: splitOn_append splitOn_no_occurrence [OF h]) simp
    then show ?thesis using Cons False by simp
  qed
qed simp

lemma parse_payload_fold:
  "\<forall>f \<in> set fs. fileOk f \<Longrightarrow>
     foldl parseStep (pre, gs) (concat (map (\<lambda>f. (''--- '' @ df_path f) # splitOn LF (df_body f)) fs)) =
       (pre, gs @ map (\<lambda>f. (df_path f, splitOn LF (df_body f))) fs)"
proof (induction fs arbitrary: gs)
  case (Cons f fs)
  then show ?case using parse_file [of f pre gs] by simp
qed simp

lemma parse_payload:
  assumes "\<forall>f \<in> set fs. fileOk f"
  shows "parseDiffByFile (renderPayload fs) = \<lparr>pd_preamble = [], pd_files = fs\<rparr>"
proof (cases "fs = []")
  case False
  then obtain g gs where "fs = g # gs" by (cases fs) auto
  then have "renderPayload fs \<noteq> []" by (cases gs) (simp_all add: renderPayload_def)
  moreover have "map (\<lambda>f. \<lparr>df_path = df_path f, df_body = joinWith [LF] (splitOn LF (df_body f))\<rparr>) fs = fs"
    by (simp add: join_split map_idI)
  ultimately show ?thesis
    using assms False payload_lines [of fs] parse_payload_fold [of fs "[]" "[]"] by (simp add: parseDiffByFile_def comp_def)
qed (simp add: parseDiffByFile_def renderPayload_def)

lemma reassemble_payload:
  "\<forall>f \<in> set fs. df_body f \<noteq> [] \<Longrightarrow> reassembleDiff \<lparr>pd_preamble = [], pd_files = fs\<rparr> = renderPayload fs"
  unfolding reassembleDiff_def renderPayload_def by (auto simp: renderFile_def intro!: arg_cong [of _ _ "joinWith [LF]"])

section \<open>Filtering\<close>

text \<open>The globs for which the compiler is proved correct.\<close>

definition plainGlob :: "string \<Rightarrow> bool" where
  "plainGlob g = (g \<noteq> [] \<and> NUL \<notin> set g \<and> CHR ''?'' \<notin> set g \<and> sect \<notin> set g \<and> \<not> includesStr g ''GLOBDOUBLE'')"

lemma plainGlob_compiles:
  assumes "plainGlob g"
  shows "\<exists>re. globToRegExp g = Inr re \<and> (\<forall>path. rx_test re path \<longleftrightarrow> globMatches g path)"
proof -
  have "rx_test (anchored (map tokRx (glob_tokens g))) path \<longleftrightarrow> globMatches g path" for path
    by (simp add: anchored_def rx_test_anchored tokRx_lang globMatches_def)
  then show ?thesis using globToRegExp_tokens [of g] assms unfolding plainGlob_def by blast
qed

lemma compileGlobs_plain:
  assumes "\<forall>g \<in> set gs. plainGlob g"
  shows "\<exists>res. compileGlobs gs = Inr res \<and> (\<forall>path. list_ex (\<lambda>re. rx_test re path) res \<longleftrightarrow> (\<exists>g \<in> set gs. globMatches g path))"
  using assms
proof (induction gs)
  case (Cons g gs)
  obtain re where re: "globToRegExp g = Inr re" "\<forall>path. rx_test re path \<longleftrightarrow> globMatches g path"
    using plainGlob_compiles [of g] Cons.prems by auto
  obtain res where "compileGlobs gs = Inr res" "\<forall>path. list_ex (\<lambda>re. rx_test re path) res \<longleftrightarrow> (\<exists>g \<in> set gs. globMatches g path)"
    using Cons by auto
  then show ?case using re by auto
qed simp

lemma applyPathFilters_plain:
  assumes "\<forall>g \<in> set gs. plainGlob g"
  shows "applyPathFilters parsed gs =
    Inr (parsed\<lparr>pd_files := filter (\<lambda>f. \<not> (\<exists>g \<in> set gs. globMatches g (df_path f))) (pd_files parsed)\<rparr>)"
proof (cases "gs = []")
  case False
  obtain res where r: "compileGlobs gs = Inr res"
      "\<And>path. list_ex (\<lambda>re. rx_test re path) res \<longleftrightarrow> (\<exists>g \<in> set gs. globMatches g path)"
    using compileGlobs_plain [OF assms] by auto
  let ?kept = "filter (\<lambda>f. \<not> (\<exists>g \<in> set gs. globMatches g (df_path f))) (pd_files parsed)"
  have "length ?kept = length (pd_files parsed) \<Longrightarrow> ?kept = pd_files parsed"
    by (metis (no_types, lifting) filter_id_conv length_filter_less less_irrefl_nat)
  then show ?thesis using False r by (auto simp: applyPathFilters_def Let_def)
qed (simp add: applyPathFilters_def)

text \<open>
  C5: path filters act on whole files.  For a payload as the entry points build it (every file
  with a patch whose lines do not look like a file header), parsing, dropping the excluded files
  and reassembling gives the payload of exactly the files whose path no filter matches, in order
  and with their patches unchanged; with no filter it gives back the input.
\<close>

theorem diff_filter_exact:
  assumes "\<forall>f \<in> set fs. fileOk f \<and> df_body f \<noteq> []" "\<forall>g \<in> set gs. plainGlob g"
  shows "\<exists>parsed. applyPathFilters (parseDiffByFile (renderPayload fs)) gs = Inr parsed \<and>
    reassembleDiff parsed = renderPayload (filter (\<lambda>f. \<not> (\<exists>g \<in> set gs. globMatches g (df_path f))) fs)"
proof -
  have p: "parseDiffByFile (renderPayload fs) = \<lparr>pd_preamble = [], pd_files = fs\<rparr>"
    using assms(1) by (intro parse_payload) blast
  show ?thesis
    unfolding p applyPathFilters_plain [OF assms(2)] using assms(1) by (simp add: reassemble_payload)
qed

definition sampleFiles :: "ParsedDiffFile list" where
  "sampleFiles = [\<lparr>df_path = ''a.ts'', df_body = ''+x''\<rparr>, \<lparr>df_path = ''v/b.ts'', df_body = ''-y''\<rparr>]"

theorem diff_filter_exact_witness:
  "\<exists>parsed. applyPathFilters (parseDiffByFile (renderPayload sampleFiles)) [''v/**''] = Inr parsed \<and>
    reassembleDiff parsed = renderPayload (filter (\<lambda>f. \<not> (\<exists>g \<in> set [''v/**'']. globMatches g (df_path f))) sampleFiles)"
proof (rule diff_filter_exact)
  have "headerPath ''+x'' = None" "headerPath ''-y'' = None"
    using header_test [of "''-y''"] header_test [of "''+x''"] by (auto simp: headerPath_def Let_def normalizeLine_def endsWith_def)
  then show "\<forall>f \<in> set sampleFiles. fileOk f \<and> df_body f \<noteq> []"
    by (simp add: sampleFiles_def fileOk_def pathOk_def)
  show "\<forall>g \<in> set [''v/**'']. plainGlob g" by (simp add: plainGlob_def sect_def)
qed

text \<open>
  A deleted line can hide the rest of a file.  The deletion of a source line that starts with
  two dashes and a blank reads as a file header; everything after it is attributed to that
  invented path, so an exclude filter that matches it removes changes of a file that is not
  excluded, and they are not counted against the line cap either.
\<close>

theorem diff_header_confusion:
  "let diff = ''--- a.sql'' @ [LF] @ ''--- v/x'' @ [LF] @ ''+evil'';
       parsed = parseDiffByFile diff
   in map df_path (pd_files parsed) = [''a.sql'', ''v/x''] \<and>
      (case applyPathFilters parsed [''v/**''] of
         Inr p \<Rightarrow> reassembleDiff p = ''--- a.sql'' \<and> countDiffLines p = 0 | Inl _ \<Rightarrow> False)"
  by code_simp

end
