(* ===== verification/Comments.thy ===== *)
theory Comments
  imports Review Marker Json
begin

text \<open>
  From the model's comments to the posted ones: deduplication
  (\<open>runner/src/middleware/dedup.ts\<close>), the confidence floor, the ruleset and the suppression
  rules of \<open>runner/src/agent.ts\<close>, and the state the next review starts from
  (\<open>runner/src/state-builder.ts\<close>).  The fingerprint function is a parameter, as in the code.
\<close>

section \<open>\<open>runner/src/middleware/dedup.ts\<close>\<close>

record DedupResult =
  dd_kept :: "InlineComment list"
  dd_droppedCount :: nat
  dd_droppedByFeedback :: nat

definition ruleIdFor :: "ReviewOutputComment \<Rightarrow> string" where
  "ruleIdFor c = (case c_ruleId c of Some r \<Rightarrow> r | None \<Rightarrow> severityName (c_severity c))"

definition defaultSuggestionType :: "ReviewOutputComment \<Rightarrow> string" where
  "defaultSuggestionType c =
     (if c_suggestion c \<noteq> None \<and> c_suggestion c \<noteq> Some [] then ''replacement'' else ''comment'')"

definition commentFp :: "(FingerprintInput \<Rightarrow> string) \<Rightarrow> ReviewOutputComment \<Rightarrow> string" where
  "commentFp fpFn c = fpFn \<lparr>fi_path = c_path c, fi_line = c_line c, fi_ruleId = ruleIdFor c,
     fi_suggestionType = defaultSuggestionType c\<rparr>"

definition withFingerprint :: "ReviewOutputComment \<Rightarrow> string \<Rightarrow> InlineComment" where
  "withFingerprint c fp = ReviewOutputComment.extend c \<lparr>c_fingerprint = fp\<rparr>"

text \<open>The loop: \<open>seen\<close> grows by every kept fingerprint.\<close>

fun dedupLoop :: "(FingerprintInput \<Rightarrow> string) \<Rightarrow> string set \<Rightarrow> string set \<Rightarrow> ReviewOutputComment list \<Rightarrow> DedupResult" where
  "dedupLoop fpFn rejected seen [] = \<lparr>dd_kept = [], dd_droppedCount = 0, dd_droppedByFeedback = 0\<rparr>"
| "dedupLoop fpFn rejected seen (c # cs) =
     (let fp = commentFp fpFn c in
      if fp \<in> rejected then (let r = dedupLoop fpFn rejected seen cs in r\<lparr>dd_droppedByFeedback := dd_droppedByFeedback r + 1\<rparr>)
      else if fp \<in> seen then (let r = dedupLoop fpFn rejected seen cs in r\<lparr>dd_droppedCount := dd_droppedCount r + 1\<rparr>)
      else (let r = dedupLoop fpFn rejected (insert fp seen) cs in r\<lparr>dd_kept := withFingerprint c fp # dd_kept r\<rparr>))"

definition dedupComments :: "(FingerprintInput \<Rightarrow> string) \<Rightarrow> ReviewOutputComment list \<Rightarrow> ReviewState option \<Rightarrow> string list \<Rightarrow> DedupResult" where
  "dedupComments fpFn comments previousState rejectedFingerprints =
     dedupLoop fpFn (set rejectedFingerprints)
       (set (case previousState of None \<Rightarrow> [] | Some st \<Rightarrow> rs_commentFingerprints st)) comments"

section \<open>The filters of \<open>runner/src/agent.ts\<close>\<close>

definition meetsConfidence :: "Confidence option \<Rightarrow> Confidence \<Rightarrow> bool" where
  "meetsConfidence commentConfidence flr =
     (let effective = (case commentConfidence of None \<Rightarrow> High | Some c \<Rightarrow> c)
      in confidenceIndex effective \<le> confidenceIndex flr)"

record RulesetEntry =
  re_enabled :: bool
  re_min_severity :: Severity

type_synonym Ruleset = "(Category \<times> RulesetEntry) list"

definition DEFAULT_RULESET_CATEGORY :: Category where "DEFAULT_RULESET_CATEGORY = Bug"

definition rulesetPasses :: "Ruleset \<Rightarrow> InlineComment \<Rightarrow> bool" where
  "rulesetPasses ruleset comment =
     (let effectiveCategory = (case c_category comment of None \<Rightarrow> DEFAULT_RULESET_CATEGORY | Some k \<Rightarrow> k)
      in case map_of ruleset effectiveCategory of
           None \<Rightarrow> True
         | Some entry \<Rightarrow> re_enabled entry \<and> \<not> SEVERITY_RANK (c_severity comment) < SEVERITY_RANK (re_min_severity entry))"

fun rulesetLoop :: "Ruleset \<Rightarrow> InlineComment list \<Rightarrow> InlineComment list \<times> nat" where
  "rulesetLoop ruleset [] = ([], 0)"
| "rulesetLoop ruleset (c # cs) =
     (case rulesetLoop ruleset cs of (kept, dropped) \<Rightarrow>
        if rulesetPasses ruleset c then (c # kept, dropped) else (kept, dropped + 1))"

definition applyRulesetFilter :: "InlineComment list \<Rightarrow> Ruleset option \<Rightarrow> InlineComment list \<times> nat" where
  "applyRulesetFilter comments ruleset =
     (case ruleset of
        None \<Rightarrow> (comments, 0)
      | Some rs \<Rightarrow> if rs = [] then (comments, 0) else rulesetLoop rs comments)"

definition applyConfidence :: "InlineComment list \<Rightarrow> Confidence option \<Rightarrow> InlineComment list" where
  "applyConfidence comments minConfidence =
     filter (\<lambda>c. meetsConfidence (c_confidence c) (case minConfidence of None \<Rightarrow> Low | Some m \<Rightarrow> m)) comments"

definition applySuppression :: "InlineComment list \<Rightarrow> string list \<Rightarrow> InlineComment list \<times> nat" where
  "applySuppression comments suppressed =
     (if set suppressed = {} then (comments, 0)
      else (filter (\<lambda>c. c_fingerprint c \<notin> set suppressed) comments,
            length (filter (\<lambda>c. c_fingerprint c \<in> set suppressed) comments)))"

section \<open>\<open>runner/src/state-builder.ts\<close>\<close>

record BuildStateInput =
  bs_previousState :: "ReviewState option"
  bs_comments :: "InlineComment list"
  bs_headSha :: string
  bs_baseSha :: string
  bs_modelUsed :: string
  bs_tokensUsed :: int
  bs_costUsd :: rat

definition buildReviewState :: "BuildStateInput \<Rightarrow> Date \<Rightarrow> ReviewState" where
  "buildReviewState i now =
     (let previousFingerprints = (case bs_previousState i of None \<Rightarrow> [] | Some st \<Rightarrow> rs_commentFingerprints st);
          newFingerprints = map c_fingerprint (bs_comments i);
          merged = dedupList (previousFingerprints @ newFingerprints)
      in \<lparr>rs_schemaVersion = 1, rs_lastReviewedSha = bs_headSha i, rs_baseSha = bs_baseSha i,
          rs_reviewedAt = toISOString now, rs_modelUsed = bs_modelUsed i,
          rs_totalTokens = (case bs_previousState i of None \<Rightarrow> 0 | Some st \<Rightarrow> rs_totalTokens st) + bs_tokensUsed i,
          rs_totalCostUsd = (case bs_previousState i of None \<Rightarrow> 0 | Some st \<Rightarrow> rs_totalCostUsd st) + bs_costUsd i,
          rs_commentFingerprints = merged\<rparr>)"

section \<open>Deduplication\<close>

lemma withFingerprint_sel [simp]:
  "c_fingerprint (withFingerprint c fp) = fp" "ReviewOutputComment.truncate (withFingerprint c fp) = c"
  by (simp_all add: withFingerprint_def ReviewOutputComment.defs)

lemma dedupLoop_accounting:
  "length (dd_kept (dedupLoop fpFn rej seen cs)) + dd_droppedCount (dedupLoop fpFn rej seen cs) +
     dd_droppedByFeedback (dedupLoop fpFn rej seen cs) = length cs"
  by (induction cs arbitrary: seen) (auto simp: Let_def)

lemma dedupLoop_fresh:
  "distinct (map c_fingerprint (dd_kept (dedupLoop fpFn rej seen cs))) \<and>
   set (map c_fingerprint (dd_kept (dedupLoop fpFn rej seen cs))) \<inter> (rej \<union> seen) = {}"
  by (induction cs arbitrary: seen) (auto simp: Let_def)

lemma dedupLoop_from:
  "\<forall>k \<in> set (dd_kept (dedupLoop fpFn rej seen cs)).
     ReviewOutputComment.truncate k \<in> set cs \<and> c_fingerprint k = commentFp fpFn (ReviewOutputComment.truncate k)"
proof (induction cs arbitrary: seen)
  case (Cons c cs)
  have "ReviewOutputComment.truncate k \<in> set (c # cs)" "c_fingerprint k = commentFp fpFn (ReviewOutputComment.truncate k)"
    if k: "k \<in> set (dd_kept (dedupLoop fpFn rej seen (c # cs)))" for k
  proof -
    consider s where "k \<in> set (dd_kept (dedupLoop fpFn rej s cs))" | "k = withFingerprint c (commentFp fpFn c)"
      using k by (auto simp: Let_def split: if_splits)
    then show "ReviewOutputComment.truncate k \<in> set (c # cs)" "c_fingerprint k = commentFp fpFn (ReviewOutputComment.truncate k)"
      using Cons.IH by (cases; fastforce)+
  qed
  then show ?case by blast
qed simp

lemma dedupLoop_complete:
  "c \<in> set cs \<Longrightarrow> commentFp fpFn c \<in> rej \<union> seen \<union> c_fingerprint ` set (dd_kept (dedupLoop fpFn rej seen cs))"
proof (induction cs arbitrary: seen)
  case (Cons d cs)
  show ?case
    using Cons.IH [of seen] Cons.IH [of "insert (commentFp fpFn d) seen"] Cons.prems by (auto simp: Let_def)
qed simp

section \<open>Filter stages\<close>

text \<open>
  What the later stages share: a stage keeps a subsequence, counts what it drops, and is
  idempotent.  Two stages in a row keep the contract, so the counts of the pipeline add up.
\<close>

lemma subseq_distinct_map: "subseq xs ys \<Longrightarrow> distinct (map f ys) \<Longrightarrow> distinct (map f xs)"
proof (induction rule: list_emb.induct)
  case (list_emb_Cons2 x y xs ys)
  have "set xs \<subseteq> set ys" using list_emb_Cons2.hyps(2) by (auto elim: list_emb_set)
  then show ?case using list_emb_Cons2 by auto
qed auto

locale filter_stage =
  fixes stage :: "'c list \<Rightarrow> 'c list \<times> nat"
  assumes stage_subseq: "subseq (fst (stage cs)) cs"
    and stage_count: "length (fst (stage cs)) + snd (stage cs) = length cs"
    and stage_idem: "stage (fst (stage cs)) = (fst (stage cs), 0)"
begin

lemma stage_subset: "set (fst (stage cs)) \<subseteq> set cs"
  using stage_subseq by (auto dest: list_emb_set)

lemma stage_distinct: "distinct (map f cs) \<Longrightarrow> distinct (map f (fst (stage cs)))"
  by (rule subseq_distinct_map [OF stage_subseq])

lemma stage_all: "snd (stage cs) = 0 \<longleftrightarrow> fst (stage cs) = cs"
  using stage_count [of cs] stage_subseq [of cs] by (metis add.right_neutral add_diff_cancel_left' diff_self_eq_0 subseq_same_length)

end

locale filter_pipeline = s1: filter_stage stage1 + s2: filter_stage stage2
  for stage1 :: "'c list \<Rightarrow> 'c list \<times> nat" and stage2 :: "'c list \<Rightarrow> 'c list \<times> nat"
begin

lemma pipeline_subseq: "subseq (fst (stage2 (fst (stage1 cs)))) cs"
  using s1.stage_subseq s2.stage_subseq by (meson subseq_order.trans)

lemma pipeline_count:
  "length (fst (stage2 (fst (stage1 cs)))) + snd (stage2 (fst (stage1 cs))) + snd (stage1 cs) = length cs"
  using s1.stage_count [of cs] s2.stage_count [of "fst (stage1 cs)"] by simp

end

lemma filter_stageI: "filter_stage (\<lambda>cs. (filter P cs, length (filter (\<lambda>c. \<not> P c) cs)))"
  by unfold_locales (auto simp: sum_length_filter_compl filter_empty_conv)

lemma rulesetLoop_filter:
  "rulesetLoop rs cs = (filter (rulesetPasses rs) cs, length (filter (\<lambda>c. \<not> rulesetPasses rs c) cs))"
  by (induction cs) auto

lemma applyRulesetFilter_filter:
  "applyRulesetFilter cs ruleset =
     (filter (\<lambda>c. case ruleset of None \<Rightarrow> True | Some rs \<Rightarrow> rulesetPasses rs c) cs,
      length (filter (\<lambda>c. \<not> (case ruleset of None \<Rightarrow> True | Some rs \<Rightarrow> rulesetPasses rs c)) cs))"
proof -
  have "rulesetPasses [] c" for c by (simp add: rulesetPasses_def)
  then show ?thesis by (cases ruleset) (auto simp: applyRulesetFilter_def rulesetLoop_filter)
qed

lemma applySuppression_filter:
  "applySuppression cs muted = (filter (\<lambda>c. c_fingerprint c \<notin> set muted) cs, length (filter (\<lambda>c. \<not> c_fingerprint c \<notin> set muted) cs))"
  by (simp add: applySuppression_def)

definition confidenceStage :: "Confidence option \<Rightarrow> InlineComment list \<Rightarrow> InlineComment list \<times> nat" where
  "confidenceStage m cs = (applyConfidence cs m, length cs - length (applyConfidence cs m))"

lemma confidenceStage_filter:
  "confidenceStage m cs =
     (filter (\<lambda>c. meetsConfidence (c_confidence c) (case m of None \<Rightarrow> Low | Some m \<Rightarrow> m)) cs,
      length (filter (\<lambda>c. \<not> meetsConfidence (c_confidence c) (case m of None \<Rightarrow> Low | Some m \<Rightarrow> m)) cs))"
  using sum_length_filter_compl [of "\<lambda>c. meetsConfidence (c_confidence c) (case m of None \<Rightarrow> Low | Some m \<Rightarrow> m)" cs]
  by (simp add: confidenceStage_def applyConfidence_def)

interpretation confidence: filter_stage "confidenceStage m" for m
  unfolding confidenceStage_filter [abs_def] by (rule filter_stageI)

interpretation ruleset: filter_stage "\<lambda>cs. applyRulesetFilter cs rs" for rs
  unfolding applyRulesetFilter_filter by (rule filter_stageI)

interpretation suppression: filter_stage "\<lambda>cs. applySuppression cs muted" for muted
  unfolding applySuppression_filter by (rule filter_stageI)

interpretation policy: filter_pipeline "\<lambda>cs. applyRulesetFilter cs rs" "\<lambda>cs. applySuppression cs muted" for rs muted ..

section \<open>Properties\<close>

text \<open>
  C6: deduplication.  Every comment of the model is accounted for as kept, duplicate or rejected by
  feedback; the kept comments carry their own fingerprints, pairwise different and none of them
  posted before or rejected; and nothing new is lost: a comment that is not kept has a fingerprint
  that was rejected, posted before, or belongs to a kept comment.
\<close>

theorem dedup_exact:
  "let r = dedupComments fpFn comments prev rejected;
       prevFps = (case prev of None \<Rightarrow> [] | Some st \<Rightarrow> rs_commentFingerprints st)
   in length (dd_kept r) + dd_droppedCount r + dd_droppedByFeedback r = length comments \<and>
      distinct (map c_fingerprint (dd_kept r)) \<and>
      set (map c_fingerprint (dd_kept r)) \<inter> (set rejected \<union> set prevFps) = {} \<and>
      (\<forall>k \<in> set (dd_kept r). ReviewOutputComment.truncate k \<in> set comments \<and>
         c_fingerprint k = commentFp fpFn (ReviewOutputComment.truncate k)) \<and>
      (\<forall>c \<in> set comments. commentFp fpFn c \<in> set rejected \<union> set prevFps \<union> c_fingerprint ` set (dd_kept r))"
  unfolding dedupComments_def Let_def
  by (intro conjI dedupLoop_accounting dedupLoop_from dedupLoop_fresh [THEN conjunct1] dedupLoop_fresh [THEN conjunct2]
      ballI dedupLoop_complete)

definition sampleComment :: "nat \<Rightarrow> ReviewOutputComment" where
  "sampleComment n = \<lparr>c_path = ''a.ts'', c_line = int n, c_side = RIGHT, c_body = ''b'', c_severity = Minor,
     c_category = None, c_confidence = None, c_ruleId = None, c_suggestion = None\<rparr>"

theorem dedup_exact_witness:
  "let r = dedupComments fi_path [sampleComment 1, sampleComment 2] None []
   in length (dd_kept r) + dd_droppedCount r + dd_droppedByFeedback r = 2 \<and>
      distinct (map c_fingerprint (dd_kept r)) \<and>
      (\<forall>k \<in> set (dd_kept r). c_fingerprint k = commentFp fi_path (ReviewOutputComment.truncate k))"
  using dedup_exact [of fi_path "[sampleComment 1, sampleComment 2]" None "[]"] by (simp add: Let_def)

text \<open>
  What was posted is not posted again.  Once a review has built the next state from its posted
  comments, a later review of any output keeps no comment with a fingerprint of a posted comment or
  of the earlier state, whatever else it finds.
\<close>

theorem no_repost:
  "let st = buildReviewState i now;
       old = (case bs_previousState i of None \<Rightarrow> [] | Some s \<Rightarrow> rs_commentFingerprints s) @ map c_fingerprint (bs_comments i)
   in set (map c_fingerprint (dd_kept (dedupComments fpFn comments (Some st) rejected))) \<inter> set old = {} \<and>
      set (rs_commentFingerprints st) = set old \<and> distinct (rs_commentFingerprints st)"
  using dedupLoop_fresh [of fpFn "set rejected" _ comments]
  by (fastforce simp: dedupComments_def buildReviewState_def Let_def)

text \<open>
  The policy filters account for every comment they are given: what passes the confidence floor
  is split exactly into posted comments, ruleset drops and suppressed ones; the posted comments keep
  their order, pass every filter, and pairwise different fingerprints stay so.
\<close>

theorem policy_filters_exact:
  "let afterConfidence = applyConfidence cs m;
       (afterRules, droppedByRuleset) = applyRulesetFilter afterConfidence rs;
       (posted, droppedBySuppression) = applySuppression afterRules muted
   in length posted + droppedBySuppression + droppedByRuleset = length afterConfidence \<and> subseq posted cs \<and>
      posted = filter (\<lambda>c. meetsConfidence (c_confidence c) (case m of None \<Rightarrow> Low | Some m \<Rightarrow> m) \<and>
        (case rs of None \<Rightarrow> True | Some r \<Rightarrow> rulesetPasses r c) \<and> c_fingerprint c \<notin> set muted) cs"
proof -
  let ?a = "applyConfidence cs m"
  have "subseq (fst (applySuppression (fst (applyRulesetFilter ?a rs)) muted)) cs"
    using policy.pipeline_subseq [where rs = rs and muted = muted and cs = ?a] confidence.stage_subseq [of m cs]
    by (auto simp: confidenceStage_def intro: subseq_order.trans)
  moreover have "fst (applySuppression (fst (applyRulesetFilter ?a rs)) muted) =
      filter (\<lambda>c. meetsConfidence (c_confidence c) (case m of None \<Rightarrow> Low | Some m \<Rightarrow> m) \<and>
        (case rs of None \<Rightarrow> True | Some r \<Rightarrow> rulesetPasses r c) \<and> c_fingerprint c \<notin> set muted) cs"
    by (simp add: applySuppression_filter applyRulesetFilter_filter applyConfidence_def conj_ac)
  ultimately show ?thesis
    using policy.pipeline_count [where rs = rs and muted = muted and cs = ?a] by (simp add: Let_def case_prod_unfold)
qed

end
