(* ===== verification/Untrusted.thy ===== *)
theory Untrusted
  imports Regex Json
begin

text \<open>
  The envelope around author-controlled text in the prompt
  (\<open>runner/src/prompts/untrusted.ts\<close>), and the proof that nothing inside can close it.
\<close>

section \<open>The code\<close>

record UntrustedCommit =
  uc_sha :: string
  uc_message :: string

record UntrustedMetadata =
  um_title :: string
  um_body :: string
  um_author :: string
  um_baseRef :: "string option"
  um_labels :: "string list option"
  um_commitMessages :: "UntrustedCommit list option"

record UntrustedRelatedFile =
  uf_path :: string
  uf_content :: string
  uf_kind :: string
  uf_originatingChangedPath :: string

record UntrustedRelatedFiles =
  ur_files :: "UntrustedRelatedFile list"
  ur_hitBudgetLimit :: bool
  ur_totalBytes :: nat

definition CLOSE_TAG :: string where "CLOSE_TAG = ''</untrusted>''"

text \<open>\<open>s.replace(/literal/gi, rep)\<close>, the literal in lower case.\<close>

function replaceI :: "string \<Rightarrow> string \<Rightarrow> string \<Rightarrow> string" where
  "replaceI lit rep s =
     (case s of
        [] \<Rightarrow> []
      | c # s' \<Rightarrow> if lit \<noteq> [] \<and> startsWith (map foldA s) lit then rep @ replaceI lit rep (drop (length lit) s)
                  else c # replaceI lit rep s')"
  by pat_completeness auto
termination
  by (relation "measure (\<lambda>(lit, rep, s). length s)") auto

declare replaceI.simps [simp del]

definition safe :: "string \<Rightarrow> string" where
  "safe value = replaceI CLOSE_TAG ''&lt;/untrusted&gt;'' value"

definition renderLabels :: "string list \<Rightarrow> string" where
  "renderLabels labels =
     (let items = joinWith [LF] (map (\<lambda>l. ''  <label>'' @ safe l @ ''</label>'') labels)
      in joinWith [LF] [''<labels>'', items, ''</labels>''])"

definition renderCommits :: "UntrustedCommit list \<Rightarrow> string" where
  "renderCommits commits =
     (let items = joinWith [LF] (map (\<lambda>c. ''  <commit sha=\"'' @ safe (uc_sha c) @ ''\">'' @ safe (uc_message c) @ ''</commit>'') commits)
      in joinWith [LF] [''<commits>'', items, ''</commits>''])"

definition renderRelatedFile :: "UntrustedRelatedFile \<Rightarrow> string" where
  "renderRelatedFile f =
     (let attrs = ''path=\"'' @ safe (uf_path f) @ ''\" kind=\"'' @ safe (uf_kind f) @
            ''\" matched_changed=\"'' @ safe (uf_originatingChangedPath f) @ ''\"''
      in ''  <related_file '' @ attrs @ ''>'' @ [LF] @ safe (uf_content f) @ [LF] @ ''  </related_file>'')"

definition renderRelatedFilesBlock :: "UntrustedRelatedFiles \<Rightarrow> string" where
  "renderRelatedFilesBlock related =
     (let items = map renderRelatedFile (ur_files related);
          lines = [''<related_files>''] @ items @ [''</related_files>''];
          note = ''<!-- auto-fetch budget reached; '' @ digitsOf (length (ur_files related)) @
            '' file(s) materialized ('' @ digitsOf (ur_totalBytes related) @ '' bytes) -->''
      in joinWith [LF] (if ur_hitBudgetLimit related then lines @ [note] else lines))"

definition wrapSections :: "UntrustedMetadata \<Rightarrow> UntrustedRelatedFiles option \<Rightarrow> string list" where
  "wrapSections meta related =
     [''<untrusted>'', ''<title>'' @ safe (um_title meta) @ ''</title>'',
      ''<author>'' @ safe (um_author meta) @ ''</author>'', ''<body>'' @ safe (um_body meta) @ ''</body>''] @
     (case um_baseRef meta of None \<Rightarrow> []
        | Some b \<Rightarrow> if b = [] then [] else [''<base_branch>'' @ safe b @ ''</base_branch>'']) @
     (case um_labels meta of None \<Rightarrow> [] | Some ls \<Rightarrow> if ls = [] then [] else [renderLabels ls]) @
     (case um_commitMessages meta of None \<Rightarrow> [] | Some cs \<Rightarrow> if cs = [] then [] else [renderCommits cs]) @
     (case related of None \<Rightarrow> [] | Some r \<Rightarrow> if ur_files r = [] then [] else [renderRelatedFilesBlock r])"

definition wrapUntrusted :: "UntrustedMetadata \<Rightarrow> UntrustedRelatedFiles option \<Rightarrow> string" where
  "wrapUntrusted meta related = joinWith [LF] (wrapSections meta related @ [CLOSE_TAG])"

section \<open>Texts without the closing tag\<close>

definition noTag :: "string \<Rightarrow> bool" where
  "noTag s = (\<not> includesStr (map foldA s) CLOSE_TAG)"

lemma foldA_amp [simp]: "foldA (CHR ''&'') = CHR ''&''"
  by (simp add: foldA_def)

lemma replaceI_Nil [simp]: "replaceI lit rep [] = []"
  by (simp add: replaceI.simps)

lemma replaceI_prefix:
  "startsWith (map foldA (replaceI lit (CHR ''&'' # r) s)) w \<Longrightarrow> CHR ''&'' \<notin> set w \<Longrightarrow> startsWith (map foldA s) w"
proof (induction w arbitrary: s)
  case (Cons x w)
  then obtain c s' where s: "s = c # s'" by (cases s) auto
  show ?case
  proof (cases "lit \<noteq> [] \<and> startsWith (map foldA s) lit")
    case True
    then have "replaceI lit (CHR ''&'' # r) s = (CHR ''&'' # r) @ replaceI lit (CHR ''&'' # r) (drop (length lit) s)"
      by (subst replaceI.simps) (auto simp: s)
    then show ?thesis using Cons.prems by simp
  next
    case False
    then have "replaceI lit (CHR ''&'' # r) s = c # replaceI lit (CHR ''&'' # r) s'"
      by (subst replaceI.simps) (auto simp: s)
    then show ?thesis using Cons s by simp
  qed
qed simp

lemma includes_Cons: "includesStr (c # s) p \<longleftrightarrow> startsWith (c # s) p \<or> includesStr s p"
  by simp

lemma foldA_lt: "foldA c = CHR ''<'' \<longleftrightarrow> c = CHR ''<''"
proof
  assume "foldA c = CHR ''<''"
  then show "c = CHR ''<''" using foldA_non_letter [of "CHR ''<''" c] by (simp add: foldA_def)
qed (simp add: foldA_def)

lemma noTag_safe: "noTag (safe s)"
  unfolding noTag_def safe_def
proof (induction "length s" arbitrary: s rule: less_induct)
  case less
  let ?out = "replaceI CLOSE_TAG ''&lt;/untrusted&gt;''"
  show ?case
  proof (cases s)
    case Nil
    then show ?thesis by (simp add: CLOSE_TAG_def)
  next
    case (Cons c s')
    show ?thesis
    proof (cases "startsWith (map foldA s) CLOSE_TAG")
      case True
      have "?out s = ''&lt;/untrusted&gt;'' @ ?out (drop (length CLOSE_TAG) s)"
        using True by (subst replaceI.simps) (auto simp: Cons CLOSE_TAG_def)
      moreover have "\<not> includesStr (map foldA (?out (drop (length CLOSE_TAG) s))) CLOSE_TAG"
        by (rule less) (simp add: Cons CLOSE_TAG_def)
      ultimately show ?thesis by (simp add: CLOSE_TAG_def foldA_lt foldA_def)
    next
      case False
      have o: "?out s = c # ?out s'" using False by (subst replaceI.simps) (auto simp: Cons)
      have "\<not> startsWith (map foldA (c # ?out s')) CLOSE_TAG"
      proof
        assume "startsWith (map foldA (c # ?out s')) CLOSE_TAG"
        then have "c = CHR ''<''" "startsWith (map foldA (?out s')) ''/untrusted>''"
          by (simp_all add: CLOSE_TAG_def foldA_lt)
        then have "startsWith (map foldA s) CLOSE_TAG"
          using replaceI_prefix [of CLOSE_TAG "''lt;/untrusted&gt;''" s' "''/untrusted>''"]
          by (simp add: Cons CLOSE_TAG_def foldA_lt)
        then show False using False by simp
      qed
      moreover have "\<not> includesStr (map foldA (?out s')) CLOSE_TAG" by (rule less) (simp add: Cons)
      ultimately show ?thesis unfolding o list.map includes_Cons by simp
    qed
  qed
qed

section \<open>Gluing texts together\<close>

definition inTag :: "char \<Rightarrow> bool" where
  "inTag c = (foldA c \<in> set CLOSE_TAG)"

text \<open>Two texts joined at characters the tag cannot have there.\<close>

lemma noTag_append:
  assumes "noTag a" "noTag b"
    and "a = [] \<or> b = [] \<or> foldA (last a) \<notin> set (butlast CLOSE_TAG) \<or> foldA (hd b) \<notin> set (tl CLOSE_TAG)"
  shows "noTag (a @ b)"
proof (rule ccontr)
  assume "\<not> noTag (a @ b)"
  then obtain p q where e: "map foldA a @ map foldA b = p @ CLOSE_TAG @ q"
    by (auto simp: noTag_def includesStr_iff)
  have na: "map foldA a \<noteq> p' @ CLOSE_TAG @ q'" "map foldA b \<noteq> p' @ CLOSE_TAG @ q'" for p' q'
    using assms(1,2) by (auto simp: noTag_def includesStr_iff)
  obtain us where us: "map foldA a = p @ us \<and> us @ map foldA b = CLOSE_TAG @ q \<or>
      map foldA a @ us = p \<and> map foldA b = us @ CLOSE_TAG @ q"
    using e unfolding append_eq_append_conv2 by metis
  then have 1: "map foldA a = p @ us" "us @ map foldA b = CLOSE_TAG @ q" using na by blast+
  obtain vs where "us = CLOSE_TAG @ vs \<and> vs @ map foldA b = q \<or> us @ vs = CLOSE_TAG \<and> map foldA b = vs @ q"
    using 1(2) unfolding append_eq_append_conv2 by metis
  then have 2: "us @ vs = CLOSE_TAG" "map foldA b = vs @ q" using na 1 by blast+
  have "us \<noteq> []" using na(2) [of "[]" q] 1(2) by auto
  have "vs \<noteq> []" using na(1) [of p "[]"] 1(1) 2(1) by auto
  have ne: "a \<noteq> []" "b \<noteq> []" using \<open>us \<noteq> []\<close> \<open>vs \<noteq> []\<close> 1(1) 2(2) by auto
  have "last (map foldA a) = last us" using 1(1) \<open>us \<noteq> []\<close> by simp
  then have "foldA (last a) = last us" using ne by (simp add: last_map)
  moreover have "hd (map foldA b) = hd vs" using 2(2) \<open>vs \<noteq> []\<close> by simp
  then have "foldA (hd b) = hd vs" using ne by (simp add: hd_map)
  moreover have "last us \<in> set (butlast CLOSE_TAG)" "hd vs \<in> set (tl CLOSE_TAG)"
    using 2(1) \<open>us \<noteq> []\<close> \<open>vs \<noteq> []\<close> by (auto simp flip: 2(1) simp: butlast_append tl_append split: list.splits)
  ultimately show False using assms(3) ne by simp
qed

text \<open>A piece of the envelope: free of the tag, and closed at both ends.\<close>

definition piece :: "string \<Rightarrow> bool" where
  "piece s = (noTag s \<and> s \<noteq> [] \<and> foldA (last s) \<notin> set (butlast CLOSE_TAG) \<and> foldA (hd s) \<notin> set (tl CLOSE_TAG))"

lemma piece_append [intro]: "piece a \<Longrightarrow> piece b \<Longrightarrow> piece (a @ b)"
  by (auto simp: piece_def intro: noTag_append)

lemma piece_around [intro]: "piece a \<Longrightarrow> noTag s \<Longrightarrow> piece b \<Longrightarrow> piece (a @ s @ b)"
  by (auto simp: piece_def intro!: noTag_append)

lemma noTag_no_slash: "CHR ''/'' \<notin> set s \<Longrightarrow> noTag s"
proof -
  assume a: "CHR ''/'' \<notin> set s"
  have "CHR ''/'' \<notin> foldA ` set s"
  proof
    assume "CHR ''/'' \<in> foldA ` set s"
    then obtain c where "c \<in> set s" "foldA c = foldA (CHR ''/'')" by (auto simp: foldA_def split: if_splits)
    moreover from this have "c = CHR ''/''" by - (rule foldA_non_letter; simp)
    ultimately show False using a by simp
  qed
  then have n: "CHR ''/'' \<notin> set (map foldA s)" by (simp only: set_map) simp
  have "map foldA s \<noteq> p @ CLOSE_TAG @ q" for p q
  proof
    assume "map foldA s = p @ CLOSE_TAG @ q"
    then have "CHR ''/'' \<in> set (map foldA s)" by (simp only:) (simp add: CLOSE_TAG_def)
    then show False using n by simp
  qed
  then show ?thesis unfolding noTag_def includesStr_iff by blast
qed

lemma piece_LF: "piece [LF]"
  by (simp add: piece_def noTag_no_slash CLOSE_TAG_def foldA_def)

lemma piece_join: "xs \<noteq> [] \<Longrightarrow> \<forall>x \<in> set xs. piece x \<Longrightarrow> piece (joinWith [LF] xs)"
proof (induction xs)
  case (Cons x xs)
  show ?case
  proof (cases xs)
    case Nil
    then show ?thesis using Cons.prems by simp
  next
    case (Cons y ys)
    then show ?thesis
      using Cons.prems Cons.IH piece_LF by (simp add: joinWith_Cons) (metis append.assoc append_Cons append_Nil piece_append)
  qed
qed simp

section \<open>The envelope\<close>

text \<open>The fixed parts of the envelope are pieces.\<close>

lemma piece_const:
  "s \<noteq> [] \<Longrightarrow> noTag s \<Longrightarrow> foldA (last s) \<notin> set (butlast CLOSE_TAG) \<Longrightarrow> foldA (hd s) \<notin> set (tl CLOSE_TAG) \<Longrightarrow> piece s"
  by (simp add: piece_def)

lemmas const_piece = piece_def noTag_def CLOSE_TAG_def foldA_def

lemma piece_element: "piece p \<Longrightarrow> piece q \<Longrightarrow> piece (p @ safe x @ q)"
  by (rule piece_around [OF _ noTag_safe])

lemma piece_title: "piece (''<title>'' @ safe x @ ''</title>'')"
  by (rule piece_element) (simp_all add: const_piece)

lemma piece_author: "piece (''<author>'' @ safe x @ ''</author>'')"
  by (rule piece_element) (simp_all add: const_piece)

lemma piece_body: "piece (''<body>'' @ safe x @ ''</body>'')"
  by (rule piece_element) (simp_all add: const_piece)

lemma piece_base: "piece (''<base_branch>'' @ safe x @ ''</base_branch>'')"
  by (rule piece_element) (simp_all add: const_piece)

lemma piece_label: "piece (''  <label>'' @ safe x @ ''</label>'')"
  by (rule piece_element) (simp_all add: const_piece)

lemma piece_three: "piece a \<Longrightarrow> piece b \<Longrightarrow> piece c \<Longrightarrow> piece (joinWith [LF] [a, b, c])"
  by (intro piece_join) auto

lemma piece_labels: "ls \<noteq> [] \<Longrightarrow> piece (renderLabels ls)"
proof -
  have "piece ''<labels>''" "piece ''</labels>''" by (simp_all add: const_piece)
  then show "ls \<noteq> [] \<Longrightarrow> piece (renderLabels ls)"
    unfolding renderLabels_def Let_def
    by (intro piece_three piece_join) (auto simp del: append.simps intro: piece_label)
qed

lemma piece_commit: "piece (''  <commit sha=\"'' @ safe x @ ''\">'' @ safe y @ ''</commit>'')"
proof -
  have "piece (''\">'' @ safe y @ ''</commit>'')" by (rule piece_element) (simp_all add: const_piece)
  then show ?thesis by - (rule piece_element, simp add: const_piece)
qed

lemma piece_commits: "cs \<noteq> [] \<Longrightarrow> piece (renderCommits cs)"
proof -
  have "piece ''<commits>''" "piece ''</commits>''" by (simp_all add: const_piece)
  then show "cs \<noteq> [] \<Longrightarrow> piece (renderCommits cs)"
    unfolding renderCommits_def Let_def
    by (intro piece_three piece_join) (auto simp del: append.simps intro: piece_commit)
qed

lemma piece_file: "piece (renderRelatedFile f)"
proof -
  have 1: "piece ([LF] @ ''  </related_file>'')" by (simp add: const_piece)
  have 2: "piece (''\"'' @ ''>'' @ [LF] @ safe x @ [LF] @ ''  </related_file>'')" for x
    using piece_element [of "''\"'' @ ''>'' @ [LF]", OF _ 1] by (simp add: const_piece)
  have 3: "piece (''\" matched_changed=\"'' @ safe y @ ''\"'' @ ''>'' @ [LF] @ safe x @ [LF] @ ''  </related_file>'')" for x y
    using piece_element [of "''\" matched_changed=\"''", OF _ 2] by (simp add: const_piece)
  have 4: "piece (''\" kind=\"'' @ safe z @ ''\" matched_changed=\"'' @ safe y @ ''\"'' @ ''>'' @ [LF] @ safe x @ [LF] @ ''  </related_file>'')" for x y z
    using piece_element [of "''\" kind=\"''", OF _ 3] by (simp add: const_piece)
  have "piece ((''  <related_file '' @ ''path=\"'') @ safe w @ (''\" kind=\"'' @ safe z @ ''\" matched_changed=\"'' @ safe y @ ''\"'' @ ''>'' @ [LF] @ safe x @ [LF] @ ''  </related_file>''))" for x y z w
    by (rule piece_element [OF _ 4]) (simp add: const_piece)
  then show ?thesis by (simp add: renderRelatedFile_def Let_def)
qed

lemma piece_note: "piece (''<!-- auto-fetch budget reached; '' @ digitsOf m @ '' file(s) materialized ('' @ digitsOf n @ '' bytes) -->'')"
proof -
  have "CHR ''/'' \<notin> set (digitsOf k)" for k
  proof
    assume "CHR ''/'' \<in> set (digitsOf k)"
    then have "isDigit (CHR ''/'')" by (rule digitsOf_digits)
    then show False by (simp add: isDigit_def)
  qed
  then have d: "noTag (digitsOf k)" for k by (rule noTag_no_slash)
  have "piece ('' file(s) materialized ('' @ digitsOf n @ '' bytes) -->'')"
    by (rule piece_around [OF _ d]) (simp_all add: const_piece)
  then show ?thesis by - (rule piece_around [OF _ d], simp add: const_piece)
qed

lemma piece_block: "piece (renderRelatedFilesBlock r)"
  unfolding renderRelatedFilesBlock_def Let_def
proof (rule piece_join)
  have "piece ''<related_files>''" "piece ''</related_files>''" by (simp_all add: const_piece)
  then show "\<forall>x \<in> set (if ur_hitBudgetLimit r
      then ([''<related_files>''] @ map renderRelatedFile (ur_files r) @ [''</related_files>'']) @
        [''<!-- auto-fetch budget reached; '' @ digitsOf (length (ur_files r)) @ '' file(s) materialized ('' @
         digitsOf (ur_totalBytes r) @ '' bytes) -->'']
      else [''<related_files>''] @ map renderRelatedFile (ur_files r) @ [''</related_files>'']). piece x"
    using piece_file piece_note by auto
qed simp

lemma piece_sections: "x \<in> set (wrapSections meta related) \<Longrightarrow> piece x"
proof -
  have "piece ''<untrusted>''" by (simp add: const_piece)
  then show "x \<in> set (wrapSections meta related) \<Longrightarrow> piece x"
    by (auto simp: wrapSections_def simp del: append.simps split: option.splits if_splits
        intro: piece_title piece_author piece_body piece_base piece_labels piece_commits piece_block)
qed


end
