(* ===== verification/Schemas.thy ===== *)
theory Schemas
  imports Review Regex
begin

text \<open>
  The output contract of the model (\<open>core/src/schemas.ts\<close>, \<open>core/src/url.ts\<close>): limits,
  content rules and the closed-world URL allowlist.  Validation returns the list of issues, in the
  order the schema reports them; an output is accepted when it is empty.  The types are those of the
  parsed JSON, so every violation is one that lets the outer refinement run.  The platform's URL
  parser and zod's date format are parameters.
\<close>

section \<open>\<open>core/src/url.ts\<close>\<close>

definition URL_PATTERN :: rx where
  "URL_PATTERN = rx_seq [rx_strI ''http'', Opt (LitI (CHR ''s'')), rx_str ''://'',
     rx_plus (Cls True [(9, 13), (32, 32), (160, 160), (41, 41), (93, 93), (125, 125), (60, 60), (62, 62), (34, 34), (39, 39), (96, 96)])]"

definition trimTrailingPunct :: "string \<Rightarrow> string" where
  "trimTrailingPunct m = rev (dropWhile (\<lambda>c. c \<in> set ''.,;:!?'') (rev m))"

definition extractUrls :: "string \<Rightarrow> string list" where
  "extractUrls text = map trimTrailingPunct (rx_matchAll URL_PATTERN text)"

definition isPrefixAllowed :: "string \<Rightarrow> string list \<Rightarrow> bool" where
  "isPrefixAllowed url allowedPrefixes =
     (if allowedPrefixes = [] then False else list_ex (\<lambda>p. startsWith url p) allowedPrefixes)"

record ParsedUrl =
  pu_protocol :: string
  pu_host :: string
  pu_pathname :: string

record PrRepo =
  pr_host :: string
  pr_owner :: string
  pr_repo :: string

definition isPrOwnRepoUrl :: "(string \<Rightarrow> ParsedUrl option) \<Rightarrow> string \<Rightarrow> PrRepo \<Rightarrow> bool" where
  "isPrOwnRepoUrl parseUrl url expected =
     (case parseUrl url of
        None \<Rightarrow> False
      | Some parsed \<Rightarrow>
          if pu_protocol parsed \<noteq> ''http:'' \<and> pu_protocol parsed \<noteq> ''https:'' then False
          else if toLowerCase (pu_host parsed) \<noteq> toLowerCase (pr_host expected) then False
          else (let path = toLowerCase (pu_pathname parsed);
                    pre = ''/'' @ toLowerCase (pr_owner expected) @ ''/'' @ toLowerCase (pr_repo expected)
                in path = pre \<or> startsWith path (pre @ ''/'')))"

section \<open>\<open>core/src/schemas.ts\<close>\<close>

type_synonym Issue = "string list \<times> string"

definition URL_ALLOWLIST_ISSUE_PREFIX :: string where
  "URL_ALLOWLIST_ISSUE_PREFIX = ''URL not in allowlist:''"

definition SHELL_HTTP_FETCH :: rx where
  "SHELL_HTTP_FETCH = rx_seq [Wb, rx_strI ''curl'', rx_plus rx_space, rx_strI ''http'']"

definition notBroadcastMention :: "string \<Rightarrow> bool" where
  "notBroadcastMention text = (\<not> includesStr text ''@everyone'' \<and> \<not> includesStr text ''@channel'')"

definition notShellHttpFetch :: "string \<Rightarrow> bool" where
  "notShellHttpFetch text = (\<not> rx_test SHELL_HTTP_FETCH text)"

definition check :: "bool \<Rightarrow> string list \<Rightarrow> string \<Rightarrow> Issue list" where
  "check b path msg = (if b then [] else [(path, msg)])"

definition atLeast :: "nat \<Rightarrow> string" where "atLeast n = ''String must contain at least '' @ digitsOf n @ '' character(s)''"
definition atMost :: "nat \<Rightarrow> string" where "atMost n = ''String must contain at most '' @ digitsOf n @ '' character(s)''"

definition RULE_ID_PATTERN :: rx where
  "RULE_ID_PATTERN = Seq Bol (Seq (Seq (Cls False [(97, 122)]) (rx_plus (Cls False [(45, 45), (48, 57), (97, 122)]))) Eol)"

definition safeBodyIssues :: "string list \<Rightarrow> string \<Rightarrow> Issue list" where
  "safeBodyIssues path body =
     check (1 \<le> length body) path (atLeast 1) @ check (length body \<le> BODY_MAX) path (atMost BODY_MAX) @
     check (notBroadcastMention body) path ''must not include broadcast mentions'' @
     check (notShellHttpFetch body) path ''must not include shell commands''"

definition inlineCommentIssues :: "string list \<Rightarrow> ReviewOutputComment \<Rightarrow> Issue list" where
  "inlineCommentIssues base c =
     check (1 \<le> length (c_path c)) (base @ [''path'']) (atLeast 1) @
     check (length (c_path c) \<le> PATH_MAX) (base @ [''path'']) (atMost PATH_MAX) @
     check (c_path c \<noteq> [] \<and> NUL \<notin> set (c_path c)) (base @ [''path'']) ''Invalid'' @
     check (0 < c_line c) (base @ [''line'']) ''Number must be greater than 0'' @
     check (c_line c \<le> LINE_MAX) (base @ [''line'']) ''Number must be less than or equal to 1000000'' @
     safeBodyIssues (base @ [''body'']) (c_body c) @
     (case c_ruleId c of None \<Rightarrow> []
        | Some r \<Rightarrow> check (RULE_ID_MIN \<le> length r) (base @ [''ruleId'']) (atLeast RULE_ID_MIN) @
            check (length r \<le> RULE_ID_MAX) (base @ [''ruleId'']) (atMost RULE_ID_MAX) @
            check (rx_test RULE_ID_PATTERN r) (base @ [''ruleId'']) ''Invalid'') @
     (case c_suggestion c of None \<Rightarrow> []
        | Some s \<Rightarrow> check (length s \<le> SUGGESTION_MAX) (base @ [''suggestion'']) (atMost SUGGESTION_MAX)) @
     check (\<not> (c_category c = Some Style \<and> (c_severity c = Major \<or> c_severity c = Critical))) (base @ [''severity''])
       (''category='' @ [CHR 0x27] @ ''style'' @ [CHR 0x27] @ '' must be at most severity='' @ [CHR 0x27] @ ''minor'' @ [CHR 0x27])"

record ReviewOutputPolicy =
  op_allowedUrlPrefixes :: "string list"
  op_prRepo :: PrRepo

definition urlAllowed :: "(string \<Rightarrow> ParsedUrl option) \<Rightarrow> ReviewOutputPolicy \<Rightarrow> string \<Rightarrow> bool" where
  "urlAllowed parseUrl opts url = (isPrOwnRepoUrl parseUrl url (op_prRepo opts) \<or> isPrefixAllowed url (op_allowedUrlPrefixes opts))"

definition badUrls :: "(string \<Rightarrow> ParsedUrl option) \<Rightarrow> ReviewOutputPolicy \<Rightarrow> string \<Rightarrow> string list \<Rightarrow> Issue list" where
  "badUrls parseUrl opts text path =
     map (\<lambda>url. (path, URL_ALLOWLIST_ISSUE_PREFIX @ '' '' @ url @ '' (expected host '' @ [CHR 0x27] @ pr_host (op_prRepo opts) @
            [CHR 0x27] @ '' or a configured allowed_url_prefixes entry)''))
       (filter (\<lambda>url. \<not> urlAllowed parseUrl opts url) (extractUrls text))"

definition urlIssues :: "(string \<Rightarrow> ParsedUrl option) \<Rightarrow> ReviewOutputPolicy \<Rightarrow> string \<Rightarrow> ReviewOutputComment list \<Rightarrow> Issue list" where
  "urlIssues parseUrl opts summary comments =
     concat (map (\<lambda>(i, c). badUrls parseUrl opts (c_body c) [''comments'', digitsOf i, ''body''] @
         (case c_suggestion c of None \<Rightarrow> []
            | Some s \<Rightarrow> badUrls parseUrl opts s [''comments'', digitsOf i, ''suggestion'']))
       (enumerate 0 comments)) @
     badUrls parseUrl opts summary [''summary'']"

definition baseIssues :: "string \<Rightarrow> ReviewOutputComment list \<Rightarrow> Issue list" where
  "baseIssues summary comments =
     check (length comments \<le> COMMENTS_MAX) [''comments''] (''Array must contain at most '' @ digitsOf COMMENTS_MAX @ '' element(s)'') @
     concat (map (\<lambda>(i, c). inlineCommentIssues [''comments'', digitsOf i] c) (enumerate 0 comments)) @
     check (1 \<le> length summary) [''summary''] (atLeast 1) @ check (length summary \<le> SUMMARY_MAX) [''summary''] (atMost SUMMARY_MAX)"

definition reviewOutputIssues :: "(string \<Rightarrow> ParsedUrl option) \<Rightarrow> ReviewOutputPolicy \<Rightarrow> string \<Rightarrow> ReviewOutputComment list \<Rightarrow> Issue list" where
  "reviewOutputIssues parseUrl opts summary comments = baseIssues summary comments @ urlIssues parseUrl opts summary comments"

definition isHexLower :: "nat \<Rightarrow> string \<Rightarrow> bool" where
  "isHexLower n s = (length s = n \<and> (\<forall>c \<in> set s. in_cls False [(48, 57), (97, 102)] c))"

definition reviewStateOk :: "(string \<Rightarrow> bool) \<Rightarrow> ReviewState \<Rightarrow> bool" where
  "reviewStateOk isDatetime st =
     (rs_schemaVersion st = 1 \<and> isHexLower 40 (rs_lastReviewedSha st) \<and> isHexLower 40 (rs_baseSha st) \<and>
      isDatetime (rs_reviewedAt st) \<and> MODEL_NAME_MIN \<le> length (rs_modelUsed st) \<and> length (rs_modelUsed st) \<le> MODEL_NAME_MAX \<and>
      0 \<le> rs_totalTokens st \<and> 0 \<le> rs_totalCostUsd st \<and> (\<forall>f \<in> set (rs_commentFingerprints st). isHexLower 16 f))"

section \<open>What an accepted output guarantees\<close>

lemma check_Nil [simp]: "check b p m = [] \<longleftrightarrow> b"
  by (simp add: check_def)

lemma badUrls_Nil: "badUrls parseUrl opts text path = [] \<longleftrightarrow> (\<forall>url \<in> set (extractUrls text). urlAllowed parseUrl opts url)"
  by (auto simp: badUrls_def filter_empty_conv)

lemma concat_enumerate_Nil: "concat (map (\<lambda>(i, c). f i c) (enumerate n cs)) = [] \<Longrightarrow> c \<in> set cs \<Longrightarrow> \<exists>i. f i c = []"
  by (induction cs arbitrary: n) auto

definition reviewTexts :: "string \<Rightarrow> ReviewOutputComment list \<Rightarrow> string set" where
  "reviewTexts summary comments = insert summary (c_body ` set comments \<union> (\<Union>c \<in> set comments. set_option (c_suggestion c)))"

lemma urlIssues_Nil:
  assumes "urlIssues parseUrl opts summary comments = []" "t \<in> reviewTexts summary comments"
  shows "\<forall>url \<in> set (extractUrls t). urlAllowed parseUrl opts url"
proof -
  let ?f = "\<lambda>i c. badUrls parseUrl opts (c_body c) [''comments'', digitsOf i, ''body''] @
         (case c_suggestion c of None \<Rightarrow> [] | Some s \<Rightarrow> badUrls parseUrl opts s [''comments'', digitsOf i, ''suggestion''])"
  have cs: "\<exists>i. ?f i c = []" if "c \<in> set comments" for c
    using assms(1) that unfolding urlIssues_def by (intro concat_enumerate_Nil [of ?f 0 comments]) simp_all
  consider "t = summary" | c where "c \<in> set comments" "t = c_body c" | c where "c \<in> set comments" "c_suggestion c = Some t"
    using assms(2) by (auto simp: reviewTexts_def elem_set)
  then show ?thesis
  proof cases
    case 1
    then show ?thesis using assms(1) by (simp add: urlIssues_def badUrls_Nil)
  next
    case (2 c)
    then show ?thesis using cs [of c] by (auto simp: badUrls_Nil)
  next
    case (3 c)
    then show ?thesis using cs [of c] by (auto simp: badUrls_Nil)
  qed
qed

lemma startsWith_dir: "path = pre \<or> startsWith path (pre @ ''/'') \<longleftrightarrow> (\<exists>rest. path = pre @ rest \<and> (rest = [] \<or> hd rest = CHR ''/''))"
proof
  assume "\<exists>rest. path = pre @ rest \<and> (rest = [] \<or> hd rest = CHR ''/'')"
  then obtain rest where r: "path = pre @ rest" "rest = [] \<or> hd rest = CHR ''/''" by blast
  then show "path = pre \<or> startsWith path (pre @ ''/'')" by (cases rest) (auto simp: startsWith_iff_append)
qed (auto simp: startsWith_iff_append)

lemma own_repo_url:
  assumes "isPrOwnRepoUrl parseUrl url repo"
  shows "\<exists>u rest. parseUrl url = Some u \<and> (pu_protocol u = ''http:'' \<or> pu_protocol u = ''https:'') \<and>
    toLowerCase (pu_host u) = toLowerCase (pr_host repo) \<and>
    toLowerCase (pu_pathname u) = ''/'' @ toLowerCase (pr_owner repo) @ ''/'' @ toLowerCase (pr_repo repo) @ rest \<and>
    (rest = [] \<or> hd rest = CHR ''/'')"
proof -
  let ?pre = "''/'' @ toLowerCase (pr_owner repo) @ ''/'' @ toLowerCase (pr_repo repo)"
  obtain u where u: "parseUrl url = Some u" "pu_protocol u = ''http:'' \<or> pu_protocol u = ''https:''"
    "toLowerCase (pu_host u) = toLowerCase (pr_host repo)"
    and path: "toLowerCase (pu_pathname u) = ?pre \<or> startsWith (toLowerCase (pu_pathname u)) (?pre @ ''/'')"
    using assms by (auto simp: isPrOwnRepoUrl_def Let_def split: option.splits if_splits)
  obtain rest where "toLowerCase (pu_pathname u) = ?pre @ rest" "rest = [] \<or> hd rest = CHR ''/''"
    using iffD1 [OF startsWith_dir path] by blast
  then show ?thesis using u by auto
qed


definition sampleOutput :: ReviewOutputComment where
  "sampleOutput = \<lparr>c_path = ''a.ts'', c_line = 3, c_side = RIGHT, c_body = ''see https://x.io/a.'', c_severity = Minor,
     c_category = None, c_confidence = None, c_ruleId = Some ''null-deref'', c_suggestion = None\<rparr>"

definition samplePolicy :: ReviewOutputPolicy where
  "samplePolicy = \<lparr>op_allowedUrlPrefixes = [''https://x.io/''], op_prRepo = \<lparr>pr_host = ''h'', pr_owner = ''o'', pr_repo = ''r''\<rparr>\<rparr>"

lemma sampleOutput_ok: "reviewOutputIssues (\<lambda>_. None) samplePolicy ''ok'' [sampleOutput] = []"
proof -
  have u: "extractUrls ''see https://x.io/a.'' = [''https://x.io/a''] \<and> extractUrls ''ok'' = []" by code_simp
  have m: "notBroadcastMention ''see https://x.io/a.'' \<and> notShellHttpFetch ''see https://x.io/a.'' \<and> rx_test RULE_ID_PATTERN ''null-deref''"
    by code_simp
  show ?thesis
    by (simp add: reviewOutputIssues_def baseIssues_def urlIssues_def sampleOutput_def samplePolicy_def inlineCommentIssues_def
      safeBodyIssues_def badUrls_Nil urlAllowed_def isPrefixAllowed_def u m COMMENTS_MAX_def SUMMARY_MAX_def PATH_MAX_def LINE_MAX_def BODY_MAX_def RULE_ID_MIN_def RULE_ID_MAX_def)
qed

definition sampleParse :: "string \<Rightarrow> ParsedUrl option" where
  "sampleParse url = (if url = ''https://H/o/r/1'' then Some \<lparr>pu_protocol = ''https:'', pu_host = ''h'', pu_pathname = ''/o/r/1''\<rparr> else None)"

lemma ownRepoOutput_ok: "reviewOutputIssues sampleParse samplePolicy ''https://H/o/r/1'' [sampleOutput] = []"
proof -
  have u: "extractUrls ''see https://x.io/a.'' = [''https://x.io/a''] \<and> extractUrls ''https://H/o/r/1'' = [''https://H/o/r/1'']"
    by code_simp
  have m: "notBroadcastMention ''see https://x.io/a.'' \<and> notShellHttpFetch ''see https://x.io/a.'' \<and> rx_test RULE_ID_PATTERN ''null-deref'' \<and>
      isPrOwnRepoUrl sampleParse ''https://H/o/r/1'' (op_prRepo samplePolicy)"
    by code_simp
  show ?thesis
    using m
    by (simp add: reviewOutputIssues_def baseIssues_def urlIssues_def sampleOutput_def samplePolicy_def inlineCommentIssues_def
      safeBodyIssues_def badUrls_Nil urlAllowed_def isPrefixAllowed_def u COMMENTS_MAX_def SUMMARY_MAX_def PATH_MAX_def LINE_MAX_def BODY_MAX_def RULE_ID_MIN_def RULE_ID_MAX_def)
qed


text \<open>
  An accepted output is bounded and policed: at most 50 comments and a summary of 1 to 10000
  characters; every comment names a path without a NUL character and a line between 1 and a
  million, its body has 1 to 5000 characters, no broadcast mention and no shell download, and a style
  finding is at most minor.
\<close>

theorem output_limits:
  assumes "reviewOutputIssues parseUrl opts summary comments = []" "c \<in> set comments"
  shows "length comments \<le> 50 \<and> length summary \<in> {1..10000} \<and>
    c_path c \<noteq> [] \<and> length (c_path c) \<le> 500 \<and> NUL \<notin> set (c_path c) \<and> c_line c \<in> {1..1000000} \<and>
    length (c_body c) \<in> {1..5000} \<and> \<not> includesStr (c_body c) ''@everyone'' \<and> \<not> rx_test SHELL_HTTP_FETCH (c_body c) \<and>
    (c_category c = Some Style \<longrightarrow> c_severity c \<le> Minor)"
proof -
  have b: "baseIssues summary comments = []" using assms(1) by (simp add: reviewOutputIssues_def)
  then obtain i where "inlineCommentIssues [''comments'', digitsOf i] c = []"
    using concat_enumerate_Nil [of "\<lambda>i c. inlineCommentIssues [''comments'', digitsOf i] c" 0 comments c] assms(2)
    by (auto simp: baseIssues_def)
  then show ?thesis using b
    by (cases "c_severity c")
      (auto simp: baseIssues_def inlineCommentIssues_def safeBodyIssues_def notBroadcastMention_def notShellHttpFetch_def
        COMMENTS_MAX_def SUMMARY_MAX_def PATH_MAX_def LINE_MAX_def BODY_MAX_def less_eq_Severity_def Suc_le_eq)
qed

theorem output_limits_witness:
  "length (c_body sampleOutput) \<le> 5000 \<and> c_line sampleOutput \<in> {1..1000000}"
proof -
  have 2: "sampleOutput \<in> set [sampleOutput]" by simp
  show ?thesis using output_limits [OF sampleOutput_ok 2] by simp
qed

end
