(* ===== verification/Paths.thy ===== *)
theory Paths
  imports Prelude
begin

text \<open>
  The POSIX \<open>node:path\<close> functions the sources call (\<open>resolve\<close>, \<open>relative\<close>,
  \<open>join\<close>, \<open>isAbsolute\<close>, \<open>dirname\<close>, \<open>extname\<close>, \<open>basename\<close>),
  and what they do to a normal absolute path: a slash and segments none of which is empty, a dot
  or a double dot.
\<close>

abbreviation SLASH :: char where "SLASH \<equiv> CHR 0x2F"
abbreviation DOTDOT :: string where "DOTDOT \<equiv> ''..''"

section \<open>Segments\<close>

definition segments :: "string \<Rightarrow> string list" where
  "segments p = splitOn SLASH p"

definition joinSegs :: "string list \<Rightarrow> string" where
  "joinSegs ss = joinWith [SLASH] ss"

definition isAbsolute :: "string \<Rightarrow> bool" where
  "isAbsolute p = startsWith p [SLASH]"

text \<open>\<open>normalizeString\<close>: the segments kept so far are a stack; \<open>up\<close> is \<open>allowAboveRoot\<close>.\<close>

fun normSegs :: "bool \<Rightarrow> string list \<Rightarrow> string list \<Rightarrow> string list" where
  "normSegs up st [] = rev st"
| "normSegs up st (s # ss) =
     (if s = [] \<or> s = ''.'' then normSegs up st ss
      else if s = DOTDOT
        then (if st \<noteq> [] \<and> hd st \<noteq> DOTDOT then normSegs up (tl st) ss
              else if up then normSegs up (DOTDOT # st) ss
              else normSegs up st ss)
      else normSegs up (s # st) ss)"

definition pathNormalize :: "string \<Rightarrow> string" where
  "pathNormalize p =
     (if p = [] then ''.''
      else let abs = isAbsolute p; trailing = endsWith p [SLASH]; n = joinSegs (normSegs (\<not> abs) [] (segments p))
           in if n = [] then (if abs then ''/'' else if trailing then ''./'' else ''.'')
              else (if abs then [SLASH] else []) @ n @ (if trailing then [SLASH] else []))"

definition pathJoin :: "string list \<Rightarrow> string" where
  "pathJoin ps = (let ne = filter (\<lambda>p. p \<noteq> []) ps in if ne = [] then ''.'' else pathNormalize (joinSegs ne))"

text \<open>\<open>resolve(...args)\<close>: arguments are prepended, last to first, up to an absolute one; \<open>cwd\<close> is absolute.\<close>

fun resolveLoop :: "string list \<Rightarrow> string \<Rightarrow> string" where
  "resolveLoop [] acc = acc"
| "resolveLoop (p # ps) acc =
     (if p = [] then resolveLoop ps acc
      else if isAbsolute p then p @ [SLASH] @ acc
      else resolveLoop ps (p @ [SLASH] @ acc))"

definition absPath :: "string list \<Rightarrow> string" where
  "absPath ss = SLASH # joinSegs ss"

definition pathResolve :: "string \<Rightarrow> string list \<Rightarrow> string" where
  "pathResolve cwd args = absPath (normSegs False [] (segments (resolveLoop (rev args @ [cwd]) [])))"

text \<open>\<open>relative(from, to)\<close>: one step up for every segment of \<open>from\<close> after the common ones.\<close>

fun relSegs :: "string list \<Rightarrow> string list \<Rightarrow> string list" where
  "relSegs (a # as) (b # bs) = (if a = b then relSegs as bs else replicate (length (a # as)) DOTDOT @ b # bs)"
| "relSegs [] bs = bs"
| "relSegs as [] = replicate (length as) DOTDOT"

definition absSegs :: "string \<Rightarrow> string \<Rightarrow> string list" where
  "absSegs cwd p = normSegs False [] (segments (resolveLoop [p, cwd] []))"

definition pathRelative :: "string \<Rightarrow> string \<Rightarrow> string \<Rightarrow> string" where
  "pathRelative cwd from to =
     (if from = to then [] else joinSegs (relSegs (absSegs cwd from) (absSegs cwd to)))"

section \<open>Names\<close>

definition lastComponent :: "string \<Rightarrow> string" where
  "lastComponent p = rev (takeWhile (\<lambda>c. c \<noteq> SLASH) (dropWhile (\<lambda>c. c = SLASH) (rev p)))"

definition dirname :: "string \<Rightarrow> string" where
  "dirname p =
     (if p = [] then ''.''
      else let r = dropWhile (\<lambda>c. c \<noteq> SLASH) (dropWhile (\<lambda>c. c = SLASH) (rev (tl p)))
           in if r = [] then (if isAbsolute p then ''/'' else ''.'')
              else if isAbsolute p \<and> length r = 1 then ''//''
              else take (length r) p)"

definition extname :: "string \<Rightarrow> string" where
  "extname p =
     (let b = lastComponent p; e = takeWhile (\<lambda>c. c \<noteq> CHR ''.'') (rev b)
      in if CHR ''.'' \<notin> set b \<or> length e + 1 = length b \<or> b = DOTDOT then []
         else CHR ''.'' # rev e)"

definition basename :: "string \<Rightarrow> string \<Rightarrow> string" where
  "basename p ext =
     (let b = lastComponent p
      in if ext \<noteq> [] \<and> ext = p then []
         else if ext \<noteq> [] \<and> endsWith b ext \<and> b \<noteq> ext then take (length b - length ext) b
         else b)"

section \<open>Normal paths\<close>

definition normalSeg :: "string \<Rightarrow> bool" where
  "normalSeg s = (s \<noteq> [] \<and> s \<noteq> ''.'' \<and> s \<noteq> DOTDOT \<and> SLASH \<notin> set s)"

abbreviation normal :: "string list \<Rightarrow> bool" where
  "normal ss \<equiv> list_all normalSeg ss"

lemma segments_join: "normal ss \<Longrightarrow> segments (joinSegs ss) = (if ss = [] then [[]] else ss)"
  by (auto simp: segments_def joinSegs_def list_all_iff normalSeg_def intro!: split_join)

lemma joinSegs_Nil [simp]: "joinSegs [] = []"
  by (simp add: joinSegs_def)

lemma joinSegs_empty: "normal ss \<Longrightarrow> joinSegs ss = [] \<longleftrightarrow> ss = []"
  by (cases ss; cases "tl ss") (auto simp: joinSegs_def normalSeg_def)

lemma segments_slash: "segments (a @ SLASH # b) = segments a @ segments b"
  by (simp add: segments_def splitOn_append)

lemma segments_slash0: "segments (SLASH # b) = [] # segments b"
  using segments_slash [of "[]" b] by (simp add: segments_def)

lemma segments_Nil: "segments [] = [[]]"
  by (simp add: segments_def)

lemma normSegs_normal: "normal ss \<Longrightarrow> normSegs up st ss = rev st @ ss"
  by (induction ss arbitrary: st) (auto simp: normalSeg_def)

lemma normSegs_append: "normal as \<Longrightarrow> normSegs up st (as @ bs) = normSegs up (rev as @ st) bs"
  by (induction as arbitrary: st) (auto simp: normalSeg_def)

lemma normSegs_Nil_seg [simp]: "normSegs up st ([] # ss) = normSegs up st ss"
  by simp

lemma normSegs_trailing: "normSegs up st (ss @ [[]]) = normSegs up st ss"
  by (induction up st ss rule: normSegs.induct) auto

lemma segments_nosep: "s \<in> set (segments p) \<Longrightarrow> SLASH \<notin> set s"
  by (simp add: segments_def splitOn_nosep)

lemma normSegs_is_normal:
  "normal st \<Longrightarrow> \<forall>s \<in> set ss. SLASH \<notin> set s \<Longrightarrow> normal (normSegs False st ss)"
proof (induction False st ss rule: normSegs.induct)
  case (2 st s ss)
  have "normal (tl st)" using "2.prems"(1) by (cases st) auto
  moreover have "hd st \<noteq> DOTDOT" if "st \<noteq> []" using "2.prems"(1) that by (cases st) (auto simp: normalSeg_def)
  ultimately show ?case using 2 by (auto simp: normalSeg_def)
qed (auto simp: list_all_iff)

lemma absSegs_normal: "normal (absSegs cwd p)"
  unfolding absSegs_def by (rule normSegs_is_normal) (auto simp: segments_nosep)

text \<open>A normal absolute path resolves to its own segments, and a relative one to below it.\<close>

lemma segments_absPath: "normal ss \<Longrightarrow> normSegs up [] (segments (absPath ss)) = ss"
  by (cases "ss = []") (simp_all add: absPath_def segments_slash0 segments_join normSegs_normal segments_Nil)

lemma absSegs_absPath: "normal ss \<Longrightarrow> absSegs cwd (absPath ss) = ss"
proof -
  assume n: "normal ss"
  have "resolveLoop [absPath ss, cwd] [] = absPath ss @ SLASH # []"
    by (simp add: absPath_def isAbsolute_def)
  moreover have "segments (absPath ss @ SLASH # []) = segments (absPath ss) @ [[]]"
    unfolding segments_slash by (simp add: segments_def)
  ultimately show ?thesis using segments_absPath [OF n] by (simp add: absSegs_def normSegs_trailing)
qed

lemma pathResolve_two:
  assumes "normal W" "p \<noteq> []" "\<not> isAbsolute p"
  shows "pathResolve cwd [absPath W, p] = absPath (normSegs False (rev W) (segments p))"
proof -
  have "resolveLoop [p, absPath W, cwd] [] = absPath W @ SLASH # (p @ SLASH # [])"
    using assms by (simp add: absPath_def isAbsolute_def)
  moreover have "segments (absPath W @ SLASH # (p @ SLASH # [])) = segments (absPath W) @ segments p @ [[]]"
    unfolding segments_slash by (simp add: segments_def)
  moreover have "normSegs False [] (segments (absPath W) @ x) = normSegs False (rev W) x" for x
  proof (cases "W = []")
    case True
    then show ?thesis by (simp add: absPath_def segments_slash0 segments_def)
  next
    case False
    then have "segments (absPath W) = [] # W" using assms(1) by (simp add: absPath_def segments_slash0 segments_join)
    then show ?thesis using normSegs_append [OF assms(1), of False "[]" x] by simp
  qed
  ultimately show ?thesis by (simp add: pathResolve_def normSegs_trailing flip: append_assoc)
qed

lemma relSegs_below: "relSegs W (W @ r) = r"
  by (induction W) auto

lemma relSegs_cases:
  obtains r where "A = W @ r" "relSegs W A = r" | r where "relSegs W A = DOTDOT # r"
proof (cases "\<exists>r. A = W @ r")
  case True
  then show ?thesis using that(1) relSegs_below by blast
next
  case False
  then have "\<exists>r. relSegs W A = DOTDOT # r"
    by (induction W A rule: relSegs.induct) (auto split: if_splits)
  then show ?thesis using that(2) by blast
qed

lemma pathRelative_abs:
  "normal W \<Longrightarrow> normal A \<Longrightarrow> pathRelative cwd (absPath W) (absPath A) = joinSegs (relSegs W A)"
proof -
  assume n: "normal W" "normal A"
  have "relSegs W A = []" if "absPath W = absPath A"
    using arg_cong [OF that, of "absSegs cwd"] n relSegs_below [of A "[]"] by (simp add: absSegs_absPath)
  then show ?thesis using n by (simp add: pathRelative_def absSegs_absPath)
qed

lemma pathRelative_below:
  "normal W \<Longrightarrow> normal r \<Longrightarrow> pathRelative cwd (absPath W) (absPath (W @ r)) = joinSegs r"
  using pathRelative_abs [of W "W @ r" cwd] by (simp add: relSegs_below)

lemma joinSegs_DOTDOT: "startsWith (joinSegs (DOTDOT # r)) DOTDOT"
  by (cases r) (auto simp: joinSegs_def)

lemma joinSegs_append: "normal as \<Longrightarrow> as \<noteq> [] \<Longrightarrow> joinSegs (as @ [b]) = joinSegs as @ SLASH # b"
  by (simp add: joinSegs_def joinWith_append)

lemma pathJoin_below:
  assumes "normal W" "normalSeg s"
  shows "pathJoin [absPath W, s] = absPath (W @ [s])"
proof -
  have ns: "s \<noteq> []" "SLASH \<notin> set s" using assms(2) by (auto simp: normalSeg_def)
  have j: "joinSegs [absPath W, s] = absPath W @ SLASH # s" by (simp add: joinSegs_def)
  have seg: "segments (absPath W @ SLASH # s) = segments (absPath W) @ [s]"
    using ns unfolding segments_slash by (simp add: segments_def splitOn_no_occurrence)
  have "normSegs False [] (segments (absPath W) @ [s]) = W @ [s]"
  proof (cases "W = []")
    case True
    then show ?thesis using assms(2) by (simp add: absPath_def segments_slash0 segments_def normalSeg_def)
  next
    case False
    then have "segments (absPath W) = [] # W" using assms(1) by (simp add: absPath_def segments_slash0 segments_join)
    then show ?thesis using normSegs_normal [of "W @ [s]" False "[]"] assms by simp
  qed
  moreover have "\<not> endsWith (absPath W @ SLASH # s) [SLASH]"
    using ns by (auto simp: endsWith_iff_append) (metis append_is_Nil_conv last.simps last_append last_in_set list.distinct(1) snoc_eq_iff_butlast)
  moreover have "isAbsolute (absPath W @ SLASH # s)" by (simp add: absPath_def isAbsolute_def)
  moreover have "joinSegs (W @ [s]) \<noteq> []" using joinSegs_empty [of "W @ [s]"] assms by simp
  ultimately show ?thesis
    using seg j ns by (simp add: pathJoin_def pathNormalize_def absPath_def Let_def)
qed

end
