(* ===== verification/Tools.thy ===== *)
theory Tools
  imports Review Glob Paths
begin

text \<open>
  The tools the model may call (\<open>runner/src/tools.ts\<close>): \<open>read_file\<close>, \<open>glob\<close> and
  \<open>grep\<close> over the workspace, the path checks and the deny list.  The file-system primitives
  are the \<open>ToolDeps\<close> of the code: what \<open>readFile\<close> answers for a path, whether
  \<open>lstat\<close> succeeds and finds a symbolic link, and the directory tree that \<open>readdir\<close> and
  \<open>readFile\<close> show to the two walkers.  An operator regular expression is compiled by the
  parameter \<open>newRegExp\<close>.
\<close>

section \<open>Deny list\<close>

definition segStart :: rx where "segStart = Alt Bol (Lit SLASH)"
definition segEnd :: rx where "segEnd = Alt (Lit SLASH) Eol"

definition DENY_PATTERNS :: "rx list" where
  "DENY_PATTERNS =
     [rx_seq [segStart, rx_str ''.env'', Opt (Seq (Lit (CHR ''.'')) (Star rx_dot)), Eol],
      rx_seq [segStart, rx_strI ''secret'', Opt (LitI (CHR ''s'')), segEnd],
      rx_seq [segStart, rx_strI ''private'', segEnd],
      rx_seq [segStart, rx_strI ''credential'', Opt (LitI (CHR ''s'')), segEnd],
      rx_seq [Lit (CHR ''.''), rx_alts [rx_strI ''key'', rx_strI ''pem'', rx_strI ''p12'', rx_strI ''pfx''], Eol],
      rx_seq [rx_strI ''credentials'', Star rx_dot, rx_strI ''.json'', Eol],
      rx_seq [rx_strI ''service-account'', Star rx_dot, rx_strI ''.json'', Eol],
      rx_seq [Bol, rx_str ''.aws/credentials'', Eol]]"

datatype ToolName = ReadFile | GlobTool | Grep

fun toolNameOf :: "string \<Rightarrow> ToolName option" where
  "toolNameOf s = (if s = ''read_file'' then Some ReadFile else if s = ''glob'' then Some GlobTool
     else if s = ''grep'' then Some Grep else None)"

definition denied :: "rx list \<Rightarrow> string \<Rightarrow> bool" where
  "denied patterns rel = list_ex (\<lambda>p. rx_test p rel) patterns"

definition checkDenyList :: "string \<Rightarrow> rx list \<Rightarrow> AgentError + unit" where
  "checkDenyList rel patterns =
     (if denied patterns rel then Inl (ToolDispatchRefusedError ''read_file'' (''path matches deny-list: '' @ quoted rel)) else Inr ())"

section \<open>File-system primitives\<close>

text \<open>
  An entry of a directory as the walkers see it: \<open>BrokenFile\<close> and \<open>BrokenDir\<close> are entries whose
  reading fails with an error code, \<open>OtherNode\<close> is neither a file nor a directory (a link, a socket).
\<close>

datatype Node =
    FileNode string
  | DirNode "(string \<times> Node) list"
  | BrokenFile string
  | BrokenDir string
  | OtherNode

record ToolDeps =
  td_readFile :: "string \<Rightarrow> string + string"
  td_isSymlink :: "string \<Rightarrow> bool"
  td_tree :: "string \<Rightarrow> Node"
  td_cwd :: string

definition KNOWN_FS_CODES :: "string list" where
  "KNOWN_FS_CODES = [''ENOENT'', ''EACCES'', ''EPERM'', ''EISDIR'']"

definition fsErrorCode :: "string \<Rightarrow> string option" where
  "fsErrorCode code = (if code \<in> set KNOWN_FS_CODES then Some code else None)"

section \<open>\<open>read_file\<close>\<close>

definition refuse :: "string \<Rightarrow> string \<Rightarrow> AgentError + 'a" where
  "refuse tool msg = Inl (ToolDispatchRefusedError tool msg)"

text \<open>The walk over the segments of the relative path, looking for a symbolic link.\<close>

fun symlinkOnPath :: "(string \<Rightarrow> bool) \<Rightarrow> string \<Rightarrow> string list \<Rightarrow> bool" where
  "symlinkOnPath isSymlink cursor [] = False"
| "symlinkOnPath isSymlink cursor (seg # segs) =
     (if seg = [] then symlinkOnPath isSymlink cursor segs
      else let cursor = pathJoin [cursor, seg]
           in if isSymlink cursor then True else symlinkOnPath isSymlink cursor segs)"

definition resolveSafePath :: "ToolDeps \<Rightarrow> string \<Rightarrow> string \<Rightarrow> rx list \<Rightarrow> AgentError + string" where
  "resolveSafePath deps workspace requested denyPatterns =
     (if requested = [] then refuse ''read_file'' ''empty path''
      else if includesStr requested [NUL] then refuse ''read_file'' ''path contains NUL byte''
      else if isAbsolute requested then refuse ''read_file'' (''absolute path: '' @ quoted requested)
      else if startsWith requested ''~'' then refuse ''read_file'' (''home-expanded path: '' @ quoted requested)
      else let absolute = pathResolve (td_cwd deps) [workspace, requested];
               rel = pathRelative (td_cwd deps) workspace absolute
           in if startsWith rel ''..'' \<or> isAbsolute rel then refuse ''read_file'' (''path escapes workspace: '' @ quoted requested)
              else case checkDenyList rel denyPatterns of
                     Inl e \<Rightarrow> Inl e
                   | Inr _ \<Rightarrow>
                       if symlinkOnPath (td_isSymlink deps) workspace (segments rel)
                       then refuse ''read_file'' (''path traverses a symlink: '' @ quoted rel)
                       else Inr absolute)"

definition truncationNote :: "nat \<Rightarrow> string" where
  "truncationNote n = LF # ''[...truncated at '' @ digitsOf n @ '' chars]''"

definition effectiveDeny :: "rx list \<Rightarrow> rx list" where
  "effectiveDeny denyPatterns = DENY_PATTERNS @ denyPatterns"

definition read_file :: "ToolDeps \<Rightarrow> string \<Rightarrow> rx list \<Rightarrow> string \<Rightarrow> AgentError + string" where
  "read_file deps workspace denyPatterns requested =
     (case resolveSafePath deps workspace requested (effectiveDeny denyPatterns) of
        Inl e \<Rightarrow> Inl e
      | Inr absolute \<Rightarrow>
          (case td_readFile deps absolute of
             Inl code \<Rightarrow> Inl (OtherError code)
           | Inr content \<Rightarrow>
               if MAX_FILE_SIZE < length content then Inr (take MAX_FILE_SIZE content @ truncationNote MAX_FILE_SIZE)
               else Inr content))"

section \<open>\<open>glob\<close>\<close>

fun walk :: "string \<Rightarrow> string \<Rightarrow> rx \<Rightarrow> rx list \<Rightarrow> string \<Rightarrow> Node \<Rightarrow> string list"
  and walkEntries :: "string \<Rightarrow> string \<Rightarrow> rx \<Rightarrow> rx list \<Rightarrow> string \<Rightarrow> (string \<times> Node) list \<Rightarrow> string list" where
  "walk cwd base matcher deny dir (DirNode es) = walkEntries cwd base matcher deny dir es"
| "walk cwd base matcher deny dir (FileNode s) = []"
| "walk cwd base matcher deny dir (BrokenFile c) = []"
| "walk cwd base matcher deny dir (BrokenDir c) = []"
| "walk cwd base matcher deny dir OtherNode = []"
| "walkEntries cwd base matcher deny dir [] = []"
| "walkEntries cwd base matcher deny dir ((name, e) # es) =
     (let full = pathJoin [dir, name]; rel = pathRelative cwd base full
      in (if denied deny rel then []
          else case e of
                 DirNode _ \<Rightarrow> walk cwd base matcher deny full e
               | BrokenDir _ \<Rightarrow> walk cwd base matcher deny full e
               | FileNode _ \<Rightarrow> if rx_test matcher rel then [rel] else []
               | BrokenFile _ \<Rightarrow> if rx_test matcher rel then [rel] else []
               | OtherNode \<Rightarrow> []) @ walkEntries cwd base matcher deny dir es)"

definition globTool :: "ToolDeps \<Rightarrow> string \<Rightarrow> rx list \<Rightarrow> string \<Rightarrow> AgentError + string list" where
  "globTool deps workspace denyPatterns pattern =
     (if pattern = [] then refuse ''glob'' ''empty pattern''
      else if includesStr pattern ''..'' then refuse ''glob'' (''traversal pattern: '' @ quoted pattern)
      else case patternToRegExp pattern of
             Inl e \<Rightarrow> Inl (OtherError e)
           | Inr matcher \<Rightarrow> Inr (walk (td_cwd deps) workspace matcher (effectiveDeny denyPatterns) workspace (td_tree deps workspace)))"

section \<open>\<open>grep\<close>\<close>

definition unreadable :: "string \<Rightarrow> string \<Rightarrow> string \<Rightarrow> string" where
  "unreadable rel what code = rel @ '':0: [unreadable '' @ what @ '': '' @ code @ '']''"

definition matchLines :: "rx \<Rightarrow> string \<Rightarrow> string \<Rightarrow> string list" where
  "matchLines re rel text =
     map (\<lambda>(i, line). rel @ '':'' @ digitsOf (i + 1) @ '': '' @ line)
       (filter (\<lambda>(i, line). rx_test re line) (enumerate 0 (splitOn LF text)))"

text \<open>What one entry contributes: the lines pushed, or the error that ends the whole search.\<close>

definition grepFile :: "rx \<Rightarrow> string \<Rightarrow> string + string \<Rightarrow> AgentError + string list" where
  "grepFile re rel answer =
     (case answer of
        Inr text \<Rightarrow> Inr (matchLines re rel text)
      | Inl code \<Rightarrow>
          (case fsErrorCode code of
             None \<Rightarrow> Inl (OtherError code)
           | Some k \<Rightarrow>
               if k = ''ENOENT'' \<or> k = ''EISDIR'' then Inr []
               else Inr [unreadable rel ''file'' k]))"

definition grepUnreadableDir :: "string \<Rightarrow> string \<Rightarrow> AgentError + string list" where
  "grepUnreadableDir rel code =
     (case fsErrorCode code of
        None \<Rightarrow> Inl (OtherError code)
      | Some k \<Rightarrow>
          if k = ''ENOENT'' then Inr []
          else if k = ''EACCES'' \<or> k = ''EPERM'' then Inr [unreadable (if rel = [] then ''.'' else rel) ''directory'' k]
          else Inl (OtherError code))"

definition andThen :: "'e + 'a list \<Rightarrow> 'e + 'a list \<Rightarrow> 'e + 'a list" where
  "andThen a b = (case a of Inl e \<Rightarrow> Inl e | Inr x \<Rightarrow> (case b of Inl e \<Rightarrow> Inl e | Inr y \<Rightarrow> Inr (x @ y)))"

fun grepDir :: "string \<Rightarrow> string \<Rightarrow> rx \<Rightarrow> rx list \<Rightarrow> string \<Rightarrow> Node \<Rightarrow> AgentError + string list"
  and grepEntries :: "string \<Rightarrow> string \<Rightarrow> rx \<Rightarrow> rx list \<Rightarrow> string \<Rightarrow> (string \<times> Node) list \<Rightarrow> AgentError + string list" where
  "grepDir cwd scope re deny dir (DirNode es) = grepEntries cwd scope re deny dir es"
| "grepDir cwd scope re deny dir (BrokenDir code) = grepUnreadableDir (pathRelative cwd scope dir) code"
| "grepDir cwd scope re deny dir (FileNode s) = Inl (OtherError ''ENOTDIR'')"
| "grepDir cwd scope re deny dir (BrokenFile c) = Inl (OtherError ''ENOTDIR'')"
| "grepDir cwd scope re deny dir OtherNode = Inl (OtherError ''ENOTDIR'')"
| "grepEntries cwd scope re deny dir [] = Inr []"
| "grepEntries cwd scope re deny dir ((name, e) # es) =
     (let full = pathJoin [dir, name]; rel = pathRelative cwd scope full
      in andThen (if denied deny rel then Inr []
                  else case e of
                         DirNode _ \<Rightarrow> grepDir cwd scope re deny full e
                       | BrokenDir _ \<Rightarrow> grepDir cwd scope re deny full e
                       | FileNode text \<Rightarrow> grepFile re rel (Inr text)
                       | BrokenFile code \<Rightarrow> grepFile re rel (Inl code)
                       | OtherNode \<Rightarrow> Inr [])
           (grepEntries cwd scope re deny dir es))"

definition grepTool :: "(string \<Rightarrow> rx option) \<Rightarrow> ToolDeps \<Rightarrow> string \<Rightarrow> rx list \<Rightarrow> string \<Rightarrow> string option \<Rightarrow> AgentError + string list" where
  "grepTool newRegExp deps workspace denyPatterns pattern scope =
     (if pattern = [] then refuse ''grep'' ''empty pattern''
      else if MAX_GREP_PATTERN_LENGTH < length pattern
        then refuse ''grep'' (''pattern too long (max '' @ digitsOf MAX_GREP_PATTERN_LENGTH @ '' chars)'')
      else case newRegExp pattern of
             None \<Rightarrow> refuse ''grep'' (''invalid regex: '' @ quoted pattern)
           | Some re \<Rightarrow>
               (case (case scope of None \<Rightarrow> Inr workspace
                        | Some p \<Rightarrow> if p = [] then Inr workspace
                            else resolveSafePath deps workspace p (effectiveDeny denyPatterns)) of
                  Inl e \<Rightarrow> Inl e
                | Inr target \<Rightarrow> grepDir (td_cwd deps) target re (effectiveDeny denyPatterns) target (td_tree deps target)))"

section \<open>Dispatch\<close>

record ToolArgs =
  ta_path :: "string option"
  ta_pattern :: "string option"

datatype ToolOutcome = Text string | Listing "string list"

definition dispatchTool :: "(string \<Rightarrow> rx option) \<Rightarrow> ToolDeps \<Rightarrow> string \<Rightarrow> rx list \<Rightarrow> string \<Rightarrow> ToolArgs option \<Rightarrow> AgentError + ToolOutcome" where
  "dispatchTool newRegExp deps workspace denyPatterns name args =
     (case toolNameOf name of
        None \<Rightarrow> refuse name ''tool not in whitelist''
      | Some tool \<Rightarrow>
          (case args of
             None \<Rightarrow> refuse name ''invalid args (must be object)''
           | Some a \<Rightarrow>
               (let path = (case ta_path a of None \<Rightarrow> [] | Some p \<Rightarrow> p);
                    pattern = (case ta_pattern a of None \<Rightarrow> [] | Some p \<Rightarrow> p)
                in case tool of
                     ReadFile \<Rightarrow> map_sum id Text (read_file deps workspace denyPatterns path)
                   | GlobTool \<Rightarrow> map_sum id Listing (globTool deps workspace denyPatterns pattern)
                   | Grep \<Rightarrow> map_sum id Listing (grepTool newRegExp deps workspace denyPatterns pattern (ta_path a)))))"

definition MAX_TOOL_CALLS :: nat where "MAX_TOOL_CALLS = 20"

section \<open>The deny list can only be extended\<close>

text \<open>
  What the three tools rely on: a list of patterns refuses what either of its parts refuses.  Adding
  operator patterns to the built-in ones then never allows more.
\<close>

locale deny_policy =
  fixes refuses :: "'p list \<Rightarrow> 'x \<Rightarrow> bool"
  assumes refuses_append: "refuses (ps @ qs) x \<longleftrightarrow> refuses ps x \<or> refuses qs x"
begin

lemma extend_not_relax: "refuses ps x \<Longrightarrow> refuses (ps @ qs) x"
  by (simp add: refuses_append)

lemma order_irrelevant: "refuses (ps @ qs) x \<longleftrightarrow> refuses (qs @ ps) x"
  by (auto simp: refuses_append)

lemma allowed_filter: "filter (\<lambda>x. \<not> refuses (ps @ qs) x) xs = filter (\<lambda>x. \<not> refuses qs x) (filter (\<lambda>x. \<not> refuses ps x) xs)"
  by (simp add: refuses_append conj_commute)

end

interpretation deny: deny_policy denied
  by unfold_locales (simp add: denied_def)

text \<open>A path the walkers can reach: no directory on it, nor the entry itself, is denied.\<close>

fun openPath :: "rx list \<Rightarrow> string list \<Rightarrow> string list \<Rightarrow> bool" where
  "openPath deny d [] = True"
| "openPath deny d (s # p) = (\<not> denied deny (joinSegs (d @ [s])) \<and> openPath deny (d @ [s]) p)"

lemma openPath_append: "openPath (ps @ qs) d p \<longleftrightarrow> openPath ps d p \<and> openPath qs d p"
  by (induction p arbitrary: d) (auto simp: deny.refuses_append)

interpretation reach: deny_policy "\<lambda>ps p. \<not> openPath ps d p" for d
  by unfold_locales (simp add: openPath_append)

section \<open>Confinement of \<open>read_file\<close>\<close>

lemma bex_Suc: "(\<exists>k \<in> {Suc a..Suc b}. P k) \<longleftrightarrow> (\<exists>k \<in> {a..b}. P (Suc k))"
  by (metis (no_types, lifting) image_Suc_atLeastAtMost image_iff)

lemma symlinkOnPath_iff:
  "normal W \<Longrightarrow> normal r \<Longrightarrow>
     symlinkOnPath f (absPath W) r \<longleftrightarrow> (\<exists>k \<in> {1..length r}. f (absPath (W @ take k r)))"
proof (induction r arbitrary: W)
  case (Cons s r)
  have s: "normalSeg s" "normal (W @ [s])" using Cons.prems by simp_all
  then have "s \<noteq> []" by (simp add: normalSeg_def)
  then have "symlinkOnPath f (absPath W) (s # r) \<longleftrightarrow>
      f (absPath (W @ [s])) \<or> (\<exists>k \<in> {1..length r}. f (absPath ((W @ [s]) @ take k r)))"
    using Cons.IH [OF s(2)] Cons.prems pathJoin_below [OF Cons.prems(1) s(1)] by (simp add: Let_def)
  also have "\<dots> \<longleftrightarrow> (\<exists>k \<in> {0..length r}. f (absPath (W @ take (Suc k) (s # r))))"
  proof -
    have z: "{0..length r} = insert 0 {1..length r}" by auto
    show ?thesis unfolding z by simp
  qed
  also have "\<dots> \<longleftrightarrow> (\<exists>k \<in> {1..length (s # r)}. f (absPath (W @ take k (s # r))))"
    using bex_Suc [of 0 "length r" "\<lambda>k. f (absPath (W @ take k (s # r)))"] by simp
  finally show ?case .
qed simp

lemma resolveSafePath_confined:
  assumes W: "normal W" and ok: "resolveSafePath deps (absPath W) requested deny = Inr a"
  obtains r where "normal r" "a = absPath (W @ r)" "\<not> denied deny (joinSegs r)"
    "\<forall>k \<in> {1..length r}. \<not> td_isSymlink deps (absPath (W @ take k r))"
proof -
  let ?A = "normSegs False (rev W) (segments requested)"
  let ?rel = "pathRelative (td_cwd deps) (absPath W) (absPath ?A)"
  have r: "requested \<noteq> []" "\<not> isAbsolute requested"
    using ok by (auto simp: resolveSafePath_def refuse_def split: if_splits)
  have abs: "pathResolve (td_cwd deps) [absPath W, requested] = absPath ?A"
    using pathResolve_two [OF W r] .
  have nA: "normal ?A" using W by (intro normSegs_is_normal) (auto simp: segments_nosep)
  have rel: "?rel = joinSegs (relSegs W ?A)" using W nA by (rule pathRelative_abs)
  have ok': "\<not> startsWith ?rel ''..''" "\<not> denied deny ?rel" "\<not> symlinkOnPath (td_isSymlink deps) (absPath W) (segments ?rel)"
    "a = absPath ?A"
    using ok unfolding resolveSafePath_def Let_def abs by (auto simp: refuse_def checkDenyList_def split: if_splits)
  obtain q where q: "?A = W @ q" "relSegs W ?A = q"
    using ok'(1) joinSegs_DOTDOT unfolding rel by (metis relSegs_cases)
  then have n: "normal q" using nA by (metis list_all_append)
  have j: "?rel = joinSegs q" unfolding rel q(2) ..
  have "\<not> symlinkOnPath (td_isSymlink deps) (absPath W) q"
    using ok'(3) n unfolding j by (cases "q = []") (simp_all add: segments_join)
  then show ?thesis
    using that [OF n] ok' q(1) symlinkOnPath_iff [OF W n, of "td_isSymlink deps"] unfolding j by simp
qed

text \<open>
  C10: a file the model reads is a file of the workspace.  Whatever tool name and arguments the model
  sends, a text comes back only from \<open>read_file\<close>, read at a path below the workspace all of whose
  segments are proper names, that neither a built-in nor an operator pattern denies and on which no
  component is a symbolic link; the text is the content of that file, cut at the size limit.
\<close>

theorem read_file_confined:
  assumes "normal W" "dispatchTool newRegExp deps (absPath W) ops name args = Inr (Text t)"
  shows "name = ''read_file'' \<and> (\<exists>r content. normal r \<and> \<not> denied DENY_PATTERNS (joinSegs r) \<and> \<not> denied ops (joinSegs r) \<and>
    (\<forall>k \<in> {1..length r}. \<not> td_isSymlink deps (absPath (W @ take k r))) \<and>
    td_readFile deps (absPath (W @ r)) = Inr content \<and>
    t = (if length content \<le> 1000000 then content else take 1000000 content @ truncationNote 1000000))"
proof -
  obtain requested where n: "name = ''read_file''" and rd: "read_file deps (absPath W) ops requested = Inr t"
    using assms(2) by (auto simp: dispatchTool_def refuse_def Let_def map_sum_def
      split: option.splits ToolName.splits sum.splits if_splits)
  obtain a where a: "resolveSafePath deps (absPath W) requested (effectiveDeny ops) = Inr a"
    using rd by (auto simp: read_file_def split: sum.splits)
  obtain r where r: "normal r" "a = absPath (W @ r)" "\<not> denied (effectiveDeny ops) (joinSegs r)"
    "\<forall>k \<in> {1..length r}. \<not> td_isSymlink deps (absPath (W @ take k r))"
    using resolveSafePath_confined [OF assms(1) a] .
  obtain content where "td_readFile deps (absPath (W @ r)) = Inr content"
    "t = (if length content \<le> 1000000 then content else take 1000000 content @ truncationNote 1000000)"
    using rd a r(2) by (auto simp: read_file_def MAX_FILE_SIZE_def split: sum.splits if_splits)
  then show ?thesis using n r by (auto simp: effectiveDeny_def deny.refuses_append)
qed

definition sampleTree :: Node where
  "sampleTree = DirNode [(''infra'', DirNode [(''prod.tf'', FileNode ''token=1''), (''dev.tf'', FileNode ''token=0'')]),
     (''.env'', FileNode ''K=V''), (''a.ts'', FileNode ''let x'')]"

definition sampleDeps :: ToolDeps where
  "sampleDeps = \<lparr>td_readFile = (\<lambda>p. if p = ''/w/a.ts'' then Inr ''let x'' else if p = ''/w/infra/prod.tf'' then Inr ''token=1'' else Inl ''ENOENT''),
     td_isSymlink = (\<lambda>_. False),
     td_tree = (\<lambda>p. if p = ''/w'' then sampleTree
       else if p = ''/w/infra'' then DirNode [(''prod.tf'', FileNode ''token=1''), (''dev.tf'', FileNode ''token=0'')]
       else BrokenDir ''ENOENT''),
     td_cwd = ''/home''\<rparr>"

theorem read_file_confined_witness:
  "\<exists>r content. normal r \<and> td_readFile sampleDeps (absPath ([''w''] @ r)) = Inr content \<and> ''let x'' = content"
proof -
  have n: "normal [''w'']" by (simp add: normalSeg_def)
  have "dispatchTool (\<lambda>_. None) sampleDeps (absPath [''w'']) [] ''read_file'' (Some \<lparr>ta_path = Some ''sub/../a.ts'', ta_pattern = None\<rparr>)
      = Inr (Text ''let x'')"
  proof -
    have "resolveSafePath sampleDeps (absPath [''w'']) ''sub/../a.ts'' (effectiveDeny []) = Inr ''/w/a.ts''" by code_simp
    then show ?thesis by (simp add: dispatchTool_def read_file_def sampleDeps_def MAX_FILE_SIZE_def)
  qed
  from read_file_confined [OF n this] obtain r content where "normal r" "td_readFile sampleDeps (absPath ([''w''] @ r)) = Inr content"
    "''let x'' = (if length content \<le> 1000000 then content else take 1000000 content @ truncationNote 1000000)"
    by blast
  moreover have "length content \<le> 1000000"
    using calculation(2) by (auto simp: sampleDeps_def split: if_splits)
  ultimately show ?thesis by auto
qed

section \<open>What \<open>glob\<close> lists\<close>

text \<open>The files of a tree, by their segments, in the order of the directories.\<close>

fun treeFiles :: "Node \<Rightarrow> string list list" and entryFiles :: "(string \<times> Node) list \<Rightarrow> string list list" where
  "treeFiles (DirNode es) = entryFiles es"
| "treeFiles (FileNode s) = []"
| "treeFiles (BrokenFile c) = []"
| "treeFiles (BrokenDir c) = []"
| "treeFiles OtherNode = []"
| "entryFiles [] = []"
| "entryFiles ((name, e) # es) =
     (case e of FileNode _ \<Rightarrow> [[name]] | BrokenFile _ \<Rightarrow> [[name]] | OtherNode \<Rightarrow> [] | _ \<Rightarrow> map ((#) name) (treeFiles e)) @ entryFiles es"

fun treeOk :: "Node \<Rightarrow> bool" and entriesOk :: "(string \<times> Node) list \<Rightarrow> bool" where
  "treeOk (DirNode es) = entriesOk es"
| "treeOk (FileNode s) = True"
| "treeOk (BrokenFile c) = True"
| "treeOk (BrokenDir c) = True"
| "treeOk OtherNode = True"
| "entriesOk [] = True"
| "entriesOk ((name, e) # es) = (normalSeg name \<and> treeOk e \<and> entriesOk es)"

definition visible :: "rx list \<Rightarrow> rx \<Rightarrow> string list \<Rightarrow> string list \<Rightarrow> bool" where
  "visible deny matcher d p = (openPath deny d p \<and> rx_test matcher (joinSegs (d @ p)))"

lemma visible_simps:
  "visible deny m d (s # p) \<longleftrightarrow> \<not> denied deny (joinSegs (d @ [s])) \<and> visible deny m (d @ [s]) p"
  "visible deny m d [] \<longleftrightarrow> rx_test m (joinSegs d)"
  by (simp_all add: visible_def conj_assoc)

lemma filter_visible_Cons:
  "filter (visible deny m d) (map ((#) s) ps) =
     (if denied deny (joinSegs (d @ [s])) then [] else map ((#) s) (filter (visible deny m (d @ [s])) ps))"
  by (induction ps) (auto simp: visible_simps)

lemma walk_visible:
  assumes W: "normal W"
  shows "normal d \<Longrightarrow> treeOk n \<Longrightarrow> walk cwd (absPath W) m deny (absPath (W @ d)) n =
      map (\<lambda>p. joinSegs (d @ p)) (filter (visible deny m d) (treeFiles n))"
    and "normal d \<Longrightarrow> entriesOk es \<Longrightarrow> walkEntries cwd (absPath W) m deny (absPath (W @ d)) es =
      map (\<lambda>p. joinSegs (d @ p)) (filter (visible deny m d) (entryFiles es))"
proof (induction n and es arbitrary: d and d rule: treeFiles_entryFiles.induct)
  case (7 name e es)
  have nm: "normalSeg name" "treeOk e" "entriesOk es" "normal (d @ [name])" using "7.prems" by simp_all
  have full: "pathJoin [absPath (W @ d), name] = absPath (W @ d @ [name])"
    using pathJoin_below [of "W @ d" name] W "7.prems"(1) nm(1) by simp
  have rel: "pathRelative cwd (absPath W) (absPath (W @ d @ [name])) = joinSegs (d @ [name])"
    using W nm(4) by (rule pathRelative_below)
  note rest = "7.IH"(3) [OF "7.prems"(1) nm(3)]
  show ?case
    using "7.IH"(1,2) [OF _ nm(4) nm(2)] rest
    by (cases e) (simp_all add: full rel filter_visible_Cons visible_simps o_def Let_def)
qed simp_all

text \<open>
  C11: the \<open>glob\<close> tool lists exactly the files it may show.  On a workspace tree with proper names
  the listing is the files of the tree, in directory order, that the pattern matches and on whose
  path no directory and no entry is denied by a built-in or an operator pattern; so operator patterns
  only ever remove entries.
\<close>

theorem glob_lists_visible:
  assumes "normal W" "treeOk (td_tree deps (absPath W))"
    and "pattern \<noteq> []" "\<not> includesStr pattern ''..''" "patternToRegExp pattern = Inr m"
  shows "globTool deps (absPath W) ops pattern =
      Inr (map joinSegs (filter (\<lambda>p. openPath DENY_PATTERNS [] p \<and> openPath ops [] p \<and> rx_test m (joinSegs p))
        (treeFiles (td_tree deps (absPath W))))) \<and>
    (\<forall>out. globTool deps (absPath W) (ops @ extra) pattern = Inr out \<longrightarrow>
       (\<exists>out'. globTool deps (absPath W) ops pattern = Inr out' \<and> subseq out out'))"
proof -
  have g: "globTool deps (absPath W) ds pattern =
      Inr (map joinSegs (filter (\<lambda>p. openPath DENY_PATTERNS [] p \<and> openPath ds [] p \<and> rx_test m (joinSegs p))
        (treeFiles (td_tree deps (absPath W)))))" for ds
    using walk_visible(1) [OF assms(1), of "[]" "td_tree deps (absPath W)" "td_cwd deps" m "effectiveDeny ds"] assms(2-)
    by (simp add: globTool_def visible_def [abs_def] effectiveDeny_def openPath_append conj_ac)
  have "subseq (filter (\<lambda>p. openPath DENY_PATTERNS [] p \<and> openPath (ops @ extra) [] p \<and> rx_test m (joinSegs p)) ps)
      (filter (\<lambda>p. openPath DENY_PATTERNS [] p \<and> openPath ops [] p \<and> rx_test m (joinSegs p)) ps)" for ps
    by (induction ps) (auto simp: openPath_append)
  then show ?thesis unfolding g by (auto intro: subseq_map)
qed

theorem glob_lists_visible_witness:
  "globTool sampleDeps (absPath [''w'']) [] ''**'' = Inr [''infra/prod.tf'', ''infra/dev.tf'', ''a.ts'']"
proof -
  have n: "normal [''w'']" by (simp add: normalSeg_def)
  have t: "treeOk (td_tree sampleDeps (absPath [''w'']))"
    by (simp add: sampleDeps_def sampleTree_def absPath_def joinSegs_def normalSeg_def)
  obtain m where m: "patternToRegExp ''**'' = Inr m"
    "filter (\<lambda>p. openPath DENY_PATTERNS [] p \<and> openPath [] [] p \<and> rx_test m (joinSegs p)) (treeFiles sampleTree) =
       [[''infra'', ''prod.tf''], [''infra'', ''dev.tf''], [''a.ts'']]"
  proof
    show "patternToRegExp ''**'' = Inr (anchored [Star rx_dot])" by code_simp
    show "filter (\<lambda>p. openPath DENY_PATTERNS [] p \<and> openPath [] [] p \<and> rx_test (anchored [Star rx_dot]) (joinSegs p)) (treeFiles sampleTree) =
       [[''infra'', ''prod.tf''], [''infra'', ''dev.tf''], [''a.ts'']]" by code_simp
  qed
  have tr: "td_tree sampleDeps (absPath [''w'']) = sampleTree" by (simp add: sampleDeps_def absPath_def joinSegs_def)
  have "''**'' \<noteq> []" "\<not> includesStr ''**'' ''..''" by simp_all
  from glob_lists_visible [OF n t this m(1), of "[]"] show ?thesis
    unfolding tr m(2) by (simp add: joinSegs_def)
qed

text \<open>
  \<open>grep\<close> tests the deny list against the path below its scope, not below the workspace.  A
  file that an operator pattern denies by its directory is refused by \<open>read_file\<close> and skipped by
  an unscoped search, but a search scoped to that directory returns its lines.
\<close>

theorem grep_scope_evades_deny:
  "\<exists>deps ops. map_sum id (\<lambda>x. [x]) (globToRegExp ''infra/prod.tf'') = Inr ops \<and>
     read_file deps ''/w'' ops ''infra/prod.tf'' = Inl (ToolDispatchRefusedError ''read_file'' (''path matches deny-list: '' @ quoted ''infra/prod.tf'')) \<and>
     grepTool (\<lambda>s. Some (rx_str s)) deps ''/w'' ops ''token'' None = Inr [''infra/dev.tf:1: token=0''] \<and>
     grepTool (\<lambda>s. Some (rx_str s)) deps ''/w'' ops ''token'' (Some ''infra'') = Inr [''prod.tf:1: token=1'', ''dev.tf:1: token=0'']"
proof (intro exI conjI)
  let ?ops = "[anchored (map Lit ''infra/prod.tf'')]"
  show "map_sum id (\<lambda>x. [x]) (globToRegExp ''infra/prod.tf'') = Inr ?ops" by code_simp
  have "resolveSafePath sampleDeps ''/w'' ''infra/prod.tf'' (effectiveDeny ?ops) =
      Inl (ToolDispatchRefusedError ''read_file'' (''path matches deny-list: '' @ quoted ''infra/prod.tf''))" by code_simp
  then show "read_file sampleDeps ''/w'' ?ops ''infra/prod.tf'' =
      Inl (ToolDispatchRefusedError ''read_file'' (''path matches deny-list: '' @ quoted ''infra/prod.tf''))" by (simp add: read_file_def)
  have g: "grepDir ''/home'' ''/w'' (rx_str ''token'') (effectiveDeny ?ops) ''/w'' sampleTree = Inr [''infra/dev.tf:1: token=0''] \<and>
    resolveSafePath sampleDeps ''/w'' ''infra'' (effectiveDeny ?ops) = Inr ''/w/infra'' \<and>
    grepDir ''/home'' ''/w/infra'' (rx_str ''token'') (effectiveDeny ?ops) ''/w/infra'' (td_tree sampleDeps ''/w/infra'') =
      Inr [''prod.tf:1: token=1'', ''dev.tf:1: token=0'']"
    by code_simp
  show "grepTool (\<lambda>s. Some (rx_str s)) sampleDeps ''/w'' ?ops ''token'' None = Inr [''infra/dev.tf:1: token=0'']"
    using g by (simp add: grepTool_def MAX_GREP_PATTERN_LENGTH_def sampleDeps_def)
  show "grepTool (\<lambda>s. Some (rx_str s)) sampleDeps ''/w'' ?ops ''token'' (Some ''infra'') = Inr [''prod.tf:1: token=1'', ''dev.tf:1: token=0'']"
    using g by (simp add: grepTool_def MAX_GREP_PATTERN_LENGTH_def) (simp add: sampleDeps_def)
qed

end
