(* ===== verification/AutoFetch.thy ===== *)
theory AutoFetch
  imports Tools Untrusted
begin

text \<open>
  Prefetching the companions of changed files (\<open>runner/src/auto-fetch.ts\<close>): tests, type
  declarations and an index file, read through the \<open>read_file\<close> tool under a budget of files,
  characters per file and characters in total.
\<close>

section \<open>Candidates\<close>

record AutoFetchOptions =
  af_tests :: "bool option"
  af_types :: "bool option"
  af_siblings :: "bool option"

record PathInstruction =
  pi_pattern :: string
  pi_text :: string
  pi_autoFetch :: "AutoFetchOptions option"

record AutoFetchBudget =
  ab_maxFiles :: nat
  ab_maxBytesPerFile :: nat
  ab_maxTotalBytes :: nat

definition DEFAULT_AUTO_FETCH_BUDGET :: AutoFetchBudget where
  "DEFAULT_AUTO_FETCH_BUDGET = \<lparr>ab_maxFiles = AUTO_FETCH_MAX_FILES, ab_maxBytesPerFile = AUTO_FETCH_MAX_BYTES_PER_FILE,
     ab_maxTotalBytes = AUTO_FETCH_MAX_TOTAL_BYTES\<rparr>"

record AutoFetchResult =
  ar_files :: "UntrustedRelatedFile list"
  ar_totalBytes :: nat
  ar_hitBudgetLimit :: bool

definition EMPTY_RESULT :: AutoFetchResult where
  "EMPTY_RESULT = \<lparr>ar_files = [], ar_totalBytes = 0, ar_hitBudgetLimit = False\<rparr>"

text \<open>\<open>{ ...DEFAULT_FETCH, ...(p.autoFetch ?? {}) }\<close>: tests and types are on by default.\<close>

definition fetchOption :: "bool \<Rightarrow> bool option \<Rightarrow> bool" where
  "fetchOption dflt o' = (case o' of None \<Rightarrow> dflt | Some b \<Rightarrow> b)"

definition TEST_NAME :: rx where
  "TEST_NAME = rx_seq [Lit (CHR ''.''), Alt (rx_str ''test'') (rx_str ''spec''), Lit (CHR ''.''), rx_plus rx_nonslash, Eol]"

definition SCRIPT_EXT :: rx where
  "SCRIPT_EXT = rx_seq [Lit (CHR ''.''), Alt (Lit (CHR ''t'')) (Lit (CHR ''j'')), Lit (CHR ''s''), Opt (Lit (CHR ''x'')), Eol]"

definition candidatesFor :: "string \<Rightarrow> AutoFetchOptions \<Rightarrow> (string \<times> string) list" where
  "candidatesFor changed opts =
     (let dir = dirname changed; ext = extname changed; base = basename changed ext;
          isTest = rx_test TEST_NAME changed; isTypeDecl = endsWith changed ''.d.ts''
      in (if fetchOption True (af_tests opts) \<and> \<not> isTest
          then [(pathJoin [dir, base @ ''.test'' @ ext], ''test''), (pathJoin [dir, base @ ''.spec'' @ ext], ''test''),
                (pathJoin [dir, ''__tests__'', base @ ''.test'' @ ext], ''test'')] else []) @
         (if fetchOption True (af_types opts) \<and> \<not> isTypeDecl \<and> rx_test SCRIPT_EXT ext
          then [(pathJoin [dir, base @ ''.d.ts''], ''type'')] else []) @
         (if fetchOption False (af_siblings opts) then [(pathJoin [dir, ''index'' @ ext], ''sibling'')] else []))"

definition tryCompile :: "string \<Rightarrow> rx option" where
  "tryCompile pattern = (case globToRegExp pattern of Inl _ \<Rightarrow> None | Inr re \<Rightarrow> Some re)"

definition tryReadFile :: "(string \<Rightarrow> AgentError + string) \<Rightarrow> string \<Rightarrow> nat \<Rightarrow> string option" where
  "tryReadFile readFile rel maxBytes =
     (case readFile rel of
        Inl _ \<Rightarrow> None
      | Inr content \<Rightarrow> if maxBytes < length content then Some (take maxBytes content @ truncationNote maxBytes) else Some content)"

section \<open>The fetch loop\<close>

text \<open>
  The loop over the candidates of one changed file; the flag of the result says that the budget
  ended the whole loop (\<open>break outer\<close>).
\<close>

record FetchState =
  fs_seen :: "string set"
  fs_files :: "UntrustedRelatedFile list"
  fs_totalBytes :: nat

fun fetchCandidates :: "(string \<Rightarrow> AgentError + string) \<Rightarrow> AutoFetchBudget \<Rightarrow> string \<Rightarrow> (string \<times> string) list \<Rightarrow> FetchState \<Rightarrow> FetchState \<times> bool" where
  "fetchCandidates readFile budget changed [] st = (st, False)"
| "fetchCandidates readFile budget changed ((path, kind) # cands) st =
     (if path \<in> fs_seen st then fetchCandidates readFile budget changed cands st
      else if ab_maxFiles budget \<le> length (fs_files st) then (st, True)
      else if ab_maxTotalBytes budget \<le> fs_totalBytes st then (st, True)
      else
        let st = st\<lparr>fs_seen := insert path (fs_seen st)\<rparr> in
        case tryReadFile readFile path (ab_maxBytesPerFile budget) of
          None \<Rightarrow> fetchCandidates readFile budget changed cands st
        | Some content \<Rightarrow>
            let remaining = ab_maxTotalBytes budget - fs_totalBytes st;
                trimmed = (if remaining < length content then take remaining content else content);
                st = st\<lparr>fs_files := fs_files st @ [\<lparr>uf_path = path, uf_content = trimmed, uf_kind = kind, uf_originatingChangedPath = changed\<rparr>],
                        fs_totalBytes := fs_totalBytes st + length trimmed\<rparr>
            in if length trimmed < length content then (st, True)
               else fetchCandidates readFile budget changed cands st)"

text \<open>The first instruction that matches a changed file decides its candidates.\<close>

definition matchingOptions :: "(rx \<times> AutoFetchOptions) list \<Rightarrow> string \<Rightarrow> AutoFetchOptions option" where
  "matchingOptions compiled changed = map_option snd (find (\<lambda>(re, o'). rx_test re changed) compiled)"

fun fetchLoop :: "(string \<Rightarrow> AgentError + string) \<Rightarrow> AutoFetchBudget \<Rightarrow> (rx \<times> AutoFetchOptions) list \<Rightarrow> string list \<Rightarrow> FetchState \<Rightarrow> FetchState \<times> bool" where
  "fetchLoop readFile budget compiled [] st = (st, False)"
| "fetchLoop readFile budget compiled (changed # cs) st =
     (case matchingOptions compiled changed of
        None \<Rightarrow> fetchLoop readFile budget compiled cs st
      | Some opts \<Rightarrow>
          (case fetchCandidates readFile budget changed (candidatesFor changed opts) st of
             (st, stop) \<Rightarrow> if stop then (st, True) else fetchLoop readFile budget compiled cs st))"

definition compileInstructions :: "PathInstruction list \<Rightarrow> (rx \<times> AutoFetchOptions) list" where
  "compileInstructions pathInstructions =
     concat (map (\<lambda>p. case (pi_autoFetch p, tryCompile (pi_pattern p)) of (Some o', Some re) \<Rightarrow> [(re, o')] | _ \<Rightarrow> []) pathInstructions)"

definition collectAutoFetchContext :: "ToolDeps \<Rightarrow> rx list \<Rightarrow> AutoFetchBudget \<Rightarrow> string \<Rightarrow> PathInstruction list \<Rightarrow> string list \<Rightarrow> AutoFetchResult" where
  "collectAutoFetchContext deps denyPatterns budget workspaceDir pathInstructions changedPaths =
     (if workspaceDir = [] then EMPTY_RESULT
      else let compiled = compileInstructions pathInstructions in
        if compiled = [] then EMPTY_RESULT
        else case fetchLoop (read_file deps workspaceDir denyPatterns) budget compiled changedPaths
                    \<lparr>fs_seen = {}, fs_files = [], fs_totalBytes = 0\<rparr> of
               (st, stop) \<Rightarrow> \<lparr>ar_files = fs_files st, ar_totalBytes = fs_totalBytes st, ar_hitBudgetLimit = stop\<rparr>)"

section \<open>The budget\<close>

definition budgetInv :: "(string \<Rightarrow> AgentError + string) \<Rightarrow> AutoFetchBudget \<Rightarrow> FetchState \<Rightarrow> bool" where
  "budgetInv readFile b st \<longleftrightarrow>
     length (fs_files st) \<le> ab_maxFiles b \<and> fs_totalBytes st \<le> ab_maxTotalBytes b \<and>
     fs_totalBytes st = sum_list (map (\<lambda>f. length (uf_content f)) (fs_files st)) \<and>
     distinct (map uf_path (fs_files st)) \<and> set (map uf_path (fs_files st)) \<subseteq> fs_seen st \<and>
     (\<forall>f \<in> set (fs_files st). \<exists>t n. readFile (uf_path f) = Inr t \<and>
        (uf_content f = take n t \<or> uf_content f = take n (take (ab_maxBytesPerFile b) t @ truncationNote (ab_maxBytesPerFile b))))"

lemma budgetInv_push:
  assumes inv: "budgetInv readFile b st" and new: "path \<notin> fs_seen st" and room: "length (fs_files st) < ab_maxFiles b"
    and read: "tryReadFile readFile path (ab_maxBytesPerFile b) = Some content"
  shows "budgetInv readFile b (st\<lparr>fs_seen := insert path (fs_seen st),
     fs_files := fs_files st @ [\<lparr>uf_path = path, uf_content = take (ab_maxTotalBytes b - fs_totalBytes st) content,
        uf_kind = kind, uf_originatingChangedPath = changed\<rparr>],
     fs_totalBytes := fs_totalBytes st + length (take (ab_maxTotalBytes b - fs_totalBytes st) content)\<rparr>)"
proof -
  obtain t where "readFile path = Inr t" "content = t \<or> content = take (ab_maxBytesPerFile b) t @ truncationNote (ab_maxBytesPerFile b)"
    using read by (auto simp: tryReadFile_def split: sum.splits if_splits)
  then have piece: "\<exists>t n. readFile path = Inr t \<and> (take k content = take n t \<or>
      take k content = take n (take (ab_maxBytesPerFile b) t @ truncationNote (ab_maxBytesPerFile b)))" for k
    by blast
  have fresh: "path \<notin> uf_path ` set (fs_files st)" using inv new by (auto simp: budgetInv_def)
  let ?ok = "\<lambda>f. \<exists>t n. readFile (uf_path f) = Inr t \<and>
     (uf_content f = take n t \<or> uf_content f = take n (take (ab_maxBytesPerFile b) t @ truncationNote (ab_maxBytesPerFile b)))"
  let ?new = "\<lparr>uf_path = path, uf_content = take (ab_maxTotalBytes b - fs_totalBytes st) content, uf_kind = kind,
     uf_originatingChangedPath = changed\<rparr>"
  have "?ok ?new" using piece by simp
  moreover have "\<forall>f \<in> set (fs_files st). ?ok f" using inv unfolding budgetInv_def by (elim conjE)
  ultimately have all: "\<forall>f \<in> set (fs_files st @ [?new]). ?ok f" by simp
  have rest: "length (fs_files st) \<le> ab_maxFiles b" "fs_totalBytes st \<le> ab_maxTotalBytes b"
    "fs_totalBytes st = sum_list (map (\<lambda>f. length (uf_content f)) (fs_files st))" "distinct (map uf_path (fs_files st))"
    "set (map uf_path (fs_files st)) \<subseteq> fs_seen st"
    using inv unfolding budgetInv_def by simp_all
  show ?thesis
    unfolding budgetInv_def FetchState.simps using all rest room fresh by (intro conjI) (simp_all, blast)
qed

lemma fetchCandidates_inv:
  "budgetInv readFile b st \<Longrightarrow> fetchCandidates readFile b changed cands st = (st', stop) \<Longrightarrow> budgetInv readFile b st'"
proof (induction readFile b changed cands st rule: fetchCandidates.induct)
  case (2 readFile b changed path kind cands st)
  show ?case
  proof (cases "path \<in> fs_seen st \<or> ab_maxFiles b \<le> length (fs_files st) \<or> ab_maxTotalBytes b \<le> fs_totalBytes st")
    case True
    then show ?thesis using "2.prems" "2.IH"(1) by (auto split: if_splits)
  next
    case False
    let ?st = "st\<lparr>fs_seen := insert path (fs_seen st)\<rparr>"
    have seen: "budgetInv readFile b ?st" using "2.prems"(1) by (auto simp: budgetInv_def)
    show ?thesis
    proof (cases "tryReadFile readFile path (ab_maxBytesPerFile b)")
      case None
      then show ?thesis using False "2.prems"(2) "2.IH"(2) seen by simp
    next
      case (Some content)
      let ?r = "ab_maxTotalBytes b - fs_totalBytes st"
      have trimmed: "(if ?r < length content then take ?r content else content) = take ?r content" by simp
      note push = budgetInv_push [OF "2.prems"(1) _ _ Some, of kind changed]
      show ?thesis
        using False "2.prems"(2) Some push "2.IH"(3) by (simp add: Let_def trimmed split: if_splits)
    qed
  qed
qed simp

lemma fetchLoop_inv:
  "budgetInv readFile b st \<Longrightarrow> fetchLoop readFile b compiled cs st = (st', stop) \<Longrightarrow> budgetInv readFile b st'"
  by (induction readFile b compiled cs st rule: fetchLoop.induct)
    (auto split: option.splits prod.splits if_splits dest: fetchCandidates_inv)

text \<open>Every fetched file is a candidate of a changed file, by the first instruction that matches it.\<close>

definition originOk :: "(rx \<times> AutoFetchOptions) list \<Rightarrow> string set \<Rightarrow> UntrustedRelatedFile \<Rightarrow> bool" where
  "originOk compiled cs f \<longleftrightarrow> uf_originatingChangedPath f \<in> cs \<and>
     (\<exists>opts. matchingOptions compiled (uf_originatingChangedPath f) = Some opts \<and>
        (uf_path f, uf_kind f) \<in> set (candidatesFor (uf_originatingChangedPath f) opts))"

lemma fetchCandidates_origin:
  "fetchCandidates readFile b changed cands st = (st', stop) \<Longrightarrow> f \<in> set (fs_files st') \<Longrightarrow>
     f \<in> set (fs_files st) \<or> uf_originatingChangedPath f = changed \<and> (uf_path f, uf_kind f) \<in> set cands"
proof (induction readFile b changed cands st rule: fetchCandidates.induct)
  case (2 readFile b changed path kind cands st)
  then show ?case by (fastforce simp: Let_def split: if_splits option.splits)
qed simp

lemma fetchLoop_origin:
  "fetchLoop readFile b compiled cs st = (st', stop) \<Longrightarrow> f \<in> set (fs_files st') \<Longrightarrow>
     f \<in> set (fs_files st) \<or> originOk compiled (set cs) f"
proof (induction readFile b compiled cs st rule: fetchLoop.induct)
  case (2 readFile b compiled changed cs st)
  show ?case
  proof (cases "matchingOptions compiled changed")
    case None
    then show ?thesis using 2 by (auto simp: originOk_def)
  next
    case (Some opts)
    obtain st1 stop1 where c: "fetchCandidates readFile b changed (candidatesFor changed opts) st = (st1, stop1)"
      by (metis prod.exhaust)
    then have one: "g \<in> set (fs_files st1) \<Longrightarrow> g \<in> set (fs_files st) \<or> originOk compiled (set (changed # cs)) g" for g
      using fetchCandidates_origin [OF c] Some by (auto simp: originOk_def)
    show ?thesis
      using "2.prems" Some c one [of f] "2.IH"(2) [OF Some c [symmetric]]
      by (cases stop1) (auto simp: originOk_def)
  qed
qed simp

section \<open>Property\<close>

text \<open>
  Prefetching keeps its budget and stays within its candidates.  The result holds at most the
  configured number of files, pairwise different, and its total is the sum of the contents and within
  the total budget; each file was readable through \<open>read_file\<close>, its content is a beginning of what
  was read, longer than the per-file budget at most by the truncation note, and it is a companion of a
  changed file under the first instruction that matches that file.
\<close>

theorem auto_fetch_budget:
  "let r = collectAutoFetchContext deps deny b ws instructions changedPaths
   in length (ar_files r) \<le> ab_maxFiles b \<and> distinct (map uf_path (ar_files r)) \<and>
      ar_totalBytes r = sum_list (map (\<lambda>f. length (uf_content f)) (ar_files r)) \<and> ar_totalBytes r \<le> ab_maxTotalBytes b \<and>
      (\<forall>f \<in> set (ar_files r).
         (\<exists>t n. read_file deps ws deny (uf_path f) = Inr t \<and>
            (uf_content f = take n t \<or> uf_content f = take n (take (ab_maxBytesPerFile b) t @ truncationNote (ab_maxBytesPerFile b)))) \<and>
         originOk (compileInstructions instructions) (set changedPaths) f)"
proof (cases "ws = [] \<or> compileInstructions instructions = []")
  case True
  then show ?thesis by (auto simp: collectAutoFetchContext_def EMPTY_RESULT_def Let_def)
next
  case False
  let ?st0 = "\<lparr>fs_seen = {}, fs_files = [], fs_totalBytes = 0\<rparr>"
  let ?rd = "read_file deps ws deny"
  obtain st stop where l: "fetchLoop ?rd b (compileInstructions instructions) changedPaths ?st0 = (st, stop)"
    by (metis prod.exhaust)
  have "budgetInv ?rd b ?st0" by (simp add: budgetInv_def)
  then have inv: "budgetInv ?rd b st" by (rule fetchLoop_inv [OF _ l])
  have r: "collectAutoFetchContext deps deny b ws instructions changedPaths =
      \<lparr>ar_files = fs_files st, ar_totalBytes = fs_totalBytes st, ar_hitBudgetLimit = stop\<rparr>"
    using False l by (simp add: collectAutoFetchContext_def Let_def)
  have "\<forall>f \<in> set (fs_files st). originOk (compileInstructions instructions) (set changedPaths) f"
    using fetchLoop_origin [OF l] by auto
  then show ?thesis using inv unfolding r budgetInv_def by (simp add: Let_def)
qed

definition sampleInstruction :: PathInstruction where
  "sampleInstruction = \<lparr>pi_pattern = ''**/*.ts'', pi_text = [], pi_autoFetch = Some \<lparr>af_tests = Some False, af_types = None, af_siblings = None\<rparr>\<rparr>"

definition fetchDeps :: ToolDeps where
  "fetchDeps = sampleDeps\<lparr>td_readFile := (\<lambda>p. if p = ''/w/a.d.ts'' then Inr ''0123456789'' else Inl ''ENOENT'')\<rparr>"

definition sampleFetch :: AutoFetchResult where
  "sampleFetch = collectAutoFetchContext fetchDeps [] \<lparr>ab_maxFiles = 1, ab_maxBytesPerFile = 4, ab_maxTotalBytes = 100\<rparr> ''/w''
     [sampleInstruction] [''a.ts'']"

lemma sampleFetch_files:
  "ar_files sampleFetch = [\<lparr>uf_path = ''a.d.ts'', uf_content = ''0123'' @ truncationNote 4, uf_kind = ''type'', uf_originatingChangedPath = ''a.ts''\<rparr>]"
proof -
  have "resolveSafePath fetchDeps ''/w'' ''a.d.ts'' (effectiveDeny []) = Inr ''/w/a.d.ts''" by code_simp
  then have r: "read_file fetchDeps ''/w'' [] ''a.d.ts'' = Inr ''0123456789''"
    by (simp add: read_file_def fetchDeps_def MAX_FILE_SIZE_def)
  obtain re opts where c: "compileInstructions [sampleInstruction] = [(re, opts)]" "rx_test re ''a.ts''"
    "candidatesFor ''a.ts'' opts = [(''a.d.ts'', ''type'')]"
  proof
    let ?re = "anchored [Opt (Seq (Star rx_dot) (Lit SLASH)), Star rx_nonslash, Lit (CHR ''.''), Lit (CHR ''t''), Lit (CHR ''s'')]"
    let ?opts = "\<lparr>af_tests = Some False, af_types = None, af_siblings = None\<rparr>"
    show "compileInstructions [sampleInstruction] = [(?re, ?opts)]" "rx_test ?re ''a.ts''"
      "candidatesFor ''a.ts'' ?opts = [(''a.d.ts'', ''type'')]" by code_simp+
  qed
  have n: "length (truncationNote 4) \<le> 50" by code_simp
  show ?thesis
    using n by (simp add: sampleFetch_def collectAutoFetchContext_def c matchingOptions_def tryReadFile_def r Let_def)
qed

theorem auto_fetch_budget_witness:
  "length (ar_files sampleFetch) \<le> 1 \<and> ar_totalBytes sampleFetch = 4 + length (truncationNote 4) \<and>
   originOk (compileInstructions [sampleInstruction]) {''a.ts''} (hd (ar_files sampleFetch))"
  using auto_fetch_budget [of fetchDeps "[]" "\<lparr>ab_maxFiles = 1, ab_maxBytesPerFile = 4, ab_maxTotalBytes = 100\<rparr>" "''/w''"
      "[sampleInstruction]" "[''a.ts'']", folded sampleFetch_def]
  by (simp add: Let_def sampleFetch_files)

end
