(* ===== verification/SystemPrompt.thy ===== *)
theory SystemPrompt
  imports Prelude
begin

text \<open>
  The system prompt (\<open>runner/src/prompts/system-prompt.ts\<close>): which sections it has and in
  which order.  The base text and the two headings with characters beyond code 255 are given by a
  \<open>PromptTexts\<close> value; nothing depends on their wording.
\<close>

record PromptTexts =
  pt_base :: string
  pt_acceptedHeading :: string
  pt_rejectedHeading :: string

datatype FactType = AcceptedPattern | RejectedFinding | ArchDecision | SuppressionRule

record LearnedFact =
  fa_factType :: FactType
  fa_factText :: string

record ComposeSystemPromptOptions =
  sp_profile :: string
  sp_skills :: "string list"
  sp_pathInstructions :: "(string \<times> string) list"
  sp_language :: string
  sp_incrementalContext :: bool
  sp_incrementalSinceSha :: "string option"
  sp_previousFingerprints :: "string list option"
  sp_learnedFacts :: "LearnedFact list option"

definition MAX_LEARNED_FACTS :: nat where "MAX_LEARNED_FACTS = 50"
definition MAX_PROMPT_FINGERPRINTS :: nat where "MAX_PROMPT_FINGERPRINTS = 32"

definition BACKTICK :: string where "BACKTICK = [CHR 0x60]"

definition renderIncrementalSection :: "string option \<Rightarrow> string" where
  "renderIncrementalSection sinceSha =
     (let sinceClause = (case sinceSha of
            Some sha \<Rightarrow> if sha = [] then '' since the previously reviewed head''
              else '' since commit '' @ BACKTICK @ sha @ BACKTICK @ '' (the previously reviewed head)''
          | None \<Rightarrow> '' since the previously reviewed head'')
      in joinWith [LF]
        [''## Incremental review'', [],
         ''You are reviewing ONLY the new commits added'' @ sinceClause @ '', not the entire PR. Earlier commits were already reviewed in a prior pass and their findings persist on the PR.'',
         [],
         ''Do not re-flag issues that live entirely outside this incremental diff. If a new commit introduces a regression in a previously-untouched line, you may comment on that line; otherwise treat unchanged regions as out-of-scope context only.''])"

definition factBlock :: "string \<Rightarrow> LearnedFact list \<Rightarrow> string list" where
  "factBlock heading fs = (if fs = [] then [] else [heading] @ map (\<lambda>f. ''- '' @ fa_factText f) fs @ [[]])"

definition renderLearnedFactsSection :: "PromptTexts \<Rightarrow> LearnedFact list \<Rightarrow> string" where
  "renderLearnedFactsSection txt facts =
     joinWith [LF]
       ([''## <learned_facts>'', [],
         ''Prior human feedback on this repo. Use these as priors, not absolutes. The runner still post-filters by fingerprint as a backstop.'', []] @
        factBlock (pt_acceptedHeading txt) (filter (\<lambda>f. fa_factType f = AcceptedPattern) facts) @
        factBlock (pt_rejectedHeading txt) (filter (\<lambda>f. fa_factType f = RejectedFinding) facts) @
        factBlock ''### Architectural decisions (operator-recorded context)'' (filter (\<lambda>f. fa_factType f = ArchDecision) facts) @
        [''</learned_facts>''])"

definition renderPreviousFindingsSection :: "string list \<Rightarrow> string" where
  "renderPreviousFindingsSection fingerprints =
     (let total = length fingerprints; shown = take MAX_PROMPT_FINGERPRINTS fingerprints;
          moreClause = (if length shown < total then '' (showing first '' @ digitsOf (length shown) @ '' of '' @ digitsOf total @ '')'' else [])
      in joinWith [LF]
        [''## Previously raised findings'', [],
         ''The previous review of this PR posted '' @ digitsOf total @ '' finding'' @ (if total = 1 then [] else ''s'') @
           '' identified by fingerprint'' @ moreClause @ '': '' @ joinWith '', '' shown @ ''.'',
         [],
         ''The runner post-filters new comments whose fingerprint collides with one of these, so re-raising an equivalent issue produces no additional output. Prefer flagging genuinely new problems instead.''])"

definition promptSections :: "PromptTexts \<Rightarrow> ComposeSystemPromptOptions \<Rightarrow> string list" where
  "promptSections txt opts =
     [pt_base txt] @
     (if trim (sp_profile opts) \<noteq> [] then [''## Profile'' @ [LF] @ trim (sp_profile opts)] else []) @
     (if sp_skills opts \<noteq> []
      then [''## Skills'' @ [LF] @ joinWith [LF, LF] (filter (\<lambda>s. s \<noteq> []) (map trim (sp_skills opts)))] else []) @
     (if sp_pathInstructions opts \<noteq> []
      then [''## Path Instructions'' @ [LF] @ joinWith [LF]
         (map (\<lambda>(p, t). ''- For files matching '' @ BACKTICK @ p @ BACKTICK @ '': '' @ trim t) (sp_pathInstructions opts))] else []) @
     (if sp_incrementalContext opts then [renderIncrementalSection (sp_incrementalSinceSha opts)] else []) @
     (case sp_previousFingerprints opts of None \<Rightarrow> [] | Some fps \<Rightarrow> if fps \<noteq> [] then [renderPreviousFindingsSection fps] else []) @
     (case sp_learnedFacts opts of None \<Rightarrow> [] | Some fs \<Rightarrow> if fs \<noteq> [] then [renderLearnedFactsSection txt fs] else []) @
     [''Write all comment bodies and the summary in '' @ sp_language opts @
       ''. Code identifiers, file paths, and technical terms stay in their original form.'']"

definition composeSystemPrompt :: "PromptTexts \<Rightarrow> ComposeSystemPromptOptions \<Rightarrow> string" where
  "composeSystemPrompt txt opts = joinWith [LF, LF] (promptSections txt opts)"

lemma composeSystemPrompt_base: "startsWith (composeSystemPrompt txt opts) (pt_base txt)"
  by (simp add: composeSystemPrompt_def promptSections_def joinWith_Cons)

end
