(* ===== verification/Agent.thy ===== *)
theory Agent
  imports Cost Comments DiffFilter Untrusted Gitleaks Schemas AutoFetch SystemPrompt
begin

text \<open>
  The review itself (\<open>runner/src/agent.ts\<close>): history and suppression rules are loaded, the diff
  is filtered, capped and scanned for secrets, the prompt is built, the model is called through the
  middleware chain with one retry on invalid output, and its comments are deduplicated, filtered,
  scanned, redacted and turned into the result.  Everything the review does to the outside is logged
  in order as an \<open>AgentEvent\<close>.  Parameters: the provider (what its n-th call returns and how many
  tool calls it makes), the readers and the recorder of \<open>RunReviewDeps\<close>, the file-system
  primitives, the URL parser, \<open>new RegExp\<close> and the fingerprint hash.
\<close>

section \<open>Job, provider and result\<close>

record Privacy =
  pr_allowedUrlPrefixes :: "string list"
  pr_denyPaths :: "string list"
  pr_redactPatterns :: "string list"

record ReviewJob =
  rj_jobId :: string
  rj_workspaceDir :: string
  rj_diffText :: string
  rj_changedPaths :: "string list option"
  rj_prMetadata :: UntrustedMetadata
  rj_previousState :: "ReviewState option"
  rj_profile :: string
  rj_pathInstructions :: "PathInstruction list"
  rj_skills :: "string list"
  rj_language :: string
  rj_costCapUsd :: rat
  rj_incrementalContext :: "bool option"
  rj_incrementalSinceSha :: "string option"
  rj_minConfidence :: "Confidence option"
  rj_requestChangesOn :: "RequestChangesThreshold option"
  rj_pathFilters :: "string list"
  rj_maxFiles :: int
  rj_maxDiffLines :: int
  rj_privacy :: Privacy
  rj_prRepo :: PrRepo
  rj_ruleset :: "Ruleset option"
  rj_resolutionLog :: "string option"
  rj_maxSteps :: "nat option"

record ReviewInput =
  in_systemPrompt :: string
  in_diffText :: string
  in_prMetadata :: UntrustedMetadata
  in_language :: string
  in_tools :: "string \<times> rx list"
  in_maxToolCalls :: nat

record ReviewOutput = GuardedResult +
  ro_comments :: "ReviewOutputComment list"
  ro_summary :: string
  ro_toolCalls :: "nat option"

record LlmProvider =
  pv_name :: string
  pv_model :: string
  pv_generateReview :: "nat \<Rightarrow> ReviewInput \<Rightarrow> (AgentError + ReviewOutput) \<times> nat"
  pv_estimateCost :: "ReviewInput \<Rightarrow> AgentError + rat"

datatype ExclusionReason = PathFilter | MaxFilesCap | MaxDiffLinesCap
datatype AppliedCap = MaxFilesApplied | MaxDiffLinesApplied

record ExcludedFile =
  ex_path :: string
  ex_reason :: ExclusionReason

record ExclusionReport =
  er_excludedFiles :: "ExcludedFile list"
  er_capsApplied :: "AppliedCap list"

record RunnerResult =
  rr_comments :: "InlineComment list"
  rr_summary :: string
  rr_costUsd :: rat
  rr_inputTokens :: int
  rr_outputTokens :: int
  rr_model :: string
  rr_provider :: string
  rr_droppedDuplicates :: nat
  rr_droppedByFeedback :: "nat option"
  rr_droppedByRuleset :: nat
  rr_droppedBySuppression :: "nat option"
  rr_toolCalls :: nat
  rr_reviewEvent :: ReviewEvent
  rr_aborted :: "(ReviewAbortReason \<times> (string \<times> string) list) option"
  rr_exclusionReport :: "ExclusionReport option"

record EvalContext =
  ec_installationId :: int
  ec_prNumber :: nat
  ec_headSha :: string

record HistoryQuery =
  hq_installationId :: int
  hq_repo :: string
  hq_limit :: "nat option"

record ReviewEvalEvent =
  ev_installationId :: int
  ev_jobId :: string
  ev_repo :: string
  ev_prNumber :: nat
  ev_headSha :: string
  ev_provider :: string
  ev_model :: string
  ev_commentCount :: nat
  ev_severityDist :: "Severity \<Rightarrow> nat"
  ev_confidenceDist :: "Confidence \<Rightarrow> nat"
  ev_droppedDuplicates :: nat
  ev_droppedByFeedback :: nat
  ev_toolCalls :: nat
  ev_latencyMs :: int
  ev_costUsd :: rat
  ev_tokensInput :: int
  ev_tokensOutput :: int
  ev_abortReason :: "ReviewAbortReason option"

record RunReviewDeps =
  rd_scanContent :: "(string \<Rightarrow> GitleaksFinding list) option"
  rd_historyReader :: "(HistoryQuery \<Rightarrow> AgentError + LearnedFact list) option"
  rd_suppressionLoader :: "(HistoryQuery \<Rightarrow> AgentError + string list) option"
  rd_evalContext :: "EvalContext option"
  rd_evalRecorder :: "(ReviewEvalEvent \<Rightarrow> AgentError option) option"

record AgentEnv =
  env_newRegExp :: "string \<Rightarrow> rx option"
  env_parseUrl :: "string \<Rightarrow> ParsedUrl option"
  env_fingerprint :: "FingerprintInput \<Rightarrow> string"
  env_toolDeps :: ToolDeps
  env_prompts :: PromptTexts

datatype AgentEvent =
    ConfigResolution string
  | HistoryReaderError AgentError
  | SuspicionRaised nat
  | ProviderCalled ReviewInput
  | EvalRecorded ReviewEvalEvent
  | EvalRecordError AgentError

record AgentState =
  as_cost :: "unit CostState"
  as_attempts :: nat
  as_toolCalls :: nat
  as_events :: "AgentEvent list"

type_synonym Next = "AgentState \<Rightarrow> (AgentError + ReviewOutput) \<times> AgentState"

section \<open>Small helpers\<close>

definition RETRY_PROMPT_SUFFIX :: string where
  "RETRY_PROMPT_SUFFIX = [LF, LF] @ ''IMPORTANT: your previous response failed schema validation. Produce strictly valid output that matches the configured schema.''"

definition URL_ALLOWLIST_ABORT_SUMMARY :: string where
  "URL_ALLOWLIST_ABORT_SUMMARY = ''Review aborted: LLM produced output that violates the URL allowlist after one retry. See spec '' @ [CHR 0xA7] @ ''7.3.''"

definition SCHEMA_ABORT_SUMMARY :: string where
  "SCHEMA_ABORT_SUMMARY = ''Review aborted: LLM produced output that fails schema validation after one retry. See spec '' @ [CHR 0xA7] @ ''7.3.''"

definition maxFilesSkipSummary :: "int \<Rightarrow> int \<Rightarrow> string" where
  "maxFilesSkipSummary fileCount cap =
     ''Review skipped: PR exceeds the max_files cap ('' @ intToString fileCount @ '' files > limit '' @ intToString cap @
     ''). Adjust reviews.max_files in .review-agent.yml or reduce PR scope.''"

definition maxDiffLinesSkipSummary :: "int \<Rightarrow> int \<Rightarrow> string" where
  "maxDiffLinesSkipSummary lineCount cap =
     ''Review skipped: PR exceeds the max_diff_lines cap ('' @ intToString lineCount @ '' lines > limit '' @ intToString cap @
     ''). Adjust reviews.max_diff_lines in .review-agent.yml or reduce PR scope.''"

definition normalizeRepoKey :: "PrRepo \<Rightarrow> int \<Rightarrow> string" where
  "normalizeRepoKey prRepo installationId =
     (if pr_owner prRepo = [] then intToString installationId else pr_owner prRepo) @ ''/'' @ pr_repo prRepo"

definition isHexC :: "char \<Rightarrow> bool" where
  "isHexC c = in_cls False [(48, 57), (97, 102)] c"

definition extractFingerprint :: "string \<Rightarrow> string option" where
  "extractFingerprint factText =
     (if startsWith factText ''[fp:''
      then let rest = drop 4 factText; h = takeWhile isHexC rest
           in if h \<noteq> [] \<and> startsWith (drop (length h) rest) '']'' then Some h else None
      else None)"

definition uniqueRuleIds :: "GitleaksFinding list \<Rightarrow> string list" where
  "uniqueRuleIds findings = dedupList (map gf_ruleId findings)"

definition classifyAbort :: "(string \<times> string) list \<Rightarrow> ReviewAbortReason \<times> string" where
  "classifyAbort issues =
     (if list_ex (\<lambda>i. startsWith (snd i) URL_ALLOWLIST_ISSUE_PREFIX) issues then (UrlAllowlist, URL_ALLOWLIST_ABORT_SUMMARY)
      else (SchemaViolation, SCHEMA_ABORT_SUMMARY))"

definition validateOutput :: "AgentEnv \<Rightarrow> ReviewOutputPolicy \<Rightarrow> ReviewOutput \<Rightarrow> AgentError + unit" where
  "validateOutput env policy out =
     (let issues = reviewOutputIssues (env_parseUrl env) policy (ro_summary out) (ro_comments out)
      in if issues = [] then Inr () else Inl (SchemaValidationError (map (\<lambda>(path, msg). (joinWith ''.'' path, msg)) issues)))"

definition buildCapSkipResult :: "LlmProvider \<Rightarrow> ReviewAbortReason \<Rightarrow> string \<Rightarrow> ExclusionReport \<Rightarrow> RunnerResult" where
  "buildCapSkipResult provider reason summary exclusionReport =
     \<lparr>rr_comments = [], rr_summary = summary, rr_costUsd = 0, rr_inputTokens = 0, rr_outputTokens = 0,
      rr_model = pv_model provider, rr_provider = pv_name provider, rr_droppedDuplicates = 0, rr_droppedByFeedback = None,
      rr_droppedByRuleset = 0, rr_droppedBySuppression = None, rr_toolCalls = 0, rr_reviewEvent = COMMENT,
      rr_aborted = Some (reason, []), rr_exclusionReport = Some exclusionReport\<rparr>"

section \<open>History and suppression rules\<close>

definition emit :: "AgentEvent \<Rightarrow> AgentState \<Rightarrow> AgentState" where
  "emit e st = st\<lparr>as_events := as_events st @ [e]\<rparr>"

definition mapSome :: "('a \<Rightarrow> 'b option) \<Rightarrow> 'a list \<Rightarrow> 'b list" where
  "mapSome f xs = concat (map (\<lambda>x. case f x of None \<Rightarrow> [] | Some y \<Rightarrow> [y]) xs)"

text \<open>The learned facts and the rejected fingerprints; without reader or context both are empty.\<close>

definition loadHistory :: "ReviewJob \<Rightarrow> RunReviewDeps \<Rightarrow> AgentError + LearnedFact list \<times> string list" where
  "loadHistory job deps =
     (case (rd_historyReader deps, rd_evalContext deps) of
        (Some rd, Some ec) \<Rightarrow>
          (case rd \<lparr>hq_installationId = ec_installationId ec, hq_repo = normalizeRepoKey (rj_prRepo job) (ec_installationId ec),
                hq_limit = Some MAX_LEARNED_FACTS\<rparr> of
             Inl e \<Rightarrow> Inl e
           | Inr rows \<Rightarrow> Inr (rows, mapSome (\<lambda>r. extractFingerprint (fa_factText r))
                 (filter (\<lambda>r. fa_factType r = RejectedFinding) rows)))
      | _ \<Rightarrow> Inr ([], []))"

definition loadSuppressions :: "ReviewJob \<Rightarrow> RunReviewDeps \<Rightarrow> AgentError + string list" where
  "loadSuppressions job deps =
     (case (rd_suppressionLoader deps, rd_evalContext deps) of
        (Some ld, Some ec) \<Rightarrow>
          map_sum id (mapSome extractFingerprint)
            (ld \<lparr>hq_installationId = ec_installationId ec, hq_repo = normalizeRepoKey (rj_prRepo job) (ec_installationId ec),
               hq_limit = None\<rparr>)
      | _ \<Rightarrow> Inr [])"

definition promptOptions :: "ReviewJob \<Rightarrow> LearnedFact list \<Rightarrow> ComposeSystemPromptOptions" where
  "promptOptions job learnedFacts =
     (let previousFingerprints = (case rj_previousState job of None \<Rightarrow> [] | Some st \<Rightarrow> rs_commentFingerprints st)
      in \<lparr>sp_profile = rj_profile job, sp_skills = rj_skills job,
          sp_pathInstructions = map (\<lambda>p. (pi_pattern p, pi_text p)) (rj_pathInstructions job), sp_language = rj_language job,
          sp_incrementalContext = (rj_incrementalContext job = Some True),
          sp_incrementalSinceSha = (if rj_incrementalContext job = Some True then rj_incrementalSinceSha job else None),
          sp_previousFingerprints = (if previousFingerprints \<noteq> [] then Some previousFingerprints else None),
          sp_learnedFacts = (if learnedFacts \<noteq> [] then Some learnedFacts else None)\<rparr>)"

section \<open>The cap pipeline\<close>

record EffectiveDiff =
  ef_exclusions :: "ExcludedFile list"
  ef_diffText :: string
  ef_changedPaths :: "string list"

definition pathFilterExclusions :: "ParsedDiff \<Rightarrow> ParsedDiff \<Rightarrow> ExcludedFile list" where
  "pathFilterExclusions parsed filtered =
     (if filtered \<noteq> parsed
      then map (\<lambda>f. \<lparr>ex_path = df_path f, ex_reason = PathFilter\<rparr>)
        (filter (\<lambda>f. \<not> list_ex (\<lambda>kf. df_path kf = df_path f) (pd_files filtered)) (pd_files parsed))
      else [])"

definition capReport :: "ExcludedFile list \<Rightarrow> ParsedDiff \<Rightarrow> ExclusionReason \<Rightarrow> AppliedCap \<Rightarrow> ExclusionReport" where
  "capReport exclusions filtered reason cap =
     \<lparr>er_excludedFiles = exclusions @ map (\<lambda>f. \<lparr>ex_path = df_path f, ex_reason = reason\<rparr>) (pd_files filtered),
      er_capsApplied = [cap]\<rparr>"

text \<open>Filters, then the two caps: a skip result, or what the review goes on with.\<close>

definition capPipeline :: "ReviewJob \<Rightarrow> LlmProvider \<Rightarrow> AgentError + (RunnerResult + EffectiveDiff)" where
  "capPipeline job provider =
     (let parsed = parseDiffByFile (rj_diffText job) in
      case applyPathFilters parsed (rj_pathFilters job) of
        Inl e \<Rightarrow> Inl (OtherError e)
      | Inr filtered \<Rightarrow>
          (let exclusions = pathFilterExclusions parsed filtered;
               fileCount = int (length (pd_files filtered));
               diffLineCount = int (countDiffLines filtered)
           in Inr
             (if rj_maxFiles job < fileCount
              then Inl (buildCapSkipResult provider MaxFilesExceeded (maxFilesSkipSummary fileCount (rj_maxFiles job))
                     (capReport exclusions filtered MaxFilesCap MaxFilesApplied))
              else if rj_maxDiffLines job < diffLineCount
              then Inl (buildCapSkipResult provider MaxDiffLinesExceeded (maxDiffLinesSkipSummary diffLineCount (rj_maxDiffLines job))
                     (capReport exclusions filtered MaxDiffLinesCap MaxDiffLinesApplied))
              else Inr \<lparr>ef_exclusions = exclusions,
                     ef_diffText = (if filtered \<noteq> parsed then reassembleDiff filtered else rj_diffText job),
                     ef_changedPaths = (if filtered \<noteq> parsed then map df_path (pd_files filtered)
                        else (case rj_changedPaths job of None \<Rightarrow> [] | Some ps \<Rightarrow> ps))\<rparr>)))"

section \<open>Calling the model\<close>

definition callProvider :: "LlmProvider \<Rightarrow> ReviewInput \<Rightarrow> Next" where
  "callProvider provider input st =
     (case pv_generateReview provider (as_attempts st) input of
        (r, calls) \<Rightarrow> (r, emit (ProviderCalled input) (st\<lparr>as_attempts := as_attempts st + 1, as_toolCalls := as_toolCalls st + calls\<rparr>)))"

definition validated :: "AgentEnv \<Rightarrow> ReviewOutputPolicy \<Rightarrow> AgentError + ReviewOutput \<Rightarrow> AgentError + ReviewOutput" where
  "validated env policy r =
     (case r of Inl e \<Rightarrow> Inl e
      | Inr out \<Rightarrow> (case validateOutput env policy out of Inl e \<Rightarrow> Inl e | Inr _ \<Rightarrow> Inr out))"

definition isSchemaError :: "AgentError \<Rightarrow> bool" where
  "isSchemaError e = (case e of SchemaValidationError _ \<Rightarrow> True | _ \<Rightarrow> False)"

text \<open>The innermost step of the chain: one retry with the corrective suffix after a schema error.\<close>

definition terminalCall :: "AgentEnv \<Rightarrow> ReviewOutputPolicy \<Rightarrow> LlmProvider \<Rightarrow> ReviewInput \<Rightarrow> Next" where
  "terminalCall env policy provider input st =
     (case callProvider provider input st of
        (r, st) \<Rightarrow>
          (case validated env policy r of
             Inr out \<Rightarrow> (Inr out, st)
           | Inl e \<Rightarrow>
               if \<not> isSchemaError e then (Inl e, st)
               else case callProvider provider (input\<lparr>in_systemPrompt := in_systemPrompt input @ RETRY_PROMPT_SUFFIX\<rparr>) st of
                      (r, st) \<Rightarrow> (validated env policy r, st)))"

section \<open>Middleware\<close>

definition SUSPICIOUS_PATTERNS :: "rx list" where
  "SUSPICIOUS_PATTERNS =
     [rx_strI ''ignore previous instructions'', rx_strI ''system prompt'', rx_strI ''you are now'', rx_strI ''respond only with'']"

fun firstSuspicious :: "rx list \<Rightarrow> nat \<Rightarrow> string \<Rightarrow> nat option" where
  "firstSuspicious [] i s = None"
| "firstSuspicious (p # ps) i s = (if rx_test p s then Some i else firstSuspicious ps (i + 1) s)"

text \<open>\<open>createInjectionGuard\<close>: it never blocks; with a callback it reports the first pattern that matched.\<close>

definition injectionGuard :: "bool \<Rightarrow> ReviewJob \<Rightarrow> Next \<Rightarrow> Next" where
  "injectionGuard onSuspicion job next st =
     (let haystack = um_title (rj_prMetadata job) @ [LF] @ um_body (rj_prMetadata job)
      in next (case firstSuspicious SUSPICIOUS_PATTERNS 0 haystack of
           Some i \<Rightarrow> if onSuspicion then emit (SuspicionRaised i) st else st
         | None \<Rightarrow> st))"

definition agentGuardOptions :: "unit CostGuardOptions" where
  "agentGuardOptions = \<lparr>go_dailyCapUsd = 0, go_readTotals = None, go_recorder = None, go_recordContext = None\<rparr>"

text \<open>\<open>createCostGuard({ state })\<close> in the chain: the guarded call happens when the guard makes it.\<close>

definition costGuardLayer :: "ReviewJob \<Rightarrow> LlmProvider \<Rightarrow> ReviewInput \<Rightarrow> Next \<Rightarrow> Next" where
  "costGuardLayer job provider input next st =
     (case next st of
        (r, st') \<Rightarrow>
          (case costGuard agentGuardOptions (rj_costCapUsd job) (pv_estimateCost provider input) r (as_cost st) of
             (out, cost, effs) \<Rightarrow> (out, (if NextCalled \<in> set effs then st' else st)\<lparr>as_cost := cost\<rparr>)))"

text \<open>\<open>compose\<close>: the first middleware of the list is the outermost.\<close>

fun compose :: "(Next \<Rightarrow> Next) list \<Rightarrow> Next \<Rightarrow> Next" where
  "compose [] terminal = terminal"
| "compose (mw # mws) terminal = mw (compose mws terminal)"

section \<open>From the output to the result\<close>

definition exclusionReportOf :: "ExcludedFile list \<Rightarrow> ExclusionReport option" where
  "exclusionReportOf exclusions =
     (if exclusions \<noteq> [] then Some \<lparr>er_excludedFiles = exclusions, er_capsApplied = []\<rparr> else None)"

definition abortResult :: "LlmProvider \<Rightarrow> ExcludedFile list \<Rightarrow> (string \<times> string) list \<Rightarrow> AgentState \<Rightarrow> RunnerResult" where
  "abortResult provider exclusions issues st =
     (case classifyAbort issues of (reason, summary) \<Rightarrow>
       \<lparr>rr_comments = [], rr_summary = summary, rr_costUsd = cs_totalCostUsd (as_cost st), rr_inputTokens = 0, rr_outputTokens = 0,
        rr_model = pv_model provider, rr_provider = pv_name provider, rr_droppedDuplicates = 0, rr_droppedByFeedback = None,
        rr_droppedByRuleset = 0, rr_droppedBySuppression = None, rr_toolCalls = as_toolCalls st, rr_reviewEvent = COMMENT,
        rr_aborted = Some (reason, issues), rr_exclusionReport = exclusionReportOf exclusions\<rparr>)"

definition secretLeak :: "SecretLeakPhase \<Rightarrow> GitleaksFinding list \<Rightarrow> AgentError" where
  "secretLeak phase findings =
     SecretLeakAbortedError phase (length findings) (uniqueRuleIds findings)
       (case snd (shouldAbortReview findings) of None \<Rightarrow> ''unknown'' | Some r \<Rightarrow> r)"

definition redactComment :: "GitleaksFinding list \<Rightarrow> InlineComment \<Rightarrow> InlineComment" where
  "redactComment findings c = c\<lparr>c_body := applyRedactions (c_body c) findings\<rparr>"

definition finishReview :: "AgentEnv \<Rightarrow> ReviewJob \<Rightarrow> LlmProvider \<Rightarrow> RunReviewDeps \<Rightarrow> (string \<Rightarrow> GitleaksFinding list) \<Rightarrow>
    ExcludedFile list \<Rightarrow> string list \<Rightarrow> string list \<Rightarrow> ReviewOutput \<Rightarrow> AgentState \<Rightarrow> AgentError + RunnerResult" where
  "finishReview env job provider deps scanContent exclusions rejected suppressed out st =
     (let dedup = dedupComments (env_fingerprint env) (ro_comments out) (rj_previousState job) rejected;
          afterConfidence = applyConfidence (dd_kept dedup) (rj_minConfidence job);
          rulesetResult = applyRulesetFilter afterConfidence (rj_ruleset job);
          suppression = applySuppression (fst rulesetResult) suppressed;
          filteredKept = fst suppression;
          outputFindings = scanContent (joinWith [LF, LF] (ro_summary out # map c_body filteredKept))
      in if fst (shouldAbortReview outputFindings) then Inl (secretLeak OutputPhase outputFindings)
         else let summary = (if outputFindings = [] then ro_summary out else applyRedactions (ro_summary out) outputFindings);
                  comments = (if outputFindings = [] then filteredKept else map (redactComment outputFindings) filteredKept)
              in Inr \<lparr>rr_comments = comments, rr_summary = summary, rr_costUsd = cs_totalCostUsd (as_cost st),
                   rr_inputTokens = gr_inputTokens out, rr_outputTokens = gr_outputTokens out,
                   rr_model = pv_model provider, rr_provider = pv_name provider,
                   rr_droppedDuplicates = dd_droppedCount dedup, rr_droppedByFeedback = Some (dd_droppedByFeedback dedup),
                   rr_droppedByRuleset = snd rulesetResult,
                   rr_droppedBySuppression = (if rd_suppressionLoader deps \<noteq> None then Some (snd suppression) else None),
                   rr_toolCalls = max (case ro_toolCalls out of None \<Rightarrow> 0 | Some n \<Rightarrow> n) (as_toolCalls st),
                   rr_reviewEvent = computeReviewEvent (map c_severity comments)
                      (case rj_requestChangesOn job of None \<Rightarrow> ThrCritical | Some t \<Rightarrow> t),
                   rr_aborted = None, rr_exclusionReport = exclusionReportOf exclusions\<rparr>)"

section \<open>The review\<close>

definition reviewPolicy :: "ReviewJob \<Rightarrow> ReviewOutputPolicy" where
  "reviewPolicy job = \<lparr>op_allowedUrlPrefixes = pr_allowedUrlPrefixes (rj_privacy job), op_prRepo = rj_prRepo job\<rparr>"

definition buildInput :: "AgentEnv \<Rightarrow> ReviewJob \<Rightarrow> string \<Rightarrow> rx list \<Rightarrow> EffectiveDiff \<Rightarrow> ReviewInput" where
  "buildInput env job systemPrompt denyPatterns eff =
     (let autoFetch = collectAutoFetchContext (env_toolDeps env) denyPatterns DEFAULT_AUTO_FETCH_BUDGET
            (rj_workspaceDir job) (rj_pathInstructions job) (ef_changedPaths eff);
          wrapped = wrapUntrusted (rj_prMetadata job) (Some \<lparr>ur_files = ar_files autoFetch,
            ur_hitBudgetLimit = ar_hitBudgetLimit autoFetch, ur_totalBytes = ar_totalBytes autoFetch\<rparr>)
      in \<lparr>in_systemPrompt = systemPrompt, in_diffText = wrapped @ [LF, LF] @ ef_diffText eff,
          in_prMetadata = rj_prMetadata job, in_language = rj_language job,
          in_tools = (rj_workspaceDir job, denyPatterns),
          in_maxToolCalls = (case rj_maxSteps job of None \<Rightarrow> MAX_TOOL_CALLS | Some n \<Rightarrow> n)\<rparr>)"

definition scannerOf :: "AgentEnv \<Rightarrow> ReviewJob \<Rightarrow> RunReviewDeps \<Rightarrow> string \<Rightarrow> GitleaksFinding list" where
  "scannerOf env job deps =
     (case rd_scanContent deps of Some f \<Rightarrow> f
      | None \<Rightarrow> (\<lambda>text. quickScanContent (env_newRegExp env) text (pr_redactPatterns (rj_privacy job))))"

definition reviewDiff :: "AgentEnv \<Rightarrow> ReviewJob \<Rightarrow> LlmProvider \<Rightarrow> RunReviewDeps \<Rightarrow> LearnedFact list \<Rightarrow> string list \<Rightarrow> string list \<Rightarrow>
    EffectiveDiff \<Rightarrow> AgentState \<Rightarrow> (AgentError + RunnerResult) \<times> AgentState" where
  "reviewDiff env job provider deps learnedFacts rejected suppressed eff st =
     (let scanContent = scannerOf env job deps;
          diffFindings = scanContent (ef_diffText eff)
      in if fst (shouldAbortReview diffFindings) then (Inl (secretLeak DiffPhase diffFindings), st)
         else case compileGlobs (pr_denyPaths (rj_privacy job)) of
           Inl e \<Rightarrow> (Inl (OtherError e), st)
         | Inr denyPatterns \<Rightarrow>
             (let input = buildInput env job (composeSystemPrompt (env_prompts env) (promptOptions job learnedFacts)) denyPatterns eff
              in case compose [injectionGuard False job, costGuardLayer job provider input]
                      (terminalCall env (reviewPolicy job) provider input) st of
                   (Inr out, st) \<Rightarrow>
                     (finishReview env job provider deps scanContent (ef_exclusions eff) rejected suppressed out st, st)
                 | (Inl e, st) \<Rightarrow>
                     (case e of SchemaValidationError issues \<Rightarrow> (Inr (abortResult provider (ef_exclusions eff) issues st), st)
                      | _ \<Rightarrow> (Inl e, st))))"

definition initialState :: AgentState where
  "initialState = \<lparr>as_cost = \<lparr>cs_totalCostUsd = 0, cs_db = ()\<rparr>, as_attempts = 0, as_toolCalls = 0, as_events = []\<rparr>"

definition runReviewInner :: "AgentEnv \<Rightarrow> ReviewJob \<Rightarrow> LlmProvider \<Rightarrow> RunReviewDeps \<Rightarrow> (AgentError + RunnerResult) \<times> AgentState" where
  "runReviewInner env job provider deps =
     (let st = (case rj_resolutionLog job of None \<Rightarrow> initialState | Some lg \<Rightarrow> emit (ConfigResolution lg) initialState) in
      case loadHistory job deps of
        Inl e \<Rightarrow> (Inl e, emit (HistoryReaderError e) st)
      | Inr (learnedFacts, rejected) \<Rightarrow>
          (case loadSuppressions job deps of
             Inl e \<Rightarrow> (Inl e, st)
           | Inr suppressed \<Rightarrow>
               (case capPipeline job provider of
                  Inl e \<Rightarrow> (Inl e, st)
                | Inr (Inl skipped) \<Rightarrow> (Inr skipped, st)
                | Inr (Inr eff) \<Rightarrow> reviewDiff env job provider deps learnedFacts rejected suppressed eff st)))"

section \<open>\<open>runner/src/middleware/eval-recorder.ts\<close>\<close>

definition severityDist :: "InlineComment list \<Rightarrow> Severity \<Rightarrow> nat" where
  "severityDist cs = foldl (\<lambda>d c. d(c_severity c := d (c_severity c) + 1)) (\<lambda>_. 0) cs"

definition confidenceDist :: "InlineComment list \<Rightarrow> Confidence \<Rightarrow> nat" where
  "confidenceDist cs =
     foldl (\<lambda>d c. let k = (case c_confidence c of None \<Rightarrow> High | Some k \<Rightarrow> k) in d(k := d k + 1)) (\<lambda>_. 0) cs"

definition buildReviewEvalEvent :: "ReviewJob \<Rightarrow> EvalContext \<Rightarrow> RunnerResult \<Rightarrow> int \<Rightarrow> ReviewEvalEvent" where
  "buildReviewEvalEvent job ec r latencyMs =
     \<lparr>ev_installationId = ec_installationId ec, ev_jobId = rj_jobId job,
      ev_repo = normalizeRepoKey (rj_prRepo job) (ec_installationId ec), ev_prNumber = ec_prNumber ec, ev_headSha = ec_headSha ec,
      ev_provider = rr_provider r, ev_model = rr_model r, ev_commentCount = length (rr_comments r),
      ev_severityDist = severityDist (rr_comments r), ev_confidenceDist = confidenceDist (rr_comments r),
      ev_droppedDuplicates = rr_droppedDuplicates r,
      ev_droppedByFeedback = (case rr_droppedByFeedback r of None \<Rightarrow> 0 | Some n \<Rightarrow> n),
      ev_toolCalls = rr_toolCalls r, ev_latencyMs = latencyMs, ev_costUsd = rr_costUsd r,
      ev_tokensInput = rr_inputTokens r, ev_tokensOutput = rr_outputTokens r, ev_abortReason = map_option fst (rr_aborted r)\<rparr>"

definition recordEvalEvent :: "(ReviewEvalEvent \<Rightarrow> AgentError option) \<Rightarrow> ReviewEvalEvent \<Rightarrow> AgentState \<Rightarrow> AgentState" where
  "recordEvalEvent recorder event st =
     (case recorder event of None \<Rightarrow> emit (EvalRecorded event) st | Some e \<Rightarrow> emit (EvalRecordError e) st)"

text \<open>\<open>runReview\<close>; the clock shows \<open>startedAt\<close> before and \<open>endedAt\<close> after the review.\<close>

definition runReview :: "AgentEnv \<Rightarrow> ReviewJob \<Rightarrow> LlmProvider \<Rightarrow> RunReviewDeps \<Rightarrow> int \<Rightarrow> int \<Rightarrow> (AgentError + RunnerResult) \<times> AgentState" where
  "runReview env job provider deps startedAt endedAt =
     (case runReviewInner env job provider deps of
        (Inl e, st) \<Rightarrow> (Inl e, st)
      | (Inr r, st) \<Rightarrow>
          (case (rd_evalRecorder deps, rd_evalContext deps) of
             (Some recorder, Some ec) \<Rightarrow>
               (Inr r, recordEvalEvent recorder (buildReviewEvalEvent job ec r (max 0 (endedAt - startedAt))) st)
           | _ \<Rightarrow> (Inr r, st)))"

end
