(* ===== verification/StateMirror.thy ===== *)
theory StateMirror
  imports Review Json
begin

text \<open>
  The tables of the server and what writes them: \<open>review_state\<close> with the mirror of
  \<open>db/src/review-state.ts\<close>, the installation rows of \<open>github_installations\<close>, the
  delivery ids of \<open>webhook_deliveries\<close>, and the tenant check of \<open>db/src/tenancy.ts\<close>.
  A table is the list of its rows.  The three statements the code uses (insert with update on
  conflict, insert with nothing on conflict, update and delete by condition) are functions of
  the rows; a transaction is one step.  The row-level policies restrict a statement to the rows
  of the tenant set by \<open>withTenant\<close>; every modelled statement under \<open>withTenant\<close>
  names that installation in its own condition as well.
\<close>

section \<open>Statements\<close>

text \<open>\<open>insert ... on conflict (key) do update\<close>: \<open>setf\<close> updates the row in conflict.\<close>

definition insertOrUpdate :: "('r \<Rightarrow> 'k) \<Rightarrow> 'r \<Rightarrow> ('r \<Rightarrow> 'r) \<Rightarrow> 'r list \<Rightarrow> 'r list" where
  "insertOrUpdate key new setf rows =
     (if key new \<in> key ` set rows then map (\<lambda>r. if key r = key new then setf r else r) rows
      else rows @ [new])"

text \<open>\<open>insert ... on conflict do nothing ... returning\<close>: the rows and those inserted.\<close>

definition insertOrNothing :: "('r \<Rightarrow> 'k) \<Rightarrow> 'r \<Rightarrow> 'r list \<Rightarrow> 'r list \<times> 'r list" where
  "insertOrNothing key new rows =
     (if key new \<in> key ` set rows then (rows, []) else (rows @ [new], [new]))"

definition updateWhere :: "('r \<Rightarrow> bool) \<Rightarrow> ('r \<Rightarrow> 'r) \<Rightarrow> 'r list \<Rightarrow> 'r list" where
  "updateWhere P setf rows = map (\<lambda>r. if P r then setf r else r) rows"

definition deleteWhere :: "('r \<Rightarrow> bool) \<Rightarrow> 'r list \<Rightarrow> 'r list" where
  "deleteWhere P rows = filter (\<lambda>r. \<not> P r) rows"

text \<open>\<open>select ... limit(1)\<close> and \<open>rows[0] ?? null\<close>.\<close>

definition selectOne :: "('r \<Rightarrow> bool) \<Rightarrow> 'r list \<Rightarrow> 'r option" where
  "selectOne P rows = (case filter P rows of [] \<Rightarrow> None | r # _ \<Rightarrow> Some r)"

section \<open>\<open>db/src/tenancy.ts\<close>\<close>

definition tenantOk :: "int \<Rightarrow> bool" where
  "tenantOk installationId = (let s = intToString installationId in s \<noteq> [] \<and> list_all isDigit s)"

text \<open>\<open>dbOk\<close> is False when the transaction itself fails.\<close>

definition withTenant :: "bool \<Rightarrow> int \<Rightarrow> ('t \<Rightarrow> 't \<times> 'a) \<Rightarrow> 't \<Rightarrow> 't \<times> 'a result" where
  "withTenant dbOk installationId fn t =
     (if \<not> tenantOk installationId
      then (t, Inl (''installationId must be a positive integer (got '' @ intToString installationId @ '').''))
      else if \<not> dbOk then (t, Inl ''transaction failed'')
      else (case fn t of (t', x) \<Rightarrow> (t', Inr x)))"

section \<open>\<open>review_state\<close>\<close>

record ReviewStateRow =
  sr_id :: string
  sr_installationId :: int
  sr_prId :: string
  sr_headSha :: string
  sr_state :: ReviewState
  sr_updatedAt :: Date
  sr_paused :: bool

record ReviewStateLookup =
  lk_installationId :: int
  lk_prId :: string

definition idFor :: "ReviewStateLookup \<Rightarrow> string" where
  "idFor q = intToString (lk_installationId q) @ '':'' @ lk_prId q"

definition mirrorRead :: "ReviewStateLookup \<Rightarrow> ReviewStateRow list \<Rightarrow> ReviewState option" where
  "mirrorRead q rows = map_option sr_state (selectOne (\<lambda>r. sr_id r = idFor q) rows)"

text \<open>\<open>dbNow\<close> is the column default of a new row, \<open>now\<close> the clock of the process.\<close>

definition mirrorUpsert :: "Date \<Rightarrow> Date \<Rightarrow> ReviewStateLookup \<Rightarrow> string \<Rightarrow> ReviewState \<Rightarrow> ReviewStateRow list \<Rightarrow> ReviewStateRow list" where
  "mirrorUpsert dbNow now q headSha state rows =
     insertOrUpdate sr_id
       \<lparr>sr_id = idFor q, sr_installationId = lk_installationId q, sr_prId = lk_prId q, sr_headSha = headSha,
        sr_state = state, sr_updatedAt = dbNow, sr_paused = False\<rparr>
       (\<lambda>r. r\<lparr>sr_headSha := headSha, sr_state := state, sr_updatedAt := now\<rparr>) rows"

text \<open>The update of \<open>/skip\<close> and \<open>/resume\<close>: the rows of the pull request, if there are any.\<close>

definition setPaused :: "bool \<Rightarrow> Date \<Rightarrow> int \<Rightarrow> string \<Rightarrow> ReviewStateRow list \<Rightarrow> ReviewStateRow list" where
  "setPaused p now installationId prId rows =
     updateWhere (\<lambda>r. sr_installationId r = installationId \<and> sr_prId r = prId)
       (\<lambda>r. r\<lparr>sr_paused := p, sr_updatedAt := now\<rparr>) rows"

text \<open>
  \<open>loadReviewState\<close>: the hidden comment wins over the mirror when both exist and differ; the
  result comes with the upsert it makes.
\<close>

definition loadReviewState :: "ReviewState option \<Rightarrow> ReviewState option \<Rightarrow> ReviewState option \<times> (ReviewState \<times> string) option" where
  "loadReviewState mirror hidden =
     (case hidden of
        Some h \<Rightarrow>
          if (case mirror of None \<Rightarrow> True | Some m \<Rightarrow> rs_reviewedAt m \<noteq> rs_reviewedAt h)
          then (Some h, if rs_lastReviewedSha h \<noteq> [] then Some (h, rs_lastReviewedSha h) else None)
          else (mirror, None)
      | None \<Rightarrow> (mirror, None))"

section \<open>\<open>github_installations\<close> and \<open>webhook_deliveries\<close>\<close>

record GithubInstallationRow =
  gi_installationId :: int
  gi_accountLogin :: string
  gi_accountType :: string
  gi_appId :: int
  gi_setupAction :: string
  gi_suspendedAt :: "Date option"
  gi_createdAt :: Date
  gi_updatedAt :: Date

datatype WebhookDeliveryStatus = Received | Enqueued | Duplicate | DeliveryFailed

record WebhookDeliveryRow =
  wd_deliveryId :: string
  wd_receivedAt :: Date
  wd_status :: WebhookDeliveryStatus

section \<open>Laws of the statements\<close>

lemma selectOne_Some: "selectOne P rows = Some r \<Longrightarrow> r \<in> set rows \<and> P r"
  by (auto simp: selectOne_def filter_eq_Cons_iff split: list.splits)

lemma selectOne_None: "selectOne P rows = None \<longleftrightarrow> (\<forall>r \<in> set rows. \<not> P r)"
  by (cases "filter P rows") (auto simp: selectOne_def filter_empty_conv filter_eq_Cons_iff)

lemma key_absent: "k \<notin> key ` set rows \<Longrightarrow> selectOne (\<lambda>r. key r = k) rows = None"
  by (auto simp: selectOne_None)

lemma key_present: "k \<in> key ` set rows \<Longrightarrow> selectOne (\<lambda>r. key r = k) rows \<noteq> None"
  by (auto simp: selectOne_None)

lemma selectOne_append: "selectOne P (xs @ ys) = (case selectOne P xs of None \<Rightarrow> selectOne P ys | Some r \<Rightarrow> Some r)"
  by (auto simp: selectOne_def split: list.splits)

lemma selectOne_map:
  "(\<And>r. P (f r) = P r) \<Longrightarrow> selectOne P (map f rows) = map_option f (selectOne P rows)"
  by (induction rows) (auto simp: selectOne_def split: if_splits)

text \<open>A table with a unique key, and what a lookup by key returns after a write by key.\<close>

locale keyed_store =
  fixes key :: "'r \<Rightarrow> 'k" and put :: "'v \<Rightarrow> 'r list \<Rightarrow> 'r list" and wkey :: "'v \<Rightarrow> 'k"
    and merge :: "'v \<Rightarrow> 'r option \<Rightarrow> 'r"
  assumes put_unique: "distinct (map key rows) \<Longrightarrow> distinct (map key (put v rows))"
    and find_put: "distinct (map key rows) \<Longrightarrow>
      selectOne (\<lambda>r. key r = k) (put v rows) =
        (if k = wkey v then Some (merge v (selectOne (\<lambda>r. key r = k) rows)) else selectOne (\<lambda>r. key r = k) rows)"
begin

lemma writes_unique: "distinct (map key rows) \<Longrightarrow> distinct (map key (fold put vs rows))"
  by (induction vs arbitrary: rows) (auto intro: put_unique)

text \<open>What a key reads after any sequence of writes depends on the writes to that key alone.\<close>

lemma find_writes:
  "distinct (map key rows) \<Longrightarrow>
   selectOne (\<lambda>r. key r = k) (fold put vs rows) =
     fold (\<lambda>v o'. Some (merge v o')) (filter (\<lambda>v. wkey v = k) vs) (selectOne (\<lambda>r. key r = k) rows)"
proof (induction vs arbitrary: rows)
  case (Cons v vs)
  then show ?case using put_unique [OF Cons.prems, of v] by (auto simp: find_put)
qed simp

lemma find_other: "distinct (map key rows) \<Longrightarrow> \<forall>v \<in> set vs. wkey v \<noteq> k \<Longrightarrow>
   selectOne (\<lambda>r. key r = k) (fold put vs rows) = selectOne (\<lambda>r. key r = k) rows"
  by (simp add: find_writes filter_False)

end

lemma distinct_insertOrUpdate:
  assumes "distinct (map key rows)" "\<And>r. key (setf r) = key r"
  shows "distinct (map key (insertOrUpdate key new setf rows))"
proof -
  have "map key (map (\<lambda>r. if key r = key new then setf r else r) rows) = map key rows"
    using assms(2) by simp
  then show ?thesis using assms by (auto simp: insertOrUpdate_def simp del: map_map)
qed

lemma find_insertOrUpdate:
  assumes "\<And>r. key (setf r) = key r"
  shows "selectOne (\<lambda>r. key r = k) (insertOrUpdate key new setf rows) =
    (if k = key new then Some (case selectOne (\<lambda>r. key r = k) rows of None \<Rightarrow> new | Some r \<Rightarrow> setf r)
     else selectOne (\<lambda>r. key r = k) rows)"
proof (cases "key new \<in> key ` set rows")
  case True
  let ?f = "\<lambda>r. if key r = key new then setf r else r"
  have e: "selectOne (\<lambda>r. key r = k) (map ?f rows) = map_option ?f (selectOne (\<lambda>r. key r = k) rows)"
    by (rule selectOne_map) (simp add: assms)
  have "selectOne (\<lambda>r. key r = key new) rows \<noteq> None" using True by (rule key_present)
  then show ?thesis using True e
    by (cases "selectOne (\<lambda>r. key r = k) rows") (auto simp: insertOrUpdate_def dest: selectOne_Some)
next
  case False
  then have "selectOne (\<lambda>r. key r = key new) rows = None" by (rule key_absent)
  then show ?thesis using False by (auto simp: insertOrUpdate_def selectOne_append selectOne_def split: option.splits list.splits)
qed

lemma distinct_insertOrNothing:
  "distinct (map key rows) \<Longrightarrow> distinct (map key (fst (insertOrNothing key new rows)))"
  by (auto simp: insertOrNothing_def)

lemma find_insertOrNothing:
  "selectOne (\<lambda>r. key r = k) (fst (insertOrNothing key new rows)) =
    (if k = key new then Some (case selectOne (\<lambda>r. key r = k) rows of None \<Rightarrow> new | Some r \<Rightarrow> r)
     else selectOne (\<lambda>r. key r = k) rows)"
proof (cases "key new \<in> key ` set rows")
  case True
  then have "selectOne (\<lambda>r. key r = key new) rows \<noteq> None" by (rule key_present)
  then show ?thesis using True by (auto simp: insertOrNothing_def)
next
  case False
  then have "selectOne (\<lambda>r. key r = key new) rows = None" by (rule key_absent)
  then show ?thesis using False by (auto simp: insertOrNothing_def selectOne_append selectOne_def split: option.splits list.splits)
qed

section \<open>The mirror as a map\<close>

record MirrorWrite =
  mw_dbNow :: Date
  mw_now :: Date
  mw_lookup :: ReviewStateLookup
  mw_headSha :: string
  mw_state :: ReviewState

definition mirrorPut :: "MirrorWrite \<Rightarrow> ReviewStateRow list \<Rightarrow> ReviewStateRow list" where
  "mirrorPut w = mirrorUpsert (mw_dbNow w) (mw_now w) (mw_lookup w) (mw_headSha w) (mw_state w)"

definition mirrorMerge :: "MirrorWrite \<Rightarrow> ReviewStateRow option \<Rightarrow> ReviewStateRow" where
  "mirrorMerge w old =
     (case old of
        None \<Rightarrow> \<lparr>sr_id = idFor (mw_lookup w), sr_installationId = lk_installationId (mw_lookup w),
                 sr_prId = lk_prId (mw_lookup w), sr_headSha = mw_headSha w, sr_state = mw_state w,
                 sr_updatedAt = mw_dbNow w, sr_paused = False\<rparr>
      | Some r \<Rightarrow> r\<lparr>sr_headSha := mw_headSha w, sr_state := mw_state w, sr_updatedAt := mw_now w\<rparr>)"

interpretation mirror: keyed_store sr_id mirrorPut "\<lambda>w. idFor (mw_lookup w)" mirrorMerge
proof unfold_locales
  fix rows :: "ReviewStateRow list" and w :: MirrorWrite and k :: string
  show "distinct (map sr_id (mirrorPut w rows))" if "distinct (map sr_id rows)"
    using that unfolding mirrorPut_def mirrorUpsert_def by (rule distinct_insertOrUpdate) simp
  show "selectOne (\<lambda>r. sr_id r = k) (mirrorPut w rows) =
      (if k = idFor (mw_lookup w) then Some (mirrorMerge w (selectOne (\<lambda>r. sr_id r = k) rows))
       else selectOne (\<lambda>r. sr_id r = k) rows)"
    unfolding mirrorPut_def mirrorUpsert_def mirrorMerge_def
    by (subst find_insertOrUpdate) (auto split: option.splits)
qed

lemma idFor_inject: "idFor q = idFor q' \<longleftrightarrow> q = q'"
proof
  assume "idFor q = idFor q'"
  then have "intToString (lk_installationId q) @ CHR '':'' # lk_prId q =
      intToString (lk_installationId q') @ CHR '':'' # lk_prId q'"
    by (simp add: idFor_def)
  moreover have "stops (CHR '':'' # s)" for s by (simp add: stops_def isDigit_def)
  ultimately have "lk_installationId q = lk_installationId q' \<and> CHR '':'' # lk_prId q = CHR '':'' # lk_prId q'"
    using readableD [OF intToString_readable] by blast
  then show "q = q'" by (cases q; cases q') simp
qed simp

text \<open>C14: the mirror is a map from installation and pull request to review state: after any
  sequence of upserts, reading a pull request gives the state of its last upsert, and upserts of
  other pull requests or installations never change what it reads.\<close>

theorem mirror_refines_map:
  "(\<lambda>q. mirrorRead q (fold mirrorPut ws [])) = fold (\<lambda>w m. m(mw_lookup w \<mapsto> mw_state w)) ws Map.empty"
proof -
  have "(\<lambda>q. mirrorRead q (fold mirrorPut ws rows)) =
      fold (\<lambda>w m. m(mw_lookup w \<mapsto> mw_state w)) ws (\<lambda>q. mirrorRead q rows)"
    if "distinct (map sr_id rows)" for rows
    using that
  proof (induction ws arbitrary: rows)
    case (Cons w ws)
    have "(\<lambda>q. mirrorRead q (mirrorPut w rows)) = (\<lambda>q. mirrorRead q rows)(mw_lookup w \<mapsto> mw_state w)"
      by (rule ext) (auto simp: mirrorRead_def mirror.find_put [OF Cons.prems] idFor_inject mirrorMerge_def split: option.splits)
    then show ?case using Cons.IH [OF mirror.put_unique [OF Cons.prems, of w]] by (simp del: fun_upd_apply)
  qed simp
  from this [of "[]"] show ?thesis by (simp add: mirrorRead_def selectOne_def)
qed

end
