(* ===== verification/Commands.thy ===== *)
theory Commands
  imports Prelude
begin

text \<open>
  The command grammar of \<open>server/src/utils/parse-command.ts\<close> (the legacy mention, the slash
  commands and the feedback command) and the permission checks in front of them:
  \<open>server/src/utils/feedback-authz.ts\<close> for GitHub and \<open>platform-codecommit/src/authz.ts\<close>.
  The GitHub permission endpoint is a parameter.
\<close>

section \<open>The legacy mention\<close>

definition COMMAND_PREFIX :: string where "COMMAND_PREFIX = ''@review-agent''"

definition isLowerAZ :: "char \<Rightarrow> bool" where
  "isLowerAZ c = (let n = of_char c :: nat in 97 \<le> n \<and> n \<le> 122)"

definition parseCommand :: "string \<Rightarrow> string option" where
  "parseCommand commentBody =
     (let lower = toLowerCase commentBody in
      case indexOf lower COMMAND_PREFIX of
        None \<Rightarrow> None
      | Some idx \<Rightarrow>
          (let word = hd (splitSpaces (trim (drop (idx + length COMMAND_PREFIX) lower))) in
           if word = [] then None else Some (filter isLowerAZ word)))"

section \<open>Slash commands\<close>

datatype SlashCommand = SlashReview "string option" | SlashSkip | SlashResume

definition SLASH_COMMANDS :: "string list" where
  "SLASH_COMMANDS = [''review'', ''skip'', ''resume'']"

text \<open>The four characters \<open>parseSlashCommand\<close> takes for white space before the slash.\<close>

definition slashBoundary :: "char \<Rightarrow> bool" where
  "slashBoundary c = (c = CHR '' '' \<or> c = CHR 0x09 \<or> c = LF \<or> c = CR)"

text \<open>The test of the optional argument: one of slash, star, dot and question mark.\<close>

definition looksLikePath :: "string \<Rightarrow> bool" where
  "looksLikePath s = (\<exists>c \<in> set s. c \<in> set ''/*.?'')"

definition slashCommandAt :: "string list \<Rightarrow> SlashCommand option" where
  "slashCommandAt tokens =
     (let cmd = hd tokens in
      if cmd \<notin> set SLASH_COMMANDS then None
      else if cmd = ''skip'' then Some SlashSkip
      else if cmd = ''resume'' then Some SlashResume
      else (case tl tokens of
              pathArg # _ \<Rightarrow> if pathArg \<noteq> [] \<and> looksLikePath pathArg then Some (SlashReview (Some pathArg))
                             else Some (SlashReview None)
            | [] \<Rightarrow> Some (SlashReview None)))"

text \<open>The \<open>while\<close> loop of \<open>parseSlashCommand\<close> from index \<open>searchFrom\<close> on.\<close>

function slashFrom :: "string \<Rightarrow> nat \<Rightarrow> SlashCommand option" where
  "slashFrom lower searchFrom =
     (if length lower \<le> searchFrom then None
      else (case indexOf (drop searchFrom lower) ''/'' of
              None \<Rightarrow> None
            | Some off \<Rightarrow>
                (let slashIdx = searchFrom + off in
                 if 0 < slashIdx \<and> \<not> slashBoundary (lower ! (slashIdx - 1)) then slashFrom lower (slashIdx + 1)
                 else (case slashCommandAt (splitSpaces (drop (slashIdx + 1) lower)) of
                         None \<Rightarrow> slashFrom lower (slashIdx + 1)
                       | Some cmd \<Rightarrow> Some cmd))))"
  by pat_completeness auto
termination
  by (relation "measure (\<lambda>(lower, searchFrom). length lower - searchFrom)") auto

declare slashFrom.simps [simp del]

definition parseSlashCommand :: "string \<Rightarrow> SlashCommand option" where
  "parseSlashCommand commentBody = slashFrom (toLowerCase commentBody) 0"

section \<open>The feedback command\<close>

datatype FeedbackKind = ThumbsUp | ThumbsDown | Dismissed

record FeedbackCommand =
  fc_kind :: FeedbackKind
  fc_fpPrefix :: "string option"

definition FEEDBACK_COMMAND_PREFIX :: string where "FEEDBACK_COMMAND_PREFIX = ''/feedback''"

definition MIN_FP_PREFIX_HEX_CHARS :: nat where "MIN_FP_PREFIX_HEX_CHARS = 8"

definition isFpHexC :: "char \<Rightarrow> bool" where
  "isFpHexC c = (let n = of_char c :: nat in (48 \<le> n \<and> n \<le> 57) \<or> (97 \<le> n \<and> n \<le> 102))"

definition isValidFpPrefix :: "string \<Rightarrow> bool" where
  "isValidFpPrefix s = (MIN_FP_PREFIX_HEX_CHARS \<le> length s \<and> list_all isFpHexC s)"

definition isCommandWordC :: "char \<Rightarrow> bool" where
  "isCommandWordC c = (let n = of_char c :: nat in (97 \<le> n \<and> n \<le> 122) \<or> (48 \<le> n \<and> n \<le> 57) \<or> n = 95)"

text \<open>The branches \<open>accept\<close> and \<open>reject\<close>, which differ in the kind only.\<close>

definition feedbackWithArg :: "FeedbackKind \<Rightarrow> string list \<Rightarrow> FeedbackCommand option" where
  "feedbackWithArg kind args =
     (case args of
        [] \<Rightarrow> Some \<lparr>fc_kind = kind, fc_fpPrefix = None\<rparr>
      | arg # _ \<Rightarrow> if isValidFpPrefix arg then Some \<lparr>fc_kind = kind, fc_fpPrefix = Some arg\<rparr> else None)"

definition feedbackTail :: "string \<Rightarrow> FeedbackCommand option" where
  "feedbackTail after =
     (if after = [] then None
      else (let tokens = splitSpaces after; sb = hd tokens; args = tl tokens in
        if sb = [] then None
        else if sb = ''accept'' then feedbackWithArg ThumbsUp args
        else if sb = ''reject'' then feedbackWithArg ThumbsDown args
        else if sb = ''dismiss'' then Some \<lparr>fc_kind = Dismissed, fc_fpPrefix = None\<rparr>
        else None))"

definition parseFeedbackCommand :: "string \<Rightarrow> FeedbackCommand option" where
  "parseFeedbackCommand commentBody =
     (let lower = toLowerCase commentBody in
      case indexOf lower FEEDBACK_COMMAND_PREFIX of
        None \<Rightarrow> None
      | Some idx \<Rightarrow>
          if 0 < idx \<and> isCommandWordC (lower ! (idx - 1)) then None
          else feedbackTail (trim (drop (idx + length FEEDBACK_COMMAND_PREFIX) lower)))"

section \<open>Who may issue a command\<close>

datatype FeedbackAuthzResult = Allowed | Denied string

definition is_allowed :: "FeedbackAuthzResult \<Rightarrow> bool" where
  "is_allowed r = (r = Allowed)"

definition GITHUB_WRITE_PERMISSIONS :: "string list" where
  "GITHUB_WRITE_PERMISSIONS = [''admin'', ''maintain'', ''write'']"

text \<open>
  \<open>getPermission\<close> is \<open>getCollaboratorPermissionLevel\<close>: it throws, or answers with the
  permission field, which may be missing.
\<close>

definition checkGithubFeedbackAuthz :: "(string \<Rightarrow> string \<Rightarrow> string \<Rightarrow> string option result) \<Rightarrow> string \<Rightarrow> string \<Rightarrow> string \<Rightarrow> FeedbackAuthzResult" where
  "checkGithubFeedbackAuthz getPermission owner repo username =
     (if username = [] then Denied ''missing username on webhook payload''
      else (case getPermission owner repo username of
              Inl msg \<Rightarrow> Denied (''getCollaboratorPermissionLevel threw: '' @ msg)
            | Inr None \<Rightarrow> Denied ''getCollaboratorPermissionLevel returned no permission''
            | Inr (Some permission) \<Rightarrow>
                if permission \<in> set GITHUB_WRITE_PERMISSIONS then Allowed
                else Denied (''permission '' @ quoted permission @ '' is below write'')))"

text \<open>\<open>parseAllowlist\<close>: a comma-separated list, entries trimmed, empty ones dropped.\<close>

definition parseAllowlist :: "string option \<Rightarrow> string list" where
  "parseAllowlist raw =
     (case raw of
        None \<Rightarrow> []
      | Some csv \<Rightarrow> if csv = [] then [] else filter (\<lambda>s. s \<noteq> []) (map trim (splitOn (CHR '','') csv)))"

text \<open>\<open>env\<close> is the variable \<open>REVIEW_AGENT_FEEDBACK_ALLOWLIST\<close> of the process.\<close>

definition checkCodeCommitFeedbackAuthz :: "string option \<Rightarrow> string option \<Rightarrow> string \<Rightarrow> FeedbackAuthzResult" where
  "checkCodeCommitFeedbackAuthz env allowlistEnv principalId =
     (let raw = (case allowlistEnv of Some csv \<Rightarrow> Some csv | None \<Rightarrow> env);
          allowlist = parseAllowlist raw in
      if allowlist = [] then Denied ''REVIEW_AGENT_FEEDBACK_ALLOWLIST is unset; CodeCommit /feedback fail-closed''
      else if principalId = [] then Denied ''missing principalId on CodeCommit feedback event''
      else if principalId \<in> set allowlist then Allowed
      else Denied (''principal '' @ quoted principalId @ '' is not on REVIEW_AGENT_FEEDBACK_ALLOWLIST''))"

section \<open>Reference reading of the slash grammar\<close>

text \<open>What stands at index \<open>i\<close>: a slash at a boundary followed by a command word.\<close>

definition slashAt :: "string \<Rightarrow> nat \<Rightarrow> SlashCommand option" where
  "slashAt lower i =
     (if lower ! i = CHR ''/'' \<and> (i = 0 \<or> slashBoundary (lower ! (i - 1)))
      then slashCommandAt (splitSpaces (drop (i + 1) lower)) else None)"

fun firstSome :: "'a option list \<Rightarrow> 'a option" where
  "firstSome [] = None"
| "firstSome (None # xs) = firstSome xs"
| "firstSome (Some x # xs) = Some x"

lemma firstSome_append: "firstSome (xs @ ys) = (case firstSome xs of None \<Rightarrow> firstSome ys | Some x \<Rightarrow> Some x)"
  by (induction xs rule: firstSome.induct) auto

lemma firstSome_None: "firstSome xs = None \<longleftrightarrow> (\<forall>x \<in> set xs. x = None)"
  by (induction xs rule: firstSome.induct) auto

lemma firstSome_Cons: "firstSome (x # xs) = (case x of None \<Rightarrow> firstSome xs | Some y \<Rightarrow> Some y)"
  by (cases x) auto

lemma indexOf_char_before: "indexOf s [c] = Some off \<Longrightarrow> j < off \<Longrightarrow> s ! j \<noteq> c"
proof (induction s arbitrary: off j)
  case (Cons d s)
  show ?case
  proof (cases "d = c")
    case False
    then obtain o' where "indexOf s [c] = Some o'" "off = Suc o'" using Cons.prems by auto
    then show ?thesis using Cons False by (cases j) auto
  qed (use Cons in simp)
qed simp

lemma indexOf_char_at: "indexOf s [c] = Some off \<Longrightarrow> off < length s \<and> s ! off = c"
  by (induction s arbitrary: off) (auto split: if_splits)

lemma slashFrom_first: "slashFrom lower k = firstSome (map (slashAt lower) [k..<length lower])"
proof (induction lower k rule: slashFrom.induct)
  case (1 lower k)
  show ?case
  proof (cases "indexOf (drop k lower) ''/''")
    case None
    have "slashAt lower i = None" if "i \<in> set [k..<length lower]" for i
    proof -
      have "CHR ''/'' \<notin> set (drop k lower)" using None by (simp add: indexOf_None)
      moreover have "lower ! i \<in> set (drop k lower)" using that
        by (auto simp: in_set_conv_nth intro!: exI [of _ "i - k"])
      ultimately show ?thesis by (auto simp: slashAt_def)
    qed
    then have "firstSome (map (slashAt lower) [k..<length lower]) = None" by (simp add: firstSome_None)
    then show ?thesis using None by (simp add: slashFrom.simps [of lower k])
  next
    case (Some off)
    define i where "i = k + off"
    have "off < length (drop k lower)" using indexOf_char_at [OF Some] by blast
    then have kl: "k \<le> length lower" by simp
    have i: "i < length lower" "lower ! i = CHR ''/''" "k \<le> i"
      using indexOf_char_at [OF Some] kl by (auto simp: i_def nth_drop)
    have "slashAt lower j = None" if "j \<in> set [k..<i]" for j
    proof -
      have "drop k lower ! (j - k) \<noteq> CHR ''/''"
        using that by (intro indexOf_char_before [OF Some]) (auto simp: i_def)
      then show ?thesis using that i by (simp add: slashAt_def)
    qed
    then have before: "firstSome (map (slashAt lower) [k..<i]) = None" by (simp add: firstSome_None)
    have "[k..<length lower] = [k..<i] @ i # [Suc i..<length lower]"
      using i by (metis less_imp_le_nat upt_add_eq_append upt_conv_Cons le_add_diff_inverse)
    then have all: "firstSome (map (slashAt lower) [k..<length lower]) =
        (case slashAt lower i of None \<Rightarrow> firstSome (map (slashAt lower) [Suc i..<length lower]) | Some x \<Rightarrow> Some x)"
      using before by (simp add: firstSome_append firstSome_Cons)
    have k: "\<not> length lower \<le> k" using i by simp
    show ?thesis
    proof (cases "0 < i \<and> \<not> slashBoundary (lower ! (i - 1))")
      case True
      then have "slashAt lower i = None" by (auto simp: slashAt_def)
      then show ?thesis using 1(1) [OF k Some i_def True] Some True k all
        by (simp add: slashFrom.simps [of lower k] Let_def flip: i_def)
    next
      case False
      then have "slashAt lower i = slashCommandAt (splitSpaces (drop (i + 1) lower))"
        using i by (auto simp: slashAt_def)
      then show ?thesis using 1(2) [OF k Some i_def False] Some False k all
        by (auto simp: slashFrom.simps [of lower k] Let_def split: option.splits simp flip: i_def)
    qed
  qed
qed

text \<open>The slash-command parser terminates and answers with the command of the first index at
  which a slash stands at the start or after a blank, tab or line break and is followed by a
  command word; it answers null when no index has one.\<close>

theorem parse_slash_first:
  "parseSlashCommand body =
     firstSome (map (slashAt (toLowerCase body)) [0..<length body])"
  by (simp add: parseSlashCommand_def slashFrom_first toLowerCase_def)

text \<open>A feedback command whose argument is no fingerprint is ignored.\<close>

lemma feedback_example:
  "parseFeedbackCommand ''/feedback reject it'' = None \<and> toLowerCase ''/feedback reject it'' = ''/feedback reject it'' \<and>
   indexOf ''/feedback reject it'' FEEDBACK_COMMAND_PREFIX = Some 0 \<and>
   hd (splitSpaces (trim (drop (length FEEDBACK_COMMAND_PREFIX) ''/feedback reject it''))) = ''reject''"
  by code_simp

end
