(* ===== verification/Feedback.thy ===== *)
theory Feedback
  imports Gitleaks StateMirror Commands SystemPrompt
begin

text \<open>
  The memory of human feedback: the table \<open>review_history\<close> with the statements of
  \<open>db/src/review-history.ts\<close>, the kinds of \<open>core/src/feedback.ts\<close>, and the writer of
  \<open>runner/src/feedback-writer.ts\<close>, which redacts, limits the writes of a job and turns repeated
  rejections into suppression rules.  A statement runs at the clock of the database
  (\<open>dbNow\<close>), which fills the default columns; a reader passes the clock of the process.
\<close>

section \<open>\<open>review_history\<close>\<close>

record ReviewHistoryRow =
  rh_id :: int
  rh_installationId :: int
  rh_repo :: string
  rh_factType :: FactType
  rh_factText :: string
  rh_createdAt :: Date
  rh_expiresAt :: Date

text \<open>The table with the next value of its \<open>bigserial\<close>.\<close>

record ReviewHistory =
  ht_nextId :: int
  ht_rows :: "ReviewHistoryRow list"

definition HISTORY_TTL_MS :: int where "HISTORY_TTL_MS = 180 * 24 * 60 * 60 * 1000"

record HistoryInput =
  hi_installationId :: int
  hi_repo :: string
  hi_factType :: FactType
  hi_factText :: string

definition createReviewHistoryWriter :: "Date \<Rightarrow> HistoryInput \<Rightarrow> ReviewHistory \<Rightarrow> ReviewHistory" where
  "createReviewHistoryWriter dbNow inp t =
     t\<lparr>ht_nextId := ht_nextId t + 1,
       ht_rows := ht_rows t @
         [\<lparr>rh_id = ht_nextId t, rh_installationId = hi_installationId inp, rh_repo = hi_repo inp,
           rh_factType = hi_factType inp, rh_factText = hi_factText inp, rh_createdAt = dbNow,
           rh_expiresAt = dbNow + HISTORY_TTL_MS\<rparr>]\<rparr>"

text \<open>\<open>order by created_at desc\<close>; the order of rows with the same time is that of the table.\<close>

definition newestFirst :: "ReviewHistoryRow list \<Rightarrow> ReviewHistoryRow list" where
  "newestFirst rows = sort_key (\<lambda>r. - rh_createdAt r) rows"

definition loadRecentReviewHistory :: "int \<Rightarrow> string \<Rightarrow> nat option \<Rightarrow> Date \<Rightarrow> ReviewHistory \<Rightarrow> (FactType \<times> string \<times> Date) list" where
  "loadRecentReviewHistory installationId repo limit now t =
     map (\<lambda>r. (rh_factType r, rh_factText r, rh_createdAt r))
       (take (case limit of None \<Rightarrow> 50 | Some n \<Rightarrow> n)
         (newestFirst (filter (\<lambda>r. rh_installationId r = installationId \<and> rh_repo r = repo \<and> now < rh_expiresAt r) (ht_rows t))))"

definition pruneExpiredReviewHistory :: "Date \<Rightarrow> ReviewHistory \<Rightarrow> nat \<times> ReviewHistory" where
  "pruneExpiredReviewHistory now t =
     (length (filter (\<lambda>r. rh_expiresAt r < now) (ht_rows t)),
      t\<lparr>ht_rows := deleteWhere (\<lambda>r. rh_expiresAt r < now) (ht_rows t)\<rparr>)"

text \<open>
  SQL \<open>LIKE\<close>: a percent sign stands for any text, an underscore for any character, a
  backslash quotes the character after it.
\<close>

fun sqlLike :: "string \<Rightarrow> string \<Rightarrow> bool" where
  "sqlLike [] t = (t = [])"
| "sqlLike (c # ps) t =
     (if c = CHR ''%'' then list_ex (\<lambda>i. sqlLike ps (drop i t)) [0..<Suc (length t)]
      else if c = CHR ''_'' then t \<noteq> [] \<and> sqlLike ps (tl t)
      else if c = CHR 0x5C then (case ps of [] \<Rightarrow> False | d # qs \<Rightarrow> t \<noteq> [] \<and> hd t = d \<and> sqlLike qs (tl t))
      else t \<noteq> [] \<and> hd t = c \<and> sqlLike ps (tl t))"

definition fpTag :: "string \<Rightarrow> string" where
  "fpTag fingerprint = ''[fp:'' @ fingerprint @ '']''"

definition countRejectionsByFingerprint :: "int \<Rightarrow> string \<Rightarrow> string \<Rightarrow> Date \<Rightarrow> ReviewHistory \<Rightarrow> nat" where
  "countRejectionsByFingerprint installationId repo fingerprint now t =
     length (filter (\<lambda>r. rh_installationId r = installationId \<and> rh_repo r = repo \<and> rh_factType r = RejectedFinding \<and>
         now < rh_expiresAt r \<and> sqlLike (fpTag fingerprint @ ''%'') (rh_factText r)) (ht_rows t))"

definition createSuppressionRule :: "Date \<Rightarrow> int \<Rightarrow> string \<Rightarrow> string \<Rightarrow> string \<Rightarrow> ReviewHistory \<Rightarrow> int \<times> ReviewHistory" where
  "createSuppressionRule dbNow installationId repo fingerprint reason t =
     (ht_nextId t,
      createReviewHistoryWriter dbNow
        \<lparr>hi_installationId = installationId, hi_repo = repo, hi_factType = SuppressionRule,
         hi_factText = fpTag fingerprint @ '' '' @ reason\<rparr> t)"

definition loadActiveSuppressionRules :: "int \<Rightarrow> string \<Rightarrow> Date \<Rightarrow> ReviewHistory \<Rightarrow> ReviewHistoryRow list" where
  "loadActiveSuppressionRules installationId repo now t =
     newestFirst (filter (\<lambda>r. rh_installationId r = installationId \<and> rh_repo r = repo \<and>
       rh_factType r = SuppressionRule \<and> now < rh_expiresAt r) (ht_rows t))"

definition deleteSuppressionRule :: "int \<Rightarrow> int \<Rightarrow> string \<Rightarrow> ReviewHistory \<Rightarrow> bool \<times> ReviewHistory" where
  "deleteSuppressionRule rowId installationId repo t =
     (let P = (\<lambda>r. rh_id r = rowId \<and> rh_installationId r = installationId \<and> rh_repo r = repo \<and> rh_factType r = SuppressionRule)
      in (filter P (ht_rows t) \<noteq> [], t\<lparr>ht_rows := deleteWhere P (ht_rows t)\<rparr>))"

section \<open>\<open>core/src/feedback.ts\<close> and \<open>core/src/regex.ts\<close>\<close>

record FeedbackEvent =
  fe_installationId :: int
  fe_repo :: string
  fe_prNumber :: int
  fe_fingerprint :: string
  fe_kind :: FeedbackKind
  fe_factText :: string
  fe_occurredAt :: Date

definition feedbackKindToFactType :: "FeedbackKind \<Rightarrow> FactType" where
  "feedbackKindToFactType kind = (if kind = ThumbsUp then AcceptedPattern else RejectedFinding)"

definition isValidRegex :: "(string \<Rightarrow> rx option) \<Rightarrow> string \<Rightarrow> bool" where
  "isValidRegex newRegExp pattern = (pattern \<noteq> [] \<and> \<not> includesStr pattern [NUL] \<and> newRegExp pattern \<noteq> None)"

section \<open>The writer\<close>

text \<open>
  \<open>'db\<close> is the store behind the writer; every operation on it may fail.  The two hooks of the
  options become entries of \<open>fw_effects\<close>.
\<close>

record 'db SuppressionOpts =
  so_suppressAfter :: nat
  so_rejectionCounter :: "int \<Rightarrow> string \<Rightarrow> string \<Rightarrow> 'db \<Rightarrow> nat result"
  so_suppressionLoader :: "int \<Rightarrow> string \<Rightarrow> 'db \<Rightarrow> string list result"
  so_suppressionWriter :: "int \<Rightarrow> string \<Rightarrow> string \<Rightarrow> string \<Rightarrow> 'db \<Rightarrow> 'db result"

datatype MaxWrites = Limit nat | Unlimited

record 'db FeedbackWriterOptions =
  fo_writer :: "HistoryInput \<Rightarrow> 'db \<Rightarrow> 'db result"
  fo_newRegExp :: "string \<Rightarrow> rx option"
  fo_redactPatterns :: "string list option"
  fo_maxWritesPerJob :: "MaxWrites option"
  fo_suppressionOpts :: "'db SuppressionOpts option"

datatype FeedbackEffect = RateLimitHook FeedbackEvent | SuppressionRuleCreated string

record 'db FeedbackWriter =
  fw_count :: nat
  fw_db :: 'db
  fw_effects :: "FeedbackEffect list"

definition DEFAULT_MAX_WRITES_PER_JOB :: nat where "DEFAULT_MAX_WRITES_PER_JOB = 10"

definition limitReached :: "'db FeedbackWriterOptions \<Rightarrow> nat \<Rightarrow> bool" where
  "limitReached opts n =
     (case (case fo_maxWritesPerJob opts of None \<Rightarrow> Limit DEFAULT_MAX_WRITES_PER_JOB | Some m \<Rightarrow> m) of
        Unlimited \<Rightarrow> False | Limit mx \<Rightarrow> mx \<le> n)"

definition storedFact :: "'db FeedbackWriterOptions \<Rightarrow> FeedbackEvent \<Rightarrow> string" where
  "storedFact opts event =
     (let patterns = filter (isValidRegex (fo_newRegExp opts)) (case fo_redactPatterns opts of None \<Rightarrow> [] | Some ps \<Rightarrow> ps);
          findings = quickScanContent (fo_newRegExp opts) (fe_factText event) patterns;
          redacted = (if findings = [] then fe_factText event else applyRedactions (fe_factText event) findings)
      in fpTag (fe_fingerprint event) @ '' '' @ redacted)"

text \<open>\<open>maybeCreateSuppressionRule\<close>: every failure is swallowed.\<close>

definition suppressionReason :: "nat \<Rightarrow> nat \<Rightarrow> string" where
  "suppressionReason count threshold =
     ''Auto-suppressed after '' @ digitsOf count @ '' rejection(s) (threshold: '' @ digitsOf threshold @ '')''"

definition maybeCreateSuppressionRule :: "FeedbackEvent \<Rightarrow> 'db SuppressionOpts \<Rightarrow> 'db FeedbackWriter \<Rightarrow> 'db FeedbackWriter" where
  "maybeCreateSuppressionRule event so st =
     (case so_rejectionCounter so (fe_installationId event) (fe_repo event) (fe_fingerprint event) (fw_db st) of
        Inl _ \<Rightarrow> st
      | Inr count \<Rightarrow>
          if count < so_suppressAfter so then st
          else (case so_suppressionLoader so (fe_installationId event) (fe_repo event) (fw_db st) of
                  Inl _ \<Rightarrow> st
                | Inr existing \<Rightarrow>
                    if list_ex (\<lambda>f. startsWith f (fpTag (fe_fingerprint event))) existing then st
                    else (case so_suppressionWriter so (fe_installationId event) (fe_repo event) (fe_fingerprint event)
                                 (suppressionReason count (so_suppressAfter so)) (fw_db st) of
                            Inl _ \<Rightarrow> st
                          | Inr db \<Rightarrow> st\<lparr>fw_db := db, fw_effects := fw_effects st @ [SuppressionRuleCreated (fe_repo event)]\<rparr>)))"

text \<open>\<open>record\<close> of a writer; the result is \<open>dropped\<close>.\<close>

definition recordFeedback :: "'db FeedbackWriterOptions \<Rightarrow> FeedbackEvent \<Rightarrow> 'db FeedbackWriter \<Rightarrow> bool result \<times> 'db FeedbackWriter" where
  "recordFeedback opts event st =
     (if limitReached opts (fw_count st) then (Inr True, st\<lparr>fw_effects := fw_effects st @ [RateLimitHook event]\<rparr>)
      else let st = st\<lparr>fw_count := fw_count st + 1\<rparr>; factType = feedbackKindToFactType (fe_kind event) in
        case fo_writer opts \<lparr>hi_installationId = fe_installationId event, hi_repo = fe_repo event,
               hi_factType = factType, hi_factText = storedFact opts event\<rparr> (fw_db st) of
          Inl e \<Rightarrow> (Inl e, st)
        | Inr db \<Rightarrow>
            (Inr False,
             case fo_suppressionOpts opts of
               Some so \<Rightarrow> if factType = RejectedFinding then maybeCreateSuppressionRule event so (st\<lparr>fw_db := db\<rparr>)
                          else st\<lparr>fw_db := db\<rparr>
             | None \<Rightarrow> st\<lparr>fw_db := db\<rparr>))"

text \<open>A writer over the four operations of a store that do not fail, at the clock \<open>now\<close>.\<close>

definition wiredOptions :: "(Date \<Rightarrow> HistoryInput \<Rightarrow> 'db \<Rightarrow> 'db) \<Rightarrow> (Date \<Rightarrow> int \<Rightarrow> string \<Rightarrow> string \<Rightarrow> 'db \<Rightarrow> nat) \<Rightarrow>
    (Date \<Rightarrow> int \<Rightarrow> string \<Rightarrow> 'db \<Rightarrow> string list) \<Rightarrow> (Date \<Rightarrow> int \<Rightarrow> string \<Rightarrow> string \<Rightarrow> string \<Rightarrow> 'db \<Rightarrow> 'db) \<Rightarrow>
    (string \<Rightarrow> rx option) \<Rightarrow> string list option \<Rightarrow> MaxWrites option \<Rightarrow> nat \<Rightarrow> Date \<Rightarrow> 'db FeedbackWriterOptions" where
  "wiredOptions put count mutes mute newRegExp patterns mx suppressAfter now =
     \<lparr>fo_writer = (\<lambda>inp t. Inr (put now inp t)), fo_newRegExp = newRegExp, fo_redactPatterns = patterns,
      fo_maxWritesPerJob = mx,
      fo_suppressionOpts = Some
        \<lparr>so_suppressAfter = suppressAfter,
         so_rejectionCounter = (\<lambda>inst repo fp t. Inr (count now inst repo fp t)),
         so_suppressionLoader = (\<lambda>inst repo t. Inr (mutes now inst repo t)),
         so_suppressionWriter = (\<lambda>inst repo fp reason t. Inr (mute now inst repo fp reason t))\<rparr>\<rparr>"

definition historyOptions :: "(string \<Rightarrow> rx option) \<Rightarrow> string list option \<Rightarrow> MaxWrites option \<Rightarrow> nat \<Rightarrow> Date \<Rightarrow>
    ReviewHistory FeedbackWriterOptions" where
  "historyOptions =
     wiredOptions createReviewHistoryWriter
       (\<lambda>now inst repo fp t. countRejectionsByFingerprint inst repo fp now t)
       (\<lambda>now inst repo t. map rh_factText (loadActiveSuppressionRules inst repo now t))
       (\<lambda>now inst repo fp reason t. snd (createSuppressionRule now inst repo fp reason t))"

text \<open>The events of a job, each at its time.\<close>

fun runFeedback :: "(Date \<Rightarrow> 'db FeedbackWriterOptions) \<Rightarrow> (Date \<times> FeedbackEvent) list \<Rightarrow> 'db FeedbackWriter \<Rightarrow> 'db FeedbackWriter" where
  "runFeedback opts [] st = st"
| "runFeedback opts ((now, event) # evs) st = runFeedback opts evs (snd (recordFeedback (opts now) event st))"

definition newWriter :: "'db \<Rightarrow> 'db FeedbackWriter" where
  "newWriter db = \<lparr>fw_count = 0, fw_db = db, fw_effects = []\<rparr>"

definition emptyHistory :: ReviewHistory where "emptyHistory = \<lparr>ht_nextId = 1, ht_rows = []\<rparr>"

text \<open>How many of the events the job may still write.\<close>

definition allowance :: "MaxWrites option \<Rightarrow> nat \<Rightarrow> 'e list \<Rightarrow> nat" where
  "allowance mx n evs =
     (case (case mx of None \<Rightarrow> Limit DEFAULT_MAX_WRITES_PER_JOB | Some m \<Rightarrow> m) of Unlimited \<Rightarrow> length evs | Limit k \<Rightarrow> k - n)"

section \<open>Fingerprint tags\<close>

definition okFp :: "string \<Rightarrow> bool" where "okFp fp = list_all isFpHexC fp"

lemma okFp_chars: "okFp fp \<Longrightarrow> CHR '']'' \<notin> set fp \<and> CHR ''%'' \<notin> set fp \<and> CHR ''_'' \<notin> set fp \<and> CHR 0x5C \<notin> set fp"
  by (auto simp: okFp_def list_all_iff isFpHexC_def)

lemma fpTag_prefix: "okFp f \<Longrightarrow> okFp g \<Longrightarrow> startsWith (fpTag g @ rest) (fpTag f) \<longleftrightarrow> f = g"
  using okFp_chars [of f] okFp_chars [of g]
  by (auto simp: startsWith_iff_append fpTag_def dest: split_at_unique [of "CHR '']''" g f])

lemma sqlLike_plain:
  "CHR ''%'' \<notin> set p \<Longrightarrow> CHR ''_'' \<notin> set p \<Longrightarrow> CHR 0x5C \<notin> set p \<Longrightarrow> sqlLike (p @ ''%'') t \<longleftrightarrow> startsWith t p"
proof (induction p arbitrary: t)
  case Nil
  have "list_ex (\<lambda>i. drop i t = []) [0..<Suc (length t)]"
    by (auto simp: list_ex_iff)
  then show ?case by simp
next
  case (Cons c p)
  then show ?case by (cases t) auto
qed

lemma sqlLike_fpTag: "okFp fp \<Longrightarrow> sqlLike (fpTag fp @ ''%'') t \<longleftrightarrow> startsWith t (fpTag fp)"
  using okFp_chars [of fp] by (intro sqlLike_plain) (auto simp: fpTag_def)

section \<open>What a store of feedback promises\<close>

type_synonym FindingKey = "int \<times> string \<times> string"

definition rejects :: "FindingKey \<Rightarrow> FeedbackEvent \<Rightarrow> bool" where
  "rejects k event = (feedbackKindToFactType (fe_kind event) = RejectedFinding \<and>
     k = (fe_installationId event, fe_repo event, fe_fingerprint event))"

text \<open>
  \<open>hits\<close> and \<open>rules\<close> count the rejections of a finding and the rules that mute it;
  \<open>alive\<close> and \<open>during\<close> bound the time in which no row expires.
\<close>

locale feedback_store =
  fixes put :: "Date \<Rightarrow> HistoryInput \<Rightarrow> 'db \<Rightarrow> 'db"
    and count :: "Date \<Rightarrow> int \<Rightarrow> string \<Rightarrow> string \<Rightarrow> 'db \<Rightarrow> nat"
    and mutes :: "Date \<Rightarrow> int \<Rightarrow> string \<Rightarrow> 'db \<Rightarrow> string list"
    and mute :: "Date \<Rightarrow> int \<Rightarrow> string \<Rightarrow> string \<Rightarrow> string \<Rightarrow> 'db \<Rightarrow> 'db"
    and during :: "Date \<Rightarrow> bool" and alive :: "'db \<Rightarrow> bool"
    and hits :: "FindingKey \<Rightarrow> 'db \<Rightarrow> nat" and rules :: "FindingKey \<Rightarrow> 'db \<Rightarrow> nat"
  assumes put_alive: "during now \<Longrightarrow> alive db \<Longrightarrow> alive (put now inp db)"
    and put_hits: "hits (i, r, f) (put now inp db) = hits (i, r, f) db +
        (if hi_installationId inp = i \<and> hi_repo inp = r \<and> hi_factType inp = RejectedFinding \<and> startsWith (hi_factText inp) (fpTag f)
         then 1 else 0)"
    and put_rules: "hi_factType inp \<noteq> SuppressionRule \<Longrightarrow> rules k (put now inp db) = rules k db"
    and count_hits: "during now \<Longrightarrow> alive db \<Longrightarrow> okFp f \<Longrightarrow> count now i r f db = hits (i, r, f) db"
    and mutes_rules: "during now \<Longrightarrow> alive db \<Longrightarrow>
        list_ex (\<lambda>x. startsWith x (fpTag f)) (mutes now i r db) \<longleftrightarrow> 0 < rules (i, r, f) db"
    and mute_alive: "during now \<Longrightarrow> alive db \<Longrightarrow> alive (mute now i r f reason db)"
    and mute_hits: "hits k (mute now i r f reason db) = hits k db"
    and mute_rules: "okFp f \<Longrightarrow> okFp g \<Longrightarrow>
        rules (i', r', g) (mute now i r f reason db) = rules (i', r', g) db + (if (i', r', g) = (i, r, f) then 1 else 0)"
begin

definition consistent :: "nat \<Rightarrow> 'db \<Rightarrow> bool" where
  "consistent threshold db = (alive db \<and>
     (\<forall>i r f. okFp f \<longrightarrow> rules (i, r, f) db = (if threshold \<le> hits (i, r, f) db then 1 else 0)))"

lemma suppression_step:
  assumes "during now" "okFp (fe_fingerprint event)" "alive (fw_db st)" "0 < threshold"
    and rejected: "feedbackKindToFactType (fe_kind event) = RejectedFinding"
    and so: "fo_suppressionOpts (wiredOptions put count mutes mute re ps mx threshold now) = Some so"
    and others: "\<And>i r f. okFp f \<Longrightarrow> (i, r, f) \<noteq> (fe_installationId event, fe_repo event, fe_fingerprint event) \<Longrightarrow>
        rules (i, r, f) (fw_db st) = (if threshold \<le> hits (i, r, f) (fw_db st) then 1 else 0)"
    and this_finding: "rules (fe_installationId event, fe_repo event, fe_fingerprint event) (fw_db st) =
        (if threshold < hits (fe_installationId event, fe_repo event, fe_fingerprint event) (fw_db st) then 1 else 0)"
  shows "consistent threshold (fw_db (maybeCreateSuppressionRule event so st)) \<and>
    (\<forall>k. hits k (fw_db (maybeCreateSuppressionRule event so st)) = hits k (fw_db st)) \<and>
    fw_count (maybeCreateSuppressionRule event so st) = fw_count st"
proof -
  let ?k = "(fe_installationId event, fe_repo event, fe_fingerprint event)"
  have opts: "so = \<lparr>so_suppressAfter = threshold,
      so_rejectionCounter = (\<lambda>inst repo fp t. Inr (count now inst repo fp t)),
      so_suppressionLoader = (\<lambda>inst repo t. Inr (mutes now inst repo t)),
      so_suppressionWriter = (\<lambda>inst repo fp reason t. Inr (mute now inst repo fp reason t))\<rparr>"
    using so by (simp add: wiredOptions_def)
  note store = count_hits [OF assms(1,3,2)] mutes_rules [OF assms(1,3)]
  have all: "rules (i, r, f) (fw_db st) =
      (if (i, r, f) = ?k then (if threshold < hits ?k (fw_db st) then 1 else 0)
       else if threshold \<le> hits (i, r, f) (fw_db st) then 1 else 0)" if "okFp f" for i r f
    using others [OF that, of i r] this_finding by auto
  consider "hits ?k (fw_db st) < threshold" | "threshold < hits ?k (fw_db st)" | "hits ?k (fw_db st) = threshold" by linarith
  then show ?thesis
  proof cases
    case 1
    then show ?thesis using assms(3) all
      by (auto simp: maybeCreateSuppressionRule_def opts store consistent_def)
  next
    case 2
    then show ?thesis using assms(3) all this_finding
      by (auto simp: maybeCreateSuppressionRule_def opts store consistent_def)
  next
    case 3
    then show ?thesis using assms(1-3) all this_finding
      by (auto simp: maybeCreateSuppressionRule_def opts store consistent_def mute_alive mute_hits mute_rules)
  qed
qed

abbreviation wired :: "(string \<Rightarrow> rx option) \<Rightarrow> string list option \<Rightarrow> MaxWrites option \<Rightarrow> nat \<Rightarrow> Date \<Rightarrow> 'db FeedbackWriterOptions" where
  "wired \<equiv> wiredOptions put count mutes mute"

lemma record_dropped:
  "limitReached (wired re ps mx threshold now) (fw_count st) \<Longrightarrow>
   fw_db (snd (recordFeedback (wired re ps mx threshold now) event st)) = fw_db st \<and>
   fw_count (snd (recordFeedback (wired re ps mx threshold now) event st)) = fw_count st"
  by (simp add: recordFeedback_def)

lemma put_fact_hits:
  assumes "okFp (fe_fingerprint event)" "okFp f"
  shows "hits (i, r, f) (put now \<lparr>hi_installationId = fe_installationId event, hi_repo = fe_repo event,
           hi_factType = feedbackKindToFactType (fe_kind event), hi_factText = storedFact opts event\<rparr> db) =
         hits (i, r, f) db + (if rejects (i, r, f) event then 1 else 0)"
  using assms by (auto simp: put_hits storedFact_def Let_def fpTag_prefix rejects_def)

lemma record_kept:
  assumes "during now" "okFp (fe_fingerprint event)" "0 < threshold" "consistent threshold (fw_db st)"
    and free: "\<not> limitReached (wired re ps mx threshold now) (fw_count st)"
  shows "consistent threshold (fw_db (snd (recordFeedback (wired re ps mx threshold now) event st))) \<and>
    (\<forall>i r f. okFp f \<longrightarrow> hits (i, r, f) (fw_db (snd (recordFeedback (wired re ps mx threshold now) event st))) =
       hits (i, r, f) (fw_db st) + (if rejects (i, r, f) event then 1 else 0)) \<and>
    fw_count (snd (recordFeedback (wired re ps mx threshold now) event st)) = fw_count st + 1"
proof -
  let ?opts = "wired re ps mx threshold now" and ?ft = "feedbackKindToFactType (fe_kind event)"
  let ?inp = "\<lparr>hi_installationId = fe_installationId event, hi_repo = fe_repo event, hi_factType = ?ft, hi_factText = storedFact ?opts event\<rparr>"
  let ?st = "st\<lparr>fw_count := fw_count st + 1, fw_db := put now ?inp (fw_db st)\<rparr>"
  obtain so where so: "fo_suppressionOpts ?opts = Some so" by (simp add: wiredOptions_def)
  have ft: "?ft \<noteq> SuppressionRule" by (simp add: feedbackKindToFactType_def)
  have alive: "alive (fw_db ?st)" using assms(1,4) by (simp add: consistent_def put_alive)
  have h: "hits (i, r, f) (fw_db ?st) = hits (i, r, f) (fw_db st) + (if rejects (i, r, f) event then 1 else 0)" if "okFp f" for i r f
    by (simp add: put_fact_hits [OF assms(2) that])
  have u: "rules k (fw_db ?st) = rules k (fw_db st)" for k using put_rules [of ?inp] ft by simp
  have rec: "snd (recordFeedback ?opts event st) = (if ?ft = RejectedFinding then maybeCreateSuppressionRule event so ?st else ?st)"
    using free so by (simp add: recordFeedback_def Let_def wiredOptions_def)
  show ?thesis
  proof (cases "?ft = RejectedFinding")
    case True
    let ?k = "(fe_installationId event, fe_repo event, fe_fingerprint event)"
    have step: "consistent threshold (fw_db (maybeCreateSuppressionRule event so ?st)) \<and>
      (\<forall>k. hits k (fw_db (maybeCreateSuppressionRule event so ?st)) = hits k (fw_db ?st)) \<and>
      fw_count (maybeCreateSuppressionRule event so ?st) = fw_count ?st"
    proof (rule suppression_step [OF assms(1,2) alive assms(3) True so])
      show "rules (i, r, f) (fw_db ?st) = (if threshold \<le> hits (i, r, f) (fw_db ?st) then 1 else 0)"
        if "okFp f" "(i, r, f) \<noteq> ?k" for i r f
        using that h [OF that(1), of i r] u [of "(i, r, f)"] assms(4) by (auto simp: consistent_def rejects_def)
      show "rules ?k (fw_db ?st) = (if threshold < hits ?k (fw_db ?st) then 1 else 0)"
        using h [OF assms(2)] u [of ?k] assms(2,4) True by (auto simp: consistent_def rejects_def)
    qed
    then show ?thesis using h True by (simp add: rec)
  next
    case False
    then have "\<not> rejects k event" for k by (simp add: rejects_def)
    then show ?thesis using assms(4) alive h u False by (simp add: rec consistent_def)
  qed
qed

lemma run_consistent:
  assumes "\<forall>(t, e) \<in> set evs. during t \<and> okFp (fe_fingerprint e)" "0 < threshold" "consistent threshold (fw_db st)"
  shows "consistent threshold (fw_db (runFeedback (wired re ps mx threshold) evs st)) \<and>
    (\<forall>i r f. okFp f \<longrightarrow> hits (i, r, f) (fw_db (runFeedback (wired re ps mx threshold) evs st)) =
       hits (i, r, f) (fw_db st) + length (filter (\<lambda>(t, e). rejects (i, r, f) e) (take (allowance mx (fw_count st) evs) evs)))"
  using assms
proof (induction evs arbitrary: st)
  case Nil
  then show ?case by simp
next
  case (Cons te evs)
  obtain now event where te: "te = (now, event)" by force
  let ?opts = "wired re ps mx threshold now"
  let ?st = "snd (recordFeedback ?opts event st)"
  show ?case
  proof (cases "limitReached ?opts (fw_count st)")
    case True
    then have "allowance mx (fw_count st) (te # evs) = 0" "allowance mx (fw_count st) evs = 0"
      by (auto simp: limitReached_def allowance_def wiredOptions_def split: MaxWrites.splits option.splits)
    then show ?thesis using Cons.IH [of ?st] Cons.prems record_dropped [OF True, of event] te by simp
  next
    case False
    have kept: "consistent threshold (fw_db ?st)"
        "\<And>i r f. okFp f \<Longrightarrow> hits (i, r, f) (fw_db ?st) = hits (i, r, f) (fw_db st) + (if rejects (i, r, f) event then 1 else 0)"
        "fw_count ?st = fw_count st + 1"
      using record_kept [OF _ _ Cons.prems(2,3) False, of event] Cons.prems(1) te by auto
    have "allowance mx (fw_count st) (te # evs) = Suc (allowance mx (fw_count st + 1) evs)"
      using False by (auto simp: limitReached_def allowance_def wiredOptions_def split: MaxWrites.splits option.splits)
    then show ?thesis
      using Cons.IH [of ?st] Cons.prems kept te by simp
  qed
qed

end

section \<open>The table keeps the contract\<close>

definition rejectionsOf :: "FindingKey \<Rightarrow> ReviewHistory \<Rightarrow> nat" where
  "rejectionsOf k t = (case k of (i, r, f) \<Rightarrow>
     length (filter (\<lambda>x. rh_installationId x = i \<and> rh_repo x = r \<and> rh_factType x = RejectedFinding \<and>
       startsWith (rh_factText x) (fpTag f)) (ht_rows t)))"

definition rulesFor :: "FindingKey \<Rightarrow> ReviewHistory \<Rightarrow> nat" where
  "rulesFor k t = (case k of (i, r, f) \<Rightarrow>
     length (filter (\<lambda>x. rh_installationId x = i \<and> rh_repo x = r \<and> rh_factType x = SuppressionRule \<and>
       startsWith (rh_factText x) (fpTag f)) (ht_rows t)))"

text \<open>Between \<open>lo\<close> and the end of the life of a row written at \<open>lo\<close>.\<close>

definition withinLife :: "Date \<Rightarrow> Date \<Rightarrow> bool" where
  "withinLife lo now = (lo \<le> now \<and> now < lo + HISTORY_TTL_MS)"

definition bornAfter :: "Date \<Rightarrow> ReviewHistory \<Rightarrow> bool" where
  "bornAfter lo t = list_all (\<lambda>r. lo + HISTORY_TTL_MS \<le> rh_expiresAt r) (ht_rows t)"

lemma bornAfter_unexpired: "withinLife lo now \<Longrightarrow> bornAfter lo t \<Longrightarrow> r \<in> set (ht_rows t) \<Longrightarrow> now < rh_expiresAt r"
  by (fastforce simp: withinLife_def bornAfter_def list_all_iff)

lemma bornAfter_put: "withinLife lo now \<Longrightarrow> bornAfter lo t \<Longrightarrow> bornAfter lo (createReviewHistoryWriter now inp t)"
  by (auto simp: bornAfter_def createReviewHistoryWriter_def withinLife_def)

lemma filter_same: "(\<And>x. x \<in> set xs \<Longrightarrow> P x \<longleftrightarrow> Q x) \<Longrightarrow> filter P xs = filter Q xs"
  by (rule filter_cong) auto

lemma newestFirst_set [simp]: "set (newestFirst rows) = set rows"
  by (simp add: newestFirst_def)

lemma list_ex_filter_pos: "list_ex Q (map f (newestFirst (filter P xs))) \<longleftrightarrow> 0 < length (filter (\<lambda>x. P x \<and> Q (f x)) xs)"
  by (auto simp: list_ex_iff filter_empty_conv)

interpretation history: feedback_store createReviewHistoryWriter
  "\<lambda>now inst repo fp t. countRejectionsByFingerprint inst repo fp now t"
  "\<lambda>now inst repo t. map rh_factText (loadActiveSuppressionRules inst repo now t)"
  "\<lambda>now inst repo fp reason t. snd (createSuppressionRule now inst repo fp reason t)"
  "withinLife lo" "bornAfter lo" rejectionsOf rulesFor for lo
proof unfold_locales
  fix now t i r f
  assume a: "withinLife lo now" "bornAfter lo t"
  note live = bornAfter_unexpired [OF a]
  show "countRejectionsByFingerprint i r f now t = rejectionsOf (i, r, f) t" if "okFp f"
    unfolding countRejectionsByFingerprint_def rejectionsOf_def
    by (auto simp: sqlLike_fpTag [OF that] live intro!: arg_cong [where f = length] filter_same)
  show "list_ex (\<lambda>x. startsWith x (fpTag f)) (map rh_factText (loadActiveSuppressionRules i r now t)) \<longleftrightarrow> 0 < rulesFor (i, r, f) t"
    unfolding loadActiveSuppressionRules_def list_ex_filter_pos rulesFor_def
    by (auto simp: filter_empty_conv live)
qed (auto simp: bornAfter_put createSuppressionRule_def createReviewHistoryWriter_def rejectionsOf_def rulesFor_def fpTag_prefix
    bornAfter_def withinLife_def)

section \<open>Properties\<close>

lemma runFeedback_history:
  assumes "\<forall>(t, e) \<in> set evs. withinLife lo t \<and> okFp (fe_fingerprint e)" "0 < threshold"
  shows "history.consistent lo threshold (fw_db (runFeedback (historyOptions re ps mx threshold) evs (newWriter emptyHistory))) \<and>
    (\<forall>i r f. okFp f \<longrightarrow> rejectionsOf (i, r, f) (fw_db (runFeedback (historyOptions re ps mx threshold) evs (newWriter emptyHistory))) =
       length (filter (\<lambda>(t, e). rejects (i, r, f) e) (take (allowance mx 0 evs) evs)))"
proof -
  have "history.consistent lo threshold emptyHistory" "\<And>k. rejectionsOf k emptyHistory = 0"
    using assms(2) by (auto simp: history.consistent_def emptyHistory_def bornAfter_def rulesFor_def rejectionsOf_def)
  then show ?thesis
    using history.run_consistent [OF assms, where st = "newWriter emptyHistory" and re = re and ps = ps and mx = mx]
    by (simp add: newWriter_def historyOptions_def)
qed

lemma active_rules:
  "withinLife lo now \<Longrightarrow> bornAfter lo t \<Longrightarrow>
   length (filter (\<lambda>x. startsWith (rh_factText x) (fpTag f)) (loadActiveSuppressionRules i r now t)) = rulesFor (i, r, f) t"
  by (auto simp: loadActiveSuppressionRules_def newestFirst_def rulesFor_def filter_sort bornAfter_unexpired
      intro!: arg_cong [where f = length] filter_same)

text \<open>
  C25: a finding is muted exactly after the configured number of rejections.  After any sequence of
  feedback events a job records within the life of a row, a finding of a repository of an
  installation has one active suppression rule if the events that the write limit let through reject
  it at least \<open>suppress_after\<close> times, and none otherwise; never two.
\<close>

theorem suppressed_after_threshold:
  assumes "\<forall>(t, e) \<in> set evs. withinLife lo t \<and> okFp (fe_fingerprint e)" "0 < threshold"
    and "withinLife lo now" "okFp f"
  shows "length (filter (\<lambda>x. startsWith (rh_factText x) (fpTag f))
      (loadActiveSuppressionRules i r now (fw_db (runFeedback (historyOptions re ps mx threshold) evs (newWriter emptyHistory))))) =
    (if threshold \<le> length (filter (\<lambda>(t, e). rejects (i, r, f) e) (take (allowance mx 0 evs) evs)) then 1 else 0)"
proof -
  note run = runFeedback_history [OF assms(1,2), where re = re and ps = ps and mx = mx]
  then have "bornAfter lo (fw_db (runFeedback (historyOptions re ps mx threshold) evs (newWriter emptyHistory)))"
    by (simp add: history.consistent_def)
  from active_rules [OF assms(3) this, of f i r] show ?thesis
    using run assms(4) by (simp add: history.consistent_def)
qed

definition sampleFeedback :: "FeedbackKind \<Rightarrow> FeedbackEvent" where
  "sampleFeedback k = \<lparr>fe_installationId = 1, fe_repo = ''o/r'', fe_prNumber = 7, fe_fingerprint = ''ab12'', fe_kind = k,
     fe_factText = ''no'', fe_occurredAt = 0\<rparr>"

theorem suppressed_after_threshold_witness:
  "length (filter (\<lambda>x. startsWith (rh_factText x) (fpTag ''ab12''))
     (loadActiveSuppressionRules 1 ''o/r'' 5 (fw_db (runFeedback (historyOptions (\<lambda>_. None) None (Some (Limit 3)) 2)
        [(1, sampleFeedback ThumbsDown), (2, sampleFeedback ThumbsUp), (3, sampleFeedback Dismissed), (4, sampleFeedback ThumbsDown)]
        (newWriter emptyHistory))))) = 1"
proof -
  let ?evs = "[(1, sampleFeedback ThumbsDown), (2, sampleFeedback ThumbsUp), (3, sampleFeedback Dismissed), (4, sampleFeedback ThumbsDown)] :: (Date \<times> FeedbackEvent) list"
  have "\<forall>(t, e) \<in> set ?evs. withinLife 0 t \<and> okFp (fe_fingerprint e)"
    by (simp add: withinLife_def HISTORY_TTL_MS_def sampleFeedback_def okFp_def isFpHexC_def)
  from suppressed_after_threshold [OF this, of 2 5 "''ab12''" 1 "''o/r''" "\<lambda>_. None" None "Some (Limit 3)"]
  show ?thesis
    by (simp add: withinLife_def HISTORY_TTL_MS_def okFp_def isFpHexC_def rejects_def sampleFeedback_def
        feedbackKindToFactType_def allowance_def eval_nat_numeral)
qed

end
