(* ===== verification/JobQueue.thy ===== *)
theory JobQueue
  imports StateMirror Retry "HOL-Library.Monad_Syntax"
begin

text \<open>
  The job queue: the message schema of \<open>core/src/queue.ts\<close>, the SQS client of
  \<open>server/src/queue/sqs.ts\<close>, the Lambda consumer of \<open>server/src/lambda-worker.ts\<close> and
  the worker of \<open>server/src/worker.ts\<close>.  The SQS service is a parameter (what a receive
  call returns, whether a send succeeds), as are \<open>JSON.parse\<close>, zod's reading of a date-time
  and the job handler, a function of the job and the state it works on.
\<close>

section \<open>\<open>core/src/queue.ts\<close>\<close>

datatype Platform = Github | Codecommit

record PrRef =
  pr_platform :: Platform
  pr_owner :: string
  pr_repo :: string
  pr_number :: int
  pr_headSha :: "string option"

datatype Trigger = TrigOpened | TrigSynchronize | TrigReopened | TrigReadyForReview | TrigCommand | TrigManual

record JobMessage =
  jm_jobId :: string
  jm_installationId :: string
  jm_prRef :: PrRef
  jm_triggeredBy :: Trigger
  jm_enqueuedAt :: string
  jm_pathScope :: "string list option"

definition lengthWithin :: "nat \<Rightarrow> nat \<Rightarrow> string \<Rightarrow> bool" where
  "lengthWithin lo hi s = (lo \<le> length s \<and> length s \<le> hi)"

definition prRefOk :: "PrRef \<Rightarrow> bool" where
  "prRefOk r =
     ((case pr_platform r of Github \<Rightarrow> lengthWithin 1 200 (pr_owner r) | Codecommit \<Rightarrow> pr_owner r = []) \<and>
      lengthWithin 1 200 (pr_repo r) \<and> 0 < pr_number r \<and>
      (case pr_headSha r of None \<Rightarrow> True | Some h \<Rightarrow> lengthWithin 7 64 h))"

definition jobMessageOk :: "(string \<Rightarrow> bool) \<Rightarrow> JobMessage \<Rightarrow> bool" where
  "jobMessageOk isDatetime m =
     (lengthWithin 1 128 (jm_jobId m) \<and> lengthWithin 1 64 (jm_installationId m) \<and> prRefOk (jm_prRef m) \<and>
      isDatetime (jm_enqueuedAt m) \<and>
      (case jm_pathScope m of None \<Rightarrow> True | Some ps \<Rightarrow> ps \<noteq> [] \<and> (\<forall>p \<in> set ps. p \<noteq> [])))"

fun platformName :: "Platform \<Rightarrow> string" where
  "platformName Github = ''github''"
| "platformName Codecommit = ''codecommit''"

fun triggerName :: "Trigger \<Rightarrow> string" where
  "triggerName TrigOpened = ''pull_request.opened''"
| "triggerName TrigSynchronize = ''pull_request.synchronize''"
| "triggerName TrigReopened = ''pull_request.reopened''"
| "triggerName TrigReadyForReview = ''pull_request.ready_for_review''"
| "triggerName TrigCommand = ''comment.command''"
| "triggerName TrigManual = ''manual''"

definition optMember :: "string \<Rightarrow> ('a \<Rightarrow> json) \<Rightarrow> 'a option \<Rightarrow> (string \<times> json) list" where
  "optMember k f x = (case x of None \<Rightarrow> [] | Some a \<Rightarrow> [(k, f a)])"

text \<open>The value \<open>JSON.stringify\<close> writes for a message.\<close>

definition prRefJson :: "PrRef \<Rightarrow> json" where
  "prRefJson r = JObj ([(''platform'', JStr (platformName (pr_platform r))), (''owner'', JStr (pr_owner r)),
     (''repo'', JStr (pr_repo r)), (''number'', JNum (pr_number r))] @ optMember ''headSha'' JStr (pr_headSha r))"

definition jobMessageJson :: "JobMessage \<Rightarrow> json" where
  "jobMessageJson m = JObj ([(''jobId'', JStr (jm_jobId m)), (''installationId'', JStr (jm_installationId m)),
     (''prRef'', prRefJson (jm_prRef m)), (''triggeredBy'', JStr (triggerName (jm_triggeredBy m))),
     (''enqueuedAt'', JStr (jm_enqueuedAt m))] @ optMember ''pathScope'' (\<lambda>ps. JArr (map JStr ps)) (jm_pathScope m))"

text \<open>\<open>JobMessageSchema.parse\<close>: the members it names, each of its type; others are dropped.\<close>

fun asStr :: "json \<Rightarrow> string option" where
  "asStr (JStr s) = Some s"
| "asStr _ = None"

fun asNum :: "json \<Rightarrow> int option" where
  "asNum (JNum n) = Some n"
| "asNum _ = None"

fun asStrs :: "json \<Rightarrow> string list option" where
  "asStrs (JArr xs) = those (map asStr xs)"
| "asStrs _ = None"

definition optField :: "(json \<Rightarrow> 'a option) \<Rightarrow> json \<Rightarrow> string \<Rightarrow> 'a option option" where
  "optField read j k = (case jsonMember j k of None \<Rightarrow> Some None | Some v \<Rightarrow> map_option Some (read v))"

definition parsePlatform :: "string \<Rightarrow> Platform option" where
  "parsePlatform s = List.find (\<lambda>p. platformName p = s) [Github, Codecommit]"

definition parseTrigger :: "string \<Rightarrow> Trigger option" where
  "parseTrigger s = List.find (\<lambda>t. triggerName t = s)
     [TrigOpened, TrigSynchronize, TrigReopened, TrigReadyForReview, TrigCommand, TrigManual]"

definition parsePrRef :: "json \<Rightarrow> PrRef option" where
  "parsePrRef j = do {
     platform \<leftarrow> jsonMember j ''platform'' \<bind> asStr \<bind> parsePlatform;
     owner \<leftarrow> jsonMember j ''owner'' \<bind> asStr;
     repo \<leftarrow> jsonMember j ''repo'' \<bind> asStr;
     number \<leftarrow> jsonMember j ''number'' \<bind> asNum;
     headSha \<leftarrow> optField asStr j ''headSha'';
     Some \<lparr>pr_platform = platform, pr_owner = owner, pr_repo = repo, pr_number = number, pr_headSha = headSha\<rparr> }"

definition parseJobMessage :: "(string \<Rightarrow> bool) \<Rightarrow> json \<Rightarrow> JobMessage option" where
  "parseJobMessage isDatetime j = do {
     jobId \<leftarrow> jsonMember j ''jobId'' \<bind> asStr;
     installationId \<leftarrow> jsonMember j ''installationId'' \<bind> asStr;
     prRef \<leftarrow> jsonMember j ''prRef'' \<bind> parsePrRef;
     triggeredBy \<leftarrow> jsonMember j ''triggeredBy'' \<bind> asStr \<bind> parseTrigger;
     enqueuedAt \<leftarrow> jsonMember j ''enqueuedAt'' \<bind> asStr;
     pathScope \<leftarrow> optField asStrs j ''pathScope'';
     (let m = \<lparr>jm_jobId = jobId, jm_installationId = installationId, jm_prRef = prRef, jm_triggeredBy = triggeredBy,
               jm_enqueuedAt = enqueuedAt, jm_pathScope = pathScope\<rparr>
      in if jobMessageOk isDatetime m then Some m else None) }"

section \<open>\<open>server/src/queue/sqs.ts\<close>\<close>

record SendMessageInput =
  sm_body :: string
  sm_installationId :: string
  sm_triggeredBy :: string

definition sqsCommand :: "JobMessage \<Rightarrow> SendMessageInput" where
  "sqsCommand m = \<lparr>sm_body = stringify (jobMessageJson m), sm_installationId = jm_installationId m,
     sm_triggeredBy = triggerName (jm_triggeredBy m)\<rparr>"

text \<open>\<open>enqueue\<close> over the messages sent so far; \<open>send\<close> is the service, its answer the message id.\<close>

definition sqsEnqueue :: "(string \<Rightarrow> bool) \<Rightarrow> (SendMessageInput \<Rightarrow> string option result) \<Rightarrow> JobMessage \<Rightarrow> SendMessageInput list \<Rightarrow> string result \<times> SendMessageInput list" where
  "sqsEnqueue isDatetime send m sent =
     (if \<not> jobMessageOk isDatetime m then (Inl ''invalid job message'', sent)
      else (case send (sqsCommand m) of
              Inl e \<Rightarrow> (Inl e, sent)
            | Inr messageId \<Rightarrow> (Inr (case messageId of None \<Rightarrow> [] | Some i \<Rightarrow> i), sent @ [sqsCommand m])))"

record ReceiveInput =
  rq_waitTimeSeconds :: int
  rq_maxMessages :: int
  rq_visibilityTimeout :: int

record DequeueOpts =
  do_waitTimeSeconds :: "int option"
  do_maxMessages :: "int option"
  do_visibilityTimeoutSeconds :: "int option"

record SqsMessage =
  sq_body :: "string option"
  sq_receiptHandle :: "string option"

text \<open>
  What \<open>dequeue\<close> depends on: the answer to each receive call, the stop signal at each of its
  readings, \<open>JSON.parse\<close>, the date-time check, the handler, and the answer to a delete call
  for a receipt, which may depend on when it is made (the number of stop checks so far).
\<close>

record 's DequeueDeps =
  dd_receive :: "nat \<Rightarrow> ReceiveInput \<Rightarrow> SqsMessage list option result"
  dd_aborted :: "nat \<Rightarrow> bool"
  dd_parseJson :: "string \<Rightarrow> json option"
  dd_isDatetime :: "string \<Rightarrow> bool"
  dd_handler :: "JobMessage \<Rightarrow> 's \<Rightarrow> unit result \<times> 's"
  dd_delete :: "nat \<Rightarrow> string \<Rightarrow> unit result"

record 's QueueRun =
  qr_state :: 's
  qr_checks :: nat
  qr_deleted :: "string list"

definition parseBody :: "(string \<Rightarrow> json option) \<Rightarrow> (string \<Rightarrow> bool) \<Rightarrow> string \<Rightarrow> JobMessage option" where
  "parseBody parseJson isDatetime body =
     (case parseJson body of None \<Rightarrow> None | Some j \<Rightarrow> parseJobMessage isDatetime j)"

text \<open>
  The body of the loop over a batch after its stop check.  The handler and the delete call share one
  \<open>try\<close>: an error of either is swallowed.  \<open>qr_deleted\<close> holds the receipts whose delete
  call the queue acknowledged.
\<close>

definition serveMessage :: "'s DequeueDeps \<Rightarrow> SqsMessage \<Rightarrow> 's QueueRun \<Rightarrow> 's QueueRun" where
  "serveMessage d m q =
     (case (sq_body m, sq_receiptHandle m) of
        (Some body, Some receipt) \<Rightarrow>
          if body = [] \<or> receipt = [] then q
          else (case parseBody (dd_parseJson d) (dd_isDatetime d) body of
                  None \<Rightarrow> q
                | Some job \<Rightarrow>
                    (case dd_handler d job (qr_state q) of
                       (Inl _, s) \<Rightarrow> q\<lparr>qr_state := s\<rparr>
                     | (Inr _, s) \<Rightarrow>
                         (case dd_delete d (qr_checks q) receipt of
                            Inl _ \<Rightarrow> q\<lparr>qr_state := s\<rparr>
                          | Inr _ \<Rightarrow> q\<lparr>qr_state := s, qr_deleted := qr_deleted q @ [receipt]\<rparr>)))
      | _ \<Rightarrow> q)"

text \<open>The result says whether the loop returned early because of the stop signal.\<close>

fun serveBatch :: "'s DequeueDeps \<Rightarrow> SqsMessage list \<Rightarrow> 's QueueRun \<Rightarrow> bool \<times> 's QueueRun" where
  "serveBatch d [] q = (False, q)"
| "serveBatch d (m # ms) q =
     (let q' = q\<lparr>qr_checks := qr_checks q + 1\<rparr> in
      if dd_aborted d (qr_checks q) then (True, q') else serveBatch d ms (serveMessage d m q'))"

definition receiveInput :: "DequeueOpts \<Rightarrow> ReceiveInput" where
  "receiveInput opts = \<lparr>
     rq_waitTimeSeconds = (case do_waitTimeSeconds opts of None \<Rightarrow> 20 | Some n \<Rightarrow> n),
     rq_maxMessages = (case do_maxMessages opts of None \<Rightarrow> 1 | Some n \<Rightarrow> n),
     rq_visibilityTimeout = (case do_visibilityTimeoutSeconds opts of None \<Rightarrow> 60 | Some n \<Rightarrow> n)\<rparr>"

text \<open>\<open>None\<close> is a loop that never returns; the first component is an error of the receive call.\<close>

partial_function (option) dequeueLoop :: "'s DequeueDeps \<Rightarrow> ReceiveInput \<Rightarrow> nat \<Rightarrow> 's QueueRun \<Rightarrow> (string option \<times> 's QueueRun) option" where
  "dequeueLoop d inp poll q =
     (let q' = q\<lparr>qr_checks := qr_checks q + 1\<rparr> in
      if dd_aborted d (qr_checks q) then Some (None, q')
      else (case dd_receive d poll inp of
              Inl e \<Rightarrow> Some (Some e, q')
            | Inr messages \<Rightarrow>
                (case serveBatch d (case messages of None \<Rightarrow> [] | Some ms \<Rightarrow> ms) q' of
                   (stopped, q'') \<Rightarrow> if stopped then Some (None, q'') else dequeueLoop d inp (poll + 1) q'')))"

definition sqsDequeue :: "'s DequeueDeps \<Rightarrow> DequeueOpts \<Rightarrow> 's \<Rightarrow> (string option \<times> 's QueueRun) option" where
  "sqsDequeue d opts s = dequeueLoop d (receiveInput opts) 0 \<lparr>qr_state = s, qr_checks = 0, qr_deleted = []\<rparr>"

section \<open>\<open>server/src/lambda-worker.ts\<close>\<close>

record SQSRecord =
  sr_messageId :: string
  sr_body :: string

fun lambdaHandler :: "(string \<Rightarrow> json option) \<Rightarrow> (string \<Rightarrow> bool) \<Rightarrow> (JobMessage \<Rightarrow> 's \<Rightarrow> unit result \<times> 's) \<Rightarrow> SQSRecord list \<Rightarrow> 's \<Rightarrow> string list \<times> 's" where
  "lambdaHandler parseJson isDatetime handler [] s = ([], s)"
| "lambdaHandler parseJson isDatetime handler (r # rs) s =
     (case parseBody parseJson isDatetime (sr_body r) of
        None \<Rightarrow> (case lambdaHandler parseJson isDatetime handler rs s of (fs, s') \<Rightarrow> (sr_messageId r # fs, s'))
      | Some job \<Rightarrow>
          (case handler job s of
             (Inl _, s1) \<Rightarrow> (case lambdaHandler parseJson isDatetime handler rs s1 of (fs, s') \<Rightarrow> (sr_messageId r # fs, s'))
           | (Inr _, s1) \<Rightarrow> lambdaHandler parseJson isDatetime handler rs s1))"

section \<open>\<open>server/src/worker.ts\<close>\<close>

definition WORKER_DEBOUNCE_MS :: int where "WORKER_DEBOUNCE_MS = 5000"
definition DEFAULT_RETENTION_DAYS :: int where "DEFAULT_RETENTION_DAYS = 7"

definition stateIdOf :: "JobMessage \<Rightarrow> string" where
  "stateIdOf m = pr_owner (jm_prRef m) @ ''/'' @ pr_repo (jm_prRef m) @ ''#'' @ intToString (pr_number (jm_prRef m))"

definition shouldDebounce :: "int option \<Rightarrow> Date \<Rightarrow> ReviewStateRow list \<Rightarrow> JobMessage \<Rightarrow> bool" where
  "shouldDebounce debounceWindowMs now rows m =
     (if jm_triggeredBy m \<noteq> TrigSynchronize then False
      else (case pr_headSha (jm_prRef m) of
              None \<Rightarrow> False
            | Some headSha \<Rightarrow>
                if headSha = [] then False
                else (let window = (case debounceWindowMs of None \<Rightarrow> WORKER_DEBOUNCE_MS | Some w \<Rightarrow> w) in
                  (case selectOne (\<lambda>r. sr_id r = stateIdOf m) rows of
                     None \<Rightarrow> False
                   | Some latest \<Rightarrow>
                       (let ageMs = now - sr_updatedAt latest in sr_headSha latest \<noteq> headSha \<and> ageMs < window)))))"

text \<open>The handler \<open>startWorker\<close> passes to \<open>dequeue\<close>; \<open>rowsOf\<close> reads the table in the state.\<close>

definition workerHandler :: "int option \<Rightarrow> ('s \<Rightarrow> Date) \<Rightarrow> ('s \<Rightarrow> ReviewStateRow list) \<Rightarrow> (JobMessage \<Rightarrow> 's \<Rightarrow> unit result \<times> 's) \<Rightarrow> JobMessage \<Rightarrow> 's \<Rightarrow> unit result \<times> 's" where
  "workerHandler debounceWindowMs nowOf rowsOf handler m s =
     (if shouldDebounce debounceWindowMs (nowOf s) (rowsOf s) m then (Inr (), s) else handler m s)"

text \<open>\<open>tickOnce\<close> of the delivery cleanup; \<open>lockHeld\<close> is the advisory lock's answer.\<close>

definition idempotencyCleanupTick :: "bool \<Rightarrow> Date \<Rightarrow> int option \<Rightarrow> WebhookDeliveryRow list \<Rightarrow> WebhookDeliveryRow list" where
  "idempotencyCleanupTick lockHeld now retentionDays rows =
     (if \<not> lockHeld then rows
      else (let days = (case retentionDays of None \<Rightarrow> DEFAULT_RETENTION_DAYS | Some n \<Rightarrow> n);
                cutoff = now - days * 24 * 3600 * 1000
            in deleteWhere (\<lambda>r. wd_receivedAt r < cutoff) rows))"

section \<open>The queue client as an interface\<close>

text \<open>What the receivers rely on: a message is queued exactly when its id is returned.\<close>

locale queue_client =
  fixes enqueue :: "JobMessage \<Rightarrow> 'q list \<Rightarrow> string result \<times> 'q list" and command :: "JobMessage \<Rightarrow> 'q"
    and accepts :: "JobMessage \<Rightarrow> bool"
  assumes enqueue_ok: "enqueue m q = (Inr i, q') \<Longrightarrow> q' = q @ [command m] \<and> accepts m"
    and enqueue_error: "enqueue m q = (Inl e, q') \<Longrightarrow> q' = q"
begin

lemma enqueue_cases:
  "snd (enqueue m q) = q \<or> (accepts m \<and> snd (enqueue m q) = q @ [command m])"
  by (cases "enqueue m q"; cases "fst (enqueue m q)") (auto dest: enqueue_ok enqueue_error)

lemma enqueue_changes: "snd (enqueue m q) \<noteq> q \<longleftrightarrow> (\<exists>i. fst (enqueue m q) = Inr i)"
  by (cases "enqueue m q"; cases "fst (enqueue m q)") (auto dest: enqueue_ok enqueue_error)

end

interpretation sqs: queue_client "sqsEnqueue isDatetime send" sqsCommand "jobMessageOk isDatetime"
  for isDatetime :: "string \<Rightarrow> bool" and send :: "SendMessageInput \<Rightarrow> string option result"
  by unfold_locales (auto simp: sqsEnqueue_def split: if_splits sum.splits)

section \<open>What is sent is what is received\<close>

lemma those_asStr [simp]: "those (map (asStr \<circ> JStr) ps) = Some ps"
  by (induction ps) simp_all

lemma parse_names [simp]:
  "parsePlatform (platformName p) = Some p" "parseTrigger (triggerName t) = Some t"
  by (cases p; simp add: parsePlatform_def) (cases t; simp add: parseTrigger_def)

lemma parsePrRef_json: "parsePrRef (prRefJson r) = Some r"
  by (cases r; cases "pr_headSha r") (auto simp: parsePrRef_def prRefJson_def optField_def optMember_def)

lemma parseJobMessage_json: "jobMessageOk isDatetime m \<Longrightarrow> parseJobMessage isDatetime (jobMessageJson m) = Some m"
  by (cases m; cases "jm_pathScope m")
    (auto simp: parseJobMessage_def jobMessageJson_def optField_def optMember_def parsePrRef_json)

text \<open>A job that passes the schema is read back unchanged by the consumer from the body the
  producer sends, given that \<open>JSON.parse\<close> inverts \<open>JSON.stringify\<close> on it.\<close>

theorem job_roundtrip:
  assumes "jobMessageOk isDatetime m" "parseJson (stringify (jobMessageJson m)) = Some (jobMessageJson m)"
  shows "parseBody parseJson isDatetime (sm_body (sqsCommand m)) = Some m"
  using assms by (simp add: parseBody_def sqsCommand_def parseJobMessage_json)

definition sampleJobMessage :: JobMessage where
  "sampleJobMessage = \<lparr>jm_jobId = ''o/r#1@0'', jm_installationId = ''7'',
     jm_prRef = \<lparr>pr_platform = Github, pr_owner = ''o'', pr_repo = ''r'', pr_number = 1, pr_headSha = Some ''abcdef0''\<rparr>,
     jm_triggeredBy = TrigSynchronize, jm_enqueuedAt = ''1970-01-01T00:00:00.000Z'', jm_pathScope = Some [''src/*'']\<rparr>"

lemma sampleJobMessage_ok: "jobMessageOk (\<lambda>_. True) sampleJobMessage"
  by code_simp

lemma job_roundtrip_witness:
  "parseBody (\<lambda>s. if s = stringify (jobMessageJson sampleJobMessage) then Some (jobMessageJson sampleJobMessage) else None)
     (\<lambda>_. True) (sm_body (sqsCommand sampleJobMessage)) = Some sampleJobMessage"
  by (rule job_roundtrip [OF sampleJobMessage_ok]) simp

section \<open>The consumer loop\<close>

lemma serveMessage_checks [simp]: "qr_checks (serveMessage d m q) = qr_checks q"
  by (auto simp: serveMessage_def split: option.splits prod.splits sum.splits)

lemma serveBatch_checks: "serveBatch d ms q = (b, q') \<Longrightarrow> qr_checks q \<le> qr_checks q'"
  by (induction d ms q rule: serveBatch.induct) (fastforce simp: Let_def split: if_splits)+

lemma dequeueLoop_returns:
  assumes "\<forall>k \<ge> n. dd_aborted d k"
  shows "\<exists>r. dequeueLoop d inp poll q = Some r"
proof (induction "n - qr_checks q" arbitrary: poll q rule: less_induct)
  case less
  show ?case
  proof (cases "dd_aborted d (qr_checks q)")
    case True
    then show ?thesis by (subst dequeueLoop.simps) (simp add: Let_def)
  next
    case False
    then have lt: "qr_checks q < n" using assms by (meson not_le_imp_less)
    show ?thesis
    proof (cases "dd_receive d poll inp")
      case (Inl e)
      then show ?thesis by (subst dequeueLoop.simps) (simp add: Let_def False)
    next
      case (Inr messages)
      obtain b q'' where r: "serveBatch d (case messages of None \<Rightarrow> [] | Some ms \<Rightarrow> ms) (q\<lparr>qr_checks := qr_checks q + 1\<rparr>) = (b, q'')"
        by fastforce
      have "qr_checks q < qr_checks q''" using serveBatch_checks [OF r] by simp
      then have "\<exists>r. dequeueLoop d inp (poll + 1) q'' = Some r" using less lt by simp
      then show ?thesis using Inr r by (subst dequeueLoop.simps) (simp add: Let_def False)
    qed
  qed
qed

text \<open>C16: the consumer terminates once it is stopped: if the stop signal is raised at some point
  and stays raised, the polling loop returns, whatever the queue delivers and the handler does.\<close>

theorem dequeue_terminates:
  assumes "\<forall>k \<ge> n. dd_aborted d k"
  shows "\<exists>err run. sqsDequeue d opts s = Some (err, run)"
  using dequeueLoop_returns [OF assms] by (simp add: sqsDequeue_def)

lemma dequeue_terminates_witness:
  "\<exists>err run. sqsDequeue \<lparr>dd_receive = (\<lambda>_ _. Inr None), dd_aborted = (\<lambda>k. 3 \<le> k), dd_parseJson = (\<lambda>_. None),
      dd_isDatetime = (\<lambda>_. True), dd_handler = (\<lambda>_ s. (Inr (), s)), dd_delete = (\<lambda>_ _. Inr ())\<rparr>
      \<lparr>do_waitTimeSeconds = None, do_maxMessages = None, do_visibilityTimeoutSeconds = None\<rparr> (0 :: nat) = Some (err, run)"
  by (rule dequeue_terminates [where n = 3]) simp

text \<open>A handler with a log of the jobs it ran and whether it succeeded.\<close>

definition logged :: "(JobMessage \<Rightarrow> 's \<Rightarrow> unit result \<times> 's) \<Rightarrow> JobMessage \<Rightarrow> 's \<times> (JobMessage \<times> bool) list \<Rightarrow> unit result \<times> ('s \<times> (JobMessage \<times> bool) list)" where
  "logged handler m st =
     (case handler m (fst st) of (r, s) \<Rightarrow> (r, (s, snd st @ [(m, case r of Inl _ \<Rightarrow> False | Inr _ \<Rightarrow> True)])))"

text \<open>The queue delivered a message with this receipt, and its body is this job.\<close>

definition delivered :: "'s DequeueDeps \<Rightarrow> ReceiveInput \<Rightarrow> string \<Rightarrow> JobMessage \<Rightarrow> bool" where
  "delivered d inp receipt job =
     (\<exists>poll ms m body. dd_receive d poll inp = Inr (Some ms) \<and> m \<in> set ms \<and> sq_receiptHandle m = Some receipt \<and>
        sq_body m = Some body \<and> parseBody (dd_parseJson d) (dd_isDatetime d) body = Some job)"

text \<open>
  One served message: the number of stop checks made before it, its receipt, its job, and
  whether the handler succeeded.  Its delete call is made when the handler succeeded.
\<close>

type_synonym Served = "nat \<times> string \<times> JobMessage \<times> bool"

definition removed :: "'s DequeueDeps \<Rightarrow> Served \<Rightarrow> bool" where
  "removed d = (\<lambda>(k, receipt, job, ok). ok \<and> dd_delete d k receipt = Inr ())"

definition accounted :: "('s \<times> (JobMessage \<times> bool) list) DequeueDeps \<Rightarrow> ReceiveInput \<Rightarrow> ('s \<times> (JobMessage \<times> bool) list) QueueRun \<Rightarrow> bool" where
  "accounted d inp q =
     (\<exists>served :: Served list. snd (qr_state q) = map (\<lambda>(k, receipt, job, ok). (job, ok)) served \<and>
        qr_deleted q = map (\<lambda>(k, receipt, job, ok). receipt) (filter (removed d) served) \<and>
        sorted_wrt (<) (map fst served) \<and> list_all (\<lambda>e. fst e \<le> qr_checks q) served \<and>
        list_all (\<lambda>(k, receipt, job, ok). delivered d inp receipt job) served)"

lemma accounted_snoc:
  assumes "accounted d inp q" "delivered d inp receipt job" "snd (qr_state q') = snd (qr_state q) @ [(job, ok)]"
    "qr_deleted q' = qr_deleted q @ (if removed d (k, receipt, job, ok) then [receipt] else [])"
    "qr_checks q < k" "k \<le> qr_checks q'"
  shows "accounted d inp q'"
proof -
  obtain served :: "Served list" where s: "snd (qr_state q) = map (\<lambda>(k, receipt, job, ok). (job, ok)) served"
    "qr_deleted q = map (\<lambda>(k, receipt, job, ok). receipt) (filter (removed d) served)"
    "sorted_wrt (<) (map fst served)" "list_all (\<lambda>e. fst e \<le> qr_checks q) served"
    "list_all (\<lambda>(k, receipt, job, ok). delivered d inp receipt job) served"
    using assms(1) by (auto simp: accounted_def)
  show ?thesis unfolding accounted_def
  proof (intro exI [of _ "served @ [(k, receipt, job, ok)]"] conjI)
    show "sorted_wrt (<) (map fst (served @ [(k, receipt, job, ok)]))"
      using s(3,4) assms(5) by (fastforce simp: sorted_wrt_append list_all_iff)
    show "list_all (\<lambda>e. fst e \<le> qr_checks q') (served @ [(k, receipt, job, ok)])"
      using s(4) assms(5,6) by (fastforce simp: list_all_iff)
  qed (use s assms(2-4) in auto)
qed

lemma accounted_checks: "accounted d inp q \<Longrightarrow> qr_checks q \<le> k \<Longrightarrow> accounted d inp (q\<lparr>qr_checks := k\<rparr>)"
  unfolding accounted_def by (fastforce simp: list_all_iff)

lemma serveMessage_accounted:
  assumes "dd_handler d = logged handler" "dd_receive d poll inp = Inr (Some ms)" "m \<in> set ms" "accounted d inp q"
  shows "accounted d inp (serveMessage d m (q\<lparr>qr_checks := qr_checks q + 1\<rparr>))"
proof -
  let ?q = "q\<lparr>qr_checks := qr_checks q + 1\<rparr>"
  have acc: "accounted d inp ?q" using assms(4) by (rule accounted_checks) simp
  show ?thesis
  proof (cases "sq_body m"; cases "sq_receiptHandle m")
    fix body receipt assume br: "sq_body m = Some body" "sq_receiptHandle m = Some receipt"
    show ?thesis
    proof (cases "body = [] \<or> receipt = []")
      case False
      show ?thesis
      proof (cases "parseBody (dd_parseJson d) (dd_isDatetime d) body")
        case (Some job)
        obtain r s where h: "handler job (fst (qr_state q)) = (r, s)" by fastforce
        have del: "delivered d inp receipt job"
          unfolding delivered_def using assms(2,3) br Some by (intro exI conjI)
        show ?thesis
          by (rule accounted_snoc [OF assms(4) del, where ok = "case r of Inl _ \<Rightarrow> False | Inr _ \<Rightarrow> True" and k = "qr_checks q + 1"];
              cases r; cases "dd_delete d (Suc (qr_checks q)) receipt";
              simp add: serveMessage_def br False Some assms(1) logged_def removed_def h)
      qed (use acc br False in \<open>simp add: serveMessage_def\<close>)
    qed (use acc br in \<open>auto simp: serveMessage_def\<close>)
  qed (use acc in \<open>auto simp: serveMessage_def\<close>)
qed

lemma serveBatch_accounted:
  assumes "dd_handler d = logged handler" "dd_receive d poll inp = Inr (Some all)"
  shows "set ms \<subseteq> set all \<Longrightarrow> accounted d inp q \<Longrightarrow> serveBatch d ms q = (b, q') \<Longrightarrow> accounted d inp q'"
proof (induction ms arbitrary: q)
  case (Cons m ms)
  have "accounted d inp (serveMessage d m (q\<lparr>qr_checks := qr_checks q + 1\<rparr>))"
    using Cons.prems by (intro serveMessage_accounted [OF assms]) auto
  moreover have "accounted d inp (q\<lparr>qr_checks := qr_checks q + 1\<rparr>)" using Cons.prems by (simp add: accounted_checks)
  ultimately show ?case using Cons by (auto simp: Let_def split: if_splits)
qed simp

lemma dequeueLoop_accounted:
  "dequeueLoop d inp poll q = Some r \<Longrightarrow> dd_handler d = logged handler \<Longrightarrow> accounted d inp q \<Longrightarrow> accounted d inp (snd r)"
proof (induction d inp poll q r rule: dequeueLoop.raw_induct [rotated, consumes 1])
  case (1 loop d inp poll q r)
  let ?q = "q\<lparr>qr_checks := qr_checks q + 1\<rparr>"
  have q: "accounted d inp ?q" using 1(4) by (simp add: accounted_checks)
  show ?case
  proof (cases "dd_aborted d (qr_checks q)")
    case False
    show ?thesis
    proof (cases "dd_receive d poll inp")
      case (Inr messages)
      obtain b q'' where sb: "serveBatch d (case messages of None \<Rightarrow> [] | Some ms \<Rightarrow> ms) ?q = (b, q'')"
        by fastforce
      have acc: "accounted d inp q''"
      proof (cases messages)
        case (Some ms)
        then show ?thesis using serveBatch_accounted [OF 1(3), of poll inp ms ms ?q b q''] Inr sb q by simp
      qed (use sb q in auto)
      show ?thesis using 1(1) [OF _ 1(3) acc] 1(2) acc Inr sb False by (auto split: if_splits)
    qed (use 1 q False in auto)
  qed (use 1 q in auto)
qed

text \<open>C15: the consumer deletes a message only after its job was done: whenever the polling loop
  returns, every job it ran came out of a delivered message, one stop check after the other, and the
  receipts whose deletion the queue acknowledged are those of the runs whose handler succeeded and
  whose delete call did, in order.  A job whose handler failed keeps its message in the queue, and so
  does a handled one whose delete call fails: that job will be run again.\<close>

theorem dequeue_deletes_handled:
  assumes "sqsDequeue (d\<lparr>dd_handler := logged handler\<rparr>) opts (s, []) = Some (err, run)"
  shows "\<exists>served :: Served list. snd (qr_state run) = map (\<lambda>(k, receipt, job, ok). (job, ok)) served \<and>
     qr_deleted run = map (\<lambda>(k, receipt, job, ok). receipt)
       (filter (\<lambda>(k, receipt, job, ok). ok \<and> dd_delete d k receipt = Inr ()) served) \<and>
     sorted_wrt (<) (map fst served) \<and>
     list_all (\<lambda>(k, receipt, job, ok). delivered d (receiveInput opts) receipt job) served"
proof -
  have "accounted (d\<lparr>dd_handler := logged handler\<rparr>) (receiveInput opts) \<lparr>qr_state = (s, []), qr_checks = 0, qr_deleted = []\<rparr>"
    by (simp add: accounted_def)
  then have "accounted (d\<lparr>dd_handler := logged handler\<rparr>) (receiveInput opts) run"
    using dequeueLoop_accounted [where handler = handler] assms by (fastforce simp: sqsDequeue_def)
  then show ?thesis by (auto simp: accounted_def delivered_def removed_def)
qed

text \<open>Two deliveries of one job: the delete call of the first run fails.\<close>

definition sampleDequeue :: "(nat \<times> (JobMessage \<times> bool) list) DequeueDeps" where
  "sampleDequeue = \<lparr>dd_receive = (\<lambda>poll _. Inr (if poll < 2 then Some [\<lparr>sq_body = Some ''x'', sq_receiptHandle = Some (if poll = 0 then ''r1'' else ''r2'')\<rparr>] else None)),
     dd_aborted = (\<lambda>k. 4 \<le> k),
     dd_parseJson = (\<lambda>s. if s = ''x'' then Some (jobMessageJson sampleJobMessage) else None),
     dd_isDatetime = (\<lambda>_. True), dd_handler = logged (\<lambda>_ n. (Inr (), n + 1)),
     dd_delete = (\<lambda>k _. if k < 3 then Inl ''timeout'' else Inr ())\<rparr>"

definition sampleOpts :: DequeueOpts where
  "sampleOpts = \<lparr>do_waitTimeSeconds = None, do_maxMessages = None, do_visibilityTimeoutSeconds = None\<rparr>"

lemma sampleDequeue_run:
  "sqsDequeue sampleDequeue sampleOpts (0, []) =
     Some (None, \<lparr>qr_state = (2, [(sampleJobMessage, True), (sampleJobMessage, True)]), qr_checks = 5, qr_deleted = [''r2'']\<rparr>)"
  unfolding sqsDequeue_def
  by (subst dequeueLoop.simps, subst dequeueLoop.simps, subst dequeueLoop.simps)
    (simp add: sampleDequeue_def serveMessage_def parseBody_def parseJobMessage_json [OF sampleJobMessage_ok] logged_def)

lemma dequeue_deletes_handled_witness:
  "\<exists>served :: Served list. [(sampleJobMessage, True), (sampleJobMessage, True)] = map (\<lambda>(k, receipt, job, ok). (job, ok)) served \<and>
     [''r2''] = map (\<lambda>(k, receipt, job, ok). receipt)
       (filter (\<lambda>(k, receipt, job, ok). ok \<and> dd_delete sampleDequeue k receipt = Inr ()) served) \<and>
     sorted_wrt (<) (map fst served) \<and>
     list_all (\<lambda>(k, receipt, job, ok). delivered sampleDequeue (receiveInput sampleOpts) receipt job) served"
proof -
  have "sqsDequeue (sampleDequeue\<lparr>dd_handler := logged (\<lambda>_ n. (Inr (), n + 1))\<rparr>) sampleOpts (0, []) =
     Some (None, \<lparr>qr_state = (2, [(sampleJobMessage, True), (sampleJobMessage, True)]), qr_checks = 5, qr_deleted = [''r2'']\<rparr>)"
    using sampleDequeue_run by (simp add: sampleDequeue_def)
  from dequeue_deletes_handled [OF this] show ?thesis by simp
qed

section \<open>The Lambda consumer\<close>

text \<open>A handler that fails on some jobs and logs those it ran.\<close>

definition outcomeHandler :: "(JobMessage \<Rightarrow> bool) \<Rightarrow> JobMessage \<Rightarrow> JobMessage list \<Rightarrow> unit result \<times> JobMessage list" where
  "outcomeHandler ok m hist = (if ok m then Inr () else Inl ''handler failed'', hist @ [m])"

text \<open>The Lambda consumer runs the handler once for every record that parses, in order, whatever
  the other records do, and reports as failed exactly the records that do not parse or whose
  handler fails.\<close>

theorem lambda_reports_failures:
  "lambdaHandler parseJson isDatetime (outcomeHandler ok) records hist =
     (map sr_messageId (filter (\<lambda>r. case parseBody parseJson isDatetime (sr_body r) of None \<Rightarrow> True | Some m \<Rightarrow> \<not> ok m) records),
      hist @ List.map_filter (\<lambda>r. parseBody parseJson isDatetime (sr_body r)) records)"
proof (induction records arbitrary: hist)
  case (Cons r records)
  then show ?case
    by (cases "parseBody parseJson isDatetime (sr_body r)") (auto simp: outcomeHandler_def map_filter_simps)
qed (simp add: map_filter_simps)

section \<open>The worker's debounce\<close>

datatype StateWrite = Mirrored MirrorWrite | PausedSet bool Date int string

text \<open>Everything that writes \<open>review_state\<close>: the mirror, and the commands of the webhook.\<close>

fun stateWrite :: "StateWrite \<Rightarrow> ReviewStateRow list \<Rightarrow> ReviewStateRow list" where
  "stateWrite (Mirrored w) rows = mirrorPut w rows"
| "stateWrite (PausedSet p now installationId prId) rows = setPaused p now installationId prId rows"

lemma mirrorPut_ids: "r \<in> set (mirrorPut w rows) \<Longrightarrow> sr_id r \<in> sr_id ` set rows \<or> sr_id r = idFor (mw_lookup w)"
  by (auto simp: mirrorPut_def mirrorUpsert_def insertOrUpdate_def split: if_splits)

lemma stateWrites_ids: "r \<in> set (fold stateWrite ws []) \<Longrightarrow> \<exists>q. sr_id r = idFor q"
proof (induction ws arbitrary: r rule: rev_induct)
  case (snoc w ws)
  show ?case
  proof (cases w)
    case (Mirrored m)
    then show ?thesis using snoc mirrorPut_ids [of r m "fold stateWrite ws []"] by auto
  next
    case (PausedSet p now inst pr)
    then obtain r' where "r' \<in> set (fold stateWrite ws [])" "sr_id r = sr_id r'"
      using snoc.prems by (auto simp: setPaused_def updateWhere_def split: if_splits)
    then show ?thesis using snoc.IH by metis
  qed
qed simp

lemma intToString_chars: "c \<in> set (intToString i) \<Longrightarrow> isDigit c \<or> c = CHR ''-''"
  by (auto simp: intToString_def dest: digitsOf_digits split: if_splits)

lemma stateId_not_mirror_id:
  assumes "CHR '':'' \<notin> set (pr_owner (jm_prRef m))"
  shows "stateIdOf m \<noteq> idFor q"
proof
  assume "stateIdOf m = idFor q"
  then have e: "pr_owner (jm_prRef m) @ CHR ''/'' # pr_repo (jm_prRef m) @ ''#'' @ intToString (pr_number (jm_prRef m)) =
      intToString (lk_installationId q) @ CHR '':'' # lk_prId q"
    by (simp add: stateIdOf_def idFor_def)
  have n: "CHR ''/'' \<notin> set (intToString (lk_installationId q))"
    using intToString_chars [of "CHR ''/''"] by (auto simp: isDigit_def)
  obtain x where x: "pr_owner (jm_prRef m) = intToString (lk_installationId q) @ x"
    using prefix_before [OF n e [symmetric]] by blast
  show False using e x assms by (cases x) auto
qed

text \<open>The worker's debounce never fires on what the system stores: it looks a row up by
  \<open>owner/repo#number\<close>, while every row of \<open>review_state\<close> is written under
  \<open>installation:pullRequest\<close>, so no pending synchronize job is ever dropped.\<close>

theorem worker_debounce_never_fires:
  assumes "CHR '':'' \<notin> set (pr_owner (jm_prRef m))"
  shows "\<not> shouldDebounce debounceWindowMs now (fold stateWrite ws []) m"
proof -
  have "selectOne (\<lambda>r. sr_id r = stateIdOf m) (fold stateWrite ws []) = None"
    unfolding selectOne_None using stateId_not_mirror_id [OF assms] stateWrites_ids by metis
  then show ?thesis by (simp add: shouldDebounce_def split: option.splits)
qed

lemma worker_debounce_never_fires_witness:
  "\<not> shouldDebounce None 10 (fold stateWrite [Mirrored \<lparr>mw_dbNow = 9, mw_now = 9,
      mw_lookup = \<lparr>lk_installationId = 7, lk_prId = ''o/r#1''\<rparr>, mw_headSha = ''1234567'',
      mw_state = \<lparr>rs_schemaVersion = 1, rs_lastReviewedSha = ''1234567'', rs_baseSha = ''0'', rs_reviewedAt = ''t'',
        rs_modelUsed = ''m'', rs_totalTokens = 0, rs_totalCostUsd = 0, rs_commentFingerprints = []\<rparr>\<rparr>] []) sampleJobMessage"
  by (rule worker_debounce_never_fires) (simp add: sampleJobMessage_def)

end
