(* ===== verification/Cursor.thy ===== *)
theory Cursor
  imports Feedback JobQueue Retry
begin

text \<open>
  What the routes of the dashboard API share: the keyset cursor of \<open>server/src/api/cursor.ts\<close>
  with the base64url code it is written in, the escaping of a search text, and the query
  schema and the small helpers of \<open>server/src/api/schemas.ts\<close>.  \<open>JSON.parse\<close> and
  the parser of \<open>Date\<close> are parameters; a byte of a buffer is a character.
\<close>

section \<open>base64url\<close>

definition alphabet64 :: string where
  "alphabet64 = ''ABCDEFGHIJKLMNOPQRSTUVWXYZabcdefghijklmnopqrstuvwxyz0123456789-_''"

definition char64 :: "nat \<Rightarrow> char" where
  "char64 n = alphabet64 ! (n mod 64)"

text \<open>The value of a letter; the decoder takes the letters of both variants of the code.\<close>

definition value64 :: "char \<Rightarrow> nat option" where
  "value64 c =
     (if c = CHR ''+'' then Some 62 else if c = CHR ''/'' then Some 63
      else map_of (zip alphabet64 [0..<64]) c)"

fun encodeBytes :: "nat list \<Rightarrow> string" where
  "encodeBytes [] = []"
| "encodeBytes [a] = [char64 (a div 4), char64 (a mod 4 * 16)]"
| "encodeBytes [a, b] = [char64 (a div 4), char64 (a mod 4 * 16 + b div 16), char64 (b mod 16 * 4)]"
| "encodeBytes (a # b # c # r) =
     char64 (a div 4) # char64 (a mod 4 * 16 + b div 16) # char64 (b mod 16 * 4 + c div 64) # char64 (c mod 64) # encodeBytes r"

fun decodeBytes :: "nat list \<Rightarrow> nat list" where
  "decodeBytes (w # x # y # z # r) =
     (w * 4 + x div 16) # (x mod 16 * 16 + y div 4) # (y mod 4 * 64 + z) # decodeBytes r"
| "decodeBytes [w, x, y] = [w * 4 + x div 16, x mod 16 * 16 + y div 4]"
| "decodeBytes [w, x] = [w * 4 + x div 16]"
| "decodeBytes _ = []"

text \<open>\<open>Buffer.from(s).toString('base64url')\<close> and \<open>Buffer.from(s, 'base64url')\<close>, which skips foreign
  characters and ends at padding.\<close>

definition toBase64Url :: "string \<Rightarrow> string" where
  "toBase64Url s = encodeBytes (map of_char s)"

definition fromBase64Url :: "string \<Rightarrow> string" where
  "fromBase64Url s = map char_of (decodeBytes (List.map_filter value64 (takeWhile (\<lambda>c. c \<noteq> CHR ''='') s)))"

section \<open>\<open>cursor.ts\<close>\<close>

definition escapeLikePattern :: "string \<Rightarrow> string" where
  "escapeLikePattern s =
     concat (map (\<lambda>c. if c = CHR 0x5C \<or> c = CHR ''%'' \<or> c = CHR ''_'' then [CHR 0x5C, c] else [c]) s)"

record DecodedCursor =
  dc_t :: string
  dc_id :: string

definition cursorJson :: "Date \<Rightarrow> int \<Rightarrow> json" where
  "cursorJson createdAt i = JObj [(''t'', JStr (toISOString createdAt)), (''id'', JStr (intToString i))]"

definition encodeCursor :: "Date \<Rightarrow> int \<Rightarrow> string" where
  "encodeCursor createdAt i = toBase64Url (stringify (cursorJson createdAt i))"

definition decodeCursor :: "(string \<Rightarrow> json option) \<Rightarrow> string \<Rightarrow> DecodedCursor option" where
  "decodeCursor parse cursor =
     (case parse (fromBase64Url cursor) of
        None \<Rightarrow> None
      | Some parsed \<Rightarrow>
          (case (jsonMember parsed ''t'', jsonMember parsed ''id'') of
             (Some (JStr t), Some (JStr i)) \<Rightarrow> Some \<lparr>dc_t = t, dc_id = i\<rparr>
           | _ \<Rightarrow> None))"

text \<open>\<open>BigInt(s)\<close> of a text; \<open>None\<close> is the \<open>SyntaxError\<close>.\<close>

definition radixDigit :: "nat \<Rightarrow> char \<Rightarrow> nat option" where
  "radixDigit radix c =
     (case map_of (zip ''0123456789abcdef'' [0..<16]) (toLowerC c) of Some v \<Rightarrow> if v < radix then Some v else None | None \<Rightarrow> None)"

definition readRadix :: "nat \<Rightarrow> string \<Rightarrow> int option" where
  "readRadix radix s =
     (if s = [] \<or> list_ex (\<lambda>c. radixDigit radix c = None) s then None
      else Some (int (foldl (\<lambda>n c. n * radix + the (radixDigit radix c)) 0 s)))"

definition radixOf :: "string \<Rightarrow> nat option" where
  "radixOf t = (let p = toLowerCase (take 2 t) in
     if p = ''0x'' then Some 16 else if p = ''0o'' then Some 8 else if p = ''0b'' then Some 2 else None)"

definition parseBigInt :: "string \<Rightarrow> int option" where
  "parseBigInt s =
     (let t = trim s in
        if t = [] then Some 0
        else case radixOf t of
          Some radix \<Rightarrow> readRadix radix (drop 2 t)
        | None \<Rightarrow>
            (if hd t = CHR ''-'' then map_option uminus (readRadix 10 (tl t))
             else readRadix 10 (if hd t = CHR ''+'' then tl t else t)))"

section \<open>\<open>schemas.ts\<close>\<close>

datatype ReviewOutcome = Approved | ChangesRequested | Commented | Failed

definition deriveOutcome :: "string option \<Rightarrow> ReviewOutcome" where
  "deriveOutcome abortReason = (if abortReason \<noteq> None then Failed else Commented)"

definition hourMs :: int where "hourMs = 60 * 60 * 1000"

definition resolveSince :: "(string \<Rightarrow> Date option) \<Rightarrow> string \<Rightarrow> Date \<Rightarrow> Date option" where
  "resolveSince parseDate since now =
     (if since = ''24h'' then Some (now - 24 * hourMs)
      else if since = ''7d'' then Some (now - 7 * 24 * hourMs)
      else if since = ''30d'' then Some (now - 30 * 24 * hourMs)
      else parseDate since)"

text \<open>\<open>Number(v)\<close> where it is finite: white space around a decimal or a prefixed integer literal.\<close>

definition unsignedNumber :: "string \<Rightarrow> rat option" where
  "unsignedNumber t =
     (let ip = takeWhile isDigit t; r = dropWhile isDigit t;
          fp = (if startsWith r ''.'' then takeWhile isDigit (drop 1 r) else []);
          r' = (if startsWith r ''.'' then dropWhile isDigit (drop 1 r) else r);
          mant = of_nat (readDigits (ip @ fp)) / 10 ^ length fp
      in if ip = [] \<and> fp = [] then None
         else if r' = [] then Some mant
         else if toLowerC (hd r') \<noteq> CHR ''e'' then None
         else let w = tl r'; neg = startsWith w ''-''; v = (if neg \<or> startsWith w ''+'' then tl w else w)
              in if v = [] \<or> list_ex (\<lambda>c. \<not> isDigit c) v then None
                 else if neg then Some (mant / 10 ^ readDigits v) else Some (mant * 10 ^ readDigits v))"

definition jsNumber :: "string \<Rightarrow> rat option" where
  "jsNumber s =
     (let t = trim s;
          v = (if t = [] then Some 0
               else case radixOf t of
                 Some radix \<Rightarrow> map_option of_int (readRadix radix (drop 2 t))
               | None \<Rightarrow> if hd t = CHR ''-'' then map_option uminus (unsignedNumber (tl t))
                         else unsignedNumber (if hd t = CHR ''+'' then tl t else t))
      in case v of Some q \<Rightarrow> if \<bar>q\<bar> < 2 ^ 1024 - 2 ^ 970 then Some q else None | None \<Rightarrow> None)"

type_synonym Query = "string \<Rightarrow> string option"

definition queryLimit :: "string option \<Rightarrow> rat" where
  "queryLimit v =
     (case (case v of Some s \<Rightarrow> jsNumber s | None \<Rightarrow> Some 50) of
        Some n \<Rightarrow> if 1 \<le> n then min n 200 else 50
      | None \<Rightarrow> 50)"

definition platformOf :: "string \<Rightarrow> Platform option" where
  "platformOf s = (if s = ''github'' then Some Github else if s = ''codecommit'' then Some Codecommit else None)"

definition outcomeOf :: "string \<Rightarrow> ReviewOutcome option" where
  "outcomeOf s =
     (if s = ''approved'' then Some Approved else if s = ''changes_requested'' then Some ChangesRequested
      else if s = ''commented'' then Some Commented else if s = ''failed'' then Some Failed else None)"

record ReviewsQuery =
  rq_limit :: rat
  rq_cursor :: "string option"
  rq_platform :: "Platform option"
  rq_outcome :: "ReviewOutcome option"
  rq_repoQuery :: "string option"
  rq_since :: "string option"

definition validOr :: "('a \<Rightarrow> 'b option) \<Rightarrow> 'a option \<Rightarrow> 'b option option" where
  "validOr f v = (case v of None \<Rightarrow> Some None | Some x \<Rightarrow> map_option Some (f x))"

definition reviewsQuerySchema :: "(string \<Rightarrow> bool) \<Rightarrow> Query \<Rightarrow> ReviewsQuery option" where
  "reviewsQuerySchema isDatetime q =
     (case (validOr platformOf (q ''platform''), validOr outcomeOf (q ''outcome''),
            validOr (\<lambda>s. if s \<in> {''24h'', ''7d'', ''30d''} \<or> isDatetime s then Some s else None) (q ''since'')) of
        (Some platform, Some outcome, Some since) \<Rightarrow>
          Some \<lparr>rq_limit = queryLimit (q ''limit''), rq_cursor = q ''cursor'', rq_platform = platform, rq_outcome = outcome,
                rq_repoQuery = q ''repoQuery'', rq_since = since\<rparr>
      | _ \<Rightarrow> None)"

section \<open>The code is read back\<close>

lemma alphabet64_values: "list_all (\<lambda>n. value64 (char64 n) = Some n) [0..<64]"
  by code_simp

lemma value64_char64 [simp]: "n < 64 \<Longrightarrow> value64 (char64 n) = Some n"
  using alphabet64_values by (simp add: list_all_iff)

lemma alphabet64_no_padding: "list_all (\<lambda>n. char64 n \<noteq> CHR ''='') [0..<64]"
  by code_simp

lemma char64_no_padding [simp]: "char64 n \<noteq> CHR ''=''" "CHR ''='' \<noteq> char64 n"
proof -
  have "n mod 64 \<in> set [0..<64]" by simp
  then have "char64 (n mod 64) \<noteq> CHR ''=''" using alphabet64_no_padding unfolding list_all_iff by blast
  then show "char64 n \<noteq> CHR ''=''" "CHR ''='' \<noteq> char64 n" by (simp_all add: char64_def)
qed

lemma encodeBytes_no_padding: "c \<in> set (encodeBytes bs) \<Longrightarrow> c \<noteq> CHR ''=''"
  by (induction bs rule: encodeBytes.induct) auto

lemma sextets:
  "a < 256 \<Longrightarrow> a div 4 < (64 :: nat)" "a mod 4 * 16 < (64 :: nat)" "b mod 16 * 4 < (64 :: nat)"
  "b < 256 \<Longrightarrow> a mod 4 * 16 + b div 16 < (64 :: nat)" "c < 256 \<Longrightarrow> b mod 16 * 4 + c div 64 < (64 :: nat)"
proof -
  have m: "a mod 4 < 4" "b mod 16 < 16" by simp_all
  show "a < 256 \<Longrightarrow> a div 4 < 64" "a mod 4 * 16 < 64" "b mod 16 * 4 < 64" using m by simp_all
  have "b < 256 \<Longrightarrow> b div 16 < 16" "c < 256 \<Longrightarrow> c div 64 < 4" by simp_all
  then show "b < 256 \<Longrightarrow> a mod 4 * 16 + b div 16 < 64" "c < 256 \<Longrightarrow> b mod 16 * 4 + c div 64 < 64" using m by linarith+
qed

lemma octets:
  assumes "b < (256 :: nat)"
  shows "b div 16 div 16 = 0" "b div 64 div 4 = 0" "b div 16 mod 16 * 16 + b mod 16 = b" "b div 64 mod 4 * 64 + b mod 64 = b"
  using assms by (simp_all flip: div_mult2_eq)

lemma decode_encodeBytes:
  "(\<forall>b \<in> set bs. b < 256) \<Longrightarrow> decodeBytes (List.map_filter value64 (encodeBytes bs)) = bs"
  by (induction bs rule: encodeBytes.induct) (simp_all add: List.map_filter_simps sextets octets)

lemma base64_roundtrip: "fromBase64Url (toBase64Url s) = s"
proof -
  have t: "takeWhile (\<lambda>c. c \<noteq> CHR ''='') (encodeBytes bs) = encodeBytes bs" for bs
    unfolding takeWhile_eq_all_conv using encodeBytes_no_padding by blast
  show ?thesis
    unfolding fromBase64Url_def toBase64Url_def t by (simp add: decode_encodeBytes comp_def)
qed

lemma digit_cases: "isDigit c \<Longrightarrow> c \<in> set ''0123456789''"
proof -
  assume d: "isDigit c"
  define n :: nat where "n = of_char c"
  have "48 \<le> n" "n \<le> 57" using d by (simp_all add: isDigit_def Let_def n_def)
  then have "n = 48 \<or> n = 49 \<or> n = 50 \<or> n = 51 \<or> n = 52 \<or> n = 53 \<or> n = 54 \<or> n = 55 \<or> n = 56 \<or> n = 57"
    by presburger
  then have "n \<in> of_char ` set ''0123456789''" by auto
  then show ?thesis unfolding n_def by (metis imageE of_char_eq_iff)
qed

lemma radixDigit_10: "isDigit c \<Longrightarrow> radixDigit 10 c = Some (digitVal c)"
  by (drule digit_cases) (auto simp: radixDigit_def toLowerC_def digitVal_def upt_rec)

lemma readRadix_digits: "readRadix 10 (digitsOf n) = Some (int n)"
proof -
  have d: "radixDigit 10 c = Some (digitVal c)" if "c \<in> set (digitsOf n)" for c
    using that digitsOf_digits radixDigit_10 by blast
  then have "foldl (\<lambda>k c. k * 10 + the (radixDigit 10 c)) 0 (digitsOf n) = readDigits (digitsOf n)"
    unfolding readDigits_def by (intro foldl_cong) auto
  then show ?thesis using d by (auto simp: readRadix_def list_ex_iff)
qed

lemma int_chars: "c \<in> set (intToString i) \<Longrightarrow> c = CHR ''-'' \<or> isDigit c"
  by (auto simp: intToString_def dest: digitsOf_digits split: if_splits)

lemma trim_int: "trim (intToString i) = intToString i"
proof -
  have "\<not> isSpace c" if "c \<in> set (intToString i)" for c
    using int_chars [OF that] by (auto simp: isSpace_def isDigit_def Let_def)
  then have "dropWhile isSpace xs = xs" if "set xs \<subseteq> set (intToString i)" for xs
    using that by (cases xs) auto
  then show ?thesis by (simp add: trim_def trimStart_def trimEnd_def)
qed

lemma radixOf_int: "radixOf (intToString i) = None"
proof -
  have "toLowerC c \<noteq> CHR ''x'' \<and> toLowerC c \<noteq> CHR ''o'' \<and> toLowerC c \<noteq> CHR ''b''" if "c \<in> set (intToString i)" for c
    using int_chars [OF that] by (auto simp: toLowerC_def isDigit_def Let_def)
  then show ?thesis
    by (cases "intToString i" rule: list.exhaust; cases "tl (intToString i)") (auto simp: radixOf_def toLowerCase_def Let_def)
qed

lemma parseBigInt_int: "parseBigInt (intToString i) = Some i"
proof -
  have n: "intToString i \<noteq> []" by (simp add: intToString_def)
  have h: "hd (digitsOf n) \<noteq> CHR ''-'' \<and> hd (digitsOf n) \<noteq> CHR ''+''" for n
    using digitsOf_digits [of "hd (digitsOf n)" n] by (auto simp: isDigit_def)
  have "parseBigInt (intToString i) =
    (if hd (intToString i) = CHR ''-'' then map_option uminus (readRadix 10 (tl (intToString i)))
     else readRadix 10 (if hd (intToString i) = CHR ''+'' then tl (intToString i) else intToString i))"
    unfolding parseBigInt_def trim_int Let_def radixOf_int using n by simp
  then show ?thesis using h by (simp add: intToString_def readRadix_digits)
qed

lemma toLowerC_sign: "x \<in> {CHR 0x5C, CHR ''%'', CHR ''_''} \<Longrightarrow> toLowerC c = x \<longleftrightarrow> c = x"
proof
  assume x: "x \<in> {CHR 0x5C, CHR ''%'', CHR ''_''}"
  show "c = x \<Longrightarrow> toLowerC c = x" using x by (auto simp: toLowerC_def)
  assume l: "toLowerC c = x"
  define n m :: nat where "n = of_char c" and "m = of_char x"
  have "m = of_char (toLowerC c)" by (simp add: m_def l)
  then have "m = (if (65 \<le> n \<and> n \<le> 90) \<or> (192 \<le> n \<and> n \<le> 222 \<and> n \<noteq> 215) then n + 32 else n)"
    by (simp add: toLowerC_def Let_def n_def)
  moreover have "m = 92 \<or> m = 37 \<or> m = 95" using x by (auto simp: m_def)
  ultimately have "m = n" by presburger
  then show "c = x" by (simp add: m_def n_def)
qed

lemma sqlLike_quote: "sqlLike (CHR 0x5C # d # ps) t = (t \<noteq> [] \<and> hd t = d \<and> sqlLike ps (tl t))"
  by simp

lemma sqlLike_plain_char:
  "c \<noteq> CHR 0x5C \<Longrightarrow> c \<noteq> CHR ''%'' \<Longrightarrow> c \<noteq> CHR ''_'' \<Longrightarrow> sqlLike (c # ps) t = (t \<noteq> [] \<and> hd t = c \<and> sqlLike ps (tl t))"
  by simp

lemma sqlLike_escaped: "sqlLike (toLowerCase (escapeLikePattern s) @ ''%'') t = startsWith t (toLowerCase s)"
proof (induction s arbitrary: t)
  case Nil
  have "list_ex (\<lambda>i. drop i t = []) [0..<Suc (length t)]" by (auto simp: list_ex_iff)
  then show ?case by (simp add: escapeLikePattern_def toLowerCase_def)
next
  case (Cons c s)
  have w: "toLowerC c = CHR 0x5C \<longleftrightarrow> c = CHR 0x5C" "toLowerC c = CHR ''%'' \<longleftrightarrow> c = CHR ''%''"
      "toLowerC c = CHR ''_'' \<longleftrightarrow> c = CHR ''_''" by (simp_all add: toLowerC_sign)
  have p: "sqlLike (toLowerCase (escapeLikePattern (c # s)) @ ''%'') t =
      (t \<noteq> [] \<and> hd t = toLowerC c \<and> sqlLike (toLowerCase (escapeLikePattern s) @ ''%'') (tl t))"
  proof (cases "c = CHR 0x5C \<or> c = CHR ''%'' \<or> c = CHR ''_''")
    case True
    then have "toLowerCase (escapeLikePattern (c # s)) = CHR 0x5C # toLowerC c # toLowerCase (escapeLikePattern s)"
      by (auto simp: escapeLikePattern_def toLowerCase_def toLowerC_sign)
    then show ?thesis using sqlLike_quote by (simp del: sqlLike.simps)
  next
    case False
    then have "toLowerCase (escapeLikePattern (c # s)) = toLowerC c # toLowerCase (escapeLikePattern s)"
      by (simp add: escapeLikePattern_def toLowerCase_def)
    then show ?thesis using False w sqlLike_plain_char by (simp del: sqlLike.simps)
  qed
  show ?case unfolding p Cons.IH by (cases t) (auto simp: toLowerCase_def)
qed

lemma startsWith_drop: "list_ex (\<lambda>i. startsWith (drop i t) p) [0..<Suc (length t)] = includesStr t p"
proof
  assume "list_ex (\<lambda>i. startsWith (drop i t) p) [0..<Suc (length t)]"
  then obtain i where "startsWith (drop i t) p" unfolding list_ex_iff by blast
  then obtain r where "drop i t = p @ r" unfolding startsWith_iff_append by blast
  then have "t = take i t @ p @ r" by (metis append_take_drop_id)
  then show "includesStr t p" unfolding includesStr_iff by blast
next
  assume "includesStr t p"
  then obtain a b where "t = a @ p @ b" unfolding includesStr_iff by blast
  then show "list_ex (\<lambda>i. startsWith (drop i t) p) [0..<Suc (length t)]"
    by (auto simp: list_ex_iff intro!: bexI [of _ "length a"])
qed

lemma decode_encodeCursor:
  "parse (stringify (cursorJson d i)) = Some (cursorJson d i) \<Longrightarrow>
   decodeCursor parse (encodeCursor d i) = Some \<lparr>dc_t = toISOString d, dc_id = intToString i\<rparr>"
  by (simp add: decodeCursor_def encodeCursor_def base64_roundtrip cursorJson_def)

text \<open>C27: a cursor the API hands out is read back as the position it stands for, provided the
  parser of the platform reads what \<open>JSON.stringify\<close> printed: the time and the row id of the last
  row of the page, for any time and any id.\<close>

theorem cursor_roundtrip:
  "parse (stringify (cursorJson d i)) = Some (cursorJson d i) \<Longrightarrow>
   map_option (\<lambda>c. (dc_t c, parseBigInt (dc_id c))) (decodeCursor parse (encodeCursor d i)) = Some (toISOString d, Some i)"
  by (simp add: decode_encodeCursor parseBigInt_int)

lemma cursor_roundtrip_witness:
  "map_option (\<lambda>c. (dc_t c, parseBigInt (dc_id c)))
     (decodeCursor (\<lambda>s. if s = stringify (cursorJson 86400000 42) then Some (cursorJson 86400000 42) else None) (encodeCursor 86400000 42)) =
   Some (toISOString 86400000, Some 42)"
  by (rule cursor_roundtrip) simp

text \<open>A search text is matched as itself: with its wildcards escaped, the pattern of the
  query accepts exactly the names that contain it, whatever signs it holds.\<close>

theorem search_is_substring:
  "sqlLike (toLowerCase (''%'' @ escapeLikePattern s @ ''%'')) (toLowerCase t) = includesStr (toLowerCase t) (toLowerCase s)"
proof -
  have "toLowerCase (''%'' @ escapeLikePattern s @ ''%'') = CHR ''%'' # toLowerCase (escapeLikePattern s) @ ''%''"
    by (simp add: toLowerCase_def toLowerC_def)
  then show ?thesis using startsWith_drop by (simp add: sqlLike_escaped)
qed

end
