(* ===== verification/ReviewsApi.thy ===== *)
theory ReviewsApi
  imports Cursor "HOL-Library.Product_Lexorder" "HOL-Library.Sublist"
begin

text \<open>
  The listings of reviews of the dashboard API: \<open>GET /reviews\<close> and \<open>GET /reviews/:id\<close>
  of \<open>server/src/api/reviews.ts\<close>, and \<open>GET /repos/:id/reviews\<close> of \<open>repos.ts\<close>.
  A reply is the status with the error code or the typed body.  The rows of
  \<open>review_eval_event\<close> carry the database's time in microseconds, which the client
  library cuts to the millisecond of a \<open>Date\<close>.  The parsers of the platform
  (\<open>JSON.parse\<close>, \<open>Date\<close>) and the check of an ISO time are parameters.
\<close>

type_synonym 'b reply = "nat \<times> (string + 'b)"

abbreviation internalError :: "'b reply" where "internalError \<equiv> (500, Inl ''Internal Server Error'')"

section \<open>The tables\<close>

record RepoRow =
  rp_id :: string
  rp_platform :: Platform
  rp_name :: string
  rp_enabled :: bool
  rp_systemPrompt :: "string option"
  rp_systemPromptUpdatedAt :: "Date option"
  rp_createdAt :: Date
  rp_updatedAt :: Date
  rp_deletedAt :: "Date option"
  rp_installationId :: "int option"

record EvalEventRow =
  ee_id :: int
  ee_repo :: string
  ee_prNumber :: int
  ee_jobId :: string
  ee_abortReason :: "string option"
  ee_costUsd :: rat
  ee_latencyMs :: int
  ee_createdAtUs :: int
  ee_provider :: string
  ee_model :: string
  ee_tokensInput :: int
  ee_tokensOutput :: int

text \<open>The \<open>Date\<close> a column is read as, and the time a \<open>Date\<close> is compared as.\<close>

definition ee_createdAt :: "EvalEventRow \<Rightarrow> Date" where
  "ee_createdAt r = ee_createdAtUs r div 1000"

definition dateUs :: "Date \<Rightarrow> int" where "dateUs d = d * 1000"

record ApiPlatform =
  ap_parseJson :: "string \<Rightarrow> json option"
  ap_parseDate :: "string \<Rightarrow> Date option"
  ap_isDatetime :: "string \<Rightarrow> bool"
  ap_now :: Date
  ap_awsRegion :: string

record ApiTables =
  at_repos :: "RepoRow list"
  at_events :: "EvalEventRow list"

section \<open>Replies\<close>

record ApiReviewEvent =
  re_id :: string
  re_repoId :: string
  re_repoName :: string
  re_platform :: Platform
  re_prNumber :: int
  re_prTitle :: string
  re_outcome :: ReviewOutcome
  re_costUsd :: rat
  re_durationMs :: int
  re_createdAt :: string

record ApiReviewDetail = ApiReviewEvent +
  rd_summary :: "string option"
  rd_tokens :: "int \<times> int \<times> int"
  rd_queuedAt :: string
  rd_provider :: "string \<times> string"
  rd_systemPromptAtReview :: "string option"
  rd_externalUrl :: string

record ReviewPage =
  pg_items :: "ApiReviewEvent list"
  pg_nextCursor :: "string option"

definition reviewEvent :: "string \<Rightarrow> Platform \<Rightarrow> EvalEventRow \<Rightarrow> ApiReviewEvent" where
  "reviewEvent repoId platform r =
     \<lparr>re_id = intToString (ee_id r), re_repoId = repoId, re_repoName = ee_repo r, re_platform = platform,
      re_prNumber = ee_prNumber r, re_prTitle = ee_jobId r, re_outcome = deriveOutcome (ee_abortReason r),
      re_costUsd = ee_costUsd r, re_durationMs = ee_latencyMs r, re_createdAt = toISOString (ee_createdAt r)\<rparr>"

section \<open>The statement and its cursor\<close>

text \<open>\<open>ORDER BY created_at DESC, id DESC LIMIT limit + 1\<close>; a fractional limit is refused by the database.\<close>

definition newestEvents :: "EvalEventRow list \<Rightarrow> EvalEventRow list" where
  "newestEvents rows = sort_key (\<lambda>r. (- ee_createdAtUs r, - ee_id r)) rows"

definition olderThan :: "Date \<times> int \<Rightarrow> EvalEventRow \<Rightarrow> bool" where
  "olderThan c r = (ee_createdAtUs r < dateUs (fst c) \<or> (ee_createdAtUs r = dateUs (fst c) \<and> ee_id r < snd c))"

definition intLimit :: "rat \<Rightarrow> nat option" where
  "intLimit limit = (if of_int (floor limit) = limit then Some (nat (floor limit)) else None)"

definition readCursor :: "ApiPlatform \<Rightarrow> string option \<Rightarrow> ((Date \<times> int) option) reply" where
  "readCursor ap cursor =
     (case cursor of
        None \<Rightarrow> (200, Inr None)
      | Some s \<Rightarrow>
          (case decodeCursor (ap_parseJson ap) s of
             None \<Rightarrow> (400, Inl ''invalid_cursor'')
           | Some decoded \<Rightarrow>
               (case ap_parseDate ap (dc_t decoded) of
                  None \<Rightarrow> (400, Inl ''invalid_cursor'')
                | Some ts \<Rightarrow>
                    (case parseBigInt (dc_id decoded) of None \<Rightarrow> internalError | Some i \<Rightarrow> (200, Inr (Some (ts, i)))))))"

definition nextCursor :: "bool \<Rightarrow> EvalEventRow list \<Rightarrow> string option" where
  "nextCursor hasMore pageRows =
     (if hasMore \<and> pageRows \<noteq> [] then Some (encodeCursor (ee_createdAt (last pageRows)) (ee_id (last pageRows))) else None)"

section \<open>\<open>GET /repos/:id/reviews\<close>\<close>

definition activeRepo :: "string \<Rightarrow> RepoRow list \<Rightarrow> RepoRow option" where
  "activeRepo i rows = find (\<lambda>r. rp_id r = i \<and> rp_deletedAt r = None) rows"

definition listRepoReviews :: "ApiPlatform \<Rightarrow> string \<Rightarrow> Query \<Rightarrow> ApiTables \<Rightarrow> ReviewPage reply" where
  "listRepoReviews ap i q db =
     (case activeRepo i (at_repos db) of
        None \<Rightarrow> (404, Inl ''not_found'')
      | Some repo \<Rightarrow>
          (case reviewsQuerySchema (ap_isDatetime ap) (\<lambda>k. if k \<in> {''limit'', ''cursor''} then q k else None) of
             None \<Rightarrow> (422, Inl ''validation_error'')
           | Some parsed \<Rightarrow>
               (case readCursor ap (rq_cursor parsed) of
                  (status, Inl e) \<Rightarrow> (status, Inl e)
                | (_, Inr cursor) \<Rightarrow>
                    (case intLimit (rq_limit parsed) of
                       None \<Rightarrow> internalError
                     | Some limit \<Rightarrow>
                         (let rows = take (limit + 1) (newestEvents (filter (\<lambda>r. ee_repo r = rp_name repo \<and>
                                        (case cursor of None \<Rightarrow> True | Some c \<Rightarrow> olderThan c r)) (at_events db)));
                              hasMore = limit < length rows;
                              pageRows = (if hasMore then take limit rows else rows)
                          in (200, Inr \<lparr>pg_items = map (reviewEvent i (rp_platform repo)) pageRows,
                                        pg_nextCursor = nextCursor hasMore pageRows\<rparr>))))))"

section \<open>\<open>GET /reviews\<close>\<close>

record ReviewList = ReviewPage +
  pg_total :: nat

definition repoByName :: "RepoRow list \<Rightarrow> string \<Rightarrow> RepoRow option" where
  "repoByName rows = map_of (rev (map (\<lambda>r. (rp_name r, r)) (filter (\<lambda>r. rp_deletedAt r = None) rows)))"

definition matchesQuery :: "Date option \<Rightarrow> string option \<Rightarrow> EvalEventRow \<Rightarrow> bool" where
  "matchesQuery since repoQuery r =
     ((case since of None \<Rightarrow> True | Some d \<Rightarrow> dateUs d \<le> ee_createdAtUs r) \<and>
      (case repoQuery of None \<Rightarrow> True
       | Some s \<Rightarrow> trim s = [] \<or>
           sqlLike (toLowerCase (''%'' @ escapeLikePattern (trim s) @ ''%'')) (toLowerCase (ee_repo r))))"

definition keepRow :: "ReviewsQuery \<Rightarrow> RepoRow \<times> EvalEventRow \<Rightarrow> bool" where
  "keepRow parsed = (\<lambda>(repo, r).
     (case rq_platform parsed of None \<Rightarrow> True | Some p \<Rightarrow> rp_platform repo = p) \<and>
     (case rq_outcome parsed of None \<Rightarrow> True | Some out \<Rightarrow> deriveOutcome (ee_abortReason r) = out))"

definition richRows :: "RepoRow list \<Rightarrow> EvalEventRow list \<Rightarrow> (RepoRow \<times> EvalEventRow) list" where
  "richRows repos rows = List.map_filter (\<lambda>r. map_option (\<lambda>repo. (repo, r)) (repoByName repos (ee_repo r))) rows"

definition countsFor :: "ReviewOutcome option \<Rightarrow> EvalEventRow \<Rightarrow> bool" where
  "countsFor outcome r =
     (case outcome of None \<Rightarrow> True | Some Failed \<Rightarrow> ee_abortReason r \<noteq> None | Some _ \<Rightarrow> ee_abortReason r = None)"

definition listReviews :: "ApiPlatform \<Rightarrow> Query \<Rightarrow> ApiTables \<Rightarrow> ReviewList reply" where
  "listReviews ap q db =
     (case reviewsQuerySchema (ap_isDatetime ap) q of
        None \<Rightarrow> (422, Inl ''validation_error'')
      | Some parsed \<Rightarrow>
          (case readCursor ap (rq_cursor parsed) of
             (status, Inl e) \<Rightarrow> (status, Inl e)
           | (_, Inr cursor) \<Rightarrow>
               (case intLimit (rq_limit parsed) of
                  None \<Rightarrow> internalError
                | Some limit \<Rightarrow>
                    (let sinceDate = map_option (\<lambda>s. resolveSince (ap_parseDate ap) s (ap_now ap)) (rq_since parsed) in
                     if sinceDate = Some None then internalError else
                     let since = Option.bind sinceDate id;
                         rows = take (limit + 1) (newestEvents (filter (\<lambda>r. (case cursor of None \<Rightarrow> True | Some c \<Rightarrow> olderThan c r) \<and>
                                  matchesQuery since (rq_repoQuery parsed) r) (at_events db)));
                         filtered = filter (keepRow parsed) (richRows (at_repos db) rows);
                         hasMore = limit < length filtered;
                         pageRows = (if hasMore then take limit filtered else filtered)
                     in (200, Inr \<lparr>pg_items = map (\<lambda>(repo, r). reviewEvent (rp_id repo) (rp_platform repo) r) pageRows,
                                   pg_nextCursor = nextCursor hasMore (map snd pageRows),
                                   pg_total = length (filter (\<lambda>r. matchesQuery since (rq_repoQuery parsed) r \<and>
                                     countsFor (rq_outcome parsed) r) (at_events db))\<rparr>)))))"

section \<open>\<open>GET /reviews/:id\<close>\<close>

definition buildExternalUrl :: "Platform \<Rightarrow> string \<Rightarrow> int \<Rightarrow> string \<Rightarrow> string" where
  "buildExternalUrl platform repoName prNumber awsRegion =
     (case platform of
        Github \<Rightarrow> ''https://github.com/'' @ repoName @ ''/pull/'' @ intToString prNumber
      | Codecommit \<Rightarrow> ''https://console.aws.amazon.com/codesuite/codecommit/repositories/'' @ repoName @
          ''/pull-requests/'' @ intToString prNumber @ ''?region='' @ awsRegion)"

definition getReview :: "ApiPlatform \<Rightarrow> string \<Rightarrow> ApiTables \<Rightarrow> ApiReviewDetail reply" where
  "getReview ap idParam db =
     (case parseBigInt idParam of
        None \<Rightarrow> (404, Inl ''not_found'')
      | Some rowId \<Rightarrow>
          (case find (\<lambda>r. ee_id r = rowId) (at_events db) of
             None \<Rightarrow> (404, Inl ''not_found'')
           | Some r \<Rightarrow>
               (let repoRow = find (\<lambda>p. rp_name p = ee_repo r) (at_repos db);
                    platform = (case repoRow of Some p \<Rightarrow> rp_platform p | None \<Rightarrow> Github)
                in (200, Inr (ApiReviewEvent.extend
                     (reviewEvent (case repoRow of Some p \<Rightarrow> rp_id p | None \<Rightarrow> ee_repo r) platform r)
                     \<lparr>rd_summary = ee_abortReason r,
                      rd_tokens = (ee_tokensInput r, ee_tokensOutput r, ee_tokensInput r + ee_tokensOutput r),
                      rd_queuedAt = toISOString (ee_createdAt r), rd_provider = (ee_provider r, ee_model r),
                      rd_systemPromptAtReview = Option.bind repoRow rp_systemPrompt,
                      rd_externalUrl = buildExternalUrl platform (ee_repo r) (ee_prNumber r) (ap_awsRegion ap)\<rparr>)))))"

section \<open>Walking the pages\<close>

text \<open>A client that follows \<open>nextCursor\<close> until it is absent; \<open>None\<close> is an error or missing fuel.\<close>

fun walkPages :: "nat \<Rightarrow> (string option \<Rightarrow> ReviewPage reply) \<Rightarrow> string option \<Rightarrow> ApiReviewEvent list option" where
  "walkPages 0 page cursor = None"
| "walkPages (Suc fuel) page cursor =
     (case page cursor of
        (_, Inl _) \<Rightarrow> None
      | (_, Inr p) \<Rightarrow>
          (case pg_nextCursor p of
             None \<Rightarrow> Some (pg_items p)
           | Some c \<Rightarrow> map_option ((@) (pg_items p)) (walkPages fuel page (Some c))))"

definition pageQuery :: "string option \<Rightarrow> string option \<Rightarrow> Query" where
  "pageQuery limit cursor k = (if k = ''limit'' then limit else if k = ''cursor'' then cursor else None)"

definition rowKey :: "EvalEventRow \<Rightarrow> int \<times> int" where
  "rowKey r = (- ee_createdAtUs r, - ee_id r)"

text \<open>The platform reads back the cursor of a row.\<close>

definition cursorRead :: "ApiPlatform \<Rightarrow> EvalEventRow \<Rightarrow> bool" where
  "cursorRead ap r =
     (ap_parseJson ap (stringify (cursorJson (ee_createdAt r) (ee_id r))) = Some (cursorJson (ee_createdAt r) (ee_id r)) \<and>
      ap_parseDate ap (toISOString (ee_createdAt r)) = Some (ee_createdAt r))"

lemma newestEvents_key: "newestEvents rows = sort_key rowKey rows"
  by (simp add: newestEvents_def rowKey_def [abs_def])

lemma filter_newestEvents: "newestEvents (filter P rows) = filter P (newestEvents rows)"
  by (simp add: newestEvents_key filter_sort)

lemma set_newestEvents [simp]: "set (newestEvents rows) = set rows"
  by (simp add: newestEvents_key)

lemma newestEvents_strict:
  assumes "distinct (map ee_id rows)"
  shows "sorted_wrt (\<lambda>a b. rowKey a < rowKey b) (newestEvents rows)"
proof -
  have "distinct rows" "inj_on rowKey (set rows)"
    using assms by (auto simp: distinct_map rowKey_def inj_on_def)
  then have "distinct (map rowKey (newestEvents rows))" by (simp add: distinct_map newestEvents_key)
  then have "sorted_wrt (<) (map rowKey (newestEvents rows))"
    by (simp add: newestEvents_key strict_sorted_iff)
  then show ?thesis by (simp add: sorted_wrt_map)
qed

text \<open>What the cursor of one row selects: never the row itself or a newer one; of the older ones, all
  but those of its millisecond whose fraction it cut off.\<close>

abbreviation behind :: "EvalEventRow \<Rightarrow> EvalEventRow \<Rightarrow> bool" where
  "behind l \<equiv> olderThan (ee_createdAt l, ee_id l)"

lemma cut_le: "dateUs (ee_createdAt l) \<le> ee_createdAtUs l"
  by (simp add: dateUs_def ee_createdAt_def mult.commute)

lemma behind_key: "behind l r \<Longrightarrow> rowKey l < rowKey r"
  using cut_le [of l] by (auto simp: olderThan_def rowKey_def less_prod_def)

lemma behind_self [simp]: "\<not> behind l l"
  using behind_key [of l l] by auto

lemma behind_trans: "behind l l' \<Longrightarrow> behind l' r \<Longrightarrow> behind l r"
  using cut_le [of l'] by (auto simp: olderThan_def dateUs_def ee_createdAt_def)

lemma not_behind:
  assumes "rowKey l < rowKey r" "\<not> behind l r"
  shows "ee_createdAt r = ee_createdAt l \<and> ee_createdAtUs r \<le> ee_createdAtUs l"
proof -
  have "dateUs (ee_createdAt l) \<le> ee_createdAtUs r" using assms(2) by (auto simp: olderThan_def)
  moreover have le: "ee_createdAtUs r \<le> ee_createdAtUs l" using assms(1) by (auto simp: rowKey_def less_prod_def)
  ultimately have "ee_createdAtUs l div 1000 \<le> ee_createdAtUs r div 1000"
    by (metis dateUs_def ee_createdAt_def nonzero_mult_div_cancel_right zdiv_mono1 zero_less_numeral zero_neq_numeral)
  then show ?thesis using le zdiv_mono1 [OF le, of 1000] by (simp add: ee_createdAt_def)
qed

text \<open>The rows a walk lists: a full page, then what the cursor of its last row selects.\<close>

function walked :: "nat \<Rightarrow> EvalEventRow list \<Rightarrow> EvalEventRow list" where
  "walked n s = (if length s \<le> n \<or> n = 0 then s else take n s @ walked n (filter (behind (last (take n s))) s))"
  by pat_completeness auto
termination
proof (relation "measure (\<lambda>(n, s). length s)")
  fix n and s :: "EvalEventRow list"
  assume "\<not> (length s \<le> n \<or> n = 0)"
  then have "take n s \<noteq> []" by auto
  then have "last (take n s) \<in> set s" by (meson in_set_takeD last_in_set)
  then have "length (filter (behind (last (take n s))) s) < length s" by (rule length_filter_less) simp
  then show "((n, filter (behind (last (take n s))) s), (n, s)) \<in> measure (\<lambda>(n, s). length s)"
    by simp
qed simp

declare walked.simps [simp del]

lemma walked_step:
  assumes "sorted_wrt (\<lambda>a b. rowKey a < rowKey b) s" "n < length s" "0 < n"
  shows "filter (behind (last (take n s))) s = filter (behind (last (take n s))) (drop n s)"
proof -
  let ?l = "last (take n s)"
  have ne: "take n s \<noteq> []" using assms(2,3) by auto
  have sorted: "sorted_wrt (\<lambda>a b. rowKey a < rowKey b) (butlast (take n s) @ [?l])"
    using sorted_wrt_take [OF assms(1), of n] by (simp only: append_butlast_last_id [OF ne])
  have "\<not> behind ?l r" if "r \<in> set (take n s)" for r
  proof -
    have "r \<in> set (butlast (take n s)) \<or> r = ?l"
      using that append_butlast_last_id [OF ne] by (metis UnE empty_iff insertE list.set(1) list.set(2) set_append)
    then have "rowKey r \<le> rowKey ?l" using sorted by (auto simp: sorted_wrt_append intro: less_imp_le)
    then show ?thesis using behind_key [of ?l r] by (auto dest: less_le_trans)
  qed
  then have "filter (behind ?l) (take n s) = []" by (simp add: filter_empty_conv)
  then show ?thesis by (metis append_Nil append_take_drop_id filter_append)
qed

lemma walked_spec:
  assumes "sorted_wrt (\<lambda>a b. rowKey a < rowKey b) s" "0 < n"
  shows "subseq (walked n s) s \<and>
    (\<forall>r \<in> set s - set (walked n s). \<exists>k < length (walked n s). Suc k mod n = 0 \<and>
       ee_createdAt (walked n s ! k) = ee_createdAt r \<and> ee_createdAtUs r \<le> ee_createdAtUs (walked n s ! k))"
  using assms
proof (induction n s rule: walked.induct)
  case (1 n s)
  show ?case
  proof (cases "length s \<le> n")
    case True
    then show ?thesis by (simp add: walked.simps [of n s])
  next
    case False
    then have n: "n < length s" by simp
    let ?l = "last (take n s)"
    let ?rest = "walked n (filter (behind ?l) s)"
    have w: "walked n s = take n s @ ?rest" using False 1(3) by (subst walked.simps) simp
    have len: "length (take n s) = n" using n by simp
    have sorted: "sorted_wrt (\<lambda>a b. rowKey a < rowKey b) (filter (behind ?l) s)" using 1(2) by (rule sorted_wrt_filter)
    have IH: "subseq ?rest (filter (behind ?l) s)"
      "\<forall>r \<in> set (filter (behind ?l) s) - set ?rest. \<exists>k < length ?rest. Suc k mod n = 0 \<and>
         ee_createdAt (?rest ! k) = ee_createdAt r \<and> ee_createdAtUs r \<le> ee_createdAtUs (?rest ! k)"
      using 1(1) [OF _ sorted 1(3)] False 1(3) by auto
    have "subseq ?rest (drop n s)"
      using IH(1) walked_step [OF 1(2) n 1(3)] by (metis subseq_filter_left subseq_order.order_trans)
    then have "subseq (take n s @ ?rest) (take n s @ drop n s)" by (simp only: subseq_append_iff [symmetric] list_emb_append_mono subseq_order.order_refl)
    then have sub: "subseq (walked n s) s" by (simp add: w)
    have "\<exists>k < length (walked n s). Suc k mod n = 0 \<and> ee_createdAt (walked n s ! k) = ee_createdAt r \<and>
        ee_createdAtUs r \<le> ee_createdAtUs (walked n s ! k)" if r: "r \<in> set s" "r \<notin> set (walked n s)" for r
    proof (cases "behind ?l r")
      case True
      then obtain k where "k < length ?rest" "Suc k mod n = 0" "ee_createdAt (?rest ! k) = ee_createdAt r"
        "ee_createdAtUs r \<le> ee_createdAtUs (?rest ! k)"
        using bspec [OF IH(2), of r] r by (auto simp: w)
      then show ?thesis using len by (intro exI [of _ "n + k"]) (simp add: w nth_append mod_simps flip: add_Suc_right)
    next
      case False
      have "r \<in> set (drop n s)" using r by (metis w UnE append_take_drop_id set_append UnI1)
      moreover have "?l \<in> set (take n s)" using n 1(3) by (intro last_in_set) auto
      ultimately have "rowKey ?l < rowKey r"
        using 1(2) by (metis append_take_drop_id sorted_wrt_append)
      then have "ee_createdAt r = ee_createdAt ?l" "ee_createdAtUs r \<le> ee_createdAtUs ?l"
        using not_behind [OF _ False] by auto
      moreover have "?l = take n s ! (n - 1)" using len 1(3) by (subst last_conv_nth) auto
      then have "walked n s ! (n - 1) = ?l" using len 1(3) by (simp add: w nth_append)
      ultimately show ?thesis using len 1(3) by (intro exI [of _ "n - 1"]) (simp add: w)
    qed
    then show ?thesis using sub by blast
  qed
qed

definition repoEvents :: "string \<Rightarrow> ApiTables \<Rightarrow> EvalEventRow list" where
  "repoEvents name db = newestEvents (filter (\<lambda>r. ee_repo r = name) (at_events db))"

definition listable :: "ApiPlatform \<Rightarrow> ApiTables \<Rightarrow> bool" where
  "listable ap db = (distinct (map ee_id (at_events db)) \<and> list_all (cursorRead ap) (at_events db))"

definition cursorAfter :: "EvalEventRow list \<Rightarrow> string option" where
  "cursorAfter p = (if p = [] then None else Some (encodeCursor (ee_createdAt (last p)) (ee_id (last p))))"

lemma readCursor_encoded: "cursorRead ap r \<Longrightarrow>
    readCursor ap (Some (encodeCursor (ee_createdAt r) (ee_id r))) = (200, Inr (Some (ee_createdAt r, ee_id r)))"
  by (simp add: readCursor_def cursorRead_def decode_encodeCursor parseBigInt_int)

lemma pageQuery_parsed:
  "reviewsQuerySchema d (\<lambda>k. if k \<in> {''limit'', ''cursor''} then pageQuery l c k else None) =
   Some \<lparr>rq_limit = queryLimit l, rq_cursor = c, rq_platform = None, rq_outcome = None, rq_repoQuery = None, rq_since = None\<rparr>"
  by (simp add: reviewsQuerySchema_def pageQuery_def validOr_def)

text \<open>The rows a page is cut from, by the row its cursor names.\<close>

definition remaining :: "EvalEventRow option \<Rightarrow> EvalEventRow list \<Rightarrow> EvalEventRow list" where
  "remaining l rows = (case l of None \<Rightarrow> rows | Some l \<Rightarrow> filter (behind l) rows)"

definition cursorOf :: "EvalEventRow option \<Rightarrow> string option" where
  "cursorOf l = map_option (\<lambda>l. encodeCursor (ee_createdAt l) (ee_id l)) l"

lemma repoEvents_strict: "listable ap db \<Longrightarrow> sorted_wrt (\<lambda>a b. rowKey a < rowKey b) (repoEvents name db)"
  unfolding repoEvents_def by (rule newestEvents_strict) (simp add: listable_def distinct_map_filter)

lemma page_after:
  assumes "activeRepo i (at_repos db) = Some repo" "listable ap db" "intLimit (queryLimit l) = Some n"
    and "set_option r \<subseteq> set (repoEvents (rp_name repo) db)" "s = remaining r (repoEvents (rp_name repo) db)"
  shows "listRepoReviews ap i (pageQuery l (cursorOf r)) db =
    (200, Inr \<lparr>pg_items = map (reviewEvent i (rp_platform repo)) (take n s),
               pg_nextCursor = (if n < length s then nextCursor True (take n s) else None)\<rparr>)"
proof -
  obtain cursor where c: "readCursor ap (cursorOf r) = (200, Inr cursor)"
    and f: "newestEvents (filter (\<lambda>r. ee_repo r = rp_name repo \<and> (case cursor of None \<Rightarrow> True | Some c \<Rightarrow> olderThan c r)) (at_events db)) = s"
  proof (cases r)
    case None
    then show ?thesis using assms(5)
      by (intro that [of None]) (simp_all add: cursorOf_def readCursor_def repoEvents_def remaining_def)
  next
    case (Some x)
    then have "cursorRead ap x" using assms(2,4) by (auto simp: listable_def list_all_iff repoEvents_def)
    moreover have "newestEvents (filter (\<lambda>r. ee_repo r = rp_name repo \<and> behind x r) (at_events db)) =
        filter (behind x) (repoEvents (rp_name repo) db)"
      unfolding repoEvents_def filter_newestEvents [symmetric] by (simp add: conj_commute)
    ultimately show ?thesis using Some assms(5)
      by (intro that [of "Some (ee_createdAt x, ee_id x)"]) (simp_all add: cursorOf_def readCursor_encoded remaining_def)
  qed
  show ?thesis
    unfolding listRepoReviews_def assms(1) pageQuery_parsed
    by (auto simp: c assms(3) f Let_def nextCursor_def min_def)
qed

lemma remaining_next:
  assumes "x \<in> set (remaining r rows)"
  shows "remaining (Some x) rows = filter (behind x) (remaining r rows)"
proof (cases r)
  case (Some y)
  then have "behind y x" using assms by (simp add: remaining_def)
  then have "filter (behind x) rows = filter (\<lambda>z. behind y z \<and> behind x z) rows"
    using behind_trans by (intro filter_cong refl) blast
  then show ?thesis using Some by (simp add: remaining_def)
qed (simp add: remaining_def)

lemma walk_after:
  assumes "activeRepo i (at_repos db) = Some repo" "listable ap db" "intLimit (queryLimit l) = Some n" "0 < n"
    and "set_option r \<subseteq> set (repoEvents (rp_name repo) db)"
    and "length (remaining r (repoEvents (rp_name repo) db)) < fuel"
  shows "walkPages fuel (\<lambda>c. listRepoReviews ap i (pageQuery l c) db) (cursorOf r) =
    Some (map (reviewEvent i (rp_platform repo)) (walked n (remaining r (repoEvents (rp_name repo) db))))"
  using assms(5,6)
proof (induction fuel arbitrary: r)
  case 0
  then show ?case by simp
next
  case (Suc fuel)
  let ?s = "remaining r (repoEvents (rp_name repo) db)"
  note page = page_after [OF assms(1-3) Suc.prems(1) refl]
  show ?case
  proof (cases "n < length ?s")
    case False
    then show ?thesis by (simp add: page walked.simps [of n ?s])
  next
    case True
    let ?x = "last (take n ?s)"
    have ne: "take n ?s \<noteq> []" using True assms(4) by auto
    then have x: "?x \<in> set ?s" by (meson in_set_takeD last_in_set)
    then have mem: "?x \<in> set (repoEvents (rp_name repo) db)" by (auto simp: remaining_def split: option.splits)
    note rem = remaining_next [OF x]
    have "length (filter (behind ?x) ?s) < length ?s" using x by (rule length_filter_less) simp
    then have "length (remaining (Some ?x) (repoEvents (rp_name repo) db)) < fuel" using Suc.prems(2) rem by simp
    then have "walkPages fuel (\<lambda>c. listRepoReviews ap i (pageQuery l c) db) (cursorOf (Some ?x)) =
      Some (map (reviewEvent i (rp_platform repo)) (walked n (filter (behind ?x) ?s)))"
      using Suc.IH [of "Some ?x"] mem rem by simp
    moreover obtain c where c: "cursorOf (Some ?x) = Some c" by (simp add: cursorOf_def)
    moreover have "nextCursor True (take n ?s) = cursorOf (Some ?x)" using ne by (simp add: nextCursor_def cursorOf_def)
    ultimately show ?thesis using True assms(4)
      by (simp add: page walked.simps [of n ?s])
  qed
qed

lemma queryLimit_pos: "intLimit (queryLimit l) = Some n \<Longrightarrow> 0 < n"
proof -
  assume n: "intLimit (queryLimit l) = Some n"
  have "1 \<le> queryLimit l" by (simp add: queryLimit_def split: option.splits)
  then have "1 \<le> floor (queryLimit l)" by (simp add: le_floor_iff)
  then show ?thesis using n by (auto simp: intLimit_def split: if_splits)
qed

lemma walk_lists:
  assumes "activeRepo i (at_repos db) = Some repo" "listable ap db" "intLimit (queryLimit l) = Some n"
  shows "walkPages (length (at_events db) + 1) (\<lambda>c. listRepoReviews ap i (pageQuery l c) db) None =
    Some (map (reviewEvent i (rp_platform repo)) (walked n (repoEvents (rp_name repo) db)))"
proof -
  have "length (repoEvents (rp_name repo) db) < length (at_events db) + 1"
    by (simp add: repoEvents_def newestEvents_key less_Suc_eq_le)
  then show ?thesis
    using walk_after [OF assms queryLimit_pos [OF assms(3)], of None] by (simp add: remaining_def cursorOf_def del: walkPages.simps)
qed

lemma subseq_distinct: "subseq xs ys \<Longrightarrow> distinct ys \<Longrightarrow> distinct xs"
  by (metis distinct_nthsI subseq_conv_nths)

text \<open>C28: following the cursors of a repository's reviews ends, whatever the page size, and lists
  reviews of the repository only, newest first and none of them twice.  What it leaves out, on a table
  that does not change meanwhile, are reviews stamped in the same millisecond as the last review of a
  full page, and not later than it: the rows are stamped in microseconds and the cursor holds the
  millisecond.\<close>

theorem repo_reviews_walk_complete:
  assumes "activeRepo i (at_repos db) = Some repo" "listable ap db" "intLimit (queryLimit l) = Some n"
  shows "\<exists>listed. walkPages (length (at_events db) + 1) (\<lambda>c. listRepoReviews ap i (pageQuery l c) db) None =
      Some (map (reviewEvent i (rp_platform repo)) listed) \<and>
    subseq listed (repoEvents (rp_name repo) db) \<and> distinct listed \<and>
    (\<forall>r \<in> set (repoEvents (rp_name repo) db) - set listed. \<exists>k < length listed. Suc k mod n = 0 \<and>
       ee_createdAt (listed ! k) = ee_createdAt r \<and> ee_createdAtUs r \<le> ee_createdAtUs (listed ! k))"
proof -
  note spec = walked_spec [OF repoEvents_strict [OF assms(2)] queryLimit_pos [OF assms(3)], of "rp_name repo"]
  have "distinct (map ee_id (filter (\<lambda>r. ee_repo r = rp_name repo) (at_events db)))"
    using assms(2) by (simp add: listable_def distinct_map_filter)
  then have "distinct (repoEvents (rp_name repo) db)" by (simp add: repoEvents_def newestEvents_key distinct_map)
  then have "distinct (walked n (repoEvents (rp_name repo) db))" using spec by (blast intro: subseq_distinct)
  then show ?thesis using walk_lists [OF assms] spec by blast
qed

section \<open>Where a walk misses rows\<close>

text \<open>The cursor holds milliseconds while the rows hold microseconds: two reviews of a
  repository stamped within one millisecond, listed one to a page, come out as one.  The second page
  starts before the millisecond of the cursor, so the older of the two is never listed.\<close>

theorem walk_skips_same_millisecond:
  assumes "activeRepo i (at_repos db) = Some repo" "at_events db = [a, b]"
    "ee_repo a = rp_name repo" "ee_repo b = rp_name repo" "cursorRead ap a"
    "dateUs (ee_createdAt a) < ee_createdAtUs b" "ee_createdAtUs b < ee_createdAtUs a" "intLimit (queryLimit l) = Some 1"
  shows "walkPages (Suc (Suc fuel)) (\<lambda>c. listRepoReviews ap i (pageQuery l c) db) None = Some [reviewEvent i (rp_platform repo) a]"
proof -
  have "dateUs (ee_createdAt a) < ee_createdAtUs a" using assms(6,7) by simp
  then have o: "\<not> olderThan (ee_createdAt a, ee_id a) a" "\<not> olderThan (ee_createdAt a, ee_id a) b"
    using assms(6) by (simp_all add: olderThan_def)
  have n: "newestEvents [a, b] = [a, b]" using assms(7) by (simp add: newestEvents_key rowKey_def)
  have 1: "listRepoReviews ap i (pageQuery l None) db =
      (200, Inr \<lparr>pg_items = [reviewEvent i (rp_platform repo) a], pg_nextCursor = cursorAfter [a]\<rparr>)"
    unfolding listRepoReviews_def assms(1) pageQuery_parsed
    by (simp add: readCursor_def assms n Let_def nextCursor_def cursorAfter_def)
  have 2: "listRepoReviews ap i (pageQuery l (cursorAfter [a])) db =
      (200, Inr \<lparr>pg_items = [], pg_nextCursor = None\<rparr>)"
    unfolding listRepoReviews_def assms(1) pageQuery_parsed
    by (simp add: cursorAfter_def readCursor_encoded assms(5) assms(2-4,8) o newestEvents_key Let_def nextCursor_def)
  obtain c where "cursorAfter [a] = Some c" by (simp add: cursorAfter_def)
  then show ?thesis using 1 2 by simp
qed

text \<open>The filtered list of all reviews can end early: when one of the rows fetched for the
  first page is dropped by the platform or outcome filter, or belongs to no registered repository,
  the page carries no cursor, however many matching rows are left behind it; the total still counts them.\<close>

theorem review_list_ends_early:
  assumes "reviewsQuerySchema (ap_isDatetime ap) q = Some parsed" "rq_cursor parsed = None" "rq_since parsed = None"
    "rq_repoQuery parsed = None" "intLimit (rq_limit parsed) = Some n"
    "dropped \<in> set (take (n + 1) (newestEvents (at_events db)))" "filter (keepRow parsed) (richRows (at_repos db) [dropped]) = []"
  shows "case listReviews ap q db of
    (status, Inr pg) \<Rightarrow> pg_nextCursor pg = None \<and> length (pg_items pg) \<le> n \<and>
      pg_total pg = length (filter (countsFor (rq_outcome parsed)) (at_events db))
    | _ \<Rightarrow> False"
proof -
  let ?rows = "take (n + 1) (newestEvents (at_events db))"
  obtain x y where xy: "?rows = x @ dropped # y" using assms(6) by (meson split_list)
  have app: "richRows (at_repos db) (u @ v) = richRows (at_repos db) u @ richRows (at_repos db) v" for u v
    by (simp add: richRows_def map_filter_def)
  have len: "length (filter P (richRows (at_repos db) u)) \<le> length u" for P u
    by (rule le_trans [OF length_filter_le]) (simp add: richRows_def map_filter_def)
  have "?rows = x @ [dropped] @ y" using xy by simp
  then have "filter (keepRow parsed) (richRows (at_repos db) ?rows) =
      filter (keepRow parsed) (richRows (at_repos db) x) @ filter (keepRow parsed) (richRows (at_repos db) y)"
    using assms(7) by (simp only: app filter_append append_Nil)
  moreover have "length x + length y \<le> n"
    using arg_cong [OF xy, of length] by simp
  ultimately have "length (filter (keepRow parsed) (richRows (at_repos db) ?rows)) \<le> n"
    using len [of "keepRow parsed" x] len [of "keepRow parsed" y] by simp
  then show ?thesis using assms(1-5)
    by (simp add: listReviews_def readCursor_def matchesQuery_def [abs_def] Let_def nextCursor_def not_less)
qed

section \<open>A small table\<close>

definition sampleEvent :: "int \<Rightarrow> int \<Rightarrow> EvalEventRow" where
  "sampleEvent i us = \<lparr>ee_id = i, ee_repo = ''o/r'', ee_prNumber = 7, ee_jobId = ''j'', ee_abortReason = None, ee_costUsd = 0,
     ee_latencyMs = 5, ee_createdAtUs = us, ee_provider = ''anthropic'', ee_model = ''m'', ee_tokensInput = 1, ee_tokensOutput = 1\<rparr>"

definition sampleRepo :: RepoRow where
  "sampleRepo = \<lparr>rp_id = ''id'', rp_platform = Github, rp_name = ''o/r'', rp_enabled = True, rp_systemPrompt = None,
     rp_systemPromptUpdatedAt = None, rp_createdAt = 0, rp_updatedAt = 0, rp_deletedAt = None, rp_installationId = None\<rparr>"

definition sampleTables :: "EvalEventRow list \<Rightarrow> ApiTables" where
  "sampleTables rows = \<lparr>at_repos = [sampleRepo], at_events = rows\<rparr>"

definition sampleApi :: "EvalEventRow list \<Rightarrow> ApiPlatform" where
  "sampleApi rows =
     \<lparr>ap_parseJson = map_of (map (\<lambda>r. (stringify (cursorJson (ee_createdAt r) (ee_id r)), cursorJson (ee_createdAt r) (ee_id r))) rows),
      ap_parseDate = map_of (map (\<lambda>r. (toISOString (ee_createdAt r), ee_createdAt r)) rows),
      ap_isDatetime = (\<lambda>_. True), ap_now = 0, ap_awsRegion = ''us-east-1''\<rparr>"

lemma small_texts: "intToString 1 = ''1''" "intToString 2 = ''2''"
  by (simp_all add: intToString_def digitsOf.simps char_of_def bit_0)

lemma cursor_texts_differ: "stringify (cursorJson d 1) \<noteq> stringify (cursorJson d 2)"
  by (simp add: cursorJson_def jsonQuote_def jsonEscape_def small_texts)

lemma sample_dates: "ee_createdAt (sampleEvent i us) = us div 1000" "ee_id (sampleEvent i us) = i"
    "ee_createdAtUs (sampleEvent i us) = us"
  by (simp_all add: ee_createdAt_def sampleEvent_def)

text \<open>Two reviews 0.8 ms apart, and a review of a repository nobody registered.\<close>

abbreviation close1 :: EvalEventRow where "close1 \<equiv> sampleEvent 2 1000900"
abbreviation close2 :: EvalEventRow where "close2 \<equiv> sampleEvent 1 1000100"
abbreviation earlier :: EvalEventRow where "earlier \<equiv> sampleEvent 1 1000000"
abbreviation orphan :: EvalEventRow where "orphan \<equiv> (sampleEvent 2 1000000)\<lparr>ee_repo := ''gone''\<rparr>"

lemma sample_listable: "listable (sampleApi [close1, close2]) (sampleTables [close1, close2])"
proof -
  have "cursorRead (sampleApi [close1, close2]) close1" "cursorRead (sampleApi [close1, close2]) close2"
    unfolding cursorRead_def sampleApi_def sample_dates ApiPlatform.simps list.map map_of.simps
    using cursor_texts_differ by (simp_all del: stringify.simps)
  then show ?thesis
    by (simp only: listable_def sampleTables_def ApiTables.simps list.map sample_dates list_all_iff list.set) simp
qed

lemma number_one: "jsNumber ''1'' = Some 1"
proof -
  have "trim ''1'' = ''1'' \<and> radixOf ''1'' = None \<and> unsignedNumber ''1'' = Some 1" by code_simp
  moreover have "\<bar>1\<bar> < (2 ^ 1024 - 2 ^ 970 :: rat)" by simp
  ultimately show ?thesis by (simp add: jsNumber_def)
qed

lemma limit_one: "intLimit (queryLimit (Some ''1'')) = Some 1"
  by (simp add: queryLimit_def number_one intLimit_def)

lemma repo_reviews_walk_complete_witness:
  "\<exists>listed. walkPages 3 (\<lambda>c. listRepoReviews (sampleApi [close1, close2]) ''id'' (pageQuery (Some ''1'') c) (sampleTables [close1, close2])) None =
     Some (map (reviewEvent ''id'' Github) listed) \<and> subseq listed [close1, close2]"
proof -
  have "activeRepo ''id'' (at_repos (sampleTables [close1, close2])) = Some sampleRepo"
    by (simp add: activeRepo_def sampleTables_def sampleRepo_def)
  note walk = repo_reviews_walk_complete [OF this sample_listable limit_one]
  have rows: "repoEvents (rp_name sampleRepo) (sampleTables [close1, close2]) = [close1, close2]"
    by (simp add: sampleTables_def sampleRepo_def sampleEvent_def repoEvents_def newestEvents_key rowKey_def)
  have "length (at_events (sampleTables [close1, close2])) + 1 = 3" "rp_platform sampleRepo = Github"
    by (simp_all add: sampleTables_def sampleRepo_def)
  then show ?thesis using walk unfolding rows by (metis (no_types, lifting))
qed

lemma walk_skips_same_millisecond_witness:
  "walkPages 3 (\<lambda>c. listRepoReviews (sampleApi [close1]) ''id'' (pageQuery (Some ''1'') c) (sampleTables [close1, close2])) None =
   Some [reviewEvent ''id'' Github close1]"
proof -
  have r: "activeRepo ''id'' (at_repos (sampleTables [close1, close2])) = Some sampleRepo"
    by (simp add: activeRepo_def sampleTables_def sampleRepo_def)
  have c: "cursorRead (sampleApi [close1]) close1"
    unfolding cursorRead_def sampleApi_def sample_dates ApiPlatform.simps list.map map_of.simps by (simp del: stringify.simps)
  have n: "ee_repo close1 = rp_name sampleRepo" "ee_repo close2 = rp_name sampleRepo"
    by (simp_all add: sampleEvent_def sampleRepo_def)
  have u: "dateUs (ee_createdAt close1) < ee_createdAtUs close2" "ee_createdAtUs close2 < ee_createdAtUs close1"
    by (simp_all add: sample_dates dateUs_def)
  have e: "at_events (sampleTables [close1, close2]) = [close1, close2]" by (simp add: sampleTables_def)
  from walk_skips_same_millisecond [OF r e n c u limit_one, of 1] show ?thesis
    by (simp add: sampleRepo_def eval_nat_numeral)
qed

lemma review_list_ends_early_witness:
  "case listReviews (sampleApi []) (pageQuery (Some ''1'') None) (sampleTables [orphan, earlier]) of
    (status, Inr pg) \<Rightarrow> pg_nextCursor pg = None \<and> length (pg_items pg) \<le> 1 \<and> pg_total pg = 2
    | _ \<Rightarrow> False"
proof -
  let ?q = "pageQuery (Some ''1'') None"
  let ?p = "\<lparr>rq_limit = queryLimit (Some ''1''), rq_cursor = None, rq_platform = None, rq_outcome = None, rq_repoQuery = None, rq_since = None\<rparr>"
  have "reviewsQuerySchema (ap_isDatetime (sampleApi [])) ?q = Some ?p"
    by (simp add: reviewsQuerySchema_def pageQuery_def validOr_def)
  moreover have "orphan \<in> set (take (1 + 1) (newestEvents (at_events (sampleTables [orphan, earlier]))))"
    by (simp add: sampleTables_def newestEvents_key rowKey_def sampleEvent_def)
  moreover have "filter (keepRow ?p) (richRows (at_repos (sampleTables [orphan, earlier])) [orphan]) = []"
    by (simp add: sampleTables_def richRows_def List.map_filter_simps repoByName_def sampleRepo_def)
  ultimately show ?thesis
    using review_list_ends_early [of "sampleApi []" ?q ?p 1 orphan "sampleTables [orphan, earlier]"] limit_one
    by (simp add: sampleTables_def countsFor_def split: prod.splits sum.splits)
qed

end
