(* ===== verification/Providers.thy ===== *)
theory Providers
  imports Agent Retry
begin

text \<open>
  The model drivers (\<open>llm/src\<close>): the price tables, the configuration each driver asks for, the
  prompt it sends, what a call costs and what it was estimated to cost, and how it classifies errors.
  The AI SDK's \<open>generateText\<close> and the tokenizer are arguments.  A driver is its
  \<open>ProviderShape\<close>; \<open>asProvider\<close> is the \<open>LlmProvider\<close> the review loop is given.
\<close>

section \<open>\<open>pricing.ts\<close> and \<open>defaults.ts\<close>\<close>

datatype ProviderType = Anthropic | Openai | AzureOpenai | Google | Vertex | Bedrock | OpenaiCompatible

record ModelPrice =
  mp_inputPerMTok :: rat
  mp_outputPerMTok :: rat
  mp_cacheReadPerMTok :: rat
  mp_cacheWritePerMTok :: rat

abbreviation price4 :: "rat \<Rightarrow> rat \<Rightarrow> rat \<Rightarrow> rat \<Rightarrow> ModelPrice" where
  "price4 i out r w \<equiv> \<lparr>mp_inputPerMTok = i, mp_outputPerMTok = out, mp_cacheReadPerMTok = r, mp_cacheWritePerMTok = w\<rparr>"

definition ANTHROPIC_PRICING :: "(string \<times> ModelPrice) list" where
  "ANTHROPIC_PRICING =
     [(''claude-sonnet-4-6'', price4 3 15 (3 / 10) (15 / 4)), (''claude-sonnet-4-5'', price4 3 15 (3 / 10) (15 / 4)),
      (''claude-haiku-4-5-20251001'', price4 (4 / 5) 4 (2 / 25) 1)]"

definition OPENAI_PRICING :: "(string \<times> ModelPrice) list" where
  "OPENAI_PRICING =
     [(''gpt-4o'', price4 (5 / 2) 10 0 0), (''gpt-4o-mini'', price4 (3 / 20) (3 / 5) 0 0), (''gpt-4.1'', price4 2 8 0 0),
      (''gpt-4.1-mini'', price4 (2 / 5) (8 / 5) 0 0)]"

definition AZURE_OPENAI_PRICING :: "(string \<times> ModelPrice) list" where "AZURE_OPENAI_PRICING = OPENAI_PRICING"

definition GOOGLE_PRICING :: "(string \<times> ModelPrice) list" where
  "GOOGLE_PRICING = [(''gemini-2.0-pro'', price4 (5 / 4) 5 0 0), (''gemini-2.0-flash'', price4 (3 / 40) (3 / 10) 0 0)]"

definition VERTEX_PRICING :: "(string \<times> ModelPrice) list" where
  "VERTEX_PRICING = GOOGLE_PRICING @ [(''claude-sonnet-4-6@anthropic'', price4 3 15 (3 / 10) (15 / 4))]"

definition BEDROCK_PRICING :: "(string \<times> ModelPrice) list" where
  "BEDROCK_PRICING =
     [(''anthropic.claude-sonnet-4-6-v1:0'', price4 3 15 (3 / 10) (15 / 4)),
      (''anthropic.claude-sonnet-4-5-v1:0'', price4 3 15 (3 / 10) (15 / 4)),
      (''anthropic.claude-haiku-4-5-v1:0'', price4 (4 / 5) 4 (2 / 25) 1)]"

definition OPENAI_COMPATIBLE_PRICING :: "(string \<times> ModelPrice) list" where "OPENAI_COMPATIBLE_PRICING = []"

text \<open>The table of a driver; only that of \<open>openai-compatible\<close> prices an unknown model at zero.\<close>

fun pricingOf :: "ProviderType \<Rightarrow> (string \<times> ModelPrice) list" where
  "pricingOf Anthropic = ANTHROPIC_PRICING"
| "pricingOf Openai = OPENAI_PRICING"
| "pricingOf AzureOpenai = AZURE_OPENAI_PRICING"
| "pricingOf Google = GOOGLE_PRICING"
| "pricingOf Vertex = VERTEX_PRICING"
| "pricingOf Bedrock = BEDROCK_PRICING"
| "pricingOf OpenaiCompatible = OPENAI_COMPATIBLE_PRICING"

definition priceForModel :: "ProviderType \<Rightarrow> string \<Rightarrow> ModelPrice result" where
  "priceForModel ty model =
     (case map_of (pricingOf ty) model of
        Some price \<Rightarrow> Inr price
      | None \<Rightarrow> if ty = OpenaiCompatible then Inr (price4 0 0 0 0)
                else Inl (''No price entry for model '' @ quoted model @
                  ''. Update the provider'' @ [CHR 0x27] @ ''s pricing table to include it.''))"

record ProviderDefaults =
  pd_default :: "string option"
  pd_fallback :: "string list"
  pd_cheapest :: "string option"

fun PROVIDER_DEFAULTS :: "ProviderType \<Rightarrow> ProviderDefaults" where
  "PROVIDER_DEFAULTS Anthropic = \<lparr>pd_default = Some ''claude-sonnet-4-6'',
     pd_fallback = [''claude-sonnet-4-5'', ''claude-haiku-4-5-20251001''], pd_cheapest = Some ''claude-haiku-4-5-20251001''\<rparr>"
| "PROVIDER_DEFAULTS Openai = \<lparr>pd_default = Some ''gpt-4o'', pd_fallback = [''gpt-4o-mini''], pd_cheapest = Some ''gpt-4o-mini''\<rparr>"
| "PROVIDER_DEFAULTS Google = \<lparr>pd_default = Some ''gemini-2.0-pro'', pd_fallback = [''gemini-2.0-flash''], pd_cheapest = Some ''gemini-2.0-flash''\<rparr>"
| "PROVIDER_DEFAULTS Vertex = \<lparr>pd_default = Some ''gemini-2.0-pro'', pd_fallback = [''gemini-2.0-flash''], pd_cheapest = Some ''gemini-2.0-flash''\<rparr>"
| "PROVIDER_DEFAULTS Bedrock = \<lparr>pd_default = Some ''anthropic.claude-sonnet-4-6-v1:0'',
     pd_fallback = [''anthropic.claude-sonnet-4-5-v1:0''], pd_cheapest = Some ''anthropic.claude-haiku-4-5-v1:0''\<rparr>"
| "PROVIDER_DEFAULTS AzureOpenai = \<lparr>pd_default = None, pd_fallback = [], pd_cheapest = None\<rparr>"
| "PROVIDER_DEFAULTS OpenaiCompatible = \<lparr>pd_default = None, pd_fallback = [], pd_cheapest = None\<rparr>"

section \<open>Configuration of a driver\<close>

record ProviderConfig =
  pc_type :: ProviderType
  pc_model :: string
  pc_baseUrl :: "string option"
  pc_apiKey :: "string option"
  pc_region :: "string option"
  pc_azureDeployment :: "string option"
  pc_anthropicCacheControl :: "bool option"
  pc_vertexProjectId :: "string option"

text \<open>The driver: its name and table, the model, and what its SDK client is created with.\<close>

record ProviderShape =
  ps_name :: string
  ps_type :: ProviderType
  ps_model :: string
  ps_client :: "(string \<times> string) list"
  ps_cacheControl :: bool

definition blank :: "string option \<Rightarrow> bool" where
  "blank v = (v = None \<or> v = Some [])"

type_synonym Env = "string \<Rightarrow> string option"

definition orEnv :: "string option \<Rightarrow> Env \<Rightarrow> string \<Rightarrow> string option" where
  "orEnv v env name = (case v of Some x \<Rightarrow> Some x | None \<Rightarrow> env name)"

definition createAnthropicProvider :: "Env \<Rightarrow> ProviderConfig \<Rightarrow> ProviderShape result" where
  "createAnthropicProvider env config =
     (if pc_type config \<noteq> Anthropic then Inl ''createAnthropicProvider received another provider.type''
      else if pc_model config = [] then Inl ''createAnthropicProvider requires config.model''
      else let apiKey = orEnv (pc_apiKey config) env ''ANTHROPIC_API_KEY'' in
        if blank apiKey then Inl ''Anthropic API key not configured. Set ANTHROPIC_API_KEY env or provide config.apiKey.''
        else Inr \<lparr>ps_name = ''anthropic'', ps_type = Anthropic, ps_model = pc_model config, ps_client = [(''apiKey'', the apiKey)],
               ps_cacheControl = (pc_anthropicCacheControl config \<noteq> Some False)\<rparr>)"

definition createOpenAIProvider :: "Env \<Rightarrow> ProviderConfig \<Rightarrow> ProviderShape result" where
  "createOpenAIProvider env config =
     (if pc_type config \<noteq> Openai then Inl ''createOpenAIProvider received another provider.type''
      else if pc_model config = [] then Inl ''createOpenAIProvider requires config.model''
      else let apiKey = orEnv (pc_apiKey config) env ''OPENAI_API_KEY'' in
        if blank apiKey then Inl ''OpenAI API key not configured. Set OPENAI_API_KEY env or provide config.apiKey.''
        else Inr \<lparr>ps_name = ''openai'', ps_type = Openai, ps_model = pc_model config,
               ps_client = (''apiKey'', the apiKey) # (if blank (pc_baseUrl config) then [] else [(''baseURL'', the (pc_baseUrl config))]),
               ps_cacheControl = False\<rparr>)"

definition createAzureOpenAIProvider :: "Env \<Rightarrow> ProviderConfig \<Rightarrow> ProviderShape result" where
  "createAzureOpenAIProvider env config =
     (if pc_type config \<noteq> AzureOpenai then Inl ''createAzureOpenAIProvider received another provider.type''
      else if pc_model config = [] then Inl ''createAzureOpenAIProvider requires config.model (the underlying OpenAI model id)''
      else if blank (pc_azureDeployment config)
        then Inl ''createAzureOpenAIProvider requires config.azureDeployment (the Azure deployment name)''
      else if blank (pc_baseUrl config) then Inl ''createAzureOpenAIProvider requires config.baseUrl (the Azure resource endpoint)''
      else let apiKey = orEnv (pc_apiKey config) env ''AZURE_OPENAI_API_KEY'' in
        if blank apiKey then Inl ''Azure OpenAI API key not configured. Set AZURE_OPENAI_API_KEY env or provide config.apiKey.''
        else Inr \<lparr>ps_name = ''azure-openai'', ps_type = AzureOpenai, ps_model = pc_model config,
               ps_client = [(''apiKey'', the apiKey), (''baseURL'', the (pc_baseUrl config)), (''deployment'', the (pc_azureDeployment config))],
               ps_cacheControl = False\<rparr>)"

definition createGoogleProvider :: "Env \<Rightarrow> ProviderConfig \<Rightarrow> ProviderShape result" where
  "createGoogleProvider env config =
     (if pc_type config \<noteq> Google then Inl ''createGoogleProvider received another provider.type''
      else if pc_model config = [] then Inl ''createGoogleProvider requires config.model''
      else let apiKey = orEnv (pc_apiKey config) env ''GOOGLE_GENERATIVE_AI_API_KEY'' in
        if blank apiKey then Inl ''Google AI Studio API key not configured. Set GOOGLE_GENERATIVE_AI_API_KEY env or provide config.apiKey.''
        else Inr \<lparr>ps_name = ''google'', ps_type = Google, ps_model = pc_model config, ps_client = [(''apiKey'', the apiKey)],
               ps_cacheControl = False\<rparr>)"

definition createVertexProvider :: "Env \<Rightarrow> ProviderConfig \<Rightarrow> ProviderShape result" where
  "createVertexProvider env config =
     (if pc_type config \<noteq> Vertex then Inl ''createVertexProvider received another provider.type''
      else if pc_model config = [] then Inl ''createVertexProvider requires config.model''
      else if blank (pc_vertexProjectId config) then Inl ''createVertexProvider requires config.vertexProjectId''
      else let region = (case orEnv (pc_region config) env ''CLOUD_ML_REGION'' of Some r \<Rightarrow> r | None \<Rightarrow> ''us-central1'') in
        Inr \<lparr>ps_name = ''vertex'', ps_type = Vertex, ps_model = pc_model config,
             ps_client = [(''project'', the (pc_vertexProjectId config)), (''location'', region)], ps_cacheControl = False\<rparr>)"

definition createBedrockProvider :: "ProviderConfig \<Rightarrow> ProviderShape result" where
  "createBedrockProvider config =
     (if pc_type config \<noteq> Bedrock then Inl ''createBedrockProvider received another provider.type''
      else if pc_model config = [] then Inl ''createBedrockProvider requires config.model''
      else if blank (pc_region config) then Inl ''createBedrockProvider requires config.region (e.g. us-east-1)''
      else Inr \<lparr>ps_name = ''bedrock'', ps_type = Bedrock, ps_model = pc_model config, ps_client = [(''region'', the (pc_region config))],
             ps_cacheControl = False\<rparr>)"

definition createOpenAICompatibleProvider :: "Env \<Rightarrow> ProviderConfig \<Rightarrow> ProviderShape result" where
  "createOpenAICompatibleProvider env config =
     (if pc_type config \<noteq> OpenaiCompatible then Inl ''createOpenAICompatibleProvider received another provider.type''
      else if pc_model config = [] then Inl ''createOpenAICompatibleProvider requires config.model''
      else if blank (pc_baseUrl config) then Inl ''createOpenAICompatibleProvider requires config.baseUrl (the endpoint origin)''
      else let apiKey = (case orEnv (pc_apiKey config) env ''OPENAI_API_KEY'' of Some k \<Rightarrow> k | None \<Rightarrow> []) in
        Inr \<lparr>ps_name = ''openai-compatible'', ps_type = OpenaiCompatible, ps_model = pc_model config,
             ps_client = [(''baseURL'', the (pc_baseUrl config)), (''apiKey'', apiKey)], ps_cacheControl = False\<rparr>)"

definition createProvider :: "Env \<Rightarrow> ProviderConfig \<Rightarrow> ProviderShape result" where
  "createProvider env config =
     (case pc_type config of
        Anthropic \<Rightarrow> createAnthropicProvider env config
      | Openai \<Rightarrow> createOpenAIProvider env config
      | AzureOpenai \<Rightarrow> createAzureOpenAIProvider env config
      | Google \<Rightarrow> createGoogleProvider env config
      | Vertex \<Rightarrow> createVertexProvider env config
      | Bedrock \<Rightarrow> createBedrockProvider config
      | OpenaiCompatible \<Rightarrow> createOpenAICompatibleProvider env config)"

section \<open>The prompt and the call\<close>

definition composeUserPrompt :: "ReviewInput \<Rightarrow> string" where
  "composeUserPrompt i =
     joinWith [LF]
       [''<untrusted>'', ''<title>'' @ um_title (in_prMetadata i) @ ''</title>'',
        ''<author>'' @ um_author (in_prMetadata i) @ ''</author>'', ''<body>'' @ um_body (in_prMetadata i) @ ''</body>'',
        ''</untrusted>'', [], ''<diff>'', in_diffText i, ''</diff>'']"

datatype MessageRole = SystemRole | UserRole

record Message =
  ms_role :: MessageRole
  ms_content :: string
  ms_ephemeral :: bool

definition composeMessages :: "string \<Rightarrow> string \<Rightarrow> bool \<Rightarrow> Message list" where
  "composeMessages systemPrompt userPrompt cacheControl =
     [\<lparr>ms_role = SystemRole, ms_content = systemPrompt, ms_ephemeral = cacheControl\<rparr>,
      \<lparr>ms_role = UserRole, ms_content = userPrompt, ms_ephemeral = False\<rparr>]"

record GenerateRequest =
  gq_model :: string
  gq_client :: "(string \<times> string) list"
  gq_tools :: "string \<times> rx list"
  gq_maxSteps :: nat
  gq_messages :: "Message list"

record Usage =
  us_inputTokens :: "int option"
  us_outputTokens :: "int option"

text \<open>What \<open>generateText\<close> returns; a step without \<open>toolCalls\<close> is \<open>None\<close>.\<close>

record GenerateResult =
  gt_totalUsage :: "Usage option"
  gt_usage :: "Usage option"
  gt_comments :: "ReviewOutputComment list"
  gt_summary :: string
  gt_steps :: "nat option list option"

definition countToolCalls :: "GenerateResult \<Rightarrow> nat" where
  "countToolCalls result =
     (case gt_steps result of None \<Rightarrow> 0
      | Some steps \<Rightarrow> sum_list (map (\<lambda>calls. case calls of None \<Rightarrow> 0 | Some n \<Rightarrow> n) steps))"

definition generateRequest :: "ProviderShape \<Rightarrow> ReviewInput \<Rightarrow> GenerateRequest" where
  "generateRequest shape i =
     \<lparr>gq_model = ps_model shape, gq_client = ps_client shape, gq_tools = in_tools i, gq_maxSteps = in_maxToolCalls i,
      gq_messages = composeMessages (in_systemPrompt i) (composeUserPrompt i) (ps_cacheControl shape)\<rparr>"

definition perMTok :: "int \<Rightarrow> rat \<Rightarrow> rat" where
  "perMTok tokens price = (of_int tokens / 1000000) * price"

definition generateReview :: "ProviderShape \<Rightarrow> (GenerateRequest \<Rightarrow> AgentError + GenerateResult) \<Rightarrow> ReviewInput \<Rightarrow> AgentError + ReviewOutput" where
  "generateReview shape generate i =
     (case generate (generateRequest shape i) of
        Inl e \<Rightarrow> Inl e
      | Inr result \<Rightarrow>
          (let usage = (case gt_totalUsage result of Some u \<Rightarrow> u
                        | None \<Rightarrow> (case gt_usage result of Some u \<Rightarrow> u | None \<Rightarrow> \<lparr>us_inputTokens = None, us_outputTokens = None\<rparr>));
               inputTokens = (case us_inputTokens usage of Some n \<Rightarrow> n | None \<Rightarrow> 0);
               outputTokens = (case us_outputTokens usage of Some n \<Rightarrow> n | None \<Rightarrow> 0)
           in case priceForModel (ps_type shape) (ps_model shape) of
                Inl e \<Rightarrow> Inl (OtherError e)
              | Inr price \<Rightarrow>
                  Inr \<lparr>gr_costUsd = perMTok inputTokens (mp_inputPerMTok price) + perMTok outputTokens (mp_outputPerMTok price),
                       gr_inputTokens = inputTokens, gr_outputTokens = outputTokens, ro_comments = gt_comments result,
                       ro_summary = gt_summary result, ro_toolCalls = Some (countToolCalls result)\<rparr>))"

text \<open>\<open>Math.ceil(length / 4)\<close>, the tokenizer of the drivers without a better one.\<close>

definition approximateTokens :: "string \<Rightarrow> int" where
  "approximateTokens t = (int (length t) + 3) div 4"

definition promptText :: "ReviewInput \<Rightarrow> string" where
  "promptText i = in_systemPrompt i @ [LF] @ composeUserPrompt i"

definition estimateCost :: "ProviderShape \<Rightarrow> (string \<Rightarrow> int) \<Rightarrow> ReviewInput \<Rightarrow> AgentError + int \<times> rat" where
  "estimateCost shape tokenize i =
     (let inputTokens = tokenize (promptText i)
      in case priceForModel (ps_type shape) (ps_model shape) of
           Inl e \<Rightarrow> Inl (OtherError e)
         | Inr price \<Rightarrow> Inr (inputTokens, perMTok inputTokens (mp_inputPerMTok price)))"

definition pricePerMillionTokens :: "ProviderShape \<Rightarrow> (rat \<times> rat) result" where
  "pricePerMillionTokens shape = map_sum id (\<lambda>p. (mp_inputPerMTok p, mp_outputPerMTok p)) (priceForModel (ps_type shape) (ps_model shape))"

text \<open>The provider of the review loop; \<open>generate n\<close> is the SDK's answer to its n-th call.\<close>

definition asProvider :: "ProviderShape \<Rightarrow> (string \<Rightarrow> int) \<Rightarrow> (nat \<Rightarrow> GenerateRequest \<Rightarrow> AgentError + GenerateResult) \<Rightarrow> LlmProvider" where
  "asProvider shape tokenize generate =
     \<lparr>pv_name = ps_name shape, pv_model = ps_model shape,
      pv_generateReview = (\<lambda>n i. (generateReview shape (generate n) i,
        case generate n (generateRequest shape i) of Inl _ \<Rightarrow> 0 | Inr result \<Rightarrow> countToolCalls result)),
      pv_estimateCost = (\<lambda>i. map_sum id snd (estimateCost shape tokenize i))\<rparr>"

section \<open>Errors of a driver\<close>

text \<open>\<open>Number.parseFloat\<close> where its value is finite.\<close>

definition parseExponent :: "string \<Rightarrow> rat" where
  "parseExponent r =
     (case r of
        c # w \<Rightarrow>
          if c = CHR ''e'' \<or> c = CHR ''E''
          then (case w of
                  CHR ''-'' # v \<Rightarrow> 1 / 10 ^ readDigits (takeWhile isDigit v)
                | CHR ''+'' # v \<Rightarrow> 10 ^ readDigits (takeWhile isDigit v)
                | _ \<Rightarrow> 10 ^ readDigits (takeWhile isDigit w))
          else 1
      | [] \<Rightarrow> 1)"

definition parseFiniteFloat :: "string \<Rightarrow> rat option" where
  "parseFiniteFloat s =
     (let t = trimStart s;
          neg = startsWith t ''-'';
          u = (if neg \<or> startsWith t ''+'' then drop 1 t else t);
          ip = takeWhile isDigit u; r = dropWhile isDigit u;
          fp = (if startsWith r ''.'' then takeWhile isDigit (drop 1 r) else []);
          r' = (if startsWith r ''.'' then dropWhile isDigit (drop 1 r) else r)
      in if ip = [] \<and> fp = [] then None
         else let v = of_nat (readDigits (ip @ fp)) / 10 ^ length fp * parseExponent r'
              in if v < 2 ^ 1024 - 2 ^ 970 then Some (if neg then - v else v) else None)"

definition errorProp :: "UnknownError \<Rightarrow> string \<Rightarrow> json option" where
  "errorProp err k = (case (k = ''message'', ue_error err) of (True, Some msg) \<Rightarrow> Some (JStr msg) | _ \<Rightarrow> jsonMember (ue_value err) k)"

definition readStatus :: "UnknownError \<Rightarrow> int option" where
  "readStatus err =
     (case errorProp err ''status'' of Some (JNum n) \<Rightarrow> Some n
      | _ \<Rightarrow> (case errorProp err ''statusCode'' of Some (JNum n) \<Rightarrow> Some n | _ \<Rightarrow> None))"

text \<open>The first bag whose member is a text or a number; \<open>null\<close> falls through to the lower-case name.\<close>

definition bagMember :: "json \<Rightarrow> string \<Rightarrow> json option" where
  "bagMember bag name =
     (case jsonMember bag name of Some v \<Rightarrow> if v = JNull then jsonMember bag (toLowerCase name) else Some v
      | None \<Rightarrow> jsonMember bag (toLowerCase name))"

fun headerIn :: "json option list \<Rightarrow> string \<Rightarrow> string option" where
  "headerIn [] name = None"
| "headerIn (None # bags) name = headerIn bags name"
| "headerIn (Some bag # bags) name =
     (case bagMember bag name of Some (JStr v) \<Rightarrow> Some v | Some (JNum n) \<Rightarrow> Some (intToString n) | _ \<Rightarrow> headerIn bags name)"

definition readHeader :: "UnknownError \<Rightarrow> string \<Rightarrow> string option" where
  "readHeader err name = headerIn [errorProp err ''headers'', errorProp err ''responseHeaders''] name"

definition readErrorCode :: "UnknownError \<Rightarrow> string option" where
  "readErrorCode err =
     (case errorProp err ''code'' of Some (JStr c) \<Rightarrow> Some c
      | _ \<Rightarrow> (case map_option (\<lambda>e. jsonMember e ''code'') (errorProp err ''error'') of Some (Some (JStr c)) \<Rightarrow> Some c
              | _ \<Rightarrow> (case errorProp err ''type'' of Some (JStr c) \<Rightarrow> Some c | _ \<Rightarrow> None)))"

definition contextLengthRx :: "rx list \<Rightarrow> rx" where
  "contextLengthRx more' = rx_alts (rx_seq [rx_strI ''context'', rx_upto 5 rx_dot, rx_strI ''length''] # more')"

definition messageMatches :: "UnknownError \<Rightarrow> rx \<Rightarrow> bool" where
  "messageMatches err r = (case errorProp err ''message'' of Some (JStr message) \<Rightarrow> rx_test r message | _ \<Rightarrow> False)"

definition NETWORK_CODES :: "string list" where
  "NETWORK_CODES = [''ECONNRESET'', ''ETIMEDOUT'', ''ENOTFOUND'', ''EAI_AGAIN'', ''ECONNREFUSED'']"

definition looksLikeContextLength :: "UnknownError \<Rightarrow> bool" where
  "looksLikeContextLength err =
     (readErrorCode err = Some ''context_length_exceeded'' \<or>
      messageMatches err (contextLengthRx
        [rx_strI ''maximum context length'', rx_strI ''too long for the model'',
         rx_seq [rx_strI ''token'', Opt (rx_strI ''s''), rx_strI '' exceeds''],
         rx_seq [rx_strI ''exceeds'', rx_upto 10 rx_dot, rx_strI ''context window'']]))"

definition looksLikeNetworkError :: "UnknownError \<Rightarrow> bool" where
  "looksLikeNetworkError err = (case readErrorCode err of None \<Rightarrow> False | Some c \<Rightarrow> c \<in> set NETWORK_CODES)"

abbreviation kindOnly :: "ErrorKind \<Rightarrow> ErrorClassification" where
  "kindOnly k \<equiv> \<lparr>ec_kind = k, ec_retryAfterMs = None\<rparr>"

definition rateLimitDelay :: "UnknownError \<Rightarrow> rat option" where
  "rateLimitDelay err =
     (case Option.bind (readHeader err ''retry-after-ms'') parseFiniteFloat of
        Some n \<Rightarrow> Some n
      | None \<Rightarrow> map_option (\<lambda>n. n * 1000) (Option.bind (readHeader err ''retry-after'') parseFiniteFloat))"

definition classifyHttpStyleError :: "UnknownError \<Rightarrow> ErrorClassification" where
  "classifyHttpStyleError err =
     (if looksLikeContextLength err then kindOnly ContextLength
      else let status = readStatus err in
        if status = Some 429 then \<lparr>ec_kind = RateLimit, ec_retryAfterMs = rateLimitDelay err\<rparr>
        else if status = Some 500 \<or> status = Some 503 then kindOnly Overloaded
        else if status = Some 401 \<or> status = Some 403 then kindOnly Auth
        else if looksLikeNetworkError err then kindOnly Transient
        else kindOnly Fatal)"

definition classifyAnthropicError :: "UnknownError \<Rightarrow> ErrorClassification" where
  "classifyAnthropicError err =
     (let status = readStatus err in
        if status = Some 429
          then \<lparr>ec_kind = RateLimit, ec_retryAfterMs =
                 (case readHeader err ''retry-after'' of None \<Rightarrow> None
                  | Some v \<Rightarrow> if v = [] then None else map_option (\<lambda>n. n * 1000) (parseFiniteFloat v))\<rparr>
        else if status = Some 529 then kindOnly Overloaded
        else if status = Some 401 \<or> status = Some 403 then kindOnly Auth
        else if messageMatches err (contextLengthRx [rx_strI ''too long'', rx_strI ''maximum context'', rx_strI ''prompt is too long''])
          then kindOnly ContextLength
        else if (case errorProp err ''code'' of Some (JStr c) \<Rightarrow> c \<in> set NETWORK_CODES | _ \<Rightarrow> False) then kindOnly Transient
        else kindOnly Fatal)"

definition classifyOpenAIError :: "UnknownError \<Rightarrow> ErrorClassification" where
  "classifyOpenAIError err =
     (if readErrorCode err = Some ''context_length_exceeded'' \<or>
         messageMatches err (contextLengthRx [rx_strI ''maximum context length'', rx_strI ''too long for the model''])
      then kindOnly ContextLength
      else let status = readStatus err in
        if status = Some 429 then \<lparr>ec_kind = RateLimit, ec_retryAfterMs = rateLimitDelay err\<rparr>
        else if status = Some 500 \<or> status = Some 503 then kindOnly Overloaded
        else if status = Some 401 \<or> status = Some 403 then kindOnly Auth
        else if looksLikeNetworkError err then kindOnly Transient
        else kindOnly Fatal)"

definition classifyError :: "ProviderType \<Rightarrow> UnknownError \<Rightarrow> ErrorClassification" where
  "classifyError ty =
     (case ty of Anthropic \<Rightarrow> classifyAnthropicError | Openai \<Rightarrow> classifyOpenAIError | _ \<Rightarrow> classifyHttpStyleError)"

section \<open>What the tables, the prompt and the estimate promise\<close>

lemma perMTok_diff: "perMTok (m - k) p = perMTok m p - perMTok k p"
  by (simp add: perMTok_def algebra_simps diff_divide_distrib)

lemma perMTok_nonneg: "0 \<le> n \<Longrightarrow> 0 \<le> p \<Longrightarrow> 0 \<le> perMTok n p"
  by (simp add: perMTok_def)

lemma default_names_priced:
  "\<lbrakk>m \<in> set (pd_fallback (PROVIDER_DEFAULTS ty)) \<or> Some m = pd_default (PROVIDER_DEFAULTS ty) \<or> Some m = pd_cheapest (PROVIDER_DEFAULTS ty)\<rbrakk>
   \<Longrightarrow> map_of (pricingOf ty) m \<noteq> None"
  by (cases ty) (auto simp: ANTHROPIC_PRICING_def OPENAI_PRICING_def GOOGLE_PRICING_def VERTEX_PRICING_def BEDROCK_PRICING_def)

text \<open>What a driver reports of one answered call, against what it estimated for it.\<close>

lemma reported_call:
  assumes "generate (generateRequest shape i) = Inr result" "gt_totalUsage result = Some \<lparr>us_inputTokens = Some n, us_outputTokens = Some m\<rparr>"
    "priceForModel (ps_type shape) (ps_model shape) = Inr p"
  shows "generateReview shape generate i =
      Inr \<lparr>gr_costUsd = perMTok n (mp_inputPerMTok p) + perMTok m (mp_outputPerMTok p),
           gr_inputTokens = n, gr_outputTokens = m, ro_comments = gt_comments result, ro_summary = gt_summary result,
           ro_toolCalls = Some (countToolCalls result)\<rparr>"
    and "estimateCost shape tokenize i = Inr (tokenize (promptText i), perMTok (tokenize (promptText i)) (mp_inputPerMTok p))"
  using assms by (simp_all add: generateReview_def estimateCost_def Let_def)

text \<open>Every model a driver may fall back on has a price: whichever provider, its default, its
  fallbacks and its cheapest model are in its pricing table, so neither the estimate nor the
  reported cost of a review run with a default ever throws for want of a price.\<close>

theorem default_models_priced:
  "list_all (\<lambda>m. (case priceForModel ty m of Inl _ \<Rightarrow> False | Inr _ \<Rightarrow> True))
     (pd_fallback (PROVIDER_DEFAULTS ty) @ (case pd_default (PROVIDER_DEFAULTS ty) of None \<Rightarrow> [] | Some m \<Rightarrow> [m])
       @ (case pd_cheapest (PROVIDER_DEFAULTS ty) of None \<Rightarrow> [] | Some m \<Rightarrow> [m]))"
  using default_names_priced [of _ ty] by (fastforce simp: list_all_iff priceForModel_def split: option.splits)

text \<open>The cost of a driver's answer exceeds the estimate the guard decided on by the price of
  every output token and of the input tokens the tokenizer did not see; in particular the estimate
  never accounts for the answer itself, so it bounds the cost only of an answer that is free.\<close>

theorem driver_cost_exact:
  assumes "generate (generateRequest shape i) = Inr result" "gt_totalUsage result = Some \<lparr>us_inputTokens = Some n, us_outputTokens = Some m\<rparr>"
    "priceForModel (ps_type shape) (ps_model shape) = Inr p"
  shows "\<exists>out est. generateReview shape generate i = Inr out \<and> estimateCost shape tokenize i = Inr (tokenize (promptText i), est) \<and>
    gr_costUsd out = est + perMTok (n - tokenize (promptText i)) (mp_inputPerMTok p) + perMTok m (mp_outputPerMTok p)"
  using reported_call [where generate = generate, OF assms] by (simp add: perMTok_diff)

text \<open>The overrun of a driver's call, the amount by which one call can exceed the cap of its job:
  the price of its output, and of the input tokens its tokenizer did not see.\<close>

theorem driver_overrun:
  assumes "generate (generateRequest shape i) = Inr result" "gt_totalUsage result = Some \<lparr>us_inputTokens = Some n, us_outputTokens = Some m\<rparr>"
    "priceForModel (ps_type shape) (ps_model shape) = Inr p"
  shows "overrun (map_sum id snd (estimateCost shape tokenize i)) (generateReview shape generate i) =
    perMTok (n - tokenize (promptText i)) (mp_inputPerMTok p) + perMTok m (mp_outputPerMTok p)"
  using reported_call [where generate = generate, OF assms] by (simp add: overrun_def perMTok_diff)

text \<open>An answer whose output the estimate ignored is paid for and then thrown away: when the
  running total and the estimate fit under the cap but the answer's real cost does not, the guard
  lets the call happen, adds its cost to the total, and then fails with the cost error instead of
  handing the review on.\<close>

theorem paid_answer_lost:
  assumes "generate (generateRequest shape i) = Inr result" "gt_totalUsage result = Some \<lparr>us_inputTokens = Some n, us_outputTokens = Some m\<rparr>"
    "priceForModel (ps_type shape) (ps_model shape) = Inr p" "0 < cap"
    "cs_totalCostUsd st + perMTok (tokenize (promptText i)) (mp_inputPerMTok p) \<le> cap" "cs_totalCostUsd st \<le> cap"
    "cap < cs_totalCostUsd st + perMTok n (mp_inputPerMTok p) + perMTok m (mp_outputPerMTok p)"
  shows "case costGuard agentGuardOptions cap (map_sum id snd (estimateCost shape tokenize i)) (generateReview shape generate i) st of
    (out, st', effs) \<Rightarrow>
      out = Inl (CostExceededError cap (cs_totalCostUsd st')) \<and> NextCalled \<in> set effs \<and>
      cs_totalCostUsd st' = cs_totalCostUsd st + perMTok n (mp_inputPerMTok p) + perMTok m (mp_outputPerMTok p)"
proof -
  have "\<not> cap * (3 / 2) < cs_totalCostUsd st" using assms(4,6) by (auto simp: not_less)
  then show ?thesis using assms(4-7)
    by (simp add: reported_call [where generate = generate, OF assms(1-3)] costGuard_def agentGuardOptions_def decideCostAction_def KILL_RATIO_def ABORT_RATIO_def
        FALLBACK_RATIO_def afterNext_def recordWith_def recordExceeded_def Let_def not_less add.assoc)
qed

text \<open>The prompt the driver sends does not escape the metadata it quotes: for any text
  \<open>rest\<close>, a pull request titled with the envelope's closing tag followed by \<open>rest\<close> puts \<open>rest\<close>
  outside the envelope, right after the first closing tag of the prompt.\<close>

theorem provider_prompt_unescaped:
  "\<exists>tail. composeUserPrompt (i\<lparr>in_prMetadata := (in_prMetadata i)\<lparr>um_title := ''</untrusted>'' @ rest\<rparr>\<rparr>) =
     ''<untrusted>'' @ [LF] @ ''<title></untrusted>'' @ rest @ tail"
  by (simp add: composeUserPrompt_def)

text \<open>A run at which the hypotheses hold: one thousand tokens in, two thousand out, a cap of two cents.\<close>

definition driverShape :: ProviderShape where
  "driverShape = \<lparr>ps_name = ''anthropic'', ps_type = Anthropic, ps_model = ''claude-sonnet-4-6'', ps_client = [], ps_cacheControl = True\<rparr>"

definition driverResult :: GenerateResult where
  "driverResult = \<lparr>gt_totalUsage = Some \<lparr>us_inputTokens = Some 1000, us_outputTokens = Some 2000\<rparr>, gt_usage = None,
     gt_comments = [], gt_summary = ''fine'', gt_steps = None\<rparr>"

definition driverInput :: ReviewInput where
  "driverInput = \<lparr>in_systemPrompt = ''Review it.'', in_diffText = ''+x'',
     in_prMetadata = \<lparr>um_title = ''t'', um_body = [], um_author = ''eve'', um_baseRef = None, um_labels = None, um_commitMessages = None\<rparr>,
     in_language = ''en-US'', in_tools = ([], []), in_maxToolCalls = 20\<rparr>"

definition sampleUsd :: "unit CostState" where "sampleUsd = \<lparr>cs_totalCostUsd = 0, cs_db = ()\<rparr>"

lemma driver_price: "priceForModel (ps_type driverShape) (ps_model driverShape) = Inr (price4 3 15 (3 / 10) (15 / 4))"
  by (simp add: driverShape_def priceForModel_def ANTHROPIC_PRICING_def)

lemma driver_usage: "gt_totalUsage driverResult = Some \<lparr>us_inputTokens = Some 1000, us_outputTokens = Some 2000\<rparr>"
  by (simp add: driverResult_def)

lemma driver_cost_exact_witness:
  "\<exists>out est. generateReview driverShape (\<lambda>_. Inr driverResult) driverInput = Inr out \<and>
     estimateCost driverShape (\<lambda>_. 1000) driverInput = Inr (1000, est) \<and> gr_costUsd out = est + 3 / 100"
  using driver_cost_exact [of "\<lambda>_. Inr driverResult" driverShape driverInput driverResult 1000 2000 _ "\<lambda>_. 1000",
      OF refl driver_usage driver_price]
  by (simp add: perMTok_def)

lemma paid_answer_lost_witness:
  "case costGuard agentGuardOptions (1 / 50) (map_sum id snd (estimateCost driverShape (\<lambda>_. 1000) driverInput))
      (generateReview driverShape (\<lambda>_. Inr driverResult) driverInput) sampleUsd of
    (out, st', effs) \<Rightarrow> out = Inl (CostExceededError (1 / 50) (33 / 1000)) \<and> NextCalled \<in> set effs"
  using paid_answer_lost [of "\<lambda>_. Inr driverResult" driverShape driverInput driverResult 1000 2000 _ "1 / 50" sampleUsd "\<lambda>_. 1000",
      OF refl driver_usage driver_price]
  by (simp add: perMTok_def sampleUsd_def split: prod.splits)

end
