(* ===== verification/Byok.thy ===== *)
theory Byok
  imports ReviewsApi Providers "HOL-Library.Log_Nat"
begin

text \<open>
  The customers' own API keys: the envelope of \<open>core/src/kms/envelope.ts\<close>, the key service of
  \<open>kms-aws/src/aws-kms.ts\<close>, the table and the store of \<open>db/src/byok-store.ts\<close>, and the
  routes of \<open>server/src/api/llm-keys.ts\<close>.  A buffer is a \<open>string\<close> of bytes; the cipher
  and the service's \<open>send\<close> are parameters, and the random bytes an operation draws are its
  arguments.
\<close>

section \<open>\<open>envelope.ts\<close>\<close>

definition KEY_BYTES :: nat where "KEY_BYTES = 32"
definition IV_BYTES :: nat where "IV_BYTES = 12"
definition TAG_BYTES :: nat where "TAG_BYTES = 16"

record EncryptedPayload =
  ep_ciphertext :: string
  ep_iv :: string
  ep_authTag :: string

text \<open>AES-256-GCM of the runtime: key, IV and text to ciphertext and tag, and back.\<close>

record Cipher =
  ci_encrypt :: "string \<Rightarrow> string \<Rightarrow> string \<Rightarrow> string \<times> string"
  ci_decrypt :: "string \<Rightarrow> string \<Rightarrow> string \<Rightarrow> string \<Rightarrow> string result"

definition wrongLength :: "string \<Rightarrow> nat \<Rightarrow> nat \<Rightarrow> string" where
  "wrongLength what expected got =
     what @ '' must be '' @ digitsOf expected @ '' bytes (got '' @ digitsOf got @ '').''"

definition encryptWithDataKey :: "Cipher \<Rightarrow> string \<Rightarrow> string \<Rightarrow> string \<Rightarrow> EncryptedPayload result" where
  "encryptWithDataKey ci iv plaintext dataKey =
     (if length dataKey \<noteq> KEY_BYTES then Inl (wrongLength ''dataKey'' KEY_BYTES (length dataKey))
      else let (ciphertext, authTag) = ci_encrypt ci dataKey iv plaintext
           in Inr \<lparr>ep_ciphertext = ciphertext, ep_iv = iv, ep_authTag = authTag\<rparr>)"

definition decryptWithDataKey :: "Cipher \<Rightarrow> EncryptedPayload \<Rightarrow> string \<Rightarrow> string result" where
  "decryptWithDataKey ci payload dataKey =
     (if length dataKey \<noteq> KEY_BYTES then Inl (wrongLength ''dataKey'' KEY_BYTES (length dataKey))
      else if length (ep_iv payload) \<noteq> IV_BYTES then Inl (wrongLength ''iv'' IV_BYTES (length (ep_iv payload)))
      else if length (ep_authTag payload) \<noteq> TAG_BYTES then Inl (wrongLength ''authTag'' TAG_BYTES (length (ep_authTag payload)))
      else ci_decrypt ci dataKey (ep_iv payload) (ep_ciphertext payload) (ep_authTag payload))"

section \<open>\<open>aws-kms.ts\<close>\<close>

record KmsClient =
  km_encryptDataKey :: "string \<Rightarrow> string \<Rightarrow> string result"
  km_decryptDataKey :: "string \<Rightarrow> string \<Rightarrow> string result"

datatype KmsCommand = EncryptCommand string string | DecryptCommand string string

definition createAwsKmsClient :: "(KmsCommand \<Rightarrow> (string option) result) \<Rightarrow> KmsClient" where
  "createAwsKmsClient send =
     \<lparr>km_encryptDataKey = (\<lambda>plaintext keyId. case send (EncryptCommand keyId plaintext) of
        Inl e \<Rightarrow> Inl e | Inr None \<Rightarrow> Inl ''AWS KMS Encrypt returned no CiphertextBlob'' | Inr (Some b) \<Rightarrow> Inr b),
      km_decryptDataKey = (\<lambda>ciphertext keyId. case send (DecryptCommand keyId ciphertext) of
        Inl e \<Rightarrow> Inl e | Inr None \<Rightarrow> Inl ''AWS KMS Decrypt returned no Plaintext'' | Inr (Some b) \<Rightarrow> Inr b)\<rparr>"

section \<open>\<open>byok-store.ts\<close>\<close>

definition providerName :: "ProviderType \<Rightarrow> string" where
  "providerName p =
     (case p of Anthropic \<Rightarrow> ''anthropic'' | Openai \<Rightarrow> ''openai'' | AzureOpenai \<Rightarrow> ''azure-openai'' | Google \<Rightarrow> ''google''
      | Vertex \<Rightarrow> ''vertex'' | Bedrock \<Rightarrow> ''bedrock'' | OpenaiCompatible \<Rightarrow> ''openai-compatible'')"

definition BYOK_PROVIDERS :: "ProviderType list" where
  "BYOK_PROVIDERS = [Anthropic, Openai, AzureOpenai, Google, Vertex, Bedrock, OpenaiCompatible]"

record InstallationSecretRow =
  sec_installationId :: int
  sec_provider :: ProviderType
  sec_kmsKeyId :: string
  sec_wrappedDataKey :: string
  sec_payload :: EncryptedPayload
  sec_createdAt :: Date
  sec_rotatedAt :: Date

type_synonym SecretKey = "int \<times> ProviderType"

definition secretKey :: "InstallationSecretRow \<Rightarrow> SecretKey" where
  "secretKey r = (sec_installationId r, sec_provider r)"

text \<open>The surroundings of a store: the cipher, the key service, the clocks.\<close>

record ByokDeps =
  bd_cipher :: Cipher
  bd_kms :: KmsClient
  bd_dbNow :: Date
  bd_now :: Date

text \<open>The random bytes of one write: the data key and the IV.\<close>

type_synonym Draw = "string \<times> string"

definition secretRow :: "ByokDeps \<Rightarrow> SecretKey \<Rightarrow> string \<Rightarrow> string \<Rightarrow> EncryptedPayload \<Rightarrow> InstallationSecretRow" where
  "secretRow d k kmsKeyId wrappedDataKey envelope =
     \<lparr>sec_installationId = fst k, sec_provider = snd k, sec_kmsKeyId = kmsKeyId, sec_wrappedDataKey = wrappedDataKey,
      sec_payload = envelope, sec_createdAt = bd_dbNow d, sec_rotatedAt = bd_dbNow d\<rparr>"

definition upsertWithSecret :: "ByokDeps \<Rightarrow> Draw \<Rightarrow> SecretKey \<Rightarrow> string \<Rightarrow> string \<Rightarrow> InstallationSecretRow list \<Rightarrow>
    InstallationSecretRow list result" where
  "upsertWithSecret d draw k kmsKeyId secret rows =
     (let (dataKey, iv) = draw in
      case km_encryptDataKey (bd_kms d) dataKey kmsKeyId of
        Inl e \<Rightarrow> Inl e
      | Inr wrappedDataKey \<Rightarrow>
          (case encryptWithDataKey (bd_cipher d) iv secret dataKey of
             Inl e \<Rightarrow> Inl e
           | Inr envelope \<Rightarrow>
               Inr (insertOrUpdate secretKey (secretRow d k kmsKeyId wrappedDataKey envelope)
                 (\<lambda>r. r\<lparr>sec_kmsKeyId := kmsKeyId, sec_wrappedDataKey := wrappedDataKey, sec_payload := envelope,
                        sec_rotatedAt := bd_now d\<rparr>) rows)))"

definition readSecret :: "ByokDeps \<Rightarrow> SecretKey \<Rightarrow> InstallationSecretRow list \<Rightarrow> (string option) result" where
  "readSecret d k rows =
     (case selectOne (\<lambda>r. secretKey r = k) rows of
        None \<Rightarrow> Inr None
      | Some row \<Rightarrow>
          (case km_decryptDataKey (bd_kms d) (sec_wrappedDataKey row) (sec_kmsKeyId row) of
             Inl e \<Rightarrow> Inl e
           | Inr dataKey \<Rightarrow> map_sum id Some (decryptWithDataKey (bd_cipher d) (sec_payload row) dataKey)))"

definition rotateMissing :: "SecretKey \<Rightarrow> string" where
  "rotateMissing k = ''BYOK row missing for installation_id='' @ intToString (fst k) @ '' provider='' @ providerName (snd k) @
     ''; nothing to rotate''"

definition rotateSecret :: "ByokDeps \<Rightarrow> Draw \<Rightarrow> SecretKey \<Rightarrow> string \<Rightarrow> InstallationSecretRow list \<Rightarrow>
    InstallationSecretRow list result" where
  "rotateSecret d draw k kmsKeyId rows =
     (case readSecret d k rows of
        Inl e \<Rightarrow> Inl e
      | Inr existing \<Rightarrow>
          if blank existing then Inl (rotateMissing k) else upsertWithSecret d draw k kmsKeyId (the existing) rows)"

definition removeSecret :: "SecretKey \<Rightarrow> InstallationSecretRow list \<Rightarrow> InstallationSecretRow list" where
  "removeSecret k rows = deleteWhere (\<lambda>r. secretKey r = k) rows"

definition listProviders :: "int \<Rightarrow> InstallationSecretRow list \<Rightarrow> (ProviderType \<times> bool) list" where
  "listProviders installationId rows =
     map (\<lambda>p. (p, p \<in> set (map sec_provider (filter (\<lambda>r. sec_installationId r = installationId) rows)))) BYOK_PROVIDERS"

section \<open>\<open>llm-keys.ts\<close>\<close>

text \<open>The nearest double of a natural number; \<open>None\<close> is infinity.\<close>

definition roundDouble :: "nat \<Rightarrow> nat option" where
  "roundDouble n =
     (let u = 2 ^ (floorlog 2 n - 53); q = n div u; r = n mod u;
          v = (if u < 2 * r \<or> (2 * r = u \<and> u \<noteq> 1 \<and> odd q) then (q + 1) * u else q * u)
      in if v < 2 ^ 1024 then Some v else None)"

datatype KeyAudit = KeyUpsert int ProviderType | KeyRotate int ProviderType | KeyDelete int ProviderType

record LlmKeysDeps =
  lk_store :: ByokDeps
  lk_audit :: "KeyAudit \<Rightarrow> string option"
  lk_kmsKeyId :: string

record KeyStatus =
  ks_installationId :: int
  ks_provider :: ProviderType
  ks_configured :: bool

definition installationIdSchema :: "json option \<Rightarrow> int option" where
  "installationIdSchema v = (case v of Some (JNum n) \<Rightarrow> if 0 < n then Some n else None | _ \<Rightarrow> None)"

definition providerSchema :: "json option \<Rightarrow> ProviderType option" where
  "providerSchema v = (case v of Some (JStr s) \<Rightarrow> find (\<lambda>p. providerName p = s) BYOK_PROVIDERS | _ \<Rightarrow> None)"

definition lookupBodySchema :: "json \<Rightarrow> SecretKey option" where
  "lookupBodySchema body =
     (case (installationIdSchema (jsonMember body ''installationId''), providerSchema (jsonMember body ''provider'')) of
        (Some i, Some p) \<Rightarrow> Some (i, p) | _ \<Rightarrow> None)"

definition upsertBodySchema :: "json \<Rightarrow> (SecretKey \<times> string) option" where
  "upsertBodySchema body =
     (case (lookupBodySchema body, jsonMember body ''apiKey'') of
        (Some k, Some (JStr apiKey)) \<Rightarrow> if 1 \<le> length apiKey \<and> length apiKey \<le> 8192 then Some (k, apiKey) else None
      | _ \<Rightarrow> None)"

text \<open>The listing; \<open>0\<close> passes the pattern and makes the transformation throw.\<close>

definition listKeys :: "string option \<Rightarrow> InstallationSecretRow list \<Rightarrow> (int \<times> (ProviderType \<times> bool) list) reply" where
  "listKeys v rows =
     (case v of
        None \<Rightarrow> (422, Inl ''validation_error'')
      | Some s \<Rightarrow>
          if s = [] \<or> list_ex (\<lambda>c. \<not> isDigit c) s then (422, Inl ''validation_error'')
          else case roundDouble (readDigits s) of
                 None \<Rightarrow> internalError
               | Some n \<Rightarrow> if n = 0 then internalError else (200, Inr (int n, listProviders (int n) rows)))"

text \<open>A transaction that throws leaves the table as it was; the audit row is best effort.\<close>

definition upsertKey :: "LlmKeysDeps \<Rightarrow> Draw \<Rightarrow> json option \<Rightarrow> InstallationSecretRow list \<Rightarrow>
    KeyStatus reply \<times> InstallationSecretRow list \<times> KeyAudit list" where
  "upsertKey deps draw body rows =
     (case body of
        None \<Rightarrow> ((400, Inl ''invalid JSON body''), rows, [])
      | Some b \<Rightarrow>
          (case upsertBodySchema b of
             None \<Rightarrow> ((422, Inl ''validation_error''), rows, [])
           | Some (k, apiKey) \<Rightarrow>
               (case upsertWithSecret (lk_store deps) draw k (lk_kmsKeyId deps) apiKey rows of
                  Inl _ \<Rightarrow> (internalError, rows, [])
                | Inr rows' \<Rightarrow>
                    ((200, Inr \<lparr>ks_installationId = fst k, ks_provider = snd k, ks_configured = True\<rparr>), rows',
                     if lk_audit deps (KeyUpsert (fst k) (snd k)) = None then [KeyUpsert (fst k) (snd k)] else []))))"

definition rotateKey :: "LlmKeysDeps \<Rightarrow> Draw \<Rightarrow> json option \<Rightarrow> InstallationSecretRow list \<Rightarrow>
    KeyStatus reply \<times> InstallationSecretRow list \<times> KeyAudit list" where
  "rotateKey deps draw body rows =
     (case body of
        None \<Rightarrow> ((400, Inl ''invalid JSON body''), rows, [])
      | Some b \<Rightarrow>
          (case lookupBodySchema b of
             None \<Rightarrow> ((422, Inl ''validation_error''), rows, [])
           | Some k \<Rightarrow>
               (case rotateSecret (lk_store deps) draw k (lk_kmsKeyId deps) rows of
                  Inl e \<Rightarrow> ((if includesStr e ''BYOK row missing'' then (404, Inl ''key_not_found'') else internalError), rows, [])
                | Inr rows' \<Rightarrow>
                    ((200, Inr \<lparr>ks_installationId = fst k, ks_provider = snd k, ks_configured = True\<rparr>), rows',
                     if lk_audit deps (KeyRotate (fst k) (snd k)) = None then [KeyRotate (fst k) (snd k)] else []))))"

definition deleteKey :: "LlmKeysDeps \<Rightarrow> json option \<Rightarrow> InstallationSecretRow list \<Rightarrow>
    KeyStatus reply \<times> InstallationSecretRow list \<times> KeyAudit list" where
  "deleteKey deps body rows =
     (case body of
        None \<Rightarrow> ((400, Inl ''invalid JSON body''), rows, [])
      | Some b \<Rightarrow>
          (case lookupBodySchema b of
             None \<Rightarrow> ((422, Inl ''validation_error''), rows, [])
           | Some k \<Rightarrow>
               ((200, Inr \<lparr>ks_installationId = fst k, ks_provider = snd k, ks_configured = False\<rparr>), removeSecret k rows,
                if lk_audit deps (KeyDelete (fst k) (snd k)) = None then [KeyDelete (fst k) (snd k)] else [])))"

section \<open>The store as a map of secrets\<close>

text \<open>What the store relies on: the cipher opens what it sealed, the service unwraps what it wrapped.\<close>

definition cipherOk :: "Cipher \<Rightarrow> bool" where
  "cipherOk ci = (\<forall>k iv p. length k = KEY_BYTES \<longrightarrow> length iv = IV_BYTES \<longrightarrow>
     length (snd (ci_encrypt ci k iv p)) = TAG_BYTES \<and>
     ci_decrypt ci k iv (fst (ci_encrypt ci k iv p)) (snd (ci_encrypt ci k iv p)) = Inr p)"

definition kmsOk :: "KmsClient \<Rightarrow> bool" where
  "kmsOk kms = (\<forall>key keyId w. km_encryptDataKey kms key keyId = Inr w \<longrightarrow> km_decryptDataKey kms w keyId = Inr key)"

definition drawOk :: "Draw \<Rightarrow> bool" where
  "drawOk draw = (length (fst draw) = KEY_BYTES \<and> length (snd draw) = IV_BYTES)"

datatype StoreCall =
    CallUpsert Draw SecretKey string string
  | CallRotate Draw SecretKey string
  | CallRemove SecretKey

fun callDraws :: "StoreCall \<Rightarrow> Draw list" where
  "callDraws (CallUpsert draw _ _ _) = [draw]"
| "callDraws (CallRotate draw _ _) = [draw]"
| "callDraws (CallRemove _) = []"

text \<open>One call of the store at a time of the two clocks; a call that throws changes nothing.\<close>

fun runCall :: "ByokDeps \<Rightarrow> StoreCall \<Rightarrow> InstallationSecretRow list \<Rightarrow> InstallationSecretRow list" where
  "runCall d (CallUpsert draw k kmsKeyId secret) rows =
     (case upsertWithSecret d draw k kmsKeyId secret rows of Inr rows' \<Rightarrow> rows' | Inl _ \<Rightarrow> rows)"
| "runCall d (CallRotate draw k kmsKeyId) rows = (case rotateSecret d draw k kmsKeyId rows of Inr rows' \<Rightarrow> rows' | Inl _ \<Rightarrow> rows)"
| "runCall d (CallRemove k) rows = removeSecret k rows"

text \<open>The contract: an upsert the key service accepts sets the secret, a removal unsets it, a rotation does nothing.\<close>

fun specCall :: "KmsClient \<Rightarrow> StoreCall \<Rightarrow> (SecretKey \<Rightarrow> string option) \<Rightarrow> SecretKey \<Rightarrow> string option" where
  "specCall kms (CallUpsert draw k kmsKeyId secret) m =
     (case km_encryptDataKey kms (fst draw) kmsKeyId of Inr _ \<Rightarrow> m(k \<mapsto> secret) | Inl _ \<Rightarrow> m)"
| "specCall kms (CallRotate draw k kmsKeyId) m = m"
| "specCall kms (CallRemove k) m = m(k := None)"

definition atTime :: "ByokDeps \<Rightarrow> Date \<times> Date \<Rightarrow> ByokDeps" where
  "atTime d t = d\<lparr>bd_dbNow := fst t, bd_now := snd t\<rparr>"

definition runCalls :: "ByokDeps \<Rightarrow> ((Date \<times> Date) \<times> StoreCall) list \<Rightarrow> InstallationSecretRow list \<Rightarrow> InstallationSecretRow list" where
  "runCalls d calls rows = fold (\<lambda>(t, call) rows. runCall (atTime d t) call rows) calls rows"

lemma atTime_deps [simp]: "bd_cipher (atTime d t) = bd_cipher d" "bd_kms (atTime d t) = bd_kms d"
  by (simp_all add: atTime_def)

lemma readSecret_at [simp]: "readSecret (atTime d t) k rows = readSecret d k rows"
  unfolding readSecret_def atTime_deps ..

text \<open>A write that succeeds, as a value of its own.\<close>

record SecretWrite =
  sw_deps :: ByokDeps
  sw_key :: SecretKey
  sw_kmsKeyId :: string
  sw_wrapped :: string
  sw_envelope :: EncryptedPayload

definition secretPut :: "SecretWrite \<Rightarrow> InstallationSecretRow list \<Rightarrow> InstallationSecretRow list" where
  "secretPut w rows =
     insertOrUpdate secretKey (secretRow (sw_deps w) (sw_key w) (sw_kmsKeyId w) (sw_wrapped w) (sw_envelope w))
       (\<lambda>r. r\<lparr>sec_kmsKeyId := sw_kmsKeyId w, sec_wrappedDataKey := sw_wrapped w, sec_payload := sw_envelope w,
              sec_rotatedAt := bd_now (sw_deps w)\<rparr>) rows"

definition secretMerge :: "SecretWrite \<Rightarrow> InstallationSecretRow option \<Rightarrow> InstallationSecretRow" where
  "secretMerge w old =
     (case old of
        None \<Rightarrow> secretRow (sw_deps w) (sw_key w) (sw_kmsKeyId w) (sw_wrapped w) (sw_envelope w)
      | Some r \<Rightarrow> r\<lparr>sec_kmsKeyId := sw_kmsKeyId w, sec_wrappedDataKey := sw_wrapped w, sec_payload := sw_envelope w,
                     sec_rotatedAt := bd_now (sw_deps w)\<rparr>)"

lemma secretKey_row [simp]: "secretKey (secretRow d k i w e) = k"
  by (simp add: secretKey_def secretRow_def)

interpretation secrets: keyed_store secretKey secretPut sw_key secretMerge
proof unfold_locales
  fix rows :: "InstallationSecretRow list" and w :: SecretWrite and k :: SecretKey
  show "distinct (map secretKey (secretPut w rows))" if "distinct (map secretKey rows)"
    using that unfolding secretPut_def by (rule distinct_insertOrUpdate) (simp add: secretKey_def)
  show "selectOne (\<lambda>r. secretKey r = k) (secretPut w rows) =
      (if k = sw_key w then Some (secretMerge w (selectOne (\<lambda>r. secretKey r = k) rows))
       else selectOne (\<lambda>r. secretKey r = k) rows)"
    unfolding secretPut_def secretMerge_def
    by (subst find_insertOrUpdate) (auto simp: secretKey_def secretRow_def split: option.splits)
qed

lemma secretMerge_fields:
  "sec_kmsKeyId (secretMerge w r) = sw_kmsKeyId w" "sec_wrappedDataKey (secretMerge w r) = sw_wrapped w"
  "sec_payload (secretMerge w r) = sw_envelope w"
  by (simp_all add: secretMerge_def secretRow_def split: option.splits)

lemma upsert_is_put:
  "upsertWithSecret d (dk, iv) k kid secret rows = Inr rows' \<Longrightarrow>
   \<exists>w e. km_encryptDataKey (bd_kms d) dk kid = Inr w \<and> encryptWithDataKey (bd_cipher d) iv secret dk = Inr e \<and>
     rows' = secretPut \<lparr>sw_deps = d, sw_key = k, sw_kmsKeyId = kid, sw_wrapped = w, sw_envelope = e\<rparr> rows"
  by (auto simp: upsertWithSecret_def secretPut_def split: sum.splits)

lemma decrypt_encrypt:
  assumes "cipherOk ci" "length dk = KEY_BYTES" "length iv = IV_BYTES" "encryptWithDataKey ci iv secret dk = Inr e"
  shows "decryptWithDataKey ci e dk = Inr secret"
proof -
  have "length (snd (ci_encrypt ci dk iv secret)) = TAG_BYTES \<and>
      ci_decrypt ci dk iv (fst (ci_encrypt ci dk iv secret)) (snd (ci_encrypt ci dk iv secret)) = Inr secret"
    using assms(1-3) unfolding cipherOk_def by blast
  then show ?thesis using assms(2-4) by (auto simp: encryptWithDataKey_def decryptWithDataKey_def split: prod.splits)
qed

lemma read_after_upsert:
  assumes "cipherOk (bd_cipher d)" "kmsOk (bd_kms d)" "drawOk draw" "distinct (map secretKey rows)"
    "upsertWithSecret d draw k kid secret rows = Inr rows'"
  shows "readSecret d k' rows' = (if k' = k then Inr (Some secret) else readSecret d k' rows)"
proof -
  obtain dk iv where draw: "draw = (dk, iv)" by (cases draw)
  then obtain w e where w: "km_encryptDataKey (bd_kms d) dk kid = Inr w" and e: "encryptWithDataKey (bd_cipher d) iv secret dk = Inr e"
    and r: "rows' = secretPut \<lparr>sw_deps = d, sw_key = k, sw_kmsKeyId = kid, sw_wrapped = w, sw_envelope = e\<rparr> rows"
    using assms(5) upsert_is_put by blast
  have "km_decryptDataKey (bd_kms d) w kid = Inr dk" using assms(2) w by (simp add: kmsOk_def)
  moreover have "decryptWithDataKey (bd_cipher d) e dk = Inr secret"
    using decrypt_encrypt [OF assms(1) _ _ e] assms(3) draw by (simp add: drawOk_def)
  ultimately show ?thesis
    unfolding r by (simp add: readSecret_def secrets.find_put [OF assms(4)] secretMerge_fields)
qed

lemma upsert_fails: "drawOk draw \<Longrightarrow> upsertWithSecret d draw k kid secret rows = Inl e \<Longrightarrow>
    \<exists>e. km_encryptDataKey (bd_kms d) (fst draw) kid = Inl e"
  by (auto simp: upsertWithSecret_def encryptWithDataKey_def drawOk_def split: sum.splits prod.splits if_splits)

lemma upsert_accepted: "upsertWithSecret d draw k kid secret rows = Inr rows' \<Longrightarrow> \<exists>w. km_encryptDataKey (bd_kms d) (fst draw) kid = Inr w"
  by (auto simp: upsertWithSecret_def split: sum.splits prod.splits)

lemma find_removed: "selectOne (\<lambda>r. secretKey r = k') (removeSecret k rows) =
    (if k' = k then None else selectOne (\<lambda>r. secretKey r = k') rows)"
  by (induction rows) (auto simp: removeSecret_def deleteWhere_def selectOne_def)

definition unique :: "InstallationSecretRow list \<Rightarrow> bool" where
  "unique rows = distinct (map secretKey rows)"

lemma upsert_unique: "unique rows \<Longrightarrow> upsertWithSecret d draw k kid secret rows = Inr rows' \<Longrightarrow> unique rows'"
  unfolding unique_def by (cases draw) (auto dest!: upsert_is_put intro: secrets.put_unique)

lemma runCall_simulates:
  assumes "cipherOk (bd_cipher d)" "kmsOk (bd_kms d)" "list_all drawOk (callDraws call)" "unique rows"
    and m: "\<And>k. readSecret d k rows = Inr (m k)"
  shows "unique (runCall d call rows) \<and> readSecret d k (runCall d call rows) = Inr (specCall (bd_kms d) call m k)"
proof (cases call)
  case (CallUpsert draw key kid secret)
  show ?thesis
  proof (cases "upsertWithSecret d draw key kid secret rows")
    case (Inl e)
    then show ?thesis using CallUpsert assms(3,4) m upsert_fails [of draw d key kid secret rows e] by auto
  next
    case (Inr rows')
    then show ?thesis
      using CallUpsert assms(3,4) m read_after_upsert [OF assms(1,2) _ _ Inr, of k] upsert_accepted [OF Inr] upsert_unique [OF _ Inr]
      by (auto simp: unique_def)
  qed
next
  case (CallRotate draw key kid)
  show ?thesis
  proof (cases "rotateSecret d draw key kid rows")
    case (Inl e)
    then show ?thesis using CallRotate assms(4) m by simp
  next
    case (Inr rows')
    then obtain secret where s: "m key = Some secret" "upsertWithSecret d draw key kid secret rows = Inr rows'"
      using m [of key] by (auto simp: rotateSecret_def blank_def split: if_splits)
    then show ?thesis
      using Inr CallRotate assms(3,4) m read_after_upsert [OF assms(1,2) _ _ s(2), of k] upsert_unique [OF _ s(2)]
      by (auto simp: unique_def)
  qed
next
  case (CallRemove key)
  have "unique (removeSecret key rows)"
    using assms(4) by (simp add: unique_def removeSecret_def deleteWhere_def distinct_map_filter)
  then show ?thesis using CallRemove m [of k] by (simp add: readSecret_def find_removed)
qed

text \<open>The store of customer keys is a map: after any sequence of upserts, rotations and
  removals, at any times, what it decrypts for an installation and provider is the secret last
  stored there, with calls the key service refused left out; a rotation changes no secret, and no
  call reaches another installation's or provider's secret.\<close>

theorem byok_refines_map:
  assumes "cipherOk (bd_cipher d)" "kmsOk (bd_kms d)" "unique rows" "\<forall>k. readSecret d k rows = Inr (m k)"
    "list_all (\<lambda>(t, call). list_all drawOk (callDraws call)) calls"
  shows "readSecret d k (runCalls d calls rows) = Inr (fold (\<lambda>(t, call). specCall (bd_kms d) call) calls m k)"
  using assms(3-5)
proof (induction calls arbitrary: rows m)
  case Nil
  then show ?case by (cases k) (simp add: runCalls_def)
next
  case (Cons tc calls)
  obtain t call where tc: "tc = (t, call)" by (cases tc)
  have "unique (runCall (atTime d t) call rows) \<and> readSecret d k (runCall (atTime d t) call rows) = Inr (specCall (bd_kms d) call m k)" for k
    using runCall_simulates [of "atTime d t" call rows m k] Cons.prems assms(1,2) tc by simp
  then show ?case
    using Cons.IH [of "runCall (atTime d t) call rows" "specCall (bd_kms d) call m"] Cons.prems(3) tc
    by (simp add: runCalls_def)
qed

text \<open>The documented transparency of a rotation at the level of the route: a rotation that
  answers 200 re-wraps the secret under the server's key, and every key reads what it read before.\<close>

theorem rotate_route_keeps_secrets:
  assumes "cipherOk (bd_cipher (lk_store deps))" "kmsOk (bd_kms (lk_store deps))" "unique rows" "drawOk draw"
    "readSecret (lk_store deps) k rows = Inr v" "rotateKey deps draw (Some body) rows = ((200, r), rows', audits)"
  shows "readSecret (lk_store deps) k rows' = Inr v"
proof -
  obtain key where b: "lookupBodySchema body = Some key" using assms(6) by (auto simp: rotateKey_def split: option.splits)
  then obtain secret where s: "readSecret (lk_store deps) key rows = Inr (Some secret)"
    and u: "upsertWithSecret (lk_store deps) draw key (lk_kmsKeyId deps) secret rows = Inr rows'"
    using assms(6) by (auto simp: rotateKey_def rotateSecret_def blank_def split: sum.splits if_splits)
  show ?thesis
    using read_after_upsert [OF assms(1,2,4) _ u, of k] assms(3,5) s by (auto simp: unique_def)
qed

section \<open>A cipher and a key service\<close>

definition sampleCipher :: Cipher where
  "sampleCipher = \<lparr>ci_encrypt = (\<lambda>k iv p. (rev p, take 16 k)), ci_decrypt = (\<lambda>k iv c t. if t = take 16 k then Inr (rev c) else Inl ''bad tag'')\<rparr>"

definition plainKms :: KmsClient where
  "plainKms = createAwsKmsClient (\<lambda>c. case c of
     EncryptCommand keyId p \<Rightarrow> Inr (Some (keyId @ [NUL] @ p)) | DecryptCommand keyId w \<Rightarrow> Inr (Some (drop (length keyId + 1) w)))"

definition sampleByok :: ByokDeps where
  "sampleByok = \<lparr>bd_cipher = sampleCipher, bd_kms = plainKms, bd_dbNow = 0, bd_now = 0\<rparr>"

definition sampleDraw :: Draw where
  "sampleDraw = (replicate 32 CHR ''k'', replicate 12 CHR ''i'')"

lemma sample_cipher: "cipherOk (bd_cipher sampleByok)"
  by (simp add: sampleByok_def sampleCipher_def cipherOk_def KEY_BYTES_def TAG_BYTES_def)

lemma sample_draw: "drawOk sampleDraw"
  by (simp add: sampleDraw_def drawOk_def KEY_BYTES_def IV_BYTES_def)

lemma plain_kms: "kmsOk (bd_kms sampleByok)"
  by (simp add: sampleByok_def plainKms_def createAwsKmsClient_def kmsOk_def)

lemma byok_refines_map_witness:
  "readSecret sampleByok (7, Anthropic)
     (runCalls sampleByok
       [((1, 1), CallUpsert sampleDraw (7, Anthropic) ''cmk-1'' ''sk-ant''), ((2, 2), CallRotate sampleDraw (7, Anthropic) ''cmk-2'')] []) =
   Inr (Some ''sk-ant'')"
proof -
  have "list_all (\<lambda>(t, call). list_all drawOk (callDraws call))
      [((1, 1), CallUpsert sampleDraw (7, Anthropic) ''cmk-1'' ''sk-ant''), ((2, 2), CallRotate sampleDraw (7, Anthropic) ''cmk-2'')]"
    by (simp add: sample_draw)
  moreover have "\<forall>k. readSecret sampleByok k [] = Inr ((\<lambda>_. None) k)"
    by (simp add: readSecret_def selectOne_def)
  ultimately show ?thesis
    using byok_refines_map [of sampleByok "[]" "\<lambda>_. None"] sample_cipher plain_kms
    by (simp add: unique_def sampleByok_def plainKms_def createAwsKmsClient_def)
qed

end
