(* ===== verification/ReposApi.thy ===== *)
theory ReposApi
  imports Byok StateMirror Cost
begin

text \<open>
  The other routes of the dashboard API: \<open>server/src/api/repos.ts\<close>, \<open>dashboard.ts\<close>,
  \<open>integrations.ts\<close> and \<open>github-repos.ts\<close>.  The tables are one record; a handler returns its reply and the
  tables.  The order of the database's collation, the client of the GitHub App and the listing
  of its repositories are parameters.
\<close>

section \<open>The tables\<close>

record ApiDb = ApiTables +
  ad_ledger :: Ledger
  ad_installations :: "GithubInstallationRow list"
  ad_secrets :: "InstallationSecretRow list"

section \<open>\<open>repos.ts\<close>\<close>

record RepoSummary =
  rs_id :: string
  rs_platform :: Platform
  rs_name :: string
  rs_enabled :: bool
  rs_lastReviewAt :: "string option"
  rs_lastOutcome :: "ReviewOutcome option"

record RepoDetail = RepoSummary +
  rt_createdAt :: string
  rt_updatedAt :: string
  rt_systemPromptPresent :: bool

definition isPromptPresent :: "string option \<Rightarrow> bool" where
  "isPromptPresent v = (case v of None \<Rightarrow> False | Some s \<Rightarrow> trim s \<noteq> [])"

text \<open>The most recent review event of a name; events of one moment keep the order of the table.\<close>

definition lastEvent :: "string \<Rightarrow> EvalEventRow list \<Rightarrow> EvalEventRow option" where
  "lastEvent name rows =
     (case sort_key (\<lambda>r. - ee_createdAtUs r) (filter (\<lambda>r. ee_repo r = name) rows) of [] \<Rightarrow> None | r # _ \<Rightarrow> Some r)"

definition repoSummary :: "EvalEventRow list \<Rightarrow> RepoRow \<Rightarrow> RepoSummary" where
  "repoSummary events r =
     \<lparr>rs_id = rp_id r, rs_platform = rp_platform r, rs_name = rp_name r, rs_enabled = rp_enabled r,
      rs_lastReviewAt = map_option (\<lambda>e. toISOString (ee_createdAt e)) (lastEvent (rp_name r) events),
      rs_lastOutcome = map_option (\<lambda>e. deriveOutcome (ee_abortReason e)) (lastEvent (rp_name r) events)\<rparr>"

text \<open>\<open>GET /repos\<close>: one query for the events of all repositories, the first of each name is kept.\<close>

fun firstPerRepo :: "EvalEventRow list \<Rightarrow> (string \<times> EvalEventRow) list \<Rightarrow> (string \<times> EvalEventRow) list" where
  "firstPerRepo [] latest = latest"
| "firstPerRepo (e # es) latest =
     firstPerRepo es (if map_of latest (ee_repo e) = None then (ee_repo e, e) # latest else latest)"

definition listRepos :: "(string \<Rightarrow> int) \<Rightarrow> ApiDb \<Rightarrow> RepoSummary list reply" where
  "listRepos collate db =
     (let activeRepos = sort_key (\<lambda>r. collate (rp_name r)) (filter (\<lambda>r. rp_deletedAt r = None) (at_repos db));
          recentEvents = (if activeRepos = [] then []
            else sort_key (\<lambda>r. - ee_createdAtUs r) (filter (\<lambda>e. ee_repo e \<in> set (map rp_name activeRepos)) (at_events db)));
          latest = firstPerRepo recentEvents []
      in (200, Inr (map (\<lambda>r.
           \<lparr>rs_id = rp_id r, rs_platform = rp_platform r, rs_name = rp_name r, rs_enabled = rp_enabled r,
            rs_lastReviewAt = map_option (\<lambda>e. toISOString (ee_createdAt e)) (map_of latest (rp_name r)),
            rs_lastOutcome = map_option (\<lambda>e. deriveOutcome (ee_abortReason e)) (map_of latest (rp_name r))\<rparr>) activeRepos)))"

definition getRepo :: "string \<Rightarrow> ApiDb \<Rightarrow> RepoDetail reply" where
  "getRepo i db =
     (case activeRepo i (at_repos db) of
        None \<Rightarrow> (404, Inl ''not_found'')
      | Some r \<Rightarrow> (200, Inr (RepoSummary.extend (repoSummary (at_events db) r)
          \<lparr>rt_createdAt = toISOString (rp_createdAt r), rt_updatedAt = toISOString (rp_updatedAt r),
           rt_systemPromptPresent = isPromptPresent (rp_systemPrompt r)\<rparr>)))"

definition newRepo :: "string \<Rightarrow> Platform \<Rightarrow> string \<Rightarrow> int option \<Rightarrow> Date \<Rightarrow> RepoRow" where
  "newRepo i platform name installationId now =
     \<lparr>rp_id = i, rp_platform = platform, rp_name = name, rp_enabled = True, rp_systemPrompt = None,
      rp_systemPromptUpdatedAt = None, rp_createdAt = now, rp_updatedAt = now, rp_deletedAt = None,
      rp_installationId = installationId\<rparr>"

text \<open>\<open>insert\<close>: a repeated primary key throws.\<close>

definition insertRepo :: "RepoRow \<Rightarrow> RepoRow list \<Rightarrow> RepoRow list result" where
  "insertRepo r rows =
     (if rp_id r \<in> rp_id ` set rows then Inl ''duplicate key value violates unique constraint'' else Inr (rows @ [r]))"

definition nameOk :: "string \<Rightarrow> bool" where
  "nameOk s = (1 \<le> length s \<and> length s \<le> 200)"

definition createRepoBodySchema :: "json \<Rightarrow> (Platform \<times> string) option" where
  "createRepoBodySchema body =
     (case (jsonMember body ''platform'', jsonMember body ''name'') of
        (Some (JStr p), Some (JStr name)) \<Rightarrow> if nameOk name then map_option (\<lambda>pl. (pl, name)) (platformOf p) else None
      | _ \<Rightarrow> None)"

definition createRepo :: "Date \<Rightarrow> string \<Rightarrow> json option \<Rightarrow> ApiDb \<Rightarrow> RepoSummary reply \<times> ApiDb" where
  "createRepo now newId body db =
     (case body of
        None \<Rightarrow> ((400, Inl ''invalid JSON body''), db)
      | Some b \<Rightarrow>
          (case createRepoBodySchema b of
             None \<Rightarrow> ((422, Inl ''validation_error''), db)
           | Some (platform, name) \<Rightarrow>
               (case insertRepo (newRepo newId platform name None now) (at_repos db) of
                  Inl _ \<Rightarrow> (internalError, db)
                | Inr rows \<Rightarrow>
                    ((201, Inr \<lparr>rs_id = newId, rs_platform = platform, rs_name = name, rs_enabled = True,
                                rs_lastReviewAt = None, rs_lastOutcome = None\<rparr>), db\<lparr>at_repos := rows\<rparr>))))"

definition patchRepoBodySchema :: "json \<Rightarrow> bool option option" where
  "patchRepoBodySchema body =
     (case body of
        JObj _ \<Rightarrow> (case jsonMember body ''enabled'' of None \<Rightarrow> Some None | Some (JBool b) \<Rightarrow> Some (Some b) | Some _ \<Rightarrow> None)
      | _ \<Rightarrow> None)"

definition patchRepo :: "Date \<Rightarrow> string \<Rightarrow> json option \<Rightarrow> ApiDb \<Rightarrow> RepoSummary reply \<times> ApiDb" where
  "patchRepo now i body db =
     (case body of
        None \<Rightarrow> ((400, Inl ''invalid JSON body''), db)
      | Some b \<Rightarrow>
          (case patchRepoBodySchema b of
             None \<Rightarrow> ((422, Inl ''validation_error''), db)
           | Some enabled \<Rightarrow>
               (case activeRepo i (at_repos db) of
                  None \<Rightarrow> ((404, Inl ''not_found''), db)
                | Some _ \<Rightarrow>
                    (let db' = (case enabled of None \<Rightarrow> db
                               | Some e \<Rightarrow> db\<lparr>at_repos := updateWhere (\<lambda>r. rp_id r = i)
                                   (\<lambda>r. r\<lparr>rp_enabled := e, rp_updatedAt := now\<rparr>) (at_repos db)\<rparr>)
                     in case activeRepo i (at_repos db') of
                          None \<Rightarrow> ((404, Inl ''not_found''), db')
                        | Some r \<Rightarrow> ((200, Inr (repoSummary (at_events db') r)), db')))))"

definition deleteRepo :: "Date \<Rightarrow> string \<Rightarrow> ApiDb \<Rightarrow> unit reply \<times> ApiDb" where
  "deleteRepo now i db =
     (case activeRepo i (at_repos db) of
        None \<Rightarrow> ((404, Inl ''not_found''), db)
      | Some _ \<Rightarrow>
          ((204, Inr ()), db\<lparr>at_repos := updateWhere (\<lambda>r. rp_id r = i)
             (\<lambda>r. r\<lparr>rp_deletedAt := Some now, rp_updatedAt := now\<rparr>) (at_repos db)\<rparr>))"

definition getPrompt :: "string \<Rightarrow> ApiDb \<Rightarrow> (string \<times> string option) reply" where
  "getPrompt i db =
     (case activeRepo i (at_repos db) of
        None \<Rightarrow> (404, Inl ''not_found'')
      | Some r \<Rightarrow> (200, Inr (case rp_systemPrompt r of None \<Rightarrow> [] | Some p \<Rightarrow> p, map_option toISOString (rp_systemPromptUpdatedAt r))))"

definition putPrompt :: "Date \<Rightarrow> string \<Rightarrow> json option \<Rightarrow> ApiDb \<Rightarrow> (string \<times> string option) reply \<times> ApiDb" where
  "putPrompt now i body db =
     (case activeRepo i (at_repos db) of
        None \<Rightarrow> ((404, Inl ''not_found''), db)
      | Some _ \<Rightarrow>
          (case body of
             None \<Rightarrow> ((400, Inl ''invalid JSON body''), db)
           | Some b \<Rightarrow>
               (case jsonMember b ''systemPrompt'' of
                  Some (JStr systemPrompt) \<Rightarrow>
                    if 50000 < length systemPrompt then ((422, Inl ''validation_error''), db)
                    else let storedPrompt = (if trim systemPrompt \<noteq> [] then Some systemPrompt else None)
                         in ((200, Inr (case storedPrompt of None \<Rightarrow> [] | Some p \<Rightarrow> p, Some (toISOString now))),
                             db\<lparr>at_repos := updateWhere (\<lambda>r. rp_id r = i)
                               (\<lambda>r. r\<lparr>rp_systemPrompt := storedPrompt, rp_systemPromptUpdatedAt := Some now, rp_updatedAt := now\<rparr>)
                               (at_repos db)\<rparr>)
                | _ \<Rightarrow> ((422, Inl ''validation_error''), db))))"

record RepoMetrics =
  mt_totalReviews :: nat
  mt_reviewsLast30d :: nat
  mt_avgDurationMs :: int
  mt_totalCostUsd :: rat

definition repoMetrics :: "Date \<Rightarrow> string \<Rightarrow> ApiDb \<Rightarrow> RepoMetrics reply" where
  "repoMetrics now i db =
     (case activeRepo i (at_repos db) of
        None \<Rightarrow> (404, Inl ''not_found'')
      | Some repo \<Rightarrow>
          (let rows = filter (\<lambda>r. ee_repo r = rp_name repo) (at_events db);
               thirtyDaysAgo = now - 30 * 24 * hourMs
           in (200, Inr \<lparr>mt_totalReviews = length rows,
                         mt_reviewsLast30d = length (filter (\<lambda>r. dateUs thirtyDaysAgo \<le> ee_createdAtUs r) rows),
                         mt_avgDurationMs = (if rows = [] then 0
                           else floor (of_int (sum_list (map ee_latencyMs rows)) / of_nat (length rows) + 1 / 2 :: rat)),
                         mt_totalCostUsd = sum_list (map ee_costUsd rows)\<rparr>)))"

section \<open>\<open>dashboard.ts\<close>\<close>

definition startOfMonth :: "Date \<Rightarrow> Date" where
  "startOfMonth now =
     (let day = now div msPerDay; y = YearFromDay day; starts = monthStarts (InLeapYear y);
          (m, dd) = monthDate starts (day - DayFromYear y)
      in (DayFromYear y + the (map_of starts m)) * msPerDay)"

record DashboardOverview =
  dv_totalRepos :: nat
  dv_reviewsMonth :: nat
  dv_queueDepth :: nat
  dv_costMtd :: rat

definition overview :: "Date \<Rightarrow> ApiDb \<Rightarrow> DashboardOverview reply" where
  "overview now db =
     (200, Inr \<lparr>dv_totalRepos = length (filter (\<lambda>r. rp_deletedAt r = None) (at_repos db)),
                dv_reviewsMonth = length (filter (\<lambda>r. dateUs (startOfMonth now) \<le> ee_createdAtUs r) (at_events db)),
                dv_queueDepth = 0,
                dv_costMtd = sum_list (map (\<lambda>r. ri_costUsd (cl_input r))
                  (filter (\<lambda>r. startOfMonth now \<le> cl_createdAt r) (lg_rows (ad_ledger db))))\<rparr>)"

section \<open>\<open>integrations.ts\<close>\<close>

definition isPresent :: "string option \<Rightarrow> bool" where
  "isPresent v = (case v of None \<Rightarrow> False | Some s \<Rightarrow> trim s \<noteq> [])"

definition maskId :: "string \<Rightarrow> string" where
  "maskId v = (if length v \<le> 4 then ''****'' else take 4 v @ ''****'')"

record IntegrationStatus =
  in_githubConfigured :: bool
  in_appId :: "string option"
  in_appSlug :: "string option"
  in_installationCount :: nat
  in_codecommitConfigured :: bool
  in_region :: "string option"
  in_llmConfigured :: bool
  in_provider :: "string option"
  in_model :: "string option"

definition llmProvider :: "Env \<Rightarrow> string option" where
  "llmProvider env =
     (if isPresent (env ''REVIEW_AGENT_PROVIDER'') then env ''REVIEW_AGENT_PROVIDER''
      else if isPresent (env ''ANTHROPIC_API_KEY'') then Some ''anthropic''
      else if isPresent (env ''OPENAI_API_KEY'') then Some ''openai'' else None)"

definition llmModel :: "Env \<Rightarrow> string option" where
  "llmModel env =
     (if isPresent (env ''REVIEW_AGENT_MODEL'') then env ''REVIEW_AGENT_MODEL''
      else if llmProvider env = Some ''anthropic'' \<and> isPresent (env ''ANTHROPIC_MODEL'') then env ''ANTHROPIC_MODEL''
      else if llmProvider env = Some ''anthropic'' then Some ''claude-sonnet-4-5'' else None)"

definition integrations :: "Env \<Rightarrow> ApiDb \<Rightarrow> IntegrationStatus reply" where
  "integrations env db =
     (200, Inr \<lparr>in_githubConfigured = isPresent (env ''GITHUB_APP_ID''),
                in_appId = (if isPresent (env ''GITHUB_APP_ID'') then map_option maskId (env ''GITHUB_APP_ID'') else None),
                in_appSlug = (if isPresent (env ''GITHUB_APP_SLUG'') then env ''GITHUB_APP_SLUG'' else None),
                in_installationCount = length (filter (\<lambda>r. gi_suspendedAt r = None) (ad_installations db)),
                in_codecommitConfigured = (isPresent (env ''AWS_REGION'') \<and> isPresent (env ''REVIEW_AGENT_SNS_TOPIC_ARNS'')),
                in_region = env ''AWS_REGION'',
                in_llmConfigured = (isPresent (env ''ANTHROPIC_API_KEY'') \<or> isPresent (env ''OPENAI_API_KEY'')),
                in_provider = llmProvider env, in_model = llmModel env\<rparr>)"

section \<open>\<open>github-repos.ts\<close>\<close>

record InstallationRepo =
  ir_id :: int
  ir_fullName :: string
  ir_private :: bool

text \<open>Minting a token and listing the installation's repositories, which may throw.\<close>

type_synonym AppAuth = "int \<Rightarrow> InstallationRepo list result"

definition installationRepos :: "AppAuth option \<Rightarrow> string \<Rightarrow> ApiDb \<Rightarrow> (InstallationRepo \<times> bool) list reply" where
  "installationRepos appAuth param db =
     (case appAuth of
        None \<Rightarrow> (503, Inl ''github_app_not_configured'')
      | Some listRepositories \<Rightarrow>
          if param = [] \<or> list_ex (\<lambda>c. \<not> isDigit c) param then (422, Inl ''validation_error'')
          else let installationId = int (readDigits param) in
            (case find (\<lambda>r. gi_installationId r = installationId) (ad_installations db) of
               None \<Rightarrow> (404, Inl ''not_found'')
             | Some installation \<Rightarrow>
                 if gi_suspendedAt installation \<noteq> None then (404, Inl ''not_found'')
                 else (case listRepositories installationId of
                         Inl _ \<Rightarrow> (502, Inl ''github_api_error'')
                       | Inr githubRepos \<Rightarrow>
                           (200, Inr (map (\<lambda>r. (r, ir_fullName r \<in> set (map rp_name (filter (\<lambda>p. rp_deletedAt p = None) (at_repos db)))))
                             githubRepos)))))"

record BulkRepoResult =
  br_created :: "string list"
  br_alreadyExists :: "string list"
  br_errors :: "(string \<times> string) list"

definition asNames :: "json list \<Rightarrow> string list option" where
  "asNames vs = those (map (\<lambda>v. case v of JStr s \<Rightarrow> if nameOk s then Some s else None | _ \<Rightarrow> None) vs)"

definition bulkRepoBodySchema :: "json \<Rightarrow> (int \<times> string list) option" where
  "bulkRepoBodySchema body =
     (case (installationIdSchema (jsonMember body ''installationId''), jsonMember body ''names'') of
        (Some i, Some (JArr vs)) \<Rightarrow>
          if 1 \<le> length vs \<and> length vs \<le> 100 then map_option (\<lambda>names. (i, names)) (asNames vs) else None
      | _ \<Rightarrow> None)"

text \<open>The loop over the names; \<open>ids\<close> are the ids generated for the inserts, \<open>takes\<close> whether the
  database accepts the insert of an id (a missing installation violates the foreign key).\<close>

fun bulkLoop :: "(string \<Rightarrow> string option) \<Rightarrow> Date \<Rightarrow> int \<Rightarrow> string set \<Rightarrow> string list \<Rightarrow> string list \<Rightarrow>
    BulkRepoResult \<Rightarrow> RepoRow list \<Rightarrow> BulkRepoResult \<times> RepoRow list" where
  "bulkLoop refuses now inst existing [] ids out rows = (out, rows)"
| "bulkLoop refuses now inst existing (name # names) ids out rows =
     (if name \<in> existing
      then bulkLoop refuses now inst existing names ids (out\<lparr>br_alreadyExists := br_alreadyExists out @ [name]\<rparr>) rows
      else let i = (case ids of [] \<Rightarrow> [] | i # _ \<Rightarrow> i) in
        (case (case refuses i of Some e \<Rightarrow> Inl e | None \<Rightarrow> insertRepo (newRepo i Github name (Some inst) now) rows) of
           Inl e \<Rightarrow> bulkLoop refuses now inst existing names (drop 1 ids) (out\<lparr>br_errors := br_errors out @ [(name, e)]\<rparr>) rows
         | Inr rows' \<Rightarrow> bulkLoop refuses now inst existing names (drop 1 ids) (out\<lparr>br_created := br_created out @ [name]\<rparr>) rows'))"

definition bulkRegister :: "(string \<Rightarrow> string option) \<Rightarrow> Date \<Rightarrow> string list \<Rightarrow> json option \<Rightarrow> ApiDb \<Rightarrow>
    BulkRepoResult reply \<times> ApiDb" where
  "bulkRegister refuses now ids body db =
     (case body of
        None \<Rightarrow> ((400, Inl ''invalid JSON body''), db)
      | Some b \<Rightarrow>
          (case bulkRepoBodySchema b of
             None \<Rightarrow> ((422, Inl ''validation_error''), db)
           | Some (inst, names) \<Rightarrow>
               (let existing = set (map rp_name (filter (\<lambda>r. rp_name r \<in> set names \<and> rp_deletedAt r = None) (at_repos db)));
                    (out, rows) = bulkLoop refuses now inst existing names ids
                      \<lparr>br_created = [], br_alreadyExists = [], br_errors = []\<rparr> (at_repos db);
                    status = (if br_errors out = [] \<and> br_alreadyExists out = [] \<and> br_created out \<noteq> [] then 201
                              else if br_errors out = [] \<and> br_created out = [] then 200 else 207)
                in ((status, Inr out), db\<lparr>at_repos := rows\<rparr>))))"

end
