(* ===== verification/Api.thy ===== *)
theory Api
  imports ReposApi "HOL-Library.Multiset"
begin

text \<open>
  The dashboard API as a whole: the middlewares of \<open>server/src/api/middleware\<close> and the
  composition of the routers in \<open>server/src/api/index.ts\<close>.  A request carries the segments of
  its path below \<open>/api\<close>; a body that is not JSON is \<open>None\<close>.  What one request draws from
  its surroundings (the clock, generated ids, random bytes, refused inserts) is an argument.
\<close>

section \<open>Middlewares\<close>

record AuthMiddlewareOptions =
  am_token :: "string option"
  am_requireAuth :: bool

datatype Guarded = Pass | Answer nat string

definition bearerTokenAuth :: "AuthMiddlewareOptions \<Rightarrow> string \<Rightarrow> string option \<Rightarrow> Guarded" where
  "bearerTokenAuth opts verb authHeader =
     (if verb = ''OPTIONS'' then Pass
      else if blank (am_token opts)
        then (if am_requireAuth opts then Answer 503 ''dashboard authentication not configured'' else Pass)
      else case authHeader of
             None \<Rightarrow> Answer 401 ''unauthorized''
           | Some h \<Rightarrow>
               if \<not> startsWith h ''Bearer '' then Answer 401 ''unauthorized''
               else if drop 7 h \<noteq> the (am_token opts) then Answer 401 ''unauthorized'' else Pass)"

definition multiTenantGuard :: "bool \<Rightarrow> Guarded" where
  "multiTenantGuard multiTenant =
     (if \<not> multiTenant then Pass
      else Answer 501 (''per_installation_authz_not_implemented: these endpoints are disabled in multi-tenant mode '' @
        ''until per-installation authorization lands (issue #132)''))"

text \<open>The preflight answer of the development CORS middleware; without the flag it is a no-op.\<close>

definition devCors :: "string option \<Rightarrow> string \<Rightarrow> bool" where
  "devCors flag verb = (flag = Some ''1'' \<and> verb = ''OPTIONS'')"

section \<open>\<open>createApi\<close>\<close>

record ApiRequest =
  ar_method :: string
  ar_path :: "string list"
  ar_query :: Query
  ar_authorization :: "string option"
  ar_body :: "json option"

record ApiDeps =
  dp_platform :: ApiPlatform
  dp_env :: Env
  dp_collate :: "string \<Rightarrow> int"
  dp_dashboardToken :: "string option"
  dp_requireDashboardAuth :: bool
  dp_kms :: "ByokDeps option"
  dp_kmsKeyId :: "string option"
  dp_audit :: "KeyAudit \<Rightarrow> string option"
  dp_appAuth :: "AppAuth option"
  dp_multiTenant :: "bool option"

record ApiDraw =
  dw_now :: Date
  dw_ids :: "string list"
  dw_random :: Draw
  dw_refuses :: "string \<Rightarrow> string option"

datatype ApiBody =
    ErrorBody string
  | EmptyBody
  | OverviewBody DashboardOverview
  | ReposBody "RepoSummary list"
  | RepoBody RepoSummary
  | RepoDetailBody RepoDetail
  | PromptBody "string \<times> string option"
  | PageBody ReviewPage
  | MetricsBody RepoMetrics
  | IntegrationsBody IntegrationStatus
  | KeysBody "int \<times> (ProviderType \<times> bool) list"
  | KeyBody KeyStatus
  | ReviewsBody ReviewList
  | ReviewBody ApiReviewDetail
  | AccessibleBody "(InstallationRepo \<times> bool) list"
  | BulkBody BulkRepoResult

type_synonym ApiReply = "nat \<times> ApiBody"

definition bodyOf :: "('b \<Rightarrow> ApiBody) \<Rightarrow> 'b reply \<Rightarrow> ApiReply" where
  "bodyOf f r = (fst r, case snd r of Inl e \<Rightarrow> ErrorBody e | Inr b \<Rightarrow> f b)"

definition parseMultiTenantEnv :: "Env \<Rightarrow> bool" where
  "parseMultiTenantEnv env =
     (case env ''REVIEW_AGENT_MULTI_TENANT'' of None \<Rightarrow> False | Some raw \<Rightarrow> toLowerCase (trim raw) = ''true'')"

definition multiTenant :: "ApiDeps \<Rightarrow> bool" where
  "multiTenant deps = (case dp_multiTenant deps of Some b \<Rightarrow> b | None \<Rightarrow> parseMultiTenantEnv (dp_env deps))"

definition firstId :: "ApiDraw \<Rightarrow> string" where
  "firstId w = (case dw_ids w of [] \<Rightarrow> [] | i # _ \<Rightarrow> i)"

definition notFound :: ApiReply where "notFound = (404, ErrorBody ''404 Not Found'')"

definition tablesOf :: "ApiDb \<Rightarrow> ApiTables" where
  "tablesOf db = \<lparr>at_repos = at_repos db, at_events = at_events db\<rparr>"

definition apiNow :: "ApiDeps \<Rightarrow> ApiDraw \<Rightarrow> ApiPlatform" where
  "apiNow deps w = (dp_platform deps)\<lparr>ap_now := dw_now w\<rparr>"

type_synonym ApiStep = "ApiReply \<times> ApiDb \<times> KeyAudit list"

definition reads :: "ApiDb \<Rightarrow> ApiReply \<Rightarrow> ApiStep" where
  "reads db r = (r, db, [])"

definition writes :: "('b \<Rightarrow> ApiBody) \<Rightarrow> 'b reply \<times> ApiDb \<Rightarrow> ApiStep" where
  "writes f p = (bodyOf f (fst p), snd p, [])"

text \<open>The router of \<open>/repos\<close>; \<open>None\<close> is no route.\<close>

definition reposRouter :: "ApiDeps \<Rightarrow> ApiDraw \<Rightarrow> ApiRequest \<Rightarrow> string list \<Rightarrow> ApiDb \<Rightarrow> ApiStep option" where
  "reposRouter deps w req path db =
     (case path of
        [] \<Rightarrow>
          if ar_method req = ''GET'' then Some (reads db (bodyOf ReposBody (listRepos (dp_collate deps) db)))
          else if ar_method req = ''POST'' then Some (writes RepoBody (createRepo (dw_now w) (firstId w) (ar_body req) db))
          else None
      | [i] \<Rightarrow>
          if ar_method req = ''GET'' then Some (reads db (bodyOf RepoDetailBody (getRepo i db)))
          else if ar_method req = ''PATCH'' then Some (writes RepoBody (patchRepo (dw_now w) i (ar_body req) db))
          else if ar_method req = ''DELETE'' then Some (writes (\<lambda>_. EmptyBody) (deleteRepo (dw_now w) i db))
          else None
      | [i, sub] \<Rightarrow>
          if sub = ''prompt'' \<and> ar_method req = ''GET'' then Some (reads db (bodyOf PromptBody (getPrompt i db)))
          else if sub = ''prompt'' \<and> ar_method req = ''PUT'' then Some (writes PromptBody (putPrompt (dw_now w) i (ar_body req) db))
          else if sub = ''reviews'' \<and> ar_method req = ''GET''
            then Some (reads db (bodyOf PageBody (listRepoReviews (apiNow deps w) i (ar_query req) (tablesOf db))))
          else if sub = ''metrics'' \<and> ar_method req = ''GET'' then Some (reads db (bodyOf MetricsBody (repoMetrics (dw_now w) i db)))
          else None
      | _ \<Rightarrow> None)"

definition keyStep :: "ApiDb \<Rightarrow> KeyStatus reply \<times> InstallationSecretRow list \<times> KeyAudit list \<Rightarrow> ApiStep" where
  "keyStep db r = (bodyOf KeyBody (fst r), db\<lparr>ad_secrets := fst (snd r)\<rparr>, snd (snd r))"

definition keysRouter :: "ApiDeps \<Rightarrow> LlmKeysDeps \<Rightarrow> ApiDraw \<Rightarrow> ApiRequest \<Rightarrow> string list \<Rightarrow> ApiDb \<Rightarrow> ApiStep option" where
  "keysRouter deps lk w req path db =
     (case multiTenantGuard (multiTenant deps) of
        Answer status e \<Rightarrow> Some (reads db (status, ErrorBody e))
      | Pass \<Rightarrow>
          if path = [] \<and> ar_method req = ''GET''
            then Some (reads db (bodyOf KeysBody (listKeys (ar_query req ''installationId'') (ad_secrets db))))
          else if path = [] \<and> ar_method req = ''POST'' then Some (keyStep db (upsertKey lk (dw_random w) (ar_body req) (ad_secrets db)))
          else if path = [''rotate''] \<and> ar_method req = ''POST'' then Some (keyStep db (rotateKey lk (dw_random w) (ar_body req) (ad_secrets db)))
          else if path = [] \<and> ar_method req = ''DELETE'' then Some (keyStep db (deleteKey lk (ar_body req) (ad_secrets db)))
          else None)"

definition githubRouter :: "ApiDeps \<Rightarrow> ApiDraw \<Rightarrow> ApiRequest \<Rightarrow> ApiDb \<Rightarrow> ApiStep" where
  "githubRouter deps w req db =
     (case multiTenantGuard (multiTenant deps) of
        Answer status e \<Rightarrow> reads db (status, ErrorBody e)
      | Pass \<Rightarrow>
          (case ar_path req of
             [a, b, i, d] \<Rightarrow>
               if a = ''github'' \<and> b = ''installations'' \<and> d = ''repos'' \<and> ar_method req = ''GET''
                 then reads db (bodyOf AccessibleBody (installationRepos (dp_appAuth deps) i db))
               else reads db notFound
           | [a, b] \<Rightarrow>
               if a = ''repos'' \<and> b = ''bulk'' \<and> ar_method req = ''POST''
                 then writes BulkBody (bulkRegister (dw_refuses w) (dw_now w) (dw_ids w) (ar_body req) db)
               else reads db notFound
           | _ \<Rightarrow> reads db notFound))"

text \<open>The routers in the order they are mounted; the last one, mounted at the root, sees what no other took.\<close>

definition routes :: "ApiDeps \<Rightarrow> ApiDraw \<Rightarrow> ApiRequest \<Rightarrow> ApiDb \<Rightarrow> ApiStep" where
  "routes deps w req db =
     (let mounted =
        (case ar_path req of
           a # rest \<Rightarrow>
             if a = ''dashboard'' \<and> rest = [''overview''] \<and> ar_method req = ''GET''
               then Some (reads db (bodyOf OverviewBody (overview (dw_now w) db)))
             else if a = ''repos'' then reposRouter deps w req rest db
             else if a = ''integrations'' \<and> rest = [] \<and> ar_method req = ''GET''
               then Some (reads db (bodyOf IntegrationsBody (integrations (dp_env deps) db)))
             else if a = ''integrations'' \<and> take 1 rest = [''llm-keys'']
               then (case (dp_kms deps, blank (dp_kmsKeyId deps)) of
                       (Some store, False) \<Rightarrow>
                         keysRouter deps \<lparr>lk_store = store, lk_audit = dp_audit deps, lk_kmsKeyId = the (dp_kmsKeyId deps)\<rparr> w req (drop 1 rest) db
                     | _ \<Rightarrow> Some (reads db (503, ErrorBody ''llm_keys_not_configured'')))
             else if a = ''reviews'' \<and> rest = [] \<and> ar_method req = ''GET''
               then Some (reads db (bodyOf ReviewsBody (listReviews (apiNow deps w) (ar_query req) (tablesOf db))))
             else if a = ''reviews'' \<and> length rest = 1 \<and> ar_method req = ''GET''
               then Some (reads db (bodyOf ReviewBody (getReview (apiNow deps w) (hd rest) (tablesOf db))))
             else None
         | [] \<Rightarrow> None)
      in case mounted of Some r \<Rightarrow> r | None \<Rightarrow> githubRouter deps w req db)"

definition createApi :: "ApiDeps \<Rightarrow> ApiDraw \<Rightarrow> ApiRequest \<Rightarrow> ApiDb \<Rightarrow> ApiStep" where
  "createApi deps w req db =
     (if devCors (dp_env deps ''REVIEW_AGENT_DASHBOARD_CORS'') (ar_method req) then reads db (204, EmptyBody)
      else case bearerTokenAuth \<lparr>am_token = dp_dashboardToken deps, am_requireAuth = dp_requireDashboardAuth deps\<rparr>
                  (ar_method req) (ar_authorization req) of
             Answer status e \<Rightarrow> reads db (status, ErrorBody e)
           | Pass \<Rightarrow> routes deps w req db)"

section \<open>Who may use the API\<close>

text \<open>The bearer token of the deployment; without one the API is open unless it is required.\<close>

definition authorised :: "ApiDeps \<Rightarrow> ApiRequest \<Rightarrow> bool" where
  "authorised deps req =
     (if blank (dp_dashboardToken deps) then \<not> dp_requireDashboardAuth deps
      else ar_authorization req = Some (''Bearer '' @ the (dp_dashboardToken deps)))"

definition noData :: "ApiBody \<Rightarrow> bool" where
  "noData b = (case b of ErrorBody _ \<Rightarrow> True | EmptyBody \<Rightarrow> True | _ \<Rightarrow> False)"

lemma bearer_pass: "bearerTokenAuth \<lparr>am_token = dp_dashboardToken deps, am_requireAuth = dp_requireDashboardAuth deps\<rparr> verb
    (ar_authorization req) = Pass \<longleftrightarrow> verb = ''OPTIONS'' \<or> authorised deps req"
proof -
  have "startsWith h ''Bearer '' \<and> drop 7 h = t \<longleftrightarrow> h = ''Bearer '' @ t" for h t
    by (auto simp: startsWith_iff_append)
  then show ?thesis by (auto simp: bearerTokenAuth_def authorised_def split: option.splits)
qed

text \<open>No handler answers the method of a preflight.\<close>

lemma options_inert:
  "ar_method req = ''OPTIONS'' \<Longrightarrow> \<exists>status e. routes deps w req db = ((status, ErrorBody e), db, [])"
  by (auto simp: routes_def reads_def notFound_def githubRouter_def keysRouter_def reposRouter_def multiTenantGuard_def
      split: list.splits option.splits bool.splits)

text \<open>C29: nobody without the token gets anything out of the API or into its tables: a request that
  does not carry the configured token (or any request, when the token is required but missing) is
  answered with an error and leaves repositories, keys and the audit log as they were.\<close>

theorem api_requires_token:
  assumes "\<not> authorised deps req"
  shows "case createApi deps w req db of ((status, body), db', audits) \<Rightarrow> noData body \<and> db' = db \<and> audits = []"
proof (cases "bearerTokenAuth \<lparr>am_token = dp_dashboardToken deps, am_requireAuth = dp_requireDashboardAuth deps\<rparr> (ar_method req)
    (ar_authorization req)")
  case Pass
  then have "ar_method req = ''OPTIONS''" using assms by (simp add: bearer_pass)
  from options_inert [OF this, of deps w db] show ?thesis
    using Pass by (auto simp: createApi_def reads_def noData_def)
next
  case (Answer status e)
  then show ?thesis by (auto simp: createApi_def reads_def noData_def)
qed

section \<open>Tenants\<close>

definition perInstallation :: "ApiRequest \<Rightarrow> bool" where
  "perInstallation req =
     (take 2 (ar_path req) = [''integrations'', ''llm-keys''] \<or> take 2 (ar_path req) = [''github'', ''installations''] \<or>
      (ar_path req = [''repos'', ''bulk''] \<and> ar_method req = ''POST''))"

lemma take2_eq: "take 2 xs = [a, b] \<Longrightarrow> \<exists>r. xs = a # b # r"
  by (cases xs; cases "tl xs") auto

text \<open>C30: in multi-tenant mode no route takes an installation id from the request: whoever calls, and
  whatever the GitHub client, the key service or the generated ids would do, the key routes, the
  listing of an installation and the bulk registration only answer an error and write nothing.\<close>

theorem multi_tenant_closed:
  assumes "multiTenant deps" "perInstallation req"
  shows "case createApi deps w req db of ((status, body), db', audits) \<Rightarrow> noData body \<and> db' = db \<and> audits = []"
proof -
  consider rest where "ar_path req = ''integrations'' # ''llm-keys'' # rest"
    | rest where "ar_path req = ''github'' # ''installations'' # rest" | "ar_path req = [''repos'', ''bulk'']" "ar_method req = ''POST''"
    using assms(2) take2_eq unfolding perInstallation_def by metis
  then have "\<exists>status e. routes deps w req db = ((status, ErrorBody e), db, [])"
  proof cases
    case 1
    then show ?thesis using assms(1) by (auto simp: routes_def keysRouter_def multiTenantGuard_def reads_def split: option.splits bool.splits)
  next
    case 2
    then show ?thesis using assms(1) by (simp add: routes_def githubRouter_def multiTenantGuard_def reads_def)
  next
    case 3
    then show ?thesis using assms(1) by (simp add: routes_def reposRouter_def githubRouter_def multiTenantGuard_def reads_def)
  qed
  then show ?thesis
    by (auto simp: createApi_def reads_def noData_def split: Guarded.splits)
qed

section \<open>Deleted repositories\<close>

definition softDeleted :: "string \<Rightarrow> RepoRow list \<Rightarrow> bool" where
  "softDeleted i rows = (i \<in> rp_id ` set rows \<and> (\<forall>r \<in> set rows. rp_id r = i \<longrightarrow> rp_deletedAt r \<noteq> None))"

lemma softDeleted_inactive: "softDeleted i rows \<Longrightarrow> activeRepo i rows = None"
  by (auto simp: softDeleted_def activeRepo_def find_None_iff)

lemma softDeleted_update:
  assumes "softDeleted i rows" "\<And>r. rp_id (f r) = rp_id r" "\<And>r. rp_deletedAt r \<noteq> None \<Longrightarrow> rp_deletedAt (f r) \<noteq> None"
  shows "softDeleted i (updateWhere P f rows)"
proof -
  have "rp_id ` set (updateWhere P f rows) = rp_id ` set rows"
  proof -
    have "map rp_id (updateWhere P f rows) = map rp_id rows" by (simp add: updateWhere_def assms(2))
    then show ?thesis by (metis list.set_map)
  qed
  then show ?thesis using assms by (auto simp: softDeleted_def updateWhere_def)
qed

lemma softDeleted_insert: "softDeleted i rows \<Longrightarrow> insertRepo r rows = Inr rows' \<Longrightarrow> softDeleted i rows'"
  by (auto simp: softDeleted_def insertRepo_def split: if_splits)

lemma softDeleted_bulk: "softDeleted i rows \<Longrightarrow> softDeleted i (snd (bulkLoop refuses now inst existing names ids out rows))"
proof (induction refuses now inst existing names ids out rows rule: bulkLoop.induct)
  case (2 refuses now inst existing name names ids out rows)
  then show ?case
    by (auto simp: Let_def softDeleted_insert split: option.splits sum.splits)
qed simp

lemma softDeleted_handlers:
  assumes "softDeleted i (at_repos db)"
  shows "softDeleted i (at_repos (snd (createRepo now newId body db)))" "softDeleted i (at_repos (snd (patchRepo now j body db)))"
    "softDeleted i (at_repos (snd (deleteRepo now j db)))" "softDeleted i (at_repos (snd (putPrompt now j body db)))"
    "softDeleted i (at_repos (snd (bulkRegister refuses now ids body db)))"
proof -
  show "softDeleted i (at_repos (snd (createRepo now newId body db)))"
    using assms by (auto simp: createRepo_def softDeleted_insert split: option.splits sum.splits)
  have u: "softDeleted i (updateWhere P f (at_repos db))"
    if "\<And>r. rp_id (f r) = rp_id r" "\<And>r. rp_deletedAt r \<noteq> None \<Longrightarrow> rp_deletedAt (f r) \<noteq> None" for P f
    using assms that by (rule softDeleted_update)
  show "softDeleted i (at_repos (snd (patchRepo now j body db)))"
    using assms u by (auto simp: patchRepo_def Let_def split: option.splits)
  show "softDeleted i (at_repos (snd (deleteRepo now j db)))"
    using assms u by (auto simp: deleteRepo_def split: option.splits)
  show "softDeleted i (at_repos (snd (putPrompt now j body db)))"
    using assms u by (auto simp: putPrompt_def Let_def split: option.splits json.splits)
  show "softDeleted i (at_repos (snd (bulkRegister refuses now ids body db)))"
    using assms softDeleted_bulk [OF assms]
    by (simp add: bulkRegister_def Let_def case_prod_beta split: option.split)
qed

text \<open>A predicate of the step a route makes, for the composition of routers.\<close>

definition stepsOk :: "(ApiStep \<Rightarrow> bool) \<Rightarrow> ApiStep option \<Rightarrow> bool" where
  "stepsOk P r = (case r of None \<Rightarrow> True | Some x \<Rightarrow> P x)"

lemma stepsOk_simps [simp]: "stepsOk P None" "stepsOk P (Some x) = P x"
  by (simp_all add: stepsOk_def)

lemma stepsOk_if: "stepsOk P x \<Longrightarrow> stepsOk P y \<Longrightarrow> stepsOk P (if b then x else y)"
  by simp

lemma stepsOk_else: "P y \<Longrightarrow> stepsOk P r \<Longrightarrow> P (case r of Some x \<Rightarrow> x | None \<Rightarrow> y)"
  by (cases r) simp_all

text \<open>What holds of every handler's step holds of the step of the whole API.\<close>

lemma routes_step:
  assumes read: "\<And>r. P (reads db r)"
    and repo: "\<And>f now i b newId. P (writes f (createRepo now newId b db))" "\<And>f now i b. P (writes f (patchRepo now i b db))"
      "\<And>f now i. P (writes f (deleteRepo now i db))" "\<And>f now i b. P (writes f (putPrompt now i b db))"
      "\<And>f refuses now ids b. P (writes f (bulkRegister refuses now ids b db))"
    and key: "\<And>r. P (keyStep db r)"
  shows "P (routes deps w req db)"
proof -
  have r: "stepsOk P (reposRouter deps w req path db)" for path
  proof (cases path)
    case Nil
    then show ?thesis unfolding reposRouter_def by (simp add: read repo)
  next
    case outer: (Cons i p1)
    show ?thesis
    proof (cases p1)
      case Nil
      show ?thesis unfolding reposRouter_def outer Nil list.case by (intro stepsOk_if) (simp_all add: read repo)
    next
      case (Cons sub p2)
      show ?thesis unfolding reposRouter_def outer Cons list.case
        by (cases p2) (simp_all only: list.case stepsOk_simps, intro stepsOk_if, simp_all add: read repo)
    qed
  qed
  have k: "stepsOk P (keysRouter deps lk w req path db)" for lk path
  proof (cases "multiTenantGuard (multiTenant deps)")
    case Pass
    show ?thesis unfolding keysRouter_def Pass Guarded.case by (intro stepsOk_if) (simp_all add: read key)
  next
    case (Answer status e)
    then show ?thesis by (simp add: keysRouter_def read)
  qed
  have g: "P (githubRouter deps w req db)"
    using read repo unfolding githubRouter_def by (simp split: Guarded.split list.split)
  show ?thesis
  proof (cases "ar_path req")
    case Nil
    show ?thesis unfolding routes_def Let_def Nil by (simp add: g)
  next
    case (Cons a rest)
    show ?thesis unfolding routes_def Let_def Cons list.case
      by (rule stepsOk_else [where P = P, OF g], intro stepsOk_if)
        (simp_all add: read r k split: option.split bool.split)
  qed
qed

lemma softDeleted_routes: "softDeleted i (at_repos db) \<Longrightarrow> softDeleted i (at_repos (fst (snd (routes deps w req db))))"
  by (rule routes_step) (simp_all add: reads_def writes_def keyStep_def softDeleted_handlers)

lemma softDeleted_step: "softDeleted i (at_repos db) \<Longrightarrow> softDeleted i (at_repos (fst (snd (createApi deps w req db))))"
  using softDeleted_routes by (auto simp: createApi_def reads_def split: Guarded.splits)

definition serve :: "(ApiDeps \<times> ApiDraw \<times> ApiRequest) list \<Rightarrow> ApiDb \<Rightarrow> ApiDb" where
  "serve reqs db = fold (\<lambda>(deps, w, req) db. fst (snd (createApi deps w req db))) reqs db"

text \<open>A deleted repository never comes back: once its row is soft-deleted, no sequence of
  requests, by anyone and with any generated ids, makes a route find it again.\<close>

theorem deleted_repo_gone:
  assumes "softDeleted i (at_repos db)"
  shows "activeRepo i (at_repos (serve reqs db)) = None"
proof -
  have "softDeleted i (at_repos (serve reqs db))"
    unfolding serve_def using assms
  proof (induction reqs arbitrary: db)
    case (Cons r reqs)
    then show ?case by (cases r) (simp add: softDeleted_step)
  qed simp
  then show ?thesis by (rule softDeleted_inactive)
qed

section \<open>Bulk registration\<close>

definition bulkTotal :: "BulkRepoResult \<Rightarrow> string multiset" where
  "bulkTotal out = mset (br_created out) + mset (br_alreadyExists out) + mset (map fst (br_errors out))"

definition activeNames :: "RepoRow list \<Rightarrow> string list" where
  "activeNames rows = map rp_name (filter (\<lambda>r. rp_deletedAt r = None) rows)"

lemma activeNames_insert: "insertRepo (newRepo i pl name inst now) rows = Inr rows' \<Longrightarrow> activeNames rows' = activeNames rows @ [name]"
  by (auto simp: insertRepo_def activeNames_def newRepo_def split: if_splits)

lemma bulkLoop_spec:
  assumes "existing \<subseteq> set (activeNames rows)" "set (br_created out) \<union> set (br_alreadyExists out) \<subseteq> set (activeNames rows)"
    "bulkLoop refuses now inst existing names ids out rows = (out', rows')"
  shows "bulkTotal out' = bulkTotal out + mset names \<and>
    set (br_created out') \<union> set (br_alreadyExists out') \<subseteq> set (activeNames rows') \<and>
    (\<exists>new. activeNames rows' = activeNames rows @ new \<and> br_created out' = br_created out @ new)"
  using assms
proof (induction refuses now inst existing names ids out rows rule: bulkLoop.induct)
  case (2 refuses now inst existing name names ids out rows)
  let ?i = "case ids of [] \<Rightarrow> [] | i # _ \<Rightarrow> i"
  let ?ins = "case refuses ?i of Some e \<Rightarrow> Inl e | None \<Rightarrow> insertRepo (newRepo ?i Github name (Some inst) now) rows"
  show ?case
  proof (cases "name \<in> existing")
    case True
    then show ?thesis
      using "2.IH"(1) "2.prems" by (auto simp: bulkTotal_def)
  next
    case False
    show ?thesis
    proof (cases ?ins)
      case (Inl e)
      then show ?thesis using "2.IH"(2) [OF False refl Inl] "2.prems" False by (auto simp: bulkTotal_def Let_def)
    next
      case (Inr rows1)
      then have a: "activeNames rows1 = activeNames rows @ [name]"
        by (auto split: option.splits dest: activeNames_insert)
      then show ?thesis
        using "2.IH"(3) [OF False refl Inr] "2.prems" False Inr by (auto simp: bulkTotal_def Let_def)
    qed
  qed
qed auto

text \<open>A bulk registration accounts for every name of the request, as created, known or failed, as
  often as it was named; every name it calls created or known is an active repository afterwards,
  and the rows it adds are exactly the created ones.\<close>

theorem bulk_accounts_for_names:
  assumes "bulkRepoBodySchema body = Some (inst, names)"
  shows "case bulkRegister refuses now ids (Some body) db of
    ((status, Inr out), db') \<Rightarrow>
      bulkTotal out = mset names \<and> set (br_created out) \<union> set (br_alreadyExists out) \<subseteq> set (activeNames (at_repos db')) \<and>
      activeNames (at_repos db') = activeNames (at_repos db) @ br_created out
    | _ \<Rightarrow> False"
proof -
  let ?e = "set (map rp_name (filter (\<lambda>r. rp_name r \<in> set names \<and> rp_deletedAt r = None) (at_repos db)))"
  let ?o = "\<lparr>br_created = [], br_alreadyExists = [], br_errors = []\<rparr>"
  obtain out rows where l: "bulkLoop refuses now inst ?e names ids ?o (at_repos db) = (out, rows)" by fastforce
  have "?e \<subseteq> set (activeNames (at_repos db))" by (auto simp: activeNames_def)
  from bulkLoop_spec [OF this _ l] show ?thesis
    using assms l by (auto simp: bulkRegister_def Let_def bulkTotal_def)
qed

text \<open>A name given twice is registered twice: the check for known names looks at the table once.\<close>

lemma bulk_duplicates:
  assumes "name \<notin> set (activeNames (at_repos db))" "bulkRepoBodySchema body = Some (inst, [name, name])"
    "refuses a = None" "refuses b = None" "a \<noteq> b" "a \<notin> rp_id ` set (at_repos db)" "b \<notin> rp_id ` set (at_repos db)"
  shows "activeNames (at_repos (snd (bulkRegister refuses now [a, b] (Some body) db))) = activeNames (at_repos db) @ [name, name]"
proof -
  have "filter (\<lambda>r. rp_name r \<in> set [name, name] \<and> rp_deletedAt r = None) (at_repos db) = []"
    using assms(1) by (auto simp: activeNames_def filter_empty_conv)
  then have "name \<notin> set (map rp_name (filter (\<lambda>r. rp_name r \<in> set [name, name] \<and> rp_deletedAt r = None) (at_repos db)))"
    by (simp only: list.map list.set) simp
  then show ?thesis
    using assms by (simp add: bulkRegister_def insertRepo_def newRepo_def activeNames_def Let_def del: set_map)
qed

section \<open>A small deployment\<close>

definition sampleDeployment :: ApiDeps where
  "sampleDeployment =
     \<lparr>dp_platform = sampleApi [], dp_env = (\<lambda>_. None), dp_collate = (\<lambda>_. 0), dp_dashboardToken = Some ''tok'',
      dp_requireDashboardAuth = False, dp_kms = Some sampleByok, dp_kmsKeyId = Some ''cmk'', dp_audit = (\<lambda>_. None),
      dp_appAuth = None, dp_multiTenant = Some True\<rparr>"

definition sampleRequest :: "string \<Rightarrow> string list \<Rightarrow> string \<Rightarrow> ApiRequest" where
  "sampleRequest verb path token =
     \<lparr>ar_method = verb, ar_path = path, ar_query = (\<lambda>_. None), ar_authorization = Some (''Bearer '' @ token), ar_body = None\<rparr>"

definition sampleDrawn :: ApiDraw where
  "sampleDrawn = \<lparr>dw_now = 0, dw_ids = [], dw_random = sampleDraw, dw_refuses = (\<lambda>_. None)\<rparr>"

definition sampleApiDb :: "RepoRow list \<Rightarrow> ApiDb" where
  "sampleApiDb rows = \<lparr>at_repos = rows, at_events = [], ad_ledger = emptyLedger, ad_installations = [], ad_secrets = []\<rparr>"

lemma api_requires_token_witness:
  "case createApi sampleDeployment sampleDrawn (sampleRequest ''GET'' [''repos''] ''guess'') (sampleApiDb [sampleRepo]) of
    ((status, body), db', audits) \<Rightarrow> noData body \<and> db' = sampleApiDb [sampleRepo] \<and> audits = []"
  by (rule api_requires_token) (simp add: authorised_def sampleDeployment_def sampleRequest_def blank_def)

lemma multi_tenant_closed_witness:
  "case createApi sampleDeployment sampleDrawn (sampleRequest ''POST'' [''repos'', ''bulk''] ''tok'') (sampleApiDb []) of
    ((status, body), db', audits) \<Rightarrow> noData body \<and> db' = sampleApiDb [] \<and> audits = []"
  by (rule multi_tenant_closed) (simp_all add: multiTenant_def perInstallation_def sampleDeployment_def sampleRequest_def)

lemma deleted_repo_gone_witness:
  "activeRepo ''id'' (at_repos (serve [(sampleDeployment, sampleDrawn, sampleRequest ''GET'' [''repos''] ''tok'')]
     (sampleApiDb [sampleRepo\<lparr>rp_deletedAt := Some 5\<rparr>]))) = None"
  by (rule deleted_repo_gone) (simp add: softDeleted_def sampleApiDb_def sampleRepo_def)

definition sampleBulk :: json where
  "sampleBulk = JObj [(''installationId'', JNum 7), (''names'', JArr [JStr ''o/r'', JStr ''o/s''])]"

lemma bulk_accounts_for_names_witness:
  "case bulkRegister (\<lambda>_. None) 0 [''a'', ''b''] (Some sampleBulk) (sampleApiDb [sampleRepo]) of
    ((status, Inr out), db') \<Rightarrow>
      bulkTotal out = mset [''o/r'', ''o/s''] \<and>
      set (br_created out) \<union> set (br_alreadyExists out) \<subseteq> set (activeNames (at_repos db')) \<and>
      activeNames (at_repos db') = activeNames (at_repos (sampleApiDb [sampleRepo])) @ br_created out
    | _ \<Rightarrow> False"
  by (rule bulk_accounts_for_names)
    (simp add: sampleBulk_def bulkRepoBodySchema_def installationIdSchema_def asNames_def nameOk_def)

end
