(* ===== verification/AppAuth.thy ===== *)
theory AppAuth
  imports StateMirror Providers
begin

text \<open>
  The credentials of the GitHub App, \<open>platform-github/src/app-auth.ts\<close>: which source the private key
  is read from, and the cache of installation tokens in the database.  The fetchers of the
  secret stores and GitHub's minting of a token are parameters.
\<close>

section \<open>The private key\<close>

datatype PrivateKeySource = SourcePem | SourcePath | SourceArn | SourceResource

definition SOURCES :: "PrivateKeySource list" where
  "SOURCES = [SourcePem, SourcePath, SourceArn, SourceResource]"

fun sourceSuffix :: "PrivateKeySource \<Rightarrow> string" where
  "sourceSuffix SourcePem = ''_PEM''"
| "sourceSuffix SourcePath = ''_PATH''"
| "sourceSuffix SourceArn = ''_ARN''"
| "sourceSuffix SourceResource = ''_RESOURCE''"

definition readEnv :: "Env \<Rightarrow> PrivateKeySource \<Rightarrow> string option" where
  "readEnv env src = env (''GITHUB_APP_PRIVATE_KEY'' @ sourceSuffix src)"

record SecretFetchers =
  sf_readPemFile :: "string \<Rightarrow> string result"
  sf_fetchAwsSecret :: "string \<Rightarrow> string result"
  sf_fetchGcpSecret :: "string \<Rightarrow> string result"

definition loadPrivateKey :: "Env \<Rightarrow> SecretFetchers \<Rightarrow> (PrivateKeySource \<times> string) result" where
  "loadPrivateKey env fetchers =
     (let present = filter (\<lambda>s. \<not> blank (readEnv env s)) SOURCES in
      case present of
        [] \<Rightarrow> Inl ''No GitHub App private key source set.''
      | src # others \<Rightarrow>
          if others \<noteq> [] then Inl (''Multiple GitHub App private key sources set: '' @ joinWith '', '' (map sourceSuffix present))
          else let val = the (readEnv env src) in
            (case src of
               SourcePem \<Rightarrow>
                 if env ''NODE_ENV'' = Some ''production'' \<and> env ''REVIEW_AGENT_ALLOW_INLINE_KEY'' \<noteq> Some ''1''
                 then Inl ''GITHUB_APP_PRIVATE_KEY_PEM is refused in production.''
                 else Inr (src, val)
             | SourcePath \<Rightarrow> map_sum id (Pair src) (sf_readPemFile fetchers val)
             | SourceArn \<Rightarrow> map_sum id (Pair src) (sf_fetchAwsSecret fetchers val)
             | SourceResource \<Rightarrow> map_sum id (Pair src) (sf_fetchGcpSecret fetchers val)))"

section \<open>Installation tokens\<close>

record InstallationTokenRow =
  it_installationId :: int
  it_token :: string
  it_expiresAt :: Date
  it_updatedAt :: Date

definition REFRESH_WINDOW_MS :: int where "REFRESH_WINDOW_MS = 5 * 60 * 1000"

record CreateAppAuthOpts =
  ao_clockSkewMs :: int
  ao_mintToken :: "Date \<Rightarrow> int \<Rightarrow> (string \<times> Date) result"
  ao_dbNow :: "Date \<Rightarrow> Date"

definition readCached :: "CreateAppAuthOpts \<Rightarrow> Date \<Rightarrow> int \<Rightarrow> InstallationTokenRow list \<Rightarrow> (string \<times> Date) option" where
  "readCached opts now installationId rows =
     (case selectOne (\<lambda>r. it_installationId r = installationId) rows of
        None \<Rightarrow> None
      | Some row \<Rightarrow>
          if it_expiresAt row - REFRESH_WINDOW_MS \<le> now + ao_clockSkewMs opts then None
          else Some (it_token row, it_expiresAt row))"

record TokenWrite =
  tw_installationId :: int
  tw_token :: string
  tw_expiresAt :: Date
  tw_dbNow :: Date
  tw_now :: Date

definition tokenRow :: "TokenWrite \<Rightarrow> InstallationTokenRow" where
  "tokenRow w = \<lparr>it_installationId = tw_installationId w, it_token = tw_token w, it_expiresAt = tw_expiresAt w,
     it_updatedAt = tw_dbNow w\<rparr>"

definition persist :: "TokenWrite \<Rightarrow> InstallationTokenRow list \<Rightarrow> InstallationTokenRow list" where
  "persist w rows =
     insertOrUpdate it_installationId (tokenRow w)
       (\<lambda>r. r\<lparr>it_token := tw_token w, it_expiresAt := tw_expiresAt w, it_updatedAt := tw_now w\<rparr>) rows"

text \<open>The answer, whether a token was minted, and the table.\<close>

definition getInstallationToken :: "CreateAppAuthOpts \<Rightarrow> Date \<Rightarrow> int \<Rightarrow> InstallationTokenRow list \<Rightarrow>
    (string \<times> Date) result \<times> bool \<times> InstallationTokenRow list" where
  "getInstallationToken opts now installationId rows =
     (case readCached opts now installationId rows of
        Some cached \<Rightarrow> (Inr cached, False, rows)
      | None \<Rightarrow>
          (case ao_mintToken opts now installationId of
             Inl e \<Rightarrow> (Inl e, True, rows)
           | Inr fresh \<Rightarrow>
               (Inr fresh, True, persist \<lparr>tw_installationId = installationId, tw_token = fst fresh, tw_expiresAt = snd fresh,
                  tw_dbNow = ao_dbNow opts now, tw_now = now\<rparr> rows)))"

definition invalidate :: "int \<Rightarrow> InstallationTokenRow list \<Rightarrow> InstallationTokenRow list" where
  "invalidate installationId rows = deleteWhere (\<lambda>r. it_installationId r = installationId) rows"

section \<open>The table as a store\<close>

definition tokenMerge :: "TokenWrite \<Rightarrow> InstallationTokenRow option \<Rightarrow> InstallationTokenRow" where
  "tokenMerge w old =
     (case old of None \<Rightarrow> tokenRow w
      | Some r \<Rightarrow> r\<lparr>it_token := tw_token w, it_expiresAt := tw_expiresAt w, it_updatedAt := tw_now w\<rparr>)"

interpretation tokens: keyed_store it_installationId persist tw_installationId tokenMerge
proof unfold_locales
  fix rows :: "InstallationTokenRow list" and w :: TokenWrite and k :: int
  show "distinct (map it_installationId (persist w rows))" if "distinct (map it_installationId rows)"
    using that unfolding persist_def by (rule distinct_insertOrUpdate) simp
  show "selectOne (\<lambda>r. it_installationId r = k) (persist w rows) =
      (if k = tw_installationId w then Some (tokenMerge w (selectOne (\<lambda>r. it_installationId r = k) rows))
       else selectOne (\<lambda>r. it_installationId r = k) rows)"
    unfolding persist_def tokenMerge_def
    by (subst find_insertOrUpdate) (auto simp: tokenRow_def split: option.splits)
qed

text \<open>One call of the client; the table after a sequence of calls.\<close>

datatype TokenCall = GetToken Date int | Invalidate int

fun tokenCall :: "CreateAppAuthOpts \<Rightarrow> TokenCall \<Rightarrow> InstallationTokenRow list \<Rightarrow> InstallationTokenRow list" where
  "tokenCall opts (GetToken now i) rows = snd (snd (getInstallationToken opts now i rows))"
| "tokenCall opts (Invalidate i) rows = invalidate i rows"

lemma selectOne_deleted: "selectOne (\<lambda>r. it_installationId r = k) (invalidate i rows) =
    (if k = i then None else selectOne (\<lambda>r. it_installationId r = k) rows)"
  by (induction rows) (auto simp: invalidate_def deleteWhere_def selectOne_def)

text \<open>Every row holds a token that was minted for its installation, with the expiry GitHub gave it.\<close>

definition minted :: "CreateAppAuthOpts \<Rightarrow> InstallationTokenRow list \<Rightarrow> bool" where
  "minted opts rows =
     (distinct (map it_installationId rows) \<and>
      (\<forall>i r. selectOne (\<lambda>r. it_installationId r = i) rows = Some r \<longrightarrow>
         (\<exists>t. ao_mintToken opts t i = Inr (it_token r, it_expiresAt r))))"

lemma minted_call: "minted opts rows \<Longrightarrow> minted opts (tokenCall opts call rows)"
proof (cases call)
  case (GetToken now i)
  assume m: "minted opts rows"
  show ?thesis
  proof (cases "readCached opts now i rows")
    case (Some c)
    then show ?thesis using m GetToken by (simp add: getInstallationToken_def)
  next
    case None
    show ?thesis
    proof (cases "ao_mintToken opts now i")
      case (Inl e)
      then show ?thesis using m GetToken None by (simp add: getInstallationToken_def)
    next
      case (Inr fresh)
      let ?w = "\<lparr>tw_installationId = i, tw_token = fst fresh, tw_expiresAt = snd fresh, tw_dbNow = ao_dbNow opts now, tw_now = now\<rparr>"
      have r: "tokenCall opts call rows = persist ?w rows"
        using GetToken None Inr by (simp add: getInstallationToken_def)
      have d: "distinct (map it_installationId rows)" using m by (simp add: minted_def)
      have "it_token (tokenMerge ?w x) = fst fresh" "it_expiresAt (tokenMerge ?w x) = snd fresh" for x
        by (simp_all add: tokenMerge_def tokenRow_def split: option.split)
      then show ?thesis
        using m Inr tokens.put_unique [OF d, of ?w] unfolding r minted_def
        by (auto simp: tokens.find_put [OF d] split: if_splits)
    qed
  qed
next
  case (Invalidate i)
  assume "minted opts rows"
  then show ?thesis using Invalidate
    by (auto simp: minted_def selectOne_deleted split: if_splits) (simp add: invalidate_def deleteWhere_def distinct_map_filter)
qed

text \<open>Whatever calls came before, the token the client hands out for an installation is one GitHub
  minted for that installation, with its real expiry; and unless it was minted just now, it is valid
  for more than five minutes beyond the clock and the configured skew.\<close>

theorem token_valid_for_window:
  "case getInstallationToken opts now i (fold (tokenCall opts) calls []) of
    (Inr (token, expires), fresh, _) \<Rightarrow>
      (\<exists>t. ao_mintToken opts t i = Inr (token, expires)) \<and> (fresh \<or> now + ao_clockSkewMs opts + 5 * 60 * 1000 < expires)
    | _ \<Rightarrow> True"
proof -
  have "minted opts (fold (tokenCall opts) calls rows)" if "minted opts rows" for rows
    using that by (induction calls arbitrary: rows) (simp_all add: minted_call)
  moreover have "minted opts []" by (simp add: minted_def selectOne_def)
  ultimately have m: "minted opts (fold (tokenCall opts) calls [])" by blast
  show ?thesis
  proof (cases "readCached opts now i (fold (tokenCall opts) calls [])")
    case None
    then show ?thesis by (auto simp: getInstallationToken_def split: sum.splits)
  next
    case (Some c)
    then show ?thesis
      using m by (auto simp: getInstallationToken_def readCached_def minted_def REFRESH_WINDOW_MS_def split: option.splits if_splits)
  qed
qed

lemma fetched_from: "map_sum id (Pair s) x = Inr (a, b) \<longleftrightarrow> s = a \<and> x = Inr b"
  by (cases x) auto

text \<open>A deployment in production never runs on a private key from an environment variable unless
  it is told to: a key that loads came from the only source that is set, and in production that
  source is not the inline one.\<close>

theorem inline_key_refused:
  "case loadPrivateKey env fetchers of
    Inr (src, _) \<Rightarrow>
      filter (\<lambda>s. \<not> blank (readEnv env s)) SOURCES = [src] \<and>
      (if src = SourcePem \<and> env ''NODE_ENV'' = Some ''production'' then env ''REVIEW_AGENT_ALLOW_INLINE_KEY'' = Some ''1'' else True)
    | Inl _ \<Rightarrow> True"
  by (auto simp: fetched_from loadPrivateKey_def Let_def split: list.splits sum.splits PrivateKeySource.splits if_splits)

end
