(* ===== verification/Conversation.thy ===== *)
theory Conversation
  imports Agent StateMirror
begin

text \<open>
  Replies in a review thread: \<open>runner/src/conversation-runner.ts\<close> and the turn counter of
  \<open>db/src/conversation-state.ts\<close>.  A run is a function of the table, the ledger and what was
  posted.  The counter reads the row and then upserts it in one transaction; two transactions
  of the database's default isolation may both read before either writes, which the step
  relation at the end models.
\<close>

section \<open>The turn counter\<close>

record ConversationThreadKey =
  tk_installationId :: int
  tk_repo :: string
  tk_prNumber :: int
  tk_rootCommentId :: string

record ConversationThreadRow =
  tr_key :: ConversationThreadKey
  tr_turnCount :: int
  tr_lastTurnAt :: Date

definition getConversationTurnCount :: "ConversationThreadRow list \<Rightarrow> ConversationThreadKey \<Rightarrow> int" where
  "getConversationTurnCount rows key =
     (case selectOne (\<lambda>r. tr_key r = key) rows of None \<Rightarrow> 0 | Some r \<Rightarrow> tr_turnCount r)"

definition upsertTurn :: "Date \<Rightarrow> ConversationThreadKey \<Rightarrow> ConversationThreadRow list \<Rightarrow> ConversationThreadRow list" where
  "upsertTurn now key rows =
     insertOrUpdate tr_key \<lparr>tr_key = key, tr_turnCount = 1, tr_lastTurnAt = now\<rparr>
       (\<lambda>r. r\<lparr>tr_turnCount := tr_turnCount r + 1, tr_lastTurnAt := now\<rparr>) rows"

text \<open>The counts before and after, and the table.\<close>

definition incrementConversationTurn :: "Date \<Rightarrow> ConversationThreadKey \<Rightarrow> ConversationThreadRow list \<Rightarrow>
    (int \<times> int) \<times> ConversationThreadRow list" where
  "incrementConversationTurn now key rows =
     (let before = getConversationTurnCount rows key in ((before, before + 1), upsertTurn now key rows))"

section \<open>The prompt\<close>

record ConversationTurn =
  cn_author :: string
  cn_body :: string

record ConversationContext =
  cx_findingBody :: string
  cx_diffHunk :: "string option"
  cx_priorTurns :: "ConversationTurn list"
  cx_userMessage :: string

definition DQUOTE :: string where "DQUOTE = [CHR 0x22]"

definition buildConversationPrompt :: "ConversationContext \<Rightarrow> string" where
  "buildConversationPrompt ctx =
     joinWith [LF]
       ([''<untrusted>'', ''<finding>'' @ cx_findingBody ctx @ ''</finding>''] @
        (case cx_diffHunk ctx of
           None \<Rightarrow> []
         | Some h \<Rightarrow> if h = [] then [] else [''<diff_hunk>'' @ [LF] @ h @ [LF] @ ''</diff_hunk>'']) @
        (if cx_priorTurns ctx = [] then []
         else [''<thread_history>''] @
           map (\<lambda>turn. ''<comment author='' @ DQUOTE @ cn_author turn @ DQUOTE @ ''>'' @ cn_body turn @ ''</comment>'') (cx_priorTurns ctx) @
           [''</thread_history>'']) @
        [''<user_message author='' @ DQUOTE @ ''contributor'' @ DQUOTE @ ''>'' @ cx_userMessage ctx @ ''</user_message>'',
         ''</untrusted>''])"

section \<open>One reply\<close>

record CostRecordContext =
  co_jobId :: string
  co_provider :: string
  co_model :: string

record ConversationReplyInput =
  cri_key :: ConversationThreadKey
  cri_context :: ConversationContext
  cri_maxTurns :: int
  cri_costCapUsd :: rat
  cri_costContext :: "CostRecordContext option"

datatype ReplyOutcome = Replied string | TurnLimitReached | CostExceededOutcome | CapabilityUnsupported

datatype PostKind = LimitNote | Answer

record 'db ConversationRunnerDeps =
  cd_conversationReply :: bool
  cd_provider :: LlmProvider
  cd_systemPrompt :: string
  cd_recordCost :: "('db \<Rightarrow> RecordPhaseInput \<Rightarrow> 'db) option"
  cd_readTotals :: "('db \<Rightarrow> CostTotals) option"
  cd_postReply :: "ConversationThreadKey \<Rightarrow> string \<Rightarrow> AgentError option"
  cd_now :: Date

text \<open>The state a run changes: the counters, the ledger, what was posted, the calls of the model.\<close>

record 'db ConversationState =
  cv_threads :: "ConversationThreadRow list"
  cv_db :: 'db
  cv_posted :: "(ConversationThreadKey \<times> PostKind \<times> string) list"
  cv_calls :: "ConversationThreadKey list"

datatype TurnDecision = GoOn | PostNote | Silent

definition turnDecision :: "int \<Rightarrow> int \<Rightarrow> TurnDecision" where
  "turnDecision maxTurns after =
     (if maxTurns < after then (if after = maxTurns + 1 then PostNote else Silent) else GoOn)"

definition limitNote :: "int \<Rightarrow> string" where
  "limitNote maxTurns =
     ''_This thread has reached the conversation limit ('' @ intToString maxTurns @
     '' turns). No further automated replies will be posted._''"

definition post :: "'db ConversationRunnerDeps \<Rightarrow> ConversationThreadKey \<Rightarrow> PostKind \<Rightarrow> string \<Rightarrow> ReplyOutcome \<Rightarrow> 'db ConversationState \<Rightarrow>
    (AgentError + ReplyOutcome) \<times> 'db ConversationState" where
  "post deps key kind body out st =
     (case cd_postReply deps key body of
        Some e \<Rightarrow> (Inl e, st)
      | None \<Rightarrow> (Inr out, st\<lparr>cv_posted := cv_posted st @ [(key, kind, body)]\<rparr>))"

definition conversationInput :: "string \<Rightarrow> ConversationContext \<Rightarrow> ReviewInput" where
  "conversationInput systemPrompt ctx =
     \<lparr>in_systemPrompt = systemPrompt, in_diffText = buildConversationPrompt ctx,
      in_prMetadata = \<lparr>um_title = [], um_body = [], um_author = [], um_baseRef = None, um_labels = None, um_commitMessages = None\<rparr>,
      in_language = ''English'', in_tools = ([], []), in_maxToolCalls = 20\<rparr>"

definition costBlocked :: "'db ConversationRunnerDeps \<Rightarrow> rat \<Rightarrow> 'db \<Rightarrow> bool" where
  "costBlocked deps cap db =
     (case cd_readTotals deps of
        None \<Rightarrow> False
      | Some rd \<Rightarrow> 0 < cap \<and>
          (case decideCostAction \<lparr>dc_running = ct_running (rd db), dc_estimate = 0, dc_perPrCap = cap, dc_daily = ct_daily (rd db),
                                  dc_dailyCap = 0\<rparr> of
             Abort _ _ _ \<Rightarrow> True | Kill _ _ \<Rightarrow> True | _ \<Rightarrow> False))"

definition recordTurnCost :: "'db ConversationRunnerDeps \<Rightarrow> ConversationReplyInput \<Rightarrow> ReviewOutput \<Rightarrow> 'db \<Rightarrow> 'db" where
  "recordTurnCost deps i out db =
     (case (cd_recordCost deps, cri_costContext i) of
        (Some rec, Some ctx) \<Rightarrow>
          rec db \<lparr>ri_installationId = tk_installationId (cri_key i), ri_jobId = co_jobId ctx, ri_provider = co_provider ctx,
                  ri_model = co_model ctx, ri_callPhase = ReviewMain, ri_inputTokens = gr_inputTokens out,
                  ri_outputTokens = gr_outputTokens out, ri_cacheReadTokens = None, ri_cacheCreationTokens = None,
                  ri_costUsd = gr_costUsd out, ri_status = Success, ri_latencyMs = None\<rparr>
      | _ \<Rightarrow> db)"

definition handleConversationReply :: "'db ConversationRunnerDeps \<Rightarrow> ConversationReplyInput \<Rightarrow> 'db ConversationState \<Rightarrow>
    (AgentError + ReplyOutcome) \<times> 'db ConversationState" where
  "handleConversationReply deps i st =
     (if \<not> cd_conversationReply deps then (Inr CapabilityUnsupported, st)
      else let key = cri_key i;
               (turns, threads) = incrementConversationTurn (cd_now deps) key (cv_threads st);
               st = st\<lparr>cv_threads := threads\<rparr>
           in case turnDecision (cri_maxTurns i) (snd turns) of
                PostNote \<Rightarrow> post deps key LimitNote (limitNote (cri_maxTurns i)) TurnLimitReached st
              | Silent \<Rightarrow> (Inr TurnLimitReached, st)
              | GoOn \<Rightarrow>
                  if costBlocked deps (cri_costCapUsd i) (cv_db st) then (Inr CostExceededOutcome, st)
                  else let n = length (cv_calls st);
                           st = st\<lparr>cv_calls := cv_calls st @ [key]\<rparr>
                       in case fst (pv_generateReview (cd_provider deps) n (conversationInput (cd_systemPrompt deps) (cri_context i))) of
                            Inl e \<Rightarrow> (Inl e, st)
                          | Inr out \<Rightarrow>
                              (let st = st\<lparr>cv_db := recordTurnCost deps i out (cv_db st)\<rparr>; replyBody = trim (ro_summary out)
                               in post deps key Answer replyBody (Replied replyBody) st))"

section \<open>One reply after another\<close>

abbreviation count :: "ConversationThreadRow list \<Rightarrow> ConversationThreadKey \<Rightarrow> int" where
  "count \<equiv> getConversationTurnCount"

lemma count_upsert: "count (upsertTurn now key rows) k = (if k = key then count rows key + 1 else count rows k)"
  by (auto simp: getConversationTurnCount_def upsertTurn_def find_insertOrUpdate split: option.splits)

definition callsOf :: "'db ConversationState \<Rightarrow> ConversationThreadKey \<Rightarrow> nat" where
  "callsOf st k = length (filter (\<lambda>k'. k' = k) (cv_calls st))"

definition postsOf :: "PostKind \<Rightarrow> 'db ConversationState \<Rightarrow> ConversationThreadKey \<Rightarrow> nat" where
  "postsOf kind st k = length (filter (\<lambda>(k', kind', _). k' = k \<and> kind' = kind) (cv_posted st))"

text \<open>What one reply does to the counters of every thread.\<close>

lemma reply_counts:
  assumes "handleConversationReply deps i st = (r, st')" "cd_conversationReply deps"
  defines "after \<equiv> count (cv_threads st) (cri_key i) + 1"
  shows "count (cv_threads st') k = (if k = cri_key i then after else count (cv_threads st) k)"
    and "callsOf st' k \<le> callsOf st k + (if k = cri_key i \<and> after \<le> cri_maxTurns i then 1 else 0)"
    and "postsOf Answer st' k \<le> postsOf Answer st k + (callsOf st' k - callsOf st k)"
    and "postsOf LimitNote st' k \<le> postsOf LimitNote st k + (if k = cri_key i \<and> after = cri_maxTurns i + 1 then 1 else 0)"
    and "callsOf st k \<le> callsOf st' k"
  using assms
  by (auto simp: handleConversationReply_def Let_def incrementConversationTurn_def turnDecision_def post_def callsOf_def postsOf_def
      count_upsert split: if_splits option.splits sum.splits)

text \<open>The counters of a thread, between replies.\<close>

definition withinLimit :: "int \<Rightarrow> 'db ConversationState \<Rightarrow> bool" where
  "withinLimit maxTurns st =
     (\<forall>k. 0 \<le> count (cv_threads st) k \<and> int (callsOf st k) \<le> min (count (cv_threads st) k) (max 0 maxTurns) \<and>
        postsOf Answer st k \<le> callsOf st k \<and>
        postsOf LimitNote st k \<le> (if maxTurns < count (cv_threads st) k then 1 else 0))"

lemma withinLimit_reply:
  assumes "withinLimit (cri_maxTurns i) st"
  shows "withinLimit (cri_maxTurns i) (snd (handleConversationReply deps i st))"
proof (cases "cd_conversationReply deps")
  case False
  then show ?thesis using assms by (simp add: handleConversationReply_def)
next
  case True
  obtain r st' where h: "handleConversationReply deps i st = (r, st')" by fastforce
  note c = reply_counts [OF h True]
  show ?thesis
    unfolding h snd_conv withinLimit_def
  proof (intro allI conjI)
    fix k
    have old: "0 \<le> count (cv_threads st) k" "int (callsOf st k) \<le> count (cv_threads st) k" "int (callsOf st k) \<le> max 0 (cri_maxTurns i)"
      "postsOf Answer st k \<le> callsOf st k" "postsOf LimitNote st k \<le> (if cri_maxTurns i < count (cv_threads st) k then 1 else 0)"
      using assms by (simp_all add: withinLimit_def)
    show "0 \<le> count (cv_threads st') k" using old c(1) [of k] by (auto split: if_splits)
    show "int (callsOf st' k) \<le> min (count (cv_threads st') k) (max 0 (cri_maxTurns i))"
      using old c(1,2) [of k] by (auto split: if_splits)
    show "postsOf Answer st' k \<le> callsOf st' k" using old c(3,5) [of k] by linarith
    show "postsOf LimitNote st' k \<le> (if cri_maxTurns i < count (cv_threads st') k then 1 else 0)"
      using old c(1,4) [of k] by (auto split: if_splits)
  qed
qed

text \<open>Replies handled one after another, with any dependencies.\<close>

definition converse :: "('db ConversationRunnerDeps \<times> ConversationReplyInput) list \<Rightarrow> 'db ConversationState \<Rightarrow> 'db ConversationState" where
  "converse runs st = fold (\<lambda>(deps, i) st. snd (handleConversationReply deps i st)) runs st"

definition quiet :: "'db \<Rightarrow> 'db ConversationState" where
  "quiet db = \<lparr>cv_threads = [], cv_db = db, cv_posted = [], cv_calls = []\<rparr>"

text \<open>C31: a thread costs and says no more than it may: replies handled one after another, whoever
  writes them, make at most \<open>maxTurns\<close> model calls and post at most \<open>maxTurns\<close> answers
  and one limit note in each thread.\<close>

theorem thread_posts_bounded:
  assumes "list_all (\<lambda>(deps, i). cri_maxTurns i = maxTurns) runs" "0 \<le> maxTurns"
  shows "int (callsOf (converse runs (quiet db)) k) \<le> maxTurns \<and> int (postsOf Answer (converse runs (quiet db)) k) \<le> maxTurns \<and>
    postsOf LimitNote (converse runs (quiet db)) k \<le> 1"
proof -
  have "withinLimit maxTurns (converse runs st)" if "withinLimit maxTurns st" for st
    unfolding converse_def using that assms(1)
    by (induction runs arbitrary: st) (auto intro: withinLimit_reply)
  moreover have "withinLimit maxTurns (quiet db)"
    by (simp add: withinLimit_def quiet_def getConversationTurnCount_def selectOne_def callsOf_def postsOf_def)
  ultimately have "withinLimit maxTurns (converse runs (quiet db))" by blast
  then have "int (callsOf (converse runs (quiet db)) k) \<le> maxTurns"
    "postsOf Answer (converse runs (quiet db)) k \<le> callsOf (converse runs (quiet db)) k"
    "postsOf LimitNote (converse runs (quiet db)) k \<le> 1"
    using assms(2) by (auto simp: withinLimit_def split: if_splits)
  then show ?thesis by simp
qed

section \<open>Replies at the same time\<close>

text \<open>
  One thread and its workers, each of which reads the counter, then upserts it and acts on the
  count it read.
\<close>

datatype WorkerPhase = Arrived | Read int | Decided TurnDecision

record ThreadRace =
  rc_count :: int
  rc_workers :: "WorkerPhase list"

inductive raceStep :: "int \<Rightarrow> ThreadRace \<Rightarrow> ThreadRace \<Rightarrow> bool" for maxTurns where
  select: "\<lbrakk>w < length (rc_workers s); rc_workers s ! w = Arrived\<rbrakk> \<Longrightarrow>
    raceStep maxTurns s (s\<lparr>rc_workers := (rc_workers s)[w := Read (rc_count s)]\<rparr>)"
| upsert: "\<lbrakk>w < length (rc_workers s); rc_workers s ! w = Read before\<rbrakk> \<Longrightarrow>
    raceStep maxTurns s \<lparr>rc_count = rc_count s + 1, rc_workers = (rc_workers s)[w := Decided (turnDecision maxTurns (before + 1))]\<rparr>"

inductive_cases raceStepE: "raceStep maxTurns s s'"

abbreviation races :: "int \<Rightarrow> ThreadRace \<Rightarrow> ThreadRace \<Rightarrow> bool" where
  "races maxTurns \<equiv> (raceStep maxTurns)\<^sup>*\<^sup>*"

definition arrival :: "nat \<Rightarrow> ThreadRace" where
  "arrival k = \<lparr>rc_count = 0, rc_workers = replicate k Arrived\<rparr>"

text \<open>The stored counter loses no update, whatever the interleaving.\<close>

definition decided :: "WorkerPhase \<Rightarrow> bool" where
  "decided p = (case p of Decided _ \<Rightarrow> True | _ \<Rightarrow> False)"

lemma decided_simps [simp]: "\<not> decided Arrived" "\<not> decided (Read n)" "decided (Decided d)"
  by (simp_all add: decided_def)

lemma filter_update_length: "w < length ws \<Longrightarrow>
    length (filter P (ws[w := p])) + (if P (ws ! w) then 1 else 0) = length (filter P ws) + (if P p then 1 else 0)"
proof (induction ws arbitrary: w)
  case (Cons v ws)
  then show ?case by (cases w) auto
qed simp

lemma race_count: "races maxTurns (arrival k) s \<Longrightarrow> rc_count s = int (length (filter decided (rc_workers s)))"
proof (induction rule: rtranclp_induct)
  case base
  then show ?case by (simp add: arrival_def filter_replicate)
next
  case (step s t)
  from step(2) show ?case
  proof cases
    case (select w)
    then show ?thesis
      using step(3) filter_update_length [of w "rc_workers s" decided "Read (rc_count s)"] by simp
  next
    case (upsert w before)
    then show ?thesis
      using step(3) filter_update_length [of w "rc_workers s" decided "Decided (turnDecision maxTurns (before + 1))"]
      by simp
  qed
qed

lemma race_workers: "raceStep maxTurns s t \<Longrightarrow> length (rc_workers t) = length (rc_workers s)"
  by (elim raceStepE) auto

lemma update_after: "(replicate j a @ b # ys)[j := q] = replicate j a @ q # ys" "(replicate j a @ b # ys) ! j = b"
  by (metis length_replicate list_update_length) (metis length_replicate nth_append_length)

lemma all_read: "races maxTurns \<lparr>rc_count = c, rc_workers = replicate j (Read c) @ replicate k Arrived @ ws\<rparr>
    \<lparr>rc_count = c, rc_workers = replicate (j + k) (Read c) @ ws\<rparr>"
proof (induction k arbitrary: j)
  case (Suc k)
  let ?s = "\<lparr>rc_count = c, rc_workers = replicate j (Read c) @ Arrived # replicate k Arrived @ ws\<rparr>"
  have "raceStep maxTurns ?s (?s\<lparr>rc_workers := (rc_workers ?s)[j := Read (rc_count ?s)]\<rparr>)"
    by (rule raceStep.select) (simp_all add: update_after)
  then have "raceStep maxTurns ?s \<lparr>rc_count = c, rc_workers = replicate (Suc j) (Read c) @ replicate k Arrived @ ws\<rparr>"
    by (simp add: update_after replicate_app_Cons_same)
  from converse_rtranclp_into_rtranclp [OF this Suc [of "Suc j"]] show ?case by simp
qed simp

lemma all_upsert:
  assumes "d = Decided (turnDecision maxTurns (b + 1))"
  shows "races maxTurns \<lparr>rc_count = c, rc_workers = replicate j d @ replicate k (Read b) @ ws\<rparr>
    \<lparr>rc_count = c + int k, rc_workers = replicate (j + k) d @ ws\<rparr>"
proof (induction k arbitrary: j c)
  case (Suc k)
  let ?s = "\<lparr>rc_count = c, rc_workers = replicate j d @ Read b # replicate k (Read b) @ ws\<rparr>"
  have "raceStep maxTurns ?s \<lparr>rc_count = rc_count ?s + 1, rc_workers = (rc_workers ?s)[j := Decided (turnDecision maxTurns (b + 1))]\<rparr>"
    by (rule raceStep.upsert) (simp_all add: update_after)
  then have "raceStep maxTurns ?s \<lparr>rc_count = c + 1, rc_workers = replicate (Suc j) d @ replicate k (Read b) @ ws\<rparr>"
    by (simp add: update_after replicate_app_Cons_same assms [symmetric])
  from converse_rtranclp_into_rtranclp [OF this Suc [where j = "Suc j" and c = "c + 1"]] show ?case
    by (simp add: algebra_simps)
qed simp

text \<open>The limit does not hold for replies that arrive at the same time: for any limit of at least
  one turn and any number of workers above it there is an interleaving in which all of them
  answer, and the reply after them ends in silence, so the note announcing the limit is never posted.\<close>

theorem turn_limit_race:
  assumes "1 \<le> maxTurns" "maxTurns < int k"
  shows "races maxTurns (arrival (k + 1))
    \<lparr>rc_count = int k + 1, rc_workers = replicate k (Decided GoOn) @ [Decided Silent]\<rparr>"
proof -
  let ?go = "Decided (turnDecision maxTurns (0 + 1))"
  let ?r = "\<lparr>rc_count = int k, rc_workers = replicate k ?go @ [Arrived]\<rparr>"
  let ?t = "\<lparr>rc_count = int k, rc_workers = replicate k ?go @ [Read (int k)]\<rparr>"
  have "races maxTurns (arrival (k + 1)) \<lparr>rc_count = 0, rc_workers = replicate k (Read 0) @ [Arrived]\<rparr>"
    using all_read [of maxTurns 0 0 k "[Arrived]"] by (simp add: arrival_def replicate_append_same)
  moreover have "races maxTurns \<lparr>rc_count = 0, rc_workers = replicate k (Read 0) @ [Arrived]\<rparr> ?r"
    using all_upsert [OF refl, of maxTurns 0 0 0 k "[Arrived]"] by simp
  moreover have "raceStep maxTurns ?r ?t"
    using raceStep.select [of k ?r maxTurns] by (simp add: update_after)
  moreover have "raceStep maxTurns ?t \<lparr>rc_count = int k + 1, rc_workers = replicate k ?go @ [Decided (turnDecision maxTurns (int k + 1))]\<rparr>"
    using raceStep.upsert [of k ?t "int k" maxTurns] by (simp add: update_after)
  ultimately have "races maxTurns (arrival (k + 1))
      \<lparr>rc_count = int k + 1, rc_workers = replicate k ?go @ [Decided (turnDecision maxTurns (int k + 1))]\<rparr>"
    by (meson rtranclp.rtrancl_into_rtrancl rtranclp_trans)
  moreover have "turnDecision maxTurns (0 + 1) = GoOn" "turnDecision maxTurns (int k + 1) = Silent"
    using assms by (simp_all add: turnDecision_def)
  ultimately show ?thesis by simp
qed

lemma turn_limit_race_witness:
  "races 1 (arrival 3) \<lparr>rc_count = 3, rc_workers = [Decided GoOn, Decided GoOn, Decided Silent]\<rparr>"
  using turn_limit_race [of 1 2] by (simp add: eval_nat_numeral)

text \<open>The prompt quotes the comments of the thread as they are.\<close>

lemma conversation_prompt_unescaped:
  "\<exists>head tail. buildConversationPrompt (ctx\<lparr>cx_userMessage := ''</untrusted>'' @ rest\<rparr>) = head @ ''</untrusted>'' @ rest @ tail"
proof -
  let ?m = "''<user_message author='' @ DQUOTE @ ''contributor'' @ DQUOTE @ ''>''"
  have j: "xs \<noteq> [] \<Longrightarrow> joinWith [LF] (xs @ [m, z]) = joinWith [LF] xs @ [LF] @ m @ [LF] @ z" for xs m z
    using joinWith_append [of xs "[m, z]" "[LF]"] by simp
  have "\<exists>head. buildConversationPrompt (ctx\<lparr>cx_userMessage := ''</untrusted>'' @ rest\<rparr>) =
      head @ ?m @ (''</untrusted>'' @ rest) @ ''</user_message>'' @ [LF] @ ''</untrusted>''"
    unfolding buildConversationPrompt_def append_assoc [symmetric]
    by (subst j) (auto simp: append_assoc)
  then show ?thesis by (metis append_assoc)
qed

section \<open>A short conversation\<close>

definition sampleKey :: ConversationThreadKey where
  "sampleKey = \<lparr>tk_installationId = 7, tk_repo = ''o/r'', tk_prNumber = 3, tk_rootCommentId = ''11''\<rparr>"

definition sampleRunner :: "unit ConversationRunnerDeps" where
  "sampleRunner = \<lparr>cd_conversationReply = True,
     cd_provider = \<lparr>pv_name = ''p'', pv_model = ''m'', pv_generateReview = (\<lambda>_ _. (Inl (OtherError ''down''), 0)), pv_estimateCost = (\<lambda>_. Inr 0)\<rparr>,
     cd_systemPrompt = ''s'', cd_recordCost = None, cd_readTotals = None, cd_postReply = (\<lambda>_ _. None), cd_now = 0\<rparr>"

definition sampleReplyInput :: ConversationReplyInput where
  "sampleReplyInput = \<lparr>cri_key = sampleKey,
     cri_context = \<lparr>cx_findingBody = ''f'', cx_diffHunk = None, cx_priorTurns = [], cx_userMessage = ''why''\<rparr>, cri_maxTurns = 1,
     cri_costCapUsd = 0, cri_costContext = None\<rparr>"

lemma thread_posts_bounded_witness:
  "int (callsOf (converse (replicate 3 (sampleRunner, sampleReplyInput)) (quiet ())) sampleKey) \<le> 1 \<and>
   int (postsOf Answer (converse (replicate 3 (sampleRunner, sampleReplyInput)) (quiet ())) sampleKey) \<le> 1 \<and>
   postsOf LimitNote (converse (replicate 3 (sampleRunner, sampleReplyInput)) (quiet ())) sampleKey \<le> 1"
  by (rule thread_posts_bounded) (simp_all add: sampleReplyInput_def eval_nat_numeral)

end
