(* ===== verification/Webhook.thy ===== *)
theory Webhook
  imports Commands JobQueue Regex
begin

text \<open>
  The GitHub webhook handler, \<open>server/src/handlers/webhook.ts\<close>.  A payload is a record of the
  fields the handler reads, at the types the source declares for them; an absent member anywhere
  on an optional chain is \<open>None\<close>.  The state is what the handler can change: the queue, the
  \<open>review_state\<close> and \<open>github_installations\<close> tables, the feedback counter, the
  conversations it dispatched, and (for the CodeCommit handler) the subscription URLs fetched.  The optional dependencies are \<open>None\<close> when not wired; a thrown
  error is an \<open>Inl\<close>, and the state is the one reached when it was thrown.
\<close>

section \<open>Payloads, dependencies, state, results\<close>

record PrEventBody =
  ev_action :: "string option"
  ev_installationId :: "int option"
  ev_prNumber :: "int option"
  ev_draft :: bool
  ev_headSha :: "string option"
  ev_title :: "string option"
  ev_prBody :: "string option"
  ev_labels :: "string option list option"
  ev_owner :: "string option"
  ev_repo :: "string option"
  ev_label :: "string option"

record CommentEventBody = PrEventBody +
  ev_commentBody :: "string option"
  ev_commentUser :: "string option"
  ev_commentId :: "int option"
  ev_inReplyToId :: "int option"
  ev_diffHunk :: "string option"
  ev_sender :: "string option"
  ev_issueIsPr :: bool
  ev_issueNumber :: "int option"

record WebhookBody = CommentEventBody +
  ev_appId :: "int option"
  ev_accountLogin :: "string option"
  ev_accountType :: "string option"
  ev_reviewId :: "int option"
  ev_reactionContent :: "string option"

record ConversationHandlerInput =
  ci_installationId :: int
  ci_owner :: string
  ci_repo :: string
  ci_prNumber :: int
  ci_rootCommentId :: int
  ci_replyCommentId :: int
  ci_body :: string
  ci_diffHunk :: "string option"
  ci_sender :: string

datatype ConversationReplyOutcome = Dispatched | UnauthorizedReply | SelfReply

datatype FeedbackCommandOutcome = Recorded | Unauthorized | Unresolved | RateLimited

datatype WebhookResult =
    Ignored string
  | EnqueuedResult string
  | Noop string
  | InstallationResult string int
  | FeedbackResult FeedbackKind int
  | FeedbackCommandResult FeedbackKind FeedbackCommandOutcome "string option" int
  | ConversationReply ConversationReplyOutcome int int

record TriggerConfig =
  tc_trigger_labels :: "string list"
  tc_skip_labels :: "string list"

text \<open>The database: whether reading and writing transactions succeed, and its clock.\<close>

record DbClient =
  db_readOk :: bool
  db_writeOk :: bool
  db_now :: Date

text \<open>\<open>wh_now k\<close> is the answer of the \<open>k\<close>-th call of the clock within one request.\<close>

record WebhookHandlerDeps =
  wh_isDatetime :: "string \<Rightarrow> bool"
  wh_send :: "SendMessageInput \<Rightarrow> string option result"
  wh_now :: "nat \<Rightarrow> Date"
  wh_checkAuthz :: "(string \<Rightarrow> string \<Rightarrow> string \<Rightarrow> FeedbackAuthzResult) option"
  wh_handleConversation :: "(ConversationHandlerInput \<Rightarrow> ConversationReplyOutcome result) option"
  wh_getBotLogin :: "string result option"
  wh_db :: "DbClient option"
  wh_triggerConfig :: "TriggerConfig option"
  wh_debounceMs :: "int option"

record ServerState =
  ss_queue :: "SendMessageInput list"
  ss_reviewState :: "ReviewStateRow list"
  ss_installations :: "GithubInstallationRow list"
  ss_metrics :: "(Platform \<times> FeedbackKind \<times> FeedbackCommandOutcome) list"
  ss_conversations :: "ConversationHandlerInput list"
  ss_confirmed :: "string list"

section \<open>Helpers\<close>

abbreviation falsyStr :: "string option \<Rightarrow> bool" where
  "falsyStr s \<equiv> s = None \<or> s = Some []"

abbreviation falsyNum :: "int option \<Rightarrow> bool" where
  "falsyNum n \<equiv> n = None \<or> n = Some 0"

definition orEmpty :: "string option \<Rightarrow> string" where
  "orEmpty s = (case s of None \<Rightarrow> [] | Some t \<Rightarrow> t)"

definition ENQUEUE_PR_ACTIONS :: "string list" where
  "ENQUEUE_PR_ACTIONS = [''opened'', ''synchronize'', ''reopened'', ''ready_for_review'']"

definition PUSH_TRIGGERED_ACTIONS :: "string list" where
  "PUSH_TRIGGERED_ACTIONS = [''opened'', ''synchronize'', ''reopened'']"

text \<open>\<open>/\[skip review\]/i.test\<close>.\<close>

definition hasSkipMarker :: "string \<Rightarrow> bool" where
  "hasSkipMarker t = rx_test (rx_strI ''[skip review]'') t"

definition prIdText :: "string \<Rightarrow> string \<Rightarrow> int \<Rightarrow> string" where
  "prIdText owner repo number = owner @ ''/'' @ repo @ ''#'' @ intToString number"

text \<open>\<open>a ?? b\<close>.\<close>

definition orElse :: "'a option \<Rightarrow> 'a option \<Rightarrow> 'a option" where
  "orElse a b = (case a of None \<Rightarrow> b | Some x \<Rightarrow> Some x)"

definition buildPrId :: "'b CommentEventBody_scheme \<Rightarrow> string option" where
  "buildPrId ce =
     (let number = orElse (ev_prNumber ce) (ev_issueNumber ce) in
      if falsyStr (ev_owner ce) \<or> falsyStr (ev_repo ce) \<or> falsyNum number then None
      else Some (prIdText (the (ev_owner ce)) (the (ev_repo ce)) (the number)))"

definition buildJobMessageWithScope :: "'b CommentEventBody_scheme \<Rightarrow> Trigger \<Rightarrow> Date \<Rightarrow> string option \<Rightarrow> JobMessage option" where
  "buildJobMessageWithScope body triggeredBy now pathScope =
     (let number = orElse (ev_prNumber body) (ev_issueNumber body) in
      if falsyNum (ev_installationId body) \<or> falsyStr (ev_owner body) \<or> falsyStr (ev_repo body) \<or> falsyNum number then None
      else (let installationId = the (ev_installationId body); owner = the (ev_owner body); repo = the (ev_repo body);
                n = the number; headSha = ev_headSha body in
        Some \<lparr>jm_jobId = prIdText owner repo n @ ''@'' @ intToString now,
              jm_installationId = intToString installationId,
              jm_prRef = \<lparr>pr_platform = Github, pr_owner = owner, pr_repo = repo, pr_number = n,
                          pr_headSha = (if falsyStr headSha then None else headSha)\<rparr>,
              jm_triggeredBy = triggeredBy,
              jm_enqueuedAt = toISOString now,
              jm_pathScope = map_option (\<lambda>p. [p]) pathScope\<rparr>))"

definition buildJobMessage :: "'b CommentEventBody_scheme \<Rightarrow> Trigger \<Rightarrow> Date \<Rightarrow> JobMessage option" where
  "buildJobMessage body triggeredBy now = buildJobMessageWithScope body triggeredBy now None"

text \<open>\<open>if (!msg) return ignored; r = await enqueue(msg); return enqueued\<close>.\<close>

definition enqueueJob :: "WebhookHandlerDeps \<Rightarrow> JobMessage option \<Rightarrow> ServerState \<Rightarrow> WebhookResult result \<times> ServerState" where
  "enqueueJob deps msg s =
     (case msg of
        None \<Rightarrow> (Inr (Ignored ''missing repo/installation/pr fields''), s)
      | Some m \<Rightarrow>
          (case sqsEnqueue (wh_isDatetime deps) (wh_send deps) m (ss_queue s) of
             (Inl e, q) \<Rightarrow> (Inl e, s\<lparr>ss_queue := q\<rparr>)
           | (Inr messageId, q) \<Rightarrow> (Inr (EnqueuedResult messageId), s\<lparr>ss_queue := q\<rparr>)))"

section \<open>Reading \<open>review_state\<close>\<close>

definition readReviewStateRow :: "DbClient \<Rightarrow> int \<Rightarrow> string \<Rightarrow> ReviewStateRow list \<Rightarrow> ReviewStateRow option" where
  "readReviewStateRow db installationId prId rows =
     (case withTenant (db_readOk db) installationId
        (\<lambda>t. (t, selectOne (\<lambda>r. sr_installationId r = installationId \<and> sr_prId r = prId) t)) rows of
        (_, Inr row) \<Rightarrow> row
      | (_, Inl _) \<Rightarrow> None)"

definition readPausedState :: "DbClient \<Rightarrow> int \<Rightarrow> string \<Rightarrow> ReviewStateRow list \<Rightarrow> bool" where
  "readPausedState db installationId prId rows =
     (case readReviewStateRow db installationId prId rows of None \<Rightarrow> False | Some row \<Rightarrow> sr_paused row)"

definition DEFAULT_DEBOUNCE_MS :: int where "DEFAULT_DEBOUNCE_MS = 30000"

definition checkDebounce :: "'b CommentEventBody_scheme \<Rightarrow> WebhookHandlerDeps \<Rightarrow> Date \<Rightarrow> ReviewStateRow list \<Rightarrow> bool" where
  "checkDebounce ce deps now rows =
     (case wh_db deps of
        None \<Rightarrow> False
      | Some db \<Rightarrow>
          (case (ev_installationId ce, buildPrId ce) of
             (Some installationId, Some prId) \<Rightarrow>
               (let windowMs = (case wh_debounceMs deps of None \<Rightarrow> DEFAULT_DEBOUNCE_MS | Some ms \<Rightarrow> ms) in
                case readReviewStateRow db installationId prId rows of
                  None \<Rightarrow> False
                | Some row \<Rightarrow> (let age = now - sr_updatedAt row in age < windowMs))
           | _ \<Rightarrow> False))"

section \<open>Authorisation and commands\<close>

definition senderOf :: "'b CommentEventBody_scheme \<Rightarrow> string" where
  "senderOf ce = orEmpty (orElse (ev_sender ce) (ev_commentUser ce))"

definition checkCommandAuthz :: "'b CommentEventBody_scheme \<Rightarrow> WebhookHandlerDeps \<Rightarrow> FeedbackAuthzResult" where
  "checkCommandAuthz ce deps =
     (let username = senderOf ce in
      if falsyStr (ev_owner ce) \<or> falsyStr (ev_repo ce) \<or> username = []
      then Denied ''missing owner/repo/username from webhook payload''
      else (case wh_checkAuthz deps of
              None \<Rightarrow> Denied ''no checkAuthz wired (fail-closed)''
            | Some check \<Rightarrow> check (the (ev_owner ce)) (the (ev_repo ce)) username))"

text \<open>The branches \<open>/skip\<close> and \<open>/resume\<close>, which differ in the flag and the answer.\<close>

definition pauseCommand :: "bool \<Rightarrow> string \<Rightarrow> 'b CommentEventBody_scheme \<Rightarrow> WebhookHandlerDeps \<Rightarrow> Date \<Rightarrow> ServerState \<Rightarrow> WebhookResult result \<times> ServerState" where
  "pauseCommand p reason ce deps now s =
     (case (wh_db deps, buildPrId ce, ev_installationId ce) of
        (Some db, Some prId, Some installationId) \<Rightarrow>
          (case withTenant (db_writeOk db) installationId
             (\<lambda>t. (setPaused p now installationId prId t, ())) (ss_reviewState s) of
             (t, Inl e) \<Rightarrow> (Inl e, s\<lparr>ss_reviewState := t\<rparr>)
           | (t, Inr _) \<Rightarrow> (Inr (Noop reason), s\<lparr>ss_reviewState := t\<rparr>))
      | _ \<Rightarrow> (Inr (Noop reason), s))"

definition handleSlashCommand :: "SlashCommand \<Rightarrow> 'b CommentEventBody_scheme \<Rightarrow> WebhookHandlerDeps \<Rightarrow> Date \<Rightarrow> ServerState \<Rightarrow> WebhookResult result \<times> ServerState" where
  "handleSlashCommand slash ce deps now s =
     (if \<not> is_allowed (checkCommandAuthz ce deps) then (Inr (Ignored ''unauthorized command''), s)
      else (case slash of
              SlashSkip \<Rightarrow> pauseCommand True ''PR paused (skip)'' ce deps now s
            | SlashResume \<Rightarrow> pauseCommand False ''PR resumed'' ce deps now s
            | SlashReview pathScope \<Rightarrow>
                if checkDebounce ce deps now (ss_reviewState s)
                then (Inr (Ignored ''debounced: review already in flight''), s)
                else enqueueJob deps
                       (buildJobMessageWithScope ce TrigCommand now pathScope) s))"

definition handleFeedbackCommand :: "FeedbackCommand \<Rightarrow> 'b CommentEventBody_scheme \<Rightarrow> WebhookHandlerDeps \<Rightarrow> ServerState \<Rightarrow> WebhookResult result \<times> ServerState" where
  "handleFeedbackCommand fb ce deps s =
     (let prNumber = orElse (ev_prNumber ce) (ev_issueNumber ce);
          answer = (\<lambda>outcome n. (Inr (FeedbackCommandResult (fc_kind fb) outcome (fc_fpPrefix fb) n),
                                  s\<lparr>ss_metrics := ss_metrics s @ [(Github, fc_kind fb, outcome)]\<rparr>))
      in case prNumber of
           None \<Rightarrow> answer Unresolved 0
         | Some n \<Rightarrow>
             if falsyStr (ev_owner ce) \<or> falsyStr (ev_repo ce) then answer Unresolved n
             else (let authz = (case wh_checkAuthz deps of
                                  None \<Rightarrow> Denied ''no checkAuthz wired (fail-closed)''
                                | Some check \<Rightarrow> check (the (ev_owner ce)) (the (ev_repo ce)) (senderOf ce))
                   in if is_allowed authz then answer Recorded n else answer Unauthorized n))"

definition recordFeedbackCommandOutcome :: "Platform \<Rightarrow> FeedbackKind \<Rightarrow> FeedbackCommandOutcome \<Rightarrow> ServerState \<Rightarrow> ServerState" where
  "recordFeedbackCommandOutcome platform kind outcome s = s\<lparr>ss_metrics := ss_metrics s @ [(platform, kind, outcome)]\<rparr>"

section \<open>Installation and reaction events\<close>

definition upsertInstallation :: "Date \<Rightarrow> GithubInstallationRow \<Rightarrow> GithubInstallationRow list \<Rightarrow> GithubInstallationRow list" where
  "upsertInstallation dbNow new rows =
     insertOrUpdate gi_installationId new
       (\<lambda>r. r\<lparr>gi_appId := gi_appId new, gi_accountLogin := gi_accountLogin new, gi_accountType := gi_accountType new,
              gi_setupAction := gi_setupAction new, gi_suspendedAt := gi_suspendedAt new, gi_updatedAt := gi_updatedAt new\<rparr>) rows"

text \<open>Run a write under the tenant and answer \<open>installation\<close>.\<close>

definition installationWrite :: "DbClient \<Rightarrow> string \<Rightarrow> int \<Rightarrow> (GithubInstallationRow list \<Rightarrow> GithubInstallationRow list) \<Rightarrow> ServerState \<Rightarrow> WebhookResult result \<times> ServerState" where
  "installationWrite db action installationId wr s =
     (case withTenant (db_writeOk db) installationId (\<lambda>t. (wr t, ())) (ss_installations s) of
        (t, Inl e) \<Rightarrow> (Inl e, s\<lparr>ss_installations := t\<rparr>)
      | (t, Inr _) \<Rightarrow> (Inr (InstallationResult action installationId), s\<lparr>ss_installations := t\<rparr>))"

definition handleInstallationEvent :: "string option \<Rightarrow> WebhookBody \<Rightarrow> DbClient \<Rightarrow> Date \<Rightarrow> ServerState \<Rightarrow> WebhookResult result \<times> ServerState" where
  "handleInstallationEvent action body db now s =
     (case ev_installationId body of
        None \<Rightarrow> (Inr (Ignored ''installation event missing installation.id''), s)
      | Some installationId \<Rightarrow>
          if action = Some ''created'' \<or> action = Some ''unsuspend'' then
            (case (ev_appId body, ev_accountLogin body, ev_accountType body) of
               (Some appId, Some accountLogin, Some accountType) \<Rightarrow>
                 installationWrite db (the action) installationId
                   (upsertInstallation (db_now db)
                      \<lparr>gi_installationId = installationId, gi_accountLogin = accountLogin, gi_accountType = accountType,
                       gi_appId = appId, gi_setupAction = ''install'', gi_suspendedAt = None,
                       gi_createdAt = db_now db, gi_updatedAt = now\<rparr>) s
             | _ \<Rightarrow> (Inr (Ignored ''installation.created/unsuspend missing required fields''), s))
          else if action = Some ''suspend'' then
            installationWrite db ''suspend'' installationId
              (updateWhere (\<lambda>r. gi_installationId r = installationId)
                 (\<lambda>r. r\<lparr>gi_suspendedAt := Some now, gi_updatedAt := now\<rparr>)) s
          else if action = Some ''deleted'' then
            installationWrite db ''deleted'' installationId
              (deleteWhere (\<lambda>r. gi_installationId r = installationId)) s
          else (Inr (Noop (''installation.'' @ (case action of None \<Rightarrow> ''unknown'' | Some a \<Rightarrow> a) @ '' acknowledged'')), s))"

definition classifyReactionPayload :: "WebhookBody \<Rightarrow> (FeedbackKind \<times> int) option" where
  "classifyReactionPayload b =
     (if ev_action b \<noteq> Some ''created'' then None
      else if ev_reactionContent b \<noteq> Some ''+1'' \<and> ev_reactionContent b \<noteq> Some ''-1'' then None
      else (case orElse (ev_commentId b) (ev_reviewId b) of
              None \<Rightarrow> None
            | Some commentId \<Rightarrow>
                Some (if ev_reactionContent b = Some ''+1'' then ThumbsUp else ThumbsDown, commentId)))"

section \<open>Pull-request events\<close>

definition prTrigger :: "string \<Rightarrow> Trigger" where
  "prTrigger action =
     (if action = ''opened'' then TrigOpened else if action = ''synchronize'' then TrigSynchronize
      else if action = ''reopened'' then TrigReopened else TrigReadyForReview)"

definition hasSkipLabel :: "TriggerConfig \<Rightarrow> 'b PrEventBody_scheme \<Rightarrow> bool" where
  "hasSkipLabel cfg pr =
     (let prLabels = filter (\<lambda>n. n \<noteq> []) (map (\<lambda>l. toLowerCase (orEmpty l)) (case ev_labels pr of None \<Rightarrow> [] | Some ls \<Rightarrow> ls));
          skipLabels = map toLowerCase (tc_skip_labels cfg)
      in list_ex (\<lambda>sl. sl \<in> set prLabels) skipLabels)"

definition pausedPr :: "WebhookHandlerDeps \<Rightarrow> 'b PrEventBody_scheme \<Rightarrow> ReviewStateRow list \<Rightarrow> bool" where
  "pausedPr deps pr rows =
     (case (wh_db deps, ev_installationId pr) of
        (Some db, Some installationId) \<Rightarrow>
          if falsyStr (ev_owner pr) \<or> falsyStr (ev_repo pr) \<or> falsyNum (ev_prNumber pr) then False
          else readPausedState db installationId
                 (prIdText (the (ev_owner pr)) (the (ev_repo pr)) (the (ev_prNumber pr))) rows
      | _ \<Rightarrow> False)"

definition handleLabeled :: "'b CommentEventBody_scheme \<Rightarrow> WebhookHandlerDeps \<Rightarrow> ServerState \<Rightarrow> WebhookResult result \<times> ServerState" where
  "handleLabeled pr deps s =
     (case wh_triggerConfig deps of
        None \<Rightarrow> (Inr (Ignored (''pull_request action '' @ quoted ''labeled'')), s)
      | Some cfg \<Rightarrow>
          (let appliedLabel = toLowerCase (orEmpty (ev_label pr)) in
           if appliedLabel \<in> set (map toLowerCase (tc_trigger_labels cfg))
           then enqueueJob deps (buildJobMessage pr TrigCommand (wh_now deps 0)) s
           else (Inr (Ignored (''label '' @ quoted appliedLabel @ '' not in trigger_labels'')), s)))"

definition handlePullRequest :: "'b CommentEventBody_scheme \<Rightarrow> WebhookHandlerDeps \<Rightarrow> ServerState \<Rightarrow> WebhookResult result \<times> ServerState" where
  "handlePullRequest pr deps s =
     (if falsyStr (ev_action pr)
      then (Inr (Ignored (''pull_request action '' @ quoted (case ev_action pr of None \<Rightarrow> ''unknown'' | Some a \<Rightarrow> a))), s)
      else (let action = the (ev_action pr); push = action \<in> set PUSH_TRIGGERED_ACTIONS in
        if action = ''labeled'' then handleLabeled pr deps s
        else if action \<notin> set ENQUEUE_PR_ACTIONS then (Inr (Ignored (''pull_request action '' @ quoted action)), s)
        else if ev_draft pr then (Inr (Ignored ''draft PR''), s)
        else if push \<and> (hasSkipMarker (orEmpty (ev_title pr)) \<or> hasSkipMarker (orEmpty (ev_prBody pr)))
          then (Inr (Ignored ''[skip review] marker in PR title/body''), s)
        else if push \<and> (case wh_triggerConfig deps of None \<Rightarrow> False | Some cfg \<Rightarrow> hasSkipLabel cfg pr)
          then (Inr (Ignored ''PR carries a skip_label''), s)
        else if push \<and> pausedPr deps pr (ss_reviewState s)
          then (Inr (Ignored ''PR is paused (skip)''), s)
        else enqueueJob deps (buildJobMessage pr (prTrigger action) (wh_now deps 0)) s))"

section \<open>Comment events\<close>

definition conversationReply :: "'b CommentEventBody_scheme \<Rightarrow> WebhookHandlerDeps \<Rightarrow> (ConversationHandlerInput \<Rightarrow> ConversationReplyOutcome result) \<Rightarrow> int \<Rightarrow> ServerState \<Rightarrow> WebhookResult result \<times> ServerState" where
  "conversationReply ce deps handleConversation rootCommentId s =
     (if ev_action ce \<noteq> Some ''created''
      then (Inr (Ignored ''pull_request_review_comment action is not created''), s)
      else if \<not> includesStr (toLowerCase (orEmpty (ev_commentBody ce))) ''@review-agent''
      then (Inr (Ignored ''no @review-agent mention in reply''), s)
      else (case (ev_installationId ce, ev_prNumber ce, ev_commentId ce) of
        (Some installationId, Some prNumber, Some replyCommentId) \<Rightarrow>
          if falsyStr (ev_owner ce) \<or> falsyStr (ev_repo ce)
          then (Inr (Ignored ''conversation reply: missing required fields''), s)
          else (case wh_getBotLogin deps of
            None \<Rightarrow> (Inr (Ignored ''conversation reply: getBotLogin not wired (fail-closed)''), s)
          | Some (Inl e) \<Rightarrow> (Inl e, s)
          | Some (Inr botLogin) \<Rightarrow>
              if botLogin = [] then (Inr (Ignored ''conversation reply: getBotLogin returned empty (fail-closed)''), s)
              else if orEmpty (ev_sender ce) = botLogin then (Inr (ConversationReply SelfReply replyCommentId prNumber), s)
              else if \<not> is_allowed (checkCommandAuthz ce deps)
              then (Inr (ConversationReply UnauthorizedReply replyCommentId prNumber), s)
              else (let inp = \<lparr>ci_installationId = installationId, ci_owner = the (ev_owner ce), ci_repo = the (ev_repo ce),
                       ci_prNumber = prNumber, ci_rootCommentId = rootCommentId, ci_replyCommentId = replyCommentId,
                       ci_body = orEmpty (ev_commentBody ce), ci_diffHunk = ev_diffHunk ce, ci_sender = orEmpty (ev_sender ce)\<rparr>;
                       s' = s\<lparr>ss_conversations := ss_conversations s @ [inp]\<rparr>
                    in case handleConversation inp of
                         Inl e \<Rightarrow> (Inl e, s')
                       | Inr outcome \<Rightarrow> (Inr (ConversationReply outcome replyCommentId prNumber), s')))
      | _ \<Rightarrow> (Inr (Ignored ''conversation reply: missing required fields''), s)))"

text \<open>The three command parsers, in order of precedence.\<close>

definition handleCommandText :: "'b CommentEventBody_scheme \<Rightarrow> WebhookHandlerDeps \<Rightarrow> ServerState \<Rightarrow> WebhookResult result \<times> ServerState" where
  "handleCommandText ce deps s =
     (let commentText = orEmpty (ev_commentBody ce) in
      case parseFeedbackCommand commentText of
        Some fb \<Rightarrow> handleFeedbackCommand fb ce deps s
      | None \<Rightarrow>
      (case parseSlashCommand commentText of
        Some slash \<Rightarrow> handleSlashCommand slash ce deps (wh_now deps 0) s
      | None \<Rightarrow>
      (case parseCommand commentText of
        None \<Rightarrow> (Inr (Ignored ''no agent command''), s)
      | Some command \<Rightarrow>
          if command = [] then (Inr (Ignored ''no agent command''), s)
          else if command = ''review'' then
            (if \<not> is_allowed (checkCommandAuthz ce deps) then (Inr (Ignored ''unauthorized command''), s)
             else if checkDebounce ce deps (wh_now deps 0) (ss_reviewState s)
             then (Inr (Ignored ''debounced: review already in flight''), s)
             else enqueueJob deps (buildJobMessage ce TrigCommand (wh_now deps 1)) s)
          else (Inr (Noop (''command '' @ quoted command @ '' not yet implemented'')), s))))"

definition handleComment :: "string \<Rightarrow> 'b CommentEventBody_scheme \<Rightarrow> WebhookHandlerDeps \<Rightarrow> ServerState \<Rightarrow> WebhookResult result \<times> ServerState" where
  "handleComment event ce deps s =
     (if event = ''issue_comment'' \<and> \<not> ev_issueIsPr ce then (Inr (Ignored ''issue comment, not PR''), s)
      else (case (wh_handleConversation deps, ev_inReplyToId ce) of
              (Some handleConversation, Some rootCommentId) \<Rightarrow>
                if event = ''pull_request_review_comment''
                then conversationReply ce deps handleConversation rootCommentId s
                else handleCommandText ce deps s
            | _ \<Rightarrow> handleCommandText ce deps s))"

section \<open>The handler\<close>

definition handleWebhook :: "string \<Rightarrow> WebhookBody \<Rightarrow> WebhookHandlerDeps \<Rightarrow> ServerState \<Rightarrow> WebhookResult result \<times> ServerState" where
  "handleWebhook event body deps s =
     (if event = ''ping'' then (Inr (Noop ''ping''), s)
      else if event = ''installation_repositories'' then (Inr (Noop ''installation_repositories acknowledged''), s)
      else if event = ''installation'' then
        (case wh_db deps of
           None \<Rightarrow> (Inr (Noop ((case ev_action body of None \<Rightarrow> ''unknown'' | Some a \<Rightarrow> a) @ '' acknowledged'')), s)
         | Some db \<Rightarrow> handleInstallationEvent (ev_action body) body db (wh_now deps 0) s)
      else if event = ''pull_request_review_comment_reaction'' \<or> event = ''reaction'' then
        (case classifyReactionPayload body of
           None \<Rightarrow> (Inr (Ignored ''reaction payload not recognised''), s)
         | Some (signal, commentId) \<Rightarrow> (Inr (FeedbackResult signal commentId), s))
      else if event = ''pull_request_review'' \<and> ev_action body = Some ''dismissed'' \<and> ev_reviewId body \<noteq> None then
        (Inr (FeedbackResult Dismissed (the (ev_reviewId body))), s)
      else if event = ''pull_request'' then handlePullRequest body deps s
      else if event = ''issue_comment'' \<or> event = ''pull_request_review'' \<or> event = ''pull_request_review_comment'' then
        handleComment event body deps s
      else (Inr (Ignored (''unhandled event '' @ quoted event)), s))"

end
