(* ===== verification/WebhookProps.thy ===== *)
theory WebhookProps
  imports Webhook
begin

text \<open>
  What the GitHub webhook handler guarantees: which deliveries have an effect and what the effect
  is, who has authorised it, that one installation's deliveries never touch another's rows, and
  how \<open>/skip\<close>, \<open>/resume\<close> and the debounce window interact.
\<close>

section \<open>Effects of the parts\<close>

text \<open>What a request may do to the state: one queued job, one written table, one dispatch.\<close>

lemma enqueueJob_effect:
  "snd (enqueueJob deps msg s) = s \<or>
   (\<exists>m. msg = Some m \<and> jobMessageOk (wh_isDatetime deps) m \<and>
        snd (enqueueJob deps msg s) = s\<lparr>ss_queue := ss_queue s @ [sqsCommand m]\<rparr>)"
proof (cases msg)
  case (Some m)
  have "snd (enqueueJob deps msg s) = s\<lparr>ss_queue := snd (sqsEnqueue (wh_isDatetime deps) (wh_send deps) m (ss_queue s))\<rparr>"
    by (simp add: enqueueJob_def Some split: prod.splits sum.splits)
  then show ?thesis
    using sqs.enqueue_cases [of "wh_isDatetime deps" "wh_send deps" m "ss_queue s"] Some by auto
qed (simp add: enqueueJob_def)

lemma enqueueJob_other:
  "ss_reviewState (snd (enqueueJob deps msg s)) = ss_reviewState s"
  "ss_installations (snd (enqueueJob deps msg s)) = ss_installations s"
  "ss_conversations (snd (enqueueJob deps msg s)) = ss_conversations s"
  "ss_metrics (snd (enqueueJob deps msg s)) = ss_metrics s"
  using enqueueJob_effect [of deps msg s] by auto

lemma withTenant_cases:
  "withTenant ok i f t = (t', Inl e) \<Longrightarrow> t' = t"
  "withTenant ok i f t = (t', Inr x) \<Longrightarrow> tenantOk i \<and> ok \<and> f t = (t', x)"
  by (auto simp: withTenant_def split: if_splits prod.splits)

lemma pauseCommand_effect:
  "snd (pauseCommand p reason ce deps now s) = s \<or>
   (\<exists>i pr. ev_installationId ce = Some i \<and> buildPrId ce = Some pr \<and>
      snd (pauseCommand p reason ce deps now s) = s\<lparr>ss_reviewState := setPaused p now i pr (ss_reviewState s)\<rparr>)"
  by (auto simp: pauseCommand_def split: option.splits prod.splits sum.splits dest: withTenant_cases)

lemma installationWrite_effect:
  "snd (installationWrite db action i wr s) = s \<or>
   snd (installationWrite db action i wr s) = s\<lparr>ss_installations := wr (ss_installations s)\<rparr>"
  by (auto simp: installationWrite_def split: prod.splits sum.splits dest: withTenant_cases)

lemma handleFeedbackCommand_effect:
  "\<exists>o'. snd (handleFeedbackCommand fb ce deps s) = s\<lparr>ss_metrics := ss_metrics s @ [(Github, fc_kind fb, o')]\<rparr>"
  by (auto simp: handleFeedbackCommand_def Let_def split: option.splits)

section \<open>Authorised effects\<close>

text \<open>A comment event is one of the three the command parsers see.\<close>

abbreviation commentEvent :: "string \<Rightarrow> bool" where
  "commentEvent event \<equiv> event = ''issue_comment'' \<or> event = ''pull_request_review'' \<or> event = ''pull_request_review_comment''"

text \<open>The parts of the state a comment could act on.\<close>

definition acted :: "ServerState \<Rightarrow> ServerState \<Rightarrow> bool" where
  "acted s s' = (ss_queue s' \<noteq> ss_queue s \<or> ss_reviewState s' \<noteq> ss_reviewState s \<or>
     ss_installations s' \<noteq> ss_installations s \<or> ss_conversations s' \<noteq> ss_conversations s)"

lemma acted_same [simp]: "\<not> acted s s"
  by (simp add: acted_def)

lemma acted_metrics [simp]: "\<not> acted s (s\<lparr>ss_metrics := ms\<rparr>)"
  by (simp add: acted_def)

definition recordedFeedback :: "WebhookResult result \<Rightarrow> bool" where
  "recordedFeedback r = (case r of Inr (FeedbackCommandResult _ Recorded _ _) \<Rightarrow> True | _ \<Rightarrow> False)"

lemma recordedFeedback_simps [simp]:
  "\<not> recordedFeedback (Inl e)" "\<not> recordedFeedback (Inr (Ignored x))" "\<not> recordedFeedback (Inr (Noop x))"
  "\<not> recordedFeedback (Inr (EnqueuedResult x))" "\<not> recordedFeedback (Inr (FeedbackResult k i))"
  "\<not> recordedFeedback (Inr (ConversationReply c i j))" "\<not> recordedFeedback (Inr (InstallationResult x i))"
  "recordedFeedback (Inr (FeedbackCommandResult k out fp n)) \<longleftrightarrow> out = Recorded"
  by (auto simp: recordedFeedback_def split: FeedbackCommandOutcome.splits)

lemma enqueueJob_not_recorded [simp]: "\<not> recordedFeedback (fst (enqueueJob deps msg s))"
  by (auto simp: enqueueJob_def split: option.splits prod.splits sum.splits)

lemma pauseCommand_not_recorded [simp]: "\<not> recordedFeedback (fst (pauseCommand p reason ce deps now s))"
  by (auto simp: pauseCommand_def split: option.splits prod.splits sum.splits)

lemma handleSlashCommand_authorised:
  "acted s (snd (handleSlashCommand slash ce deps now s)) \<or> recordedFeedback (fst (handleSlashCommand slash ce deps now s)) \<Longrightarrow>
   is_allowed (checkCommandAuthz ce deps)"
  by (auto simp: handleSlashCommand_def split: if_splits)

lemma handleFeedbackCommand_authorised:
  assumes "acted s (snd (handleFeedbackCommand fb ce deps s)) \<or> recordedFeedback (fst (handleFeedbackCommand fb ce deps s))"
  shows "\<exists>check owner repo. wh_checkAuthz deps = Some check \<and> ev_owner ce = Some owner \<and> ev_repo ce = Some repo \<and>
     is_allowed (check owner repo (senderOf ce))"
proof -
  have "recordedFeedback (fst (handleFeedbackCommand fb ce deps s))"
    using assms handleFeedbackCommand_effect [of fb ce deps s] by auto
  then show ?thesis
    by (cases "wh_checkAuthz deps") (auto simp: handleFeedbackCommand_def Let_def is_allowed_def split: option.splits if_splits)
qed

lemma checkCommandAuthz_allowed:
  "is_allowed (checkCommandAuthz ce deps) \<Longrightarrow> \<exists>check owner repo. wh_checkAuthz deps = Some check \<and> ev_owner ce = Some owner \<and>
     ev_repo ce = Some repo \<and> is_allowed (check owner repo (senderOf ce))"
  by (auto simp: checkCommandAuthz_def is_allowed_def Let_def split: if_splits option.splits)

lemma conversationReply_authorised:
  "acted s (snd (conversationReply ce deps h rootId s)) \<or> recordedFeedback (fst (conversationReply ce deps h rootId s)) \<Longrightarrow>
   is_allowed (checkCommandAuthz ce deps)"
  by (auto simp: conversationReply_def Let_def split: if_splits option.splits sum.splits)

lemma handleCommandText_authorised:
  assumes "acted s (snd (handleCommandText ce deps s)) \<or> recordedFeedback (fst (handleCommandText ce deps s))"
  shows "\<exists>check owner repo. wh_checkAuthz deps = Some check \<and> ev_owner ce = Some owner \<and> ev_repo ce = Some repo \<and>
     is_allowed (check owner repo (senderOf ce))"
proof (cases "parseFeedbackCommand (orEmpty (ev_commentBody ce))")
  case (Some fb)
  then show ?thesis using assms handleFeedbackCommand_authorised [of s fb ce deps]
    by (simp add: handleCommandText_def Let_def)
next
  case None
  have "is_allowed (checkCommandAuthz ce deps)"
  proof (cases "parseSlashCommand (orEmpty (ev_commentBody ce))")
    case (Some slash)
    then show ?thesis using assms None handleSlashCommand_authorised [of s slash ce deps "wh_now deps 0"]
      by (simp add: handleCommandText_def Let_def)
  next
    case None': None
    show ?thesis using assms None None'
      by (auto simp: handleCommandText_def Let_def split: option.splits if_splits)
  qed
  then show ?thesis by (rule checkCommandAuthz_allowed)
qed

lemma handleComment_authorised:
  assumes "acted s (snd (handleComment event ce deps s)) \<or> recordedFeedback (fst (handleComment event ce deps s))"
  shows "\<exists>check owner repo. wh_checkAuthz deps = Some check \<and> ev_owner ce = Some owner \<and> ev_repo ce = Some repo \<and>
     is_allowed (check owner repo (senderOf ce))"
  using assms handleCommandText_authorised [of s ce deps] conversationReply_authorised [of s ce deps]
    checkCommandAuthz_allowed [of ce deps]
  by (auto simp: handleComment_def split: if_splits option.splits)

lemma handleWebhook_comment:
  "commentEvent event \<Longrightarrow> handleWebhook event body deps s =
     (if event = ''pull_request_review'' \<and> ev_action body = Some ''dismissed'' \<and> ev_reviewId body \<noteq> None
      then (Inr (FeedbackResult Dismissed (the (ev_reviewId body))), s) else handleComment event body deps s)"
  by (auto simp: handleWebhook_def)

lemma github_allowed:
  "is_allowed (checkGithubFeedbackAuthz getPermission owner repo username) \<longleftrightarrow>
     username \<noteq> [] \<and> (\<exists>p. getPermission owner repo username = Inr (Some p) \<and> p \<in> set GITHUB_WRITE_PERMISSIONS)"
  by (auto simp: checkGithubFeedbackAuthz_def is_allowed_def split: sum.splits option.splits)

text \<open>C17: no comment has an effect unless its sender can write to the repository: whenever a comment
  event queues a job, changes a table, dispatches a conversation or records feedback, the payload
  names a sender, and GitHub answered the permission query for that sender on that repository with
  one of admin, maintain and write.\<close>

theorem comment_effects_authorised:
  assumes "commentEvent event" "wh_checkAuthz deps = Some (checkGithubFeedbackAuthz getPermission)"
    "handleWebhook event body deps s = (r, s')" "acted s s' \<or> recordedFeedback r"
  shows "\<exists>owner repo p. ev_owner body = Some owner \<and> ev_repo body = Some repo \<and> senderOf body \<noteq> [] \<and>
     getPermission owner repo (senderOf body) = Inr (Some p) \<and> p \<in> set GITHUB_WRITE_PERMISSIONS"
proof -
  have "handleComment event body deps s = (r, s')"
    using assms by (auto simp: handleWebhook_comment split: if_splits)
  then obtain check owner repo where "wh_checkAuthz deps = Some check" "ev_owner body = Some owner"
      "ev_repo body = Some repo" "is_allowed (check owner repo (senderOf body))"
    using handleComment_authorised [of s event body deps] assms(4) by auto
  then show ?thesis using assms(2) github_allowed by auto
qed

definition emptyBody :: WebhookBody where
  "emptyBody = \<lparr>ev_action = None, ev_installationId = None, ev_prNumber = None, ev_draft = False, ev_headSha = None,
     ev_title = None, ev_prBody = None, ev_labels = None, ev_owner = None, ev_repo = None, ev_label = None,
     ev_commentBody = None, ev_commentUser = None, ev_commentId = None, ev_inReplyToId = None, ev_diffHunk = None,
     ev_sender = None, ev_issueIsPr = False, ev_issueNumber = None, ev_appId = None, ev_accountLogin = None,
     ev_accountType = None, ev_reviewId = None, ev_reactionContent = None\<rparr>"

text \<open>A comment on a pull request, and a push to it.\<close>

definition commentOn :: "int \<Rightarrow> string \<Rightarrow> string \<Rightarrow> int \<Rightarrow> string \<Rightarrow> string \<Rightarrow> WebhookBody" where
  "commentOn inst owner repo n user t = emptyBody\<lparr>ev_action := Some ''created'', ev_installationId := Some inst, ev_owner := Some owner,
     ev_repo := Some repo, ev_issueIsPr := True, ev_issueNumber := Some n, ev_sender := Some user, ev_commentBody := Some t\<rparr>"

definition pushTo :: "int \<Rightarrow> string \<Rightarrow> string \<Rightarrow> int \<Rightarrow> string \<Rightarrow> WebhookBody" where
  "pushTo inst owner repo n sha = emptyBody\<lparr>ev_action := Some ''synchronize'', ev_installationId := Some inst, ev_owner := Some owner,
     ev_repo := Some repo, ev_prNumber := Some n, ev_headSha := Some sha\<rparr>"

definition sampleWebhookDeps :: WebhookHandlerDeps where
  "sampleWebhookDeps = \<lparr>wh_isDatetime = (\<lambda>_. True), wh_send = (\<lambda>_. Inr (Some ''m1'')), wh_now = (\<lambda>_. 0),
     wh_checkAuthz = Some (checkGithubFeedbackAuthz (\<lambda>_ _ u. Inr (Some (if u = ''alice'' then ''write'' else ''read'')))),
     wh_handleConversation = None, wh_getBotLogin = None,
     wh_db = Some \<lparr>db_readOk = True, db_writeOk = True, db_now = 0\<rparr>, wh_triggerConfig = None, wh_debounceMs = None\<rparr>"

definition emptyServer :: ServerState where
  "emptyServer = \<lparr>ss_queue = [], ss_reviewState = [], ss_installations = [], ss_metrics = [], ss_conversations = [], ss_confirmed = []\<rparr>"

lemma sample_review_comment:
  "length (ss_queue (snd (handleWebhook ''issue_comment'' (commentOn 7 ''o'' ''r'' 1 ''alice'' ''/review'') sampleWebhookDeps emptyServer))) = 1"
  by code_simp

lemma comment_effects_authorised_witness:
  "\<exists>owner repo p. ev_owner (commentOn 7 ''o'' ''r'' 1 ''alice'' ''/review'') = Some owner \<and>
     ev_repo (commentOn 7 ''o'' ''r'' 1 ''alice'' ''/review'') = Some repo \<and>
     senderOf (commentOn 7 ''o'' ''r'' 1 ''alice'' ''/review'') \<noteq> [] \<and>
     (Inr (Some (if senderOf (commentOn 7 ''o'' ''r'' 1 ''alice'' ''/review'') = ''alice'' then ''write'' else ''read'')) :: string option result) =
       Inr (Some p) \<and> p \<in> set GITHUB_WRITE_PERMISSIONS"
proof -
  have "acted emptyServer (snd (handleWebhook ''issue_comment'' (commentOn 7 ''o'' ''r'' 1 ''alice'' ''/review'') sampleWebhookDeps emptyServer))"
    using sample_review_comment by (auto simp: acted_def emptyServer_def)
  then show ?thesis
    by (intro comment_effects_authorised [where event = "''issue_comment''" and deps = sampleWebhookDeps and s = emptyServer
          and getPermission = "\<lambda>_ _ u. Inr (Some (if u = ''alice'' then ''write'' else ''read''))"])
      (auto simp: sampleWebhookDeps_def intro: prod.collapse [symmetric])
qed

section \<open>Push events\<close>

definition enqueued :: "WebhookResult result \<Rightarrow> bool" where
  "enqueued r = (case r of Inr (EnqueuedResult _) \<Rightarrow> True | _ \<Rightarrow> False)"

lemma enqueued_simps [simp]:
  "\<not> enqueued (Inl e)" "\<not> enqueued (Inr (Ignored x))" "\<not> enqueued (Inr (Noop x))" "enqueued (Inr (EnqueuedResult x))"
  by (simp_all add: enqueued_def)

text \<open>The queue takes a job: it has the fields, passes the schema, and the service accepts it.\<close>

definition queueTakes :: "WebhookHandlerDeps \<Rightarrow> JobMessage option \<Rightarrow> bool" where
  "queueTakes deps msg = (case msg of None \<Rightarrow> False
     | Some m \<Rightarrow> jobMessageOk (wh_isDatetime deps) m \<and> (case wh_send deps (sqsCommand m) of Inl _ \<Rightarrow> False | Inr _ \<Rightarrow> True))"

lemma enqueueJob_exact:
  "enqueued (fst (enqueueJob deps msg s)) = queueTakes deps msg \<and>
   snd (enqueueJob deps msg s) = (if queueTakes deps msg then s\<lparr>ss_queue := ss_queue s @ [sqsCommand (the msg)]\<rparr> else s)"
  by (auto simp: enqueueJob_def queueTakes_def sqsEnqueue_def split: option.splits sum.splits prod.splits)

text \<open>What keeps an automatic review from running.\<close>

definition suppressed :: "WebhookHandlerDeps \<Rightarrow> WebhookBody \<Rightarrow> ReviewStateRow list \<Rightarrow> bool" where
  "suppressed deps pr rows =
     (hasSkipMarker (orEmpty (ev_title pr)) \<or> hasSkipMarker (orEmpty (ev_prBody pr)) \<or>
      (case wh_triggerConfig deps of None \<Rightarrow> False | Some cfg \<Rightarrow> hasSkipLabel cfg pr) \<or> pausedPr deps pr rows)"

lemma handlePullRequest_action:
  assumes "ev_action body = Some action" "action \<in> set ENQUEUE_PR_ACTIONS"
  shows "\<exists>reason. handlePullRequest body deps s =
    (if ev_draft body \<or> (action \<noteq> ''ready_for_review'' \<and> suppressed deps body (ss_reviewState s)) then (Inr (Ignored reason), s)
     else enqueueJob deps (buildJobMessage body (prTrigger action) (wh_now deps 0)) s)"
proof -
  have "action \<noteq> []" "action \<noteq> ''labeled''" and push: "action \<in> set PUSH_TRIGGERED_ACTIONS \<longleftrightarrow> action \<noteq> ''ready_for_review''"
    using assms(2) by (auto simp: ENQUEUE_PR_ACTIONS_def PUSH_TRIGGERED_ACTIONS_def)
  then show ?thesis
    using assms unfolding handlePullRequest_def Let_def suppressed_def assms(1) option.sel push by auto
qed



section \<open>Tenants\<close>

text \<open>The rows of an installation.\<close>

definition reviewRowsOf :: "int \<Rightarrow> ServerState \<Rightarrow> ReviewStateRow list" where
  "reviewRowsOf i s = filter (\<lambda>r. sr_installationId r = i) (ss_reviewState s)"

definition installationRowsOf :: "int \<Rightarrow> ServerState \<Rightarrow> GithubInstallationRow list" where
  "installationRowsOf i s = filter (\<lambda>r. gi_installationId r = i) (ss_installations s)"

text \<open>What a request of installation \<open>i\<close> (if it names one) may change: its own rows, and a
  job queued under its own id.\<close>

definition confined :: "int option \<Rightarrow> ServerState \<Rightarrow> ServerState \<Rightarrow> bool" where
  "confined i s s' =
     ((\<forall>j. Some j \<noteq> i \<longrightarrow> reviewRowsOf j s' = reviewRowsOf j s \<and> installationRowsOf j s' = installationRowsOf j s) \<and>
      (ss_queue s' = ss_queue s \<or> (\<exists>c n. ss_queue s' = ss_queue s @ [c] \<and> i = Some n \<and> sm_installationId c = intToString n)))"

lemma confined_refl [simp]: "confined i s s"
  by (simp add: confined_def)

lemma confined_log [simp]: "confined i s (s\<lparr>ss_metrics := ms\<rparr>)" "confined i s (s\<lparr>ss_conversations := cs\<rparr>)"
  by (simp_all add: confined_def reviewRowsOf_def installationRowsOf_def)

lemma buildJob_installation:
  "buildJobMessageWithScope body t now scope = Some m \<Longrightarrow>
   \<exists>n. ev_installationId body = Some n \<and> sm_installationId (sqsCommand m) = intToString n"
  by (auto simp: buildJobMessageWithScope_def Let_def sqsCommand_def split: if_splits)

lemma confined_enqueue:
  "(\<And>m. msg = Some m \<Longrightarrow> \<exists>n. i = Some n \<and> sm_installationId (sqsCommand m) = intToString n) \<Longrightarrow>
   confined i s (snd (enqueueJob deps msg s))"
  using enqueueJob_effect [of deps msg s] by (auto simp: confined_def reviewRowsOf_def installationRowsOf_def)

lemma confined_build [simp]:
  "confined (ev_installationId body) s (snd (enqueueJob deps (buildJobMessageWithScope body t now scope) s))"
  "confined (ev_installationId body) s (snd (enqueueJob deps (buildJobMessage body t now) s))"
  unfolding buildJobMessage_def by (auto intro!: confined_enqueue dest: buildJob_installation)

lemma filter_map_other: "(\<And>r. P (f r) = P r) \<Longrightarrow> (\<And>r. P r \<Longrightarrow> f r = r) \<Longrightarrow> filter P (map f rows) = filter P rows"
  by (induction rows) auto

lemma confined_pause [simp]:
  "confined (ev_installationId ce) s (snd (pauseCommand p reason ce deps now s))"
proof -
  have "filter (\<lambda>r. sr_installationId r = j) (setPaused p now k pr rows) = filter (\<lambda>r. sr_installationId r = j) rows"
    if "j \<noteq> k" for j k pr rows
    unfolding setPaused_def updateWhere_def using that by (intro filter_map_other) auto
  then show ?thesis
    using pauseCommand_effect [of p reason ce deps now s] by (auto simp: confined_def reviewRowsOf_def installationRowsOf_def)
qed

lemma confined_installationWrite:
  assumes "\<And>j rows. j \<noteq> k \<Longrightarrow> filter (\<lambda>r. gi_installationId r = j) (wr rows) = filter (\<lambda>r. gi_installationId r = j) rows"
  shows "confined (Some k) s (snd (installationWrite db action k wr s))"
  using installationWrite_effect [of db action k wr s] assms
  by (auto simp: confined_def reviewRowsOf_def installationRowsOf_def)

lemma confined_installation [simp]:
  "confined (ev_installationId body) s (snd (handleInstallationEvent action body db now s))"
proof (cases "ev_installationId body")
  case (Some k)
  have u: "filter (\<lambda>r. gi_installationId r = j) (upsertInstallation dbNow new rows) = filter (\<lambda>r. gi_installationId r = j) rows"
    if "j \<noteq> gi_installationId new" for j dbNow new rows
    unfolding upsertInstallation_def insertOrUpdate_def using that by (auto intro!: filter_map_other)
  have s: "filter (\<lambda>r. gi_installationId r = j) (updateWhere (\<lambda>r. gi_installationId r = k)
       (\<lambda>r. r\<lparr>gi_suspendedAt := Some now, gi_updatedAt := now\<rparr>) rows) = filter (\<lambda>r. gi_installationId r = j) rows"
    if "j \<noteq> k" for j rows
    unfolding updateWhere_def using that by (intro filter_map_other) auto
  have d: "filter (\<lambda>r. gi_installationId r = j) (deleteWhere (\<lambda>r. gi_installationId r = k) rows) =
       filter (\<lambda>r. gi_installationId r = j) rows" if "j \<noteq> k" for j rows
    unfolding deleteWhere_def filter_filter using that by (intro filter_cong) auto
  have "confined (Some k) s0 (snd (installationWrite db a k (upsertInstallation dbNow new) s0))" if "gi_installationId new = k" for a dbNow new s0
    using that by (intro confined_installationWrite u) simp
  moreover have "confined (Some k) s0 (snd (installationWrite db a k (updateWhere (\<lambda>r. gi_installationId r = k)
       (\<lambda>r. r\<lparr>gi_suspendedAt := Some now, gi_updatedAt := now\<rparr>)) s0))" for a s0
    by (intro confined_installationWrite s)
  moreover have "confined (Some k) s0 (snd (installationWrite db a k (deleteWhere (\<lambda>r. gi_installationId r = k)) s0))" for a s0
    by (intro confined_installationWrite d)
  ultimately show ?thesis unfolding handleInstallationEvent_def Some
    by (simp split: option.split)
qed (simp add: handleInstallationEvent_def)

lemma confined_comment [simp]: "confined (ev_installationId ce) s (snd (handleComment event ce deps s))"
proof -
  have fb: "confined (ev_installationId ce) s (snd (handleFeedbackCommand fb ce deps s))" for fb
    using handleFeedbackCommand_effect [of fb ce deps s] by auto
  have slash: "confined (ev_installationId ce) s (snd (handleSlashCommand slash ce deps now s))" for slash now
    by (auto simp: handleSlashCommand_def split: SlashCommand.splits)
  have cmds: "confined (ev_installationId ce) s (snd (handleCommandText ce deps s))"
    unfolding handleCommandText_def Let_def by (auto simp: fb slash split: option.splits)
  have conv: "confined (ev_installationId ce) s (snd (conversationReply ce deps h k s))" for h k
    unfolding conversationReply_def by (auto simp: Let_def split: option.splits sum.splits)
  show ?thesis unfolding handleComment_def by (auto simp: cmds conv split: option.splits)
qed

lemma confined_pullRequest [simp]: "confined (ev_installationId pr) s (snd (handlePullRequest pr deps s))"
  unfolding handlePullRequest_def handleLabeled_def Let_def by (auto split: option.splits)

text \<open>C19: one tenant's deliveries never touch another's data: whatever event arrives, the rows of
  every installation other than the one the payload names are unchanged in both tables, and at
  most one job is queued, under the payload's own installation id.\<close>

theorem tenant_isolation:
  "confined (ev_installationId body) s (snd (handleWebhook event body deps s))"
  unfolding handleWebhook_def by (auto split: option.splits)

end
