(* ===== verification/WebhookState.thy ===== *)
theory WebhookState
  imports WebhookProps
begin

text \<open>
  The webhook handler over its tables: pausing and resuming a pull request, the debounce window
  of commands, the life cycle of an installation row, and the length limit of job ids.
\<close>

section \<open>The row of a pull request\<close>

abbreviation onPr :: "int \<Rightarrow> string \<Rightarrow> ReviewStateRow \<Rightarrow> bool" where
  "onPr i pr r \<equiv> sr_installationId r = i \<and> sr_prId r = pr"

text \<open>Ids are unique and determined by installation and pull request.\<close>

definition tableWf :: "ReviewStateRow list \<Rightarrow> bool" where
  "tableWf rows = (distinct (map sr_id rows) \<and>
     (\<forall>r \<in> set rows. sr_id r = idFor \<lparr>lk_installationId = sr_installationId r, lk_prId = sr_prId r\<rparr>))"

lemma mirrorPut_wf:
  assumes "tableWf rows"
  shows "tableWf (mirrorPut w rows)"
proof -
  have "idFor \<lparr>lk_installationId = lk_installationId q, lk_prId = lk_prId q\<rparr> = idFor q" for q :: ReviewStateLookup
    by (simp add: idFor_def)
  then show ?thesis
    using assms mirror.put_unique [of rows w]
    by (auto simp: tableWf_def mirrorPut_def mirrorUpsert_def insertOrUpdate_def split: if_splits)
qed

lemma setPaused_ids: "map sr_id (setPaused p now i pr rows) = map sr_id rows"
  by (simp add: setPaused_def updateWhere_def)

lemma setPaused_wf:
  assumes "tableWf rows"
  shows "tableWf (setPaused p now i pr rows)"
proof -
  have "sr_id r = idFor \<lparr>lk_installationId = sr_installationId r, lk_prId = sr_prId r\<rparr>"
    if "r \<in> set (setPaused p now i pr rows)" for r
    using that assms by (auto simp: tableWf_def setPaused_def updateWhere_def)
  then show ?thesis using assms unfolding tableWf_def setPaused_ids by blast
qed

lemma stateWrites_wf: "tableWf rows \<Longrightarrow> tableWf (fold stateWrite ws rows)"
proof (induction ws arbitrary: rows)
  case (Cons w ws)
  then show ?case by (cases w) (auto simp: mirrorPut_wf setPaused_wf)
qed simp

lemma mirrorPuts_wf: "tableWf rows \<Longrightarrow> tableWf (fold mirrorPut ws rows)"
  by (induction ws arbitrary: rows) (auto simp: mirrorPut_wf)

lemma selectOne_cong: "(\<And>r. r \<in> set rows \<Longrightarrow> P r = Q r) \<Longrightarrow> selectOne P rows = selectOne Q rows"
  by (simp add: selectOne_def cong: filter_cong)

lemma onPr_id:
  "tableWf rows \<Longrightarrow> selectOne (onPr i pr) rows =
     selectOne (\<lambda>r. sr_id r = idFor \<lparr>lk_installationId = i, lk_prId = pr\<rparr>) rows"
  by (rule selectOne_cong) (auto simp: tableWf_def idFor_inject)

lemma select_setPaused:
  "selectOne (onPr i pr) (setPaused p now i pr rows) =
     map_option (\<lambda>r. r\<lparr>sr_paused := p, sr_updatedAt := now\<rparr>) (selectOne (onPr i pr) rows)"
proof -
  let ?f = "\<lambda>r. if onPr i pr r then r\<lparr>sr_paused := p, sr_updatedAt := now\<rparr> else r"
  have "selectOne (onPr i pr) (map ?f rows) = map_option ?f (selectOne (onPr i pr) rows)"
    by (rule selectOne_map) simp
  then show ?thesis
    by (cases "selectOne (onPr i pr) rows") (auto simp: setPaused_def updateWhere_def dest: selectOne_Some)
qed

lemma mirrored_row:
  "fold (\<lambda>w o'. Some (mirrorMerge w o')) ws (Some r) \<noteq> None \<and>
   sr_paused (the (fold (\<lambda>w o'. Some (mirrorMerge w o')) ws (Some r))) = sr_paused r"
proof (induction ws arbitrary: r)
  case (Cons w ws)
  then show ?case using Cons.IH [of "mirrorMerge w (Some r)"] by (simp add: mirrorMerge_def)
qed simp

text \<open>Reviews keep the pause flag of a row.\<close>

lemma mirrorPuts_paused:
  assumes "tableWf rows" "selectOne (onPr i pr) rows = Some r"
  shows "\<exists>r'. selectOne (onPr i pr) (fold mirrorPut ws rows) = Some r' \<and> sr_paused r' = sr_paused r"
proof -
  let ?k = "idFor \<lparr>lk_installationId = i, lk_prId = pr\<rparr>"
  have "selectOne (\<lambda>r. sr_id r = ?k) (fold mirrorPut ws rows) =
      fold (\<lambda>w o'. Some (mirrorMerge w o')) (filter (\<lambda>w. idFor (mw_lookup w) = ?k) ws) (Some r)"
    using mirror.find_writes [of rows ?k ws] assms onPr_id [OF assms(1), of i pr] by (simp add: tableWf_def)
  then show ?thesis
    using mirrored_row [of "filter (\<lambda>w. idFor (mw_lookup w) = ?k) ws" r] onPr_id [OF mirrorPuts_wf [OF assms(1)], of i pr ws]
    by auto
qed

section \<open>Commands and pushes on one pull request\<close>

text \<open>The database works, and the user may issue commands on a well-named pull request.\<close>

definition mayCommand :: "WebhookHandlerDeps \<Rightarrow> int \<Rightarrow> string \<Rightarrow> string \<Rightarrow> int \<Rightarrow> string \<Rightarrow> bool" where
  "mayCommand deps i owner repo n user =
     (owner \<noteq> [] \<and> repo \<noteq> [] \<and> 0 < n \<and> user \<noteq> [] \<and> 0 < i \<and>
      (case wh_db deps of None \<Rightarrow> False | Some db \<Rightarrow> db_readOk db \<and> db_writeOk db) \<and>
      (case wh_checkAuthz deps of None \<Rightarrow> False | Some check \<Rightarrow> is_allowed (check owner repo user)))"

lemma tenantOk_pos: "0 < i \<Longrightarrow> tenantOk i"
  by (auto simp: tenantOk_def intToString_def list_all_iff dest: digitsOf_digits)

lemma commentOn_sel [simp]:
  "ev_installationId (commentOn i owner repo n user t) = Some i" "ev_owner (commentOn i owner repo n user t) = Some owner"
  "ev_repo (commentOn i owner repo n user t) = Some repo" "ev_issueIsPr (commentOn i owner repo n user t)"
  "ev_inReplyToId (commentOn i owner repo n user t) = None" "ev_commentBody (commentOn i owner repo n user t) = Some t"
  "senderOf (commentOn i owner repo n user t) = user" "ev_prNumber (commentOn i owner repo n user t) = None"
  "ev_issueNumber (commentOn i owner repo n user t) = Some n"
  by (simp_all add: commentOn_def emptyBody_def senderOf_def orElse_def orEmpty_def)

lemma pushTo_sel [simp]:
  "ev_installationId (pushTo i owner repo n sha) = Some i" "ev_owner (pushTo i owner repo n sha) = Some owner"
  "ev_repo (pushTo i owner repo n sha) = Some repo" "ev_prNumber (pushTo i owner repo n sha) = Some n"
  "ev_action (pushTo i owner repo n sha) = Some ''synchronize''" "\<not> ev_draft (pushTo i owner repo n sha)"
  "ev_title (pushTo i owner repo n sha) = None" "ev_prBody (pushTo i owner repo n sha) = None"
  "ev_labels (pushTo i owner repo n sha) = None"
  by (simp_all add: pushTo_def emptyBody_def)

lemma mayCommand_prId: "mayCommand deps i owner repo n user \<Longrightarrow> buildPrId (commentOn i owner repo n user t) = Some (prIdText owner repo n)"
  by (simp add: mayCommand_def buildPrId_def orElse_def)

lemma mayCommand_allowed:
  "mayCommand deps i owner repo n user \<Longrightarrow> is_allowed (checkCommandAuthz (commentOn i owner repo n user t) deps)"
  by (auto simp: mayCommand_def checkCommandAuthz_def split: option.splits)

lemma slash_comment:
  assumes "parseFeedbackCommand t = None" "parseSlashCommand t = Some slash" "mayCommand deps i owner repo n user"
  shows "handleWebhook ''issue_comment'' (commentOn i owner repo n user t) deps s =
    handleSlashCommand slash (commentOn i owner repo n user t) deps (wh_now deps 0) s"
  using assms by (simp add: handleWebhook_def handleComment_def handleCommandText_def orEmpty_def split: option.splits)

lemma command_words:
  "parseFeedbackCommand ''/skip'' = None" "parseSlashCommand ''/skip'' = Some SlashSkip"
  "parseFeedbackCommand ''/resume'' = None" "parseSlashCommand ''/resume'' = Some SlashResume"
  "parseFeedbackCommand ''/review'' = None" "parseSlashCommand ''/review'' = Some (SlashReview None)"
  by code_simp+

lemma pauseCommand_on:
  assumes "mayCommand deps i owner repo n user"
  shows "pauseCommand p reason (commentOn i owner repo n user t) deps now s =
    (Inr (Noop reason), s\<lparr>ss_reviewState := setPaused p now i (prIdText owner repo n) (ss_reviewState s)\<rparr>)"
  using assms mayCommand_prId [OF assms, of t] tenantOk_pos [of i]
  by (auto simp: pauseCommand_def mayCommand_def withTenant_def split: option.splits)

lemma skip_on:
  "mayCommand deps i owner repo n user \<Longrightarrow> handleWebhook ''issue_comment'' (commentOn i owner repo n user ''/skip'') deps s =
    (Inr (Noop ''PR paused (skip)''), s\<lparr>ss_reviewState := setPaused True (wh_now deps 0) i (prIdText owner repo n) (ss_reviewState s)\<rparr>)"
  by (simp add: slash_comment [OF command_words(1,2)] handleSlashCommand_def mayCommand_allowed pauseCommand_on)

lemma resume_on:
  "mayCommand deps i owner repo n user \<Longrightarrow> handleWebhook ''issue_comment'' (commentOn i owner repo n user ''/resume'') deps s =
    (Inr (Noop ''PR resumed''), s\<lparr>ss_reviewState := setPaused False (wh_now deps 0) i (prIdText owner repo n) (ss_reviewState s)\<rparr>)"
  by (simp add: slash_comment [OF command_words(3,4)] handleSlashCommand_def mayCommand_allowed pauseCommand_on)

lemma no_marker: "\<not> hasSkipMarker []"
  by code_simp

lemma push_on:
  "handleWebhook ''pull_request'' (pushTo i owner repo n sha) deps s =
    (if pausedPr deps (pushTo i owner repo n sha) (ss_reviewState s) then (Inr (Ignored ''PR is paused (skip)''), s)
     else enqueueJob deps (buildJobMessage (pushTo i owner repo n sha) TrigSynchronize (wh_now deps 0)) s)"
  by (auto simp: handleWebhook_def handlePullRequest_def PUSH_TRIGGERED_ACTIONS_def ENQUEUE_PR_ACTIONS_def no_marker
      hasSkipLabel_def list_ex_iff orEmpty_def prTrigger_def split: option.splits)

lemma readRow:
  "db_readOk db \<Longrightarrow> 0 < i \<Longrightarrow> readReviewStateRow db i pr rows = selectOne (onPr i pr) rows"
  by (simp add: readReviewStateRow_def withTenant_def tenantOk_pos)

lemma paused_on:
  assumes "mayCommand deps i owner repo n user"
  shows "pausedPr deps (pushTo i owner repo n sha) rows =
    (case selectOne (onPr i (prIdText owner repo n)) rows of None \<Rightarrow> False | Some r \<Rightarrow> sr_paused r)"
  using assms by (auto simp: pausedPr_def mayCommand_def readPausedState_def readRow split: option.splits)

text \<open>C20: \<open>/skip\<close> holds until \<open>/resume\<close>: on a pull request that has been reviewed, once an authorised
  user says \<open>/skip\<close>, a push is ignored and changes nothing, however many reviews of this or other
  pull requests are stored in between; once the user says \<open>/resume\<close>, the push is reviewed.\<close>

theorem skip_holds_until_resume:
  assumes "mayCommand deps i owner repo n user"
    "ss_reviewState s = fold stateWrite history []"
    "selectOne (onPr i (prIdText owner repo n)) (ss_reviewState s) \<noteq> None"
    "queueTakes deps (buildJobMessage (pushTo i owner repo n sha) TrigSynchronize (wh_now deps 0))"
  shows "let skipped = snd (handleWebhook ''issue_comment'' (commentOn i owner repo n user ''/skip'') deps s);
             later = skipped\<lparr>ss_reviewState := fold mirrorPut reviews (ss_reviewState skipped)\<rparr>;
             resumed = snd (handleWebhook ''issue_comment'' (commentOn i owner repo n user ''/resume'') deps later)
         in handleWebhook ''pull_request'' (pushTo i owner repo n sha) deps later = (Inr (Ignored ''PR is paused (skip)''), later) \<and>
            enqueued (fst (handleWebhook ''pull_request'' (pushTo i owner repo n sha) deps resumed))"
proof -
  let ?pr = "prIdText owner repo n"
  let ?rows = "setPaused True (wh_now deps 0) i ?pr (ss_reviewState s)"
  have wf: "tableWf ?rows"
    unfolding assms(2) by (intro setPaused_wf stateWrites_wf) (simp add: tableWf_def)
  obtain r where "selectOne (onPr i ?pr) ?rows = Some r" "sr_paused r"
    using assms(3) by (auto simp: select_setPaused)
  then obtain r' where r': "selectOne (onPr i ?pr) (fold mirrorPut reviews ?rows) = Some r'" "sr_paused r'"
    using mirrorPuts_paused [OF wf, of i ?pr r reviews] by auto
  define later where "later = s\<lparr>ss_reviewState := fold mirrorPut reviews ?rows\<rparr>"
  define resumed where "resumed = later\<lparr>ss_reviewState := setPaused False (wh_now deps 0) i ?pr (ss_reviewState later)\<rparr>"
  have "pausedPr deps (pushTo i owner repo n sha) (ss_reviewState later)"
    unfolding paused_on [OF assms(1)] using r' by (simp add: later_def)
  then have push: "handleWebhook ''pull_request'' (pushTo i owner repo n sha) deps later = (Inr (Ignored ''PR is paused (skip)''), later)"
    unfolding push_on by simp
  have "\<not> pausedPr deps (pushTo i owner repo n sha) (ss_reviewState resumed)"
    unfolding paused_on [OF assms(1)] using r' by (simp add: resumed_def later_def select_setPaused)
  then have go: "enqueued (fst (handleWebhook ''pull_request'' (pushTo i owner repo n sha) deps resumed))"
    unfolding push_on using enqueueJob_exact assms(4) by simp
  have steps: "snd (handleWebhook ''issue_comment'' (commentOn i owner repo n user ''/skip'') deps s) = s\<lparr>ss_reviewState := ?rows\<rparr>"
    "snd (handleWebhook ''issue_comment'' (commentOn i owner repo n user ''/resume'') deps later) = resumed"
    unfolding skip_on [OF assms(1)] resume_on [OF assms(1)] resumed_def by simp_all
  have "(s\<lparr>ss_reviewState := ?rows\<rparr>)\<lparr>ss_reviewState := fold mirrorPut reviews (ss_reviewState (s\<lparr>ss_reviewState := ?rows\<rparr>))\<rparr> = later"
    by (simp add: later_def)
  then show ?thesis unfolding Let_def steps(1) by (simp only: steps(2) push go simp_thms)
qed

definition sampleReview :: MirrorWrite where
  "sampleReview = \<lparr>mw_dbNow = 0, mw_now = 5, mw_lookup = \<lparr>lk_installationId = 7, lk_prId = ''o/r#1''\<rparr>, mw_headSha = ''abcdef0'',
     mw_state = \<lparr>rs_schemaVersion = 1, rs_lastReviewedSha = ''abcdef0'', rs_baseSha = ''0'', rs_reviewedAt = ''t'',
       rs_modelUsed = ''m'', rs_totalTokens = 0, rs_totalCostUsd = 0, rs_commentFingerprints = []\<rparr>\<rparr>"

definition reviewedServer :: ServerState where
  "reviewedServer = emptyServer\<lparr>ss_reviewState := fold stateWrite [Mirrored sampleReview] []\<rparr>"

lemma sample_may: "mayCommand sampleWebhookDeps 7 ''o'' ''r'' 1 ''alice''"
  by code_simp

lemma sample_row: "selectOne (onPr 7 (prIdText ''o'' ''r'' 1)) (ss_reviewState reviewedServer) \<noteq> None"
  by code_simp

lemma sample_takes:
  "queueTakes sampleWebhookDeps (buildJobMessage (pushTo 7 ''o'' ''r'' 1 ''1234567'') TrigSynchronize (wh_now sampleWebhookDeps 0))"
  by code_simp

lemma skip_holds_until_resume_witness:
  "let skipped = snd (handleWebhook ''issue_comment'' (commentOn 7 ''o'' ''r'' 1 ''alice'' ''/skip'') sampleWebhookDeps reviewedServer);
       later = skipped\<lparr>ss_reviewState := fold mirrorPut [sampleReview] (ss_reviewState skipped)\<rparr>;
       resumed = snd (handleWebhook ''issue_comment'' (commentOn 7 ''o'' ''r'' 1 ''alice'' ''/resume'') sampleWebhookDeps later)
   in handleWebhook ''pull_request'' (pushTo 7 ''o'' ''r'' 1 ''1234567'') sampleWebhookDeps later = (Inr (Ignored ''PR is paused (skip)''), later) \<and>
      enqueued (fst (handleWebhook ''pull_request'' (pushTo 7 ''o'' ''r'' 1 ''1234567'') sampleWebhookDeps resumed))"
  by (rule skip_holds_until_resume [OF sample_may _ sample_row sample_takes, of "[Mirrored sampleReview]"])
    (simp add: reviewedServer_def)

lemma setPaused_absent: "selectOne (onPr i pr) rows = None \<Longrightarrow> setPaused p now i pr rows = rows"
  unfolding setPaused_def updateWhere_def selectOne_None by (rule map_idI) auto

text \<open>\<open>/skip\<close> on a pull request that has not been reviewed yet does nothing: it is answered as
  paused, but no table changes, and the next push is reviewed.\<close>

theorem skip_before_review_ineffective:
  assumes "mayCommand deps i owner repo n user"
    "selectOne (onPr i (prIdText owner repo n)) (ss_reviewState s) = None"
    "queueTakes deps (buildJobMessage (pushTo i owner repo n sha) TrigSynchronize (wh_now deps 0))"
  shows "handleWebhook ''issue_comment'' (commentOn i owner repo n user ''/skip'') deps s = (Inr (Noop ''PR paused (skip)''), s) \<and>
    enqueued (fst (handleWebhook ''pull_request'' (pushTo i owner repo n sha) deps s))"
proof -
  have "\<not> pausedPr deps (pushTo i owner repo n sha) (ss_reviewState s)"
    unfolding paused_on [OF assms(1)] assms(2) by simp
  then have "enqueued (fst (handleWebhook ''pull_request'' (pushTo i owner repo n sha) deps s))"
    unfolding push_on using enqueueJob_exact assms(3) by simp
  moreover have "s\<lparr>ss_reviewState := ss_reviewState s\<rparr> = s" by simp
  ultimately show ?thesis unfolding skip_on [OF assms(1)] setPaused_absent [OF assms(2)] by metis
qed

lemma skip_before_review_ineffective_witness:
  "handleWebhook ''issue_comment'' (commentOn 7 ''o'' ''r'' 1 ''alice'' ''/skip'') sampleWebhookDeps emptyServer =
     (Inr (Noop ''PR paused (skip)''), emptyServer) \<and>
   enqueued (fst (handleWebhook ''pull_request'' (pushTo 7 ''o'' ''r'' 1 ''1234567'') sampleWebhookDeps emptyServer))"
  by (rule skip_before_review_ineffective [OF sample_may _ sample_takes]) (simp add: emptyServer_def selectOne_def)

section \<open>The debounce window of commands\<close>

text \<open>A \<open>/review\<close> that follows \<open>/resume\<close> within the debounce window is dropped: the resume
  stamps the row that the debounce reads as the time of the last review, so an explicit request is
  answered as already in flight although no review ran.\<close>

theorem review_after_resume_debounced:
  assumes "mayCommand deps i owner repo n user" "wh_debounceMs deps = None"
    "selectOne (onPr i (prIdText owner repo n)) (ss_reviewState s) \<noteq> None" "t < wh_now deps 0 + DEFAULT_DEBOUNCE_MS"
  shows "let resumed = snd (handleWebhook ''issue_comment'' (commentOn i owner repo n user ''/resume'') deps s)
    in handleWebhook ''issue_comment'' (commentOn i owner repo n user ''/review'') (deps\<lparr>wh_now := (\<lambda>_. t)\<rparr>) resumed =
         (Inr (Ignored ''debounced: review already in flight''), resumed)"
proof -
  let ?pr = "prIdText owner repo n" and ?deps = "deps\<lparr>wh_now := (\<lambda>_. t)\<rparr>"
  let ?rows = "setPaused False (wh_now deps 0) i ?pr (ss_reviewState s)"
  let ?ce = "commentOn i owner repo n user ''/review''"
  have may: "mayCommand ?deps i owner repo n user" using assms(1) by (simp add: mayCommand_def)
  obtain r where row: "selectOne (onPr i ?pr) ?rows = Some r" "sr_updatedAt r = wh_now deps 0"
    using assms(3) by (auto simp: select_setPaused)
  obtain db where db: "wh_db deps = Some db" "db_readOk db" and i: "0 < i"
    using assms(1) by (auto simp: mayCommand_def split: option.splits)
  have "checkDebounce ?ce ?deps t ?rows"
    unfolding checkDebounce_def mayCommand_prId [OF may] using assms(2,4) db i row by (simp add: readRow)
  then have "handleWebhook ''issue_comment'' ?ce ?deps (s\<lparr>ss_reviewState := ?rows\<rparr>) =
      (Inr (Ignored ''debounced: review already in flight''), s\<lparr>ss_reviewState := ?rows\<rparr>)"
    unfolding slash_comment [OF command_words(5,6) may] handleSlashCommand_def
    using mayCommand_allowed [OF may] by simp
  then show ?thesis unfolding resume_on [OF assms(1)] Let_def snd_conv .
qed

lemma review_after_resume_debounced_witness:
  "let resumed = snd (handleWebhook ''issue_comment'' (commentOn 7 ''o'' ''r'' 1 ''alice'' ''/resume'') sampleWebhookDeps reviewedServer)
    in handleWebhook ''issue_comment'' (commentOn 7 ''o'' ''r'' 1 ''alice'' ''/review'') (sampleWebhookDeps\<lparr>wh_now := (\<lambda>_. 29999)\<rparr>) resumed =
         (Inr (Ignored ''debounced: review already in flight''), resumed)"
  by (rule review_after_resume_debounced [OF sample_may _ sample_row])
    (simp_all add: sampleWebhookDeps_def DEFAULT_DEBOUNCE_MS_def)

section \<open>The length of a job id\<close>

text \<open>A push to a repository with a long name is never reviewed: when owner, name, number and
  time stamp do not fit the 128 characters the schema allows for the job id, the handler throws
  and nothing is queued, although owner and name are within the limits of the same schema.\<close>

theorem long_names_never_reviewed:
  assumes "125 < length owner + length repo + length (intToString n) + length (intToString (wh_now deps 0))"
    "owner \<noteq> []" "repo \<noteq> []" "n \<noteq> 0" "i \<noteq> 0" "\<not> pausedPr deps (pushTo i owner repo n sha) (ss_reviewState s)"
  shows "handleWebhook ''pull_request'' (pushTo i owner repo n sha) deps s = (Inl ''invalid job message'', s)"
proof -
  let ?m = "the (buildJobMessage (pushTo i owner repo n sha) TrigSynchronize (wh_now deps 0))"
  have m: "buildJobMessage (pushTo i owner repo n sha) TrigSynchronize (wh_now deps 0) = Some ?m"
    "jm_jobId ?m = prIdText owner repo n @ ''@'' @ intToString (wh_now deps 0)"
    using assms(2-5) by (simp_all add: buildJobMessage_def buildJobMessageWithScope_def Let_def orElse_def)
  have "\<not> jobMessageOk (wh_isDatetime deps) ?m"
    using assms(1) by (simp add: jobMessageOk_def m(2) lengthWithin_def prIdText_def)
  moreover have "s\<lparr>ss_queue := ss_queue s\<rparr> = s" by simp
  ultimately show ?thesis
    unfolding push_on using assms(6) by (subst m(1)) (simp add: enqueueJob_def sqsEnqueue_def)
qed

definition longOwner :: string where "longOwner = replicate 39 (CHR ''o'')"
definition longRepo :: string where "longRepo = replicate 90 (CHR ''r'')"

lemma long_names_never_reviewed_witness:
  "handleWebhook ''pull_request'' (pushTo 7 longOwner longRepo 1 ''1234567'') sampleWebhookDeps emptyServer =
     (Inl ''invalid job message'', emptyServer) \<and> lengthWithin 1 200 longOwner \<and> lengthWithin 1 200 longRepo"
proof -
  have "\<not> pausedPr sampleWebhookDeps (pushTo 7 longOwner longRepo 1 ''1234567'') (ss_reviewState emptyServer)"
    by (simp add: pausedPr_def sampleWebhookDeps_def emptyServer_def readPausedState_def readRow selectOne_def)
  then show ?thesis
    using long_names_never_reviewed [of longOwner longRepo 1 sampleWebhookDeps 7 "''1234567''" emptyServer]
    by (simp add: longOwner_def longRepo_def lengthWithin_def)
qed

end
