(* ===== verification/SnsSignature.thy ===== *)
theory SnsSignature
  imports Regex Retry "HOL-Library.Monad_Syntax"
begin

text \<open>
  The SNS signature middleware, \<open>server/src/middleware/verify-sns-signature.ts\<close>: the string
  to sign, the allowlist of certificate hosts, the certificate cache (a JavaScript \<open>Map\<close>, so
  an association list in insertion order) and the verification itself.  The URL parser, the
  certificate fetch and the signature check are parameters.
\<close>

section \<open>Messages\<close>

datatype SnsMessageType = Notification | SubscriptionConfirmation | UnsubscribeConfirmation

datatype SignatureVersion = SigV1 | SigV2

record SnsMessage =
  sns_Type :: SnsMessageType
  sns_MessageId :: string
  sns_TopicArn :: string
  sns_Timestamp :: string
  sns_Signature :: string
  sns_SignatureVersion :: SignatureVersion
  sns_SigningCertURL :: string
  sns_Message :: "string option"
  sns_Subject :: "string option"
  sns_Token :: "string option"
  sns_SubscribeURL :: "string option"

fun snsTypeName :: "SnsMessageType \<Rightarrow> string" where
  "snsTypeName Notification = ''Notification''"
| "snsTypeName SubscriptionConfirmation = ''SubscriptionConfirmation''"
| "snsTypeName UnsubscribeConfirmation = ''UnsubscribeConfirmation''"

text \<open>The key and value lines of the fields a type signs, absent fields left out.\<close>

definition signedFields :: "SnsMessage \<Rightarrow> (string \<times> string option) list" where
  "signedFields msg =
     (case sns_Type msg of
        Notification \<Rightarrow>
          (if sns_Subject msg \<noteq> None
           then [(''Message'', sns_Message msg), (''MessageId'', Some (sns_MessageId msg)), (''Subject'', sns_Subject msg),
                 (''Timestamp'', Some (sns_Timestamp msg)), (''TopicArn'', Some (sns_TopicArn msg)),
                 (''Type'', Some (snsTypeName (sns_Type msg)))]
           else [(''Message'', sns_Message msg), (''MessageId'', Some (sns_MessageId msg)),
                 (''Timestamp'', Some (sns_Timestamp msg)), (''TopicArn'', Some (sns_TopicArn msg)),
                 (''Type'', Some (snsTypeName (sns_Type msg)))])
      | _ \<Rightarrow> [(''Message'', sns_Message msg), (''MessageId'', Some (sns_MessageId msg)), (''SubscribeURL'', sns_SubscribeURL msg),
               (''Timestamp'', Some (sns_Timestamp msg)), (''Token'', sns_Token msg), (''TopicArn'', Some (sns_TopicArn msg)),
               (''Type'', Some (snsTypeName (sns_Type msg)))])"

definition buildSnsCanonicalString :: "SnsMessage \<Rightarrow> string" where
  "buildSnsCanonicalString msg =
     concat (map (\<lambda>(k, v). case v of None \<Rightarrow> [] | Some t \<Rightarrow> k @ [LF] @ t @ [LF]) (signedFields msg))"

section \<open>The certificate cache\<close>

record CertCacheEntry =
  cc_pem :: string
  cc_expiresAt :: int

type_synonym CertCache = "(string \<times> CertCacheEntry) list"

definition CERT_CACHE_TTL_MS :: int where "CERT_CACHE_TTL_MS = 24 * 60 * 60 * 1000"
definition CERT_CACHE_MAX_ENTRIES :: nat where "CERT_CACHE_MAX_ENTRIES = 64"

text \<open>\<open>Map.delete\<close> and \<open>Map.set\<close>: setting an existing key keeps its place.\<close>

definition mapDelete :: "string \<Rightarrow> CertCache \<Rightarrow> CertCache" where
  "mapDelete k cache = filter (\<lambda>e. fst e \<noteq> k) cache"

definition mapSet :: "string \<Rightarrow> CertCacheEntry \<Rightarrow> CertCache \<Rightarrow> CertCache" where
  "mapSet k v cache =
     (if k \<in> fst ` set cache then map (\<lambda>e. if fst e = k then (k, v) else e) cache else cache @ [(k, v)])"

definition getCachedCert :: "int \<Rightarrow> string \<Rightarrow> CertCache \<Rightarrow> string option \<times> CertCache" where
  "getCachedCert nowMs url cache =
     (case map_of cache url of
        None \<Rightarrow> (None, cache)
      | Some hit \<Rightarrow>
          if cc_expiresAt hit \<le> nowMs then (None, mapDelete url cache)
          else (Some (cc_pem hit), mapSet url hit (mapDelete url cache)))"

definition setCachedCert :: "int \<Rightarrow> string \<Rightarrow> string \<Rightarrow> CertCache \<Rightarrow> CertCache" where
  "setCachedCert nowMs url pem cache =
     (let evicted = (if CERT_CACHE_MAX_ENTRIES \<le> length cache \<and> url \<notin> fst ` set cache then tl cache else cache)
      in mapSet url \<lparr>cc_pem = pem, cc_expiresAt = nowMs + CERT_CACHE_TTL_MS\<rparr> evicted)"

section \<open>Verification\<close>

text \<open>\<open>/^sns\.[a-z0-9-]+\.amazonaws\.com$/\<close>.\<close>

definition DEFAULT_CERT_HOST_PATTERN :: rx where
  "DEFAULT_CERT_HOST_PATTERN =
     Seq Bol (Seq (rx_seq [rx_str ''sns.'', rx_plus (Cls False [(97, 122), (48, 57), (45, 45)]), rx_str ''.amazonaws.com'']) Eol)"

record VerifyParams =
  vp_canonical :: string
  vp_signatureBase64 :: string
  vp_signatureVersion :: SignatureVersion
  vp_certificatePem :: string

text \<open>
  \<open>sv_parseUrl\<close> gives protocol and host name; \<open>sv_fetchCert\<close> may throw; the cache reads its
  own clock at the lookup and at the store.
\<close>

record VerifySnsSignatureOpts =
  sv_parseUrl :: "string \<Rightarrow> (string \<times> string) option"
  sv_fetchCert :: "string \<Rightarrow> string result"
  sv_verifySignature :: "VerifyParams \<Rightarrow> bool"
  sv_allowedCertHostPattern :: "rx option"
  sv_nowMs :: int

definition verifySnsMessage :: "VerifySnsSignatureOpts \<Rightarrow> SnsMessage \<Rightarrow> CertCache \<Rightarrow> bool result \<times> CertCache" where
  "verifySnsMessage opts msg cache =
     (let pattern = (case sv_allowedCertHostPattern opts of None \<Rightarrow> DEFAULT_CERT_HOST_PATTERN | Some p \<Rightarrow> p);
          verify = (\<lambda>cert. sv_verifySignature opts \<lparr>vp_canonical = buildSnsCanonicalString msg,
             vp_signatureBase64 = sns_Signature msg, vp_signatureVersion = sns_SignatureVersion msg, vp_certificatePem = cert\<rparr>)
      in case sv_parseUrl opts (sns_SigningCertURL msg) of
           None \<Rightarrow> (Inr False, cache)
         | Some (protocol, hostname) \<Rightarrow>
             if protocol \<noteq> ''https:'' then (Inr False, cache)
             else if \<not> rx_test pattern hostname then (Inr False, cache)
             else (case getCachedCert (sv_nowMs opts) (sns_SigningCertURL msg) cache of
                     (Some cert, cache') \<Rightarrow> (Inr (verify cert), cache')
                   | (None, cache') \<Rightarrow>
                       (case sv_fetchCert opts (sns_SigningCertURL msg) of
                          Inl e \<Rightarrow> (Inl e, cache')
                        | Inr cert \<Rightarrow> (Inr (verify cert), setCachedCert (sv_nowMs opts) (sns_SigningCertURL msg) cert cache'))))"

text \<open>
  The shape check of the middleware: the required members are strings and the type and version
  are known ones.  An optional member that is not a string is taken as absent.
\<close>

definition stringMember :: "json \<Rightarrow> string \<Rightarrow> string option" where
  "stringMember obj k = (case jsonMember obj k of Some (JStr s) \<Rightarrow> Some s | _ \<Rightarrow> None)"

definition snsTypeOf :: "string \<Rightarrow> SnsMessageType option" where
  "snsTypeOf t = List.find (\<lambda>ty. snsTypeName ty = t) [Notification, SubscriptionConfirmation, UnsubscribeConfirmation]"

definition signatureVersionOf :: "string \<Rightarrow> SignatureVersion option" where
  "signatureVersionOf v = (if v = ''1'' then Some SigV1 else if v = ''2'' then Some SigV2 else None)"

definition snsEnvelope :: "json \<Rightarrow> SnsMessage option" where
  "snsEnvelope obj = do {
     t \<leftarrow> stringMember obj ''Type'';
     messageId \<leftarrow> stringMember obj ''MessageId'';
     topicArn \<leftarrow> stringMember obj ''TopicArn'';
     timestamp \<leftarrow> stringMember obj ''Timestamp'';
     signature \<leftarrow> stringMember obj ''Signature'';
     certUrl \<leftarrow> stringMember obj ''SigningCertURL'';
     ty \<leftarrow> snsTypeOf t;
     version \<leftarrow> stringMember obj ''SignatureVersion'' \<bind> signatureVersionOf;
     Some \<lparr>sns_Type = ty, sns_MessageId = messageId, sns_TopicArn = topicArn, sns_Timestamp = timestamp,
       sns_Signature = signature, sns_SignatureVersion = version, sns_SigningCertURL = certUrl,
       sns_Message = stringMember obj ''Message'', sns_Subject = stringMember obj ''Subject'',
       sns_Token = stringMember obj ''Token'', sns_SubscribeURL = stringMember obj ''SubscribeURL''\<rparr> }"

text \<open>The middleware: an envelope that does not parse is 400, a failed or thrown check is 401.\<close>

datatype SnsVerdict = BadRequest | UnauthorizedSns | Verified SnsMessage

definition verifySnsSignature :: "VerifySnsSignatureOpts \<Rightarrow> (string \<Rightarrow> json option) \<Rightarrow> string \<Rightarrow> CertCache \<Rightarrow> SnsVerdict \<times> CertCache" where
  "verifySnsSignature opts parseJson raw cache =
     (case parseJson raw \<bind> snsEnvelope of
        None \<Rightarrow> (BadRequest, cache)
      | Some msg \<Rightarrow>
          (case verifySnsMessage opts msg cache of
             (Inr ok, cache') \<Rightarrow> (if ok then Verified msg else UnauthorizedSns, cache')
           | (Inl _, cache') \<Rightarrow> (UnauthorizedSns, cache')))"

section \<open>What a verified message is\<close>

lemma plus_cls_lang: "rx_lang (rx_plus (Cls neg rs)) w \<longleftrightarrow> w \<noteq> [] \<and> (\<forall>c \<in> set w. in_cls neg rs c)"
  unfolding rx_lang.simps(5,7,4) star_cls by (cases w) auto

definition regionChar :: "char \<Rightarrow> bool" where
  "regionChar c = (let n = of_char c :: nat in (97 \<le> n \<and> n \<le> 122) \<or> (48 \<le> n \<and> n \<le> 57) \<or> n = 45)"

lemma regionChar_cls: "in_cls False [(97, 122), (48, 57), (45, 45)] c = regionChar c"
  by (auto simp: in_cls_def regionChar_def Let_def)

lemma certHost_shape:
  "rx_test DEFAULT_CERT_HOST_PATTERN host \<longleftrightarrow>
     (\<exists>region. host = ''sns.'' @ region @ ''.amazonaws.com'' \<and> region \<noteq> [] \<and> list_all regionChar region)"
proof -
  have "rx_test DEFAULT_CERT_HOST_PATTERN host \<longleftrightarrow>
     rx_lang (rx_seq [rx_str ''sns.'', rx_plus (Cls False [(97, 122), (48, 57), (45, 45)]), rx_str ''.amazonaws.com'']) host"
    unfolding DEFAULT_CERT_HOST_PATTERN_def by (rule rx_test_anchored) simp
  also have "\<dots> \<longleftrightarrow> (\<exists>u v. host = u @ v \<and> u = ''sns.'' \<and>
      (\<exists>x y. v = x @ y \<and> (x \<noteq> [] \<and> (\<forall>c \<in> set x. in_cls False [(97, 122), (48, 57), (45, 45)] c)) \<and>
        (\<exists>y1 y2. y = y1 @ y2 \<and> y1 = ''.amazonaws.com'' \<and> y2 = [])))"
    unfolding rx_seq.simps rx_lang.simps(5) [of "rx_str _"] rx_lang.simps(5) [of "rx_plus _"]
      plus_cls_lang rx_lang_str rx_lang.simps(1) ..
  finally show ?thesis by (auto simp: list_all_iff regionChar_cls)
qed

text \<open>Entries are at most 64, under distinct URLs, and each was fetched from its URL.\<close>

definition certCacheOk :: "(string \<Rightarrow> string \<Rightarrow> bool) \<Rightarrow> CertCache \<Rightarrow> bool" where
  "certCacheOk fetched cache =
     (length cache \<le> CERT_CACHE_MAX_ENTRIES \<and> distinct (map fst cache) \<and>
      list_all (\<lambda>e. fetched (fst e) (cc_pem (snd e))) cache)"

lemma mapDelete_ok: "certCacheOk F cache \<Longrightarrow> certCacheOk F (mapDelete k cache)"
  by (auto simp: certCacheOk_def mapDelete_def list_all_iff distinct_map_filter intro: le_trans [OF length_filter_le])

lemma mapSet_keys: "k \<in> fst ` set cache \<Longrightarrow> map fst (mapSet k v cache) = map fst cache"
  by (auto simp: mapSet_def)

lemma mapSet_ok:
  assumes "certCacheOk F cache" "F k (cc_pem v)" "k \<in> fst ` set cache \<or> length cache < CERT_CACHE_MAX_ENTRIES"
  shows "certCacheOk F (mapSet k v cache)"
proof (cases "k \<in> fst ` set cache")
  case True
  then have "distinct (map fst (mapSet k v cache))" using assms(1) mapSet_keys [OF True, of v] by (simp add: certCacheOk_def)
  then show ?thesis using assms True by (auto simp: certCacheOk_def mapSet_def list_all_iff)
next
  case False
  then show ?thesis using assms by (auto simp: certCacheOk_def mapSet_def)
qed

lemma setCachedCert_ok:
  assumes "certCacheOk F cache" "F url pem"
  shows "certCacheOk F (setCachedCert now url pem cache)"
proof (cases "CERT_CACHE_MAX_ENTRIES \<le> length cache \<and> url \<notin> fst ` set cache")
  case True
  then obtain e rest where e: "cache = e # rest" by (cases cache) (auto simp: CERT_CACHE_MAX_ENTRIES_def)
  have "certCacheOk F rest \<and> length rest < CERT_CACHE_MAX_ENTRIES" using assms(1) by (auto simp: certCacheOk_def e)
  then show ?thesis using True assms(2) by (auto simp: setCachedCert_def e intro!: mapSet_ok)
next
  case False
  then show ?thesis using assms by (auto simp: setCachedCert_def intro!: mapSet_ok)
qed

lemma getCachedCert_ok:
  assumes "certCacheOk F cache" "getCachedCert now url cache = (r, cache')"
  shows "certCacheOk F cache' \<and> (\<forall>pem. r = Some pem \<longrightarrow> F url pem)"
proof (cases "map_of cache url")
  case (Some hit)
  then have mem: "(url, hit) \<in> set cache" by (rule map_of_SomeD)
  then have F: "F url (cc_pem hit)" using assms(1) by (auto simp: certCacheOk_def list_all_iff)
  have "length (mapDelete url cache) < length cache"
    unfolding mapDelete_def using mem by (intro length_filter_less) auto
  then have "length (mapDelete url cache) < CERT_CACHE_MAX_ENTRIES" using assms(1) by (simp add: certCacheOk_def)
  then have "certCacheOk F (mapSet url hit (mapDelete url cache))"
    using mapDelete_ok [OF assms(1)] F by (intro mapSet_ok) auto
  then show ?thesis using assms Some F mapDelete_ok [OF assms(1)] by (auto simp: getCachedCert_def split: if_splits)
qed (use assms in \<open>auto simp: getCachedCert_def\<close>)

text \<open>The message is signed under a certificate of its URL, which passes the host pattern.\<close>

definition verifiedBy :: "(string \<Rightarrow> string \<Rightarrow> bool) \<Rightarrow> VerifySnsSignatureOpts \<Rightarrow> SnsMessage \<Rightarrow> bool" where
  "verifiedBy F opts msg =
     (\<exists>host cert. sv_parseUrl opts (sns_SigningCertURL msg) = Some (''https:'', host) \<and>
       rx_test (case sv_allowedCertHostPattern opts of None \<Rightarrow> DEFAULT_CERT_HOST_PATTERN | Some p \<Rightarrow> p) host \<and>
       F (sns_SigningCertURL msg) cert \<and>
       sv_verifySignature opts \<lparr>vp_canonical = buildSnsCanonicalString msg, vp_signatureBase64 = sns_Signature msg,
         vp_signatureVersion = sns_SignatureVersion msg, vp_certificatePem = cert\<rparr>)"

lemma verifySnsMessage_ok:
  assumes "certCacheOk F cache" "\<And>u pem. sv_fetchCert opts u = Inr pem \<Longrightarrow> F u pem"
    "verifySnsMessage opts msg cache = (r, cache')"
  shows "certCacheOk F cache' \<and>
    (r = Inr True \<longrightarrow> verifiedBy F opts msg)"
proof -
  obtain hit c where g: "getCachedCert (sv_nowMs opts) (sns_SigningCertURL msg) cache = (hit, c)" by fastforce
  note ok = getCachedCert_ok [OF assms(1) g]
  show ?thesis
  proof (cases hit)
    case (Some cert)
    then show ?thesis using assms(1,3) ok g
      by (auto simp: verifiedBy_def verifySnsMessage_def Let_def split: option.splits if_splits)
  next
    case None
    then show ?thesis
    proof (cases "sv_fetchCert opts (sns_SigningCertURL msg)")
      case (Inr cert)
      then have "F (sns_SigningCertURL msg) cert" by (rule assms(2))
      then show ?thesis
        using assms(1,3) ok g None Inr setCachedCert_ok [of F c "sns_SigningCertURL msg" cert "sv_nowMs opts"]
        by (auto simp: verifiedBy_def verifySnsMessage_def Let_def split: option.splits if_splits)
    qed (use assms(1,3) ok g in \<open>auto simp: verifiedBy_def verifySnsMessage_def Let_def split: option.splits if_splits\<close>)
  qed
qed

text \<open>What the middleware's answer to one request rests on: the certificate it checked the signature
  with was in the cache or is what the fetch of its URL returned.\<close>

lemma getCachedCert_hit: "getCachedCert now url cache = (Some pem, cache') \<Longrightarrow> \<exists>e. map_of cache url = Some e \<and> pem = cc_pem e"
  by (auto simp: getCachedCert_def split: option.splits if_splits)

lemma verifySnsSignature_verified:
  assumes "verifySnsSignature opts parseJson raw cache = (Verified msg, cache')"
  shows "\<exists>j. parseJson raw = Some j \<and> snsEnvelope j = Some msg \<and>
    verifiedBy (\<lambda>url pem. sv_fetchCert opts url = Inr pem \<or> (\<exists>e. map_of cache url = Some e \<and> pem = cc_pem e)) opts msg"
proof -
  obtain j where j: "parseJson raw = Some j" "snsEnvelope j = Some msg" and v: "verifySnsMessage opts msg cache = (Inr True, cache')"
    using assms by (auto simp: verifySnsSignature_def bind_eq_Some_conv split: option.splits prod.splits sum.splits if_splits)
  obtain hit c where g: "getCachedCert (sv_nowMs opts) (sns_SigningCertURL msg) cache = (hit, c)" by fastforce
  have "verifiedBy (\<lambda>url pem. sv_fetchCert opts url = Inr pem \<or> (\<exists>e. map_of cache url = Some e \<and> pem = cc_pem e)) opts msg"
  proof (cases hit)
    case (Some pem)
    then obtain e where "map_of cache (sns_SigningCertURL msg) = Some e" "pem = cc_pem e" using g getCachedCert_hit by blast
    then show ?thesis using v g Some by (auto simp: verifiedBy_def verifySnsMessage_def Let_def split: option.splits if_splits)
  next
    case None
    then show ?thesis using v g
      by (auto simp: verifiedBy_def verifySnsMessage_def Let_def split: option.splits if_splits sum.splits)
  qed
  then show ?thesis using j by blast
qed

text \<open>A run of the middleware's verifier over the cache it keeps between requests.\<close>

fun verifyAll :: "(VerifySnsSignatureOpts \<times> SnsMessage) list \<Rightarrow> CertCache \<Rightarrow> bool result list \<times> CertCache" where
  "verifyAll [] cache = ([], cache)"
| "verifyAll (x # xs) cache =
     (case verifySnsMessage (fst x) (snd x) cache of
        (r, cache1) \<Rightarrow> (case verifyAll xs cache1 of (rs, cache2) \<Rightarrow> (r # rs, cache2)))"

lemma verifyAll_ok:
  assumes "\<And>x u pem. x \<in> set xs \<Longrightarrow> sv_fetchCert (fst x) u = Inr pem \<Longrightarrow> F u pem"
  shows "certCacheOk F cache \<Longrightarrow> certCacheOk F (snd (verifyAll xs cache)) \<and>
    list_all2 (\<lambda>(opts, msg) r. r = Inr True \<longrightarrow> verifiedBy F opts msg) xs (fst (verifyAll xs cache))"
  using assms
proof (induction xs arbitrary: cache)
  case (Cons x xs)
  obtain r cache1 where v: "verifySnsMessage (fst x) (snd x) cache = (r, cache1)" by fastforce
  have F: "\<And>u pem. sv_fetchCert (fst x) u = Inr pem \<Longrightarrow> F u pem" using Cons.prems(2) [of x] by simp
  note step = verifySnsMessage_ok [OF Cons.prems(1) F v]
  have rest: "\<And>x u pem. x \<in> set xs \<Longrightarrow> sv_fetchCert (fst x) u = Inr pem \<Longrightarrow> F u pem"
    by (rule Cons.prems(2)) simp_all
  show ?case using Cons.IH [OF conjunct1 [OF step] rest] step v by (cases x) (auto split: prod.splits)
qed simp

text \<open>C21: an SNS envelope that verifies was signed, over exactly its canonical string, under a
  certificate fetched over HTTPS, now or earlier and from the very URL the envelope names, on a
  host \<open>sns.<region>.amazonaws.com\<close>, whatever requests came before; and the certificate cache
  those requests share never holds more than 64 entries, one per URL.\<close>

theorem sns_verified_under_aws_certificate:
  assumes "\<forall>x \<in> set requests. sv_allowedCertHostPattern (fst x) = None"
    "verifyAll requests [] = (results, cache)" "k < length requests" "results ! k = Inr True"
  shows "(\<exists>region cert opts. let (o', msg) = requests ! k in
      sv_parseUrl o' (sns_SigningCertURL msg) = Some (''https:'', ''sns.'' @ region @ ''.amazonaws.com'') \<and>
      region \<noteq> [] \<and> list_all regionChar region \<and>
      opts \<in> set (map fst requests) \<and> sv_fetchCert opts (sns_SigningCertURL msg) = Inr cert \<and>
      sv_verifySignature o' \<lparr>vp_canonical = buildSnsCanonicalString msg, vp_signatureBase64 = sns_Signature msg,
         vp_signatureVersion = sns_SignatureVersion msg, vp_certificatePem = cert\<rparr>) \<and>
    length cache \<le> 64 \<and> distinct (map fst cache)"
proof -
  define F where "F u pem = (\<exists>opts \<in> set (map fst requests). sv_fetchCert opts u = Inr pem)" for u pem
  have ok: "certCacheOk F (snd (verifyAll requests []))" and
    all: "list_all2 (\<lambda>(opts, msg) r. r = Inr True \<longrightarrow> verifiedBy F opts msg) requests (fst (verifyAll requests []))"
    using verifyAll_ok [of requests F "[]"] by (auto simp: F_def certCacheOk_def)
  obtain o' msg where req: "requests ! k = (o', msg)" by fastforce
  have "verifiedBy F o' msg" using list_all2_nthD [OF all assms(3)] assms(2,4) req by auto
  moreover have "sv_allowedCertHostPattern o' = None" using assms(1,3) req by (metis fst_conv nth_mem)
  ultimately obtain host cert where h: "sv_parseUrl o' (sns_SigningCertURL msg) = Some (''https:'', host)"
      "rx_test DEFAULT_CERT_HOST_PATTERN host" "F (sns_SigningCertURL msg) cert"
      "sv_verifySignature o' \<lparr>vp_canonical = buildSnsCanonicalString msg, vp_signatureBase64 = sns_Signature msg,
         vp_signatureVersion = sns_SignatureVersion msg, vp_certificatePem = cert\<rparr>"
    by (auto simp: verifiedBy_def)
  obtain region where region: "host = ''sns.'' @ region @ ''.amazonaws.com''" "region \<noteq> []" "list_all regionChar region"
    using h(2) by (auto simp: certHost_shape)
  obtain opts where opts: "opts \<in> set (map fst requests)" "sv_fetchCert opts (sns_SigningCertURL msg) = Inr cert"
    using h(3) by (auto simp: F_def)
  have "length cache \<le> 64 \<and> distinct (map fst cache)"
    using ok assms(2) by (simp add: certCacheOk_def CERT_CACHE_MAX_ENTRIES_def)
  then show ?thesis using h(1,4) region opts unfolding req
    by (intro conjI exI [of _ region] exI [of _ cert] exI [of _ opts]) (simp_all add: Let_def)
qed

definition sampleSns :: SnsMessage where
  "sampleSns = \<lparr>sns_Type = Notification, sns_MessageId = ''m1'', sns_TopicArn = ''arn'', sns_Timestamp = ''t'', sns_Signature = ''s'',
     sns_SignatureVersion = SigV2, sns_SigningCertURL = ''u'', sns_Message = Some ''x'', sns_Subject = None, sns_Token = None,
     sns_SubscribeURL = None\<rparr>"

definition sampleSnsOpts :: VerifySnsSignatureOpts where
  "sampleSnsOpts = \<lparr>sv_parseUrl = (\<lambda>_. Some (''https:'', ''sns.us-east-1.amazonaws.com'')), sv_fetchCert = (\<lambda>_. Inr ''PEM''),
     sv_verifySignature = (\<lambda>p. vp_certificatePem p = ''PEM''), sv_allowedCertHostPattern = None, sv_nowMs = 0\<rparr>"

lemma sample_verified: "verifyAll [(sampleSnsOpts, sampleSns)] [] =
    ([Inr True], [(''u'', \<lparr>cc_pem = ''PEM'', cc_expiresAt = 86400000\<rparr>)])"
  by code_simp

lemma sns_verified_under_aws_certificate_witness:
  "\<exists>region cert opts. let (o', msg) = [(sampleSnsOpts, sampleSns)] ! 0 in
      sv_parseUrl o' (sns_SigningCertURL msg) = Some (''https:'', ''sns.'' @ region @ ''.amazonaws.com'') \<and>
      region \<noteq> [] \<and> list_all regionChar region \<and>
      opts \<in> set (map fst [(sampleSnsOpts, sampleSns)]) \<and> sv_fetchCert opts (sns_SigningCertURL msg) = Inr cert \<and>
      sv_verifySignature o' \<lparr>vp_canonical = buildSnsCanonicalString msg, vp_signatureBase64 = sns_Signature msg,
         vp_signatureVersion = sns_SignatureVersion msg, vp_certificatePem = cert\<rparr>"
  by (rule conjunct1 [OF sns_verified_under_aws_certificate [OF _ sample_verified]]) (simp_all add: sampleSnsOpts_def)

section \<open>The topic is bound by the signature\<close>

lemma signed_last:
  "\<exists>fields. signedFields msg = fields @ [(''TopicArn'', Some (sns_TopicArn msg)), (''Type'', Some (snsTypeName (sns_Type msg)))]"
  unfolding signedFields_def by (cases "sns_Type msg") (auto intro: append_Cons [symmetric] simp: append_eq_Cons_conv)

lemma canonical_tail:
  "\<exists>p. buildSnsCanonicalString msg = p @ ''TopicArn'' @ [LF] @ sns_TopicArn msg @ [LF] @ ''Type'' @ [LF] @ snsTypeName (sns_Type msg) @ [LF]"
proof -
  obtain fields where "signedFields msg = fields @ [(''TopicArn'', Some (sns_TopicArn msg)), (''Type'', Some (snsTypeName (sns_Type msg)))]"
    using signed_last by blast
  then show ?thesis by (simp add: buildSnsCanonicalString_def)
qed

lemma snsTypeName_inject: "snsTypeName a = snsTypeName b \<Longrightarrow> a = b"
  by (cases a; cases b) simp_all

lemma canonical_lines:
  assumes "LF \<notin> set (sns_TopicArn msg)"
  shows "\<exists>ls. splitOn LF (buildSnsCanonicalString msg) = ls @ [sns_TopicArn msg, ''Type'', snsTypeName (sns_Type msg), []]"
proof -
  obtain p where p: "buildSnsCanonicalString msg =
      p @ ''TopicArn'' @ [LF] @ sns_TopicArn msg @ [LF] @ ''Type'' @ [LF] @ snsTypeName (sns_Type msg) @ [LF]"
    using canonical_tail by blast
  have ty: "LF \<notin> set (snsTypeName (sns_Type msg))" by (cases "sns_Type msg") simp_all
  have "splitOn LF (p @ LF # sns_TopicArn msg @ LF # ''Type'' @ LF # snsTypeName (sns_Type msg) @ LF # []) =
      splitOn LF p @ [sns_TopicArn msg, ''Type'', snsTypeName (sns_Type msg), []]" for p
    unfolding splitOn_append splitOn_no_occurrence [OF assms] splitOn_no_occurrence [OF ty] by simp
  from this [of "p @ ''TopicArn''"] show ?thesis unfolding p by auto
qed

text \<open>A signature binds the topic and the type of a message: two envelopes with the same string
  to sign, topics of which are single lines, name the same topic and have the same type, so a
  message signed for one topic cannot be replayed as one of another, allowlisted, topic.\<close>

theorem sns_signature_binds_topic:
  assumes "buildSnsCanonicalString a = buildSnsCanonicalString b" "LF \<notin> set (sns_TopicArn a)" "LF \<notin> set (sns_TopicArn b)"
  shows "sns_TopicArn a = sns_TopicArn b \<and> sns_Type a = sns_Type b"
  using canonical_lines [OF assms(2)] canonical_lines [OF assms(3)] assms(1) by (auto dest!: snsTypeName_inject)

lemma sns_signature_binds_topic_witness:
  "sns_TopicArn sampleSns = sns_TopicArn (sampleSns\<lparr>sns_Signature := ''other''\<rparr>) \<and>
   sns_Type sampleSns = sns_Type (sampleSns\<lparr>sns_Signature := ''other''\<rparr>)"
  by (rule sns_signature_binds_topic) (simp_all add: buildSnsCanonicalString_def signedFields_def sampleSns_def)

end
