(* ===== verification/CodecommitWebhook.thy ===== *)
theory CodecommitWebhook
  imports Webhook SnsSignature
begin

text \<open>
  The CodeCommit webhook handler, \<open>server/src/handlers/codecommit-webhook.ts\<close>, over the state of
  the GitHub handler.  The event is read out of the JSON text of the SNS message; a member that is
  not of its declared type is taken as absent.  \<open>JSON.parse\<close>, the queue service and the
  confirmation request are parameters.
\<close>

datatype CodecommitWebhookResult =
    SubscriptionConfirmed
  | SubscriptionFailed int
  | CcEnqueued string
  | CcNoop string
  | CcIgnored string
  | CcForbidden string
  | CcFeedbackCommand FeedbackKind FeedbackCommandOutcome "string option" int

record CodecommitWebhookDeps =
  cw_isDatetime :: "string \<Rightarrow> bool"
  cw_send :: "SendMessageInput \<Rightarrow> string option result"
  cw_parseJson :: "string \<Rightarrow> json option"
  cw_now :: Date
  cw_confirmFetch :: "string \<Rightarrow> (bool \<times> int) result"
  cw_allowlistEnvVar :: "string option"
  cw_feedbackAllowlistEnv :: "string option"
  cw_allowedTopicArns :: "string list option"

datatype PullRequestId = PrNum int | PrText string

record CodecommitEvent =
  ce_event :: "string option"
  ce_pullRequestId :: "PullRequestId option"
  ce_repositoryName :: "string option"
  ce_repositoryNames :: "string list option"
  ce_sourceCommit :: "string option"
  ce_commentContent :: "string option"
  ce_notificationBody :: "string option"
  ce_principalId :: "string option"

definition PR_OPEN_EVENTS :: "string list" where "PR_OPEN_EVENTS = [''pullRequestCreated'']"

definition PR_SYNC_EVENTS :: "string list" where
  "PR_SYNC_EVENTS = [''pullRequestSourceBranchUpdated'', ''pullRequestSourceReferenceUpdated'']"

definition prIdOf :: "json \<Rightarrow> PullRequestId option" where
  "prIdOf j = (case jsonMember j ''pullRequestId'' of Some (JNum n) \<Rightarrow> Some (PrNum n) | Some (JStr s) \<Rightarrow> Some (PrText s) | _ \<Rightarrow> None)"

definition codecommitEvent :: "json \<Rightarrow> CodecommitEvent" where
  "codecommitEvent j = \<lparr>
     ce_event = stringMember j ''event'', ce_pullRequestId = prIdOf j,
     ce_repositoryName = stringMember j ''repositoryName'',
     ce_repositoryNames = (case jsonMember j ''repositoryNames'' of Some v \<Rightarrow> asStrs v | None \<Rightarrow> None),
     ce_sourceCommit = stringMember j ''sourceCommit'', ce_commentContent = stringMember j ''commentContent'',
     ce_notificationBody = stringMember j ''notificationBody'',
     ce_principalId = (case jsonMember j ''userIdentity'' of Some u \<Rightarrow> stringMember u ''principalId'' | None \<Rightarrow> None)\<rparr>"

fun isObject :: "json \<Rightarrow> bool" where
  "isObject (JObj _) = True"
| "isObject (JArr _) = True"
| "isObject _ = False"

text \<open>The event and the account of the EventBridge envelope, if the text has one.\<close>

definition extractCodecommitEvent :: "(string \<Rightarrow> json option) \<Rightarrow> string \<Rightarrow> (CodecommitEvent \<times> string option) option" where
  "extractCodecommitEvent parseJson snsMessage =
     (case parseJson snsMessage of
        None \<Rightarrow> None
      | Some parsed \<Rightarrow>
          (case jsonMember parsed ''detail'' of
             Some detail \<Rightarrow>
               if isObject detail then Some (codecommitEvent detail, stringMember parsed ''account'')
               else if isObject parsed then Some (codecommitEvent parsed, None) else None
           | None \<Rightarrow> if isObject parsed then Some (codecommitEvent parsed, None) else None))"

definition pickRepositoryName :: "CodecommitEvent \<Rightarrow> string option" where
  "pickRepositoryName ev =
     (case ce_repositoryName ev of
        Some (c # cs) \<Rightarrow> Some (c # cs)
      | _ \<Rightarrow> (case ce_repositoryNames ev of Some ((c # cs) # _) \<Rightarrow> Some (c # cs) | _ \<Rightarrow> None))"

text \<open>\<open>Number.parseInt(s, 10)\<close>: blanks, a sign, and the digits up to the first other character.\<close>

definition parseInt10 :: "string \<Rightarrow> int option" where
  "parseInt10 s =
     (let t = trimStart s;
          (neg, u) = (case t of c # cs \<Rightarrow> if c = CHR ''-'' then (True, cs) else if c = CHR ''+'' then (False, cs) else (False, t) | [] \<Rightarrow> (False, t));
          ds = takeWhile isDigit u
      in if ds = [] then None else Some (if neg then - int (readDigits ds) else int (readDigits ds)))"

definition MAX_SAFE_INTEGER :: int where "MAX_SAFE_INTEGER = 2 ^ 53 - 1"

definition pickPrNumber :: "CodecommitEvent \<Rightarrow> int option" where
  "pickPrNumber ev =
     (case ce_pullRequestId ev of
        None \<Rightarrow> None
      | Some pid \<Rightarrow>
          (case (case pid of PrNum n \<Rightarrow> Some n | PrText t \<Rightarrow> parseInt10 t) of
             None \<Rightarrow> None
           | Some n \<Rightarrow> if MAX_SAFE_INTEGER < \<bar>n\<bar> \<or> n \<le> 0 then None else Some n))"

definition buildCodecommitJobMessage :: "CodecommitEvent \<Rightarrow> Trigger \<Rightarrow> Date \<Rightarrow> string \<Rightarrow> JobMessage option" where
  "buildCodecommitJobMessage ev triggeredBy now installationId =
     (case (pickRepositoryName ev, pickPrNumber ev) of
        (Some repo, Some number) \<Rightarrow>
          Some \<lparr>jm_jobId = ''codecommit:'' @ repo @ ''#'' @ intToString number @ ''@'' @ intToString now,
                jm_installationId = installationId,
                jm_prRef = \<lparr>pr_platform = Codecommit, pr_owner = [], pr_repo = repo, pr_number = number,
                            pr_headSha = (if falsyStr (ce_sourceCommit ev) then None else ce_sourceCommit ev)\<rparr>,
                jm_triggeredBy = triggeredBy, jm_enqueuedAt = toISOString now, jm_pathScope = None\<rparr>
      | _ \<Rightarrow> None)"

definition isAllowedTopic :: "SnsMessage \<Rightarrow> string list \<Rightarrow> bool" where
  "isAllowedTopic envelope allowlist = (if allowlist = [] then False else sns_TopicArn envelope \<in> set allowlist)"

definition enqueueCodecommit :: "CodecommitWebhookDeps \<Rightarrow> JobMessage option \<Rightarrow> ServerState \<Rightarrow> CodecommitWebhookResult result \<times> ServerState" where
  "enqueueCodecommit deps msg s =
     (case msg of
        None \<Rightarrow> (Inr (CcIgnored ''missing repositoryName/pullRequestId''), s)
      | Some m \<Rightarrow>
          (case sqsEnqueue (cw_isDatetime deps) (cw_send deps) m (ss_queue s) of
             (Inl e, q) \<Rightarrow> (Inl e, s\<lparr>ss_queue := q\<rparr>)
           | (Inr messageId, q) \<Rightarrow> (Inr (CcEnqueued messageId), s\<lparr>ss_queue := q\<rparr>)))"

definition handleCodecommitFeedbackCommand :: "FeedbackCommand \<Rightarrow> CodecommitEvent \<Rightarrow> CodecommitWebhookDeps \<Rightarrow> ServerState \<Rightarrow> CodecommitWebhookResult result \<times> ServerState" where
  "handleCodecommitFeedbackCommand fb ev deps s =
     (let answer = (\<lambda>outcome n. (Inr (CcFeedbackCommand (fc_kind fb) outcome (fc_fpPrefix fb) n),
                                  s\<lparr>ss_metrics := ss_metrics s @ [(Codecommit, fc_kind fb, outcome)]\<rparr>))
      in case (pickPrNumber ev, pickRepositoryName ev) of
           (Some prNumber, Some repo) \<Rightarrow>
             (if is_allowed (checkCodeCommitFeedbackAuthz (cw_allowlistEnvVar deps) (cw_feedbackAllowlistEnv deps) (orEmpty (ce_principalId ev)))
              then answer Recorded prNumber else answer Unauthorized prNumber)
         | (prNumber, _) \<Rightarrow> answer Unresolved (case prNumber of None \<Rightarrow> 0 | Some n \<Rightarrow> n))"

definition confirmSubscription :: "SnsMessage \<Rightarrow> CodecommitWebhookDeps \<Rightarrow> ServerState \<Rightarrow> CodecommitWebhookResult result \<times> ServerState" where
  "confirmSubscription envelope deps s =
     (case sns_SubscribeURL envelope of
        None \<Rightarrow> (Inr (CcIgnored ''missing SubscribeURL''), s)
      | Some url \<Rightarrow>
          if url = [] then (Inr (CcIgnored ''missing SubscribeURL''), s)
          else (let s' = s\<lparr>ss_confirmed := ss_confirmed s @ [url]\<rparr> in
                case cw_confirmFetch deps url of
                  Inl e \<Rightarrow> (Inl e, s')
                | Inr (ok, status) \<Rightarrow> (Inr (if ok then SubscriptionConfirmed else SubscriptionFailed status), s')))"

definition handleCodecommitComment :: "CodecommitEvent \<Rightarrow> string \<Rightarrow> CodecommitWebhookDeps \<Rightarrow> ServerState \<Rightarrow> CodecommitWebhookResult result \<times> ServerState" where
  "handleCodecommitComment ev installationId deps s =
     (let t = orEmpty (orElse (ce_commentContent ev) (ce_notificationBody ev)) in
      case parseFeedbackCommand t of
        Some fb \<Rightarrow> handleCodecommitFeedbackCommand fb ev deps s
      | None \<Rightarrow>
          (case parseCommand t of
             None \<Rightarrow> (Inr (CcIgnored ''no agent command''), s)
           | Some command \<Rightarrow>
               if command = [] then (Inr (CcIgnored ''no agent command''), s)
               else if command \<noteq> ''review'' then (Inr (CcNoop (''command '' @ quoted command @ '' not yet implemented'')), s)
               else enqueueCodecommit deps (buildCodecommitJobMessage ev TrigCommand (cw_now deps) installationId) s))"

definition handleNotification :: "string \<Rightarrow> CodecommitWebhookDeps \<Rightarrow> ServerState \<Rightarrow> CodecommitWebhookResult result \<times> ServerState" where
  "handleNotification message deps s =
     (case extractCodecommitEvent (cw_parseJson deps) message of
        None \<Rightarrow> (Inr (CcIgnored ''malformed codecommit event''), s)
      | Some (ev, account) \<Rightarrow>
          (case ce_event ev of
             None \<Rightarrow> (Inr (CcIgnored ''malformed codecommit event''), s)
           | Some kind \<Rightarrow>
               (case account of
                  None \<Rightarrow> (Inr (CcIgnored ''missing or non-numeric EventBridge account (required for installationId)''), s)
                | Some installationId \<Rightarrow>
                    if installationId = [] \<or> \<not> list_all isDigit installationId
                    then (Inr (CcIgnored ''missing or non-numeric EventBridge account (required for installationId)''), s)
                    else if kind \<in> set PR_OPEN_EVENTS
                      then enqueueCodecommit deps (buildCodecommitJobMessage ev TrigOpened (cw_now deps) installationId) s
                    else if kind \<in> set PR_SYNC_EVENTS
                      then enqueueCodecommit deps (buildCodecommitJobMessage ev TrigSynchronize (cw_now deps) installationId) s
                    else if kind = ''commentOnPullRequest'' then handleCodecommitComment ev installationId deps s
                    else (Inr (CcIgnored (''unhandled codecommit event '' @ quoted kind)), s))))"

definition handleCodecommitWebhook :: "SnsMessage \<Rightarrow> CodecommitWebhookDeps \<Rightarrow> ServerState \<Rightarrow> CodecommitWebhookResult result \<times> ServerState" where
  "handleCodecommitWebhook envelope deps s =
     (let allowlist = (case cw_allowedTopicArns deps of None \<Rightarrow> [] | Some l \<Rightarrow> l) in
      if \<not> isAllowedTopic envelope allowlist then
        (Inr (CcForbidden (if allowlist = [] then ''REVIEW_AGENT_SNS_TOPIC_ARNS is unset; the receiver is fail-closed by design''
                           else ''TopicArn '' @ quoted (sns_TopicArn envelope) @ '' is not in the configured allowlist'')), s)
      else (case sns_Type envelope of
              Notification \<Rightarrow>
                (case sns_Message envelope of
                   None \<Rightarrow> (Inr (CcIgnored ''missing SNS Message''), s)
                 | Some message \<Rightarrow>
                     if message = [] then (Inr (CcIgnored ''missing SNS Message''), s) else handleNotification message deps s)
            | _ \<Rightarrow> confirmSubscription envelope deps s))"

section \<open>What the handler guarantees\<close>

lemma enqueueCodecommit_effect:
  "snd (enqueueCodecommit deps msg s) = s \<or>
   (\<exists>m. msg = Some m \<and> jobMessageOk (cw_isDatetime deps) m \<and>
        snd (enqueueCodecommit deps msg s) = s\<lparr>ss_queue := ss_queue s @ [sqsCommand m]\<rparr>)"
proof (cases msg)
  case (Some m)
  have "snd (enqueueCodecommit deps msg s) = s\<lparr>ss_queue := snd (sqsEnqueue (cw_isDatetime deps) (cw_send deps) m (ss_queue s))\<rparr>"
    by (simp add: enqueueCodecommit_def Some split: prod.splits sum.splits)
  then show ?thesis
    using sqs.enqueue_cases [of "cw_isDatetime deps" "cw_send deps" m "ss_queue s"] Some by auto
qed (simp add: enqueueCodecommit_def)

lemma feedback_recorded:
  assumes "fst (handleCodecommitFeedbackCommand fb ev deps s) = Inr (CcFeedbackCommand k Recorded fp n)"
  shows "\<exists>p. ce_principalId ev = Some p \<and> p \<noteq> [] \<and>
    p \<in> set (parseAllowlist (case cw_feedbackAllowlistEnv deps of Some csv \<Rightarrow> Some csv | None \<Rightarrow> cw_allowlistEnvVar deps))"
  using assms
  by (auto simp: handleCodecommitFeedbackCommand_def Let_def is_allowed_def checkCodeCommitFeedbackAuthz_def orEmpty_def
      split: option.splits if_splits)

lemma notification_recorded:
  assumes "fst (handleNotification message deps s) = Inr (CcFeedbackCommand k Recorded fp n)"
  shows "\<exists>ev account p. extractCodecommitEvent (cw_parseJson deps) message = Some (ev, account) \<and> ce_principalId ev = Some p \<and> p \<noteq> [] \<and>
    p \<in> set (parseAllowlist (case cw_feedbackAllowlistEnv deps of Some csv \<Rightarrow> Some csv | None \<Rightarrow> cw_allowlistEnvVar deps))"
proof -
  have enq: "fst (enqueueCodecommit deps m s) \<noteq> Inr (CcFeedbackCommand k Recorded fp n)" for m
    by (auto simp: enqueueCodecommit_def split: option.splits prod.splits sum.splits)
  obtain ev account where ev: "extractCodecommitEvent (cw_parseJson deps) message = Some (ev, account)"
      "\<exists>fb. fst (handleCodecommitFeedbackCommand fb ev deps s) = Inr (CcFeedbackCommand k Recorded fp n)"
    using assms unfolding handleNotification_def handleCodecommitComment_def Let_def
    by (auto simp: enq split: option.splits if_splits) blast
  then show ?thesis using feedback_recorded by blast
qed

text \<open>C22: the CodeCommit receiver is closed by default: whatever the envelope, nothing changes (no
  job, no metric, no subscription confirmed) unless its topic is on the configured allowlist, and
  feedback is recorded only for a principal on the operator's feedback allowlist.\<close>

theorem codecommit_fail_closed:
  "let (r, s') = handleCodecommitWebhook envelope deps s
   in (s' = s \<or> (\<exists>arns. cw_allowedTopicArns deps = Some arns \<and> sns_TopicArn envelope \<in> set arns)) \<and>
      (case r of Inr (CcFeedbackCommand k Recorded fp n) \<Rightarrow>
         \<exists>message ev account p. sns_Message envelope = Some message \<and>
           extractCodecommitEvent (cw_parseJson deps) message = Some (ev, account) \<and> ce_principalId ev = Some p \<and> p \<noteq> [] \<and>
           p \<in> set (parseAllowlist (case cw_feedbackAllowlistEnv deps of Some csv \<Rightarrow> Some csv | None \<Rightarrow> cw_allowlistEnvVar deps))
       | _ \<Rightarrow> True)"
proof -
  have conf: "fst (confirmSubscription envelope deps s) \<noteq> Inr (CcFeedbackCommand k Recorded fp n)" for k fp n
    by (auto simp: confirmSubscription_def Let_def split: option.splits sum.splits if_splits)
  obtain r s' where h: "handleCodecommitWebhook envelope deps s = (r, s')" by fastforce
  have topic: "s' = s \<or> (\<exists>arns. cw_allowedTopicArns deps = Some arns \<and> sns_TopicArn envelope \<in> set arns)"
    using h by (auto simp: handleCodecommitWebhook_def isAllowedTopic_def Let_def split: option.splits if_splits)
  have fb: "\<exists>message ev account p. sns_Message envelope = Some message \<and>
         extractCodecommitEvent (cw_parseJson deps) message = Some (ev, account) \<and> ce_principalId ev = Some p \<and> p \<noteq> [] \<and>
         p \<in> set (parseAllowlist (case cw_feedbackAllowlistEnv deps of Some csv \<Rightarrow> Some csv | None \<Rightarrow> cw_allowlistEnvVar deps))"
    if r: "r = Inr (CcFeedbackCommand k Recorded fp n)" for k fp n
  proof -
    have e: "fst (handleCodecommitWebhook envelope deps s) = Inr (CcFeedbackCommand k Recorded fp n)" using h r by simp
    obtain message where m: "sns_Message envelope = Some message"
        "fst (handleNotification message deps s) = Inr (CcFeedbackCommand k Recorded fp n)"
      using e conf [of k fp n] unfolding handleCodecommitWebhook_def Let_def
      by (cases "sns_Type envelope"; cases "sns_Message envelope") (auto split: if_splits)
    show ?thesis using notification_recorded [OF m(2)] m(1) by blast
  qed
  show ?thesis unfolding h Let_def prod.case using topic fb
    by (auto split: sum.splits CodecommitWebhookResult.splits FeedbackCommandOutcome.splits)
qed

text \<open>Unlike on GitHub, a review command on CodeCommit needs no permission: for any event that
  names a repository and a pull request, a comment that mentions the agent with \<open>review\<close>
  queues the review whoever wrote it, even with no allowlist and no principal.\<close>

theorem codecommit_review_unchecked:
  assumes "ce_commentContent ev = Some ''@review-agent review''"
    "buildCodecommitJobMessage ev TrigCommand (cw_now deps) account = Some m"
    "jobMessageOk (cw_isDatetime deps) m" "cw_send deps (sqsCommand m) = Inr messageId"
  shows "handleCodecommitComment (ev\<lparr>ce_principalId := p\<rparr>) account (deps\<lparr>cw_feedbackAllowlistEnv := None, cw_allowlistEnvVar := None\<rparr>) s =
    (Inr (CcEnqueued (case messageId of None \<Rightarrow> [] | Some i \<Rightarrow> i)), s\<lparr>ss_queue := ss_queue s @ [sqsCommand m]\<rparr>)"
proof -
  have w: "parseFeedbackCommand ''@review-agent review'' = None \<and> parseCommand ''@review-agent review'' = Some ''review''"
    by code_simp
  have p: "pickRepositoryName (ev\<lparr>ce_principalId := p\<rparr>) = pickRepositoryName ev" "pickPrNumber (ev\<lparr>ce_principalId := p\<rparr>) = pickPrNumber ev"
    "ce_sourceCommit (ev\<lparr>ce_principalId := p\<rparr>) = ce_sourceCommit ev"
    by (simp_all add: pickRepositoryName_def pickPrNumber_def cong: option.case_cong list.case_cong)
  have "buildCodecommitJobMessage (ev\<lparr>ce_principalId := p\<rparr>) TrigCommand (cw_now deps) account = Some m"
    using assms(2) unfolding buildCodecommitJobMessage_def p .
  then show ?thesis
    using assms(1,3,4) by (simp add: handleCodecommitComment_def orElse_def orEmpty_def w enqueueCodecommit_def sqsEnqueue_def)
qed

definition sampleCcEvent :: CodecommitEvent where
  "sampleCcEvent = \<lparr>ce_event = Some ''commentOnPullRequest'', ce_pullRequestId = Some (PrText ''42''), ce_repositoryName = Some ''repo'',
     ce_repositoryNames = None, ce_sourceCommit = None, ce_commentContent = Some ''@review-agent review'',
     ce_notificationBody = None, ce_principalId = None\<rparr>"

definition sampleCcDeps :: CodecommitWebhookDeps where
  "sampleCcDeps = \<lparr>cw_isDatetime = (\<lambda>_. True), cw_send = (\<lambda>_. Inr (Some ''m1'')), cw_parseJson = (\<lambda>_. None), cw_now = 0,
     cw_confirmFetch = (\<lambda>_. Inr (True, 200)), cw_allowlistEnvVar = None, cw_feedbackAllowlistEnv = None, cw_allowedTopicArns = None\<rparr>"

definition sampleCcJob :: JobMessage where
  "sampleCcJob = the (buildCodecommitJobMessage sampleCcEvent TrigCommand 0 ''123456789012'')"

lemma codecommit_review_unchecked_witness:
  "fst (handleCodecommitComment (sampleCcEvent\<lparr>ce_principalId := Some ''mallory''\<rparr>) ''123456789012''
      (sampleCcDeps\<lparr>cw_feedbackAllowlistEnv := None, cw_allowlistEnvVar := None\<rparr>)
      \<lparr>ss_queue = [], ss_reviewState = [], ss_installations = [], ss_metrics = [], ss_conversations = [], ss_confirmed = []\<rparr>) = Inr (CcEnqueued ''m1'')"
proof -
  have j: "buildCodecommitJobMessage sampleCcEvent TrigCommand (cw_now sampleCcDeps) ''123456789012'' = Some sampleCcJob \<and>
    jobMessageOk (cw_isDatetime sampleCcDeps) sampleCcJob \<and> cw_send sampleCcDeps (sqsCommand sampleCcJob) = Inr (Some ''m1'') \<and>
    ce_commentContent sampleCcEvent = Some ''@review-agent review''"
    by code_simp
  show ?thesis by (subst codecommit_review_unchecked [where m = sampleCcJob and messageId = "Some ''m1''"]) (simp_all add: j)
qed

end
