(* ===== verification/Server.thy ===== *)
theory Server
  imports WebhookProps CodecommitWebhook
begin

text \<open>
  The HTTP server that puts the receivers together, \<open>server/src/app.ts\<close>: the signature check
  (\<open>middleware/verify-signature.ts\<close>), the delivery idempotency (\<open>middleware/idempotency.ts\<close>)
  and the two webhook handlers, each with the dependencies \<open>createApp\<close> gives it.  HMAC, JSON
  parsing and the services are parameters.  The clocks of the process and of the database agree.
\<close>

section \<open>Dependencies, requests, state\<close>

record AppDeps =
  ap_webhookSecret :: string
  ap_hmac :: "string \<Rightarrow> string \<Rightarrow> string"
  ap_parseBody :: "string \<Rightarrow> WebhookBody option"
  ap_parseJson :: "string \<Rightarrow> json option"
  ap_isDatetime :: "string \<Rightarrow> bool"
  ap_send :: "SendMessageInput \<Rightarrow> string option result"
  ap_checkGithubFeedbackAuthz :: "(string \<Rightarrow> string \<Rightarrow> string \<Rightarrow> FeedbackAuthzResult) option"
  ap_handleConversation :: "(ConversationHandlerInput \<Rightarrow> ConversationReplyOutcome result) option"
  ap_getBotLogin :: "string result option"
  ap_botLoginEnv :: "string option"
  ap_appSlug :: "string option result option"
  ap_readOk :: bool
  ap_writeOk :: bool
  ap_sns :: VerifySnsSignatureOpts
  ap_allowedSnsTopicArns :: "string list option"
  ap_topicArnsEnv :: "string option"
  ap_confirmFetch :: "string \<Rightarrow> (bool \<times> int) result"
  ap_codecommitFeedbackAllowlistEnv :: "string option"
  ap_allowlistEnvVar :: "string option"

record GithubRequest =
  rq_signature :: "string option"
  rq_deliveryId :: "string option"
  rq_event :: "string option"
  rq_raw :: string

record AppState =
  as_server :: ServerState
  as_deliveries :: "WebhookDeliveryRow list"
  as_certs :: CertCache

text \<open>
  An answer of the server: an error status, the answer to a duplicate, or the result of a handler
  (\<open>Inl\<close> for an error it threw, which the framework turns into status 500) with the delivery id
  it ran under; subscription control runs under none.
\<close>

datatype Response =
    Status int string
  | Deduped
  | Answered string "WebhookResult result"
  | CcAnswered "string option" "CodecommitWebhookResult result"

section \<open>Middlewares\<close>

definition expectedSignature :: "AppDeps \<Rightarrow> string \<Rightarrow> string" where
  "expectedSignature deps raw = ''sha256='' @ ap_hmac deps (ap_webhookSecret deps) raw"

text \<open>\<open>Inr\<close> is the parsed body handed to the next handler.\<close>

definition verifyGithubSignature :: "AppDeps \<Rightarrow> GithubRequest \<Rightarrow> Response + WebhookBody" where
  "verifyGithubSignature deps req =
     (case rq_signature req of
        None \<Rightarrow> Inl (Status 401 ''unauthorized'')
      | Some sig \<Rightarrow>
          if sig = [] then Inl (Status 401 ''unauthorized'')
          else if sig \<noteq> expectedSignature deps (rq_raw req) then Inl (Status 401 ''unauthorized'')
          else (case ap_parseBody deps (rq_raw req) of
                  None \<Rightarrow> Inl (Status 400 ''bad request'')
                | Some body \<Rightarrow> Inr body))"

text \<open>\<open>Inr\<close> is the delivery id under which the next handler runs.\<close>

definition idempotency :: "bool \<Rightarrow> Date \<Rightarrow> string option \<Rightarrow> WebhookDeliveryRow list \<Rightarrow> (Response + string) \<times> WebhookDeliveryRow list" where
  "idempotency dbOk now deliveryId rows =
     (if falsyStr deliveryId then (Inl (Status 400 ''missing delivery id''), rows)
      else if \<not> dbOk then (Inl (Status 500 ''internal error''), rows)
      else (let row = \<lparr>wd_deliveryId = the deliveryId, wd_receivedAt = now, wd_status = Received\<rparr> in
            case insertOrNothing wd_deliveryId row rows of
              (rows', inserted) \<Rightarrow> if inserted = [] then (Inl Deduped, rows') else (Inr (the deliveryId), rows')))"

text \<open>\<open>resolveGetBotLogin\<close>: the override, the environment, the slug of the App, or no guard.\<close>

definition resolveGetBotLogin :: "AppDeps \<Rightarrow> string result option" where
  "resolveGetBotLogin deps =
     (case ap_getBotLogin deps of
        Some r \<Rightarrow> Some r
      | None \<Rightarrow>
          if \<not> falsyStr (ap_botLoginEnv deps) then Some (Inr (the (ap_botLoginEnv deps)))
          else (case ap_appSlug deps of
                  None \<Rightarrow> None
                | Some (Inl e) \<Rightarrow> Some (Inl e)
                | Some (Inr slug) \<Rightarrow> Some (Inr ((case slug of None \<Rightarrow> ''review-agent'' | Some t \<Rightarrow> t) @ ''[bot]''))))"

definition resolveAllowedSnsTopicArns :: "AppDeps \<Rightarrow> string list" where
  "resolveAllowedSnsTopicArns deps =
     (case ap_allowedSnsTopicArns deps of
        Some arns \<Rightarrow> arns
      | None \<Rightarrow>
          if falsyStr (ap_topicArnsEnv deps) then []
          else filter (\<lambda>s. s \<noteq> []) (map trim (splitOn (CHR '','') (the (ap_topicArnsEnv deps)))))"

datatype DeliveryPlatform = GithubDelivery | CodecommitDelivery

fun PLATFORM_PREFIX :: "DeliveryPlatform \<Rightarrow> string" where
  "PLATFORM_PREFIX GithubDelivery = ''gh:''"
| "PLATFORM_PREFIX CodecommitDelivery = ''sns:''"

definition namespaceDeliveryId :: "DeliveryPlatform \<Rightarrow> string \<Rightarrow> string" where
  "namespaceDeliveryId platform i = PLATFORM_PREFIX platform @ i"

section \<open>Routes\<close>

text \<open>The dependencies \<open>createApp\<close> passes to the GitHub handler.\<close>

definition webhookDeps :: "AppDeps \<Rightarrow> Date \<Rightarrow> WebhookHandlerDeps" where
  "webhookDeps deps now =
     \<lparr>wh_isDatetime = ap_isDatetime deps, wh_send = ap_send deps, wh_now = (\<lambda>_. now),
      wh_checkAuthz = ap_checkGithubFeedbackAuthz deps, wh_handleConversation = ap_handleConversation deps,
      wh_getBotLogin = resolveGetBotLogin deps,
      wh_db = Some \<lparr>db_readOk = ap_readOk deps, db_writeOk = ap_writeOk deps, db_now = now\<rparr>,
      wh_triggerConfig = None, wh_debounceMs = None\<rparr>"

definition githubRoute :: "AppDeps \<Rightarrow> Date \<Rightarrow> GithubRequest \<Rightarrow> AppState \<Rightarrow> Response \<times> AppState" where
  "githubRoute deps now req s =
     (case verifyGithubSignature deps req of
        Inl resp \<Rightarrow> (resp, s)
      | Inr body \<Rightarrow>
          (case idempotency (ap_writeOk deps) now (rq_deliveryId req) (as_deliveries s) of
             (Inl resp, rows) \<Rightarrow> (resp, s\<lparr>as_deliveries := rows\<rparr>)
           | (Inr deliveryId, rows) \<Rightarrow>
               (let event = orEmpty (rq_event req) in
                case handleWebhook event body (webhookDeps deps now) (as_server s) of
                  (result, server) \<Rightarrow> (Answered deliveryId result, s\<lparr>as_deliveries := rows, as_server := server\<rparr>))))"

text \<open>The dependencies of the CodeCommit handler: the control route passes the feedback allowlist
  override, the notification route does not.\<close>

definition codecommitDeps :: "AppDeps \<Rightarrow> Date \<Rightarrow> string option \<Rightarrow> CodecommitWebhookDeps" where
  "codecommitDeps deps now allowlistEnv =
     \<lparr>cw_isDatetime = ap_isDatetime deps, cw_send = ap_send deps, cw_parseJson = ap_parseJson deps, cw_now = now,
      cw_confirmFetch = ap_confirmFetch deps, cw_allowlistEnvVar = ap_allowlistEnvVar deps,
      cw_feedbackAllowlistEnv = allowlistEnv, cw_allowedTopicArns = Some (resolveAllowedSnsTopicArns deps)\<rparr>"

definition isSubscriptionControl :: "SnsMessageType \<Rightarrow> bool" where
  "isSubscriptionControl t = (t = SubscriptionConfirmation \<or> t = UnsubscribeConfirmation)"

text \<open>The status of a response: 403 for a forbidden result, 500 for a thrown error, else 200.\<close>

fun responseStatus :: "Response \<Rightarrow> int" where
  "responseStatus (Status n _) = n"
| "responseStatus Deduped = 200"
| "responseStatus (Answered _ result) = (case result of Inl _ \<Rightarrow> 500 | Inr _ \<Rightarrow> 200)"
| "responseStatus (CcAnswered _ result) = (case result of Inl _ \<Rightarrow> 500 | Inr (CcForbidden _) \<Rightarrow> 403 | Inr _ \<Rightarrow> 200)"

definition codecommitRoute :: "AppDeps \<Rightarrow> Date \<Rightarrow> string \<Rightarrow> AppState \<Rightarrow> Response \<times> AppState" where
  "codecommitRoute deps now raw s =
     (case verifySnsSignature (ap_sns deps) (ap_parseJson deps) raw (as_certs s) of
        (BadRequest, certs) \<Rightarrow> (Status 400 ''bad request'', s\<lparr>as_certs := certs\<rparr>)
      | (UnauthorizedSns, certs) \<Rightarrow> (Status 401 ''unauthorized'', s\<lparr>as_certs := certs\<rparr>)
      | (Verified msg, certs) \<Rightarrow>
          if isSubscriptionControl (sns_Type msg) then
            (case handleCodecommitWebhook msg (codecommitDeps deps now (ap_codecommitFeedbackAllowlistEnv deps)) (as_server s) of
               (result, server) \<Rightarrow> (CcAnswered None result, s\<lparr>as_certs := certs, as_server := server\<rparr>))
          else
            (case idempotency (ap_writeOk deps) now (Some (namespaceDeliveryId CodecommitDelivery (sns_MessageId msg))) (as_deliveries s) of
               (Inl resp, rows) \<Rightarrow> (resp, s\<lparr>as_certs := certs, as_deliveries := rows\<rparr>)
             | (Inr deliveryId, rows) \<Rightarrow>
                 (case handleCodecommitWebhook msg (codecommitDeps deps now None) (as_server s) of
                    (result, server) \<Rightarrow> (CcAnswered (Some deliveryId) result,
                       s\<lparr>as_certs := certs, as_deliveries := rows, as_server := server\<rparr>))))"

section \<open>Deliveries\<close>

definition deliveryRow :: "string \<times> Date \<Rightarrow> WebhookDeliveryRow" where
  "deliveryRow d = \<lparr>wd_deliveryId = fst d, wd_receivedAt = snd d, wd_status = Received\<rparr>"

interpretation deliveries: keyed_store wd_deliveryId "\<lambda>d rows. fst (insertOrNothing wd_deliveryId (deliveryRow d) rows)" fst
  "\<lambda>d old. case old of None \<Rightarrow> deliveryRow d | Some r \<Rightarrow> r"
proof unfold_locales
  fix rows :: "WebhookDeliveryRow list" and d :: "string \<times> Date" and k :: string
  show "distinct (map wd_deliveryId (fst (insertOrNothing wd_deliveryId (deliveryRow d) rows)))"
    if "distinct (map wd_deliveryId rows)" using that by (rule distinct_insertOrNothing)
  show "selectOne (\<lambda>r. wd_deliveryId r = k) (fst (insertOrNothing wd_deliveryId (deliveryRow d) rows)) =
      (if k = fst d then Some (case selectOne (\<lambda>r. wd_deliveryId r = k) rows of None \<Rightarrow> deliveryRow d | Some r \<Rightarrow> r)
       else selectOne (\<lambda>r. wd_deliveryId r = k) rows)"
    by (subst find_insertOrNothing) (simp add: deliveryRow_def)
qed

text \<open>The delivery under which a handler ran.\<close>

fun handledId :: "Response \<Rightarrow> string option" where
  "handledId (Answered d _) = Some d"
| "handledId (CcAnswered d _) = d"
| "handledId _ = None"

lemma idempotency_cases:
  assumes "idempotency dbOk now i rows = (r, rows')"
  shows "(rows' = rows \<and> (\<exists>resp. r = Inl resp \<and> handledId resp = None)) \<or>
    (\<exists>d. i = Some d \<and> d \<noteq> [] \<and> r = Inr d \<and> d \<notin> wd_deliveryId ` set rows \<and> rows' = rows @ [deliveryRow (d, now)])"
  using assms by (auto simp: idempotency_def insertOrNothing_def Let_def deliveryRow_def split: if_splits)

text \<open>A route changes the deliveries only by adding the one it handles.\<close>

definition handles :: "Date \<Rightarrow> AppState \<Rightarrow> Response \<Rightarrow> AppState \<Rightarrow> bool" where
  "handles now s resp s' =
     (case handledId resp of
        None \<Rightarrow> as_deliveries s' = as_deliveries s
      | Some d \<Rightarrow> d \<notin> wd_deliveryId ` set (as_deliveries s) \<and> as_deliveries s' = as_deliveries s @ [deliveryRow (d, now)])"

lemma githubRoute_handles: "githubRoute deps now req s = (resp, s') \<Longrightarrow> handles now s resp s'"
proof -
  assume r: "githubRoute deps now req s = (resp, s')"
  show ?thesis
  proof (cases "verifyGithubSignature deps req")
    case (Inl e)
    then have "handledId e = None" by (auto simp: verifyGithubSignature_def split: option.splits if_splits)
    then show ?thesis using r Inl by (auto simp: githubRoute_def handles_def)
  next
    case (Inr body)
    obtain v rows where i: "idempotency (ap_writeOk deps) now (rq_deliveryId req) (as_deliveries s) = (v, rows)" by fastforce
    show ?thesis
    proof (cases v)
      case (Inl e)
      then have "rows = as_deliveries s" "handledId e = None" using idempotency_cases [OF i] by auto
      then show ?thesis using r Inr Inl i by (auto simp: githubRoute_def handles_def)
    next
      case (Inr d)
      then show ?thesis using r \<open>verifyGithubSignature deps req = Inr body\<close> i idempotency_cases [OF i]
        by (auto simp: githubRoute_def handles_def Let_def split: prod.splits)
    qed
  qed
qed

lemma codecommitRoute_handles: "codecommitRoute deps now raw s = (resp, s') \<Longrightarrow> handles now s resp s'"
proof -
  assume r: "codecommitRoute deps now raw s = (resp, s')"
  obtain verdict certs where v: "verifySnsSignature (ap_sns deps) (ap_parseJson deps) raw (as_certs s) = (verdict, certs)" by fastforce
  show ?thesis
  proof (cases verdict)
    case (Verified msg)
    let ?id = "Some (namespaceDeliveryId CodecommitDelivery (sns_MessageId msg))"
    obtain w rows where i: "idempotency (ap_writeOk deps) now ?id (as_deliveries s) = (w, rows)" by fastforce
    show ?thesis
    proof (cases "isSubscriptionControl (sns_Type msg)")
      case True
      then show ?thesis using r v Verified by (auto simp: codecommitRoute_def handles_def split: prod.splits)
    next
      case False
      show ?thesis
      proof (cases w)
        case (Inl e)
        then have "rows = as_deliveries s" "handledId e = None" using idempotency_cases [OF i] by auto
        then show ?thesis using r v Verified False Inl i by (auto simp: codecommitRoute_def handles_def)
      next
        case (Inr d)
        then show ?thesis using r v Verified False i idempotency_cases [OF i]
          by (auto simp: codecommitRoute_def handles_def split: prod.splits)
      qed
    qed
  qed (use r v in \<open>auto simp: codecommitRoute_def handles_def\<close>)
qed

text \<open>
  The life of the server up to a time, with the handled deliveries: requests of either route,
  sweeps of old delivery rows, and whatever the workers do to the other tables.  Several server
  processes share the tables; a request or a sweep is one step.
\<close>

inductive serverRun :: "AppDeps \<Rightarrow> Date \<Rightarrow> AppState \<Rightarrow> (string \<times> Date) list \<Rightarrow> bool" for deps where
  start: "serverRun deps t \<lparr>as_server = server, as_deliveries = [], as_certs = []\<rparr> []"
| github: "serverRun deps t s handled \<Longrightarrow> t \<le> now \<Longrightarrow> githubRoute deps now req s = (resp, s') \<Longrightarrow>
    serverRun deps now s' (handled @ map (\<lambda>d. (d, now)) (case handledId resp of None \<Rightarrow> [] | Some d \<Rightarrow> [d]))"
| codecommit: "serverRun deps t s handled \<Longrightarrow> t \<le> now \<Longrightarrow> codecommitRoute deps now raw s = (resp, s') \<Longrightarrow>
    serverRun deps now s' (handled @ map (\<lambda>d. (d, now)) (case handledId resp of None \<Rightarrow> [] | Some d \<Rightarrow> [d]))"
| sweep: "serverRun deps t s handled \<Longrightarrow> t \<le> now \<Longrightarrow>
    serverRun deps now (s\<lparr>as_deliveries := idempotencyCleanupTick lockHeld now None (as_deliveries s)\<rparr>) handled"
| worker: "serverRun deps t s handled \<Longrightarrow> t \<le> now \<Longrightarrow> serverRun deps now (s\<lparr>as_server := server\<rparr>) handled"

definition RETENTION_MS :: int where "RETENTION_MS = 7 * 24 * 3600 * 1000"

text \<open>Handled deliveries of the retention period still have their row, and repeats are further apart.\<close>

definition onceInv :: "Date \<Rightarrow> WebhookDeliveryRow list \<Rightarrow> (string \<times> Date) list \<Rightarrow> bool" where
  "onceInv t rows handled =
     ((\<forall>d \<tau>. (d, \<tau>) \<in> set handled \<longrightarrow> t - RETENTION_MS \<le> \<tau> \<longrightarrow> deliveryRow (d, \<tau>) \<in> set rows) \<and>
      (\<forall>i j. i < j \<longrightarrow> j < length handled \<longrightarrow> fst (handled ! i) = fst (handled ! j) \<longrightarrow>
         snd (handled ! i) + RETENTION_MS < snd (handled ! j)))"

lemma onceInv_later: "onceInv t rows handled \<Longrightarrow> t \<le> now \<Longrightarrow> onceInv now rows handled"
  unfolding onceInv_def by (meson diff_right_mono order_trans)

lemma onceInv_sweep:
  "onceInv now rows handled \<Longrightarrow> onceInv now (idempotencyCleanupTick lockHeld now None rows) handled"
  unfolding onceInv_def idempotencyCleanupTick_def Let_def deleteWhere_def
  by (auto simp: deliveryRow_def RETENTION_MS_def DEFAULT_RETENTION_DAYS_def)

lemma onceInv_handle:
  assumes "onceInv now rows handled" "d \<notin> wd_deliveryId ` set rows"
  shows "onceInv now (rows @ [deliveryRow (d, now)]) (handled @ [(d, now)])"
proof -
  have gap: "\<tau> + RETENTION_MS < now" if "(d, \<tau>) \<in> set handled" for \<tau>
  proof (rule ccontr)
    assume "\<not> \<tau> + RETENTION_MS < now"
    then have "deliveryRow (d, \<tau>) \<in> set rows" using assms(1) that by (auto simp: onceInv_def)
    then show False using assms(2) by (force simp: deliveryRow_def)
  qed
  have "snd ((handled @ [(d, now)]) ! i) + RETENTION_MS < snd ((handled @ [(d, now)]) ! j)"
    if ij: "i < j" "j < length (handled @ [(d, now)])" "fst ((handled @ [(d, now)]) ! i) = fst ((handled @ [(d, now)]) ! j)" for i j
  proof (cases "j < length handled")
    case True
    then show ?thesis using ij assms(1) by (auto simp: onceInv_def nth_append)
  next
    case False
    then have "handled ! i \<in> set handled" "j = length handled" "i < length handled" using ij by auto
    moreover have "handled ! i = (d, snd (handled ! i))" using ij(3) calculation by (simp add: nth_append prod_eq_iff)
    ultimately show ?thesis using gap [of "snd (handled ! i)"] by (simp add: nth_append)
  qed
  then show ?thesis using assms(1) unfolding onceInv_def by auto
qed

lemma onceInv_handles:
  assumes "onceInv now (as_deliveries s) handled" "handles now s resp s'"
  shows "onceInv now (as_deliveries s') (handled @ map (\<lambda>d. (d, now)) (case handledId resp of None \<Rightarrow> [] | Some d \<Rightarrow> [d]))"
  using assms onceInv_handle by (cases "handledId resp") (auto simp: handles_def)

lemma serverRun_inv: "serverRun deps t s handled \<Longrightarrow> onceInv t (as_deliveries s) handled"
proof (induction rule: serverRun.induct)
  case (start t server)
  then show ?case by (simp add: onceInv_def)
next
  case (github t s handled now req resp s')
  then show ?case using onceInv_handles [OF onceInv_later] githubRoute_handles by blast
next
  case (codecommit t s handled now raw resp s')
  then show ?case using onceInv_handles [OF onceInv_later] codecommitRoute_handles by blast
next
  case (sweep t s handled now lockHeld)
  then show ?case using onceInv_sweep onceInv_later by simp
next
  case (worker t s handled now server)
  then show ?case using onceInv_later by simp
qed

text \<open>C23: every delivery is handled at most once: in any history of requests on both webhook routes,
  retention sweeps and worker activity, the handler runs for the same delivery id again only after
  the seven days for which delivery rows are kept.\<close>

theorem delivery_handled_once:
  assumes "serverRun deps t s handled" "i < j" "j < length handled" "fst (handled ! i) = fst (handled ! j)"
  shows "snd (handled ! i) + 7 * 24 * 3600 * 1000 < snd (handled ! j)"
  using serverRun_inv [OF assms(1)] assms(2-4) by (simp add: onceInv_def RETENTION_MS_def)

definition sampleApp :: AppDeps where
  "sampleApp = \<lparr>ap_webhookSecret = ''s'', ap_hmac = (\<lambda>k m. k @ m), ap_parseBody = (\<lambda>_. Some (pushTo 7 ''o'' ''r'' 1 ''abcdef0'')),
     ap_parseJson = (\<lambda>_. None), ap_isDatetime = (\<lambda>_. True), ap_send = (\<lambda>_. Inl ''queue down''), ap_checkGithubFeedbackAuthz = None,
     ap_handleConversation = None, ap_getBotLogin = None, ap_botLoginEnv = None, ap_appSlug = None, ap_readOk = True, ap_writeOk = True,
     ap_sns = sampleSnsOpts, ap_allowedSnsTopicArns = None, ap_topicArnsEnv = None, ap_confirmFetch = (\<lambda>_. Inr (True, 200)),
     ap_codecommitFeedbackAllowlistEnv = None, ap_allowlistEnvVar = None\<rparr>"

definition sampleRequest :: GithubRequest where
  "sampleRequest = \<lparr>rq_signature = Some ''sha256=sx'', rq_deliveryId = Some ''d1'', rq_event = Some ''pull_request'', rq_raw = ''x''\<rparr>"

definition sampleApp0 :: AppState where
  "sampleApp0 = \<lparr>as_server = emptyServer, as_deliveries = [], as_certs = []\<rparr>"

lemma sample_route0: "githubRoute sampleApp 0 sampleRequest sampleApp0 =
    (Answered ''d1'' (Inl ''queue down''), sampleApp0\<lparr>as_deliveries := [deliveryRow (''d1'', 0)]\<rparr>)"
  by code_simp

definition samplePing :: GithubRequest where
  "samplePing = sampleRequest\<lparr>rq_event := Some ''ping''\<rparr>"

lemma sample_ping: "githubRoute sampleApp t samplePing sampleApp0 =
    (Answered ''d1'' (Inr (Noop ''ping'')), sampleApp0\<lparr>as_deliveries := [deliveryRow (''d1'', t)]\<rparr>)"
  by (simp add: githubRoute_def verifyGithubSignature_def expectedSignature_def sampleApp_def samplePing_def sampleRequest_def
      sampleApp0_def idempotency_def insertOrNothing_def deliveryRow_def orEmpty_def handleWebhook_def)

lemma sample_history: "\<exists>s. serverRun sampleApp 604800001 s [(''d1'', 0), (''d1'', 604800001)]"
proof -
  have s0: "serverRun sampleApp 0 sampleApp0 []"
    unfolding sampleApp0_def by (rule serverRun.start)
  have "serverRun sampleApp 0 (sampleApp0\<lparr>as_deliveries := [deliveryRow (''d1'', 0)]\<rparr>) [(''d1'', 0)]"
    using serverRun.github [OF s0 order_refl sample_ping] by simp
  then have "serverRun sampleApp 604800001 ((sampleApp0\<lparr>as_deliveries := [deliveryRow (''d1'', 0)]\<rparr>)\<lparr>as_deliveries :=
      idempotencyCleanupTick True 604800001 None (as_deliveries (sampleApp0\<lparr>as_deliveries := [deliveryRow (''d1'', 0)]\<rparr>))\<rparr>) [(''d1'', 0)]"
    by (rule serverRun.sweep) simp
  then have "serverRun sampleApp 604800001 sampleApp0 [(''d1'', 0)]"
    by (simp add: idempotencyCleanupTick_def deleteWhere_def deliveryRow_def DEFAULT_RETENTION_DAYS_def sampleApp0_def)
  from serverRun.github [OF this order_refl sample_ping] show ?thesis by auto
qed

lemma delivery_handled_once_witness:
  "snd ([(''d1'', 0), (''d1'', 604800001)] ! 0) + 7 * 24 * 3600 * 1000 < snd ([(''d1'', 0), (''d1'', 604800001 :: int)] ! 1)"
proof -
  obtain s where "serverRun sampleApp 604800001 s [(''d1'', 0), (''d1'', 604800001)]" using sample_history by blast
  from delivery_handled_once [OF this, of 0 1] show ?thesis by simp
qed

text \<open>A delivery whose handler failed is lost: the row that marks it as received is written before
  the handler runs and stays when it throws, for instance because the queue is down, so the
  sender's retry of that delivery is answered as a duplicate and nothing is done.\<close>

theorem failed_delivery_lost:
  assumes "githubRoute deps now req s = (Answered d (Inl e), s')"
  shows "responseStatus (Answered d (Inl e)) = 500 \<and> githubRoute deps now' req s' = (Deduped, s')"
proof -
  obtain body where v: "verifyGithubSignature deps req = Inr body"
  proof (cases "verifyGithubSignature deps req")
    case (Inl x)
    then show ?thesis using assms by (auto simp: githubRoute_def verifyGithubSignature_def split: option.splits if_splits)
  qed (rule that)
  obtain w rows where i: "idempotency (ap_writeOk deps) now (rq_deliveryId req) (as_deliveries s) = (w, rows)" by fastforce
  have w: "w = Inr d"
  proof (cases w)
    case (Inl resp)
    then show ?thesis using assms v i idempotency_cases [OF i] by (auto simp: githubRoute_def)
  qed (use assms v i in \<open>auto simp: githubRoute_def Let_def split: prod.splits\<close>)
  have rows: "as_deliveries s' = rows" using assms v i w by (auto simp: githubRoute_def Let_def split: prod.splits)
  have "rq_deliveryId req = Some d" "d \<noteq> []" "d \<in> wd_deliveryId ` set rows" "ap_writeOk deps"
    using idempotency_cases [OF i] i w by (auto simp: deliveryRow_def idempotency_def split: if_splits)
  then have "idempotency (ap_writeOk deps) now' (rq_deliveryId req) (as_deliveries s') = (Inl Deduped, as_deliveries s')"
    by (simp add: idempotency_def insertOrNothing_def rows)
  then show ?thesis using v by (simp add: githubRoute_def)
qed

lemma failed_delivery_lost_witness:
  "responseStatus (Answered ''d1'' (Inl ''queue down'')) = 500 \<and>
   githubRoute sampleApp 1 sampleRequest (sampleApp0\<lparr>as_deliveries := [deliveryRow (''d1'', 0)]\<rparr>) =
     (Deduped, sampleApp0\<lparr>as_deliveries := [deliveryRow (''d1'', 0)]\<rparr>)"
  by (rule failed_delivery_lost [OF sample_route0])

section \<open>Authenticity\<close>

text \<open>C24: nothing an unauthenticated client sends has an effect.  A request to the GitHub route changes
  the state only if it carries the HMAC of its raw body under the webhook secret.  A request to the
  CodeCommit route changes anything but the certificate cache only if its body is an SNS envelope that
  names a certificate by an https URL on an allowed host, and the signature check accepts the
  envelope's signature, over its canonical string, under the certificate that was cached for that URL
  or is fetched from it.\<close>

theorem unauthenticated_requests_inert:
  "(let (resp, s') = githubRoute deps now req s
    in s' = s \<or> rq_signature req = Some (''sha256='' @ ap_hmac deps (ap_webhookSecret deps) (rq_raw req))) \<and>
   (let (resp, s') = codecommitRoute deps now raw s; sns = ap_sns deps
    in (as_server s' = as_server s \<and> as_deliveries s' = as_deliveries s) \<or>
       (\<exists>j msg host cert. ap_parseJson deps raw = Some j \<and> snsEnvelope j = Some msg \<and>
          sv_parseUrl sns (sns_SigningCertURL msg) = Some (''https:'', host) \<and>
          rx_test (case sv_allowedCertHostPattern sns of None \<Rightarrow> DEFAULT_CERT_HOST_PATTERN | Some p \<Rightarrow> p) host \<and>
          (sv_fetchCert sns (sns_SigningCertURL msg) = Inr cert \<or>
             (\<exists>e. map_of (as_certs s) (sns_SigningCertURL msg) = Some e \<and> cert = cc_pem e)) \<and>
          sv_verifySignature sns \<lparr>vp_canonical = buildSnsCanonicalString msg, vp_signatureBase64 = sns_Signature msg,
            vp_signatureVersion = sns_SignatureVersion msg, vp_certificatePem = cert\<rparr>))"
proof -
  have g: "s' = s \<or> rq_signature req = Some (''sha256='' @ ap_hmac deps (ap_webhookSecret deps) (rq_raw req))"
    if "githubRoute deps now req s = (resp, s')" for resp s'
    using that by (auto simp: githubRoute_def verifyGithubSignature_def expectedSignature_def split: option.splits if_splits)
  let ?by = "verifiedBy (\<lambda>url pem. sv_fetchCert (ap_sns deps) url = Inr pem \<or> (\<exists>e. map_of (as_certs s) url = Some e \<and> pem = cc_pem e)) (ap_sns deps)"
  have c: "(as_server s' = as_server s \<and> as_deliveries s' = as_deliveries s) \<or>
      (\<exists>j msg. ap_parseJson deps raw = Some j \<and> snsEnvelope j = Some msg \<and> ?by msg)"
    if r: "codecommitRoute deps now raw s = (resp, s')" for resp s'
  proof -
    obtain verdict certs where v: "verifySnsSignature (ap_sns deps) (ap_parseJson deps) raw (as_certs s) = (verdict, certs)" by fastforce
    show ?thesis
    proof (cases verdict)
      case (Verified msg)
      then show ?thesis using verifySnsSignature_verified v by blast
    qed (use r v in \<open>auto simp: codecommitRoute_def\<close>)
  qed
  show ?thesis unfolding Let_def using g c [unfolded verifiedBy_def] by (auto split: prod.splits)
qed

section \<open>Configuration that never reaches the handlers\<close>

lemma resolve_override [simp]:
  "resolveAllowedSnsTopicArns (deps\<lparr>ap_codecommitFeedbackAllowlistEnv := x\<rparr>) = resolveAllowedSnsTopicArns deps"
  by (simp add: resolveAllowedSnsTopicArns_def cong: option.case_cong)

lemma control_ignores_allowlist:
  assumes "isSubscriptionControl (sns_Type msg)"
  shows "handleCodecommitWebhook msg (codecommitDeps deps now a) s = handleCodecommitWebhook msg (codecommitDeps deps now b) s"
proof -
  have c: "cw_confirmFetch (codecommitDeps deps now a) = cw_confirmFetch (codecommitDeps deps now b)"
    "cw_allowedTopicArns (codecommitDeps deps now a) = cw_allowedTopicArns (codecommitDeps deps now b)"
    by (simp_all add: codecommitDeps_def)
  then have "confirmSubscription msg (codecommitDeps deps now a) s = confirmSubscription msg (codecommitDeps deps now b) s"
    unfolding confirmSubscription_def c by simp
  then show ?thesis using assms c(2)
    by (cases "sns_Type msg") (simp_all add: handleCodecommitWebhook_def isSubscriptionControl_def Let_def)
qed

text \<open>The option \<open>codecommitFeedbackAllowlistEnv\<close> of \<open>createApp\<close> has no effect: it is handed to
  the handler on the subscription-control route only, where no feedback is handled, so every
  answer and every state of the server is the same whatever its value.\<close>

theorem allowlist_override_ignored:
  "codecommitRoute (deps\<lparr>ap_codecommitFeedbackAllowlistEnv := x\<rparr>) now raw s = codecommitRoute deps now raw s"
proof -
  have d: "codecommitDeps (deps\<lparr>ap_codecommitFeedbackAllowlistEnv := x\<rparr>) now a = codecommitDeps deps now a" for a
    by (simp add: codecommitDeps_def)
  have sel: "ap_sns (deps\<lparr>ap_codecommitFeedbackAllowlistEnv := x\<rparr>) = ap_sns deps"
    "ap_parseJson (deps\<lparr>ap_codecommitFeedbackAllowlistEnv := x\<rparr>) = ap_parseJson deps"
    "ap_writeOk (deps\<lparr>ap_codecommitFeedbackAllowlistEnv := x\<rparr>) = ap_writeOk deps" by simp_all
  obtain verdict certs where v: "verifySnsSignature (ap_sns deps) (ap_parseJson deps) raw (as_certs s) = (verdict, certs)" by fastforce
  show ?thesis
  proof (cases verdict)
    case (Verified msg)
    show ?thesis
    proof (cases "isSubscriptionControl (sns_Type msg)")
      case True
      then show ?thesis using v Verified control_ignores_allowlist [OF True, of deps now x _ "ap_codecommitFeedbackAllowlistEnv deps"]
        by (simp add: codecommitRoute_def d)
    next
      case False
      then show ?thesis unfolding codecommitRoute_def d sel v Verified by simp
    qed
  qed (use v in \<open>simp_all add: codecommitRoute_def\<close>)
qed

text \<open>Label triggers are dead: \<open>createApp\<close> passes no trigger configuration to the handler, so a
  \<open>labeled\<close> event never queues a review, whatever labels the configuration lists.\<close>

theorem label_trigger_unreachable:
  assumes "ap_parseBody deps (rq_raw req) = Some body" "rq_event req = Some ''pull_request''" "ev_action body = Some ''labeled''"
  shows "ss_queue (as_server (snd (githubRoute deps now req s))) = ss_queue (as_server s)"
proof -
  have "handleWebhook ''pull_request'' body (webhookDeps deps now) srv =
      (Inr (Ignored (''pull_request action '' @ quoted ''labeled'')), srv)" for srv
    using assms(3) by (simp add: handleWebhook_def handlePullRequest_def handleLabeled_def webhookDeps_def)
  then show ?thesis using assms(1,2)
    by (auto simp: githubRoute_def verifyGithubSignature_def orEmpty_def split: option.splits if_splits prod.splits sum.splits)
qed

definition labelApp :: AppDeps where
  "labelApp = sampleApp\<lparr>ap_parseBody := (\<lambda>_. Some ((pushTo 7 ''o'' ''r'' 1 ''abcdef0'')\<lparr>ev_action := Some ''labeled'', ev_label := Some ''review-me''\<rparr>)),
     ap_send := (\<lambda>_. Inr None)\<rparr>"

lemma label_trigger_unreachable_witness:
  "ss_queue (as_server (snd (githubRoute labelApp 0 sampleRequest sampleApp0))) = []"
  by (subst label_trigger_unreachable [where body = "(pushTo 7 ''o'' ''r'' 1 ''abcdef0'')\<lparr>ev_action := Some ''labeled'', ev_label := Some ''review-me''\<rparr>"])
    (simp_all add: labelApp_def sampleRequest_def sampleApp0_def emptyServer_def pushTo_def emptyBody_def)

end
