(* ===== verification/FeedbackProps.thy ===== *)
theory FeedbackProps
  imports Feedback AgentProps
begin

text \<open>
  Feedback and the next review together: the readers of \<open>runReview\<close> wired to the table of
  \<open>Feedback\<close> as the worker wires them.
\<close>

section \<open>Tags written and tags read\<close>

lemma isHexC_iff: "isHexC c = isFpHexC c"
  by (simp add: isHexC_def isFpHexC_def in_cls_def Let_def)

lemma takeWhile_hex: "list_all isFpHexC f \<Longrightarrow> takeWhile isHexC (f @ CHR '']'' # rest) = f"
proof (induction f)
  case Nil
  have "\<not> isFpHexC (CHR '']'')" by (simp add: isFpHexC_def)
  then show ?case by (simp add: isHexC_iff)
qed (simp add: isHexC_iff)

lemma extract_tag: "okFp f \<Longrightarrow> f \<noteq> [] \<Longrightarrow> extractFingerprint (fpTag f @ rest) = Some f"
  by (simp add: extractFingerprint_def fpTag_def okFp_def takeWhile_hex)

section \<open>The wired readers\<close>

definition historyReaderOf :: "Date \<Rightarrow> ReviewHistory \<Rightarrow> HistoryQuery \<Rightarrow> AgentError + LearnedFact list" where
  "historyReaderOf now t q = Inr (map (\<lambda>(ft, x, _). \<lparr>fa_factType = ft, fa_factText = x\<rparr>)
     (loadRecentReviewHistory (hq_installationId q) (hq_repo q) (hq_limit q) now t))"

definition suppressionLoaderOf :: "Date \<Rightarrow> ReviewHistory \<Rightarrow> HistoryQuery \<Rightarrow> AgentError + string list" where
  "suppressionLoaderOf now t q = Inr (map rh_factText (loadActiveSuppressionRules (hq_installationId q) (hq_repo q) now t))"

definition wiredTo :: "Date \<Rightarrow> ReviewHistory \<Rightarrow> EvalContext \<Rightarrow> RunReviewDeps \<Rightarrow> bool" where
  "wiredTo now t ec deps = (rd_historyReader deps = Some (historyReaderOf now t) \<and>
     rd_suppressionLoader deps = Some (suppressionLoaderOf now t) \<and> rd_evalContext deps = Some ec)"

lemma mapSome_mem: "x \<in> set xs \<Longrightarrow> f x = Some y \<Longrightarrow> y \<in> set (mapSome f xs)"
  by (force simp: mapSome_def)

definition activeRows :: "int \<Rightarrow> string \<Rightarrow> Date \<Rightarrow> ReviewHistory \<Rightarrow> ReviewHistoryRow list" where
  "activeRows i repo now t = filter (\<lambda>r. rh_installationId r = i \<and> rh_repo r = repo \<and> now < rh_expiresAt r) (ht_rows t)"

text \<open>A rejection among the rows the reader returns is one of the rejected fingerprints.\<close>

lemma rejection_loaded:
  assumes "wiredTo now t ec deps" "x \<in> set (activeRows (ec_installationId ec) (normalizeRepoKey (rj_prRepo job) (ec_installationId ec)) now t)"
    and "length (activeRows (ec_installationId ec) (normalizeRepoKey (rj_prRepo job) (ec_installationId ec)) now t) \<le> MAX_LEARNED_FACTS"
    and "rh_factType x = RejectedFinding" "extractFingerprint (rh_factText x) = Some f"
  shows "\<exists>facts rejected. loadHistory job deps = Inr (facts, rejected) \<and> f \<in> set rejected"
proof -
  let ?rows = "activeRows (ec_installationId ec) (normalizeRepoKey (rj_prRepo job) (ec_installationId ec)) now t"
  have "loadRecentReviewHistory (ec_installationId ec) (normalizeRepoKey (rj_prRepo job) (ec_installationId ec)) (Some MAX_LEARNED_FACTS) now t =
      map (\<lambda>r. (rh_factType r, rh_factText r, rh_createdAt r)) (newestFirst ?rows)"
    using assms(3) by (simp add: loadRecentReviewHistory_def activeRows_def newestFirst_def)
  then have "loadHistory job deps = Inr (map (\<lambda>r. \<lparr>fa_factType = rh_factType r, fa_factText = rh_factText r\<rparr>) (newestFirst ?rows),
      mapSome (\<lambda>r. extractFingerprint (fa_factText r))
        (filter (\<lambda>r. fa_factType r = RejectedFinding) (map (\<lambda>r. \<lparr>fa_factType = rh_factType r, fa_factText = rh_factText r\<rparr>) (newestFirst ?rows))))"
    using assms(1) by (simp add: loadHistory_def wiredTo_def historyReaderOf_def comp_def)
  moreover have "f \<in> set (mapSome (\<lambda>r. extractFingerprint (fa_factText r))
      (filter (\<lambda>r. fa_factType r = RejectedFinding) (map (\<lambda>r. \<lparr>fa_factType = rh_factType r, fa_factText = rh_factText r\<rparr>) (newestFirst ?rows))))"
    by (rule mapSome_mem [where x = "\<lparr>fa_factType = rh_factType x, fa_factText = rh_factText x\<rparr>"]) (use assms(2,4,5) in \<open>auto intro!: image_eqI [of _ _ x]\<close>)
  ultimately show ?thesis by blast
qed

lemma suppressions_load: "wiredTo now t ec deps \<Longrightarrow> \<exists>suppressed. loadSuppressions job deps = Inr suppressed"
  by (simp add: loadSuppressions_def wiredTo_def suppressionLoaderOf_def)

lemma rule_loaded:
  assumes "wiredTo now t ec deps" "extractFingerprint (rh_factText x) = Some f"
    and "x \<in> set (loadActiveSuppressionRules (ec_installationId ec) (normalizeRepoKey (rj_prRepo job) (ec_installationId ec)) now t)"
  shows "\<exists>suppressed. loadSuppressions job deps = Inr suppressed \<and> f \<in> set suppressed"
proof -
  have "f \<in> set (mapSome extractFingerprint (map rh_factText
      (loadActiveSuppressionRules (ec_installationId ec) (normalizeRepoKey (rj_prRepo job) (ec_installationId ec)) now t)))"
    by (rule mapSome_mem [where x = "rh_factText x"]) (use assms(2,3) in auto)
  then show ?thesis using assms(1) by (simp add: loadSuppressions_def wiredTo_def suppressionLoaderOf_def)
qed

lemma recorded_row:
  assumes "recordFeedback (historyOptions re ps mx threshold written) event w = (Inr False, w')"
  shows "\<exists>x \<in> set (ht_rows (fw_db w')). rh_installationId x = fe_installationId event \<and> rh_repo x = fe_repo event \<and>
    rh_factType x = feedbackKindToFactType (fe_kind event) \<and> rh_expiresAt x = written + HISTORY_TTL_MS \<and>
    (\<exists>redacted. rh_factText x = fpTag (fe_fingerprint event) @ redacted)"
proof -
  let ?opts = "historyOptions re ps mx threshold written"
  let ?inp = "\<lparr>hi_installationId = fe_installationId event, hi_repo = fe_repo event,
     hi_factType = feedbackKindToFactType (fe_kind event), hi_factText = storedFact ?opts event\<rparr>"
  let ?t = "createReviewHistoryWriter written ?inp (fw_db w)"
  obtain so where so: "fo_suppressionOpts ?opts = Some so" by (simp add: historyOptions_def wiredOptions_def)
  have keep: "set (ht_rows (fw_db v)) \<subseteq> set (ht_rows (fw_db (maybeCreateSuppressionRule event so v)))" for v
    using so by (auto simp: maybeCreateSuppressionRule_def historyOptions_def wiredOptions_def createSuppressionRule_def
        createReviewHistoryWriter_def split: sum.splits)
  have "fo_writer ?opts ?inp (fw_db w) = Inr ?t" by (simp add: historyOptions_def wiredOptions_def)
  then have "w' = (let v = w\<lparr>fw_count := fw_count w + 1, fw_db := ?t\<rparr> in
      if feedbackKindToFactType (fe_kind event) = RejectedFinding then maybeCreateSuppressionRule event so v else v)"
    using assms so by (auto simp: recordFeedback_def Let_def split: if_splits)
  then have "set (ht_rows ?t) \<subseteq> set (ht_rows (fw_db w'))"
    using keep [of "w\<lparr>fw_count := fw_count w + 1, fw_db := ?t\<rparr>"] by (auto simp: Let_def)
  moreover have "last (ht_rows ?t) \<in> set (ht_rows ?t)" by (simp add: createReviewHistoryWriter_def)
  ultimately show ?thesis
    by (intro bexI [of _ "last (ht_rows ?t)"]) (auto simp: createReviewHistoryWriter_def storedFact_def Let_def)
qed

text \<open>A rejected fingerprint is not posted.\<close>

lemma rejected_not_posted:
  assumes "loadHistory job deps = Inr (facts, rejected)" "f \<in> set rejected" "loadSuppressions job deps = Inr suppressed"
  shows "case fst (runReviewInner env job provider deps) of Inl _ \<Rightarrow> True
    | Inr r \<Rightarrow> f \<notin> c_fingerprint ` set (rr_comments r)"
proof -
  obtain res st where run: "runReviewInner env job provider deps = (res, st)" by force
  show ?thesis
  proof (cases res)
    case (Inr r)
    have "c_fingerprint c \<noteq> f" if "c \<in> set (rr_comments r)" for c
      using posted_mayPost [OF run [unfolded Inr] that assms(1,3)] assms(2) by (auto simp: mayPost_def)
    then show ?thesis using run Inr by auto
  qed (use run in simp)
qed

section \<open>Properties\<close>

text \<open>
  C26: one rejection is enough.  Once a single rejection of a finding is recorded, the reviews of that
  repository do not post the finding again while the row lives and is among the fifty newest, whatever
  number of rejections \<open>suppress_after\<close> asks for.
\<close>

theorem one_rejection_mutes:
  assumes "recordFeedback (historyOptions re ps mx threshold written) event w = (Inr False, w')"
    and "fe_kind event \<noteq> ThumbsUp" "okFp (fe_fingerprint event)" "fe_fingerprint event \<noteq> []"
    and "wiredTo now (fw_db w') ec deps" "now < written + HISTORY_TTL_MS"
    and "fe_installationId event = ec_installationId ec" "fe_repo event = normalizeRepoKey (rj_prRepo job) (ec_installationId ec)"
    and "length (activeRows (fe_installationId event) (fe_repo event) now (fw_db w')) \<le> MAX_LEARNED_FACTS"
  shows "case fst (runReviewInner env job provider deps) of Inl _ \<Rightarrow> True
    | Inr r \<Rightarrow> fe_fingerprint event \<notin> c_fingerprint ` set (rr_comments r)"
proof -
  obtain x redacted where x: "x \<in> set (ht_rows (fw_db w'))" "rh_installationId x = fe_installationId event"
    "rh_repo x = fe_repo event" "rh_factType x = feedbackKindToFactType (fe_kind event)" "rh_expiresAt x = written + HISTORY_TTL_MS"
    "rh_factText x = fpTag (fe_fingerprint event) @ redacted"
    using recorded_row [OF assms(1)] by blast
  have "x \<in> set (activeRows (ec_installationId ec) (normalizeRepoKey (rj_prRepo job) (ec_installationId ec)) now (fw_db w'))"
    using x assms(6,7,8) by (simp add: activeRows_def)
  moreover have "rh_factType x = RejectedFinding" using x(4) assms(2) by (simp add: feedbackKindToFactType_def)
  moreover have "extractFingerprint (rh_factText x) = Some (fe_fingerprint event)"
    unfolding x(6) by (rule extract_tag [OF assms(3,4)])
  ultimately obtain facts rejected where l: "loadHistory job deps = Inr (facts, rejected)" "fe_fingerprint event \<in> set rejected"
    using rejection_loaded [OF assms(5)] assms(7,8,9) by metis
  obtain suppressed where sup: "loadSuppressions job deps = Inr suppressed" using suppressions_load [OF assms(5)] by blast
  show ?thesis by (rule rejected_not_posted [OF l sup])
qed

text \<open>
  The witness rejects the one finding of the sample answer, once, where the threshold is three; the
  model gives that answer again and the review posts nothing with its fingerprint.
\<close>

definition rejectedDeps :: "ReviewHistory \<Rightarrow> RunReviewDeps" where
  "rejectedDeps t = (sampleRunDeps (Some (\<lambda>_. [])))
     \<lparr>rd_historyReader := Some (historyReaderOf 5 t), rd_suppressionLoader := Some (suppressionLoaderOf 5 t),
      rd_evalContext := Some \<lparr>ec_installationId = 1, ec_prNumber = 7, ec_headSha = []\<rparr>\<rparr>"

lemma sample_recorded:
  "\<exists>w'. recordFeedback (historyOptions (\<lambda>_. None) None None 3 1) (sampleFeedback ThumbsDown) (newWriter emptyHistory) = (Inr False, w') \<and>
     length (ht_rows (fw_db w')) = 1"
  by (simp add: recordFeedback_def limitReached_def historyOptions_def wiredOptions_def newWriter_def DEFAULT_MAX_WRITES_PER_JOB_def
      maybeCreateSuppressionRule_def countRejectionsByFingerprint_def createReviewHistoryWriter_def emptyHistory_def Let_def)

theorem one_rejection_mutes_witness:
  "\<exists>w'. recordFeedback (historyOptions (\<lambda>_. None) None None 3 1) (sampleFeedback ThumbsDown) (newWriter emptyHistory) = (Inr False, w') \<and>
     (case fst (runReviewInner (sampleEnv\<lparr>env_fingerprint := \<lambda>_. ''ab12''\<rparr>) (sampleJob 10) (sampleProvider 1 sampleOutput) (rejectedDeps (fw_db w'))) of
        Inl _ \<Rightarrow> True | Inr r \<Rightarrow> ''ab12'' \<notin> c_fingerprint ` set (rr_comments r))"
proof -
  obtain w' where w': "recordFeedback (historyOptions (\<lambda>_. None) None None 3 1) (sampleFeedback ThumbsDown) (newWriter emptyHistory) = (Inr False, w')"
    "length (ht_rows (fw_db w')) = 1" using sample_recorded by blast
  have wired: "wiredTo 5 (fw_db w') \<lparr>ec_installationId = 1, ec_prNumber = 7, ec_headSha = []\<rparr> (rejectedDeps (fw_db w'))"
    by (simp add: wiredTo_def rejectedDeps_def)
  have few: "length (activeRows (fe_installationId (sampleFeedback ThumbsDown)) (fe_repo (sampleFeedback ThumbsDown)) 5 (fw_db w')) \<le> MAX_LEARNED_FACTS"
    using w'(2) by (simp add: activeRows_def MAX_LEARNED_FACTS_def le_trans [OF length_filter_le])
  have event: "fe_kind (sampleFeedback ThumbsDown) \<noteq> ThumbsUp" "okFp (fe_fingerprint (sampleFeedback ThumbsDown))"
    "fe_fingerprint (sampleFeedback ThumbsDown) \<noteq> []" "fe_fingerprint (sampleFeedback ThumbsDown) = ''ab12''"
    by (simp_all add: sampleFeedback_def okFp_def isFpHexC_def)
  have key: "fe_repo (sampleFeedback ThumbsDown) = normalizeRepoKey (rj_prRepo (sampleJob 10)) 1" "fe_installationId (sampleFeedback ThumbsDown) = 1"
    by (simp_all add: sampleFeedback_def normalizeRepoKey_def sampleJob_def)
  have time: "(5 :: int) < 1 + HISTORY_TTL_MS" by (simp add: HISTORY_TTL_MS_def)
  have "case fst (runReviewInner (sampleEnv\<lparr>env_fingerprint := \<lambda>_. ''ab12''\<rparr>) (sampleJob 10) (sampleProvider 1 sampleOutput) (rejectedDeps (fw_db w'))) of
      Inl _ \<Rightarrow> True | Inr r \<Rightarrow> fe_fingerprint (sampleFeedback ThumbsDown) \<notin> c_fingerprint ` set (rr_comments r)"
    by (rule one_rejection_mutes [OF w'(1) event(1-3) wired time _ _ few]) (simp_all add: key)
  then show ?thesis using w'(1) unfolding event(4) by blast
qed

end
