(* ===== verification/Presets.thy ===== *)
theory Presets
  imports Prelude Complex_Main "HOL-Library.AList"
begin

text \<open>
  Raw configuration values and the presets of \<open>config/src/preset-loader.ts\<close>.  A \<open>yval\<close> is
  what the YAML parser returns: an object is the list of its members in insertion order, a number
  is a rational or one of the two infinities (\<open>.inf\<close>); a NaN is rejected by every schema and is
  one value.  The three bundled documents are given as the objects their YAML text denotes.
\<close>

datatype jsnum = Fin rat | PosInf | NegInf | NaN

datatype yval = YNull | YBool bool | YNum jsnum | YStr string | YArr "yval list" | YObj "(string \<times> yval) list"

type_synonym yobj = "(string \<times> yval) list"

datatype ConfigError =
    InvalidYaml
  | InvalidConfig
  | PresetNotFound yval
  | PresetCycle "string list"
  | OrgConfigMissing string
  | OrgFetchFailed string
  | UnsupportedLanguage string
  | InvalidProvider string
  | ProviderModelTogether
  | InvalidMaxUsd string
  | InvalidMaxSteps string

text \<open>Sequencing of fallible steps: the first error is the result.\<close>

definition resultBind :: "'e + 'a \<Rightarrow> ('a \<Rightarrow> 'e + 'b) \<Rightarrow> 'e + 'b" where
  "resultBind r f = (case r of Inl e \<Rightarrow> Inl e | Inr x \<Rightarrow> f x)"

section \<open>Deep merge\<close>

text \<open>
  \<open>deepMerge\<close>: the loop over the source's keys writes into a copy of the target; two objects
  under one key are merged recursively, anything else is replaced.
\<close>

function deepMergeInto :: "yobj \<Rightarrow> yobj \<Rightarrow> yobj \<Rightarrow> yobj" where
  "deepMergeInto target result [] = result"
| "deepMergeInto target result ((key, srcVal) # rest) =
     deepMergeInto target
       (AList.update key
          (case (srcVal, map_of target key) of
             (YObj s, Some (YObj t)) \<Rightarrow> YObj (deepMergeInto t t s)
           | _ \<Rightarrow> srcVal) result)
       rest"
  by pat_completeness auto
termination
  by (relation "measure (\<lambda>(_, _, src). size_list (size_prod (\<lambda>_. 0) size) src)") auto

definition deepMerge :: "yobj \<Rightarrow> yobj \<Rightarrow> yobj" where
  "deepMerge target src = deepMergeInto target target src"

section \<open>The bundled presets\<close>

definition yint :: "int \<Rightarrow> yval" where "yint n = YNum (Fin (of_int n))"
definition yenabled :: "bool \<Rightarrow> string \<Rightarrow> yval" where
  "yenabled b sev = YObj [(''enabled'', YBool b), (''min_severity'', YStr sev)]"

definition PRESET_PATH_FILTERS :: yval where
  "PRESET_PATH_FILTERS = YArr (map YStr [''!dist/**'', ''!build/**'', ''!coverage/**'', ''!**/*.lock'',
     ''!**/*.generated.*'', ''!**/__snapshots__/**'', ''!**/*.min.js'', ''!**/*.min.css''])"

definition PRESET_IGNORE_AUTHORS :: yval where
  "PRESET_IGNORE_AUTHORS = YArr (map YStr [''dependabot[bot]'', ''renovate[bot]'', ''github-actions[bot]''])"

definition RECOMMENDED_YAML :: yobj where
  "RECOMMENDED_YAML =
    [(''reviews'', YObj
       [(''auto_review'', YObj [(''enabled'', YBool True), (''drafts'', YBool False),
           (''base_branches'', YArr (map YStr [''main'', ''master'', ''develop'']))]),
        (''path_filters'', PRESET_PATH_FILTERS), (''max_files'', yint 50), (''max_diff_lines'', yint 3000),
        (''ignore_authors'', PRESET_IGNORE_AUTHORS), (''min_confidence'', YStr ''low''),
        (''request_changes_on'', YStr ''critical''), (''max_steps'', yint 20)]),
     (''cost'', YObj [(''max_usd_per_pr'', yint 1), (''hard_stop'', YBool True), (''daily_cap_usd'', yint 50)]),
     (''ruleset'', YObj
       [(''bug'', yenabled True ''minor''), (''security'', yenabled True ''minor''),
        (''performance'', yenabled True ''major''), (''maintainability'', yenabled True ''major''),
        (''style'', yenabled True ''minor''), (''docs'', yenabled True ''info''), (''test'', yenabled True ''minor'')])]"

definition STRICT_YAML :: yobj where
  "STRICT_YAML =
    [(''reviews'', YObj
       [(''auto_review'', YObj [(''enabled'', YBool True), (''drafts'', YBool True)]),
        (''path_filters'', PRESET_PATH_FILTERS), (''max_files'', yint 100), (''max_diff_lines'', yint 5000),
        (''ignore_authors'', PRESET_IGNORE_AUTHORS), (''min_confidence'', YStr ''low''),
        (''request_changes_on'', YStr ''major''), (''max_steps'', yint 30)]),
     (''cost'', YObj [(''max_usd_per_pr'', yint 2), (''hard_stop'', YBool True), (''daily_cap_usd'', yint 100)]),
     (''ruleset'', YObj
       [(''bug'', yenabled True ''info''), (''security'', yenabled True ''info''),
        (''performance'', yenabled True ''minor''), (''maintainability'', yenabled True ''minor''),
        (''style'', yenabled True ''minor''), (''docs'', yenabled True ''info''), (''test'', yenabled True ''info'')])]"

definition SECURITY_FOCUSED_YAML :: yobj where
  "SECURITY_FOCUSED_YAML =
    [(''reviews'', YObj
       [(''auto_review'', YObj [(''enabled'', YBool True), (''drafts'', YBool True)]),
        (''path_filters'', PRESET_PATH_FILTERS), (''max_files'', yint 100), (''max_diff_lines'', yint 5000),
        (''ignore_authors'', PRESET_IGNORE_AUTHORS), (''min_confidence'', YStr ''low''),
        (''request_changes_on'', YStr ''critical''), (''max_steps'', yint 30)]),
     (''cost'', YObj [(''max_usd_per_pr'', yint 2), (''hard_stop'', YBool True), (''daily_cap_usd'', yint 100)]),
     (''ruleset'', YObj
       [(''bug'', yenabled True ''minor''), (''security'', yenabled True ''info''),
        (''performance'', yenabled True ''major''), (''maintainability'', YObj [(''enabled'', YBool False)]),
        (''style'', YObj [(''enabled'', YBool False)]), (''docs'', YObj [(''enabled'', YBool False)]),
        (''test'', yenabled True ''minor'')])]"

definition BUNDLED_PRESETS :: "(string \<times> yobj) list" where
  "BUNDLED_PRESETS = [(''recommended'', RECOMMENDED_YAML), (''strict'', STRICT_YAML),
     (''security-focused'', SECURITY_FOCUSED_YAML)]"

text \<open>An entry that is not a string is cast to one and is no preset name.\<close>

definition loadBundledPresetRaw :: "yval \<Rightarrow> ConfigError + yobj" where
  "loadBundledPresetRaw name =
     (case name of
        YStr s \<Rightarrow> (case map_of BUNDLED_PRESETS s of None \<Rightarrow> Inl (PresetNotFound name) | Some raw \<Rightarrow> Inr raw)
      | _ \<Rightarrow> Inl (PresetNotFound name))"

text \<open>
  The loop of \<open>resolveExtendsPresets\<close>: \<open>visited\<close> is the set of the names so far, in order.
  The check of a preset's own \<open>extends\<close> is kept: its entries may not have been visited.
\<close>

definition innerVisited :: "string list \<Rightarrow> yobj \<Rightarrow> string option" where
  "innerVisited visited raw =
     (case map_of raw ''extends'' of
        Some (YArr inner) \<Rightarrow> List.find (\<lambda>s. s \<in> set visited) (List.map_filter (\<lambda>v. case v of YStr s \<Rightarrow> Some s | _ \<Rightarrow> None) inner)
      | _ \<Rightarrow> None)"

fun resolvePresets :: "yval list \<Rightarrow> string list \<Rightarrow> yobj \<Rightarrow> ConfigError + yobj" where
  "resolvePresets [] visited base = Inr base"
| "resolvePresets (name # names) visited base =
     (if name = YStr ''org'' then Inl (PresetNotFound name)
      else case name of
        YStr s \<Rightarrow>
          (if s \<in> set visited then Inl (PresetCycle (visited @ [s]))
           else case loadBundledPresetRaw name of
                  Inl e \<Rightarrow> Inl e
                | Inr raw \<Rightarrow>
                    (case innerVisited (visited @ [s]) raw of
                       Some inner \<Rightarrow> Inl (PresetCycle (visited @ [s] @ [inner]))
                     | None \<Rightarrow> resolvePresets names (visited @ [s]) (deepMerge base raw)))
      | _ \<Rightarrow> Inl (PresetNotFound name))"

definition resolveExtendsPresets :: "yval list \<Rightarrow> yobj \<Rightarrow> ConfigError + yobj" where
  "resolveExtendsPresets extendsValue repoRaw =
     (case resolvePresets extendsValue [] [] of Inl e \<Rightarrow> Inl e | Inr base \<Rightarrow> Inr (deepMerge base repoRaw))"

section \<open>What a merge does\<close>

text \<open>The value a path of keys leads to.\<close>

fun yget :: "string list \<Rightarrow> yval \<Rightarrow> yval option" where
  "yget [] v = Some v"
| "yget (k # ks) v = (case v of YObj kvs \<Rightarrow> (case map_of kvs k of None \<Rightarrow> None | Some w \<Rightarrow> yget ks w) | _ \<Rightarrow> None)"

text \<open>What the merge puts under a key both sides have.\<close>

definition mergeUnder :: "yval option \<Rightarrow> yval \<Rightarrow> yval" where
  "mergeUnder tgtVal srcVal =
     (case (srcVal, tgtVal) of (YObj s, Some (YObj t)) \<Rightarrow> YObj (deepMerge t s) | _ \<Rightarrow> srcVal)"

lemma mergeUnder_step:
  "(case (srcVal, tgtVal) of (YObj s, Some (YObj t)) \<Rightarrow> YObj (deepMergeInto t t s) | _ \<Rightarrow> srcVal) = mergeUnder tgtVal srcVal"
  by (auto simp: mergeUnder_def deepMerge_def split: yval.split option.split)

lemma deepMergeInto_Cons:
  "deepMergeInto target res ((key, srcVal) # rest) =
     deepMergeInto target (AList.update key (mergeUnder (map_of target key) srcVal) res) rest"
  by (simp only: deepMergeInto.simps mergeUnder_step)

lemma deepMergeInto_lookup:
  assumes "distinct (map fst src)"
  shows "map_of (deepMergeInto target res src) k =
    (case map_of src k of None \<Rightarrow> map_of res k | Some v \<Rightarrow> Some (mergeUnder (map_of target k) v))"
  using assms
proof (induction src arbitrary: res)
  case Nil
  show ?case by simp
next
  case (Cons kv rest)
  obtain key srcVal where kv: "kv = (key, srcVal)" by (cases kv)
  from Cons.prems kv have "map_of rest key = None" by (simp add: map_of_eq_None_iff)
  with Cons kv show ?case by (auto simp: deepMergeInto_Cons update_conv' simp del: deepMergeInto.simps split: option.splits)
qed

lemma deepMerge_lookup:
  "distinct (map fst src) \<Longrightarrow> map_of (deepMerge target src) k =
    (case map_of src k of None \<Rightarrow> map_of target k | Some v \<Rightarrow> Some (mergeUnder (map_of target k) v))"
  by (simp add: deepMerge_def deepMergeInto_lookup)

lemma deepMergeInto_distinct: "distinct (map fst res) \<Longrightarrow> distinct (map fst (deepMergeInto target res src))"
  by (induction src arbitrary: res) (auto simp: distinct_update simp del: deepMergeInto.simps(2) simp: deepMergeInto_Cons)

text \<open>Every object inside a value has distinct keys.\<close>

fun ywf :: "yval \<Rightarrow> bool" where
  "ywf (YObj kvs) = (distinct (map fst kvs) \<and> (\<forall>kv \<in> set kvs. ywf (snd kv)))"
| "ywf (YArr vs) = (\<forall>v \<in> set vs. ywf v)"
| "ywf _ = True"

text \<open>
  A path that leads to a leaf of the source leads to the same leaf of the merge: the source wins.  A
  path the source does not touch at any level keeps what the target has there.
\<close>

definition isLeaf :: "yval \<Rightarrow> bool" where
  "isLeaf v = (case v of YObj _ \<Rightarrow> False | _ \<Rightarrow> True)"

lemma yget_merge_wins:
  "ywf src \<Longrightarrow> yget ks src = Some leaf \<Longrightarrow> isLeaf leaf \<Longrightarrow> yget ks (mergeUnder tgt src) = Some leaf"
proof (induction ks arbitrary: src tgt)
  case Nil
  then show ?case by (auto simp: mergeUnder_def isLeaf_def split: yval.splits)
next
  case (Cons k ks)
  then obtain s w where s: "src = YObj s" and w: "map_of s k = Some w" "yget ks w = Some leaf"
    by (auto split: yval.splits option.splits)
  have wf: "ywf w" using Cons.prems(1) w(1) s by (auto dest: map_of_SomeD)
  show ?case
  proof (cases "\<exists>t. tgt = Some (YObj t)")
    case True
    then obtain t where t: "tgt = Some (YObj t)" by blast
    from Cons.IH [OF wf w(2) Cons.prems(3)] show ?thesis
      using Cons.prems(1) by (simp add: s t mergeUnder_def [of "Some (YObj t)"] deepMerge_lookup w(1))
  next
    case False
    with s Cons.prems(2) show ?thesis by (auto simp: mergeUnder_def split: option.splits yval.splits)
  qed
qed

lemma yget_merge_keeps:
  "ywf src \<Longrightarrow> (\<And>i. i \<le> length ks \<Longrightarrow> yget (take i ks) src \<noteq> None \<Longrightarrow> \<exists>s. yget (take i ks) src = Some (YObj s)) \<Longrightarrow>
   yget ks src = None \<Longrightarrow> yget ks tgt = Some v \<Longrightarrow> yget ks (mergeUnder (Some tgt) src) = Some v"
proof (induction ks arbitrary: src tgt)
  case Nil
  then show ?case by simp
next
  case (Cons k ks)
  obtain s where s: "src = YObj s" using Cons.prems(2) [of 0] by auto
  obtain t w where t: "tgt = YObj t" and w: "map_of t k = Some w" "yget ks w = Some v"
    using Cons.prems(4) by (auto split: yval.splits option.splits)
  show ?case
  proof (cases "map_of s k")
    case None
    then show ?thesis using Cons.prems(1) w by (simp add: s t mergeUnder_def deepMerge_lookup)
  next
    case (Some u)
    have wf: "ywf u" using Cons.prems(1) Some s by (auto dest: map_of_SomeD)
    have step: "\<exists>o'. yget (take i ks) u = Some (YObj o')" if "i \<le> length ks" "yget (take i ks) u \<noteq> None" for i
      using Cons.prems(2) [of "Suc i"] that Some s by simp
    have none: "yget ks u = None" using Cons.prems(3) Some s by simp
    from Cons.IH [OF wf step none w(2)] show ?thesis
      using Cons.prems(1) by (simp add: s t Some w(1) mergeUnder_def [of "Some (YObj t)"] deepMerge_lookup)
  qed
qed

end
