(* ===== verification/ConfigSchema.thy ===== *)
theory ConfigSchema
  imports Presets Providers Incremental Feedback "HOL-Library.Monad_Syntax"
begin

text \<open>
  The configuration schema, \<open>config/src/schema.ts\<close>: one record per section and the parser zod
  derives from its declaration.  \<open>None\<close> is a rejected value; which issues zod lists is not modelled.
  zod's URL check and \<open>new RegExp\<close> are parameters.  An absent key takes the declared default; a
  section with \<open>.default({})\<close> is then parsed from the empty object.
\<close>

record SchemaDeps =
  sd_isUrl :: "string \<Rightarrow> bool"
  sd_newRegExp :: "string \<Rightarrow> rx option"

section \<open>Sections\<close>

record ProviderSection =
  qp_type :: ProviderType
  qp_model :: string
  qp_fallback_models :: "string list"
  qp_base_url :: "string option"
  qp_region :: "string option"
  qp_azure_deployment :: "string option"
  qp_vertex_project_id :: "string option"
  qp_anthropic_cache_control :: bool

record AutoReviewSection =
  qa_enabled :: bool
  qa_drafts :: bool
  qa_base_branches :: "string list"
  qa_paths :: "string list"
  qa_trigger_labels :: "string list"
  qa_skip_labels :: "string list"

record ReviewsSection =
  qr_auto_review :: AutoReviewSection
  qr_path_filters :: "string list"
  qr_path_instructions :: "PathInstruction list"
  qr_max_files :: int
  qr_max_diff_lines :: int
  qr_ignore_authors :: "string list"
  qr_min_confidence :: Confidence
  qr_request_changes_on :: RequestChangesThreshold
  qr_max_steps :: int
  qr_max_conversation_turns :: int

record CostSection =
  qc_max_usd_per_pr :: jsnum
  qc_hard_stop :: bool
  qc_daily_cap_usd :: jsnum

record PrivacySection =
  qv_redact_patterns :: "string list"
  qv_deny_paths :: "string list"
  qv_allowed_url_prefixes :: "string list"

record RepoSection =
  qo_submodules :: bool
  qo_lfs :: bool

record CoordinationSection =
  qb_other_bots :: CoordinationMode
  qb_other_bots_logins :: "string list"

datatype WorkspaceStrategy = SparseClone | ContentsApi | NoWorkspace
datatype ApprovalState = Managed | ApprovalOff
datatype Profile = Chill | Assertive
datatype Extends = ExtNull | ExtName string | ExtList "string list"

record Config =
  cf_extends :: "Extends option"
  cf_language :: string
  cf_profile :: Profile
  cf_provider :: "ProviderSection option"
  cf_reviews :: ReviewsSection
  cf_cost :: CostSection
  cf_privacy :: PrivacySection
  cf_repo :: RepoSection
  cf_skills :: "string list"
  cf_incremental_enabled :: bool
  cf_coordination :: CoordinationSection
  cf_workspace_strategy :: WorkspaceStrategy
  cf_approvalState :: ApprovalState
  cf_ruleset :: Ruleset
  cf_suppress_after :: int

section \<open>Enumerations\<close>

definition SUPPORTED_LANGUAGES :: "string list" where
  "SUPPORTED_LANGUAGES = [''en-US'', ''ja-JP'', ''zh-CN'', ''zh-TW'', ''ko-KR'', ''de-DE'', ''fr-FR'', ''es-ES'',
     ''pt-BR'', ''it-IT'', ''ru-RU'', ''pl-PL'', ''tr-TR'']"

definition isSupportedLanguage :: "string \<Rightarrow> bool" where
  "isSupportedLanguage v = (v \<in> set SUPPORTED_LANGUAGES)"

definition KNOWN_REVIEW_BOT_LOGINS :: "string list" where
  "KNOWN_REVIEW_BOT_LOGINS = [''coderabbitai[bot]'', ''qodo-merge[bot]'', ''pr-agent-bot[bot]'', ''bedrock-pr-reviewer[bot]'']"

definition isKnownReviewBotLogin :: "string \<Rightarrow> bool" where
  "isKnownReviewBotLogin login = (login \<in> set KNOWN_REVIEW_BOT_LOGINS)"

definition PROVIDER_TYPES :: "(string \<times> ProviderType) list" where
  "PROVIDER_TYPES = [(''anthropic'', Anthropic), (''openai'', Openai), (''azure-openai'', AzureOpenai), (''google'', Google),
     (''vertex'', Vertex), (''bedrock'', Bedrock), (''openai-compatible'', OpenaiCompatible)]"
definition SEVERITY_NAMES :: "(string \<times> Severity) list" where
  "SEVERITY_NAMES = [(''critical'', Critical), (''major'', Major), (''minor'', Minor), (''info'', Info)]"
definition CONFIDENCE_NAMES :: "(string \<times> Confidence) list" where
  "CONFIDENCE_NAMES = [(''high'', High), (''medium'', Medium), (''low'', Low)]"
definition CATEGORY_NAMES :: "(string \<times> Category) list" where
  "CATEGORY_NAMES = [(''bug'', Bug), (''security'', Security), (''performance'', Performance),
     (''maintainability'', Maintainability), (''style'', Style), (''docs'', Docs), (''test'', Tests)]"
definition THRESHOLD_NAMES :: "(string \<times> RequestChangesThreshold) list" where
  "THRESHOLD_NAMES = [(''critical'', ThrCritical), (''major'', ThrMajor), (''never'', ThrNever)]"
definition STRATEGY_NAMES :: "(string \<times> WorkspaceStrategy) list" where
  "STRATEGY_NAMES = [(''sparse-clone'', SparseClone), (''contents-api'', ContentsApi), (''none'', NoWorkspace)]"
definition APPROVAL_NAMES :: "(string \<times> ApprovalState) list" where
  "APPROVAL_NAMES = [(''managed'', Managed), (''off'', ApprovalOff)]"
definition PROFILE_NAMES :: "(string \<times> Profile) list" where
  "PROFILE_NAMES = [(''chill'', Chill), (''assertive'', Assertive)]"
definition COORDINATION_NAMES :: "(string \<times> CoordinationMode) list" where
  "COORDINATION_NAMES = [(''ignore'', Ignore), (''defer_if_present'', DeferIfPresent)]"

section \<open>Values\<close>

definition zBool :: "yval \<Rightarrow> bool option" where
  "zBool v = (case v of YBool b \<Rightarrow> Some b | _ \<Rightarrow> None)"

definition zString :: "(string \<Rightarrow> bool) \<Rightarrow> yval \<Rightarrow> string option" where
  "zString ok v = (case v of YStr s \<Rightarrow> if ok s then Some s else None | _ \<Rightarrow> None)"

definition nonEmpty :: "string \<Rightarrow> bool" where "nonEmpty s = (s \<noteq> [])"
definition anyString :: "string \<Rightarrow> bool" where "anyString s = True"

definition zEnum :: "(string \<times> 'a) list \<Rightarrow> yval \<Rightarrow> 'a option" where
  "zEnum names v = (case v of YStr s \<Rightarrow> map_of names s | _ \<Rightarrow> None)"

text \<open>\<open>z.number().int()\<close> with a condition; \<open>Number.isInteger\<close> refuses the infinities.\<close>

definition zInt :: "(int \<Rightarrow> bool) \<Rightarrow> yval \<Rightarrow> int option" where
  "zInt ok v = (case v of
      YNum (Fin q) \<Rightarrow> if of_int \<lfloor>q\<rfloor> = q \<and> ok \<lfloor>q\<rfloor> then Some \<lfloor>q\<rfloor> else None
    | _ \<Rightarrow> None)"

text \<open>\<open>z.number().positive()\<close>: infinity is a number greater than zero.\<close>

definition zPositive :: "yval \<Rightarrow> jsnum option" where
  "zPositive v = (case v of
      YNum (Fin q) \<Rightarrow> if 0 < q then Some (Fin q) else None
    | YNum PosInf \<Rightarrow> Some PosInf
    | _ \<Rightarrow> None)"

fun zAll :: "('a \<Rightarrow> 'b option) \<Rightarrow> 'a list \<Rightarrow> 'b list option" where
  "zAll p [] = Some []"
| "zAll p (v # vs) = (case (p v, zAll p vs) of (Some x, Some xs) \<Rightarrow> Some (x # xs) | _ \<Rightarrow> None)"

definition zArray :: "(yval \<Rightarrow> 'b option) \<Rightarrow> yval \<Rightarrow> 'b list option" where
  "zArray p v = (case v of YArr vs \<Rightarrow> zAll p vs | _ \<Rightarrow> None)"

text \<open>\<open>z.object(...).strict()\<close> and its members: with a default, optional, and required.\<close>

definition zStrict :: "string list \<Rightarrow> yval \<Rightarrow> yobj option" where
  "zStrict keys v = (case v of YObj kvs \<Rightarrow> if set (map fst kvs) \<subseteq> set keys then Some kvs else None | _ \<Rightarrow> None)"

definition zField :: "yobj \<Rightarrow> string \<Rightarrow> (yval \<Rightarrow> 'a option) \<Rightarrow> 'a \<Rightarrow> 'a option" where
  "zField kvs k p d = (case map_of kvs k of None \<Rightarrow> Some d | Some v \<Rightarrow> p v)"

definition zSection :: "yobj \<Rightarrow> string \<Rightarrow> (yval \<Rightarrow> 'a option) \<Rightarrow> 'a option" where
  "zSection kvs k p = p (case map_of kvs k of None \<Rightarrow> YObj [] | Some v \<Rightarrow> v)"

definition zOptional :: "yobj \<Rightarrow> string \<Rightarrow> (yval \<Rightarrow> 'a option) \<Rightarrow> 'a option option" where
  "zOptional kvs k p = (case map_of kvs k of None \<Rightarrow> Some None | Some v \<Rightarrow> map_option Some (p v))"

definition zRequired :: "yobj \<Rightarrow> string \<Rightarrow> (yval \<Rightarrow> 'a option) \<Rightarrow> 'a option" where
  "zRequired kvs k p = (case map_of kvs k of None \<Rightarrow> None | Some v \<Rightarrow> p v)"

section \<open>The schemas\<close>

definition ProviderSchema :: "SchemaDeps \<Rightarrow> yval \<Rightarrow> ProviderSection option" where
  "ProviderSchema q v = do {
     o' \<leftarrow> zStrict [''type'', ''model'', ''fallback_models'', ''base_url'', ''region'', ''azure_deployment'',
        ''vertex_project_id'', ''anthropic_cache_control''] v;
     ty \<leftarrow> zRequired o' ''type'' (zEnum PROVIDER_TYPES);
     model \<leftarrow> zRequired o' ''model'' (zString nonEmpty);
     fb \<leftarrow> zField o' ''fallback_models'' (zArray (zString nonEmpty)) [];
     url \<leftarrow> zOptional o' ''base_url'' (zString (sd_isUrl q));
     region \<leftarrow> zOptional o' ''region'' (zString anyString);
     azure \<leftarrow> zOptional o' ''azure_deployment'' (zString anyString);
     vertex \<leftarrow> zOptional o' ''vertex_project_id'' (zString anyString);
     cc \<leftarrow> zField o' ''anthropic_cache_control'' zBool True;
     Some \<lparr>qp_type = ty, qp_model = model, qp_fallback_models = fb, qp_base_url = url, qp_region = region,
       qp_azure_deployment = azure, qp_vertex_project_id = vertex, qp_anthropic_cache_control = cc\<rparr>}"

definition AutoReviewSchema :: "yval \<Rightarrow> AutoReviewSection option" where
  "AutoReviewSchema v = do {
     o' \<leftarrow> zStrict [''enabled'', ''drafts'', ''base_branches'', ''paths'', ''trigger_labels'', ''skip_labels''] v;
     en \<leftarrow> zField o' ''enabled'' zBool True;
     dr \<leftarrow> zField o' ''drafts'' zBool False;
     bb \<leftarrow> zField o' ''base_branches'' (zArray (zString nonEmpty)) [''main'', ''master'', ''develop''];
     ps \<leftarrow> zField o' ''paths'' (zArray (zString nonEmpty)) [];
     tl \<leftarrow> zField o' ''trigger_labels'' (zArray (zString nonEmpty)) [];
     sl \<leftarrow> zField o' ''skip_labels'' (zArray (zString nonEmpty)) [];
     Some \<lparr>qa_enabled = en, qa_drafts = dr, qa_base_branches = bb, qa_paths = ps, qa_trigger_labels = tl, qa_skip_labels = sl\<rparr>}"

definition AutoFetchSchema :: "yval \<Rightarrow> AutoFetchOptions option" where
  "AutoFetchSchema v = do {
     o' \<leftarrow> zStrict [''tests'', ''types'', ''siblings''] v;
     a \<leftarrow> zField o' ''tests'' zBool True;
     b \<leftarrow> zField o' ''types'' zBool True;
     c \<leftarrow> zField o' ''siblings'' zBool False;
     Some \<lparr>af_tests = Some a, af_types = Some b, af_siblings = Some c\<rparr>}"

definition globString :: "string \<Rightarrow> bool" where
  "globString s = (nonEmpty s \<and> isValidGlob s)"

definition regexString :: "SchemaDeps \<Rightarrow> string \<Rightarrow> bool" where
  "regexString q s = (nonEmpty s \<and> isValidRegex (sd_newRegExp q) s)"

definition PathInstructionSchema :: "yval \<Rightarrow> PathInstruction option" where
  "PathInstructionSchema v = do {
     o' \<leftarrow> zStrict [''path'', ''instructions'', ''auto_fetch''] v;
     p \<leftarrow> zRequired o' ''path'' (zString globString);
     t \<leftarrow> zRequired o' ''instructions'' (zString nonEmpty);
     f \<leftarrow> zOptional o' ''auto_fetch'' AutoFetchSchema;
     Some \<lparr>pi_pattern = p, pi_text = t, pi_autoFetch = f\<rparr>}"

definition ReviewsSchema :: "yval \<Rightarrow> ReviewsSection option" where
  "ReviewsSchema v = do {
     o' \<leftarrow> zStrict [''auto_review'', ''path_filters'', ''path_instructions'', ''max_files'', ''max_diff_lines'',
        ''ignore_authors'', ''min_confidence'', ''request_changes_on'', ''max_steps'', ''max_conversation_turns''] v;
     ar \<leftarrow> zSection o' ''auto_review'' AutoReviewSchema;
     pf \<leftarrow> zField o' ''path_filters'' (zArray (zString anyString)) [];
     pis \<leftarrow> zField o' ''path_instructions'' (zArray PathInstructionSchema) [];
     mf \<leftarrow> zField o' ''max_files'' (zInt (\<lambda>n. 0 < n)) 50;
     ml \<leftarrow> zField o' ''max_diff_lines'' (zInt (\<lambda>n. 0 < n)) 3000;
     ia \<leftarrow> zField o' ''ignore_authors'' (zArray (zString nonEmpty)) [''dependabot[bot]'', ''renovate[bot]'', ''github-actions[bot]''];
     mc \<leftarrow> zField o' ''min_confidence'' (zEnum CONFIDENCE_NAMES) Low;
     rc \<leftarrow> zField o' ''request_changes_on'' (zEnum THRESHOLD_NAMES) ThrCritical;
     ms \<leftarrow> zField o' ''max_steps'' (zInt (\<lambda>n. 1 \<le> n \<and> n \<le> 50)) 20;
     mt \<leftarrow> zField o' ''max_conversation_turns'' (zInt (\<lambda>n. 1 \<le> n \<and> n \<le> 50)) 5;
     Some \<lparr>qr_auto_review = ar, qr_path_filters = pf, qr_path_instructions = pis, qr_max_files = mf, qr_max_diff_lines = ml,
       qr_ignore_authors = ia, qr_min_confidence = mc, qr_request_changes_on = rc, qr_max_steps = ms,
       qr_max_conversation_turns = mt\<rparr>}"

definition CostSchema :: "yval \<Rightarrow> CostSection option" where
  "CostSchema v = do {
     o' \<leftarrow> zStrict [''max_usd_per_pr'', ''hard_stop'', ''daily_cap_usd''] v;
     m \<leftarrow> zField o' ''max_usd_per_pr'' zPositive (Fin 1);
     h \<leftarrow> zField o' ''hard_stop'' zBool True;
     d \<leftarrow> zField o' ''daily_cap_usd'' zPositive (Fin 50);
     Some \<lparr>qc_max_usd_per_pr = m, qc_hard_stop = h, qc_daily_cap_usd = d\<rparr>}"

definition PrivacySchema :: "SchemaDeps \<Rightarrow> yval \<Rightarrow> PrivacySection option" where
  "PrivacySchema q v = do {
     o' \<leftarrow> zStrict [''redact_patterns'', ''deny_paths'', ''allowed_url_prefixes''] v;
     r \<leftarrow> zField o' ''redact_patterns'' (zArray (zString (regexString q))) [];
     d \<leftarrow> zField o' ''deny_paths'' (zArray (zString globString)) [];
     a \<leftarrow> zField o' ''allowed_url_prefixes'' (zArray (zString (sd_isUrl q))) [];
     Some \<lparr>qv_redact_patterns = r, qv_deny_paths = d, qv_allowed_url_prefixes = a\<rparr>}"

definition RepoSchema :: "yval \<Rightarrow> RepoSection option" where
  "RepoSchema v = do {
     o' \<leftarrow> zStrict [''submodules'', ''lfs''] v;
     s \<leftarrow> zField o' ''submodules'' zBool False;
     l \<leftarrow> zField o' ''lfs'' zBool False;
     Some \<lparr>qo_submodules = s, qo_lfs = l\<rparr>}"

definition IncrementalSchema :: "yval \<Rightarrow> bool option" where
  "IncrementalSchema v = do { o' \<leftarrow> zStrict [''enabled''] v; zField o' ''enabled'' zBool True }"

definition CodecommitSchema :: "yval \<Rightarrow> ApprovalState option" where
  "CodecommitSchema v = do { o' \<leftarrow> zStrict [''approvalState''] v; zField o' ''approvalState'' (zEnum APPROVAL_NAMES) ApprovalOff }"

definition ServerSchema :: "yval \<Rightarrow> WorkspaceStrategy option" where
  "ServerSchema v = do { o' \<leftarrow> zStrict [''workspace_strategy''] v;
     zField o' ''workspace_strategy'' (zEnum STRATEGY_NAMES) NoWorkspace }"

definition CoordinationSchema :: "yval \<Rightarrow> CoordinationSection option" where
  "CoordinationSchema v = do {
     o' \<leftarrow> zStrict [''other_bots'', ''other_bots_logins''] v;
     m \<leftarrow> zField o' ''other_bots'' (zEnum COORDINATION_NAMES) Ignore;
     l \<leftarrow> zField o' ''other_bots_logins'' (zArray (zString nonEmpty)) [];
     Some \<lparr>qb_other_bots = m, qb_other_bots_logins = l\<rparr>}"

definition FeedbackSchema :: "yval \<Rightarrow> int option" where
  "FeedbackSchema v = do { o' \<leftarrow> zStrict [''suppress_after''] v; zField o' ''suppress_after'' (zInt (\<lambda>n. 1 \<le> n)) 3 }"

definition RulesetCategorySchema :: "yval \<Rightarrow> RulesetEntry option" where
  "RulesetCategorySchema v = do {
     o' \<leftarrow> zStrict [''enabled'', ''min_severity''] v;
     e \<leftarrow> zField o' ''enabled'' zBool True;
     m \<leftarrow> zField o' ''min_severity'' (zEnum SEVERITY_NAMES) Info;
     Some \<lparr>re_enabled = e, re_min_severity = m\<rparr>}"

definition RulesetSchema :: "yval \<Rightarrow> Ruleset option" where
  "RulesetSchema v =
     (case v of
        YObj kvs \<Rightarrow> zAll (\<lambda>(k, w). do { c \<leftarrow> map_of CATEGORY_NAMES k; e \<leftarrow> RulesetCategorySchema w; Some (c, e) }) kvs
      | _ \<Rightarrow> None)"

definition ExtendsSchema :: "yval \<Rightarrow> Extends option" where
  "ExtendsSchema v =
     (case v of
        YStr s \<Rightarrow> if s = ''org'' \<or> nonEmpty s then Some (ExtName s) else None
      | YArr _ \<Rightarrow> map_option ExtList (zArray (zString nonEmpty) v)
      | YNull \<Rightarrow> Some ExtNull
      | _ \<Rightarrow> None)"

definition CONFIG_KEYS :: "string list" where
  "CONFIG_KEYS = [''extends'', ''language'', ''profile'', ''provider'', ''reviews'', ''cost'', ''privacy'', ''repo'', ''skills'',
     ''incremental'', ''coordination'', ''server'', ''codecommit'', ''ruleset'', ''feedback'']"

definition ConfigSchema :: "SchemaDeps \<Rightarrow> yval \<Rightarrow> Config option" where
  "ConfigSchema q v = do {
     o' \<leftarrow> zStrict CONFIG_KEYS v;
     ext \<leftarrow> zOptional o' ''extends'' ExtendsSchema;
     lang \<leftarrow> zField o' ''language'' (zString isSupportedLanguage) ''en-US'';
     prof \<leftarrow> zField o' ''profile'' (zEnum PROFILE_NAMES) Chill;
     prov \<leftarrow> zOptional o' ''provider'' (ProviderSchema q);
     revs \<leftarrow> zSection o' ''reviews'' ReviewsSchema;
     cost \<leftarrow> zSection o' ''cost'' CostSchema;
     priv \<leftarrow> zSection o' ''privacy'' (PrivacySchema q);
     repo \<leftarrow> zSection o' ''repo'' RepoSchema;
     skills \<leftarrow> zField o' ''skills'' (zArray (zString nonEmpty)) [];
     incr \<leftarrow> zSection o' ''incremental'' IncrementalSchema;
     coord \<leftarrow> zSection o' ''coordination'' CoordinationSchema;
     server \<leftarrow> zSection o' ''server'' ServerSchema;
     cc \<leftarrow> zSection o' ''codecommit'' CodecommitSchema;
     rules \<leftarrow> zSection o' ''ruleset'' RulesetSchema;
     fb \<leftarrow> zSection o' ''feedback'' FeedbackSchema;
     Some \<lparr>cf_extends = ext, cf_language = lang, cf_profile = prof, cf_provider = prov, cf_reviews = revs, cf_cost = cost,
       cf_privacy = priv, cf_repo = repo, cf_skills = skills, cf_incremental_enabled = incr, cf_coordination = coord,
       cf_workspace_strategy = server, cf_approvalState = cc, cf_ruleset = rules, cf_suppress_after = fb\<rparr>}"

end
