(* ===== verification/Config.thy ===== *)
theory Config
  imports ConfigSchema Cursor
begin

text \<open>
  Loading the configuration: \<open>config/src/loader.ts\<close> (one document, its presets, the environment)
  and \<open>config/src/org-config.ts\<close> (the organisation's document, its cache and the merge).  The
  YAML parser is a parameter; its failure is \<open>None\<close>.  An error is its class with the value it
  names; the listing of zod's issues is not modelled.
\<close>

record EnvOverrides =
  eo_language :: "string option"
  eo_provider :: "string option"
  eo_model :: "string option"
  eo_max_usd_per_pr :: "string option"
  eo_max_steps :: "string option"

datatype ConfigResolutionSource = RepoYaml | OrgYaml | EnvSource | DefaultSource

record ConfigResolutionLog =
  cl_primarySource :: ConfigResolutionSource
  cl_orgYamlLoaded :: bool
  cl_envApplied :: bool
  cl_sections :: "(string \<times> ConfigResolutionSource) list"

type_synonym ParseYaml = "string \<Rightarrow> yval option"

section \<open>\<open>loader.ts\<close>\<close>

definition withoutExtends :: "yobj \<Rightarrow> yobj" where
  "withoutExtends raw = filter (\<lambda>kv. fst kv \<noteq> ''extends'') raw"

text \<open>\<open>parseYaml(text) ?? {}\<close>.\<close>

definition parseDocument :: "ParseYaml \<Rightarrow> string \<Rightarrow> yval option" where
  "parseDocument parseYaml yamlText = map_option (\<lambda>v. if v = YNull then YObj [] else v) (parseYaml yamlText)"

definition effectiveRaw :: "yval \<Rightarrow> ConfigError + yval" where
  "effectiveRaw parsed =
     (case parsed of
        YObj raw \<Rightarrow>
          (case map_of raw ''extends'' of
             Some (YArr names) \<Rightarrow> map_sum id YObj (resolveExtendsPresets names (withoutExtends raw))
           | Some (YStr name) \<Rightarrow>
               if name \<noteq> ''org'' then map_sum id YObj (resolveExtendsPresets [YStr name] (withoutExtends raw))
               else Inr parsed
           | _ \<Rightarrow> Inr parsed)
      | _ \<Rightarrow> Inr parsed)"

definition loadConfigFromYaml :: "SchemaDeps \<Rightarrow> ParseYaml \<Rightarrow> string \<Rightarrow> ConfigError + Config" where
  "loadConfigFromYaml q parseYaml yamlText =
     (case parseDocument parseYaml yamlText of
        None \<Rightarrow> Inl InvalidYaml
      | Some parsed \<Rightarrow>
          (case effectiveRaw parsed of
             Inl e \<Rightarrow> Inl e
           | Inr effective \<Rightarrow>
               (case ConfigSchema q effective of None \<Rightarrow> Inl InvalidConfig | Some c \<Rightarrow> Inr c)))"

definition rawYamlHasMaxSteps :: "yval \<Rightarrow> bool" where
  "rawYamlHasMaxSteps raw =
     (case raw of
        YObj kvs \<Rightarrow> (case map_of kvs ''reviews'' of Some (YObj reviews) \<Rightarrow> map_of reviews ''max_steps'' \<noteq> None | _ \<Rightarrow> False)
      | _ \<Rightarrow> False)"

text \<open>\<open>ConfigSchema.parse({})\<close>; that it does not throw is \<open>defaultConfig_parses\<close>.\<close>

definition defaultConfig :: Config where
  "defaultConfig =
     \<lparr>cf_extends = None, cf_language = ''en-US'', cf_profile = Chill, cf_provider = None,
      cf_reviews =
        \<lparr>qr_auto_review = \<lparr>qa_enabled = True, qa_drafts = False, qa_base_branches = [''main'', ''master'', ''develop''],
           qa_paths = [], qa_trigger_labels = [], qa_skip_labels = []\<rparr>,
         qr_path_filters = [], qr_path_instructions = [], qr_max_files = 50, qr_max_diff_lines = 3000,
         qr_ignore_authors = [''dependabot[bot]'', ''renovate[bot]'', ''github-actions[bot]''],
         qr_min_confidence = Low, qr_request_changes_on = ThrCritical, qr_max_steps = 20, qr_max_conversation_turns = 5\<rparr>,
      cf_cost = \<lparr>qc_max_usd_per_pr = Fin 1, qc_hard_stop = True, qc_daily_cap_usd = Fin 50\<rparr>,
      cf_privacy = \<lparr>qv_redact_patterns = [], qv_deny_paths = [], qv_allowed_url_prefixes = []\<rparr>,
      cf_repo = \<lparr>qo_submodules = False, qo_lfs = False\<rparr>, cf_skills = [], cf_incremental_enabled = True,
      cf_coordination = \<lparr>qb_other_bots = Ignore, qb_other_bots_logins = []\<rparr>,
      cf_workspace_strategy = NoWorkspace, cf_approvalState = ApprovalOff, cf_ruleset = [], cf_suppress_after = 3\<rparr>"

text \<open>Zod's output has its members in the order of the schema, so equal texts are equal values.\<close>

definition explicitlySet :: "Config \<Rightarrow> (string \<times> bool) list" where
  "explicitlySet c =
     [(''language'', cf_language c \<noteq> cf_language defaultConfig),
      (''profile'', cf_profile c \<noteq> cf_profile defaultConfig),
      (''provider'', cf_provider c \<noteq> cf_provider defaultConfig),
      (''reviews'', cf_reviews c \<noteq> cf_reviews defaultConfig),
      (''cost'', cf_cost c \<noteq> cf_cost defaultConfig),
      (''privacy'', cf_privacy c \<noteq> cf_privacy defaultConfig),
      (''repo'', cf_repo c \<noteq> cf_repo defaultConfig),
      (''skills'', cf_skills c \<noteq> cf_skills defaultConfig),
      (''incremental'', cf_incremental_enabled c \<noteq> cf_incremental_enabled defaultConfig),
      (''coordination'', cf_coordination c \<noteq> cf_coordination defaultConfig),
      (''server'', cf_workspace_strategy c \<noteq> cf_workspace_strategy defaultConfig),
      (''codecommit'', cf_approvalState c \<noteq> cf_approvalState defaultConfig),
      (''ruleset'', cf_ruleset c \<noteq> cf_ruleset defaultConfig)]"

definition buildSectionSources ::
  "Config \<Rightarrow> ConfigResolutionSource \<Rightarrow> ConfigResolutionSource option \<Rightarrow> (string \<times> ConfigResolutionSource) list" where
  "buildSectionSources c primarySource orgSource =
     map (\<lambda>(key, isSet).
       (key, if isSet then (case orgSource of None \<Rightarrow> primarySource
                            | Some s \<Rightarrow> if primarySource = RepoYaml then primarySource else s)
             else DefaultSource)) (explicitlySet c)"

definition truthy :: "string option \<Rightarrow> bool" where
  "truthy v = (case v of None \<Rightarrow> False | Some s \<Rightarrow> s \<noteq> [])"

definition envLanguage :: "EnvOverrides \<Rightarrow> Config \<Rightarrow> ConfigError + Config" where
  "envLanguage env c =
     (if truthy (eo_language env)
      then (if isSupportedLanguage (the (eo_language env)) then Inr (c\<lparr>cf_language := the (eo_language env)\<rparr>)
            else Inl (UnsupportedLanguage (the (eo_language env))))
      else Inr c)"

definition envProvider :: "SchemaDeps \<Rightarrow> EnvOverrides \<Rightarrow> Config \<Rightarrow> ConfigError + Config" where
  "envProvider q env c =
     (if truthy (eo_provider env) \<and> truthy (eo_model env)
      then (case ProviderSchema q (YObj [(''type'', YStr (the (eo_provider env))), (''model'', YStr (the (eo_model env)))]) of
              None \<Rightarrow> Inl (InvalidProvider (the (eo_provider env)))
            | Some p \<Rightarrow> Inr (c\<lparr>cf_provider := Some p\<rparr>))
      else if truthy (eo_provider env) \<or> truthy (eo_model env) then Inl ProviderModelTogether
      else Inr c)"

definition envMaxUsd :: "EnvOverrides \<Rightarrow> Config \<Rightarrow> ConfigError + Config" where
  "envMaxUsd env c =
     (if truthy (eo_max_usd_per_pr env)
      then (case parseFiniteFloat (the (eo_max_usd_per_pr env)) of
              Some v \<Rightarrow> if v \<le> 0 then Inl (InvalidMaxUsd (the (eo_max_usd_per_pr env)))
                        else Inr (c\<lparr>cf_cost := (cf_cost c)\<lparr>qc_max_usd_per_pr := Fin v\<rparr>\<rparr>)
            | None \<Rightarrow> Inl (InvalidMaxUsd (the (eo_max_usd_per_pr env))))
      else Inr c)"

definition mergeWithEnv :: "SchemaDeps \<Rightarrow> Config \<Rightarrow> EnvOverrides \<Rightarrow> ConfigError + Config" where
  "mergeWithEnv q c env = resultBind (resultBind (envLanguage env c) (envProvider q env)) (envMaxUsd env)"

definition applyMaxStepsEnv :: "Config \<Rightarrow> string \<Rightarrow> ConfigError + Config" where
  "applyMaxStepsEnv c raw =
     (case jsNumber raw of
        Some v \<Rightarrow>
          if of_int \<lfloor>v\<rfloor> \<noteq> v \<or> v < 1 \<or> v > 50 then Inl (InvalidMaxSteps raw)
          else Inr (c\<lparr>cf_reviews := (cf_reviews c)\<lparr>qr_max_steps := \<lfloor>v\<rfloor>\<rparr>\<rparr>)
      | None \<Rightarrow> Inl (InvalidMaxSteps raw))"

definition resolveEffectiveConfig ::
  "SchemaDeps \<Rightarrow> ParseYaml \<Rightarrow> string option \<Rightarrow> string option \<Rightarrow> EnvOverrides \<Rightarrow> ConfigError + (Config \<times> ConfigResolutionLog)" where
  "resolveEffectiveConfig q parseYaml repoYaml orgYaml env =
     (let base = (case repoYaml of
                    Some text \<Rightarrow> loadConfigFromYaml q parseYaml text
                  | None \<Rightarrow> (case orgYaml of Some text \<Rightarrow> loadConfigFromYaml q parseYaml text | None \<Rightarrow> Inr defaultConfig));
          primarySource = (if repoYaml \<noteq> None then RepoYaml else if orgYaml \<noteq> None then OrgYaml else DefaultSource);
          orgYamlLoaded = (orgYaml \<noteq> None);
          rawParsed = (case (case repoYaml of Some text \<Rightarrow> Some text | None \<Rightarrow> orgYaml) of
                         None \<Rightarrow> YObj []
                       | Some text \<Rightarrow> (case parseDocument parseYaml text of None \<Rightarrow> YObj [] | Some v \<Rightarrow> v));
          hasEnvWithoutMaxSteps =
            (eo_language env \<noteq> None \<or> eo_provider env \<noteq> None \<or> eo_model env \<noteq> None \<or> eo_max_usd_per_pr env \<noteq> None)
      in resultBind base (\<lambda>baseConfig.
         resultBind (if hasEnvWithoutMaxSteps then mergeWithEnv q baseConfig env else Inr baseConfig) (\<lambda>withEnv.
         resultBind (case eo_max_steps env of
                    Some raw \<Rightarrow> if rawYamlHasMaxSteps rawParsed then Inr withEnv else applyMaxStepsEnv withEnv raw
                  | None \<Rightarrow> Inr withEnv) (\<lambda>finalConfig.
         Inr (finalConfig,
           \<lparr>cl_primarySource = primarySource, cl_orgYamlLoaded = orgYamlLoaded,
            cl_envApplied = (hasEnvWithoutMaxSteps \<or> eo_max_steps env \<noteq> None),
            cl_sections = buildSectionSources baseConfig primarySource (if orgYamlLoaded then Some OrgYaml else None)\<rparr>)))))"

section \<open>\<open>org-config.ts\<close>: the merge\<close>

text \<open>
  The parsed configurations are JavaScript objects again when they are merged.  \<open>nameOf\<close> gives
  an enumeration value its text.
\<close>

definition nameOf :: "(string \<times> 'a) list \<Rightarrow> 'a \<Rightarrow> yval" where
  "nameOf names x = YStr (case List.find (\<lambda>ny. snd ny = x) names of Some ny \<Rightarrow> fst ny | None \<Rightarrow> [])"

definition yStrs :: "string list \<Rightarrow> yval" where "yStrs xs = YArr (map YStr xs)"

definition yOptional :: "string \<Rightarrow> ('a \<Rightarrow> yval) \<Rightarrow> 'a option \<Rightarrow> yobj" where
  "yOptional k f v = (case v of None \<Rightarrow> [] | Some x \<Rightarrow> [(k, f x)])"

definition yProvider :: "ProviderSection \<Rightarrow> yval" where
  "yProvider p = YObj ([(''type'', nameOf PROVIDER_TYPES (qp_type p)), (''model'', YStr (qp_model p)),
      (''fallback_models'', yStrs (qp_fallback_models p))] @ yOptional ''base_url'' YStr (qp_base_url p) @
      yOptional ''region'' YStr (qp_region p) @ yOptional ''azure_deployment'' YStr (qp_azure_deployment p) @
      yOptional ''vertex_project_id'' YStr (qp_vertex_project_id p) @
      [(''anthropic_cache_control'', YBool (qp_anthropic_cache_control p))])"

definition yAutoReview :: "AutoReviewSection \<Rightarrow> yobj" where
  "yAutoReview a = [(''enabled'', YBool (qa_enabled a)), (''drafts'', YBool (qa_drafts a)),
     (''base_branches'', yStrs (qa_base_branches a)), (''paths'', yStrs (qa_paths a)),
     (''trigger_labels'', yStrs (qa_trigger_labels a)), (''skip_labels'', yStrs (qa_skip_labels a))]"

definition yAutoFetch :: "AutoFetchOptions \<Rightarrow> yval" where
  "yAutoFetch o' = YObj (yOptional ''tests'' YBool (af_tests o') @ yOptional ''types'' YBool (af_types o') @
     yOptional ''siblings'' YBool (af_siblings o'))"

definition yPathInstruction :: "PathInstruction \<Rightarrow> yval" where
  "yPathInstruction p = YObj ([(''path'', YStr (pi_pattern p)), (''instructions'', YStr (pi_text p))] @
     yOptional ''auto_fetch'' yAutoFetch (pi_autoFetch p))"

definition yCost :: "CostSection \<Rightarrow> yobj" where
  "yCost c = [(''max_usd_per_pr'', YNum (qc_max_usd_per_pr c)), (''hard_stop'', YBool (qc_hard_stop c)),
     (''daily_cap_usd'', YNum (qc_daily_cap_usd c))]"

definition yRepo :: "RepoSection \<Rightarrow> yobj" where
  "yRepo r = [(''submodules'', YBool (qo_submodules r)), (''lfs'', YBool (qo_lfs r))]"

definition yRulesetEntry :: "RulesetEntry \<Rightarrow> yval" where
  "yRulesetEntry e = YObj [(''enabled'', YBool (re_enabled e)), (''min_severity'', nameOf SEVERITY_NAMES (re_min_severity e))]"

definition categoryName :: "Category \<Rightarrow> string" where
  "categoryName c = (case nameOf CATEGORY_NAMES c of YStr s \<Rightarrow> s | _ \<Rightarrow> [])"

definition yRuleset :: "Ruleset \<Rightarrow> yobj" where
  "yRuleset rs = map (\<lambda>(c, e). (categoryName c, yRulesetEntry e)) rs"

text \<open>\<open>{ ...a, ...b }\<close>.\<close>

definition ySpread :: "('k \<times> 'v) list \<Rightarrow> ('k \<times> 'v) list \<Rightarrow> ('k \<times> 'v) list" where
  "ySpread a b = fold (\<lambda>(k, v). AList.update k v) b a"

definition mergedInput :: "Config \<Rightarrow> Config \<Rightarrow> yobj" where
  "mergedInput org repo =
    (let ro = cf_reviews org; rr = cf_reviews repo; po = cf_privacy org; pr = cf_privacy repo in
     [(''extends'', YNull),
      (''language'', YStr (cf_language repo)),
      (''profile'', nameOf PROFILE_NAMES (cf_profile repo))] @
     yOptional ''provider'' yProvider (case cf_provider repo of Some p \<Rightarrow> Some p | None \<Rightarrow> cf_provider org) @
     [(''reviews'', YObj
        [(''auto_review'', YObj (ySpread (ySpread (yAutoReview (qr_auto_review ro)) (yAutoReview (qr_auto_review rr)))
            [(''trigger_labels'', yStrs (dedupList (qa_trigger_labels (qr_auto_review ro) @ qa_trigger_labels (qr_auto_review rr)))),
             (''skip_labels'', yStrs (dedupList (qa_skip_labels (qr_auto_review ro) @ qa_skip_labels (qr_auto_review rr))))])),
         (''path_filters'', yStrs (dedupList (qr_path_filters ro @ qr_path_filters rr))),
         (''path_instructions'', YArr (map yPathInstruction (qr_path_instructions ro @ qr_path_instructions rr))),
         (''max_files'', yint (qr_max_files rr)),
         (''max_diff_lines'', yint (qr_max_diff_lines rr)),
         (''max_steps'', yint (qr_max_steps rr)),
         (''max_conversation_turns'', yint (qr_max_conversation_turns rr)),
         (''ignore_authors'', yStrs (dedupList (qr_ignore_authors ro @ qr_ignore_authors rr)))]),
      (''cost'', YObj (ySpread (yCost (cf_cost org)) (yCost (cf_cost repo)))),
      (''privacy'', YObj
        [(''redact_patterns'', yStrs (dedupList (qv_redact_patterns po @ qv_redact_patterns pr))),
         (''deny_paths'', yStrs (dedupList (qv_deny_paths po @ qv_deny_paths pr))),
         (''allowed_url_prefixes'', yStrs (dedupList (qv_allowed_url_prefixes po @ qv_allowed_url_prefixes pr)))]),
      (''repo'', YObj (ySpread (yRepo (cf_repo org)) (yRepo (cf_repo repo)))),
      (''skills'', yStrs (cf_skills org @ cf_skills repo)),
      (''incremental'', YObj (ySpread [(''enabled'', YBool (cf_incremental_enabled org))] [(''enabled'', YBool (cf_incremental_enabled repo))])),
      (''ruleset'', YObj (ySpread (yRuleset (cf_ruleset org)) (yRuleset (cf_ruleset repo)))),
      (''feedback'', YObj (ySpread [(''suppress_after'', yint (cf_suppress_after org))] [(''suppress_after'', yint (cf_suppress_after repo))]))])"

text \<open>\<open>None\<close> is the \<open>ZodError\<close> of the second parse; \<open>merge_exact\<close> shows that it does not happen.\<close>

definition mergeOrgIntoRepo :: "SchemaDeps \<Rightarrow> Config \<Rightarrow> Config \<Rightarrow> Config option" where
  "mergeOrgIntoRepo q orgConfig repoConfig = ConfigSchema q (YObj (mergedInput orgConfig repoConfig))"

section \<open>\<open>org-config.ts\<close>: the cache and the fallback\<close>

record CacheEntry =
  ce_text :: "string option"
  ce_expires :: int

type_synonym OrgCache = "string \<Rightarrow> CacheEntry option"

definition DEFAULT_TTL_MS :: int where "DEFAULT_TTL_MS = 5 * 60 * 1000"

text \<open>
  One \<open>get\<close>: \<open>now0\<close> is the clock when the entry is looked at, \<open>now1\<close> when the fetch has
  answered.  \<open>Inl\<close> is a fetch that throws; it leaves the cache as it was.
\<close>

definition orgCacheGet ::
  "int \<Rightarrow> (string \<Rightarrow> string + string option) \<Rightarrow> int \<Rightarrow> int \<Rightarrow> string \<Rightarrow> OrgCache \<Rightarrow> (string + string option) \<times> OrgCache" where
  "orgCacheGet ttl fetch now0 now1 owner entries =
     (case entries owner of
        Some cached \<Rightarrow>
          if ce_expires cached > now0 then (Inr (ce_text cached), entries)
          else (case fetch owner of
                  Inl e \<Rightarrow> (Inl e, entries)
                | Inr text \<Rightarrow> (Inr text, entries(owner \<mapsto> \<lparr>ce_text = text, ce_expires = now1 + ttl\<rparr>)))
      | None \<Rightarrow>
          (case fetch owner of
             Inl e \<Rightarrow> (Inl e, entries)
           | Inr text \<Rightarrow> (Inr text, entries(owner \<mapsto> \<lparr>ce_text = text, ce_expires = now1 + ttl\<rparr>))))"

definition orgCacheInvalidate :: "string option \<Rightarrow> OrgCache \<Rightarrow> OrgCache" where
  "orgCacheInvalidate owner entries = (case owner of None \<Rightarrow> Map.empty | Some k \<Rightarrow> entries(k := None))"

datatype ConfigSource = FromRepoOrg | FromRepo | FromOrg | FromDefaults

text \<open>\<open>get\<close> is \<open>input.orgConfigCache.get\<close>; the cache it leaves is returned.\<close>

definition loadConfigWithOrgFallback ::
  "SchemaDeps \<Rightarrow> ParseYaml \<Rightarrow> (string \<Rightarrow> (string + string option) \<times> OrgCache) \<Rightarrow> OrgCache \<Rightarrow> string \<Rightarrow> string option
     \<Rightarrow> (ConfigError + Config \<times> ConfigSource) \<times> OrgCache" where
  "loadConfigWithOrgFallback q parseYaml get cache owner repoYaml =
     (let repoResult = (case repoYaml of None \<Rightarrow> Inr None | Some text \<Rightarrow> map_sum id Some (loadConfigFromYaml q parseYaml text))
      in case repoResult of
           Inl e \<Rightarrow> (Inl e, cache)
         | Inr repoConfig \<Rightarrow>
             (let wantsExtends = (case repoConfig of Some c \<Rightarrow> cf_extends c = Some (ExtName ''org'') | None \<Rightarrow> False)
              in if repoConfig \<noteq> None \<and> \<not> wantsExtends then (Inr (the repoConfig, FromRepo), cache)
                 else (case get owner of
                         (Inl e, cache') \<Rightarrow> (Inl (OrgFetchFailed e), cache')
                       | (Inr orgYaml, cache') \<Rightarrow>
                           ((case (case orgYaml of None \<Rightarrow> Inr None | Some text \<Rightarrow> map_sum id Some (loadConfigFromYaml q parseYaml text)) of
                               Inl e \<Rightarrow> Inl e
                             | Inr orgConfig \<Rightarrow>
                                 (case repoConfig of
                                    Some rc \<Rightarrow>
                                      (case orgConfig of
                                         None \<Rightarrow> Inl (OrgConfigMissing owner)
                                       | Some oc \<Rightarrow>
                                           (case mergeOrgIntoRepo q oc rc of
                                              None \<Rightarrow> Inl InvalidConfig
                                            | Some merged \<Rightarrow> Inr (merged, FromRepoOrg)))
                                  | None \<Rightarrow>
                                      (case orgConfig of
                                         Some oc \<Rightarrow> Inr (oc, FromOrg)
                                       | None \<Rightarrow> Inr (defaultConfig, FromDefaults)))), cache'))))"

end
