(* ===== verification/ConfigProps.thy ===== *)
theory ConfigProps
  imports Config DiffFilter
begin

text \<open>
  What loading a configuration guarantees: every configuration the program runs on satisfies its
  schema, the merge of two of them never fails and is given in closed form, a repository's own
  values win over a preset, and the organisation's text is never older than the cache's lifetime.
\<close>

named_theorems zrules \<open>what a parser of the schema accepts\<close>
named_theorems yparse \<open>parsing back what was printed\<close>

section \<open>Well-formed configurations\<close>

definition allNonEmpty :: "string list \<Rightarrow> bool" where "allNonEmpty xs = (\<forall>x \<in> set xs. nonEmpty x)"

definition positiveNum :: "jsnum \<Rightarrow> bool" where
  "positiveNum n = (case n of Fin q \<Rightarrow> 0 < q | PosInf \<Rightarrow> True | _ \<Rightarrow> False)"

definition providerOk :: "SchemaDeps \<Rightarrow> ProviderSection \<Rightarrow> bool" where
  "providerOk q p = (nonEmpty (qp_model p) \<and> allNonEmpty (qp_fallback_models p) \<and> pred_option (sd_isUrl q) (qp_base_url p))"

definition autoReviewOk :: "AutoReviewSection \<Rightarrow> bool" where
  "autoReviewOk a = (allNonEmpty (qa_base_branches a) \<and> allNonEmpty (qa_paths a) \<and> allNonEmpty (qa_trigger_labels a) \<and>
     allNonEmpty (qa_skip_labels a))"

definition autoFetchOk :: "AutoFetchOptions \<Rightarrow> bool" where
  "autoFetchOk f = (af_tests f \<noteq> None \<and> af_types f \<noteq> None \<and> af_siblings f \<noteq> None)"

definition pathInstructionOk :: "PathInstruction \<Rightarrow> bool" where
  "pathInstructionOk p = (globString (pi_pattern p) \<and> nonEmpty (pi_text p) \<and> pred_option autoFetchOk (pi_autoFetch p))"

definition reviewsOk :: "ReviewsSection \<Rightarrow> bool" where
  "reviewsOk r = (autoReviewOk (qr_auto_review r) \<and> list_all pathInstructionOk (qr_path_instructions r) \<and>
     0 < qr_max_files r \<and> 0 < qr_max_diff_lines r \<and> allNonEmpty (qr_ignore_authors r) \<and>
     1 \<le> qr_max_steps r \<and> qr_max_steps r \<le> 50 \<and> 1 \<le> qr_max_conversation_turns r \<and> qr_max_conversation_turns r \<le> 50)"

definition costOk :: "CostSection \<Rightarrow> bool" where
  "costOk c = (positiveNum (qc_max_usd_per_pr c) \<and> positiveNum (qc_daily_cap_usd c))"

definition privacyOk :: "SchemaDeps \<Rightarrow> PrivacySection \<Rightarrow> bool" where
  "privacyOk q p = (list_all (regexString q) (qv_redact_patterns p) \<and> list_all globString (qv_deny_paths p) \<and>
     list_all (sd_isUrl q) (qv_allowed_url_prefixes p))"

definition configOk :: "SchemaDeps \<Rightarrow> Config \<Rightarrow> bool" where
  "configOk q c = (isSupportedLanguage (cf_language c) \<and> pred_option (providerOk q) (cf_provider c) \<and> reviewsOk (cf_reviews c) \<and>
     costOk (cf_cost c) \<and> privacyOk q (cf_privacy c) \<and> allNonEmpty (cf_skills c) \<and>
     allNonEmpty (qb_other_bots_logins (cf_coordination c)) \<and> 1 \<le> cf_suppress_after c)"

section \<open>The parsers produce well-formed values\<close>

text \<open>
  One rule per construct of the schema, like the rules of a type system: \<open>pred_option P m\<close> says
  that what \<open>m\<close> accepts satisfies \<open>P\<close>.
\<close>

lemma z_bind [zrules]:
  "pred_option Q m \<Longrightarrow> (\<And>x. Q x \<Longrightarrow> pred_option P (f x)) \<Longrightarrow> pred_option P (Option.bind m f)"
  by (cases m) auto

lemma z_strict [zrules]: "pred_option (\<lambda>_. True) (zStrict keys v)"
  by (simp add: option.pred_True)

lemma z_bool: "pred_option (\<lambda>_. True) (zBool v)" and z_enum: "pred_option (\<lambda>_. True) (zEnum names v)"
  by (simp_all add: option.pred_True)

lemma z_string: "pred_option ok (zString ok v)"
  by (simp add: zString_def split: yval.split)

lemma z_int: "pred_option ok (zInt ok v)"
  by (auto simp: zInt_def split: yval.split jsnum.split)

lemma z_positive: "pred_option positiveNum (zPositive v)"
  by (auto simp: zPositive_def positiveNum_def split: yval.split jsnum.split)

lemma z_all: "(\<And>v. pred_option P (p v)) \<Longrightarrow> pred_option (list_all P) (zAll p vs)"
proof (induction vs)
  case (Cons v vs)
  from Cons.prems [of v] Cons.IH [OF Cons.prems] show ?case by (auto split: option.split)
qed simp

lemma z_array: "(\<And>v. pred_option P (p v)) \<Longrightarrow> pred_option (list_all P) (zArray p v)"
  by (auto simp: zArray_def intro: z_all split: yval.split)

lemma z_field: "(\<And>v. pred_option P (p v)) \<Longrightarrow> P d \<Longrightarrow> pred_option P (zField kvs k p d)"
  by (simp add: zField_def split: option.split)

lemma z_section: "(\<And>v. pred_option P (p v)) \<Longrightarrow> pred_option P (zSection kvs k p)"
  by (simp add: zSection_def)

lemma z_optional: "(\<And>v. pred_option P (p v)) \<Longrightarrow> pred_option (pred_option P) (zOptional kvs k p)"
  by (simp add: zOptional_def option.pred_map comp_def split: option.split)

lemma z_required: "(\<And>v. pred_option P (p v)) \<Longrightarrow> pred_option P (zRequired kvs k p)"
  by (simp add: zRequired_def split: option.split)

lemmas [zrules] = z_bool z_enum z_string z_int z_positive z_array z_field z_section z_optional z_required

lemma allNonEmpty_list_all: "allNonEmpty xs = list_all nonEmpty xs"
  by (simp add: allNonEmpty_def list_all_iff)

lemma ProviderSchema_ok [zrules]: "pred_option (providerOk q) (ProviderSchema q v)"
  unfolding ProviderSchema_def by (rule zrules | (simp add: providerOk_def allNonEmpty_list_all; fail))+

lemma AutoReviewSchema_ok [zrules]: "pred_option autoReviewOk (AutoReviewSchema v)"
  unfolding AutoReviewSchema_def by (rule zrules | (simp add: autoReviewOk_def allNonEmpty_list_all nonEmpty_def; fail))+

lemma AutoFetchSchema_ok [zrules]: "pred_option autoFetchOk (AutoFetchSchema v)"
  unfolding AutoFetchSchema_def by (rule zrules | (simp add: autoFetchOk_def; fail))+

lemma PathInstructionSchema_ok [zrules]: "pred_option pathInstructionOk (PathInstructionSchema v)"
  unfolding PathInstructionSchema_def by (rule zrules | (simp add: pathInstructionOk_def; fail))+

lemma ReviewsSchema_ok [zrules]: "pred_option reviewsOk (ReviewsSchema v)"
  unfolding ReviewsSchema_def by (rule zrules | (simp add: reviewsOk_def allNonEmpty_list_all nonEmpty_def; fail))+

lemma CostSchema_ok [zrules]: "pred_option costOk (CostSchema v)"
  unfolding CostSchema_def by (rule zrules | (simp add: costOk_def positiveNum_def; fail))+

lemma PrivacySchema_ok [zrules]: "pred_option (privacyOk q) (PrivacySchema q v)"
  unfolding PrivacySchema_def by (rule zrules | (simp add: privacyOk_def; fail))+

lemma CoordinationSchema_ok [zrules]: "pred_option (\<lambda>c. allNonEmpty (qb_other_bots_logins c)) (CoordinationSchema v)"
  unfolding CoordinationSchema_def by (rule zrules | (simp add: allNonEmpty_list_all; fail))+

lemma FeedbackSchema_ok [zrules]: "pred_option (\<lambda>n. 1 \<le> n) (FeedbackSchema v)"
  unfolding FeedbackSchema_def by (rule zrules | (simp; fail))+

lemma untyped_sections [zrules]:
  "pred_option (\<lambda>_. True) (RepoSchema v)" "pred_option (\<lambda>_. True) (IncrementalSchema v)"
  "pred_option (\<lambda>_. True) (ServerSchema v)" "pred_option (\<lambda>_. True) (CodecommitSchema v)"
  "pred_option (\<lambda>_. True) (RulesetSchema v)" "pred_option (\<lambda>_. True) (ExtendsSchema v)"
  by (simp_all add: option.pred_True)

lemma ConfigSchema_ok: "pred_option (configOk q) (ConfigSchema q v)"
  unfolding ConfigSchema_def
  by (rule zrules | (simp add: configOk_def allNonEmpty_list_all isSupportedLanguage_def SUPPORTED_LANGUAGES_def; fail))+

section \<open>Parsing what was printed\<close>

lemma nameOf_back [yparse]:
  "zEnum PROVIDER_TYPES (nameOf PROVIDER_TYPES ty) = Some ty"
  "zEnum SEVERITY_NAMES (nameOf SEVERITY_NAMES sev) = Some sev"
  "zEnum CONFIDENCE_NAMES (nameOf CONFIDENCE_NAMES con) = Some con"
  "zEnum PROFILE_NAMES (nameOf PROFILE_NAMES prof) = Some prof"
     apply (cases ty; simp add: zEnum_def nameOf_def PROVIDER_TYPES_def)
    apply (cases sev; simp add: zEnum_def nameOf_def SEVERITY_NAMES_def)
   apply (cases con; simp add: zEnum_def nameOf_def CONFIDENCE_NAMES_def)
  apply (cases prof; simp add: zEnum_def nameOf_def PROFILE_NAMES_def)
  done

lemma categoryName_back [yparse]: "map_of CATEGORY_NAMES (categoryName c) = Some c"
  by (cases c) (simp_all add: categoryName_def nameOf_def CATEGORY_NAMES_def)

lemma categoryName_inject: "categoryName a = categoryName b \<Longrightarrow> a = b"
  by (metis categoryName_back option.inject)

lemma zBool_back [yparse]: "zBool (YBool b) = Some b"
  by (simp add: zBool_def)

lemma zString_back [yparse]: "ok s \<Longrightarrow> zString ok (YStr s) = Some s"
  by (simp add: zString_def)

lemma zAll_map: "(\<And>x. x \<in> set xs \<Longrightarrow> p (f x) = Some x) \<Longrightarrow> zAll p (map f xs) = Some xs"
  by (induction xs) auto

lemma yStrs_back [yparse]: "list_all ok xs \<Longrightarrow> zArray (zString ok) (yStrs xs) = Some xs"
  by (auto simp: zArray_def yStrs_def list_all_iff zString_back intro: zAll_map)

lemma yint_back [yparse]: "ok n \<Longrightarrow> zInt ok (yint n) = Some n"
  by (simp add: zInt_def yint_def)

lemma positive_back [yparse]: "positiveNum n \<Longrightarrow> zPositive (YNum n) = Some n"
  by (cases n) (simp_all add: zPositive_def positiveNum_def)

lemma yAutoFetch_back [yparse]: "autoFetchOk f \<Longrightarrow> AutoFetchSchema (yAutoFetch f) = Some f"
  by (cases f) (auto simp: AutoFetchSchema_def yAutoFetch_def autoFetchOk_def yOptional_def zStrict_def zField_def yparse)

lemma yPathInstruction_back [yparse]: "pathInstructionOk p \<Longrightarrow> PathInstructionSchema (yPathInstruction p) = Some p"
  by (cases p, cases "pi_autoFetch p")
    (auto simp: PathInstructionSchema_def yPathInstruction_def pathInstructionOk_def yOptional_def zStrict_def zRequired_def
      zOptional_def yparse)

lemma yPathInstructions_back [yparse]:
  "list_all pathInstructionOk ps \<Longrightarrow> zArray PathInstructionSchema (YArr (map yPathInstruction ps)) = Some ps"
  by (auto simp: zArray_def list_all_iff yparse intro: zAll_map)

lemma map_of_yOptional [simp]: "map_of (yOptional k f v) k' = (if k' = k then map_option f v else None)"
  by (simp add: yOptional_def split: option.split)

lemma zOptional_yOptional [yparse]:
  "map_of kvs k = map_option f v \<Longrightarrow> (\<And>x. v = Some x \<Longrightarrow> p (f x) = Some x) \<Longrightarrow> zOptional kvs k p = Some v"
  by (cases v) (simp_all add: zOptional_def)

lemma yProvider_back [yparse]:
  assumes "providerOk q p"
  shows "ProviderSchema q (yProvider p) = Some p"
proof -
  let ?kvs = "case yProvider p of YObj kvs \<Rightarrow> kvs | _ \<Rightarrow> []"
  have obj: "yProvider p = YObj ?kvs" by (simp add: yProvider_def)
  have look: "map_of ?kvs ''type'' = Some (nameOf PROVIDER_TYPES (qp_type p))" "map_of ?kvs ''model'' = Some (YStr (qp_model p))"
    "map_of ?kvs ''fallback_models'' = Some (yStrs (qp_fallback_models p))" "map_of ?kvs ''base_url'' = map_option YStr (qp_base_url p)"
    "map_of ?kvs ''region'' = map_option YStr (qp_region p)" "map_of ?kvs ''azure_deployment'' = map_option YStr (qp_azure_deployment p)"
    "map_of ?kvs ''vertex_project_id'' = map_option YStr (qp_vertex_project_id p)"
    "map_of ?kvs ''anthropic_cache_control'' = Some (YBool (qp_anthropic_cache_control p))"
    by (simp_all add: yProvider_def map_add_def split: option.split)
  have strict: "zStrict [''type'', ''model'', ''fallback_models'', ''base_url'', ''region'', ''azure_deployment'',
        ''vertex_project_id'', ''anthropic_cache_control''] (yProvider p) = Some ?kvs"
    unfolding zStrict_def by (auto simp: yProvider_def yOptional_def split: option.splits)
  have opt: "zOptional ?kvs ''base_url'' (zString (sd_isUrl q)) = Some (qp_base_url p)"
    "zOptional ?kvs ''region'' (zString anyString) = Some (qp_region p)"
    "zOptional ?kvs ''azure_deployment'' (zString anyString) = Some (qp_azure_deployment p)"
    "zOptional ?kvs ''vertex_project_id'' (zString anyString) = Some (qp_vertex_project_id p)"
    using assms by (auto intro!: zOptional_yOptional look zString_back simp: providerOk_def anyString_def)
  show ?thesis
    using assms unfolding ProviderSchema_def strict Option.bind.bind_lunit
    by (simp add: zRequired_def zField_def look opt yparse providerOk_def allNonEmpty_list_all)
qed

lemma yRulesetEntry_back [yparse]: "RulesetCategorySchema (yRulesetEntry e) = Some e"
  by (simp add: RulesetCategorySchema_def yRulesetEntry_def zStrict_def zField_def yparse)

lemma yRuleset_back: "RulesetSchema (YObj (yRuleset rs)) = Some rs"
  by (auto simp: RulesetSchema_def yRuleset_def yparse intro: zAll_map)

lemma yRuleset_update: "AList.update (categoryName c) (yRulesetEntry e) (yRuleset rs) = yRuleset (AList.update c e rs)"
  by (induction rs) (auto simp: yRuleset_def dest: categoryName_inject)

lemma yRuleset_spread: "ySpread (yRuleset a) (yRuleset b) = yRuleset (ySpread a b)"
proof (induction b arbitrary: a)
  case (Cons x b)
  then show ?case by (cases x) (simp add: ySpread_def yRuleset_update yRuleset_def [of "_ # _"], simp add: yRuleset_def)
qed (simp add: ySpread_def yRuleset_def)

lemma yCost_spread [yparse]: "costOk c \<Longrightarrow> CostSchema (YObj (ySpread (yCost a) (yCost c))) = Some c"
  by (simp add: CostSchema_def costOk_def yCost_def ySpread_def zStrict_def zField_def yparse)

lemma yRepo_spread [yparse]: "RepoSchema (YObj (ySpread (yRepo a) (yRepo r))) = Some r"
  by (simp add: RepoSchema_def yRepo_def ySpread_def zStrict_def zField_def yparse)

lemma yAutoReview_spread [yparse]:
  "autoReviewOk r \<Longrightarrow> list_all nonEmpty tl' \<Longrightarrow> list_all nonEmpty sl \<Longrightarrow>
   AutoReviewSchema (YObj (ySpread (ySpread (yAutoReview a) (yAutoReview r)) [(''trigger_labels'', yStrs tl'), (''skip_labels'', yStrs sl)])) =
     Some (r\<lparr>qa_trigger_labels := tl', qa_skip_labels := sl\<rparr>)"
  by (simp add: AutoReviewSchema_def autoReviewOk_def yAutoReview_def ySpread_def zStrict_def zField_def allNonEmpty_list_all yparse)

section \<open>The merge in closed form\<close>

definition mergedReviews :: "ReviewsSection \<Rightarrow> ReviewsSection \<Rightarrow> ReviewsSection" where
  "mergedReviews ro rr =
     \<lparr>qr_auto_review = (qr_auto_review rr)
        \<lparr>qa_trigger_labels := dedupList (qa_trigger_labels (qr_auto_review ro) @ qa_trigger_labels (qr_auto_review rr)),
         qa_skip_labels := dedupList (qa_skip_labels (qr_auto_review ro) @ qa_skip_labels (qr_auto_review rr))\<rparr>,
      qr_path_filters = dedupList (qr_path_filters ro @ qr_path_filters rr),
      qr_path_instructions = qr_path_instructions ro @ qr_path_instructions rr,
      qr_max_files = qr_max_files rr, qr_max_diff_lines = qr_max_diff_lines rr,
      qr_ignore_authors = dedupList (qr_ignore_authors ro @ qr_ignore_authors rr),
      qr_min_confidence = Low, qr_request_changes_on = ThrCritical,
      qr_max_steps = qr_max_steps rr, qr_max_conversation_turns = qr_max_conversation_turns rr\<rparr>"

definition mergedPrivacy :: "PrivacySection \<Rightarrow> PrivacySection \<Rightarrow> PrivacySection" where
  "mergedPrivacy po pr =
     \<lparr>qv_redact_patterns = dedupList (qv_redact_patterns po @ qv_redact_patterns pr),
      qv_deny_paths = dedupList (qv_deny_paths po @ qv_deny_paths pr),
      qv_allowed_url_prefixes = dedupList (qv_allowed_url_prefixes po @ qv_allowed_url_prefixes pr)\<rparr>"

definition mergedConfig :: "Config \<Rightarrow> Config \<Rightarrow> Config" where
  "mergedConfig org repo =
     \<lparr>cf_extends = Some ExtNull, cf_language = cf_language repo, cf_profile = cf_profile repo,
      cf_provider = (case cf_provider repo of Some p \<Rightarrow> Some p | None \<Rightarrow> cf_provider org),
      cf_reviews = mergedReviews (cf_reviews org) (cf_reviews repo), cf_cost = cf_cost repo,
      cf_privacy = mergedPrivacy (cf_privacy org) (cf_privacy repo), cf_repo = cf_repo repo,
      cf_skills = cf_skills org @ cf_skills repo, cf_incremental_enabled = cf_incremental_enabled repo,
      cf_coordination = cf_coordination defaultConfig, cf_workspace_strategy = NoWorkspace, cf_approvalState = ApprovalOff,
      cf_ruleset = ySpread (cf_ruleset org) (cf_ruleset repo), cf_suppress_after = cf_suppress_after repo\<rparr>"

lemma list_all_dedup: "list_all P (dedupList xs) = list_all P xs"
  by (simp add: list_all_iff)

lemmas section_defs = zStrict_def zField_def zSection_def ySpread_def allNonEmpty_list_all list_all_dedup

lemma mergedReviews_back:
  assumes "reviewsOk ro" "reviewsOk rr"
  shows "ReviewsSchema (YObj
        [(''auto_review'', YObj (ySpread (ySpread (yAutoReview (qr_auto_review ro)) (yAutoReview (qr_auto_review rr)))
            [(''trigger_labels'', yStrs (dedupList (qa_trigger_labels (qr_auto_review ro) @ qa_trigger_labels (qr_auto_review rr)))),
             (''skip_labels'', yStrs (dedupList (qa_skip_labels (qr_auto_review ro) @ qa_skip_labels (qr_auto_review rr))))])),
         (''path_filters'', yStrs (dedupList (qr_path_filters ro @ qr_path_filters rr))),
         (''path_instructions'', YArr (map yPathInstruction (qr_path_instructions ro @ qr_path_instructions rr))),
         (''max_files'', yint (qr_max_files rr)),
         (''max_diff_lines'', yint (qr_max_diff_lines rr)),
         (''max_steps'', yint (qr_max_steps rr)),
         (''max_conversation_turns'', yint (qr_max_conversation_turns rr)),
         (''ignore_authors'', yStrs (dedupList (qr_ignore_authors ro @ qr_ignore_authors rr)))]) = Some (mergedReviews ro rr)"
proof -
  have labels: "list_all nonEmpty (dedupList (qa_trigger_labels (qr_auto_review ro) @ qa_trigger_labels (qr_auto_review rr)))"
    "list_all nonEmpty (dedupList (qa_skip_labels (qr_auto_review ro) @ qa_skip_labels (qr_auto_review rr)))"
    "autoReviewOk (qr_auto_review rr)"
    using assms by (simp_all add: reviewsOk_def autoReviewOk_def allNonEmpty_list_all list_all_dedup)
  note auto_review = yAutoReview_spread [OF labels(3,1,2)]
  have lists: "zArray (zString anyString) (yStrs xs) = Some xs" for xs
    by (rule yStrs_back) (simp add: list_all_iff anyString_def)
  show ?thesis
    using assms unfolding ReviewsSchema_def zSection_def
    by (simp add: auto_review lists zStrict_def zField_def reviewsOk_def allNonEmpty_list_all list_all_dedup mergedReviews_def
        yparse del: map_append)
qed

lemma mergedPrivacy_back:
  "privacyOk q po \<Longrightarrow> privacyOk q pr \<Longrightarrow> PrivacySchema q (YObj
        [(''redact_patterns'', yStrs (dedupList (qv_redact_patterns po @ qv_redact_patterns pr))),
         (''deny_paths'', yStrs (dedupList (qv_deny_paths po @ qv_deny_paths pr))),
         (''allowed_url_prefixes'', yStrs (dedupList (qv_allowed_url_prefixes po @ qv_allowed_url_prefixes pr)))]) =
     Some (mergedPrivacy po pr)"
  by (simp add: PrivacySchema_def privacyOk_def mergedPrivacy_def zStrict_def zField_def list_all_dedup yparse)

lemma empty_sections:
  "CoordinationSchema (YObj []) = Some (cf_coordination defaultConfig)" "ServerSchema (YObj []) = Some NoWorkspace"
  "CodecommitSchema (YObj []) = Some ApprovalOff"
  by (simp_all add: CoordinationSchema_def ServerSchema_def CodecommitSchema_def zStrict_def zField_def defaultConfig_def)

lemma defaultConfig_parses: "ConfigSchema q (YObj []) = Some defaultConfig"
  by (simp add: ConfigSchema_def empty_sections zStrict_def zOptional_def zField_def zSection_def ReviewsSchema_def
      AutoReviewSchema_def CostSchema_def PrivacySchema_def RepoSchema_def IncrementalSchema_def RulesetSchema_def FeedbackSchema_def)
    (simp add: defaultConfig_def)

lemma defaultConfig_ok: "configOk q defaultConfig"
  using ConfigSchema_ok [of q "YObj []"] by (simp add: defaultConfig_parses)

lemma incremental_back: "IncrementalSchema (YObj (ySpread [(''enabled'', YBool a)] [(''enabled'', YBool b)])) = Some b"
  by (simp add: IncrementalSchema_def zStrict_def zField_def ySpread_def yparse)

lemma feedback_back:
  "1 \<le> b \<Longrightarrow> FeedbackSchema (YObj (ySpread [(''suppress_after'', yint a)] [(''suppress_after'', yint b)])) = Some b"
  by (simp add: FeedbackSchema_def zStrict_def zField_def ySpread_def yparse)

lemma ruleset_back: "RulesetSchema (YObj (ySpread (yRuleset a) (yRuleset b))) = Some (ySpread a b)"
  by (simp add: yRuleset_spread yRuleset_back)

lemma merge_closed_form:
  assumes org: "configOk q org" and repo: "configOk q repo"
  shows "mergeOrgIntoRepo q org repo = Some (mergedConfig org repo)"
proof -
  let ?kvs = "mergedInput org repo" and ?prov = "case cf_provider repo of Some p \<Rightarrow> Some p | None \<Rightarrow> cf_provider org"
  have "zStrict CONFIG_KEYS (YObj ?kvs) = Some ?kvs"
    by (auto simp: zStrict_def mergedInput_def CONFIG_KEYS_def Let_def yOptional_def split: option.splits)
  moreover have "zOptional ?kvs ''extends'' ExtendsSchema = Some (Some ExtNull)"
    by (simp add: mergedInput_def Let_def zOptional_def ExtendsSchema_def)
  moreover have "zField ?kvs ''language'' (zString isSupportedLanguage) d = Some (cf_language repo)" for d
    using repo by (simp add: mergedInput_def Let_def zField_def configOk_def yparse)
  moreover have "zField ?kvs ''profile'' (zEnum PROFILE_NAMES) d = Some (cf_profile repo)" for d
    by (simp add: mergedInput_def Let_def zField_def yparse)
  moreover have "zOptional ?kvs ''provider'' (ProviderSchema q) = Some ?prov"
  proof (rule zOptional_yOptional [where f = yProvider])
    show "map_of ?kvs ''provider'' = map_option yProvider ?prov"
      by (simp add: mergedInput_def Let_def map_add_def split: option.split)
    show "ProviderSchema q (yProvider p) = Some p" if "?prov = Some p" for p
      using that org repo by (intro yProvider_back) (auto simp: configOk_def split: option.splits)
  qed
  moreover have "zSection ?kvs ''reviews'' ReviewsSchema = Some (mergedReviews (cf_reviews org) (cf_reviews repo))"
    using org repo mergedReviews_back [of "cf_reviews org" "cf_reviews repo"]
    by (simp add: mergedInput_def Let_def zSection_def map_add_def configOk_def del: map_append)
  moreover have "zSection ?kvs ''cost'' CostSchema = Some (cf_cost repo)"
    using repo by (simp add: mergedInput_def Let_def zSection_def map_add_def configOk_def yCost_spread)
  moreover have "zSection ?kvs ''privacy'' (PrivacySchema q) = Some (mergedPrivacy (cf_privacy org) (cf_privacy repo))"
    using org repo by (simp add: mergedInput_def Let_def zSection_def map_add_def configOk_def mergedPrivacy_back)
  moreover have "zSection ?kvs ''repo'' RepoSchema = Some (cf_repo repo)"
    by (simp add: mergedInput_def Let_def zSection_def map_add_def yRepo_spread)
  moreover have "zField ?kvs ''skills'' (zArray (zString nonEmpty)) d = Some (cf_skills org @ cf_skills repo)" for d
    using org repo by (simp add: mergedInput_def Let_def zField_def map_add_def configOk_def allNonEmpty_list_all yparse)
  moreover have "zSection ?kvs ''incremental'' IncrementalSchema = Some (cf_incremental_enabled repo)"
    by (simp add: mergedInput_def Let_def zSection_def map_add_def incremental_back)
  moreover have "map_of ?kvs ''coordination'' = None" "map_of ?kvs ''server'' = None" "map_of ?kvs ''codecommit'' = None"
    by (simp_all add: mergedInput_def Let_def map_add_def)
  moreover have "zSection ?kvs ''ruleset'' RulesetSchema = Some (ySpread (cf_ruleset org) (cf_ruleset repo))"
    by (simp add: mergedInput_def Let_def zSection_def map_add_def ruleset_back)
  moreover have "zSection ?kvs ''feedback'' FeedbackSchema = Some (cf_suppress_after repo)"
    using repo by (simp add: mergedInput_def Let_def zSection_def map_add_def configOk_def feedback_back)
  ultimately show ?thesis
    unfolding mergeOrgIntoRepo_def ConfigSchema_def
    by (simp add: zSection_def [of _ "''coordination''"] zSection_def [of _ "''server''"] zSection_def [of _ "''codecommit''"]
        empty_sections mergedConfig_def)
qed

section \<open>Presets\<close>

lemma deepMerge_Nil [simp]: "deepMerge target [] = target"
  by (simp add: deepMerge_def)

lemma mergeUnder_None [simp]: "mergeUnder None v = v"
  by (cases v) (simp_all add: mergeUnder_def)

lemma update_fresh: "k \<notin> fst ` set kvs \<Longrightarrow> AList.update k v kvs = kvs @ [(k, v)]"
  by (induction kvs) auto

lemma deepMergeInto_fresh:
  "distinct (map fst src) \<Longrightarrow> fst ` set src \<inter> fst ` set res = {} \<Longrightarrow> deepMergeInto [] res src = res @ src"
proof (induction src arbitrary: res)
  case (Cons kv src)
  obtain k v where kv: "kv = (k, v)" by (cases kv)
  have "deepMergeInto [] (res @ [(k, v)]) src = (res @ [(k, v)]) @ src"
    using Cons.prems by (intro Cons.IH) (auto simp: kv)
  then show ?case using Cons.prems by (simp add: kv deepMergeInto_Cons update_fresh del: deepMergeInto.simps(2))
qed simp

lemma deepMerge_empty: "distinct (map fst src) \<Longrightarrow> deepMerge [] src = src"
  using deepMergeInto_fresh [of src "[]"] by (simp add: deepMerge_def)

text \<open>The configuration of a repository whose file only names a preset.\<close>

definition presetOnly :: "SchemaDeps \<Rightarrow> string \<Rightarrow> ConfigError + Config" where
  "presetOnly q preset = loadConfigFromYaml q (\<lambda>_. Some (YObj [(''extends'', YStr preset)])) []"

lemma presetOnly_schema:
  assumes "map_of BUNDLED_PRESETS preset = Some raw" "distinct (map fst raw)" "map_of raw ''extends'' = None" "preset \<noteq> ''org''"
  shows "presetOnly q preset = (case ConfigSchema q (YObj raw) of None \<Rightarrow> Inl InvalidConfig | Some c \<Rightarrow> Inr c)"
  using assms by (simp add: presetOnly_def loadConfigFromYaml_def parseDocument_def effectiveRaw_def resolveExtendsPresets_def
      loadBundledPresetRaw_def innerVisited_def withoutExtends_def deepMerge_empty)

lemmas schema_eval = ConfigSchema_def ReviewsSchema_def AutoReviewSchema_def CostSchema_def PrivacySchema_def RepoSchema_def
  IncrementalSchema_def RulesetSchema_def FeedbackSchema_def RulesetCategorySchema_def CONFIG_KEYS_def zStrict_def zOptional_def
  zField_def zSection_def zArray_def zBool_def zEnum_def zString_def zInt_def zPositive_def yint_def yenabled_def
  CATEGORY_NAMES_def SEVERITY_NAMES_def CONFIDENCE_NAMES_def THRESHOLD_NAMES_def anyString_def nonEmpty_def empty_sections

lemma preset_filters:
  "\<exists>c. ConfigSchema q (YObj RECOMMENDED_YAML) = Some c \<and> YArr (map YStr (qr_path_filters (cf_reviews c))) = PRESET_PATH_FILTERS"
  "\<exists>c. ConfigSchema q (YObj STRICT_YAML) = Some c \<and> YArr (map YStr (qr_path_filters (cf_reviews c))) = PRESET_PATH_FILTERS"
  "\<exists>c. ConfigSchema q (YObj SECURITY_FOCUSED_YAML) = Some c \<and> YArr (map YStr (qr_path_filters (cf_reviews c))) = PRESET_PATH_FILTERS"
  by (simp_all add: schema_eval RECOMMENDED_YAML_def STRICT_YAML_def SECURITY_FOCUSED_YAML_def PRESET_PATH_FILTERS_def
      PRESET_IGNORE_AUTHORS_def)

text \<open>A pattern that starts with an exclamation mark matches no path that does not.\<close>

lemma bang_misses: "globMatches (CHR ''!'' # g) (c # path) \<Longrightarrow> c = CHR ''!''"
  by (simp add: globMatches_def glob_tokens_def)

lemma bang_misses_empty: "\<not> globMatches (CHR ''!'' # g) []"
  by (simp add: globMatches_def glob_tokens_def)

definition startsWithBang :: "string \<Rightarrow> bool" where
  "startsWithBang path = startsWith path ''!''"

lemma preset_filters_value:
  "YArr (map YStr fs) = PRESET_PATH_FILTERS \<Longrightarrow> (\<forall>g \<in> set fs. plainGlob g \<and> hd g = CHR ''!'')"
  by (auto simp: PRESET_PATH_FILTERS_def plainGlob_def sect_def map_eq_Cons_conv)

lemma preset_filters_keep:
  assumes fs: "YArr (map YStr fs) = PRESET_PATH_FILTERS" and paths: "\<not> list_ex (\<lambda>f. startsWithBang (df_path f)) (pd_files parsed)"
  shows "applyPathFilters parsed fs = Inr parsed"
proof -
  have "\<not> globMatches g (df_path f)" if "g \<in> set fs" "f \<in> set (pd_files parsed)" for g f
  proof -
    have g: "plainGlob g" "hd g = CHR ''!''" using preset_filters_value [OF fs] that(1) by auto
    then obtain g' where "g = CHR ''!'' # g'" by (cases g) (auto simp: plainGlob_def)
    with that(2) paths show ?thesis
      using bang_misses bang_misses_empty by (cases "df_path f") (auto simp: startsWithBang_def list_ex_iff)
  qed
  then have "filter (\<lambda>f. \<not> (\<exists>g \<in> set fs. globMatches g (df_path f))) (pd_files parsed) = pd_files parsed"
    by (intro filter_True) blast
  then show ?thesis
    using preset_filters_value [OF fs] by (subst applyPathFilters_plain) auto
qed

lemma presetOnly_filters:
  assumes "preset \<in> set (map fst BUNDLED_PRESETS)"
  shows "\<exists>c. presetOnly q preset = Inr c \<and> YArr (map YStr (qr_path_filters (cf_reviews c))) = PRESET_PATH_FILTERS"
proof -
  have raws: "distinct (map fst RECOMMENDED_YAML)" "map_of RECOMMENDED_YAML ''extends'' = None"
    "distinct (map fst STRICT_YAML)" "map_of STRICT_YAML ''extends'' = None"
    "distinct (map fst SECURITY_FOCUSED_YAML)" "map_of SECURITY_FOCUSED_YAML ''extends'' = None"
    by (simp_all add: RECOMMENDED_YAML_def STRICT_YAML_def SECURITY_FOCUSED_YAML_def)
  consider "preset = ''recommended''" | "preset = ''strict''" | "preset = ''security-focused''"
    using assms by (auto simp: BUNDLED_PRESETS_def)
  then show ?thesis
  proof cases
    case 1
    with preset_filters(1) [of q] raws show ?thesis
      by (subst presetOnly_schema [where raw = RECOMMENDED_YAML]) (auto simp: BUNDLED_PRESETS_def)
  next
    case 2
    with preset_filters(2) [of q] raws show ?thesis
      by (subst presetOnly_schema [where raw = STRICT_YAML]) (auto simp: BUNDLED_PRESETS_def)
  next
    case 3
    with preset_filters(3) [of q] raws show ?thesis
      by (subst presetOnly_schema [where raw = SECURITY_FOCUSED_YAML]) (auto simp: BUNDLED_PRESETS_def)
  qed
qed

text \<open>
  The path filters of the bundled presets filter nothing.  A file that only names one of
  the presets loads, but its filters begin with an exclamation mark (\<open>!dist/**\<close>), which the
  glob compiler takes literally, and a path filter is an exclusion: any diff none of whose paths
  begins with an exclamation mark passes through them unchanged, lock files, build output and
  snapshots included.
\<close>

theorem preset_filters_inert:
  assumes "preset \<in> set (map fst BUNDLED_PRESETS)"
  shows "case presetOnly q preset of
      Inl _ \<Rightarrow> False
    | Inr c \<Rightarrow> (if list_ex (\<lambda>f. startsWithBang (df_path f)) (pd_files parsed) then True
                else applyPathFilters parsed (qr_path_filters (cf_reviews c)) = Inr parsed)"
  using presetOnly_filters [OF assms, of q] preset_filters_keep by auto

theorem preset_filters_inert_witness:
  "case presetOnly \<lparr>sd_isUrl = \<lambda>_. True, sd_newRegExp = \<lambda>_. None\<rparr> ''recommended'' of
      Inl _ \<Rightarrow> False
    | Inr c \<Rightarrow> (if list_ex (\<lambda>f. startsWithBang (df_path f)) (pd_files \<lparr>pd_preamble = [], pd_files = [\<lparr>df_path = ''dist/a.js'', df_body = ''+x''\<rparr>]\<rparr>)
        then True
        else applyPathFilters \<lparr>pd_preamble = [], pd_files = [\<lparr>df_path = ''dist/a.js'', df_body = ''+x''\<rparr>]\<rparr> (qr_path_filters (cf_reviews c)) =
               Inr \<lparr>pd_preamble = [], pd_files = [\<lparr>df_path = ''dist/a.js'', df_body = ''+x''\<rparr>]\<rparr>)"
  by (rule preset_filters_inert) (simp add: BUNDLED_PRESETS_def)

section \<open>Every configuration in use is valid\<close>

definition okOr :: "('a \<Rightarrow> bool) \<Rightarrow> 'e + 'a \<Rightarrow> bool" where
  "okOr P r = (case r of Inl _ \<Rightarrow> True | Inr x \<Rightarrow> P x)"

lemma okOr_simps [simp]: "okOr P (Inl e)" "okOr P (Inr x) = P x"
  by (simp_all add: okOr_def)

lemma okOr_bind: "okOr Q r \<Longrightarrow> (\<And>x. Q x \<Longrightarrow> okOr P (f x)) \<Longrightarrow> okOr P (resultBind r f)"
  by (cases r) (auto simp: resultBind_def)

lemma load_ok: "okOr (configOk q) (loadConfigFromYaml q parseYaml text)"
proof -
  have "configOk q c" if "ConfigSchema q v = Some c" for v c
    using ConfigSchema_ok [of q v] that by simp
  then show ?thesis by (auto simp: loadConfigFromYaml_def split: option.split sum.split)
qed

lemma envLanguage_ok: "configOk q c \<Longrightarrow> okOr (configOk q) (envLanguage env c)"
  by (simp add: envLanguage_def configOk_def)

lemma envProvider_ok: "configOk q c \<Longrightarrow> okOr (configOk q) (envProvider q env c)"
proof -
  assume ok: "configOk q c"
  have "providerOk q p" if "ProviderSchema q v = Some p" for v p
    using ProviderSchema_ok [of q v] that by simp
  then show ?thesis using ok by (auto simp: envProvider_def configOk_def split: option.split)
qed

lemma envMaxUsd_ok: "configOk q c \<Longrightarrow> okOr (configOk q) (envMaxUsd env c)"
  by (simp add: envMaxUsd_def configOk_def costOk_def positiveNum_def split: option.split)

lemma mergeWithEnv_ok: "configOk q c \<Longrightarrow> okOr (configOk q) (mergeWithEnv q c env)"
  unfolding mergeWithEnv_def
  by (rule okOr_bind, rule okOr_bind, erule envLanguage_ok, erule envProvider_ok, erule envMaxUsd_ok)

lemma applyMaxSteps_ok: "configOk q c \<Longrightarrow> okOr (configOk q) (applyMaxStepsEnv c raw)"
proof -
  assume "configOk q c"
  moreover have "1 \<le> \<lfloor>v\<rfloor> \<and> \<lfloor>v\<rfloor> \<le> 50" if "of_int \<lfloor>v\<rfloor> = v" "1 \<le> v" "v \<le> 50" for v :: rat
    using that by (metis le_floor_iff of_int_1 floor_mono floor_numeral)
  ultimately show ?thesis
    by (auto simp: applyMaxStepsEnv_def configOk_def reviewsOk_def not_less split: option.split)
qed

lemma resolve_ok: "okOr (\<lambda>(c, log'). configOk q c) (resolveEffectiveConfig q parseYaml repoYaml orgYaml env)"
  unfolding resolveEffectiveConfig_def Let_def
proof (rule okOr_bind [where Q = "configOk q"])
  show "okOr (configOk q) (case repoYaml of Some text \<Rightarrow> loadConfigFromYaml q parseYaml text
      | None \<Rightarrow> (case orgYaml of Some text \<Rightarrow> loadConfigFromYaml q parseYaml text | None \<Rightarrow> Inr defaultConfig))"
    by (auto simp: load_ok defaultConfig_ok split: option.split)
qed (auto intro!: okOr_bind [where Q = "configOk q"] mergeWithEnv_ok applyMaxSteps_ok split: option.split)

lemma fallback_ok: "okOr (\<lambda>(c, src). configOk q c) (fst (loadConfigWithOrgFallback q parseYaml get cache owner repoYaml))"
proof -
  have load: "configOk q c" if "loadConfigFromYaml q parseYaml doc = Inr c" for doc c
    using load_ok [of q parseYaml doc] that by simp
  have merged: "configOk q c" if "mergeOrgIntoRepo q a b = Some c" for a b c
    using ConfigSchema_ok [of q "YObj (mergedInput a b)"] that by (simp add: mergeOrgIntoRepo_def)
  show ?thesis
    unfolding loadConfigWithOrgFallback_def Let_def
    by (auto simp: defaultConfig_ok map_sum_def dest!: load merged split: option.splits sum.splits prod.splits)
qed

text \<open>
  C32: the program runs on valid configurations only.  Whatever the documents, the presets they
  name and the environment are, a configuration the resolver returns has between 1 and 50 agent
  steps and conversation turns, positive limits and cost caps, deny patterns that compile as
  globs, redaction patterns that compile, and non-empty names throughout; so does the result of
  the merge with the organisation's document.
\<close>

theorem configuration_in_bounds:
  "(case resolveEffectiveConfig q parseYaml repoYaml orgYaml env of Inl _ \<Rightarrow> True | Inr (c, _) \<Rightarrow> configOk q c) \<and>
   (case fst (loadConfigWithOrgFallback q parseYaml get cache owner repoYaml) of Inl _ \<Rightarrow> True | Inr (c, _) \<Rightarrow> configOk q c)"
  using resolve_ok [of q parseYaml repoYaml orgYaml env] fallback_ok [of q parseYaml get cache owner repoYaml]
  by (simp add: okOr_def)

section \<open>The organisation's document\<close>

lemma load_valid: "loadConfigFromYaml q parseYaml doc = Inr c \<Longrightarrow> configOk q c"
  using load_ok [of q parseYaml doc] by simp

text \<open>
  Merging with the organisation's document, exactly.  When both documents load, the second
  parse of the merge cannot fail, and its result is: the privacy lists, path filters, ignored
  authors, labels and skills of both (the organisation's first), the organisation's provider
  where the repository has none, its ruleset entries where the repository has none, and otherwise
  only what the repository's file alone would give.  A scalar the repository leaves out is
  therefore the built-in default and not the organisation's, and the confidence floor, the
  request-changes threshold, the coordination mode, the workspace strategy and the approval state
  are the built-in defaults whatever either document says.
\<close>

theorem org_merge_exact:
  assumes "loadConfigFromYaml q parseYaml orgText = Inr org" "loadConfigFromYaml q parseYaml repoText = Inr repo"
  shows "mergeOrgIntoRepo q org repo = Some (mergedConfig org repo)"
  by (rule merge_closed_form) (rule load_valid, rule assms)+

text \<open>The worked example of the documentation: the cap of the organisation, half a dollar, is lost.\<close>

definition exampleDocs :: ParseYaml where
  "exampleDocs name =
     (if name = ''org'' then Some (YObj
        [(''cost'', YObj [(''max_usd_per_pr'', YNum (Fin (1/2)))]), (''skills'', YArr [YStr ''acme'']),
         (''reviews'', YObj [(''min_confidence'', YStr ''high'')])])
      else Some (YObj [(''extends'', YStr ''org''), (''skills'', YArr [YStr ''payments''])]))"

definition exampleDeps :: SchemaDeps where "exampleDeps = \<lparr>sd_isUrl = \<lambda>_. True, sd_newRegExp = \<lambda>_. None\<rparr>"

definition exampleOrg :: Config where
  "exampleOrg = defaultConfig\<lparr>cf_cost := (cf_cost defaultConfig)\<lparr>qc_max_usd_per_pr := Fin (1/2)\<rparr>, cf_skills := [''acme''],
     cf_reviews := (cf_reviews defaultConfig)\<lparr>qr_min_confidence := High\<rparr>\<rparr>"

definition exampleRepo :: Config where
  "exampleRepo = defaultConfig\<lparr>cf_extends := Some (ExtName ''org''), cf_skills := [''payments'']\<rparr>"

lemma example_loads:
  "loadConfigFromYaml exampleDeps exampleDocs ''org'' = Inr exampleOrg"
  "loadConfigFromYaml exampleDeps exampleDocs ''repo'' = Inr exampleRepo"
  by (simp_all add: loadConfigFromYaml_def parseDocument_def effectiveRaw_def exampleDocs_def schema_eval ExtendsSchema_def)
    (simp_all add: exampleOrg_def exampleRepo_def defaultConfig_def)

theorem org_merge_exact_witness:
  "mergeOrgIntoRepo exampleDeps exampleOrg exampleRepo = Some (mergedConfig exampleOrg exampleRepo) \<and>
   qc_max_usd_per_pr (cf_cost exampleOrg) = Fin (1/2) \<and>
   qc_max_usd_per_pr (cf_cost (mergedConfig exampleOrg exampleRepo)) = Fin 1 \<and>
   qr_min_confidence (cf_reviews (mergedConfig exampleOrg exampleRepo)) = Low \<and>
   cf_skills (mergedConfig exampleOrg exampleRepo) = [''acme'', ''payments'']"
  using org_merge_exact [OF example_loads]
  by (simp add: exampleOrg_def exampleRepo_def defaultConfig_def mergedConfig_def mergedReviews_def)

section \<open>Repository over preset\<close>

lemma yget_deepMerge:
  "ywf (YObj src) \<Longrightarrow> yget ks (YObj src) = Some leaf \<Longrightarrow> isLeaf leaf \<Longrightarrow> yget ks (YObj (deepMerge base src)) = Some leaf"
  using yget_merge_wins [of "YObj src" ks leaf "Some (YObj base)"] by (simp add: mergeUnder_def)

text \<open>A value a repository writes at a path of keys is the value of the merge with its presets.\<close>

lemma repo_wins_over_presets:
  "ywf (YObj repoRaw) \<Longrightarrow> resolveExtendsPresets names repoRaw = Inr merged \<Longrightarrow>
   yget ks (YObj repoRaw) = Some leaf \<Longrightarrow> isLeaf leaf \<Longrightarrow> yget ks (YObj merged) = Some leaf"
  by (auto simp: resolveExtendsPresets_def intro: yget_deepMerge split: sum.splits)

text \<open>A preset's \<open>max_steps\<close> does not count as configured: the environment overrides it.\<close>

lemma env_overrides_preset_max_steps:
  "resolveEffectiveConfig q (\<lambda>_. Some (YObj [(''extends'', YStr ''strict'')])) (Some []) None
     \<lparr>eo_language = None, eo_provider = None, eo_model = None, eo_max_usd_per_pr = None, eo_max_steps = Some raw\<rparr> =
   resultBind (presetOnly q ''strict'') (\<lambda>c. resultBind (applyMaxStepsEnv c raw) (\<lambda>c'. Inr (c',
     \<lparr>cl_primarySource = RepoYaml, cl_orgYamlLoaded = False, cl_envApplied = True, cl_sections = buildSectionSources c RepoYaml None\<rparr>)))"
  by (simp add: resolveEffectiveConfig_def presetOnly_def resultBind_def rawYamlHasMaxSteps_def parseDocument_def
      loadConfigFromYaml_def split: sum.split)

section \<open>The cache of the organisation's document\<close>

text \<open>
  A run of the cache: each request has the owner, the two clock readings and what the repository
  host would answer at that moment.
\<close>

record OrgRequest =
  or_owner :: string
  or_now0 :: int
  or_now1 :: int
  or_answer :: "string + string option"

fun orgCacheRun :: "int \<Rightarrow> OrgCache \<Rightarrow> OrgRequest list \<Rightarrow> (string + string option) list" where
  "orgCacheRun ttl entries [] = []"
| "orgCacheRun ttl entries (r # rs) =
     (case orgCacheGet ttl (\<lambda>_. or_answer r) (or_now0 r) (or_now1 r) (or_owner r) entries of
        (result, entries') \<Rightarrow> result # orgCacheRun ttl entries' rs)"

text \<open>Every entry was answered to a request of \<open>past\<close>.\<close>

definition cacheFrom :: "int \<Rightarrow> OrgRequest set \<Rightarrow> OrgCache \<Rightarrow> bool" where
  "cacheFrom ttl past entries = (\<forall>owner e. entries owner = Some e \<longrightarrow>
     (\<exists>r \<in> past. or_owner r = owner \<and> or_answer r = Inr (ce_text e) \<and> ce_expires e = or_now1 r + ttl))"

definition freshAnswer :: "int \<Rightarrow> OrgRequest set \<Rightarrow> OrgRequest \<Rightarrow> string + string option \<Rightarrow> bool" where
  "freshAnswer ttl past r result = (result = or_answer r \<or>
     (\<exists>p \<in> past. or_owner p = or_owner r \<and> or_answer p = result \<and> or_now0 r - or_now1 p < ttl))"

lemma cacheFrom_store:
  "cacheFrom ttl past entries \<Longrightarrow> or_answer r = Inr t \<Longrightarrow>
   cacheFrom ttl (insert r past) (entries(or_owner r \<mapsto> \<lparr>ce_text = t, ce_expires = or_now1 r + ttl\<rparr>))"
  unfolding cacheFrom_def by (simp split: if_split)

lemma cacheFrom_mono: "cacheFrom ttl past entries \<Longrightarrow> cacheFrom ttl (insert r past) entries"
  unfolding cacheFrom_def by blast

lemma orgCacheGet_fresh:
  assumes "cacheFrom ttl past entries"
    and "orgCacheGet ttl (\<lambda>_. or_answer r) (or_now0 r) (or_now1 r) (or_owner r) entries = (result, entries')"
  shows "freshAnswer ttl past r result \<and> cacheFrom ttl (insert r past) entries'"
proof (cases "\<exists>c. entries (or_owner r) = Some c \<and> ce_expires c > or_now0 r")
  case True
  then obtain c where c: "entries (or_owner r) = Some c" "ce_expires c > or_now0 r" by blast
  with assms have "result = Inr (ce_text c)" "entries' = entries" by (auto simp: orgCacheGet_def)
  moreover obtain p where "p \<in> past" "or_owner p = or_owner r" "or_answer p = Inr (ce_text c)" "ce_expires c = or_now1 p + ttl"
    using assms(1) c(1) by (auto simp: cacheFrom_def)
  ultimately show ?thesis using c cacheFrom_mono [OF assms(1)] unfolding freshAnswer_def by auto
next
  case False
  with assms(2) have "result = or_answer r \<and> (entries' = entries \<or>
      (\<exists>t. or_answer r = Inr t \<and> entries' = entries(or_owner r \<mapsto> \<lparr>ce_text = t, ce_expires = or_now1 r + ttl\<rparr>)))"
    by (cases "or_answer r") (auto simp: orgCacheGet_def split: option.splits if_splits)
  then show ?thesis using assms(1) by (auto simp: freshAnswer_def intro: cacheFrom_mono cacheFrom_store)
qed

lemma orgCacheRun_fresh:
  "cacheFrom ttl past entries \<Longrightarrow> n < length rs \<Longrightarrow>
   freshAnswer ttl (past \<union> set (take n rs)) (rs ! n) (orgCacheRun ttl entries rs ! n)"
proof (induction rs arbitrary: past entries n)
  case (Cons r rs)
  obtain result entries' where step:
    "orgCacheGet ttl (\<lambda>_. or_answer r) (or_now0 r) (or_now1 r) (or_owner r) entries = (result, entries')" by force
  note fresh = orgCacheGet_fresh [OF Cons.prems(1) step]
  show ?case
  proof (cases n)
    case 0
    then show ?thesis using fresh step by simp
  next
    case (Suc m)
    with Cons.IH [of "insert r past" entries' m] Cons.prems fresh step show ?thesis by simp
  qed
qed simp

text \<open>
  The organisation's document a run uses is at most the lifetime of the cache old: every answer
  of the cache is what the host answered to this request, or to an earlier one for the same owner
  that finished less than \<open>ttl\<close> before.
\<close>

lemma org_text_fresh:
  "n < length rs \<Longrightarrow> freshAnswer ttl (set (take n rs)) (rs ! n) (orgCacheRun ttl Map.empty rs ! n)"
  using orgCacheRun_fresh [of ttl "{}" Map.empty n rs] by (simp add: cacheFrom_def)

end
