(* ===== verification/Vcs.thy ===== *)
theory Vcs
  imports ConfigSchema Comments JobQueue Marker
begin

text \<open>
  What the program knows of a code host: the data of \<open>core/src/vcs.ts\<close>, and the state comment
  of \<open>platform-github/src/state-comment.ts\<close> with the schema of the persisted state.  JSON values
  are the \<open>yval\<close> of the configuration, which has numbers that are not integers;
  \<open>JSON.parse\<close>, \<open>JSON.stringify\<close> and zod's date-time check are parameters.  An
  infinite total (a number literal beyond the range of a double) counts as invalid.
\<close>

section \<open>\<open>core/src/vcs.ts\<close>\<close>

type_synonym 'a vres = "UnknownError + 'a"

text \<open>\<open>throw new Error(message)\<close>.\<close>

definition jsError :: "string \<Rightarrow> UnknownError" where
  "jsError msg = \<lparr>ue_error = Some msg, ue_value = JNull\<rparr>"

record VCommit =
  vm_sha :: string
  vm_message :: string

record PR =
  pq_title :: string
  pq_body :: string
  pq_author :: string
  pq_baseSha :: string
  pq_headSha :: string
  pq_baseRef :: string
  pq_headRef :: string
  pq_draft :: bool
  pq_labels :: "string list"
  pq_commitMessages :: "VCommit list"
  pq_createdAt :: string
  pq_updatedAt :: string

datatype FileStatus = Added | Modified | Removed | Renamed

record DiffFile =
  dq_path :: string
  dq_previousPath :: "string option"
  dq_status :: FileStatus
  dq_additions :: int
  dq_deletions :: int
  dq_patch :: "string option"

record Diff =
  dd_baseSha :: string
  dd_headSha :: string
  dd_files :: "DiffFile list"

record ExistingComment =
  xc_id :: string
  xc_path :: "string option"
  xc_line :: "int option"
  xc_side :: "Side option"
  xc_body :: string
  xc_author :: string
  xc_createdAt :: string
  xc_inReplyTo :: "string option"

record CloneOpts =
  co_depth :: "nat option"
  co_filter :: "string option"
  co_sparsePaths :: "string list option"
  co_submodules :: bool
  co_lfs :: bool

record ReviewPayload =
  rv_comments :: "InlineComment list"
  rv_summary :: string
  rv_state :: ReviewState
  rv_event :: "ReviewEvent option"

datatype StateCommentMode = Native | PostgresOnly
datatype ApprovalEventMode = ApprovalGithub | ApprovalCodecommit | ApprovalNone

record VcsCapabilities =
  cap_clone :: bool
  cap_stateComment :: StateCommentMode
  cap_approvalEvent :: ApprovalEventMode
  cap_commitMessages :: bool
  cap_conversationReply :: bool

text \<open>
  The part of the interface the entry points use.  A write is given the number of the attempt,
  since the host may refuse one attempt and accept the next.
\<close>

record VCS =
  vc_platform :: Platform
  vc_capabilities :: VcsCapabilities
  vc_getPR :: "PrRef \<Rightarrow> PR vres"
  vc_getDiff :: "PrRef \<Rightarrow> string option \<Rightarrow> Diff vres"
  vc_getExistingComments :: "PrRef \<Rightarrow> ExistingComment list vres"
  vc_getStateComment :: "PrRef \<Rightarrow> ReviewState option vres"
  vc_postReview :: "PrRef \<Rightarrow> ReviewPayload \<Rightarrow> nat \<Rightarrow> unit vres"
  vc_postSummary :: "PrRef \<Rightarrow> string \<Rightarrow> string vres"
  vc_upsertStateComment :: "PrRef \<Rightarrow> ReviewState \<Rightarrow> nat \<Rightarrow> unit vres"

section \<open>Paths\<close>

text \<open>\<open>assertSafeRelativePath\<close>, the same in both adapters; the message of a refusal is abbreviated.\<close>

definition TRAVERSAL_REGEX :: "string \<Rightarrow> bool" where
  "TRAVERSAL_REGEX path = (''..'' \<in> set (splitOn (CHR ''/'') (map (\<lambda>c. if c = CHR 0x5C then CHR ''/'' else c) path)))"

definition assertSafeRelativePath :: "string \<Rightarrow> unit vres" where
  "assertSafeRelativePath path =
     (if path = [] then Inl (jsError ''Refusing empty path'')
      else if startsWith path ''/'' then Inl (jsError ''Refusing absolute path'')
      else if startsWith path ''~'' then Inl (jsError ''Refusing home-expanded path'')
      else if TRAVERSAL_REGEX path then Inl (jsError ''Refusing traversal path'')
      else if includesStr path [NUL] then Inl (jsError ''Refusing path with NUL byte'')
      else Inr ())"

text \<open>\<open>Number.parseInt(s, 10)\<close> of a text: an optional sign and the digits after white space.\<close>

definition parseIntDigits :: "string \<Rightarrow> int option" where
  "parseIntDigits s =
     (let t = trimStart s; neg = startsWith t ''-''; u = (if neg \<or> startsWith t ''+'' then drop 1 t else t); ds = takeWhile isDigit u
      in if ds = [] then None else Some (if neg then - int (readDigits ds) else int (readDigits ds)))"

definition lastIndexOfC :: "string \<Rightarrow> char \<Rightarrow> nat option" where
  "lastIndexOfC s c = (if c \<in> set s then Some (length s - 1 - length (takeWhile (\<lambda>d. d \<noteq> c) (rev s))) else None)"

section \<open>The state comment\<close>

definition MARKER_OPEN :: string where "MARKER_OPEN = ''<!-- review-agent-state:''"
definition MARKER_CLOSE :: string where "MARKER_CLOSE = ''-->''"

definition hexDigits :: "nat \<Rightarrow> string \<Rightarrow> bool" where
  "hexDigits n s = (length s = n \<and> list_all (\<lambda>c. isDigit c \<or> c \<in> set ''abcdef'') s)"

definition SHA1_HEX :: "string \<Rightarrow> bool" where "SHA1_HEX s = hexDigits 40 s"
definition FINGERPRINT_HEX :: "string \<Rightarrow> bool" where "FINGERPRINT_HEX s = hexDigits 16 s"

text \<open>\<open>z.number().nonnegative()\<close>.\<close>

definition zNonNegative :: "yval \<Rightarrow> rat option" where
  "zNonNegative v = (case v of YNum (Fin q) \<Rightarrow> if 0 \<le> q then Some q else None | _ \<Rightarrow> None)"

definition STATE_KEYS :: "string list" where
  "STATE_KEYS = [''schemaVersion'', ''lastReviewedSha'', ''baseSha'', ''reviewedAt'', ''modelUsed'', ''totalTokens'',
     ''totalCostUsd'', ''commentFingerprints'']"

definition ReviewStateSchema :: "(string \<Rightarrow> bool) \<Rightarrow> yval \<Rightarrow> ReviewState option" where
  "ReviewStateSchema isDatetime v = do {
     o' \<leftarrow> zStrict STATE_KEYS v;
     ver \<leftarrow> zRequired o' ''schemaVersion'' (zInt (\<lambda>n. n = 1));
     lrs \<leftarrow> zRequired o' ''lastReviewedSha'' (zString SHA1_HEX);
     bs \<leftarrow> zRequired o' ''baseSha'' (zString SHA1_HEX);
     ra \<leftarrow> zRequired o' ''reviewedAt'' (zString isDatetime);
     mu \<leftarrow> zRequired o' ''modelUsed'' (zString (lengthWithin MODEL_NAME_MIN MODEL_NAME_MAX));
     tt \<leftarrow> zRequired o' ''totalTokens'' (zInt (\<lambda>n. 0 \<le> n));
     tc \<leftarrow> zRequired o' ''totalCostUsd'' zNonNegative;
     fps \<leftarrow> zRequired o' ''commentFingerprints'' (zArray (zString FINGERPRINT_HEX));
     Some \<lparr>rs_schemaVersion = nat ver, rs_lastReviewedSha = lrs, rs_baseSha = bs, rs_reviewedAt = ra, rs_modelUsed = mu,
       rs_totalTokens = tt, rs_totalCostUsd = tc, rs_commentFingerprints = fps\<rparr>}"

text \<open>The object a state is.\<close>

definition reviewStateY :: "ReviewState \<Rightarrow> yval" where
  "reviewStateY s = YObj
     [(''schemaVersion'', yint (int (rs_schemaVersion s))), (''lastReviewedSha'', YStr (rs_lastReviewedSha s)),
      (''baseSha'', YStr (rs_baseSha s)), (''reviewedAt'', YStr (rs_reviewedAt s)), (''modelUsed'', YStr (rs_modelUsed s)),
      (''totalTokens'', yint (rs_totalTokens s)), (''totalCostUsd'', YNum (Fin (rs_totalCostUsd s))),
      (''commentFingerprints'', YArr (map YStr (rs_commentFingerprints s)))]"

definition formatStateComment :: "(yval \<Rightarrow> string) \<Rightarrow> ReviewState \<Rightarrow> string" where
  "formatStateComment jsonText state = MARKER_OPEN @ '' '' @ jsonText (reviewStateY state) @ '' '' @ MARKER_CLOSE"

text \<open>
  \<open>MARKER_REGEX.exec(body)?.[1]\<close>.  A marker is followed by the text up to the first closing
  arrow; the white space around it is not captured.
\<close>

definition markerRest :: "string \<Rightarrow> string option" where
  "markerRest t =
     (if startsWith t ''<!--''
      then (let u = trimStart (drop 4 t)
            in if startsWith u ''review-agent-state:'' then Some (trimStart (drop (length ''review-agent-state:'') u)) else None)
      else None)"

fun MARKER_REGEX :: "string \<Rightarrow> string option" where
  "MARKER_REGEX [] = None"
| "MARKER_REGEX (c # s) =
     (case markerRest (c # s) of
        None \<Rightarrow> MARKER_REGEX s
      | Some rest \<Rightarrow>
          (case indexOf rest MARKER_CLOSE of
             Some k \<Rightarrow> Some (trimEnd (take k rest))
           | None \<Rightarrow> MARKER_REGEX s))"

datatype StateParseEvent = SchemaMismatch yval | ValidationFailure | JsonParseFailure

definition parseStateComment ::
  "(string \<Rightarrow> yval option) \<Rightarrow> (string \<Rightarrow> bool) \<Rightarrow> string \<Rightarrow> ReviewState option \<times> StateParseEvent list" where
  "parseStateComment parseJson isDatetime body =
     (case MARKER_REGEX body of
        None \<Rightarrow> (None, [])
      | Some json \<Rightarrow>
          if json = [] then (None, [])
          else (case parseJson json of
                  None \<Rightarrow> (None, [JsonParseFailure])
                | Some parsed \<Rightarrow>
                    (case (case parsed of YObj kvs \<Rightarrow> map_of kvs ''schemaVersion'' | _ \<Rightarrow> None) of
                       Some found \<Rightarrow>
                         if found \<noteq> yint 1 then (None, [SchemaMismatch found])
                         else (case ReviewStateSchema isDatetime parsed of None \<Rightarrow> (None, [ValidationFailure]) | Some st \<Rightarrow> (Some st, []))
                     | None \<Rightarrow>
                         (case ReviewStateSchema isDatetime parsed of None \<Rightarrow> (None, [ValidationFailure]) | Some st \<Rightarrow> (Some st, [])))))"

definition buildSummaryWithState :: "(yval \<Rightarrow> string) \<Rightarrow> string \<Rightarrow> ReviewState \<Rightarrow> string" where
  "buildSummaryWithState jsonText humanReadable state =
     trimEnd humanReadable @ [LF, LF] @ formatStateComment jsonText state @ [LF]"

section \<open>Reading back a state comment\<close>

definition storedStateOk :: "(string \<Rightarrow> bool) \<Rightarrow> ReviewState \<Rightarrow> bool" where
  "storedStateOk isDatetime s =
     (rs_schemaVersion s = 1 \<and> SHA1_HEX (rs_lastReviewedSha s) \<and> SHA1_HEX (rs_baseSha s) \<and> isDatetime (rs_reviewedAt s) \<and>
      lengthWithin MODEL_NAME_MIN MODEL_NAME_MAX (rs_modelUsed s) \<and> 0 \<le> rs_totalTokens s \<and> 0 \<le> rs_totalCostUsd s \<and>
      list_all FINGERPRINT_HEX (rs_commentFingerprints s))"

lemma zAll_strings: "list_all ok xs \<Longrightarrow> zAll (zString ok) (map YStr xs) = Some xs"
  by (induction xs) (auto simp: zString_def)

lemma reviewStateY_back: "storedStateOk isDatetime s \<Longrightarrow> ReviewStateSchema isDatetime (reviewStateY s) = Some s"
  by (cases s) (simp add: ReviewStateSchema_def reviewStateY_def storedStateOk_def STATE_KEYS_def zStrict_def zRequired_def
      zString_def zInt_def zNonNegative_def yint_def zArray_def zAll_strings)

lemma indexOf_here: "startsWith (p @ s) p"
  by (simp add: startsWith_iff_prefix)

lemma trimStart_id: "s = [] \<or> \<not> isSpace (hd s) \<Longrightarrow> trimStart s = s"
  unfolding trimStart_def by (cases s) auto

lemma trimStart_space: "trimStart (CHR '' '' # s) = trimStart s"
  by (simp add: trimStart_def isSpace_def)

text \<open>A JSON text of an object: not empty, no white space at its ends, no closing arrow inside.\<close>

definition embeddable :: "string \<Rightarrow> bool" where
  "embeddable t = (t \<noteq> [] \<and> \<not> isSpace (hd t) \<and> \<not> isSpace (last t) \<and> indexOf (t @ '' '' @ MARKER_CLOSE) MARKER_CLOSE = Some (length t + 1))"

lemma MARKER_REGEX_format:
  assumes "embeddable t"
  shows "MARKER_REGEX (MARKER_OPEN @ '' '' @ t @ '' '' @ MARKER_CLOSE) = Some t"
proof -
  have rest: "markerRest (MARKER_OPEN @ '' '' @ t @ '' '' @ MARKER_CLOSE) = Some (t @ '' '' @ MARKER_CLOSE)"
    using assms by (cases t) (simp_all add: markerRest_def MARKER_OPEN_def embeddable_def trimStart_def isSpace_def)
  obtain u c where t: "t = u @ [c]" and c: "\<not> isSpace c"
    using assms by (cases t rule: rev_cases) (auto simp: embeddable_def)
  have "trimEnd (t @ '' '') = t"
    using c by (simp add: t trimEnd_def) (simp add: isSpace_def)
  then show ?thesis
    using assms rest by (simp add: MARKER_OPEN_def embeddable_def)
qed

lemma parse_format:
  assumes "storedStateOk isDatetime s" "embeddable (jsonText (reviewStateY s))" "parseJson (jsonText (reviewStateY s)) = Some (reviewStateY s)"
  shows "parseStateComment parseJson isDatetime (formatStateComment jsonText s) = (Some s, [])"
proof -
  have "MARKER_REGEX (formatStateComment jsonText s) = Some (jsonText (reviewStateY s))"
    unfolding formatStateComment_def by (rule MARKER_REGEX_format [OF assms(2)])
  moreover have "rs_schemaVersion s = 1" using assms(1) by (simp add: storedStateOk_def)
  ultimately show ?thesis
    using assms reviewStateY_back [OF assms(1)] by (simp add: parseStateComment_def embeddable_def) (simp add: reviewStateY_def)
qed

end
