(* ===== verification/GithubVcs.thy ===== *)
theory GithubVcs
  imports Vcs Tools Config
begin

text \<open>
  The GitHub adapter, \<open>platform-github/src/adapter.ts\<close>, with \<open>clone.ts\<close>, \<open>platform.ts\<close>,
  \<open>org-config.ts\<close>, \<open>feedback.ts\<close> and \<open>installation-repos.ts\<close>.  The REST client is
  a parameter: one function per endpoint, a paginated listing being the list of all its items.
  A write is the call it makes; whether GitHub accepts it is the parameter \<open>gh_send\<close>.  A file's
  content stays in the encoding GitHub sends it in.
\<close>

section \<open>The client\<close>

record RawCommit =
  gc_sha :: string
  gc_message :: "string option"

record RawPr =
  gp_title :: string
  gp_body :: "string option"
  gp_user :: "string option"
  gp_baseSha :: string
  gp_headSha :: string
  gp_baseRef :: string
  gp_headRef :: string
  gp_draft :: "bool option"
  gp_labels :: "string option list"
  gp_commits :: "nat option"
  gp_createdAt :: string
  gp_updatedAt :: string

record RawFile =
  gf_filename :: string
  gf_previous :: "string option"
  gf_status :: "string option"
  gf_additions :: int
  gf_deletions :: int
  gf_patch :: "string option"

record RawCompare =
  gk_mergeBaseSha :: string
  gk_commits :: "string list"
  gk_files :: "RawFile list option"

record RawReviewComment =
  gr_id :: string
  gr_path :: "string option"
  gr_line :: "int option"
  gr_originalLine :: "int option"
  gr_side :: "Side option"
  gr_body :: "string option"
  gr_user :: "string option"
  gr_createdAt :: string

record RawIssueComment =
  gi_id :: int
  gi_body :: "string option"
  gi_user :: "string option"

datatype RawContent = RawDirectory | RawOther | RawFileContent "string option" "string option"

record ReviewCommentInput =
  rc_path :: string
  rc_line :: int
  rc_side :: Side
  rc_body :: string

datatype GithubCall =
    CreateReview string string int ReviewEvent string "ReviewCommentInput list"
  | CreateIssueComment string string int string
  | UpdateIssueComment string string int string
  | CreateReply string string int "rat option" string

record Octokit =
  gh_pullsGet :: "string \<Rightarrow> string \<Rightarrow> int \<Rightarrow> RawPr vres"
  gh_listCommits :: "string \<Rightarrow> string \<Rightarrow> int \<Rightarrow> nat \<Rightarrow> nat \<Rightarrow> RawCommit list vres"
  gh_compare :: "string \<Rightarrow> string \<Rightarrow> string \<Rightarrow> RawCompare vres"
  gh_listFiles :: "string \<Rightarrow> string \<Rightarrow> int \<Rightarrow> RawFile list vres"
  gh_getContent :: "string \<Rightarrow> string \<Rightarrow> string \<Rightarrow> string option \<Rightarrow> RawContent vres"
  gh_listReviewComments :: "string \<Rightarrow> string \<Rightarrow> int \<Rightarrow> RawReviewComment list vres"
  gh_listIssueComments :: "string \<Rightarrow> string \<Rightarrow> int \<Rightarrow> RawIssueComment list vres"
  gh_send :: "GithubCall \<Rightarrow> nat \<Rightarrow> string vres"

record JsonCodec =
  jc_text :: "yval \<Rightarrow> string"
  jc_parse :: "string \<Rightarrow> yval option"
  jc_isDatetime :: "string \<Rightarrow> bool"

section \<open>Reading a pull request\<close>

definition GITHUB_CAPABILITIES :: VcsCapabilities where
  "GITHUB_CAPABILITIES = \<lparr>cap_clone = True, cap_stateComment = Native, cap_approvalEvent = ApprovalGithub,
     cap_commitMessages = True, cap_conversationReply = True\<rparr>"

definition STATUS_MAP :: "(string \<times> FileStatus) list" where
  "STATUS_MAP = [(''added'', Added), (''modified'', Modified), (''removed'', Removed), (''renamed'', Renamed),
     (''copied'', Modified), (''changed'', Modified), (''unchanged'', Modified)]"

definition mapStatus :: "string option \<Rightarrow> FileStatus" where
  "mapStatus status =
     (case status of None \<Rightarrow> Modified
      | Some s \<Rightarrow> if s = [] then Modified else (case map_of STATUS_MAP s of None \<Rightarrow> Modified | Some v \<Rightarrow> v))"

definition COMMIT_MESSAGES_CAP :: nat where "COMMIT_MESSAGES_CAP = 20"
definition COMMIT_MESSAGE_MAX_CHARS :: nat where "COMMIT_MESSAGE_MAX_CHARS = 5000"
definition COMMIT_PAGE_SIZE :: nat where "COMMIT_PAGE_SIZE = 100"

definition truncateMessage :: "string \<Rightarrow> string" where
  "truncateMessage message =
     (if length message \<le> COMMIT_MESSAGE_MAX_CHARS then message
      else take COMMIT_MESSAGE_MAX_CHARS message @ [LF] @ ''[...truncated at 5000 chars]'')"

definition ensureGithub :: "PrRef \<Rightarrow> unit vres" where
  "ensureGithub ref =
     (if pr_platform ref \<noteq> Github then Inl (jsError ''Github VCS adapter received another platform'') else Inr ())"

definition ceilDiv :: "nat \<Rightarrow> nat \<Rightarrow> nat" where "ceilDiv a b = (a + b - 1) div b"

definition lastN :: "nat \<Rightarrow> 'a list \<Rightarrow> 'a list" where "lastN n xs = drop (length xs - n) xs"

definition fetchCommits :: "Octokit \<Rightarrow> PrRef \<Rightarrow> nat \<Rightarrow> RawCommit list vres" where
  "fetchCommits gh ref totalCommits =
     (if totalCommits = 0 then Inr []
      else let lastPage = max 1 (ceilDiv totalCommits COMMIT_PAGE_SIZE);
               page = gh_listCommits gh (pr_owner ref) (pr_repo ref) (pr_number ref) COMMIT_PAGE_SIZE
           in resultBind (page lastPage) (\<lambda>commitsRaw.
              if lastPage > 1 \<and> length commitsRaw < COMMIT_MESSAGES_CAP
              then resultBind (page (lastPage - 1)) (\<lambda>prev. Inr (prev @ commitsRaw))
              else Inr commitsRaw))"

definition getPR :: "Octokit \<Rightarrow> PrRef \<Rightarrow> PR vres" where
  "getPR gh ref =
     resultBind (ensureGithub ref) (\<lambda>_.
     resultBind (gh_pullsGet gh (pr_owner ref) (pr_repo ref) (pr_number ref)) (\<lambda>d.
     resultBind (fetchCommits gh ref (case gp_commits d of None \<Rightarrow> 0 | Some n \<Rightarrow> n)) (\<lambda>commitsRaw.
     Inr \<lparr>pq_title = gp_title d, pq_body = (case gp_body d of None \<Rightarrow> [] | Some b \<Rightarrow> b),
       pq_author = (case gp_user d of None \<Rightarrow> ''unknown'' | Some u \<Rightarrow> u),
       pq_baseSha = gp_baseSha d, pq_headSha = gp_headSha d, pq_baseRef = gp_baseRef d, pq_headRef = gp_headRef d,
       pq_draft = (case gp_draft d of None \<Rightarrow> False | Some b \<Rightarrow> b),
       pq_labels = map (\<lambda>l. case l of None \<Rightarrow> [] | Some n \<Rightarrow> n) (gp_labels d),
       pq_commitMessages = map (\<lambda>c. \<lparr>vm_sha = gc_sha c,
           vm_message = truncateMessage (case gc_message c of None \<Rightarrow> [] | Some t \<Rightarrow> t)\<rparr>) (lastN COMMIT_MESSAGES_CAP commitsRaw),
       pq_createdAt = gp_createdAt d, pq_updatedAt = gp_updatedAt d\<rparr>)))"

definition toGithubDiffFile :: "RawFile \<Rightarrow> DiffFile" where
  "toGithubDiffFile f = \<lparr>dq_path = gf_filename f, dq_previousPath = gf_previous f, dq_status = mapStatus (gf_status f),
     dq_additions = gf_additions f, dq_deletions = gf_deletions f, dq_patch = gf_patch f\<rparr>"

text \<open>With \<open>sinceSha\<close> the comparison is with the name \<open>HEAD\<close>.\<close>

definition getDiff :: "Octokit \<Rightarrow> PrRef \<Rightarrow> string option \<Rightarrow> Diff vres" where
  "getDiff gh ref sinceSha =
     resultBind (ensureGithub ref) (\<lambda>_.
       if (case sinceSha of None \<Rightarrow> False | Some s \<Rightarrow> s \<noteq> [])
       then resultBind (gh_compare gh (pr_owner ref) (pr_repo ref) (the sinceSha @ ''...HEAD'')) (\<lambda>d.
              Inr \<lparr>dd_baseSha = gk_mergeBaseSha d,
                dd_headSha = (if gk_commits d = [] then the sinceSha else last (gk_commits d)),
                dd_files = map toGithubDiffFile (case gk_files d of None \<Rightarrow> [] | Some fs \<Rightarrow> fs)\<rparr>)
       else resultBind (getPR gh ref) (\<lambda>pr.
            resultBind (gh_listFiles gh (pr_owner ref) (pr_repo ref) (pr_number ref)) (\<lambda>files.
            Inr \<lparr>dd_baseSha = pq_baseSha pr, dd_headSha = pq_headSha pr, dd_files = map toGithubDiffFile files\<rparr>)))"

datatype FileBytes = Base64Bytes string | Utf8Bytes string

definition getFile :: "Octokit \<Rightarrow> PrRef \<Rightarrow> string \<Rightarrow> string \<Rightarrow> FileBytes vres" where
  "getFile gh ref path sha =
     resultBind (ensureGithub ref) (\<lambda>_.
     resultBind (assertSafeRelativePath path) (\<lambda>_.
     resultBind (gh_getContent gh (pr_owner ref) (pr_repo ref) path (Some sha)) (\<lambda>d.
       case d of
         RawFileContent (Some content) encoding \<Rightarrow>
           Inr (if encoding = Some ''base64'' then Base64Bytes content else Utf8Bytes content)
       | _ \<Rightarrow> Inl (jsError ''Cannot read non-file content''))))"

section \<open>Writing\<close>

text \<open>\<open>review.event ?? 'COMMENT'\<close>, one comment per finding with its fingerprint marker.\<close>

definition postReviewCall :: "JsonCodec \<Rightarrow> PrRef \<Rightarrow> ReviewPayload \<Rightarrow> GithubCall" where
  "postReviewCall jc ref review =
     CreateReview (pr_owner ref) (pr_repo ref) (pr_number ref)
       (case rv_event review of None \<Rightarrow> COMMENT | Some e \<Rightarrow> e)
       (buildSummaryWithState (jc_text jc) (rv_summary review) (rv_state review))
       (map (\<lambda>c. \<lparr>rc_path = c_path c, rc_line = c_line c, rc_side = c_side c,
          rc_body = appendFingerprintMarker (c_body c) (c_fingerprint c)\<rparr>) (rv_comments review))"

definition postReview :: "Octokit \<Rightarrow> JsonCodec \<Rightarrow> PrRef \<Rightarrow> ReviewPayload \<Rightarrow> nat \<Rightarrow> unit vres" where
  "postReview gh jc ref review attempt =
     resultBind (ensureGithub ref) (\<lambda>_. resultBind (gh_send gh (postReviewCall jc ref review) attempt) (\<lambda>_. Inr ()))"

definition postSummary :: "Octokit \<Rightarrow> PrRef \<Rightarrow> string \<Rightarrow> string vres" where
  "postSummary gh ref body =
     resultBind (ensureGithub ref) (\<lambda>_. gh_send gh (CreateIssueComment (pr_owner ref) (pr_repo ref) (pr_number ref) body) 0)"

text \<open>\<open>Number(commentId)\<close>; what is not a number is sent as \<open>null\<close>.\<close>

definition postReply :: "Octokit \<Rightarrow> PrRef \<Rightarrow> string \<Rightarrow> string \<Rightarrow> unit vres" where
  "postReply gh ref commentId body =
     resultBind (ensureGithub ref) (\<lambda>_.
     resultBind (gh_send gh (CreateReply (pr_owner ref) (pr_repo ref) (pr_number ref) (jsNumber commentId) body) 0) (\<lambda>_. Inr ()))"

definition getExistingComments :: "Octokit \<Rightarrow> PrRef \<Rightarrow> ExistingComment list vres" where
  "getExistingComments gh ref =
     resultBind (ensureGithub ref) (\<lambda>_.
     resultBind (gh_listReviewComments gh (pr_owner ref) (pr_repo ref) (pr_number ref)) (\<lambda>review.
     Inr (map (\<lambda>c. \<lparr>xc_id = gr_id c, xc_path = gr_path c,
        xc_line = (case gr_line c of Some l \<Rightarrow> Some l | None \<Rightarrow> gr_originalLine c), xc_side = gr_side c,
        xc_body = (case gr_body c of None \<Rightarrow> [] | Some b \<Rightarrow> b), xc_author = (case gr_user c of None \<Rightarrow> ''unknown'' | Some u \<Rightarrow> u),
        xc_createdAt = gr_createdAt c, xc_inReplyTo = None\<rparr>) review)))"

section \<open>The state comment\<close>

definition hasMarker :: "RawIssueComment \<Rightarrow> bool" where
  "hasMarker c = (case gi_body c of None \<Rightarrow> False | Some b \<Rightarrow> includesStr b MARKER_OPEN)"

text \<open>From the newest comment to the oldest; whose comment it is does not matter.\<close>

definition findStateComment :: "Octokit \<Rightarrow> PrRef \<Rightarrow> (int \<times> string) option vres" where
  "findStateComment gh ref =
     resultBind (gh_listIssueComments gh (pr_owner ref) (pr_repo ref) (pr_number ref)) (\<lambda>items.
       Inr (case List.find hasMarker (rev items) of None \<Rightarrow> None | Some c \<Rightarrow> Some (gi_id c, the (gi_body c))))"

definition getStateComment :: "Octokit \<Rightarrow> JsonCodec \<Rightarrow> PrRef \<Rightarrow> (ReviewState option \<times> StateParseEvent list) vres" where
  "getStateComment gh jc ref =
     resultBind (ensureGithub ref) (\<lambda>_.
     resultBind (findStateComment gh ref) (\<lambda>found.
       Inr (case found of None \<Rightarrow> (None, []) | Some (i, body) \<Rightarrow> parseStateComment (jc_parse jc) (jc_isDatetime jc) body)))"

definition upsertStateComment :: "Octokit \<Rightarrow> JsonCodec \<Rightarrow> PrRef \<Rightarrow> ReviewState \<Rightarrow> nat \<Rightarrow> unit vres" where
  "upsertStateComment gh jc ref state attempt =
     resultBind (ensureGithub ref) (\<lambda>_.
     resultBind (findStateComment gh ref) (\<lambda>found.
     let body = formatStateComment (jc_text jc) state @ [LF]
     in resultBind (gh_send gh (case found of
            Some (i, _) \<Rightarrow> UpdateIssueComment (pr_owner ref) (pr_repo ref) i body
          | None \<Rightarrow> CreateIssueComment (pr_owner ref) (pr_repo ref) (pr_number ref) body) attempt) (\<lambda>_. Inr ())))"

definition createGithubVCS :: "Octokit \<Rightarrow> JsonCodec \<Rightarrow> string \<Rightarrow> VCS vres" where
  "createGithubVCS gh jc token =
     (if token = [] then Inl (jsError ''createGithubVCS requires a token'')
      else Inr \<lparr>vc_platform = Github, vc_capabilities = GITHUB_CAPABILITIES, vc_getPR = getPR gh, vc_getDiff = getDiff gh,
        vc_getExistingComments = getExistingComments gh,
        vc_getStateComment = (\<lambda>ref. resultBind (getStateComment gh jc ref) (\<lambda>r. Inr (fst r))),
        vc_postReview = postReview gh jc, vc_postSummary = postSummary gh, vc_upsertStateComment = upsertStateComment gh jc\<rparr>)"

section \<open>\<open>clone.ts\<close>\<close>

text \<open>Each git run is its arguments with whether large files are skipped; a run may fail.\<close>

record GitRun =
  gg_args :: "string list"
  gg_skipLfs :: bool

definition DEFAULT_DEPTH :: nat where "DEFAULT_DEPTH = 50"

definition refChar :: "char \<Rightarrow> bool" where
  "refChar c = (isDigit c \<or> (let n = of_char c :: nat in 65 \<le> n \<and> n \<le> 90 \<or> 97 \<le> n \<and> n \<le> 122) \<or> c \<in> set ''_./-'')"

definition SAFE_REF_REGEX :: "string \<Rightarrow> bool" where
  "SAFE_REF_REGEX ref = (ref \<noteq> [] \<and> list_all refChar ref)"

definition buildCloneArgs :: "string \<Rightarrow> string \<Rightarrow> CloneOpts \<Rightarrow> string list" where
  "buildCloneArgs url dest opts =
     [''clone'', ''--depth='' @ digitsOf (case co_depth opts of None \<Rightarrow> DEFAULT_DEPTH | Some d \<Rightarrow> d), ''--no-checkout'', ''--no-tags''] @
     (case co_filter opts of Some f \<Rightarrow> if f \<noteq> ''none'' then [''--filter='' @ f] else [] | None \<Rightarrow> []) @
     (if co_submodules opts then [''--recurse-submodules'', ''--shallow-submodules''] else []) @
     [''--'', url, dest]"

definition gitRun :: "CloneOpts \<Rightarrow> string list \<Rightarrow> GitRun" where
  "gitRun opts args = \<lparr>gg_args = args, gg_skipLfs = (\<not> co_lfs opts)\<rparr>"

definition clonePlan :: "string \<Rightarrow> string \<Rightarrow> string \<Rightarrow> CloneOpts \<Rightarrow> GitRun list" where
  "clonePlan url dest headSha opts =
     map (gitRun opts)
      ([buildCloneArgs url dest opts] @
       (case co_sparsePaths opts of
          Some ps \<Rightarrow> if ps \<noteq> [] \<and> length ps \<le> 100
                     then [[''-C'', dest, ''sparse-checkout'', ''init'', ''--cone''], [''-C'', dest, ''sparse-checkout'', ''set''] @ ps] else []
        | None \<Rightarrow> []) @
       [[''-C'', dest, ''fetch'', ''origin'', headSha, ''--depth='' @ digitsOf (case co_depth opts of None \<Rightarrow> DEFAULT_DEPTH | Some d \<Rightarrow> d)],
        [''-C'', dest, ''checkout'', headSha]])"

text \<open>The runs made: up to the first that fails.\<close>

fun runAll :: "(GitRun \<Rightarrow> unit vres) \<Rightarrow> GitRun list \<Rightarrow> unit vres \<times> GitRun list" where
  "runAll runGit [] = (Inr (), [])"
| "runAll runGit (r # rs) =
     (case runGit r of
        Inl e \<Rightarrow> (Inl e, [r])
      | Inr _ \<Rightarrow> (case runAll runGit rs of (res, made) \<Rightarrow> (res, r # made)))"

definition cloneWithStrategy :: "(GitRun \<Rightarrow> unit vres) \<Rightarrow> string \<Rightarrow> string \<Rightarrow> string \<Rightarrow> CloneOpts \<Rightarrow> unit vres \<times> GitRun list" where
  "cloneWithStrategy runGit url dest headSha opts =
     (if \<not> SAFE_REF_REGEX headSha then (Inl (jsError ''Refusing potentially unsafe git ref''), [])
      else runAll runGit (clonePlan url dest headSha opts))"

definition defaultCloneUrl :: "PrRef \<Rightarrow> string \<Rightarrow> string vres" where
  "defaultCloneUrl ref token =
     (if pr_owner ref = [] then Inl (jsError ''Refusing clone for github ref with empty owner'')
      else if pr_repo ref = [] then Inl (jsError ''Refusing clone for github ref with empty repo'')
      else Inr (''https://x-access-token:'' @ token @ ''@github.com/'' @ pr_owner ref @ ''/'' @ pr_repo ref @ ''.git''))"

definition cloneRepo :: "Octokit \<Rightarrow> (GitRun \<Rightarrow> unit vres) \<Rightarrow> string \<Rightarrow> PrRef \<Rightarrow> string \<Rightarrow> CloneOpts \<Rightarrow> unit vres \<times> GitRun list" where
  "cloneRepo gh runGit token ref dir opts =
     (case resultBind (ensureGithub ref) (\<lambda>_. resultBind (defaultCloneUrl ref token) (\<lambda>url.
             resultBind (getPR gh ref) (\<lambda>pr. Inr (url, pr)))) of
        Inl e \<Rightarrow> (Inl e, [])
      | Inr (url, pr) \<Rightarrow> cloneWithStrategy runGit url dir (pq_headSha pr) opts)"

section \<open>\<open>platform.ts\<close>, \<open>org-config.ts\<close>, \<open>feedback.ts\<close>, \<open>app-octokit.ts\<close>\<close>

definition parseGithubRef :: "string \<Rightarrow> PrRef vres" where
  "parseGithubRef input =
     (case lastIndexOfC input (CHR ''#'') of
        Some idx \<Rightarrow>
          if idx < 1 then Inl (jsError ''Invalid GitHub ref'')
          else (let left = take idx input; right = drop (idx + 1) input; slash = length (takeWhile (\<lambda>c. c \<noteq> CHR ''/'') left)
                in if CHR ''/'' \<notin> set left \<or> slash < 1 \<or> slash = length left - 1 then Inl (jsError ''Invalid GitHub repo segment'')
                   else (case parseIntDigits right of
                           Some n \<Rightarrow>
                             if n \<le> 0 then Inl (jsError ''Invalid GitHub PR number'')
                             else Inr \<lparr>pr_platform = Github, pr_owner = take slash left, pr_repo = drop (slash + 1) left, pr_number = n,
                                    pr_headSha = None\<rparr>
                         | None \<Rightarrow> Inl (jsError ''Invalid GitHub PR number'')))
      | None \<Rightarrow> Inl (jsError ''Invalid GitHub ref''))"

definition isNotFound :: "UnknownError \<Rightarrow> bool" where
  "isNotFound err = (jsonMember (ue_value err) ''status'' = Some (JNum 404))"

definition createGithubOrgConfigFetch :: "Octokit \<Rightarrow> (string \<Rightarrow> string) \<Rightarrow> string \<Rightarrow> string option vres" where
  "createGithubOrgConfigFetch gh decodeBase64 owner =
     (case gh_getContent gh owner ''.github'' ''review-agent.yml'' None of
        Inl e \<Rightarrow> if isNotFound e then Inr None else Inl e
      | Inr (RawFileContent (Some content) encoding) \<Rightarrow>
          if encoding = None \<or> encoding = Some ''base64'' then Inr (Some (decodeBase64 content))
          else Inl (jsError ''Unexpected encoding'')
      | Inr _ \<Rightarrow> Inr None)"

datatype ReactionKind = ThumbsUp | ThumbsDown

definition REACTION_KIND_MAP :: "(string \<times> ReactionKind option) list" where
  "REACTION_KIND_MAP = [(''+1'', Some ThumbsUp), (''-1'', Some ThumbsDown), (''laugh'', None), (''confused'', None), (''heart'', None),
     (''hooray'', None), (''rocket'', None), (''eyes'', None)]"

record RawReaction =
  rx_content :: string
  rx_user :: "string option"
  rx_createdAt :: string

record FeedbackSignalRow =
  fs_kind :: ReactionKind
  fs_userLogin :: string
  fs_createdAt :: string

definition listReviewCommentReactions :: "RawReaction list vres \<Rightarrow> FeedbackSignalRow list vres" where
  "listReviewCommentReactions response =
     resultBind response (\<lambda>data. Inr (List.map_filter (\<lambda>r. case map_of REACTION_KIND_MAP (rx_content r) of
         Some (Some kind) \<Rightarrow> Some \<lparr>fs_kind = kind, fs_userLogin = (case rx_user r of None \<Rightarrow> ''unknown'' | Some u \<Rightarrow> u), fs_createdAt = rx_createdAt r\<rparr>
       | _ \<Rightarrow> None) data))"

text \<open>After a 401 the token is invalidated and fetched again, and the request is sent once more with it.\<close>

definition build401RetryHandler ::
  "('s \<Rightarrow> 's) \<Rightarrow> ('s \<Rightarrow> string vres \<times> 's) \<Rightarrow> (string \<Rightarrow> 'r vres) \<Rightarrow> UnknownError \<Rightarrow> 's \<Rightarrow> 'r vres \<times> 's" where
  "build401RetryHandler invalidate getToken request err st =
     (if jsonMember (ue_value err) ''status'' = Some (JNum 401)
      then (case getToken (invalidate st) of
              (Inl e, st') \<Rightarrow> (Inl e, st')
            | (Inr token, st') \<Rightarrow> (request (''token '' @ token), st'))
      else (Inl err, st))"

end
