(* ===== verification/CodecommitVcs.thy ===== *)
theory CodecommitVcs
  imports Vcs Config
begin

text \<open>
  The CodeCommit adapter, \<open>platform-codecommit/src/adapter.ts\<close>, and \<open>platform.ts\<close>.  The AWS
  client is a parameter: one function per command, a page of a listing being its items with the
  token of the next page.  A loop over pages ends when a page has no token; a service that always
  answers one keeps it running, so a loop is a \<open>partial_function\<close>.
\<close>

section \<open>The client\<close>

record CcTarget =
  ct_destinationCommit :: "string option"
  ct_sourceCommit :: "string option"
  ct_destinationReference :: "string option"
  ct_sourceReference :: "string option"

record CcPullRequest =
  cp_title :: "string option"
  cp_description :: "string option"
  cp_authorArn :: "string option"
  cp_targets :: "CcTarget list"
  cp_revisionId :: "string option"
  cp_creationDate :: "Date option"
  cp_lastActivityDate :: "Date option"

record CcDifference =
  cy_beforePath :: "string option"
  cy_afterPath :: "string option"
  cy_changeType :: "string option"

record CcLocation =
  cl_filePath :: "string option"
  cl_filePosition :: "int option"
  cl_relativeFileVersion :: "string option"

record CcComment =
  cm_commentId :: "string option"
  cm_content :: "string option"
  cm_inReplyTo :: "string option"
  cm_creationDate :: "Date option"
  cm_authorArn :: "string option"

record CcCommentGroup =
  cgr_location :: "CcLocation option"
  cgr_comments :: "CcComment list"

datatype CcApproval = CcApprove | CcRevoke

datatype CcCall =
    PostComment string string string string "(string \<times> int \<times> string) option" string
  | UpdateApprovalState string string CcApproval

type_synonym 'a page = "'a list \<times> string option"

record CcClient =
  cc_getPullRequest :: "string \<Rightarrow> CcPullRequest option vres"
  cc_getDifferences :: "string \<Rightarrow> string \<Rightarrow> string \<Rightarrow> string option \<Rightarrow> CcDifference page vres"
  cc_getFile :: "string \<Rightarrow> string \<Rightarrow> string \<Rightarrow> string option vres"
  cc_getComments :: "string \<Rightarrow> string option \<Rightarrow> string option \<Rightarrow> CcCommentGroup page vres"
  cc_listPullRequests :: "string \<Rightarrow> string \<Rightarrow> string option \<Rightarrow> string page vres"
  cc_send :: "CcCall \<Rightarrow> nat \<Rightarrow> string vres"

text \<open>The loop \<open>do { ... } while (nextToken)\<close>; an empty token ends it.\<close>

definition nextOf :: "string option \<Rightarrow> string option" where
  "nextOf tok = (case tok of Some t \<Rightarrow> if t = [] then None else Some t | None \<Rightarrow> None)"

partial_function (option) pageLoop :: "(string option \<Rightarrow> 'a page vres) \<Rightarrow> string option \<Rightarrow> 'a list \<Rightarrow> 'a list vres option" where
  "pageLoop fetch tok acc =
     (case fetch tok of
        Inl e \<Rightarrow> Some (Inl e)
      | Inr (items, nextTok) \<Rightarrow>
          (case nextOf nextTok of
             None \<Rightarrow> Some (Inr (acc @ items))
           | Some t \<Rightarrow> pageLoop fetch (Some t) (acc @ items)))"

section \<open>Reading\<close>

definition CODECOMMIT_CAPABILITIES :: VcsCapabilities where
  "CODECOMMIT_CAPABILITIES = \<lparr>cap_clone = False, cap_stateComment = PostgresOnly, cap_approvalEvent = ApprovalCodecommit,
     cap_commitMessages = False, cap_conversationReply = False\<rparr>"

definition ensureCodeCommit :: "PrRef \<Rightarrow> unit vres" where
  "ensureCodeCommit ref =
     (if pr_platform ref \<noteq> Codecommit then Inl (jsError ''CodeCommit VCS adapter received another platform'') else Inr ())"

definition toPullRequestId :: "PrRef \<Rightarrow> string" where "toPullRequestId ref = intToString (pr_number ref)"

definition CHANGE_TYPE_MAP :: "(string \<times> FileStatus) list" where
  "CHANGE_TYPE_MAP = [(''A'', Added), (''M'', Modified), (''D'', Removed)]"

definition mapDiffStatus :: "string option \<Rightarrow> FileStatus" where
  "mapDiffStatus changeType =
     (case changeType of None \<Rightarrow> Modified
      | Some s \<Rightarrow> if s = [] then Modified else (case map_of CHANGE_TYPE_MAP s of None \<Rightarrow> Modified | Some v \<Rightarrow> v))"

text \<open>The last segment of the ARN.\<close>

definition parseAuthor :: "string option \<Rightarrow> string" where
  "parseAuthor arn =
     (case arn of None \<Rightarrow> ''unknown'' | Some a \<Rightarrow> if a = [] then ''unknown'' else last (splitOn (CHR ''/'') a))"

definition orEmpty :: "string option \<Rightarrow> string" where "orEmpty s = (case s of None \<Rightarrow> [] | Some t \<Rightarrow> t)"

definition isoOrEpoch :: "Date option \<Rightarrow> string" where
  "isoOrEpoch d = toISOString (case d of None \<Rightarrow> 0 | Some t \<Rightarrow> t)"

definition fetchCodeCommitPR :: "CcClient \<Rightarrow> PrRef \<Rightarrow> CcPullRequest vres" where
  "fetchCodeCommitPR cc ref =
     resultBind (cc_getPullRequest cc (toPullRequestId ref)) (\<lambda>out.
       case out of None \<Rightarrow> Inl (jsError ''PR not found'') | Some pr \<Rightarrow> Inr pr)"

definition toPR :: "CcPullRequest \<Rightarrow> PR" where
  "toPR pr =
     (let target = (case cp_targets pr of [] \<Rightarrow> \<lparr>ct_destinationCommit = None, ct_sourceCommit = None, ct_destinationReference = None, ct_sourceReference = None\<rparr>
                    | t # _ \<Rightarrow> t)
      in \<lparr>pq_title = orEmpty (cp_title pr), pq_body = orEmpty (cp_description pr), pq_author = parseAuthor (cp_authorArn pr),
          pq_baseSha = orEmpty (ct_destinationCommit target), pq_headSha = orEmpty (ct_sourceCommit target),
          pq_baseRef = orEmpty (ct_destinationReference target), pq_headRef = orEmpty (ct_sourceReference target),
          pq_draft = False, pq_labels = [], pq_commitMessages = [], pq_createdAt = isoOrEpoch (cp_creationDate pr),
          pq_updatedAt = isoOrEpoch (cp_lastActivityDate pr)\<rparr>)"

definition ccGetPR :: "CcClient \<Rightarrow> PrRef \<Rightarrow> PR vres" where
  "ccGetPR cc ref = resultBind (ensureCodeCommit ref) (\<lambda>_. resultBind (fetchCodeCommitPR cc ref) (\<lambda>pr. Inr (toPR pr)))"

text \<open>No patch: the listing of differences has none.\<close>

definition toDiffFile :: "CcDifference \<Rightarrow> DiffFile" where
  "toDiffFile d =
     (let path = (case cy_afterPath d of Some p \<Rightarrow> p | None \<Rightarrow> orEmpty (cy_beforePath d)); status = mapDiffStatus (cy_changeType d)
      in \<lparr>dq_path = path, dq_previousPath = (if status = Renamed then cy_beforePath d else None), dq_status = status,
          dq_additions = 0, dq_deletions = 0, dq_patch = None\<rparr>)"

definition ccGetDiff :: "CcClient \<Rightarrow> PrRef \<Rightarrow> string option \<Rightarrow> Diff vres option" where
  "ccGetDiff cc ref sinceSha =
     (case resultBind (ensureCodeCommit ref) (\<lambda>_. ccGetPR cc ref) of
        Inl e \<Rightarrow> Some (Inl e)
      | Inr pr \<Rightarrow>
          (let before = (case sinceSha of Some s \<Rightarrow> s | None \<Rightarrow> pq_baseSha pr); after = pq_headSha pr
           in map_option (\<lambda>r. resultBind r (\<lambda>ds. Inr \<lparr>dd_baseSha = before, dd_headSha = after, dd_files = map toDiffFile ds\<rparr>))
                (pageLoop (cc_getDifferences cc (pr_repo ref) before after) None [])))"

text \<open>The bytes of the file; an empty file has none.\<close>

definition ccGetFile :: "CcClient \<Rightarrow> PrRef \<Rightarrow> string \<Rightarrow> string \<Rightarrow> string vres" where
  "ccGetFile cc ref path sha =
     resultBind (ensureCodeCommit ref) (\<lambda>_. resultBind (assertSafeRelativePath path) (\<lambda>_.
     resultBind (cc_getFile cc (pr_repo ref) sha path) (\<lambda>c. Inr (orEmpty c))))"

definition ccCloneRepo :: "unit vres" where
  "ccCloneRepo = Inl (jsError ''CodeCommit clone is not supported by this adapter'')"

definition toExistingComment :: "CcCommentGroup \<Rightarrow> CcComment \<Rightarrow> ExistingComment" where
  "toExistingComment g c =
     \<lparr>xc_id = orEmpty (cm_commentId c),
      xc_path = (case cgr_location g of None \<Rightarrow> None | Some l \<Rightarrow> cl_filePath l),
      xc_line = (case cgr_location g of None \<Rightarrow> None | Some l \<Rightarrow> cl_filePosition l),
      xc_side = (case (case cgr_location g of None \<Rightarrow> None | Some l \<Rightarrow> cl_relativeFileVersion l) of
          Some v \<Rightarrow> if v = ''BEFORE'' then Some LEFT else if v = ''AFTER'' then Some RIGHT else None | None \<Rightarrow> None),
      xc_body = orEmpty (cm_content c), xc_author = parseAuthor (cm_authorArn c), xc_createdAt = isoOrEpoch (cm_creationDate c),
      xc_inReplyTo = cm_inReplyTo c\<rparr>"

definition ccGetExistingComments :: "CcClient \<Rightarrow> PrRef \<Rightarrow> ExistingComment list vres option" where
  "ccGetExistingComments cc ref =
     (case ensureCodeCommit ref of
        Inl e \<Rightarrow> Some (Inl e)
      | Inr _ \<Rightarrow> map_option (\<lambda>r. resultBind r (\<lambda>gs. Inr (concat (map (\<lambda>g. map (toExistingComment g) (cgr_comments g)) gs))))
          (pageLoop (cc_getComments cc (toPullRequestId ref) (Some (pr_repo ref))) None []))"

section \<open>Writing\<close>

text \<open>The calls a review makes, in order: the summary unless it is empty, then one per finding.\<close>

definition reviewCalls :: "PrRef \<Rightarrow> PR \<Rightarrow> ReviewPayload \<Rightarrow> CcCall list" where
  "reviewCalls ref pr review =
     (let post = PostComment (toPullRequestId ref) (pr_repo ref) (pq_baseSha pr) (pq_headSha pr)
      in (if rv_summary review \<noteq> [] then [post None (rv_summary review)] else []) @
         map (\<lambda>c. post (Some (c_path c, c_line c, if c_side c = LEFT then ''BEFORE'' else ''AFTER''))
            (appendFingerprintMarker (c_body c) (c_fingerprint c))) (rv_comments review))"

fun sendCalls :: "CcClient \<Rightarrow> nat \<Rightarrow> CcCall list \<Rightarrow> unit vres \<times> CcCall list" where
  "sendCalls cc attempt [] = (Inr (), [])"
| "sendCalls cc attempt (c # cs) =
     (case cc_send cc c attempt of
        Inl e \<Rightarrow> (Inl e, [c])
      | Inr _ \<Rightarrow> (case sendCalls cc attempt cs of (r, made) \<Rightarrow> (r, c # made)))"

text \<open>\<open>applyApprovalState\<close>: a refusal is logged and swallowed.\<close>

definition approvalCall :: "ApprovalState \<Rightarrow> PrRef \<Rightarrow> CcPullRequest \<Rightarrow> ReviewPayload \<Rightarrow> CcCall list" where
  "approvalCall mode ref rawPr review =
     (if mode \<noteq> Managed then []
      else if rv_event review \<noteq> Some APPROVE \<and> rv_event review \<noteq> Some REQUEST_CHANGES then []
      else (case cp_revisionId rawPr of
              None \<Rightarrow> []
            | Some revisionId \<Rightarrow> if revisionId = [] then []
                else [UpdateApprovalState (toPullRequestId ref) revisionId (if rv_event review = Some APPROVE then CcApprove else CcRevoke)]))"

definition ccPostReview :: "CcClient \<Rightarrow> ApprovalState \<Rightarrow> PrRef \<Rightarrow> ReviewPayload \<Rightarrow> nat \<Rightarrow> unit vres \<times> CcCall list" where
  "ccPostReview cc mode ref review attempt =
     (case resultBind (ensureCodeCommit ref) (\<lambda>_. fetchCodeCommitPR cc ref) of
        Inl e \<Rightarrow> (Inl e, [])
      | Inr rawPr \<Rightarrow>
          (case sendCalls cc attempt (reviewCalls ref (toPR rawPr) review) of
             (Inl e, made) \<Rightarrow> (Inl e, made)
           | (Inr _, made) \<Rightarrow> (Inr (), made @ approvalCall mode ref rawPr review)))"

definition ccPostSummary :: "CcClient \<Rightarrow> PrRef \<Rightarrow> string \<Rightarrow> string vres" where
  "ccPostSummary cc ref body =
     resultBind (ensureCodeCommit ref) (\<lambda>_. resultBind (ccGetPR cc ref) (\<lambda>pr.
       cc_send cc (PostComment (toPullRequestId ref) (pr_repo ref) (pq_baseSha pr) (pq_headSha pr) None body) 0))"

text \<open>A listing that does not end is an error of the interface; \<open>getDiff_ends\<close> says when it ends.\<close>

definition orHang :: "'a vres option \<Rightarrow> 'a vres" where
  "orHang r = (case r of None \<Rightarrow> Inl (jsError ''does not return'') | Some v \<Rightarrow> v)"

definition createCodecommitVCS :: "CcClient \<Rightarrow> ApprovalState \<Rightarrow> VCS" where
  "createCodecommitVCS cc mode =
     \<lparr>vc_platform = Codecommit, vc_capabilities = CODECOMMIT_CAPABILITIES, vc_getPR = ccGetPR cc,
      vc_getDiff = (\<lambda>ref since. orHang (ccGetDiff cc ref since)),
      vc_getExistingComments = (\<lambda>ref. orHang (ccGetExistingComments cc ref)),
      vc_getStateComment = (\<lambda>ref. Inr None),
      vc_postReview = (\<lambda>ref review attempt. fst (ccPostReview cc mode ref review attempt)),
      vc_postSummary = ccPostSummary cc, vc_upsertStateComment = (\<lambda>ref state attempt. Inr ())\<rparr>"

text \<open>\<open>parseRef\<close> of \<open>platform.ts\<close>: a repository name or its ARN, and the number.\<close>

definition parseCodecommitRef :: "string \<Rightarrow> PrRef vres" where
  "parseCodecommitRef input =
     (case lastIndexOfC input (CHR ''#'') of
        Some idx \<Rightarrow>
          if idx < 1 then Inl (jsError ''Invalid CodeCommit ref'')
          else (case parseIntDigits (drop (idx + 1) input) of
                  Some n \<Rightarrow>
                    if n \<le> 0 then Inl (jsError ''Invalid CodeCommit PR number'')
                    else (let left = take idx input;
                              repo = (if startsWith left ''arn:aws:codecommit:'' then last (splitOn (CHR '':'') left) else left)
                          in if repo = [] then Inl (jsError ''Invalid CodeCommit repository name'')
                             else Inr \<lparr>pr_platform = Codecommit, pr_owner = [], pr_repo = repo, pr_number = n, pr_headSha = None\<rparr>)
                | None \<Rightarrow> Inl (jsError ''Invalid CodeCommit PR number''))
      | None \<Rightarrow> Inl (jsError ''Invalid CodeCommit ref''))"

section \<open>The listings of the recovery commands\<close>

record CodeCommitRawComment =
  cw_commentId :: string
  cw_content :: string
  cw_inReplyTo :: "string option"
  cw_creationDate :: "Date option"
  cw_authorArn :: "string option"

definition rawComment :: "CcComment \<Rightarrow> CodeCommitRawComment option" where
  "rawComment c =
     (case cm_commentId c of
        None \<Rightarrow> None
      | Some i \<Rightarrow> if i = [] then None
                  else Some \<lparr>cw_commentId = i, cw_content = orEmpty (cm_content c), cw_inReplyTo = cm_inReplyTo c,
                    cw_creationDate = cm_creationDate c, cw_authorArn = cm_authorArn c\<rparr>)"

definition listCodeCommitCommentsForPullRequest :: "CcClient \<Rightarrow> string \<Rightarrow> CodeCommitRawComment list vres option" where
  "listCodeCommitCommentsForPullRequest cc pullRequestId =
     map_option (\<lambda>r. resultBind r (\<lambda>gs. Inr (List.map_filter rawComment (concat (map cgr_comments gs)))))
       (pageLoop (cc_getComments cc pullRequestId None) None [])"

definition digitId :: "string \<Rightarrow> nat option" where
  "digitId s = (if s \<noteq> [] \<and> list_all isDigit s then Some (readDigits s) else None)"

fun listStatuses :: "CcClient \<Rightarrow> string \<Rightarrow> string list \<Rightarrow> nat list \<Rightarrow> nat list vres option" where
  "listStatuses cc repo [] ids = Some (Inr ids)"
| "listStatuses cc repo (s # ss) ids =
     (case pageLoop (cc_listPullRequests cc repo s) None [] of
        None \<Rightarrow> None
      | Some (Inl e) \<Rightarrow> Some (Inl e)
      | Some (Inr found) \<Rightarrow> listStatuses cc repo ss (dedupList (ids @ List.map_filter digitId found)))"

definition listCodeCommitPullRequestIds :: "CcClient \<Rightarrow> string \<Rightarrow> string option \<Rightarrow> nat list vres option" where
  "listCodeCommitPullRequestIds cc repo status =
     (let st = (case status of None \<Rightarrow> ''ALL'' | Some s \<Rightarrow> s)
      in listStatuses cc repo (if st = ''ALL'' then [''OPEN'', ''CLOSED''] else [st]) [])"

section \<open>The listings end\<close>

text \<open>
  A service with finitely many pages: page \<open>i\<close> is answered to the token that leads to it and
  names the token of page \<open>i + 1\<close>, the last page names none.
\<close>

definition pagesOf :: "'a list list \<Rightarrow> (nat \<Rightarrow> string) \<Rightarrow> (string option \<Rightarrow> 'a page vres) \<Rightarrow> bool" where
  "pagesOf pages tok fetch =
     ((\<forall>i < length pages. fetch (if i = 0 then None else Some (tok i)) =
         Inr (pages ! i, if Suc i < length pages then Some (tok (Suc i)) else None)) \<and> (\<forall>i. tok i \<noteq> []))"

lemma pageLoop_from:
  assumes "pagesOf pages tok fetch" "i < length pages"
  shows "pageLoop fetch (if i = 0 then None else Some (tok i)) acc = Some (Inr (acc @ concat (drop i pages)))"
  using assms(2)
proof (induction "length pages - i" arbitrary: i acc)
  case (Suc n)
  have step: "fetch (if i = 0 then None else Some (tok i)) =
      Inr (pages ! i, if Suc i < length pages then Some (tok (Suc i)) else None)"
    using assms(1) Suc.prems unfolding pagesOf_def by blast
  have ne: "tok (Suc i) \<noteq> []" using assms(1) by (simp add: pagesOf_def)
  have d: "drop i pages = pages ! i # drop (Suc i) pages" using Suc.prems by (simp add: Cons_nth_drop_Suc)
  show ?case
  proof (cases "Suc i < length pages")
    case True
    have "pageLoop fetch (Some (tok (Suc i))) (acc @ pages ! i) = Some (Inr ((acc @ pages ! i) @ concat (drop (Suc i) pages)))"
      using Suc.hyps(1) [of "Suc i" "acc @ pages ! i"] Suc.hyps(2) True by simp
    then show ?thesis by (subst pageLoop.simps) (simp only: step, simp add: True nextOf_def ne d)
  next
    case False
    then show ?thesis using d by (subst pageLoop.simps) (simp only: step, simp add: nextOf_def)
  qed
qed simp

lemma pageLoop_all: "pagesOf pages tok fetch \<Longrightarrow> pages \<noteq> [] \<Longrightarrow> pageLoop fetch None [] = Some (Inr (concat pages))"
  using pageLoop_from [of pages tok fetch 0 "[]"] by simp

lemma getDiff_ends:
  assumes "pr_platform ref = Codecommit" "cc_getPullRequest cc (toPullRequestId ref) = Inr (Some pr)"
    and "pagesOf pages tok (cc_getDifferences cc (pr_repo ref) (case since of Some s \<Rightarrow> s | None \<Rightarrow> pq_baseSha (toPR pr)) (pq_headSha (toPR pr)))"
    and "pages \<noteq> []"
  shows "ccGetDiff cc ref since = Some (Inr \<lparr>dd_baseSha = (case since of Some s \<Rightarrow> s | None \<Rightarrow> pq_baseSha (toPR pr)),
     dd_headSha = pq_headSha (toPR pr), dd_files = map toDiffFile (concat pages)\<rparr>)"
  using assms by (simp add: ccGetDiff_def ensureCodeCommit_def resultBind_def ccGetPR_def fetchCodeCommitPR_def Let_def
      pageLoop_all [OF assms(3,4)])

text \<open>A file of a CodeCommit diff has no patch, and a rename is not seen.\<close>

lemma toDiffFile_blind: "dq_patch (toDiffFile d) = None \<and> dq_previousPath (toDiffFile d) = None"
proof -
  have "mapDiffStatus x \<noteq> Renamed" for x
    by (auto simp: mapDiffStatus_def CHANGE_TYPE_MAP_def split: option.split)
  then show ?thesis by (simp add: toDiffFile_def Let_def)
qed

text \<open>The approval state is only touched in the managed mode, for a verdict, and never twice.\<close>

lemma approval_only_managed: "approvalCall mode ref rawPr review = [] \<or>
    (\<exists>r. approvalCall mode ref rawPr review = [UpdateApprovalState (toPullRequestId ref) r
       (if rv_event review = Some APPROVE then CcApprove else CcRevoke)] \<and> mode = Managed \<and>
       rv_event review \<in> {Some APPROVE, Some REQUEST_CHANGES} \<and> cp_revisionId rawPr = Some r)"
  by (auto simp: approvalCall_def split: option.split)

end
