(* ===== verification/SkillLoader.thy ===== *)
theory SkillLoader
  imports Vcs Config Glob Paths
begin

text \<open>
  Skills, \<open>runner/src/skill-loader.ts\<close>: where a skill file is, how its front matter is read, and
  the block of the system prompt the skills become.  Reading the file is a parameter, and so is the working directory \<open>cwd\<close> of the process.  The two
  removals of script content are the left-to-right replacement of the code's regular expressions.
\<close>

record SkillFrontmatter =
  sk_name :: string
  sk_description :: "string option"
  sk_version :: "string option"
  sk_applies_to :: "string list"
  sk_priority :: int

record Skill =
  sl_source :: string
  sl_frontmatter :: SkillFrontmatter
  sl_body :: string

definition MAX_SKILL_BYTES :: nat where "MAX_SKILL_BYTES = 50000"

section \<open>Front matter\<close>

text \<open>The front matter between the two rules and the body after it.\<close>

definition FRONTMATTER_REGEX :: "string \<Rightarrow> (string \<times> string) option" where
  "FRONTMATTER_REGEX t =
     (if startsWith t (''---'' @ [LF])
      then (case indexOf (drop 4 t) ([LF] @ ''---'' @ [LF]) of
              Some k \<Rightarrow> Some (take k (drop 4 t), drop (k + 5) (drop 4 t))
            | None \<Rightarrow> None)
      else None)"

definition unquote :: "string \<Rightarrow> string" where
  "unquote v =
     (let trimmed = trim v
      in if (startsWith trimmed [CHR 0x22] \<and> endsWith trimmed [CHR 0x22]) \<or> (startsWith trimmed [CHR 0x27] \<and> endsWith trimmed [CHR 0x27])
         then butlast (drop 1 trimmed) else trimmed)"

definition eolFree :: "string \<Rightarrow> bool" where "eolFree s = (LF \<notin> set s \<and> CR \<notin> set s)"

text \<open>The item of a list line; what is captured is trimmed by \<open>unquote\<close> anyway.\<close>

definition arrayItem :: "string \<Rightarrow> string option" where
  "arrayItem line =
     (case trimStart line of
        CHR ''-'' # r \<Rightarrow>
          (if r = [] \<or> \<not> isSpace (hd r) then None
           else if trimStart r = [] then (if 2 \<le> length r \<and> eolFree [last r] then Some [] else None)
           else if eolFree (trimStart r) then Some (trimStart r) else None)
      | _ \<Rightarrow> None)"

definition keyStart :: "char \<Rightarrow> bool" where
  "keyStart c = (c = CHR ''_'' \<or> (let n = of_char c :: nat in 65 \<le> n \<and> n \<le> 90 \<or> 97 \<le> n \<and> n \<le> 122))"

definition keyChar :: "char \<Rightarrow> bool" where "keyChar c = (keyStart c \<or> isDigit c)"

definition keyValue :: "string \<Rightarrow> (string \<times> string) option" where
  "keyValue line =
     (let key = takeWhile keyChar line; r = dropWhile keyChar line
      in if key \<noteq> [] \<and> keyStart (hd key) \<and> startsWith r '':'' \<and> eolFree (trimStart (tl r)) then Some (key, trim (tl r)) else None)"

text \<open>\<open>/^-?\d+(\.\d+)?$/\<close>.\<close>

definition numericText :: "string \<Rightarrow> bool" where
  "numericText s =
     (let t = (if startsWith s ''-'' then tl s else s); ip = takeWhile isDigit t; r = dropWhile isDigit t
      in ip \<noteq> [] \<and> (r = [] \<or> (hd r = CHR ''.'' \<and> tl r \<noteq> [] \<and> list_all isDigit (tl r))))"

definition fmLine :: "yobj \<times> string option \<Rightarrow> string \<Rightarrow> yobj \<times> string option" where
  "fmLine st rawLine =
     (case st of (out, currentArrayKey) \<Rightarrow>
        if trim rawLine = [] then st
        else (case (arrayItem rawLine, currentArrayKey) of
          (Some item, Some k) \<Rightarrow>
            (AList.update k (YArr ((case map_of out k of Some (YArr vs) \<Rightarrow> vs | _ \<Rightarrow> []) @ [YStr (unquote item)])) out, currentArrayKey)
        | _ \<Rightarrow>
            (case keyValue rawLine of
               None \<Rightarrow> st
             | Some (key, rawValue) \<Rightarrow>
                 if rawValue = [] then (AList.update key (YArr []) out, Some key)
                 else if numericText rawValue
                 then (AList.update key (YNum (case jsNumber rawValue of Some q \<Rightarrow> Fin q
                         | None \<Rightarrow> if startsWith rawValue ''-'' then NegInf else PosInf)) out, None)
                 else if rawValue = ''true'' \<or> rawValue = ''false'' then (AList.update key (YBool (rawValue = ''true'')) out, None)
                 else (AList.update key (YStr (unquote rawValue)) out, None))))"

definition parseFrontmatter :: "string \<Rightarrow> yobj" where
  "parseFrontmatter t = fst (foldl fmLine ([], None) (splitOn LF t))"

definition SkillFrontmatterSchema :: "yval \<Rightarrow> SkillFrontmatter option" where
  "SkillFrontmatterSchema v = do {
     o' \<leftarrow> zStrict [''name'', ''description'', ''version'', ''applies_to'', ''priority''] v;
     n \<leftarrow> zRequired o' ''name'' (zString (lengthWithin 1 64));
     d \<leftarrow> zOptional o' ''description'' (zString (lengthWithin 0 500));
     ver \<leftarrow> zOptional o' ''version'' (zString (lengthWithin 0 32));
     a \<leftarrow> zField o' ''applies_to'' (zArray (zString nonEmpty)) [];
     p \<leftarrow> zField o' ''priority'' (zInt (\<lambda>_. True)) 50;
     Some \<lparr>sk_name = n, sk_description = d, sk_version = ver, sk_applies_to = a, sk_priority = p\<rparr>}"

definition parseSkillText :: "string \<Rightarrow> (SkillFrontmatter \<times> string) vres" where
  "parseSkillText t =
     (case FRONTMATTER_REGEX t of
        None \<Rightarrow> Inl (jsError ''Skill is missing YAML frontmatter'')
      | Some (fm, body) \<Rightarrow>
          (case SkillFrontmatterSchema (YObj (parseFrontmatter fm)) of
             None \<Rightarrow> Inl (jsError ''Skill frontmatter invalid'')
           | Some f \<Rightarrow> Inr (f, body)))"

section \<open>Loading\<close>

definition packageName :: "string \<Rightarrow> bool" where
  "packageName r = (r \<noteq> [] \<and> keyStart (hd r) \<and> hd r \<noteq> CHR ''_'' \<and> list_all (\<lambda>c. keyChar c \<or> c = CHR ''-'') r)"

text \<open>\<open>defaultResolve\<close> refuses every package.\<close>

definition locateSkillFile :: "string \<Rightarrow> string \<Rightarrow> string \<Rightarrow> string vres" where
  "locateSkillFile cwd reference workspaceRoot =
     (if startsWith reference ''@'' \<or> packageName reference then Inl (jsError ''npm-distributed skills are not bundled in v0.1'')
      else Inr (pathJoin [if isAbsolute reference then reference else pathResolve cwd [workspaceRoot, reference], ''SKILL.md'']))"

definition loadSkill :: "(string \<Rightarrow> string vres) \<Rightarrow> string \<Rightarrow> string \<Rightarrow> string \<Rightarrow> Skill vres" where
  "loadSkill readFile cwd workspaceRoot reference =
     resultBind (locateSkillFile cwd reference workspaceRoot) (\<lambda>file.
     resultBind (readFile file) (\<lambda>t.
       if MAX_SKILL_BYTES < length t then Inl (jsError ''Skill exceeds the limit; refusing to load'')
       else resultBind (parseSkillText t) (\<lambda>(f, body). Inr \<lparr>sl_source = reference, sl_frontmatter = f, sl_body = body\<rparr>)))"

text \<open>\<open>Promise.all\<close>: one rejection rejects the whole; which one is reported first is not modelled.\<close>

fun loadSkills :: "(string \<Rightarrow> string vres) \<Rightarrow> string \<Rightarrow> string \<Rightarrow> string list \<Rightarrow> Skill list vres" where
  "loadSkills readFile cwd workspaceRoot [] = Inr []"
| "loadSkills readFile cwd workspaceRoot (r # rs) =
     resultBind (loadSkill readFile cwd workspaceRoot r) (\<lambda>s. resultBind (loadSkills readFile cwd workspaceRoot rs) (\<lambda>ss. Inr (s # ss)))"

section \<open>The block of the prompt\<close>

text \<open>The third copy of the glob compiler, the same passes as in \<open>tools.ts\<close>.\<close>

definition skillGlob :: "string \<Rightarrow> rx vres" where
  "skillGlob pattern = map_sum jsError id (newRegExpAnchored (patternSource pattern))"

fun compileAll :: "string list \<Rightarrow> rx list vres" where
  "compileAll [] = Inr []"
| "compileAll (g # gs) = resultBind (skillGlob g) (\<lambda>m. resultBind (compileAll gs) (\<lambda>ms. Inr (m # ms)))"

definition appliesTo :: "string list \<Rightarrow> Skill \<Rightarrow> bool vres" where
  "appliesTo changedPaths s =
     (if sk_applies_to (sl_frontmatter s) = [] then Inr True
      else if changedPaths = [] then Inr True
      else resultBind (compileAll (sk_applies_to (sl_frontmatter s))) (\<lambda>matchers.
        Inr (list_ex (\<lambda>p. list_ex (\<lambda>m. rx_test m p) matchers) changedPaths)))"

fun filterByAppliesTo :: "string list \<Rightarrow> Skill list \<Rightarrow> Skill list vres" where
  "filterByAppliesTo changedPaths [] = Inr []"
| "filterByAppliesTo changedPaths (s # ss) =
     resultBind (appliesTo changedPaths s) (\<lambda>keep. resultBind (filterByAppliesTo changedPaths ss) (\<lambda>rest.
       Inr (if keep then s # rest else rest)))"

definition startsWithI :: "string \<Rightarrow> string \<Rightarrow> bool" where
  "startsWithI s p = startsWith (toLowerCase s) p"

text \<open>The length of the match at the front of the text, up to the first closing mark.\<close>

definition scriptSpan :: "string \<Rightarrow> nat option" where
  "scriptSpan s =
     (if startsWithI s ''<script''
      then map_option (\<lambda>k. 7 + k + 9) (indexOf (toLowerCase (drop 7 s)) ''</script>'') else None)"

definition FENCE :: string where "FENCE = [CHR 0x60, CHR 0x60, CHR 0x60]"

definition fenceSpan :: "string \<Rightarrow> string \<Rightarrow> nat option" where
  "fenceSpan lang s =
     (if startsWith s FENCE
      then (let u = drop 3 s; t = trimStart u; r = drop (length lang) t
            in if startsWithI t lang \<and> (r = [] \<or> \<not> keyChar (hd r))
               then map_option (\<lambda>k. 3 + (length u - length r) + k + 3) (indexOf r FENCE) else None)
      else None)"

function removeSpans :: "(string \<Rightarrow> nat option) \<Rightarrow> string \<Rightarrow> string" where
  "removeSpans matchLen [] = []"
| "removeSpans matchLen (c # s) =
     (case matchLen (c # s) of
        Some (Suc n) \<Rightarrow> removeSpans matchLen (drop n s)
      | _ \<Rightarrow> c # removeSpans matchLen s)"
  by pat_completeness auto
termination by (relation "measure (\<lambda>(_, s). length s)") auto

definition FORBIDDEN_FENCED_LANGS :: "string list" where
  "FORBIDDEN_FENCED_LANGS = [''bash'', ''sh'', ''shell'', ''powershell'', ''python'']"

definition stripScriptyContent :: "string \<Rightarrow> string" where
  "stripScriptyContent body = foldl (\<lambda>out lang. removeSpans (fenceSpan lang) out) (removeSpans scriptSpan body) FORBIDDEN_FENCED_LANGS"

definition renderSkill :: "Skill \<Rightarrow> string" where
  "renderSkill s = ''### '' @ sk_name (sl_frontmatter s) @ [LF, LF] @ trim (stripScriptyContent (sl_body s))"

definition renderSkillsBlock :: "Skill list \<Rightarrow> string list \<Rightarrow> string vres" where
  "renderSkillsBlock skills changedPaths =
     resultBind (filterByAppliesTo changedPaths skills) (\<lambda>filtered.
       let sorted' = sort_key (\<lambda>s. - sk_priority (sl_frontmatter s)) filtered
       in Inr (joinWith [LF, LF] (map renderSkill sorted')))"

section \<open>Facts\<close>

text \<open>The removal is one pass: what it leaves can be a script element again.\<close>

lemma script_reassembled:
  "stripScriptyContent ''<scr<script></script>ipt>x</script>'' = ''<script>x</script>''"
  by (simp add: stripScriptyContent_def scriptSpan_def startsWithI_def toLowerCase_def toLowerC_def FORBIDDEN_FENCED_LANGS_def fenceSpan_def FENCE_def
      del: of_char_of)

text \<open>A version that looks like a number is not a text, and the skill is refused.\<close>

lemma numeric_version_refused: "SkillFrontmatterSchema (YObj [(''name'', YStr n), (''version'', YNum q)]) = None"
  by (simp add: SkillFrontmatterSchema_def zStrict_def zRequired_def zOptional_def zString_def split: option.split)

end
