(* ===== verification/EntryPoints.thy ===== *)
theory EntryPoints
  imports GithubVcs CodecommitVcs SkillLoader Incremental AgentProps
begin

text \<open>
  The two programs that run a review: the GitHub Action (\<open>action/src/inputs.ts\<close>, \<open>run.ts\<close>)
  and the commands \<open>review\<close> and \<open>dry-run\<close> of the command line
  (\<open>cli/src/commands\<close>).  Both load the configuration, read the pull request, its diff and its
  state through an adapter, run \<open>runReview\<close>, post the result and write the state.  What a run
  does to the outside is its list of \<open>EntryEvent\<close>s.  Terminal output is not modelled.

  A cost cap of \<open>.inf\<close>, which the configuration accepts, is the rational
  \<open>ed_infiniteUsd\<close>, to be chosen above any cost.
\<close>

section \<open>What the entry points share\<close>

record EntryDeps =
  ed_schema :: SchemaDeps
  ed_parseYaml :: ParseYaml
  ed_readFile :: "string \<Rightarrow> string vres"
  ed_cwd :: string
  ed_createVCS :: "string option \<Rightarrow> Config \<Rightarrow> VCS vres"
  ed_createProvider :: "string \<Rightarrow> Config \<Rightarrow> LlmProvider"
  ed_env :: "string \<Rightarrow> string option"
  ed_urlHost :: "string \<Rightarrow> string option"
  ed_agentEnv :: AgentEnv
  ed_runGit :: RunGit
  ed_now :: Date
  ed_infiniteUsd :: rat

datatype EntryError = ConfigFailed ConfigError | HostFailed UnknownError | ReviewFailed AgentError | Failed string

datatype EntryEvent =
    PostedSummary string
  | RanModel AgentState
  | PostedReview ReviewPayload nat
  | WroteState ReviewState nat

text \<open>\<open>if (env.X) overrides.X = env.X\<close>.\<close>

definition envOverrides :: "(string \<Rightarrow> string option) \<Rightarrow> EnvOverrides" where
  "envOverrides env =
     (let get = (\<lambda>k. case env k of Some v \<Rightarrow> if v \<noteq> [] then Some v else None | None \<Rightarrow> None)
      in \<lparr>eo_language = get ''REVIEW_AGENT_LANGUAGE'', eo_provider = get ''REVIEW_AGENT_PROVIDER'', eo_model = get ''REVIEW_AGENT_MODEL'',
          eo_max_usd_per_pr = get ''REVIEW_AGENT_MAX_USD_PER_PR'', eo_max_steps = get ''REVIEW_AGENT_MAX_STEPS''\<rparr>)"

text \<open>A file that cannot be read is no file.\<close>

definition readYamlText :: "EntryDeps \<Rightarrow> string \<Rightarrow> string option" where
  "readYamlText deps configPath = (case ed_readFile deps configPath of Inl _ \<Rightarrow> None | Inr t \<Rightarrow> Some t)"

definition decideSkip :: "PR \<Rightarrow> Config \<Rightarrow> string option" where
  "decideSkip pr config =
     (if pq_draft pr \<and> \<not> qa_drafts (qr_auto_review (cf_reviews config)) then Some ''PR is in draft state and config.reviews.auto_review.drafts=false''
      else if pq_author pr \<in> set (qr_ignore_authors (cf_reviews config)) then Some (''Author '' @ quoted (pq_author pr) @ '' is in ignore_authors'')
      else None)"

definition inferGithubHost :: "EntryDeps \<Rightarrow> string" where
  "inferGithubHost deps =
     (case ed_env deps ''GITHUB_SERVER_URL'' of
        None \<Rightarrow> ''github.com''
      | Some u \<Rightarrow> if u = [] then ''github.com'' else (case ed_urlHost deps u of None \<Rightarrow> ''github.com'' | Some h \<Rightarrow> h))"

definition diffTextOf :: "Diff \<Rightarrow> string" where
  "diffTextOf diff = joinWith [LF] (map (\<lambda>f. ''--- '' @ dq_path f @ [LF] @ (case dq_patch f of None \<Rightarrow> [] | Some p \<Rightarrow> p)) (dd_files diff))"

definition usdOf :: "EntryDeps \<Rightarrow> jsnum \<Rightarrow> rat" where
  "usdOf deps n = (case n of Fin q \<Rightarrow> q | _ \<Rightarrow> ed_infiniteUsd deps)"

definition profileName :: "Profile \<Rightarrow> string" where
  "profileName p = (case p of Chill \<Rightarrow> ''chill'' | Assertive \<Rightarrow> ''assertive'')"

definition skillBlocks :: "EntryDeps \<Rightarrow> Config \<Rightarrow> Diff \<Rightarrow> string list vres" where
  "skillBlocks deps config diff =
     resultBind (loadSkills (ed_readFile deps) (ed_cwd deps) ''.'' (cf_skills config)) (\<lambda>skills.
     resultBind (renderSkillsBlock skills (map dq_path (dd_files diff))) (\<lambda>block. Inr (if block \<noteq> [] then [block] else [])))"

definition reviewJob ::
  "EntryDeps \<Rightarrow> string \<Rightarrow> Config \<Rightarrow> PR \<Rightarrow> Diff \<Rightarrow> ReviewState option \<Rightarrow> string list \<Rightarrow> rat \<Rightarrow> PrRepo \<Rightarrow> string option \<Rightarrow> string option \<Rightarrow> ReviewJob" where
  "reviewJob deps jobId config pr diff previousState skills costCapUsd prRepo since lg =
     \<lparr>rj_jobId = jobId, rj_workspaceDir = ed_cwd deps, rj_diffText = diffTextOf diff,
      rj_changedPaths = Some (map dq_path (dd_files diff)),
      rj_prMetadata = \<lparr>um_title = pq_title pr, um_body = pq_body pr, um_author = pq_author pr, um_baseRef = Some (pq_baseRef pr),
         um_labels = Some (pq_labels pr),
         um_commitMessages = Some (map (\<lambda>c. \<lparr>uc_sha = vm_sha c, uc_message = vm_message c\<rparr>) (pq_commitMessages pr))\<rparr>,
      rj_previousState = previousState, rj_profile = profileName (cf_profile config),
      rj_pathInstructions = qr_path_instructions (cf_reviews config), rj_skills = skills, rj_language = cf_language config,
      rj_costCapUsd = costCapUsd, rj_incrementalContext = (if since = None then None else Some True), rj_incrementalSinceSha = since,
      rj_minConfidence = Some (qr_min_confidence (cf_reviews config)),
      rj_requestChangesOn = Some (qr_request_changes_on (cf_reviews config)),
      rj_pathFilters = qr_path_filters (cf_reviews config), rj_maxFiles = qr_max_files (cf_reviews config),
      rj_maxDiffLines = qr_max_diff_lines (cf_reviews config),
      rj_privacy = \<lparr>pr_allowedUrlPrefixes = qv_allowed_url_prefixes (cf_privacy config), pr_denyPaths = qv_deny_paths (cf_privacy config),
         pr_redactPatterns = qv_redact_patterns (cf_privacy config)\<rparr>,
      rj_prRepo = prRepo, rj_ruleset = Some (cf_ruleset config), rj_resolutionLog = lg,
      rj_maxSteps = Some (nat (qr_max_steps (cf_reviews config)))\<rparr>"

definition refName :: "PrRef \<Rightarrow> string" where
  "refName ref = pr_owner ref @ ''/'' @ pr_repo ref @ ''#'' @ intToString (pr_number ref)"

text \<open>\<open>runReview(job, provider)\<close>: no reader and no recorder is wired.\<close>

definition noDeps :: RunReviewDeps where
  "noDeps = \<lparr>rd_scanContent = None, rd_historyReader = None, rd_suppressionLoader = None, rd_evalContext = None, rd_evalRecorder = None\<rparr>"

definition stateAfter :: "EntryDeps \<Rightarrow> PR \<Rightarrow> RunnerResult \<Rightarrow> ReviewState option \<Rightarrow> ReviewState" where
  "stateAfter deps pr result previousState =
     buildReviewState \<lparr>bs_previousState = previousState, bs_comments = rr_comments result, bs_headSha = pq_headSha pr,
       bs_baseSha = pq_baseSha pr, bs_modelUsed = rr_model result, bs_tokensUsed = rr_inputTokens result + rr_outputTokens result,
       bs_costUsd = rr_costUsd result\<rparr> (ed_now deps)"

definition payloadOf :: "RunnerResult \<Rightarrow> ReviewState \<Rightarrow> ReviewPayload" where
  "payloadOf result state = \<lparr>rv_comments = rr_comments result, rv_summary = rr_summary result, rv_state = state,
     rv_event = Some (rr_reviewEvent result)\<rparr>"

section \<open>\<open>action/src/inputs.ts\<close>\<close>

record ActionInputs =
  ai_githubToken :: string
  ai_anthropicApiKey :: "string option"
  ai_language :: string
  ai_configPath :: string
  ai_costCapUsd :: rat
  ai_stateWriteRetries :: nat

definition rawInput :: "(string \<Rightarrow> string option) \<Rightarrow> string \<Rightarrow> string \<Rightarrow> string" where
  "rawInput raw k d = (case raw k of None \<Rightarrow> d | Some v \<Rightarrow> if trim v = [] then d else trim v)"

definition parseInputs :: "(string \<Rightarrow> string option) \<Rightarrow> string + ActionInputs" where
  "parseInputs raw =
     (let githubToken = rawInput raw ''github-token'' []; language = rawInput raw ''language'' ''en-US'';
          costCapRaw = rawInput raw ''cost-cap-usd'' ''1.0''; retriesRaw = rawInput raw ''state-write-retries'' ''3'';
          apiKey = rawInput raw ''anthropic-api-key'' []
      in if githubToken = [] then Inl ''Input github-token is required.''
         else if \<not> isSupportedLanguage language then Inl (''Input language '' @ quoted language @ '' is not a supported code.'')
         else (case parseFiniteFloat costCapRaw of
                 None \<Rightarrow> Inl (''Input cost-cap-usd must be a positive number; got '' @ quoted costCapRaw @ ''.'')
               | Some cap \<Rightarrow>
                   if cap \<le> 0 then Inl (''Input cost-cap-usd must be a positive number; got '' @ quoted costCapRaw @ ''.'')
                   else if retriesRaw = [] \<or> \<not> list_all isDigit retriesRaw \<or> readDigits retriesRaw > 5
                   then Inl (''Input state-write-retries must be an integer in [0, 5]; got '' @ quoted retriesRaw @ ''.'')
                   else Inr \<lparr>ai_githubToken = githubToken, ai_anthropicApiKey = (if apiKey = [] then None else Some apiKey),
                          ai_language = language, ai_configPath = rawInput raw ''config-path'' ''.review-agent.yml'',
                          ai_costCapUsd = cap, ai_stateWriteRetries = readDigits retriesRaw\<rparr>))"

section \<open>\<open>action/src/run.ts\<close>\<close>

record ActionResult =
  ax_skipped :: bool
  ax_skipReason :: "string option"
  ax_postedComments :: nat
  ax_costUsd :: rat

definition NO_RUN :: ActionResult where
  "NO_RUN = \<lparr>ax_skipped = True, ax_skipReason = None, ax_postedComments = 0, ax_costUsd = 0\<rparr>"

definition decideCoordinationForRun :: "VCS \<Rightarrow> PrRef \<Rightarrow> Config \<Rightarrow> CoordinationDecision vres" where
  "decideCoordinationForRun vcs ref config =
     (if qb_other_bots (cf_coordination config) = Ignore then Inr CoordProceed
      else resultBind (vc_getExistingComments vcs ref) (\<lambda>existing.
        Inr (decideCoordination (qb_other_bots (cf_coordination config))
          (KNOWN_REVIEW_BOT_LOGINS @ qb_other_bots_logins (cf_coordination config)) (map xc_author existing))))"

text \<open>The notice of a deferral; its two long dashes, outside the modelled characters, are hyphens.\<close>

definition renderDeferralSummary :: "string \<Rightarrow> string" where
  "renderDeferralSummary login = joinWith [LF]
     [''### review-agent - skipped'', [],
      ''Detected an existing review by '' @ BACKTICK @ login @ BACKTICK @ ''. '' @ BACKTICK @ ''coordination.other_bots'' @ BACKTICK @
        '' is set to '' @ BACKTICK @ ''defer_if_present'' @ BACKTICK @ '', so this run will not post additional comments.'', [],
      ''To override, set '' @ BACKTICK @ ''coordination.other_bots: ignore'' @ BACKTICK @ '' in '' @ BACKTICK @ ''.review-agent.yml'' @ BACKTICK @
        '' (or remove the key entirely '' @ ''- '' @ BACKTICK @ ''ignore'' @ BACKTICK @ '' is the default).'']"

text \<open>A retried write: its outcome and the number of attempts made.\<close>

definition retriedWrite :: "nat \<Rightarrow> (nat \<Rightarrow> unit vres) \<Rightarrow> unit vres \<times> nat" where
  "retriedWrite retries write' =
     (case actionWithRetry isRetriable DEFAULT_DELAYS_MS (int retries + 1) write' of
        Inl msg \<Rightarrow> (Inl (jsError msg), 0)
      | Inr (outcome, delays) \<Rightarrow> (outcome, length delays + 1))"

definition postOrUpdate ::
  "EntryDeps \<Rightarrow> VCS \<Rightarrow> PrRef \<Rightarrow> PR \<Rightarrow> RunnerResult \<Rightarrow> ReviewState option \<Rightarrow> nat \<Rightarrow> (EntryError + unit) \<times> EntryEvent list" where
  "postOrUpdate deps vcs ref pr result previousState retries =
     (let state = stateAfter deps pr result previousState; payload = payloadOf result state
      in case retriedWrite retries (vc_postReview vcs ref payload) of
           (Inl e, n) \<Rightarrow> (Inl (HostFailed e), [])
         | (Inr _, n) \<Rightarrow>
             (case retriedWrite retries (vc_upsertStateComment vcs ref state) of
                (Inl e, k) \<Rightarrow> (Inl (Failed (''State comment write failed after '' @ digitsOf retries @
                   '' retries; next review will be a full re-review.'')), [PostedReview payload n])
              | (Inr _, k) \<Rightarrow> (Inr (), [PostedReview payload n, WroteState state k])))"

definition actionJob ::
  "EntryDeps \<Rightarrow> ActionInputs \<Rightarrow> PrRef \<Rightarrow> Config \<Rightarrow> PR \<Rightarrow> Diff \<Rightarrow> ReviewState option \<Rightarrow> string list \<Rightarrow> DiffStrategy \<Rightarrow> ReviewJob" where
  "actionJob deps inputs ref config pr diff previousState skills strategy =
     reviewJob deps (refName ref) config pr diff previousState skills (ai_costCapUsd inputs)
       \<lparr>pr_host = inferGithubHost deps, pr_owner = pr_owner ref, pr_repo = pr_repo ref\<rparr>
       (case strategy of Full \<Rightarrow> None | Since s \<Rightarrow> Some s) None"

definition actionReview ::
  "EntryDeps \<Rightarrow> ActionInputs \<Rightarrow> PrRef \<Rightarrow> Config \<Rightarrow> VCS \<Rightarrow> PR \<Rightarrow> (EntryError + ActionResult) \<times> EntryEvent list" where
  "actionReview deps inputs ref config vcs pr =
     (let provider = ed_createProvider deps (case ai_anthropicApiKey inputs of None \<Rightarrow> [] | Some k \<Rightarrow> k) config
      in case vc_getStateComment vcs ref of
           Inl e \<Rightarrow> (Inl (HostFailed e), [])
         | Inr previousState \<Rightarrow>
             (let strategy = fst (computeDiffStrategy (ed_runGit deps) previousState (pq_baseSha pr) (pq_headSha pr))
              in case vc_getDiff vcs ref (case strategy of Full \<Rightarrow> None | Since s \<Rightarrow> Some s) of
                   Inl e \<Rightarrow> (Inl (HostFailed e), [])
                 | Inr diff \<Rightarrow>
                     (case skillBlocks deps config diff of
                        Inl e \<Rightarrow> (Inl (HostFailed e), [])
                      | Inr skills \<Rightarrow>
                          (case runReview (ed_agentEnv deps) (actionJob deps inputs ref config pr diff previousState skills strategy)
                                  provider noDeps 0 0 of
                             (Inl e, st) \<Rightarrow> (Inl (ReviewFailed e), [RanModel st])
                           | (Inr result, st) \<Rightarrow>
                               (case postOrUpdate deps vcs ref pr result previousState (ai_stateWriteRetries inputs) of
                                  (Inl e, evs) \<Rightarrow> (Inl e, RanModel st # evs)
                                | (Inr _, evs) \<Rightarrow>
                                    (Inr \<lparr>ax_skipped = False, ax_skipReason = None, ax_postedComments = length (rr_comments result),
                                       ax_costUsd = rr_costUsd result\<rparr>, RanModel st # evs))))))"

definition runAction :: "EntryDeps \<Rightarrow> ActionInputs \<Rightarrow> PrRef \<Rightarrow> (EntryError + ActionResult) \<times> EntryEvent list" where
  "runAction deps inputs ref =
     (case resolveEffectiveConfig (ed_schema deps) (ed_parseYaml deps) (readYamlText deps (ai_configPath inputs)) None
             (envOverrides (ed_env deps)) of
        Inl e \<Rightarrow> (Inl (ConfigFailed e), [])
      | Inr (config, lg) \<Rightarrow>
          (case resultBind (ed_createVCS deps (Some (ai_githubToken inputs)) config) (\<lambda>vcs.
                  resultBind (vc_getPR vcs ref) (\<lambda>pr. Inr (vcs, pr))) of
             Inl e \<Rightarrow> (Inl (HostFailed e), [])
           | Inr (vcs, pr) \<Rightarrow>
               (case decideSkip pr config of
                  Some reason \<Rightarrow> (Inr (NO_RUN\<lparr>ax_skipReason := Some reason\<rparr>), [])
                | None \<Rightarrow>
                    (case decideCoordinationForRun vcs ref config of
                       Inl e \<Rightarrow> (Inl (HostFailed e), [])
                     | Inr (CoordDefer login) \<Rightarrow>
                         (case vc_postSummary vcs ref (renderDeferralSummary login) of
                            Inl e \<Rightarrow> (Inl (HostFailed e), [])
                          | Inr _ \<Rightarrow> (Inr (NO_RUN\<lparr>ax_skipReason := Some (''Deferred to '' @ quoted login @ '' (coordination policy)'')\<rparr>),
                               [PostedSummary (renderDeferralSummary login)]))
                     | Inr CoordProceed \<Rightarrow> actionReview deps inputs ref config vcs pr))))"

section \<open>\<open>cli/src/commands/review.ts\<close> and \<open>dry-run.ts\<close>\<close>

record RunReviewOpts =
  ro_repo :: string
  ro_pr :: int
  ro_configPath :: string
  ro_post :: bool
  ro_platform :: Platform
  ro_language :: "string option"
  ro_profile :: "string option"
  ro_costCapUsd :: "rat option"
  ro_confirm :: "bool option"

datatype ReviewStatus = Reviewed | Skipped string | AuthFailed | Cancelled

record RunReviewResult =
  rz_status :: ReviewStatus
  rz_postedComments :: nat
  rz_costUsd :: rat

text \<open>The command's own copy of \<open>decideSkip\<close>, with shorter reasons.\<close>

definition commandSkip :: "PR \<Rightarrow> Config \<Rightarrow> string option" where
  "commandSkip pr config =
     (if pq_draft pr \<and> \<not> qa_drafts (qr_auto_review (cf_reviews config)) then Some ''PR is in draft state and auto_review.drafts=false''
      else if pq_author pr \<in> set (qr_ignore_authors (cf_reviews config)) then Some (''Author '' @ quoted (pq_author pr) @ '' is in ignore_authors'')
      else None)"

definition slashFree :: "string \<Rightarrow> bool" where
  "slashFree s = (s \<noteq> [] \<and> list_all (\<lambda>c. c \<noteq> CHR ''/'' \<and> \<not> isSpace c) s)"

definition parseRef :: "Platform \<Rightarrow> string \<Rightarrow> int \<Rightarrow> string + PrRef" where
  "parseRef platform repo prNumber =
     (if platform = Codecommit
      then (if slashFree repo then Inr \<lparr>pr_platform = Codecommit, pr_owner = [], pr_repo = repo, pr_number = prNumber, pr_headSha = None\<rparr>
            else Inl (''--repo for --platform codecommit must be a repository name (got '' @ quoted repo @ '').''))
      else (case splitOn (CHR ''/'') repo of
              [owner, name] \<Rightarrow>
                if slashFree owner \<and> slashFree name
                then Inr \<lparr>pr_platform = Github, pr_owner = owner, pr_repo = name, pr_number = prNumber, pr_headSha = None\<rparr>
                else Inl (''--repo must be in '' @ quoted ''owner/repo'' @ '' format (got '' @ quoted repo @ '').'')
            | _ \<Rightarrow> Inl (''--repo must be in '' @ quoted ''owner/repo'' @ '' format (got '' @ quoted repo @ '').'')))"

definition noEnv :: EnvOverrides where
  "noEnv = \<lparr>eo_language = None, eo_provider = None, eo_model = None, eo_max_usd_per_pr = None, eo_max_steps = None\<rparr>"

definition applyCliOverrides :: "EntryDeps \<Rightarrow> Config \<Rightarrow> string option \<Rightarrow> string option \<Rightarrow> ConfigError + Config" where
  "applyCliOverrides deps config language profile =
     resultBind (if truthy language then mergeWithEnv (ed_schema deps) config (noEnv\<lparr>eo_language := language\<rparr>) else Inr config)
       (\<lambda>c. Inr (if profile = Some ''chill'' then c\<lparr>cf_profile := Chill\<rparr>
                 else if profile = Some ''assertive'' then c\<lparr>cf_profile := Assertive\<rparr> else c))"

definition sourceName :: "ConfigResolutionSource \<Rightarrow> string" where
  "sourceName src' = (case src' of RepoYaml \<Rightarrow> ''repo-yaml'' | OrgYaml \<Rightarrow> ''org-yaml'' | EnvSource \<Rightarrow> ''env'' | DefaultSource \<Rightarrow> ''default'')"

definition boolName :: "bool \<Rightarrow> string" where "boolName b = (if b then ''true'' else ''false'')"

definition formatResolutionLog :: "ConfigResolutionLog \<Rightarrow> string" where
  "formatResolutionLog lg =
     ''config resolved: primary='' @ sourceName (cl_primarySource lg) @ '' org='' @ boolName (cl_orgYamlLoaded lg) @
     '' env='' @ boolName (cl_envApplied lg) @ '' ['' @
     joinWith '' '' (map (\<lambda>(k, v). k @ '':'' @ sourceName v) (cl_sections lg)) @ '']'' @ [LF]"

definition resolvePrRepo :: "EntryDeps \<Rightarrow> Platform \<Rightarrow> PrRef \<Rightarrow> PrRepo" where
  "resolvePrRepo deps platform ref =
     \<lparr>pr_host = (if platform = Codecommit then ''codecommit.invalid'' else inferGithubHost deps),
      pr_owner = pr_owner ref, pr_repo = pr_repo ref\<rparr>"

text \<open>\<open>env.REVIEW_AGENT_GH_TOKEN ?? env.GITHUB_TOKEN\<close>.\<close>

definition githubToken :: "EntryDeps \<Rightarrow> string option" where
  "githubToken deps = (case ed_env deps ''REVIEW_AGENT_GH_TOKEN'' of Some t \<Rightarrow> Some t | None \<Rightarrow> ed_env deps ''GITHUB_TOKEN'')"

definition resolvedConfig :: "EntryDeps \<Rightarrow> string \<Rightarrow> string option \<Rightarrow> string option \<Rightarrow> ConfigError + (Config \<times> ConfigResolutionLog)" where
  "resolvedConfig deps configPath language profile =
     resultBind (resolveEffectiveConfig (ed_schema deps) (ed_parseYaml deps) (readYamlText deps configPath) None (envOverrides (ed_env deps)))
       (\<lambda>(baseConfig, lg). resultBind (applyCliOverrides deps baseConfig language profile) (\<lambda>config. Inr (config, lg)))"

definition commandJob ::
  "EntryDeps \<Rightarrow> string \<Rightarrow> Platform \<Rightarrow> PrRef \<Rightarrow> Config \<Rightarrow> string option \<Rightarrow> PR \<Rightarrow> Diff \<Rightarrow> ReviewState option \<Rightarrow> string list \<Rightarrow> rat option \<Rightarrow> ReviewJob" where
  "commandJob deps jobId platform ref config lg pr diff previousState skills cap =
     reviewJob deps jobId config pr diff previousState skills
       (case cap of Some c \<Rightarrow> c | None \<Rightarrow> usdOf deps (qc_max_usd_per_pr (cf_cost config)))
       (resolvePrRepo deps platform ref) None lg"

text \<open>
  The reads and the review of both commands; \<open>Inl\<close> carries what the model did until then.  Only
  \<open>review\<close> wires the hook that reports how the configuration was resolved.
\<close>

definition commandReview ::
  "EntryDeps \<Rightarrow> string \<Rightarrow> Platform \<Rightarrow> PrRef \<Rightarrow> Config \<Rightarrow> string option \<Rightarrow> VCS \<Rightarrow> PR \<Rightarrow> string \<Rightarrow> rat option
     \<Rightarrow> (EntryError + RunnerResult \<times> ReviewState option) \<times> EntryEvent list" where
  "commandReview deps jobId platform ref config lg vcs pr apiKey cap =
     (case vc_getDiff vcs ref None of
        Inl e \<Rightarrow> (Inl (HostFailed e), [])
      | Inr diff \<Rightarrow>
          (case vc_getStateComment vcs ref of
             Inl e \<Rightarrow> (Inl (HostFailed e), [])
           | Inr previousState \<Rightarrow>
               (case skillBlocks deps config diff of
                  Inl e \<Rightarrow> (Inl (HostFailed e), [])
                | Inr skills \<Rightarrow>
                    (case runReview (ed_agentEnv deps) (commandJob deps jobId platform ref config lg pr diff previousState skills cap)
                            (ed_createProvider deps apiKey config) noDeps 0 0 of
                       (Inl e, st) \<Rightarrow> (Inl (ReviewFailed e), [RanModel st])
                     | (Inr result, st) \<Rightarrow> (Inr (result, previousState), [RanModel st])))))"

text \<open>The command's own write: the review, then the state, each once.\<close>

definition postOnce ::
  "EntryDeps \<Rightarrow> VCS \<Rightarrow> PrRef \<Rightarrow> PR \<Rightarrow> RunnerResult \<Rightarrow> ReviewState option \<Rightarrow> (EntryError + unit) \<times> EntryEvent list" where
  "postOnce deps vcs ref pr result previousState =
     (let state = stateAfter deps pr result previousState; payload = payloadOf result state
      in case vc_postReview vcs ref payload 0 of
           Inl e \<Rightarrow> (Inl (HostFailed e), [])
         | Inr _ \<Rightarrow>
             (case vc_upsertStateComment vcs ref state 0 of
                Inl e \<Rightarrow> (Inl (HostFailed e), [PostedReview payload 1])
              | Inr _ \<Rightarrow> (Inr (), [PostedReview payload 1, WroteState state 1])))"

definition reviewAndPost ::
  "EntryDeps \<Rightarrow> RunReviewOpts \<Rightarrow> PrRef \<Rightarrow> Config \<Rightarrow> ConfigResolutionLog \<Rightarrow> VCS \<Rightarrow> PR \<Rightarrow> string \<Rightarrow> (EntryError + RunReviewResult) \<times> EntryEvent list" where
  "reviewAndPost deps opts ref config lg vcs pr apiKey =
     (case commandReview deps (refName ref) (ro_platform opts) ref config (Some (formatResolutionLog lg)) vcs pr apiKey (ro_costCapUsd opts) of
        (Inl e, evs) \<Rightarrow> (Inl e, evs)
      | (Inr (result, previousState), evs) \<Rightarrow>
          if \<not> ro_post opts then (Inr \<lparr>rz_status = Reviewed, rz_postedComments = 0, rz_costUsd = rr_costUsd result\<rparr>, evs)
          else if ro_confirm opts = Some False then (Inr \<lparr>rz_status = Cancelled, rz_postedComments = 0, rz_costUsd = rr_costUsd result\<rparr>, evs)
          else (case postOnce deps vcs ref pr result previousState of
                  (Inl e, evs') \<Rightarrow> (Inl e, evs @ evs')
                | (Inr _, evs') \<Rightarrow>
                    (Inr \<lparr>rz_status = Reviewed, rz_postedComments = length (rr_comments result), rz_costUsd = rr_costUsd result\<rparr>, evs @ evs')))"

definition runReviewCommand :: "EntryDeps \<Rightarrow> RunReviewOpts \<Rightarrow> (EntryError + RunReviewResult) \<times> EntryEvent list" where
  "runReviewCommand deps opts =
     (let authFailed = (Inr \<lparr>rz_status = AuthFailed, rz_postedComments = 0, rz_costUsd = 0\<rparr>, []);
          token = (if ro_platform opts = Github then githubToken deps else None)
      in if ro_platform opts = Github \<and> \<not> truthy token then authFailed
         else if ro_platform opts = Codecommit \<and> ro_repo opts = [] then authFailed
         else if \<not> truthy (ed_env deps ''ANTHROPIC_API_KEY'') then authFailed
         else (case parseRef (ro_platform opts) (ro_repo opts) (ro_pr opts) of
                 Inl msg \<Rightarrow> (Inl (Failed msg), [])
               | Inr ref \<Rightarrow>
                   (case resolvedConfig deps (ro_configPath opts) (ro_language opts) (ro_profile opts) of
                      Inl e \<Rightarrow> (Inl (ConfigFailed e), [])
                    | Inr (config, lg) \<Rightarrow>
                        (case resultBind (ed_createVCS deps token config) (\<lambda>vcs. resultBind (vc_getPR vcs ref) (\<lambda>pr. Inr (vcs, pr))) of
                           Inl e \<Rightarrow> (Inl (HostFailed e), [])
                         | Inr (vcs, pr) \<Rightarrow>
                             (case commandSkip pr config of
                                Some reason \<Rightarrow> (Inr \<lparr>rz_status = Skipped reason, rz_postedComments = 0, rz_costUsd = 0\<rparr>, [])
                              | None \<Rightarrow> reviewAndPost deps opts ref config lg vcs pr (the (ed_env deps ''ANTHROPIC_API_KEY'')))))))"

record DryRunOpts =
  do_configPath :: string
  do_pr :: "string option"
  do_platform :: Platform
  do_language :: "string option"
  do_profile :: "string option"

datatype DryRunStatus = ConfigOnly | DryReviewed | DryAuthFailed | ParseError string

text \<open>\<open>parsePrArg\<close>: the name up to the only number sign, the digits after it.\<close>

definition parsePrArg :: "Platform \<Rightarrow> string \<Rightarrow> string + PrRef" where
  "parsePrArg platform prArg =
     (let spaceFree = (\<lambda>s. s \<noteq> [] \<and> list_all (\<lambda>c. \<not> isSpace c) s);
          owner = (if platform = Codecommit then [] else takeWhile (\<lambda>c. c \<noteq> CHR ''/'') prArg);
          rest = (if platform = Codecommit then prArg else drop (length owner + 1) prArg);
          name = takeWhile (\<lambda>c. c \<noteq> CHR ''#'') rest; digits = drop (length name + 1) rest
      in if spaceFree name \<and> CHR ''#'' \<in> set rest \<and> digits \<noteq> [] \<and> list_all isDigit digits \<and>
            (platform = Codecommit \<or> (CHR ''/'' \<in> set prArg \<and> slashFree owner))
         then Inr \<lparr>pr_platform = platform, pr_owner = owner, pr_repo = name, pr_number = int (readDigits digits), pr_headSha = None\<rparr>
         else Inl (if platform = Codecommit then ''--pr for --platform codecommit must be <repo>#<number>''
                   else ''--pr must be in owner/repo#<number> format''))"

definition runDryRunCommand :: "EntryDeps \<Rightarrow> DryRunOpts \<Rightarrow> (EntryError + DryRunStatus) \<times> EntryEvent list" where
  "runDryRunCommand deps opts =
     (case resolvedConfig deps (do_configPath opts) (do_language opts) (do_profile opts) of
        Inl e \<Rightarrow> (Inl (ConfigFailed e), [])
      | Inr (config, lg) \<Rightarrow>
          (case do_pr opts of
             None \<Rightarrow> (Inr ConfigOnly, [])
           | Some prArg \<Rightarrow>
               (let token = (if do_platform opts = Github then githubToken deps else None)
                in if do_platform opts = Github \<and> \<not> truthy token then (Inr DryAuthFailed, [])
                   else if \<not> truthy (ed_env deps ''ANTHROPIC_API_KEY'') then (Inr DryAuthFailed, [])
                   else (case parsePrArg (do_platform opts) prArg of
                           Inl msg \<Rightarrow> (Inr (ParseError msg), [])
                         | Inr ref \<Rightarrow>
                             (case resultBind (ed_createVCS deps token config) (\<lambda>vcs. resultBind (vc_getPR vcs ref) (\<lambda>pr. Inr (vcs, pr))) of
                                Inl e \<Rightarrow> (Inl (HostFailed e), [])
                              | Inr (vcs, pr) \<Rightarrow>
                                  (case commandReview deps (''dry-run:'' @ refName ref) (do_platform opts) ref config None vcs pr
                                          (the (ed_env deps ''ANTHROPIC_API_KEY'')) None of
                                     (Inl e, evs) \<Rightarrow> (Inl e, evs)
                                   | (Inr _, evs) \<Rightarrow> (Inr DryReviewed, evs)))))))"

end
