(* ===== verification/EntryProps.thy ===== *)
theory EntryProps
  imports EntryPoints ConfigProps
begin

text \<open>
  What a run of the action or of the command line does to the outside, and what its parts do to
  each other: when it writes, what the state comment it trusts can do, and which diff it reviews.
\<close>

section \<open>When a run writes\<close>

text \<open>
  The events of a run that posts: one review, then perhaps one state.  The state is the one the
  review carries, and nothing comes after it.
\<close>

definition isWrite :: "EntryEvent \<Rightarrow> bool" where
  "isWrite ev = (case ev of RanModel _ \<Rightarrow> False | _ \<Rightarrow> True)"

definition writesOk :: "EntryEvent list \<Rightarrow> bool" where
  "writesOk evs =
     (case evs of
        [PostedReview p n] \<Rightarrow> True
      | [PostedReview p n, WroteState s k] \<Rightarrow>
          rv_state p = s \<and> list_all (\<lambda>c. c_fingerprint c \<in> set (rs_commentFingerprints s)) (rv_comments p)
      | _ \<Rightarrow> evs = [])"

lemma stateAfter_keeps:
  "list_all (\<lambda>c. c_fingerprint c \<in> set (rs_commentFingerprints (stateAfter deps pr r prev))) (rv_comments (payloadOf r s))"
  by (simp add: stateAfter_def buildReviewState_def payloadOf_def list_all_iff Let_def)

lemma payload_state [simp]: "rv_state (payloadOf r s) = s"
  by (simp add: payloadOf_def)

lemma postOrUpdate_writes: "writesOk (snd (postOrUpdate deps vcs ref pr r prev k))"
  using stateAfter_keeps by (simp add: postOrUpdate_def writesOk_def Let_def split: prod.split sum.split)

lemma postOnce_writes: "writesOk (snd (postOnce deps vcs ref pr r prev))"
  using stateAfter_keeps by (simp add: postOnce_def writesOk_def Let_def split: sum.split)

lemma postOrUpdate_only_writes: "filter isWrite (snd (postOrUpdate deps vcs ref pr r prev k)) = snd (postOrUpdate deps vcs ref pr r prev k)"
  by (simp add: postOrUpdate_def isWrite_def Let_def split: prod.split sum.split)

lemma postOnce_only_writes: "filter isWrite (snd (postOnce deps vcs ref pr r prev)) = snd (postOnce deps vcs ref pr r prev)"
  by (simp add: postOnce_def isWrite_def Let_def split: sum.split)

lemma isWrite_simps [simp]: "\<not> isWrite (RanModel st)" "isWrite (PostedSummary b)" "isWrite (PostedReview p n)" "isWrite (WroteState s n)"
  by (simp_all add: isWrite_def)

lemma writesOk_simps [simp]: "writesOk []" "writesOk [PostedReview p n]"
  by (simp_all add: writesOk_def)

lemma postOrUpdate_events:
  "postOrUpdate deps vcs ref pr r prev k = (x, evs) \<Longrightarrow> filter isWrite evs = evs \<and> writesOk evs"
  using postOrUpdate_writes [of deps vcs ref pr r prev k] postOrUpdate_only_writes [of deps vcs ref pr r prev k] by simp

lemma postOnce_events: "postOnce deps vcs ref pr r prev = (x, evs) \<Longrightarrow> filter isWrite evs = evs \<and> writesOk evs"
  using postOnce_writes [of deps vcs ref pr r prev] postOnce_only_writes [of deps vcs ref pr r prev] by simp

text \<open>What the body of an action run does, by its outcome.\<close>

lemma actionReview_writes:
  "actionReview deps inputs ref config vcs pr = (res, evs) \<Longrightarrow>
     writesOk (filter isWrite evs) \<and> (case res of Inl _ \<Rightarrow> True | Inr r \<Rightarrow> \<not> ax_skipped r)"
  by (auto simp: actionReview_def Let_def split: sum.splits prod.splits dest!: postOrUpdate_events)


lemma commandReview_reads:
  "commandReview deps jobId platform ref config lg vcs pr apiKey cap = (r, evs) \<Longrightarrow> filter isWrite evs = []"
  by (auto simp: commandReview_def split: sum.splits prod.splits)

lemma reviewAndPost_writes:
  "reviewAndPost deps opts ref config lg vcs pr apiKey = (res, evs) \<Longrightarrow>
     if ro_post opts \<and> \<not> ro_confirm opts = Some False then writesOk (filter isWrite evs) else filter isWrite evs = []"
  unfolding reviewAndPost_def
  by (auto dest!: commandReview_reads postOnce_events split: sum.splits prod.splits if_splits)

lemma dryRun_reads: "runDryRunCommand deps dry = (r, evs) \<Longrightarrow> filter isWrite evs = []"
  unfolding runDryRunCommand_def Let_def
  by (auto split: sum.splits prod.splits option.splits if_splits dest: commandReview_reads)

text \<open>
  C34: the command line changes a pull request only when told to.  The dry run never writes;
  \<open>review\<close> writes nothing without \<open>--post\<close> or when the confirmation is declined, and
  otherwise in the order of the action.
\<close>

theorem commands_write_only_when_told:
  "filter isWrite (snd (runDryRunCommand deps dry)) = [] \<and>
   (case runReviewCommand deps opts of (res, evs) \<Rightarrow>
      if ro_post opts \<and> \<not> ro_confirm opts = Some False then writesOk (filter isWrite evs) else filter isWrite evs = [])"
proof
  show "filter isWrite (snd (runDryRunCommand deps dry)) = []"
    by (cases "runDryRunCommand deps dry") (simp add: dryRun_reads)
  show "case runReviewCommand deps opts of (res, evs) \<Rightarrow>
      if ro_post opts \<and> \<not> ro_confirm opts = Some False then writesOk (filter isWrite evs) else filter isWrite evs = []"
    by (auto simp: runReviewCommand_def Let_def split: sum.split prod.split option.split dest!: reviewAndPost_writes split: if_splits)
qed

section \<open>What the state comment can do\<close>

text \<open>What a run posts, against the state it read.\<close>

definition mutedBy :: "ReviewState \<Rightarrow> EntryEvent \<Rightarrow> bool" where
  "mutedBy s ev =
     (case ev of PostedReview p n \<Rightarrow> list_all (\<lambda>c. c_fingerprint c \<notin> set (rs_commentFingerprints s)) (rv_comments p) | _ \<Rightarrow> True)"

lemma noDeps_loads: "loadHistory job noDeps = Inr ([], [])" "loadSuppressions job noDeps = Inr []"
  by (simp_all add: loadHistory_def loadSuppressions_def noDeps_def)

lemma review_muted:
  assumes "runReview env job provider noDeps a b = (Inr r, st)" "rj_previousState job = Some s"
  shows "list_all (\<lambda>c. c_fingerprint c \<notin> set (rs_commentFingerprints s)) (rr_comments r)"
proof -
  obtain st' where run: "runReviewInner env job provider noDeps = (Inr r, st')"
    using assms(1) by (auto simp: runReview_def noDeps_def split: prod.splits sum.splits)
  show ?thesis
    using posted_mayPost [OF run _ noDeps_loads] assms(2) by (auto simp: list_all_iff mayPost_def)
qed

lemma postOrUpdate_muted:
  "postOrUpdate deps vcs ref pr r prev k = (x, evs) \<Longrightarrow>
     list_all (\<lambda>c. c_fingerprint c \<notin> set (rs_commentFingerprints s)) (rr_comments r) \<Longrightarrow> list_all (mutedBy s) evs"
  by (auto simp: postOrUpdate_def mutedBy_def payloadOf_def Let_def split: prod.splits sum.splits)

lemma actionJob_previous [simp]: "rj_previousState (actionJob deps inputs ref config pr diff prev skills strategy) = prev"
  by (simp add: actionJob_def reviewJob_def)

lemma actionReview_muted:
  assumes "vc_getStateComment vcs ref = Inr (Some s)" "actionReview deps inputs ref config vcs pr = (res, evs)"
  shows "list_all (mutedBy s) evs"
  using assms
  by (auto simp: actionReview_def Let_def mutedBy_def [of s "RanModel st" for st] split: sum.splits prod.splits
      dest!: review_muted intro: postOrUpdate_muted)

lemma includes_format: "includesStr (formatStateComment t s) MARKER_OPEN"
  by (simp add: formatStateComment_def MARKER_OPEN_def)

text \<open>Any state can be put into a comment, and the last comment that has the marker is the one read.\<close>

lemma forged_state_read:
  assumes "storedStateOk (jc_isDatetime jc) s" "embeddable (jc_text jc (reviewStateY s))"
    and "jc_parse jc (jc_text jc (reviewStateY s)) = Some (reviewStateY s)"
    and "gi_body c = Some (formatStateComment (jc_text jc) s)" "pr_platform ref = Github"
    and "gh_listIssueComments gh (pr_owner ref) (pr_repo ref) (pr_number ref) = Inr (older @ c # later)" "list_all (\<lambda>d. \<not> hasMarker d) later"
    and "createGithubVCS gh jc token = Inr vcs"
  shows "vc_getStateComment vcs ref = Inr (Some s)"
proof -
  have skip: "List.find hasMarker (rev later @ xs) = List.find hasMarker xs" for xs
    using assms(7) by (induction later arbitrary: xs) (simp_all add: hasMarker_def)
  have here: "hasMarker c" using assms(4) includes_format by (simp add: hasMarker_def)
  have "getStateComment gh jc ref = Inr (Some s, [])"
    using parse_format [of "jc_isDatetime jc" s "jc_text jc" "jc_parse jc"] assms(1-6)
    by (simp add: getStateComment_def ensureGithub_def resultBind_def findStateComment_def skip here)
  then show ?thesis
    using assms(8) by (auto simp: createGithubVCS_def resultBind_def split: if_splits)
qed

text \<open>
  C35: whoever can comment on a pull request decides what its reviews keep quiet about.  The action reads
  its state from the last comment of the pull request that carries the marker, whoever wrote it; a
  comment that carries a well-formed state with any fingerprints makes every run of the action treat
  the findings with these fingerprints as already posted, and none of them is posted.
\<close>

theorem forged_state_mutes_findings:
  assumes "storedStateOk (jc_isDatetime jc) s" "embeddable (jc_text jc (reviewStateY s))"
    and "jc_parse jc (jc_text jc (reviewStateY s)) = Some (reviewStateY s)"
    and "gh_listIssueComments gh (pr_owner ref) (pr_repo ref) (pr_number ref) =
      Inr (older @ \<lparr>gi_id = i, gi_body = Some (formatStateComment (jc_text jc) s), gi_user = anyone\<rparr> # later)"
    and "list_all (\<lambda>d. \<not> hasMarker d) later" "pr_platform ref = Github"
  shows "list_all (mutedBy s) (snd (runAction (deps\<lparr>ed_createVCS := \<lambda>token config. createGithubVCS gh jc (orEmpty token)\<rparr>) inputs ref))"
proof -
  let ?deps = "deps\<lparr>ed_createVCS := \<lambda>token config. createGithubVCS gh jc (orEmpty token)\<rparr>"
  have summary: "mutedBy s (PostedSummary b)" for b by (simp add: mutedBy_def)
  have "list_all (mutedBy s) evs"
    if "resultBind (createGithubVCS gh jc tok) (\<lambda>vcs. resultBind (vc_getPR vcs ref) (\<lambda>pr. Inr (vcs, pr))) = Inr (vcs, pr)"
      "snd (actionReview ?deps inputs ref config vcs pr) = evs" for tok vcs pr config evs
  proof -
    have "createGithubVCS gh jc tok = Inr vcs" using that(1) by (auto simp: resultBind_def split: sum.splits)
    then have "vc_getStateComment vcs ref = Inr (Some s)"
      using forged_state_read [OF assms(1-3) _ assms(6,4,5)] by simp
    then show ?thesis
      using actionReview_muted that(2) by (cases "actionReview ?deps inputs ref config vcs pr") auto
  qed
  then show ?thesis
    unfolding runAction_def
    by (auto simp: summary split: sum.split prod.split option.split CoordinationDecision.split)
qed

section \<open>Which diff is reviewed\<close>

text \<open>
  An incremental review on GitHub does not look at the pull request.  With a previous commit the
  diff is that of the commit against the name \<open>HEAD\<close>, the default branch of the repository; it
  stays the same for another pull request, another head and other files.
\<close>

theorem incremental_diff_ignores_pull_request:
  "getDiff (gh\<lparr>gh_pullsGet := anyPr, gh_listFiles := anyFiles, gh_listCommits := anyCommits\<rparr>)
     (ref\<lparr>pr_number := n, pr_headSha := h\<rparr>) (Some (c # sha)) = getDiff gh ref (Some (c # sha))"
  by (simp add: getDiff_def ensureGithub_def)

text \<open>
  C36: a review of a CodeCommit pull request sees no code.  Whatever the commits contain, the text of
  the diff that the job carries to the model is one header line per path.
\<close>

theorem codecommit_review_blind:
  assumes "ccGetDiff cc ref since = Some (Inr diff)"
  shows "rj_diffText (commandJob deps jobId Codecommit ref config lg pr diff prev skills cap) =
    joinWith [LF] (map (\<lambda>f. ''--- '' @ dq_path f @ [LF]) (dd_files diff))"
proof -
  have "\<exists>ds. dd_files diff = map toDiffFile ds"
    using assms by (auto simp: ccGetDiff_def resultBind_def Let_def split: sum.splits option.splits)
  then have "\<forall>f \<in> set (dd_files diff). dq_patch f = None" using toDiffFile_blind by auto
  then have "map (\<lambda>f. ''--- '' @ dq_path f @ [LF] @ (case dq_patch f of None \<Rightarrow> [] | Some p \<Rightarrow> p)) (dd_files diff) =
      map (\<lambda>f. ''--- '' @ dq_path f @ [LF]) (dd_files diff)" by simp
  then show ?thesis by (simp only: commandJob_def reviewJob_def ReviewJob.select_convs diffTextOf_def)
qed

section \<open>Concrete runs\<close>

definition demoGithub :: "RawIssueComment list \<Rightarrow> Octokit" where
  "demoGithub comments =
     \<lparr>gh_pullsGet = \<lambda>_ _ _. Inr \<lparr>gp_title = ''t'', gp_body = None, gp_user = Some ''dev'', gp_baseSha = ''b'', gp_headSha = ''h'',
        gp_baseRef = ''main'', gp_headRef = ''f'', gp_draft = None, gp_labels = [], gp_commits = None, gp_createdAt = [], gp_updatedAt = []\<rparr>,
      gh_listCommits = \<lambda>_ _ _ _ _. Inr [], gh_compare = \<lambda>_ _ _. Inr \<lparr>gk_mergeBaseSha = [], gk_commits = [], gk_files = None\<rparr>,
      gh_listFiles = \<lambda>_ _ _. Inr [], gh_getContent = \<lambda>_ _ _ _. Inr RawOther, gh_listReviewComments = \<lambda>_ _ _. Inr [],
      gh_listIssueComments = \<lambda>_ _ _. Inr comments, gh_send = \<lambda>_ _. Inr []\<rparr>"

definition forgedState :: ReviewState where
  "forgedState = \<lparr>rs_schemaVersion = 1, rs_lastReviewedSha = replicate 40 (CHR ''a''), rs_baseSha = replicate 40 (CHR ''b''),
     rs_reviewedAt = ''2025'', rs_modelUsed = ''m'', rs_totalTokens = 0, rs_totalCostUsd = 0,
     rs_commentFingerprints = [replicate 16 (CHR ''c'')]\<rparr>"

definition demoCodec :: JsonCodec where
  "demoCodec = \<lparr>jc_text = \<lambda>_. ''{}'', jc_parse = \<lambda>t. if t = ''{}'' then Some (reviewStateY forgedState) else None, jc_isDatetime = \<lambda>_. True\<rparr>"

definition demoEntryDeps :: EntryDeps where
  "demoEntryDeps = \<lparr>ed_schema = exampleDeps, ed_parseYaml = \<lambda>_. None, ed_readFile = \<lambda>_. Inl (jsError ''ENOENT''), ed_cwd = ''/w'',
     ed_createVCS = \<lambda>_ _. Inl (jsError ''none''), ed_createProvider = \<lambda>_ _. sampleProvider 0 sampleOutput, ed_env = \<lambda>_. None,
     ed_urlHost = \<lambda>_. None, ed_agentEnv = sampleEnv, ed_runGit = \<lambda>_ _ _. Inr ''b'', ed_now = 0, ed_infiniteUsd = 0\<rparr>"

definition demoInputs :: ActionInputs where
  "demoInputs = \<lparr>ai_githubToken = ''t'', ai_anthropicApiKey = Some ''k'', ai_language = ''en-US'', ai_configPath = ''.review-agent.yml'',
     ai_costCapUsd = 1, ai_stateWriteRetries = 3\<rparr>"

definition demoRef :: "Platform \<Rightarrow> PrRef" where
  "demoRef p = \<lparr>pr_platform = p, pr_owner = ''o'', pr_repo = ''r'', pr_number = 7, pr_headSha = None\<rparr>"

definition outsiderComment :: RawIssueComment where
  "outsiderComment = \<lparr>gi_id = 1, gi_body = Some (formatStateComment (jc_text demoCodec) forgedState), gi_user = Some ''outsider''\<rparr>"

theorem forged_state_mutes_findings_witness:
  "list_all (mutedBy forgedState) (snd (runAction
     (demoEntryDeps\<lparr>ed_createVCS := \<lambda>token config. createGithubVCS (demoGithub [outsiderComment]) demoCodec (orEmpty token)\<rparr>)
     demoInputs (demoRef Github))) \<and> rs_commentFingerprints forgedState \<noteq> []"
proof -
  have "storedStateOk (jc_isDatetime demoCodec) forgedState"
    by (simp add: storedStateOk_def forgedState_def demoCodec_def SHA1_HEX_def FINGERPRINT_HEX_def hexDigits_def list_all_iff
        lengthWithin_def MODEL_NAME_MIN_def MODEL_NAME_MAX_def)
  moreover have "embeddable (jc_text demoCodec (reviewStateY forgedState))"
    by (simp add: embeddable_def demoCodec_def isSpace_def MARKER_CLOSE_def)
  ultimately show ?thesis
    using forged_state_mutes_findings [of demoCodec forgedState "demoGithub [outsiderComment]" "demoRef Github" "[]" 1 "Some ''outsider''" "[]"
        demoEntryDeps demoInputs]
    by (simp add: demoGithub_def outsiderComment_def demoRef_def) (simp add: demoCodec_def forgedState_def)
qed

definition demoCodeCommit :: CcClient where
  "demoCodeCommit =
     \<lparr>cc_getPullRequest = \<lambda>_. Inr (Some \<lparr>cp_title = Some ''t'', cp_description = None, cp_authorArn = None, cp_targets = [],
        cp_revisionId = None, cp_creationDate = None, cp_lastActivityDate = None\<rparr>),
      cc_getDifferences = \<lambda>_ _ _ _. Inr ([\<lparr>cy_beforePath = None, cy_afterPath = Some ''a.ts'', cy_changeType = Some ''A''\<rparr>,
        \<lparr>cy_beforePath = Some ''b.ts'', cy_afterPath = None, cy_changeType = Some ''D''\<rparr>], None),
      cc_getFile = \<lambda>_ _ _. Inr (Some ''secret code''), cc_getComments = \<lambda>_ _ _. Inr ([], None),
      cc_listPullRequests = \<lambda>_ _ _. Inr ([], None), cc_send = \<lambda>_ _. Inr []\<rparr>"

definition demoDiff :: Diff where
  "demoDiff = \<lparr>dd_baseSha = [], dd_headSha = [],
     dd_files = [\<lparr>dq_path = ''a.ts'', dq_previousPath = None, dq_status = Added, dq_additions = 0, dq_deletions = 0, dq_patch = None\<rparr>,
       \<lparr>dq_path = ''b.ts'', dq_previousPath = None, dq_status = Removed, dq_additions = 0, dq_deletions = 0, dq_patch = None\<rparr>]\<rparr>"

lemma demo_diff: "ccGetDiff demoCodeCommit (demoRef Codecommit) None = Some (Inr demoDiff)"
  by (simp add: ccGetDiff_def demoRef_def demoDiff_def ensureCodeCommit_def resultBind_def ccGetPR_def fetchCodeCommitPR_def demoCodeCommit_def
      toPR_def orEmpty_def toDiffFile_def mapDiffStatus_def CHANGE_TYPE_MAP_def pageLoop.simps nextOf_def Let_def)

theorem codecommit_review_blind_witness:
  "rj_diffText (commandJob demoEntryDeps ''j'' Codecommit (demoRef Codecommit) exampleRepo
      None (toPR \<lparr>cp_title = None,
        cp_description = None, cp_authorArn = None, cp_targets = [], cp_revisionId = None, cp_creationDate = None, cp_lastActivityDate = None\<rparr>)
      demoDiff None [] None) = ''--- a.ts'' @ [LF, LF] @ ''--- b.ts'' @ [LF]"
  by (subst codecommit_review_blind [OF demo_diff]) (simp add: demoDiff_def)

end
