(* ===== verification/Recovery.thy ===== *)
theory Recovery
  imports Feedback CodecommitVcs
begin

text \<open>
  Disaster recovery: the commands of \<open>cli/src/commands/recover.ts\<close> with the CodeCommit scrape of
  \<open>recover-codecommit-feedback.ts\<close> and the statements of \<open>db/src/recover-feedback-history.ts\<close>
  and \<open>recover-eval-events.ts\<close>.  Parameters: the AWS client, \<open>new Date(text)\<close>,
  \<open>JSON.parse\<close> and the file.  The pacing between requests is not modelled.  The statements run
  on the pool and not on the transaction of \<open>withTenant\<close>; the connecting role is taken to own
  the tables, so that no policy applies to it.
\<close>

section \<open>Dates of the command line\<close>

definition dateShape :: "string \<Rightarrow> bool" where
  "dateShape s =
     (10 \<le> length s \<and> list_all isDigit (take 4 s) \<and> s ! 4 = CHR ''-'' \<and> list_all isDigit (take 2 (drop 5 s)) \<and>
      s ! 7 = CHR ''-'' \<and> list_all isDigit (take 2 (drop 8 s)) \<and>
      (length s = 10 \<or> (s ! 10 = CHR ''T'' \<and> 11 < length s \<and> list_all (\<lambda>c. c \<noteq> LF \<and> c \<noteq> CR) (drop 11 s))))"

definition parseIsoDate :: "(string \<Rightarrow> Date option) \<Rightarrow> string \<Rightarrow> Date option" where
  "parseIsoDate newDate value =
     (if dateShape value then newDate (if CHR ''T'' \<in> set value then value else value @ ''T00:00:00Z'') else None)"

section \<open>\<open>recover-feedback-history.ts\<close>\<close>

record RecoverFeedbackHistoryCandidate =
  ca_factType :: FactType
  ca_factText :: string

record RecoverFeedbackHistoryResult =
  rw_partial :: bool
  rw_candidates :: nat
  rw_recovered :: nat
  rw_skippedExisting :: nat

definition nothingRecovered :: RecoverFeedbackHistoryResult where
  "nothingRecovered = \<lparr>rw_partial = False, rw_candidates = 0, rw_recovered = 0, rw_skippedExisting = 0\<rparr>"

definition recoverFeedbackHistory ::
  "Date \<Rightarrow> int \<Rightarrow> string \<Rightarrow> RecoverFeedbackHistoryCandidate list \<Rightarrow> bool \<Rightarrow> ReviewHistory
     \<Rightarrow> RecoverFeedbackHistoryResult \<times> ReviewHistory" where
  "recoverFeedbackHistory dbNow installationId repo candidates dryRun t =
     (if candidates = [] then (nothingRecovered, t)
      else let existing = map rh_factText (filter (\<lambda>r. rh_installationId r = installationId \<and> rh_repo r = repo) (ht_rows t));
               fresh = filter (\<lambda>c. ca_factText c \<notin> set existing) candidates;
               result = nothingRecovered\<lparr>rw_candidates := length candidates, rw_skippedExisting := length candidates - length fresh\<rparr>
           in if dryRun \<or> fresh = [] then (result, t)
              else (result\<lparr>rw_recovered := length fresh\<rparr>,
                foldl (\<lambda>t c. createReviewHistoryWriter dbNow \<lparr>hi_installationId = installationId, hi_repo = repo,
                  hi_factType = ca_factType c, hi_factText = ca_factText c\<rparr> t) t fresh))"

section \<open>\<open>recover-codecommit-feedback.ts\<close>\<close>

definition parseFeedbackKind :: "string \<Rightarrow> FeedbackKind option" where
  "parseFeedbackKind commentBody =
     (let lower = toLowerCase commentBody in
      case indexOf lower FEEDBACK_COMMAND_PREFIX of
        None \<Rightarrow> None
      | Some idx \<Rightarrow>
          if 0 < idx \<and> isCommandWordC (lower ! (idx - 1)) then None
          else (let sb = hd (splitSpaces (trim (drop (idx + length FEEDBACK_COMMAND_PREFIX) lower)))
                in if sb = ''accept'' then Some ThumbsUp
                   else if sb = ''reject'' then Some ThumbsDown
                   else if sb = ''dismiss'' then Some Dismissed
                   else None))"

definition kindName :: "FeedbackKind \<Rightarrow> string" where
  "kindName k = (case k of ThumbsUp \<Rightarrow> ''thumbs_up'' | ThumbsDown \<Rightarrow> ''thumbs_down'' | Dismissed \<Rightarrow> ''dismissed'')"

record ScrapeOpts =
  sc_repositoryName :: string
  sc_botArn :: string
  sc_feedbackAllowlist :: "string list"
  sc_pullRequestStatus :: "string option"
  sc_sinceDate :: "Date option"
  sc_onlyPr :: "int option"

record ScrapeState =
  sa_candidates :: "RecoverFeedbackHistoryCandidate list"
  sa_prsWalked :: nat
  sa_commentsSeen :: nat
  sa_feedbackCommandsSeen :: nat
  sa_unresolved :: nat
  sa_unauthorized :: nat

definition recoveredFact :: "string \<Rightarrow> FeedbackKind \<Rightarrow> Date option \<Rightarrow> RecoverFeedbackHistoryCandidate" where
  "recoveredFact fp kind date =
     \<lparr>ca_factType = feedbackKindToFactType kind,
      ca_factText = ''[fp:'' @ fp @ ''] codecommit-recover '' @ kindName kind @ '' at '' @
        (case date of None \<Rightarrow> ''unknown'' | Some d \<Rightarrow> toISOString d)\<rparr>"

text \<open>The later of two comments with the same id is the one a reply is resolved against.\<close>

definition commentsById :: "CodeCommitRawComment list \<Rightarrow> string \<Rightarrow> CodeCommitRawComment option" where
  "commentsById allComments = map_of (rev (map (\<lambda>c. (cw_commentId c, c)) allComments))"

definition beforeWindow :: "ScrapeOpts \<Rightarrow> CodeCommitRawComment \<Rightarrow> bool" where
  "beforeWindow opts c =
     (case sc_sinceDate opts of None \<Rightarrow> False
      | Some since \<Rightarrow> (case cw_creationDate c of None \<Rightarrow> True | Some d \<Rightarrow> d < since))"

definition scrapeComment :: "ScrapeOpts \<Rightarrow> (string \<Rightarrow> CodeCommitRawComment option) \<Rightarrow> ScrapeState \<Rightarrow> CodeCommitRawComment \<Rightarrow> ScrapeState" where
  "scrapeComment opts byId st c =
     (case parseFeedbackKind (cw_content c) of
        None \<Rightarrow> st
      | Some kind \<Rightarrow>
          (let st = st\<lparr>sa_feedbackCommandsSeen := sa_feedbackCommandsSeen st + 1\<rparr>;
               unresolved = st\<lparr>sa_unresolved := sa_unresolved st + 1\<rparr>
           in if beforeWindow opts c then st
              else (case cw_inReplyTo c of
                      None \<Rightarrow> unresolved
                    | Some parentId \<Rightarrow>
                        (case byId parentId of
                           None \<Rightarrow> unresolved
                         | Some parent \<Rightarrow>
                             if cw_authorArn parent \<noteq> Some (sc_botArn opts) then unresolved
                             else if \<not> is_allowed (checkCodeCommitFeedbackAuthz None
                                 (Some (joinWith '','' (sc_feedbackAllowlist opts))) (CodecommitVcs.orEmpty (cw_authorArn c)))
                             then st\<lparr>sa_unauthorized := sa_unauthorized st + 1\<rparr>
                             else (case extractFingerprintFromComment (cw_content parent) of
                                     None \<Rightarrow> unresolved
                                   | Some fp \<Rightarrow> st\<lparr>sa_candidates := sa_candidates st @ [recoveredFact fp kind (cw_creationDate c)]\<rparr>)))))"

fun scrapePrs :: "CcClient \<Rightarrow> ScrapeOpts \<Rightarrow> int list \<Rightarrow> ScrapeState \<Rightarrow> ScrapeState vres option" where
  "scrapePrs cc opts [] st = Some (Inr st)"
| "scrapePrs cc opts (prId # prIds) st =
     (case listCodeCommitCommentsForPullRequest cc (intToString prId) of
        None \<Rightarrow> None
      | Some (Inl e) \<Rightarrow> Some (Inl e)
      | Some (Inr allComments) \<Rightarrow>
          scrapePrs cc opts prIds
            (foldl (scrapeComment opts (commentsById allComments))
              (st\<lparr>sa_commentsSeen := sa_commentsSeen st + length allComments\<rparr>) allComments))"

definition scrapeCodeCommitFeedback :: "CcClient \<Rightarrow> ScrapeOpts \<Rightarrow> ScrapeState vres option" where
  "scrapeCodeCommitFeedback cc opts =
     (case (case sc_onlyPr opts of
              Some n \<Rightarrow> Some (Inr [n])
            | None \<Rightarrow> map_option (map_sum id (map int))
                (listCodeCommitPullRequestIds cc (sc_repositoryName opts) (sc_pullRequestStatus opts))) of
        None \<Rightarrow> None
      | Some (Inl e) \<Rightarrow> Some (Inl e)
      | Some (Inr prIds) \<Rightarrow>
          scrapePrs cc opts prIds \<lparr>sa_candidates = [], sa_prsWalked = length prIds, sa_commentsSeen = 0,
            sa_feedbackCommandsSeen = 0, sa_unresolved = 0, sa_unauthorized = 0\<rparr>)"

section \<open>\<open>recover feedback-history\<close>\<close>

record RecoverFeedbackHistoryOpts =
  rq_repo :: string
  rq_installationId :: int
  rq_platform :: Platform
  rq_candidatesFile :: "string option"
  rq_dryRun :: bool
  rq_since :: "string option"
  rq_onlyPr :: "int option"
  rq_botArn :: "string option"

record RecoverEnv =
  re_env :: "string \<Rightarrow> string option"
  re_newDate :: "string \<Rightarrow> Date option"
  re_readFile :: "string \<Rightarrow> string vres"
  re_parseJson :: "string \<Rightarrow> json option"
  re_codecommit :: CcClient
  re_dbOk :: bool
  re_dbNow :: Date

definition factTypeOf :: "json \<Rightarrow> FactType option" where
  "factTypeOf v =
     (case jsonMember v ''factType'' of
        Some (JStr t) \<Rightarrow>
          (if t = ''accepted_pattern'' then Some AcceptedPattern
           else if t = ''rejected_finding'' then Some RejectedFinding
           else if t = ''arch_decision'' then Some ArchDecision
           else None)
      | _ \<Rightarrow> None)"

definition candidateLine :: "(string \<Rightarrow> json option) \<Rightarrow> string \<Rightarrow> RecoverFeedbackHistoryCandidate vres" where
  "candidateLine parseJson line =
     (case parseJson line of
        None \<Rightarrow> Inl (jsError ''SyntaxError'')
      | Some parsed \<Rightarrow>
          (case factTypeOf parsed of
             None \<Rightarrow> Inl (jsError ''Invalid factType in candidates file'')
           | Some ft \<Rightarrow>
               (case jsonMember parsed ''factText'' of
                  Some (JStr t) \<Rightarrow> if t = [] then Inl (jsError ''Invalid factText in candidates file (must be a non-empty string).'')
                                  else Inr \<lparr>ca_factType = ft, ca_factText = t\<rparr>
                | _ \<Rightarrow> Inl (jsError ''Invalid factText in candidates file (must be a non-empty string).''))))"

fun candidateLines :: "(string \<Rightarrow> json option) \<Rightarrow> string list \<Rightarrow> RecoverFeedbackHistoryCandidate list vres" where
  "candidateLines parseJson [] = Inr []"
| "candidateLines parseJson (line # ls) =
     (if trim line = [] \<or> startsWith (trim line) ''//'' then candidateLines parseJson ls
      else resultBind (candidateLine parseJson (trim line)) (\<lambda>c. resultBind (candidateLines parseJson ls) (\<lambda>cs. Inr (c # cs))))"

definition parseCandidatesFile :: "(string \<Rightarrow> json option) \<Rightarrow> string \<Rightarrow> RecoverFeedbackHistoryCandidate list vres" where
  "parseCandidatesFile parseJson raw = candidateLines parseJson (splitOn LF raw)"

definition noSlashSpace :: "string \<Rightarrow> bool" where
  "noSlashSpace s = (s \<noteq> [] \<and> list_all (\<lambda>c. c \<noteq> CHR ''/'' \<and> \<not> isSpace c) s)"

definition CODECOMMIT_REPO_RE :: "string \<Rightarrow> bool" where
  "CODECOMMIT_REPO_RE s = (let parts = splitOn (CHR ''/'') s in length parts \<le> 2 \<and> list_all noSlashSpace parts)"

text \<open>
  The candidates with the key of the repository and whether the run counts as partial; none when the
  arguments are refused.
\<close>

definition codecommitCandidates ::
  "RecoverEnv \<Rightarrow> RecoverFeedbackHistoryOpts \<Rightarrow> Date option \<Rightarrow> (RecoverFeedbackHistoryCandidate list \<times> string \<times> bool) option vres option" where
  "codecommitCandidates ev opts sinceDate =
     (case rq_botArn opts of
        None \<Rightarrow> Some (Inr None)
      | Some botArn \<Rightarrow>
          if botArn = [] \<or> \<not> CODECOMMIT_REPO_RE (rq_repo opts) then Some (Inr None)
          else (let repoName = last (splitOn (CHR ''/'') (rq_repo opts));
                    allowlist = parseAllowlist (Some (CodecommitVcs.orEmpty (re_env ev ''REVIEW_AGENT_FEEDBACK_ALLOWLIST'')))
                in map_option (\<lambda>r. resultBind r (\<lambda>st. Inr (Some
                     (sa_candidates st, intToString (rq_installationId opts) @ ''/'' @ repoName,
                      0 < sa_unauthorized st \<or> (allowlist = [] \<and> 0 < sa_feedbackCommandsSeen st)))))
                   (scrapeCodeCommitFeedback (re_codecommit ev)
                     \<lparr>sc_repositoryName = repoName, sc_botArn = botArn, sc_feedbackAllowlist = allowlist, sc_pullRequestStatus = None,
                      sc_sinceDate = sinceDate, sc_onlyPr = rq_onlyPr opts\<rparr>)))"

definition githubCandidates ::
  "RecoverEnv \<Rightarrow> RecoverFeedbackHistoryOpts \<Rightarrow> (RecoverFeedbackHistoryCandidate list \<times> string \<times> bool) option vres" where
  "githubCandidates ev opts =
     (case rq_candidatesFile opts of
        None \<Rightarrow> Inr None
      | Some f \<Rightarrow> if f = [] then Inr None
          else resultBind (re_readFile ev f) (\<lambda>raw. resultBind (parseCandidatesFile (re_parseJson ev) raw) (\<lambda>cs.
                 Inr (Some (cs, rq_repo opts, False)))))"

definition recoverFeedbackHistoryCommand ::
  "RecoverEnv \<Rightarrow> RecoverFeedbackHistoryOpts \<Rightarrow> ReviewHistory \<Rightarrow> (RecoverFeedbackHistoryResult vres \<times> ReviewHistory) option" where
  "recoverFeedbackHistoryCommand ev opts t =
     (if CodecommitVcs.orEmpty (re_env ev ''DATABASE_URL'') = [] then Some (Inr nothingRecovered, t)
      else let sinceDate = Option.bind (rq_since opts) (parseIsoDate (re_newDate ev)) in
        if rq_since opts \<noteq> None \<and> sinceDate = None then Some (Inr nothingRecovered, t)
        else (case (if rq_platform opts = Codecommit then codecommitCandidates ev opts sinceDate else Some (githubCandidates ev opts)) of
                None \<Rightarrow> None
              | Some (Inl e) \<Rightarrow> Some (Inl e, t)
              | Some (Inr None) \<Rightarrow> Some (Inr nothingRecovered, t)
              | Some (Inr (Some (candidates, repoKey, partial))) \<Rightarrow>
                  (case withTenant (re_dbOk ev) (rq_installationId opts) (\<lambda>t.
                          case recoverFeedbackHistory (re_dbNow ev) (rq_installationId opts) repoKey candidates (rq_dryRun opts) t of
                            (r, t') \<Rightarrow> (t', r)) t of
                     (t', Inl msg) \<Rightarrow> Some (Inl (jsError msg), t')
                   | (t', Inr r) \<Rightarrow> Some (Inr (if partial then r\<lparr>rw_partial := True\<rparr> else r), t'))))"

section \<open>\<open>recover review-eval-events\<close>\<close>

text \<open>The columns of \<open>review_eval_event\<close> a recovery fills; the others keep zero or empty values.\<close>

record RecoveredEvalRow =
  ee_installationId :: int
  ee_jobId :: string
  ee_repo :: string
  ee_prNumber :: int
  ee_headSha :: string
  ee_provider :: string
  ee_model :: string
  ee_latencyMs :: int
  ee_costUsd :: rat
  ee_tokensInput :: int
  ee_tokensOutput :: int

record RecoverEvalEventsResult =
  rg_candidates :: nat
  rg_recovered :: nat
  rg_skippedExisting :: nat

definition noEvents :: RecoverEvalEventsResult where
  "noEvents = \<lparr>rg_candidates = 0, rg_recovered = 0, rg_skippedExisting = 0\<rparr>"

text \<open>
  One group of the aggregation.  \<open>maxText\<close> is \<open>MAX\<close> under the collation of the database;
  a sum that does not fit the cast to \<open>int\<close> fails the statement.
\<close>

definition int4 :: "int \<Rightarrow> int vres" where
  "int4 n = (if - (2 ^ 31) \<le> n \<and> n < 2 ^ 31 then Inr n else Inl (jsError ''integer out of range''))"

definition evalEvent :: "(string list \<Rightarrow> string) \<Rightarrow> int \<Rightarrow> string \<Rightarrow> RecordPhaseInput list \<Rightarrow> string \<Rightarrow> RecoveredEvalRow vres" where
  "evalEvent maxText installationId repo rows jobId =
     (let g = filter (\<lambda>r. ri_jobId r = jobId) rows; total = (\<lambda>f. int4 (sum_list (map f g)))
      in resultBind (total (\<lambda>r. case ri_latencyMs r of None \<Rightarrow> 0 | Some n \<Rightarrow> n)) (\<lambda>latency.
         resultBind (total ri_inputTokens) (\<lambda>inp. resultBind (total ri_outputTokens) (\<lambda>outp.
         Inr \<lparr>ee_installationId = installationId, ee_jobId = jobId, ee_repo = repo, ee_prNumber = 0, ee_headSha = [],
           ee_provider = maxText (map ri_provider g), ee_model = maxText (map ri_model g), ee_latencyMs = latency,
           ee_costUsd = sum_list (map ri_costUsd g), ee_tokensInput = inp, ee_tokensOutput = outp\<rparr>))))"

fun evalEvents :: "(string list \<Rightarrow> string) \<Rightarrow> int \<Rightarrow> string \<Rightarrow> RecordPhaseInput list \<Rightarrow> string list \<Rightarrow> RecoveredEvalRow list vres" where
  "evalEvents maxText installationId repo rows [] = Inr []"
| "evalEvents maxText installationId repo rows (j # js) =
     resultBind (evalEvent maxText installationId repo rows j) (\<lambda>e.
     resultBind (evalEvents maxText installationId repo rows js) (\<lambda>es. Inr (e # es)))"

definition recoverReviewEvalEvents ::
  "(string list \<Rightarrow> string) \<Rightarrow> Ledger \<Rightarrow> int \<Rightarrow> string \<Rightarrow> Date option \<Rightarrow> bool \<Rightarrow> RecoveredEvalRow list
     \<Rightarrow> RecoverEvalEventsResult vres \<times> RecoveredEvalRow list" where
  "recoverReviewEvalEvents maxText ledger installationId repo since dryRun events =
     (let rows = map cl_input (filter (\<lambda>r. ri_installationId (cl_input r) = installationId \<and>
            (case since of None \<Rightarrow> True | Some d \<Rightarrow> d \<le> cl_createdAt r)) (lg_rows ledger));
          jobIds = dedupList (map ri_jobId rows)
      in case evalEvents maxText installationId repo rows jobIds of
           Inl e \<Rightarrow> (Inl e, events)
         | Inr candidates \<Rightarrow>
             (let existing = dedupList (map ee_jobId (filter (\<lambda>r. ee_installationId r = installationId \<and> ee_jobId r \<in> set jobIds) events));
                  fresh = filter (\<lambda>r. ee_jobId r \<notin> set existing) candidates
              in if candidates = [] then (Inr noEvents, events)
                 else if dryRun \<or> fresh = []
                 then (Inr \<lparr>rg_candidates = length candidates, rg_recovered = 0, rg_skippedExisting = length existing\<rparr>, events)
                 else (Inr \<lparr>rg_candidates = length candidates, rg_recovered = length fresh, rg_skippedExisting = length existing\<rparr>,
                       events @ fresh)))"

definition recoverReviewEvalEventsCommand ::
  "RecoverEnv \<Rightarrow> (string list \<Rightarrow> string) \<Rightarrow> Ledger \<Rightarrow> int \<Rightarrow> string \<Rightarrow> string option \<Rightarrow> bool \<Rightarrow> RecoveredEvalRow list
     \<Rightarrow> RecoverEvalEventsResult vres \<times> RecoveredEvalRow list" where
  "recoverReviewEvalEventsCommand ev maxText ledger installationId repo since dryRun events =
     (if CodecommitVcs.orEmpty (re_env ev ''DATABASE_URL'') = [] then (Inr noEvents, events)
      else let text' = CodecommitVcs.orEmpty since in
        if text' \<noteq> [] \<and> re_newDate ev text' = None then (Inl (jsError ''Invalid time value''), events)
        else (case withTenant (re_dbOk ev) installationId (\<lambda>events.
                case recoverReviewEvalEvents maxText ledger installationId repo (if text' = [] then None else re_newDate ev text') dryRun events of
                  (r, events') \<Rightarrow> (events', r)) events of
                (events', Inl msg) \<Rightarrow> (Inl (jsError msg), events')
              | (events', Inr r) \<Rightarrow> (r, events')))"

section \<open>\<open>recover sync-state\<close>\<close>

datatype SyncStatus = SyncOk | SyncAuthFailed | SyncPartial

record RecoverSyncStateResult =
  sy_status :: SyncStatus
  sy_recovered :: nat
  sy_missing :: "int list"

record UpsertStateInput =
  us_installationId :: int
  us_prId :: string
  us_headSha :: string
  us_state :: ReviewState

text \<open>Without the option the upsert throws.\<close>

definition requireUpsertCallback :: "(UpsertStateInput \<Rightarrow> 'db \<Rightarrow> 'db vres) option \<Rightarrow> UpsertStateInput \<Rightarrow> 'db \<Rightarrow> 'db vres" where
  "requireUpsertCallback upsertState =
     (case upsertState of Some f \<Rightarrow> f | None \<Rightarrow> (\<lambda>_ _. Inl (jsError ''upsertState callback not provided'')))"

fun syncPrs ::
  "VCS \<Rightarrow> (UpsertStateInput \<Rightarrow> 'db \<Rightarrow> 'db vres) \<Rightarrow> int \<Rightarrow> PrRef \<Rightarrow> int list \<Rightarrow> nat \<times> int list \<Rightarrow> 'db
     \<Rightarrow> (nat \<times> int list) vres \<times> 'db" where
  "syncPrs vcs upsert installationId ref [] acc db = (Inr acc, db)"
| "syncPrs vcs upsert installationId ref (n # ns) (recovered, missing) db =
     (case vc_getStateComment vcs (ref\<lparr>pr_number := n\<rparr>) of
        Inl e \<Rightarrow> (Inl e, db)
      | Inr None \<Rightarrow> syncPrs vcs upsert installationId ref ns (recovered, missing @ [n]) db
      | Inr (Some state) \<Rightarrow>
          if rs_lastReviewedSha state = [] then syncPrs vcs upsert installationId ref ns (recovered, missing @ [n]) db
          else (case upsert \<lparr>us_installationId = installationId,
                    us_prId = pr_owner ref @ ''/'' @ pr_repo ref @ ''#'' @ intToString n,
                    us_headSha = rs_lastReviewedSha state, us_state = state\<rparr> db of
                  Inl e \<Rightarrow> (Inl e, db)
                | Inr db' \<Rightarrow> syncPrs vcs upsert installationId ref ns (recovered + 1, missing) db'))"

definition parseGithubRepo :: "string \<Rightarrow> PrRef option" where
  "parseGithubRepo repo =
     (case splitOn (CHR ''/'') repo of
        [owner, name] \<Rightarrow>
          if noSlashSpace owner \<and> noSlashSpace name
          then Some \<lparr>pr_platform = Github, pr_owner = owner, pr_repo = name, pr_number = 0, pr_headSha = None\<rparr> else None
      | _ \<Rightarrow> None)"

definition recoverSyncStateCommand ::
  "(string \<Rightarrow> string option) \<Rightarrow> (string \<Rightarrow> VCS vres) \<Rightarrow> (string \<Rightarrow> string \<Rightarrow> string \<Rightarrow> int list vres)
     \<Rightarrow> (UpsertStateInput \<Rightarrow> 'db \<Rightarrow> 'db vres) option \<Rightarrow> int \<Rightarrow> string \<Rightarrow> Platform \<Rightarrow> 'db \<Rightarrow> RecoverSyncStateResult vres \<times> 'db" where
  "recoverSyncStateCommand env createVCS listOpenPRs upsertState installationId repo platform db =
     (if platform = Codecommit then (Inr \<lparr>sy_status = SyncOk, sy_recovered = 0, sy_missing = []\<rparr>, db)
      else let token = (case env ''REVIEW_AGENT_GH_TOKEN'' of Some t \<Rightarrow> t | None \<Rightarrow> CodecommitVcs.orEmpty (env ''GITHUB_TOKEN'')) in
        if token = [] then (Inr \<lparr>sy_status = SyncAuthFailed, sy_recovered = 0, sy_missing = []\<rparr>, db)
        else (case parseGithubRepo repo of
                None \<Rightarrow> (Inl (jsError ''--repo must be in owner/repo format''), db)
              | Some ref \<Rightarrow>
                  (case resultBind (createVCS token) (\<lambda>vcs. resultBind (listOpenPRs token (pr_owner ref) (pr_repo ref)) (\<lambda>prs. Inr (vcs, prs))) of
                     Inl e \<Rightarrow> (Inl e, db)
                   | Inr (vcs, prs) \<Rightarrow>
                       (case syncPrs vcs (requireUpsertCallback upsertState) installationId ref prs (0, []) db of
                          (Inl e, db') \<Rightarrow> (Inl e, db')
                        | (Inr (recovered, missing), db') \<Rightarrow>
                            (Inr \<lparr>sy_status = (if missing = [] then SyncOk else SyncPartial), sy_recovered = recovered, sy_missing = missing\<rparr>, db')))))"

end
