(* ===== verification/RecoveryProps.thy ===== *)
theory RecoveryProps
  imports Recovery
begin

text \<open>
  What recovery may write: who is behind a recovered row, and that a second run adds nothing.
\<close>

section \<open>Who is behind a recovered row\<close>

text \<open>
  A reply by \<open>arn\<close> to a comment of the bot that carries a fingerprint, both in the listing of one
  pull request, and the fact that is made of it.
\<close>

definition authorisedFact :: "CcClient \<Rightarrow> string \<Rightarrow> string list \<Rightarrow> RecoverFeedbackHistoryCandidate \<Rightarrow> bool" where
  "authorisedFact cc botArn allowlist ca \<longleftrightarrow>
     (\<exists>prId listing reply parent arn fp kind.
        listCodeCommitCommentsForPullRequest cc prId = Some (Inr listing) \<and> reply \<in> set listing \<and> parent \<in> set listing \<and>
        cw_inReplyTo reply = Some (cw_commentId parent) \<and> cw_authorArn parent = Some botArn \<and>
        cw_authorArn reply = Some arn \<and> arn \<in> set allowlist \<and>
        extractFingerprintFromComment (cw_content parent) = Some fp \<and> parseFeedbackKind (cw_content reply) = Some kind \<and>
        ca = recoveredFact fp kind (cw_creationDate reply))"

lemma allowed_principal:
  "is_allowed (checkCodeCommitFeedbackAuthz None (Some csv) p) \<Longrightarrow> p \<noteq> [] \<and> p \<in> set (parseAllowlist (Some csv))"
  by (auto simp: checkCodeCommitFeedbackAuthz_def is_allowed_def Let_def split: if_splits)

lemma resultBind_Inr: "resultBind r f = Inr y \<longleftrightarrow> (\<exists>x. r = Inr x \<and> f x = Inr y)"
  by (simp add: resultBind_def split: sum.split)

lemma commentsById_in: "commentsById listing k = Some c \<Longrightarrow> c \<in> set listing \<and> cw_commentId c = k"
  by (auto simp: commentsById_def dest!: map_of_SomeD)

lemma trimEnd_idem [simp]: "trimEnd (trimEnd s) = trimEnd s"
  by (simp add: trimEnd_def)

lemma trimStart_trimEnd: "trimStart s = s \<Longrightarrow> trimStart (trimEnd s) = trimEnd s"
proof (cases "trimEnd s")
  case (Cons c u)
  assume "trimStart s = s"
  moreover obtain v where "s = trimEnd s @ v"
    unfolding trimEnd_def by (metis rev_append rev_rev_ident takeWhile_dropWhile_id)
  ultimately show ?thesis using Cons by (cases s) (auto simp: trimStart_def dropWhile_eq_Cons_conv split: if_splits)
qed (simp add: trimStart_def)

lemma trim_idem [simp]: "trim (trim s) = trim s"
  using trimStart_trimEnd [of "trimStart s"] by (simp add: trim_def) (simp add: trimStart_def)

lemma in_trim: "c \<in> set (trim s) \<Longrightarrow> c \<in> set s"
  unfolding trim_def trimEnd_def trimStart_def by (metis set_dropWhileD set_rev)

text \<open>The list the command hands on is read back as it was.\<close>

lemma allowlist_again: "parseAllowlist (Some (joinWith '','' (parseAllowlist (Some raw)))) = parseAllowlist (Some raw)"
proof (cases "parseAllowlist (Some raw) = []")
  case False
  let ?xs = "parseAllowlist (Some raw)"
  have xs: "\<forall>x \<in> set ?xs. CHR '','' \<notin> set x \<and> x \<noteq> [] \<and> trim x = x"
    by (auto simp: parseAllowlist_def split: if_splits dest!: in_trim dest: splitOn_nosep)
  then have sp: "splitOn (CHR '','') (joinWith '','' ?xs) = ?xs" by (intro split_join False) blast
  have ne: "joinWith '','' ?xs \<noteq> []"
    using False xs by (cases ?xs; cases "tl ?xs") auto
  have "map trim ?xs = ?xs" using xs by (simp add: map_idI)
  moreover have "filter (\<lambda>s. s \<noteq> []) ?xs = ?xs" using xs by (simp add: filter_id_conv)
  ultimately show ?thesis using sp ne by (subst parseAllowlist_def) simp
qed (simp add: parseAllowlist_def)

lemma scrapeComment_ok:
  assumes "listCodeCommitCommentsForPullRequest cc prId = Some (Inr listing)" "c \<in> set listing"
    and "parseAllowlist (Some (joinWith '','' (sc_feedbackAllowlist opts))) = allowlist"
    and "list_all (authorisedFact cc (sc_botArn opts) allowlist) (sa_candidates st)"
  shows "list_all (authorisedFact cc (sc_botArn opts) allowlist) (sa_candidates (scrapeComment opts (commentsById listing) st c))"
proof -
  have "authorisedFact cc (sc_botArn opts) allowlist (recoveredFact fp kind (cw_creationDate c))"
    if "parseFeedbackKind (cw_content c) = Some kind" "cw_inReplyTo c = Some k" "commentsById listing k = Some parent"
      "cw_authorArn parent = Some (sc_botArn opts)" "extractFingerprintFromComment (cw_content parent) = Some fp"
      "is_allowed (checkCodeCommitFeedbackAuthz None (Some (joinWith '','' (sc_feedbackAllowlist opts))) (CodecommitVcs.orEmpty (cw_authorArn c)))"
    for fp kind k parent
  proof -
    note authz = allowed_principal [OF that(6)]
    obtain arn where "cw_authorArn c = Some arn" "arn \<in> set allowlist"
      using authz assms(3) by (cases "cw_authorArn c") (auto simp: CodecommitVcs.orEmpty_def)
    then show ?thesis unfolding authorisedFact_def
      using assms(1,2) that commentsById_in [OF that(3)] by blast
  qed
  then show ?thesis using assms(4)
    by (auto simp: scrapeComment_def Let_def split: option.splits)
qed

lemma scrapeComments_ok:
  assumes "listCodeCommitCommentsForPullRequest cc prId = Some (Inr listing)" "set cs \<subseteq> set listing"
    and "parseAllowlist (Some (joinWith '','' (sc_feedbackAllowlist opts))) = allowlist"
    and "list_all (authorisedFact cc (sc_botArn opts) allowlist) (sa_candidates st)"
  shows "list_all (authorisedFact cc (sc_botArn opts) allowlist) (sa_candidates (foldl (scrapeComment opts (commentsById listing)) st cs))"
  using assms(2,4)
  by (induction cs arbitrary: st) (simp_all add: scrapeComment_ok [OF assms(1) _ assms(3)])

lemma scrapePrs_ok:
  assumes "parseAllowlist (Some (joinWith '','' (sc_feedbackAllowlist opts))) = allowlist"
  shows "list_all (authorisedFact cc (sc_botArn opts) allowlist) (sa_candidates st) \<Longrightarrow> scrapePrs cc opts prIds st = Some (Inr st') \<Longrightarrow>
    list_all (authorisedFact cc (sc_botArn opts) allowlist) (sa_candidates st')"
proof (induction prIds arbitrary: st)
  case (Cons p ps)
  then obtain listing where l: "listCodeCommitCommentsForPullRequest cc (intToString p) = Some (Inr listing)"
    "scrapePrs cc opts ps (foldl (scrapeComment opts (commentsById listing))
        (st\<lparr>sa_commentsSeen := sa_commentsSeen st + length listing\<rparr>) listing) = Some (Inr st')"
    by (auto split: option.splits sum.splits)
  show ?case by (rule Cons.IH [OF scrapeComments_ok [OF l(1) subset_refl assms] l(2)]) (simp add: Cons.prems)
qed simp

lemma scrape_ok:
  assumes "parseAllowlist (Some (joinWith '','' (sc_feedbackAllowlist opts))) = allowlist"
    and "scrapeCodeCommitFeedback cc opts = Some (Inr st)"
  shows "list_all (authorisedFact cc (sc_botArn opts) allowlist) (sa_candidates st)"
proof -
  obtain prIds where "scrapePrs cc opts prIds \<lparr>sa_candidates = [], sa_prsWalked = length prIds, sa_commentsSeen = 0,
      sa_feedbackCommandsSeen = 0, sa_unresolved = 0, sa_unauthorized = 0\<rparr> = Some (Inr st)"
    using assms(2) by (auto simp: scrapeCodeCommitFeedback_def split: option.splits sum.splits)
  then show ?thesis by (rule scrapePrs_ok [OF assms(1), rotated]) simp
qed

section \<open>The rows a recovery adds\<close>

definition isRowOf :: "int \<Rightarrow> string \<Rightarrow> RecoverFeedbackHistoryCandidate list \<Rightarrow> ReviewHistoryRow \<Rightarrow> bool" where
  "isRowOf installationId repo cs r \<longleftrightarrow> rh_installationId r = installationId \<and> rh_repo r = repo \<and>
     (\<exists>c \<in> set cs. rh_factType r = ca_factType c \<and> rh_factText r = ca_factText c)"

lemma inserted_rows:
  "\<exists>new. ht_rows (foldl (\<lambda>t c. createReviewHistoryWriter dbNow \<lparr>hi_installationId = i, hi_repo = repo,
       hi_factType = ca_factType c, hi_factText = ca_factText c\<rparr> t) t cs) = ht_rows t @ new \<and> list_all (isRowOf i repo cs) new \<and>
     set (map rh_factText new) = ca_factText ` set cs \<and> length new = length cs"
proof (induction cs arbitrary: t)
  case (Cons c cs)
  let ?t = "createReviewHistoryWriter dbNow \<lparr>hi_installationId = i, hi_repo = repo, hi_factType = ca_factType c, hi_factText = ca_factText c\<rparr> t"
  obtain new where "ht_rows (foldl (\<lambda>t c. createReviewHistoryWriter dbNow \<lparr>hi_installationId = i, hi_repo = repo,
       hi_factType = ca_factType c, hi_factText = ca_factText c\<rparr> t) ?t cs) = ht_rows ?t @ new" "list_all (isRowOf i repo cs) new"
    "set (map rh_factText new) = ca_factText ` set cs" "length new = length cs"
    using Cons.IH [of ?t] by blast
  then show ?case
    by (intro exI [of _ "\<lparr>rh_id = ht_nextId t, rh_installationId = i, rh_repo = repo, rh_factType = ca_factType c,
          rh_factText = ca_factText c, rh_createdAt = dbNow, rh_expiresAt = dbNow + HISTORY_TTL_MS\<rparr> # new"])
      (auto simp: createReviewHistoryWriter_def isRowOf_def list_all_iff)
qed simp

lemma recovered_rows:
  assumes "recoverFeedbackHistory dbNow i repo cs dry t = (r, t')"
  obtains new where "ht_rows t' = ht_rows t @ new" "list_all (isRowOf i repo cs) new" "length new = rw_recovered r"
    "\<not> dry \<Longrightarrow> ca_factText ` set cs \<subseteq> rh_factText ` {x \<in> set (ht_rows t'). rh_installationId x = i \<and> rh_repo x = repo}"
    "dry \<Longrightarrow> new = []"
proof -
  let ?existing = "map rh_factText (filter (\<lambda>r. rh_installationId r = i \<and> rh_repo r = repo) (ht_rows t))"
  let ?fresh = "filter (\<lambda>c. ca_factText c \<notin> set ?existing) cs"
  show thesis
  proof (cases "cs = [] \<or> dry \<or> ?fresh = []")
    case True
    then have "t' = t" "rw_recovered r = 0" using assms by (auto simp: recoverFeedbackHistory_def Let_def nothingRecovered_def split: if_splits)
    moreover have "ca_factText ` set cs \<subseteq> rh_factText ` {x \<in> set (ht_rows t). rh_installationId x = i \<and> rh_repo x = repo}" if "\<not> dry"
    proof -
      have "ca_factText c \<in> set ?existing" if "c \<in> set cs" for c
        using True \<open>\<not> dry\<close> that by (auto simp: filter_empty_conv)
      then show ?thesis by auto
    qed
    ultimately show ?thesis using that [of "[]"] by simp
  next
    case False
    let ?ins = "foldl (\<lambda>t c. createReviewHistoryWriter dbNow \<lparr>hi_installationId = i, hi_repo = repo,
       hi_factType = ca_factType c, hi_factText = ca_factText c\<rparr> t) t ?fresh"
    have t': "t' = ?ins" "rw_recovered r = length ?fresh"
      using False assms unfolding recoverFeedbackHistory_def Let_def by auto
    obtain new where n: "ht_rows ?ins = ht_rows t @ new" "list_all (isRowOf i repo ?fresh) new"
      "set (map rh_factText new) = ca_factText ` set ?fresh" "length new = length ?fresh"
      using inserted_rows by blast
    have "isRowOf i repo cs x" if "isRowOf i repo ?fresh x" for x using that by (auto simp: isRowOf_def)
    then have new: "list_all (isRowOf i repo cs) new" using n(2) by (simp add: list_all_iff)
    have "ca_factText c \<in> rh_factText ` {x \<in> set (ht_rows t'). rh_installationId x = i \<and> rh_repo x = repo}" if "c \<in> set cs" for c
    proof (cases "c \<in> set ?fresh")
      case True
      then have "ca_factText c \<in> set (map rh_factText new)" using n(3) by simp
      then show ?thesis using n(1) new unfolding t' by (auto simp: list_all_iff isRowOf_def image_iff)
    next
      case False
      then show ?thesis using that n(1) unfolding t' by auto
    qed
    then show ?thesis using that [of new] n t' new False by auto
  qed
qed

section \<open>Properties\<close>

text \<open>
  C37: recovery on CodeCommit lets in what the live receiver would have let in.  Whatever the command
  does, the table only grows; every row it adds belongs to the installation it was run for and to the
  repository it names, and is made of a reply whose author is on the allowlist of the environment to
  a comment the bot wrote itself, with the fingerprint of that comment and no text of the reply.
\<close>

theorem recovered_feedback_authorised:
  "case recoverFeedbackHistoryCommand ev opts t of
     Some (r, t') \<Rightarrow> if rq_platform opts = Codecommit
       then \<exists>new cs. ht_rows t' = ht_rows t @ new \<and>
         list_all (isRowOf (rq_installationId opts)
           (intToString (rq_installationId opts) @ ''/'' @ last (splitOn (CHR ''/'') (rq_repo opts))) cs) new \<and>
         list_all (authorisedFact (re_codecommit ev) (CodecommitVcs.orEmpty (rq_botArn opts))
           (parseAllowlist (Some (CodecommitVcs.orEmpty (re_env ev ''REVIEW_AGENT_FEEDBACK_ALLOWLIST''))))) cs
       else True
   | None \<Rightarrow> True"
proof -
  let ?i = "rq_installationId opts" and ?repo = "intToString (rq_installationId opts) @ ''/'' @ last (splitOn (CHR ''/'') (rq_repo opts))"
  let ?allow = "parseAllowlist (Some (CodecommitVcs.orEmpty (re_env ev ''REVIEW_AGENT_FEEDBACK_ALLOWLIST'')))"
  let ?ok = "authorisedFact (re_codecommit ev) (CodecommitVcs.orEmpty (rq_botArn opts)) ?allow"
  let ?goal = "\<lambda>t'. \<exists>new cs. ht_rows t' = ht_rows t @ new \<and> list_all (isRowOf ?i ?repo cs) new \<and> list_all ?ok cs"
  have same: "?goal t" by (intro exI [of _ "[]"]) simp
  have scraped: "key = ?repo \<and> list_all ?ok cs"
    if c: "codecommitCandidates ev opts since = Some (Inr (Some (cs, key, partial)))" for since cs key partial
  proof -
    obtain bot st where b: "rq_botArn opts = Some bot" "sa_candidates st = cs" "key = ?repo"
      and sc: "scrapeCodeCommitFeedback (re_codecommit ev)
         \<lparr>sc_repositoryName = last (splitOn (CHR ''/'') (rq_repo opts)), sc_botArn = bot, sc_feedbackAllowlist = ?allow,
          sc_pullRequestStatus = None, sc_sinceDate = since, sc_onlyPr = rq_onlyPr opts\<rparr> = Some (Inr st)"
      using c by (auto simp: codecommitCandidates_def Let_def resultBind_Inr split: option.splits if_splits)
    then show ?thesis using scrape_ok [OF _ sc] allowlist_again by (simp add: CodecommitVcs.orEmpty_def)
  qed
  have run: "?goal t'"
    if r: "recoverFeedbackHistory dbNow ?i ?repo cs dry t = (r, t')" and ok: "list_all ?ok cs" for dbNow cs dry r t'
  proof -
    obtain new where "ht_rows t' = ht_rows t @ new" "list_all (isRowOf ?i ?repo cs) new" by (rule recovered_rows [OF r])
    then show ?thesis using ok by (intro exI [of _ new] exI [of _ cs] conjI)
  qed
  have "?goal t'" if c: "recoverFeedbackHistoryCommand ev opts t = Some (r, t')" "rq_platform opts = Codecommit" for r t'
  proof -
    let ?since = "Option.bind (rq_since opts) (parseIsoDate (re_newDate ev))"
    have step: "(if db = [] then Some (Inr nothingRecovered, t) else if bad then Some (Inr nothingRecovered, t)
        else case codecommitCandidates ev opts ?since of None \<Rightarrow> None | Some (Inl e) \<Rightarrow> Some (Inl e, t)
          | Some (Inr None) \<Rightarrow> Some (Inr nothingRecovered, t) | Some (Inr (Some (cs, key, partial))) \<Rightarrow> f cs key partial) = Some (r, t')
      \<Longrightarrow> t' = t \<or> (\<exists>cs key partial. codecommitCandidates ev opts ?since = Some (Inr (Some (cs, key, partial))) \<and> f cs key partial = Some (r, t'))"
      for db :: string and bad f by (simp split: if_splits option.splits sum.splits prod.splits)
    have "t' = t \<or> (\<exists>cs key partial. codecommitCandidates ev opts ?since = Some (Inr (Some (cs, key, partial))) \<and>
        (case withTenant (re_dbOk ev) ?i (\<lambda>t. case recoverFeedbackHistory (re_dbNow ev) ?i key cs (rq_dryRun opts) t of (r, t') \<Rightarrow> (t', r)) t of
           (t', Inl msg) \<Rightarrow> Some (Inl (jsError msg), t')
         | (t', Inr r) \<Rightarrow> Some (Inr (if partial then r\<lparr>rw_partial := True\<rparr> else r), t')) = Some (r, t'))"
      using c unfolding recoverFeedbackHistoryCommand_def Let_def if_P [OF c(2)] by (rule_tac step) simp
    then consider "t' = t"
      | cs key partial r0 where "codecommitCandidates ev opts ?since = Some (Inr (Some (cs, key, partial)))"
        "recoverFeedbackHistory (re_dbNow ev) ?i key cs (rq_dryRun opts) t = (r0, t')"
      by (elim disjE exE conjE) (auto simp: withTenant_def split: if_splits prod.splits)
    then show ?thesis by cases (use same scraped run in blast)+
  qed
  then show ?thesis by (auto split: option.split)
qed

text \<open>
  Recovery can be repeated.  A second run with the same candidates, at any later time and
  whatever was added to the table in between, adds nothing.
\<close>

theorem feedback_recovery_idempotent:
  "case recoverFeedbackHistory dbNow installationId repo candidates False t of
     (r1, t1) \<Rightarrow>
       (case recoverFeedbackHistory later installationId repo candidates False (t1\<lparr>ht_nextId := n, ht_rows := ht_rows t1 @ others\<rparr>) of
          (r2, t2) \<Rightarrow> t2 = t1\<lparr>ht_nextId := n, ht_rows := ht_rows t1 @ others\<rparr> \<and> rw_recovered r2 = 0 \<and>
            rw_candidates r2 = length candidates \<and> rw_skippedExisting r2 = length candidates)"
proof -
  obtain r1 t1 where r: "recoverFeedbackHistory dbNow installationId repo candidates False t = (r1, t1)" by force
  have "ca_factText ` set candidates \<subseteq> rh_factText ` {x \<in> set (ht_rows t1). rh_installationId x = installationId \<and> rh_repo x = repo}"
    using recovered_rows [OF r] by blast
  then have "filter (\<lambda>c. ca_factText c \<notin> set (map rh_factText
      (filter (\<lambda>r. rh_installationId r = installationId \<and> rh_repo r = repo) (ht_rows t1 @ others)))) candidates = []"
    by (auto simp: filter_empty_conv)
  then show ?thesis
    unfolding r prod.case by (simp add: recoverFeedbackHistory_def nothingRecovered_def Let_def)
qed

section \<open>Where recovery differs\<close>

text \<open>
  The parser of the scrape takes every command of the live parser, and more: an argument that is no
  fingerprint makes the live parser ignore the comment.
\<close>

lemma feedbackTail_kind:
  "feedbackTail after = Some fc \<Longrightarrow>
     (if hd (splitSpaces after) = ''accept'' then Some ThumbsUp else if hd (splitSpaces after) = ''reject'' then Some ThumbsDown
      else if hd (splitSpaces after) = ''dismiss'' then Some Dismissed else None) = Some (fc_kind fc)"
  by (auto simp: feedbackTail_def feedbackWithArg_def Let_def split: if_splits list.splits)

lemma scrape_parser_covers:
  assumes "parseFeedbackCommand b = Some fc"
  shows "parseFeedbackKind b = Some (fc_kind fc)"
proof -
  obtain idx where i: "indexOf (toLowerCase b) FEEDBACK_COMMAND_PREFIX = Some idx"
    using assms by (cases "indexOf (toLowerCase b) FEEDBACK_COMMAND_PREFIX") (simp_all add: parseFeedbackCommand_def Let_def)
  note parsed = assms [unfolded parseFeedbackCommand_def Let_def i option.case]
  have w: "\<not> (0 < idx \<and> isCommandWordC (toLowerCase b ! (idx - 1)))"
  proof
    assume word: "0 < idx \<and> isCommandWordC (toLowerCase b ! (idx - 1))"
    show False using parsed unfolding if_P [OF word] by simp
  qed
  have tail: "feedbackTail (trim (drop (idx + length FEEDBACK_COMMAND_PREFIX) (toLowerCase b))) = Some fc"
    using parsed unfolding if_not_P [OF w] .
  show ?thesis
    unfolding parseFeedbackKind_def Let_def i option.case if_not_P [OF w] by (rule feedbackTail_kind [OF tail])
qed

lemma scrape_parser_laxer:
  "parseFeedbackCommand ''/feedback reject it'' = None" "parseFeedbackKind ''/feedback reject it'' = Some ThumbsDown"
  using feedback_example by (simp_all add: parseFeedbackKind_def)

text \<open>Two candidates with the same text in one run are both inserted.\<close>

lemma batch_duplicates_inserted:
  "length (ht_rows (snd (recoverFeedbackHistory d i repo [c, c] False \<lparr>ht_nextId = 1, ht_rows = []\<rparr>))) = 2"
  by (simp add: recoverFeedbackHistory_def createReviewHistoryWriter_def Let_def)

text \<open>The command line passes no way to store a state: \<open>sync-state\<close> never recovers anything.\<close>

lemma syncPrs_without_writer:
  "syncPrs vcs (requireUpsertCallback None) i ref ns (k, missing) db = (res, db') \<Longrightarrow>
     db' = db \<and> (case res of Inl _ \<Rightarrow> True | Inr (k', _) \<Rightarrow> k' = k)"
  by (induction ns arbitrary: missing) (auto simp: requireUpsertCallback_def split: sum.splits option.splits if_splits)

lemma sync_state_never_recovers:
  "recoverSyncStateCommand env createVCS listOpenPRs None i repo platform db = (res, db') \<Longrightarrow>
     db' = db \<and> (case res of Inl _ \<Rightarrow> True | Inr r \<Rightarrow> sy_recovered r = 0)"
  by (auto simp: recoverSyncStateCommand_def Let_def split: if_splits option.splits sum.splits prod.splits dest!: syncPrs_without_writer)

end
