(* ===== verification/Backfill.thy ===== *)
theory Backfill
  imports RecoveryProps Marker Presets
begin

text \<open>
  \<open>feedback backfill\<close> (\<open>cli/src/commands/feedback-backfill.ts\<close>): the walk over the pull
  requests of a repository, their review comments and the reactions to them, each reaction recorded
  through the feedback writer, with a resume file.  The GitHub client is a parameter, one function
  per listing; its loops over pages end at the first page that is not full, so a loop is a
  \<open>partial_function\<close>.  The resume file is what \<open>loadStateFile\<close> can tell of it.  Writing
  it does not fail.  Pauses and terminal output are not modelled; the thumb of a recorded text, outside the modelled
  characters, is the name of the reaction.
\<close>

section \<open>Data\<close>

record BackfillPr =
  bp_number :: int
  bp_updatedAt :: "Date option"

record BackfillReviewComment =
  bc_id :: int
  bc_path :: "string option"
  bc_line :: "int option"
  bc_originalLine :: "int option"
  bc_body :: "string option"
  bc_login :: "string option"
  bc_type :: "string option"

record BackfillReaction =
  bx_id :: int
  bx_content :: string
  bx_login :: "string option"
  bx_createdAt :: Date

record BackfillOctokit =
  bo_listPrs :: "string \<Rightarrow> string \<Rightarrow> nat \<Rightarrow> BackfillPr list vres"
  bo_listReviewComments :: "string \<Rightarrow> string \<Rightarrow> int \<Rightarrow> nat \<Rightarrow> BackfillReviewComment list vres"
  bo_listReactions :: "string \<Rightarrow> string \<Rightarrow> int \<Rightarrow> nat \<Rightarrow> BackfillReaction list vres"

record Totals =
  tl_processed :: nat
  tl_recorded :: nat
  tl_unresolved :: nat
  tl_skipped :: nat

definition zeroTotals :: Totals where
  "zeroTotals = \<lparr>tl_processed = 0, tl_recorded = 0, tl_unresolved = 0, tl_skipped = 0\<rparr>"

definition addTotals :: "Totals \<Rightarrow> Totals \<Rightarrow> Totals" where
  "addTotals base delta =
     \<lparr>tl_processed = tl_processed base + tl_processed delta, tl_recorded = tl_recorded base + tl_recorded delta,
      tl_unresolved = tl_unresolved base + tl_unresolved delta, tl_skipped = tl_skipped base + tl_skipped delta\<rparr>"

record BackfillPrState =
  bt_lastCommentId :: int
  bt_lastReactionId :: int
  bt_totals :: Totals
  bt_completed :: bool

record BackfillStateFile =
  bf_repo :: string
  bf_installationId :: string
  bf_prs :: "(string \<times> BackfillPrState) list"

datatype StateFileContent = NoFile | InvalidJson | WrongSchema | ValidState BackfillStateFile

definition emptyState :: "string \<Rightarrow> int \<Rightarrow> BackfillStateFile" where
  "emptyState repoFull installationId = \<lparr>bf_repo = repoFull, bf_installationId = intToString installationId, bf_prs = []\<rparr>"

definition loadStateFile :: "StateFileContent vres \<Rightarrow> string \<Rightarrow> int \<Rightarrow> BackfillStateFile vres" where
  "loadStateFile content repoFull installationId =
     resultBind content (\<lambda>c. case c of
       NoFile \<Rightarrow> Inr (emptyState repoFull installationId)
     | InvalidJson \<Rightarrow> Inl (jsError ''state-file is not valid JSON'')
     | WrongSchema \<Rightarrow> Inl (jsError ''state-file schema does not match BackfillStateFile'')
     | ValidState st \<Rightarrow> Inr st)"

section \<open>Loops over pages\<close>

text \<open>
  A body answers an error, or whether the loop is to stop.  The loop ends at an error, a stop, an
  empty page and a page that is not full.
\<close>

partial_function (option) pagedLoop ::
  "nat \<Rightarrow> (nat \<Rightarrow> 'a list vres) \<Rightarrow> ('a list \<Rightarrow> 's \<Rightarrow> (bool vres \<times> 's) option) \<Rightarrow> nat \<Rightarrow> 's \<Rightarrow> (unit vres \<times> 's) option" where
  "pagedLoop size' fetch body page s =
     (case fetch page of
        Inl e \<Rightarrow> Some (Inl e, s)
      | Inr items \<Rightarrow>
          if items = [] then Some (Inr (), s)
          else Option.bind (body items s) (\<lambda>(r, s').
            case r of
              Inl e \<Rightarrow> Some (Inl e, s')
            | Inr stop \<Rightarrow>
                if stop \<or> length items < size' then Some (Inr (), s')
                else pagedLoop size' fetch body (page + 1) s'))"

text \<open>\<open>for (const x of xs)\<close> with a body that may throw, or never return.\<close>

fun forEach :: "('a \<Rightarrow> 's \<Rightarrow> (unit vres \<times> 's) option) \<Rightarrow> 'a list \<Rightarrow> 's \<Rightarrow> (bool vres \<times> 's) option" where
  "forEach f [] s = Some (Inr False, s)"
| "forEach f (x # xs) s =
     Option.bind (f x s) (\<lambda>(r, s'). case r of Inl e \<Rightarrow> Some (Inl e, s') | Inr _ \<Rightarrow> forEach f xs s')"

section \<open>Comments and reactions\<close>

record 'db ProcessPrCtx =
  px_installationId :: int
  px_owner :: string
  px_repo :: string
  px_botLogin :: "string option"
  px_dryRun :: bool
  px_octokit :: BackfillOctokit
  px_writerOpts :: "'db FeedbackWriterOptions"
  px_fingerprint :: "FingerprintInput \<Rightarrow> string"

record 'db PrRun =
  pn_totals :: Totals
  pn_lastCommentId :: int
  pn_lastReactionId :: int
  pn_writer :: "'db FeedbackWriter"

definition PAGE_SIZE :: nat where "PAGE_SIZE = 100"

definition repoFull :: "'db ProcessPrCtx \<Rightarrow> string" where "repoFull ctx = px_owner ctx @ ''/'' @ px_repo ctx"

definition isBotComment :: "BackfillReviewComment \<Rightarrow> string option \<Rightarrow> bool" where
  "isBotComment comment botLogin =
     (case botLogin of
        Some b \<Rightarrow> if b \<noteq> [] then bc_login comment = Some b else bc_type comment = Some ''Bot''
      | None \<Rightarrow> bc_type comment = Some ''Bot'')"

definition mapReactionContent :: "string \<Rightarrow> FeedbackKind option" where
  "mapReactionContent content = (if content = ''+1'' then Some ThumbsUp else if content = ''-1'' then Some ThumbsDown else None)"

definition hexLower :: rx where "hexLower = Cls False [(48, 57), (97, 102)]"

definition EMBEDDED_FINGERPRINT :: rx where
  "EMBEDDED_FINGERPRINT = rx_seq [rx_str ''<!--'', Star rx_space, rx_str ''fingerprint:'', rx_plus hexLower, Star rx_space, rx_str ''-->'']"

definition RULE_MARKER :: rx where
  "RULE_MARKER = rx_seq [rx_str ''<!--'', Star rx_space, rx_str ''rule:'', Cls False [(97, 122)],
     rx_plus (Cls False [(97, 122), (48, 57), (45, 45)]), Star rx_space, rx_str ''-->'']"

text \<open>What the group after the first colon of a match captures: the characters of its class.\<close>

definition groupOf :: "(char \<Rightarrow> bool) \<Rightarrow> string \<Rightarrow> string" where
  "groupOf P m = takeWhile P (tl (dropWhile (\<lambda>c. c \<noteq> CHR '':'') m))"

definition parseRuleIdFromBody :: "string \<Rightarrow> string option" where
  "parseRuleIdFromBody body =
     (case rx_find RULE_MARKER ([], body) of
        None \<Rightarrow> None
      | Some (a, b) \<Rightarrow>
          (let m = matched a b; g = groupOf (in_cls False [(97, 122), (48, 57), (45, 45)]) m;
               tail = drop (length (takeWhile (\<lambda>c. c \<noteq> CHR '':'') m) + 1 + length g) m
           in Some (if startsWith tail ''>'' then take (length g - 2) g else g)))"

definition BACKFILL_FALLBACK_RULE_ID :: string where "BACKFILL_FALLBACK_RULE_ID = ''backfill-unknown''"

definition resolveBackfillFingerprint :: "(FingerprintInput \<Rightarrow> string) \<Rightarrow> BackfillReviewComment \<Rightarrow> string option" where
  "resolveBackfillFingerprint fpFn comment =
     (let body = (case bc_body comment of None \<Rightarrow> [] | Some b \<Rightarrow> b)
      in case rx_find EMBEDDED_FINGERPRINT ([], body) of
           Some (a, b) \<Rightarrow> Some (groupOf (in_cls False [(48, 57), (97, 102)]) (matched a b))
         | None \<Rightarrow>
             (case (bc_path comment, (case bc_line comment of Some l \<Rightarrow> Some l | None \<Rightarrow> bc_originalLine comment)) of
                (Some path, Some line) \<Rightarrow>
                  if path = [] \<or> line = 0 then None
                  else Some (fpFn \<lparr>fi_path = path, fi_line = line,
                         fi_ruleId = (case parseRuleIdFromBody body of None \<Rightarrow> BACKFILL_FALLBACK_RULE_ID | Some r \<Rightarrow> r),
                         fi_suggestionType = ''comment''\<rparr>)
              | _ \<Rightarrow> None))"

definition backfillEvent :: "'db ProcessPrCtx \<Rightarrow> BackfillPr \<Rightarrow> string \<Rightarrow> BackfillReaction \<Rightarrow> FeedbackKind \<Rightarrow> FeedbackEvent" where
  "backfillEvent ctx pr fp reaction kind =
     \<lparr>fe_installationId = px_installationId ctx, fe_repo = repoFull ctx, fe_prNumber = bp_number pr, fe_fingerprint = fp, fe_kind = kind,
      fe_factText = bx_content reaction @ '' reaction by '' @
        (case bx_login reaction of None \<Rightarrow> ''unknown'' | Some l \<Rightarrow> l) @ '' (backfill)'',
      fe_occurredAt = bx_createdAt reaction\<rparr>"

text \<open>\<open>start\<close>: the comment and the reaction an earlier run stopped at.\<close>

definition reactionStep ::
  "'db ProcessPrCtx \<Rightarrow> BackfillPr \<Rightarrow> int \<times> int \<Rightarrow> BackfillReviewComment \<Rightarrow> string \<Rightarrow> BackfillReaction \<Rightarrow> 'db PrRun \<Rightarrow> (unit vres \<times> 'db PrRun) option" where
  "reactionStep ctx pr start comment fp reaction st =
     (if bc_id comment = fst start \<and> 0 < snd start \<and> bx_id reaction \<le> snd start then Some (Inr (), st)
      else (case mapReactionContent (bx_content reaction) of
              None \<Rightarrow> Some (Inr (), st)
            | Some kind \<Rightarrow>
                (let t = (pn_totals st)\<lparr>tl_processed := tl_processed (pn_totals st) + 1\<rparr>
                 in if px_dryRun ctx
                    then Some (Inr (), st\<lparr>pn_totals := t\<lparr>tl_recorded := tl_recorded t + 1\<rparr>, pn_lastReactionId := bx_id reaction\<rparr>)
                    else (case recordFeedback (px_writerOpts ctx) (backfillEvent ctx pr fp reaction kind) (pn_writer st) of
                            (Inl msg, w) \<Rightarrow> Some (Inl (jsError msg), st\<lparr>pn_totals := t, pn_writer := w\<rparr>)
                          | (Inr dropped, w) \<Rightarrow>
                              Some (Inr (), st\<lparr>pn_totals := (if dropped then t\<lparr>tl_skipped := tl_skipped t + 1\<rparr> else t\<lparr>tl_recorded := tl_recorded t + 1\<rparr>),
                                pn_lastReactionId := bx_id reaction, pn_writer := w\<rparr>)))))"

definition commentStep ::
  "'db ProcessPrCtx \<Rightarrow> BackfillPr \<Rightarrow> int \<times> int \<Rightarrow> BackfillReviewComment \<Rightarrow> 'db PrRun \<Rightarrow> (unit vres \<times> 'db PrRun) option" where
  "commentStep ctx pr start comment st =
     (if \<not> isBotComment comment (px_botLogin ctx) \<or> bc_id comment < fst start then Some (Inr (), st)
      else (case resolveBackfillFingerprint (px_fingerprint ctx) comment of
              None \<Rightarrow> Some (Inr (), st\<lparr>pn_totals := (pn_totals st)\<lparr>tl_unresolved := tl_unresolved (pn_totals st) + 1\<rparr>\<rparr>)
            | Some fp \<Rightarrow>
                if fp = [] then Some (Inr (), st\<lparr>pn_totals := (pn_totals st)\<lparr>tl_unresolved := tl_unresolved (pn_totals st) + 1\<rparr>\<rparr>)
                else Option.bind (pagedLoop PAGE_SIZE (bo_listReactions (px_octokit ctx) (px_owner ctx) (px_repo ctx) (bc_id comment))
                       (forEach (reactionStep ctx pr start comment fp)) 1 st) (\<lambda>(r, st').
                  case r of
                    Inl e \<Rightarrow> Some (Inl e, st')
                  | Inr _ \<Rightarrow> Some (Inr (), st'\<lparr>pn_lastCommentId := bc_id comment\<rparr>))))"

definition processPr :: "'db ProcessPrCtx \<Rightarrow> BackfillPr \<Rightarrow> BackfillPrState option \<Rightarrow> 'db FeedbackWriter \<Rightarrow> (unit vres \<times> 'db PrRun) option" where
  "processPr ctx pr prior w =
     (let start = (case prior of None \<Rightarrow> (0, 0) | Some p \<Rightarrow> (bt_lastCommentId p, bt_lastReactionId p))
      in pagedLoop PAGE_SIZE (bo_listReviewComments (px_octokit ctx) (px_owner ctx) (px_repo ctx) (bp_number pr))
           (forEach (commentStep ctx pr start)) 1
           \<lparr>pn_totals = (case prior of None \<Rightarrow> zeroTotals | Some p \<Rightarrow> bt_totals p), pn_lastCommentId = fst start,
            pn_lastReactionId = snd start, pn_writer = w\<rparr>)"

section \<open>Pull requests\<close>

record 'db BackfillRun =
  bb_state :: BackfillStateFile
  bb_file :: StateFileContent
  bb_totals :: Totals
  bb_writer :: "'db FeedbackWriter"

definition prKey :: "BackfillPr \<Rightarrow> string" where "prKey pr = ''pr#'' @ intToString (bp_number pr)"

definition prDone :: "'db PrRun \<Rightarrow> BackfillPrState" where
  "prDone run = \<lparr>bt_lastCommentId = pn_lastCommentId run, bt_lastReactionId = pn_lastReactionId run,
     bt_totals = pn_totals run, bt_completed = True\<rparr>"

text \<open>
  What a pull request leaves behind.  \<open>stateFile\<close> tells whether there is a resume file; it is
  written in a dry run as well.
\<close>

definition prAfter :: "bool \<Rightarrow> BackfillPr \<Rightarrow> unit vres \<Rightarrow> 'db PrRun \<Rightarrow> 'db BackfillRun \<Rightarrow> unit vres \<times> 'db BackfillRun" where
  "prAfter stateFile pr r run s =
     (case r of
        Inl e \<Rightarrow> (Inl e, s\<lparr>bb_writer := pn_writer run\<rparr>)
      | Inr _ \<Rightarrow>
          (let state = (bb_state s)\<lparr>bf_prs := AList.update (prKey pr) (prDone run) (bf_prs (bb_state s))\<rparr>
           in (Inr (), s\<lparr>bb_totals := addTotals (bb_totals s) (pn_totals run), bb_state := state, bb_writer := pn_writer run,
                 bb_file := (if stateFile then ValidState state else bb_file s)\<rparr>)))"

definition prStep :: "'db ProcessPrCtx \<Rightarrow> bool \<Rightarrow> BackfillPr \<Rightarrow> 'db BackfillRun \<Rightarrow> (unit vres \<times> 'db BackfillRun) option" where
  "prStep ctx stateFile pr s =
     (let prior = map_of (bf_prs (bb_state s)) (prKey pr)
      in if (case prior of None \<Rightarrow> False | Some ps \<Rightarrow> bt_completed ps)
         then Some (Inr (), s\<lparr>bb_totals := addTotals (bb_totals s) (bt_totals (the prior))\<rparr>)
         else map_option (\<lambda>(r, run). prAfter stateFile pr r run s) (processPr ctx pr prior (bb_writer s)))"

text \<open>
  One page of \<open>paginatePrs\<close>: the walk stops at the first pull request that was last updated
  before the lower bound.
\<close>

definition crossesSince :: "Date option \<Rightarrow> BackfillPr \<Rightarrow> bool" where
  "crossesSince since pr =
     (case (since, bp_updatedAt pr) of (Some d, Some u) \<Rightarrow> u < d | _ \<Rightarrow> False)"

fun prPage :: "'db ProcessPrCtx \<Rightarrow> bool \<Rightarrow> Date option \<Rightarrow> BackfillPr list \<Rightarrow> 'db BackfillRun \<Rightarrow> (bool vres \<times> 'db BackfillRun) option" where
  "prPage ctx stateFile since [] s = Some (Inr False, s)"
| "prPage ctx stateFile since (pr # prs) s =
     (if crossesSince since pr then Some (Inr True, s)
      else Option.bind (prStep ctx stateFile pr s) (\<lambda>(r, s').
        case r of Inl e \<Rightarrow> Some (Inl e, s') | Inr _ \<Rightarrow> prPage ctx stateFile since prs s'))"

section \<open>The command\<close>

datatype BackfillStatus = BackfillOk | BackfillDryRun | BackfillAuthFailed | BackfillConfigError | BackfillInvalidArgs | PlatformUnsupported

record FeedbackBackfillResult =
  bd_status :: BackfillStatus
  bd_totals :: Totals

record FeedbackBackfillOpts =
  bk_installationId :: int
  bk_repo :: string
  bk_env :: "string \<Rightarrow> string option"
  bk_platform :: Platform
  bk_since :: "string option"
  bk_stateFile :: "string option"
  bk_dryRun :: bool
  bk_rate :: "jsnum option"
  bk_botLogin :: "string option"

record 'db BackfillDeps =
  bh_newDate :: "string \<Rightarrow> Date option"
  bh_octokit :: "string \<Rightarrow> BackfillOctokit"
  bh_writer :: "HistoryInput \<Rightarrow> 'db \<Rightarrow> 'db result"
  bh_newRegExp :: "string \<Rightarrow> rx option"
  bh_fingerprint :: "FingerprintInput \<Rightarrow> string"

text \<open>\<open>env.A ?? env.B\<close>, tested for being empty.\<close>

definition firstEnv :: "(string \<Rightarrow> string option) \<Rightarrow> string \<Rightarrow> string \<Rightarrow> string" where
  "firstEnv env a b = (case env a of Some v \<Rightarrow> v | None \<Rightarrow> CodecommitVcs.orEmpty (env b))"

definition zeroResult :: "BackfillStatus \<Rightarrow> FeedbackBackfillResult" where
  "zeroResult status = \<lparr>bd_status = status, bd_totals = zeroTotals\<rparr>"

definition badRate :: "jsnum option \<Rightarrow> bool" where
  "badRate rate = (case rate of None \<Rightarrow> False | Some (Fin q) \<Rightarrow> q \<le> 0 | Some _ \<Rightarrow> True)"

definition backfillWriterOpts :: "'db BackfillDeps \<Rightarrow> 'db FeedbackWriterOptions" where
  "backfillWriterOpts deps =
     \<lparr>fo_writer = bh_writer deps, fo_newRegExp = bh_newRegExp deps, fo_redactPatterns = None,
      fo_maxWritesPerJob = Some Unlimited, fo_suppressionOpts = None\<rparr>"

definition backfillCtx :: "'db BackfillDeps \<Rightarrow> FeedbackBackfillOpts \<Rightarrow> PrRef \<Rightarrow> 'db ProcessPrCtx" where
  "backfillCtx deps opts ref =
     \<lparr>px_installationId = bk_installationId opts, px_owner = pr_owner ref, px_repo = pr_repo ref,
      px_botLogin = (case bk_botLogin opts of Some b \<Rightarrow> Some b | None \<Rightarrow> bk_env opts ''REVIEW_AGENT_BOT_LOGIN''),
      px_dryRun = bk_dryRun opts, px_octokit = bh_octokit deps (firstEnv (bk_env opts) ''REVIEW_AGENT_GH_TOKEN'' ''GITHUB_TOKEN''),
      px_writerOpts = backfillWriterOpts deps, px_fingerprint = bh_fingerprint deps\<rparr>"

text \<open>
  The walk; \<open>file\<close> is the resume file as it is read.  The result carries the file and the
  database afterwards.
\<close>

definition backfillWalk ::
  "'db BackfillDeps \<Rightarrow> FeedbackBackfillOpts \<Rightarrow> PrRef \<Rightarrow> Date option \<Rightarrow> StateFileContent \<Rightarrow> 'db
     \<Rightarrow> (FeedbackBackfillResult vres \<times> StateFileContent \<times> 'db) option" where
  "backfillWalk deps opts ref since file db =
     (let ctx = backfillCtx deps opts ref; full = repoFull ctx; named = CodecommitVcs.orEmpty (bk_stateFile opts) \<noteq> []
      in case (if named then loadStateFile (Inr file) full (bk_installationId opts) else Inr (emptyState full (bk_installationId opts))) of
           Inl e \<Rightarrow> Some (Inl e, file, db)
         | Inr state \<Rightarrow>
             map_option (\<lambda>(r, s). (resultBind r (\<lambda>_. Inr \<lparr>bd_status = (if bk_dryRun opts then BackfillDryRun else BackfillOk), bd_totals = bb_totals s\<rparr>),
                 bb_file s, fw_db (bb_writer s)))
               (pagedLoop PAGE_SIZE (bo_listPrs (px_octokit ctx) (px_owner ctx) (px_repo ctx)) (prPage ctx named since) 1
                 \<lparr>bb_state = state, bb_file = file, bb_totals = zeroTotals, bb_writer = newWriter db\<rparr>))"

definition feedbackBackfillCommand ::
  "'db BackfillDeps \<Rightarrow> FeedbackBackfillOpts \<Rightarrow> StateFileContent \<Rightarrow> 'db \<Rightarrow> (FeedbackBackfillResult vres \<times> StateFileContent \<times> 'db) option" where
  "feedbackBackfillCommand deps opts file db =
     (let since = Option.bind (bk_since opts) (parseIsoDate (bh_newDate deps))
      in if bk_platform opts = Codecommit then Some (Inr (zeroResult PlatformUnsupported), file, db)
         else (case parseGithubRepo (bk_repo opts) of
                 None \<Rightarrow> Some (Inr (zeroResult BackfillInvalidArgs), file, db)
               | Some ref \<Rightarrow>
                   if (bk_since opts \<noteq> None \<and> since = None) \<or> badRate (bk_rate opts)
                   then Some (Inr (zeroResult BackfillInvalidArgs), file, db)
                   else if firstEnv (bk_env opts) ''REVIEW_AGENT_GH_TOKEN'' ''GITHUB_TOKEN'' = []
                   then Some (Inr (zeroResult BackfillAuthFailed), file, db)
                   else if \<not> bk_dryRun opts \<and> firstEnv (bk_env opts) ''DATABASE_URL'' ''REVIEW_AGENT_DATABASE_URL'' = []
                   then Some (Inr (zeroResult BackfillConfigError), file, db)
                   else backfillWalk deps opts ref since file db))"

end
