(* ===== verification/BackfillProps.thy ===== *)
theory BackfillProps
  imports Backfill
begin

text \<open>
  What a backfill leaves behind: a dry run records nothing, and what a walk marks as completed is
  never looked at again.
\<close>

section \<open>Loops\<close>

lemma not_unit_error: "a \<noteq> Inr () \<Longrightarrow> \<exists>e. a = Inl e"
  by (cases a) auto

text \<open>A property of the state that the body keeps is kept by the loop.\<close>

lemma pagedLoop_inv:
  "pagedLoop n fetch body page s = Some y \<Longrightarrow> \<forall>items s r s'. body items s = Some (r, s') \<longrightarrow> P s \<longrightarrow> P s' \<Longrightarrow> P s \<Longrightarrow> P (snd y)"
proof (induction n fetch body page s y rule: pagedLoop.raw_induct [rotated, consumes 1])
  case (1 loop n fetch body page s y)
  show ?case
  proof (cases "fetch page")
    case (Inr items)
    show ?thesis
    proof (cases "items = []")
      case False
      obtain r s' where b: "body items s = Some (r, s')"
        using 1(2) Inr False by (auto simp: Option.bind_eq_Some_conv)
      have "P s'" using 1(3,4) b by blast
      then show ?thesis using 1(2) 1(1) [OF _ 1(3)] Inr False b by (auto split: sum.splits if_splits)
    qed (use Inr 1 in auto)
  qed (use 1 in auto)
qed

lemma forEach_inv:
  assumes "forEach f xs s = Some (r, s')" "\<And>x s r s'. f x s = Some (r, s') \<Longrightarrow> P s \<Longrightarrow> P s'" "P s"
  shows "P s'"
  using assms(1,3)
proof (induction xs arbitrary: s)
  case (Cons x xs)
  then obtain r1 s1 where f: "f x s = Some (r1, s1)" by (auto simp: Option.bind_eq_Some_conv)
  have "P s1" using assms(2) f Cons.prems(2) by blast
  then show ?case using Cons f by (auto split: sum.splits)
qed simp

text \<open>
  A second loop over the same pages that follows the first one: its body may use whatever the first
  loop has established by the time it ends, as long as that is only ever extended.
\<close>

definition follows :: "('a list \<Rightarrow> 's \<Rightarrow> (bool vres \<times> 's) option) \<Rightarrow> ('a list \<Rightarrow> 't \<Rightarrow> (bool vres \<times> 't) option) \<Rightarrow> ('s \<Rightarrow> 's \<Rightarrow> bool) \<Rightarrow> ('s \<Rightarrow> 't \<Rightarrow> bool) \<Rightarrow> 's \<Rightarrow> bool" where
  "follows body body2 le R final \<longleftrightarrow>
     (\<forall>items s t stop s'. body items s = Some (Inr stop, s') \<longrightarrow> le s' final \<longrightarrow> R s t \<longrightarrow>
        (\<exists>t'. body2 items t = Some (Inr stop, t') \<and> R s' t'))"

lemma followsD:
  "follows body body2 le R final \<Longrightarrow> body items s = Some (Inr stop, s') \<Longrightarrow> le s' final \<Longrightarrow> R s t \<Longrightarrow>
     \<exists>t'. body2 items t = Some (Inr stop, t') \<and> R s' t'"
  unfolding follows_def by blast

lemma pagedLoop_replay:
  "pagedLoop n fetch body page s = Some y \<Longrightarrow>
   \<forall>items s r s'. body items s = Some (r, s') \<longrightarrow> le s s' \<Longrightarrow> reflp le \<Longrightarrow> transp le \<Longrightarrow>
   le s (snd y) \<and>
   (fst y = Inr () \<longrightarrow> follows body body2 le R (snd y) \<longrightarrow> R s t \<longrightarrow>
        (\<exists>t'. pagedLoop n fetch body2 page t = Some (Inr (), t') \<and> R (snd y) t'))"
proof (induction n fetch body page s y arbitrary: t rule: pagedLoop.raw_induct [rotated, consumes 1])
  case (1 loop n fetch body page s y)
  have refl: "le z z" for z using 1(4) by (rule reflpD)
  show ?case
  proof (cases "fetch page")
    case (Inr items)
    show ?thesis
    proof (cases "items = []")
      case False
      obtain r s1 where b: "body items s = Some (r, s1)"
        using 1(2) Inr False by (auto simp: Option.bind_eq_Some_conv)
      have le1: "le s s1" using 1(3) b by blast
      have body2: "body2 items t = Some (Inr stop, t1) \<Longrightarrow> pagedLoop n fetch body2 page t =
          (if stop \<or> length items < n then Some (Inr (), t1) else pagedLoop n fetch body2 (page + 1) t1)" for stop t1
        using Inr False by (subst pagedLoop.simps) simp
      show ?thesis
      proof (cases "\<exists>stop. r = Inr stop \<and> \<not> stop \<and> \<not> length items < n")
        case True
        then have r: "r = Inr False" and full: "\<not> length items < n" by auto
        have rest: "loop n fetch body (page + 1) s1 = Some y" using 1(2) Inr False b r full by simp
        note ih = 1(1) [OF rest 1(3-5)]
        have le: "le s1 (snd y)" using ih by blast
        show ?thesis
        proof (intro conjI impI)
          show "le s (snd y)" using transpD [OF 1(5) le1 le] .
          assume ok: "fst y = Inr ()" and sim: "follows body body2 le R (snd y)" and R: "R s t"
          obtain t1 where t1: "body2 items t = Some (Inr False, t1)" "R s1 t1"
            using followsD [OF sim b [unfolded r] le R] by blast
          have "\<exists>t'. pagedLoop n fetch body2 (page + 1) t1 = Some (Inr (), t') \<and> R (snd y) t'"
            using ih [of t1] ok sim t1(2) by blast
          then show "\<exists>t'. pagedLoop n fetch body2 page t = Some (Inr (), t') \<and> R (snd y) t'"
            using body2 [OF t1(1)] full by simp
        qed
      next
        case stops: False
        then have y: "snd y = s1" and y2: "fst y = Inr () \<Longrightarrow> \<exists>stop. r = Inr stop \<and> (stop \<or> length items < n)"
          using 1(2) Inr False b by (auto split: sum.splits if_splits)
        show ?thesis
        proof (intro conjI impI)
          show "le s (snd y)" using le1 y by simp
          assume ok: "fst y = Inr ()" and sim: "follows body body2 le R (snd y)" and R: "R s t"
          obtain stop where st: "r = Inr stop" "stop \<or> length items < n" using y2 ok by blast
          have "le s1 (snd y)" using refl y by simp
          then obtain t1 where t1: "body2 items t = Some (Inr stop, t1)" "R s1 t1"
            using followsD [OF sim b [unfolded st(1)] _ R] by blast
          then show "\<exists>t'. pagedLoop n fetch body2 page t = Some (Inr (), t') \<and> R (snd y) t'"
            using body2 [OF t1(1)] st(2) y by simp
        qed
      qed
    next
      case True
      have "y = (Inr (), s)" using 1(2) Inr True by simp
      moreover have "pagedLoop n fetch body2 page t = Some (Inr (), t)" using Inr True by (subst pagedLoop.simps) simp
      ultimately show ?thesis using refl by simp
    qed
  next
    case (Inl e)
    then show ?thesis using 1(2) refl by auto
  qed
qed

section \<open>A dry run keeps the writer\<close>

lemma reactionStep_dry:
  "px_dryRun ctx \<Longrightarrow> reactionStep ctx pr start comment fp reaction st = Some (r, st') \<Longrightarrow> pn_writer st' = pn_writer st"
  by (auto simp: reactionStep_def Let_def split: if_splits option.splits)

lemma commentStep_dry:
  assumes "px_dryRun ctx" "commentStep ctx pr start comment st = Some (r, st')"
  shows "pn_writer st' = pn_writer st"
proof -
  have loop: "pagedLoop PAGE_SIZE fetch (forEach (reactionStep ctx pr start comment fp)) page st = Some (q, st1) \<Longrightarrow> pn_writer st1 = pn_writer st"
    for fetch fp q st1 page
    using pagedLoop_inv [of PAGE_SIZE fetch "forEach (reactionStep ctx pr start comment fp)" page st "(q, st1)" "\<lambda>s. pn_writer s = pn_writer st"]
      forEach_inv [of "reactionStep ctx pr start comment fp" _ _ _ _ "\<lambda>s. pn_writer s = pn_writer st"]
      reactionStep_dry [OF assms(1)] by fastforce
  have leaf: "(case q of Inl e \<Rightarrow> Some (Inl e, st1) | Inr _ \<Rightarrow> Some (Inr (), st1\<lparr>pn_lastCommentId := i\<rparr>)) = Some (r, st') \<Longrightarrow> pn_writer st' = pn_writer st1"
    for q :: "unit vres" and st1 i by (cases q) auto
  show ?thesis
    using assms(2) by (auto simp: commentStep_def Option.bind_eq_Some_conv split: if_splits option.splits dest!: loop leaf)
qed

lemma processPr_dry:
  assumes "px_dryRun ctx" "processPr ctx pr prior w = Some (r, run)"
  shows "pn_writer run = w"
  using pagedLoop_inv [OF assms(2) [unfolded processPr_def Let_def], of "\<lambda>s. pn_writer s = w"]
    forEach_inv [of "commentStep ctx pr (case prior of None \<Rightarrow> (0, 0) | Some p \<Rightarrow> (bt_lastCommentId p, bt_lastReactionId p))" _ _ _ _ "\<lambda>s. pn_writer s = w"]
    commentStep_dry [OF assms(1)] by fastforce

section \<open>Completed pull requests stay completed\<close>

definition keeps :: "'db BackfillRun \<Rightarrow> 'db BackfillRun \<Rightarrow> bool" where
  "keeps s s' \<longleftrightarrow> (\<forall>k ps. map_of (bf_prs (bb_state s)) k = Some ps \<longrightarrow> bt_completed ps \<longrightarrow> map_of (bf_prs (bb_state s')) k = Some ps)"

lemma keeps_refl [simp]: "keeps s s" by (simp add: keeps_def)

lemma keeps_trans: "keeps s1 s2 \<Longrightarrow> keeps s2 s3 \<Longrightarrow> keeps s1 s3" by (simp add: keeps_def)

lemma keeps_order: "reflp keeps" "transp keeps"
  by (auto intro!: reflpI transpI intro: keeps_trans)

text \<open>A pull request that succeeds is completed afterwards, and its totals are those added.\<close>

lemma prStep_completes:
  assumes "prStep ctx named pr s = Some (Inr u, s')"
  shows "\<exists>ps. map_of (bf_prs (bb_state s')) (prKey pr) = Some ps \<and> bt_completed ps \<and>
              bb_totals s' = addTotals (bb_totals s) (bt_totals ps)"
  using assms
  by (fastforce simp: prStep_def prAfter_def Let_def update_conv' prDone_def split: if_splits option.splits sum.splits)

lemma prStep_keeps:
  assumes "prStep ctx named pr s = Some (r, s')"
  shows "keeps s s'"
  using assms
  by (fastforce simp: prStep_def prAfter_def Let_def keeps_def update_conv' split: if_splits option.splits sum.splits)

lemma prPage_keeps: "prPage ctx named since prs s = Some (r, s') \<Longrightarrow> keeps s s'"
proof (induction prs arbitrary: s)
  case (Cons pr prs)
  show ?case
  proof (cases "crossesSince since pr")
    case False
    then obtain r1 s1 where p: "prStep ctx named pr s = Some (r1, s1)" using Cons.prems by (auto simp: Option.bind_eq_Some_conv)
    have "keeps s1 s'" using Cons False p by (auto split: sum.splits)
    then show ?thesis using prStep_keeps [OF p] by (rule keeps_trans [rotated])
  qed (use Cons in auto)
qed simp

section \<open>A dry run writes the resume file the real run reads\<close>

text \<open>During a dry run the writer is untouched and the resume file holds the state.\<close>

definition dryState :: "string \<Rightarrow> int \<Rightarrow> 'db \<Rightarrow> 'db BackfillRun \<Rightarrow> bool" where
  "dryState full inst db s \<longleftrightarrow> bb_writer s = newWriter db \<and> loadStateFile (Inr (bb_file s)) full inst = Inr (bb_state s)"

lemma prStep_dryState:
  assumes "px_dryRun ctx" "prStep ctx True pr s = Some (r, s')" "dryState full inst db s"
  shows "dryState full inst db s'"
  using assms
  by (auto simp: prStep_def prAfter_def Let_def dryState_def loadStateFile_def resultBind_def
        split: if_splits option.splits sum.splits dest: processPr_dry)

lemma prPage_dryState:
  "prPage ctx True since prs s = Some (r, s') \<Longrightarrow> px_dryRun ctx \<Longrightarrow> dryState full inst db s \<Longrightarrow> dryState full inst db s'"
proof (induction prs arbitrary: s)
  case (Cons pr prs)
  show ?case
  proof (cases "crossesSince since pr")
    case False
    then obtain r1 s1 where p: "prStep ctx True pr s = Some (r1, s1)" using Cons.prems by (auto simp: Option.bind_eq_Some_conv)
    have "dryState full inst db s1" using prStep_dryState [OF Cons.prems(2) p Cons.prems(3)] .
    then show ?thesis using Cons False p by (auto split: sum.splits)
  qed (use Cons in auto)
qed simp

text \<open>The walk over a finished state: the entries only add their totals.\<close>

definition replayed :: "'db BackfillRun \<Rightarrow> 'db BackfillRun \<Rightarrow> 'db BackfillRun \<Rightarrow> bool" where
  "replayed done s t \<longleftrightarrow> t = done\<lparr>bb_totals := bb_totals s\<rparr>"

lemma prStep_replay:
  assumes "prStep ctx named pr s = Some (Inr u, s')" "keeps s' done" "replayed done s t"
  shows "\<exists>t'. prStep ctx2 named2 pr t = Some (Inr (), t') \<and> replayed done s' t'"
proof -
  obtain ps where "map_of (bf_prs (bb_state s')) (prKey pr) = Some ps" "bt_completed ps"
    and tot: "bb_totals s' = addTotals (bb_totals s) (bt_totals ps)"
    using prStep_completes [OF assms(1)] by blast
  then have "map_of (bf_prs (bb_state done)) (prKey pr) = Some ps" "bt_completed ps" using assms(2) by (auto simp: keeps_def)
  then show ?thesis using assms(3) tot by (simp add: prStep_def replayed_def)
qed

lemma prPage_replay:
  "prPage ctx named since prs s = Some (Inr stop, s') \<Longrightarrow> keeps s' done \<Longrightarrow> replayed done s t \<Longrightarrow>
     \<exists>t'. prPage ctx2 named2 since prs t = Some (Inr stop, t') \<and> replayed done s' t'"
proof (induction prs arbitrary: s t)
  case (Cons pr prs)
  show ?case
  proof (cases "crossesSince since pr")
    case False
    then obtain s1 where p: "prStep ctx named pr s = Some (Inr (), s1)" and rest: "prPage ctx named since prs s1 = Some (Inr stop, s')"
      using Cons.prems(1) False by (auto simp: Option.bind_eq_Some_conv split: sum.splits dest!: not_unit_error)
    have "keeps s1 done" using prPage_keeps [OF rest] Cons.prems(2) by (rule keeps_trans)
    then obtain t1 where t1: "prStep ctx2 named2 pr t = Some (Inr (), t1)" "replayed done s1 t1"
      using prStep_replay [OF p _ Cons.prems(3)] by blast
    show ?thesis using Cons.IH [OF rest Cons.prems(2) t1(2)] t1(1) False by simp
  qed (use Cons.prems in auto)
qed simp

lemma prPage_follows: "follows (prPage ctx named since) (prPage ctx2 named2 since) keeps (replayed done) done"
  unfolding follows_def using prPage_replay by blast

lemma walk_replay:
  assumes "pagedLoop n fetch (prPage ctx named since) page s = Some (Inr (), fin)"
  shows "pagedLoop n fetch (prPage ctx2 named2 since) page (fin\<lparr>bb_totals := bb_totals s\<rparr>) = Some (Inr (), fin)"
proof -
  have "\<forall>items s r s'. prPage ctx named since items s = Some (r, s') \<longrightarrow> keeps s s'" using prPage_keeps by blast
  from pagedLoop_replay [OF assms this keeps_order, of "prPage ctx2 named2 since" "replayed fin" "fin\<lparr>bb_totals := bb_totals s\<rparr>"]
  show ?thesis by (auto simp: prPage_follows replayed_def)
qed

lemma walk_dryState:
  assumes "px_dryRun ctx" "pagedLoop n fetch (prPage ctx True since) page s = Some (r, fin)" "dryState full inst db s"
  shows "dryState full inst db fin"
  using pagedLoop_inv [OF assms(2), of "dryState full inst db"] prPage_dryState [OF _ assms(1)] assms(3) by fastforce

text \<open>The context a dry run and a real run walk with differs in nothing but the switch.\<close>

lemma backfillCtx_dry: "backfillCtx deps (opts\<lparr>bk_dryRun := b\<rparr>) ref = (backfillCtx deps opts ref)\<lparr>px_dryRun := b\<rparr>"
  by (simp add: backfillCtx_def split: option.split)

lemma backfillWalk_replay:
  assumes "CodecommitVcs.orEmpty (bk_stateFile opts) \<noteq> []"
    and "backfillWalk deps (opts\<lparr>bk_dryRun := True\<rparr>) ref since file db = Some (Inr r, file', db')"
  shows "db' = db \<and> backfillWalk deps (opts\<lparr>bk_dryRun := False\<rparr>) ref since file' db = Some (Inr (r\<lparr>bd_status := BackfillOk\<rparr>), file', db)"
proof -
  let ?ctx = "(backfillCtx deps opts ref)\<lparr>px_dryRun := True\<rparr>"
  let ?full = "repoFull ?ctx" and ?inst = "bk_installationId opts"
  let ?fetch = "bo_listPrs (px_octokit ?ctx) (px_owner ?ctx) (px_repo ?ctx)"
  obtain state where st: "loadStateFile (Inr file) ?full ?inst = Inr state"
    using assms by (auto simp: backfillWalk_def backfillCtx_dry Let_def split: sum.splits)
  let ?s = "\<lparr>bb_state = state, bb_file = file, bb_totals = zeroTotals, bb_writer = newWriter db\<rparr>"
  obtain fin where loop: "pagedLoop PAGE_SIZE ?fetch (prPage ?ctx True since) 1 ?s = Some (Inr (), fin)"
    and r: "r = \<lparr>bd_status = BackfillDryRun, bd_totals = bb_totals fin\<rparr>" "file' = bb_file fin" "db' = fw_db (bb_writer fin)"
    using assms st by (auto simp: backfillWalk_def backfillCtx_dry Let_def resultBind_def split: sum.splits dest!: not_unit_error)
  have "dryState ?full ?inst db ?s" using st by (simp add: dryState_def)
  then have dry: "dryState ?full ?inst db fin" by (rule walk_dryState [OF _ loop, rotated]) simp
  have t: "\<lparr>bb_state = bb_state fin, bb_file = bb_file fin, bb_totals = zeroTotals, bb_writer = newWriter db\<rparr> = fin\<lparr>bb_totals := bb_totals ?s\<rparr>"
    using dry by (simp add: dryState_def)
  have full: "repoFull (backfillCtx deps opts ref\<lparr>px_dryRun := b\<rparr>) = repoFull (backfillCtx deps opts ref)" for b
    by (simp add: repoFull_def)
  have "pagedLoop PAGE_SIZE ?fetch (prPage ((backfillCtx deps opts ref)\<lparr>px_dryRun := False\<rparr>) True since) 1
      \<lparr>bb_state = bb_state fin, bb_file = bb_file fin, bb_totals = zeroTotals, bb_writer = newWriter db\<rparr> = Some (Inr (), fin)"
    unfolding t by (rule walk_replay [OF loop])
  then show ?thesis using dry r assms(1)
    by (simp add: backfillWalk_def backfillCtx_dry Let_def resultBind_def dryState_def full newWriter_def)
qed

text \<open>C38: a dry run of the backfill consumes it.  It records nothing, but it marks every pull request
  as completed in the resume file; the real run that follows on that file reports the same counts as
  recorded and leaves the database as it was.\<close>

theorem dry_run_consumes_backfill:
  assumes "CodecommitVcs.orEmpty (bk_stateFile opts) \<noteq> []"
    and "firstEnv (bk_env opts) ''DATABASE_URL'' ''REVIEW_AGENT_DATABASE_URL'' \<noteq> []"
    and "feedbackBackfillCommand deps (opts\<lparr>bk_dryRun := True\<rparr>) file db = Some (Inr r, file', db')"
    and "bd_status r = BackfillDryRun"
  shows "db' = db \<and>
    feedbackBackfillCommand deps (opts\<lparr>bk_dryRun := False\<rparr>) file' db = Some (Inr (r\<lparr>bd_status := BackfillOk\<rparr>), file', db)"
  using assms(2-4)
  by (auto simp: feedbackBackfillCommand_def Let_def zeroResult_def split: if_splits option.splits
        dest: backfillWalk_replay [OF assms(1)])

definition samplePr :: BackfillPr where "samplePr = \<lparr>bp_number = 7, bp_updatedAt = None\<rparr>"

definition sampleBfComment :: BackfillReviewComment where
  "sampleBfComment = \<lparr>bc_id = 5, bc_path = Some ''a.ts'', bc_line = Some 3, bc_originalLine = None, bc_body = None,
     bc_login = Some ''bot'', bc_type = Some ''Bot''\<rparr>"

definition sampleOctokit :: BackfillOctokit where
  "sampleOctokit =
     \<lparr>bo_listPrs = (\<lambda>_ _ _. Inr [samplePr]), bo_listReviewComments = (\<lambda>_ _ _ _. Inr [sampleBfComment]),
      bo_listReactions = (\<lambda>_ _ _ _. Inr [\<lparr>bx_id = 9, bx_content = ''-1'', bx_login = Some ''ann'', bx_createdAt = 0\<rparr>])\<rparr>"

text \<open>Every write appends what it is given.\<close>

definition sampleBackfill :: "HistoryInput list BackfillDeps" where
  "sampleBackfill =
     \<lparr>bh_newDate = (\<lambda>_. None), bh_octokit = (\<lambda>_. sampleOctokit), bh_writer = (\<lambda>h hs. Inr (hs @ [h])),
      bh_newRegExp = (\<lambda>_. None), bh_fingerprint = (\<lambda>_. ''ab'')\<rparr>"

definition sampleBackfillOpts :: FeedbackBackfillOpts where
  "sampleBackfillOpts =
     \<lparr>bk_installationId = 1, bk_repo = ''o/r'', bk_env = (\<lambda>_. Some ''v''), bk_platform = Github, bk_since = None,
      bk_stateFile = Some ''state.json'', bk_dryRun = False, bk_rate = None, bk_botLogin = Some ''bot''\<rparr>"

definition sampleTotals :: Totals where
  "sampleTotals = \<lparr>tl_processed = 1, tl_recorded = 1, tl_unresolved = 0, tl_skipped = 0\<rparr>"

definition sampleAfter :: StateFileContent where
  "sampleAfter = ValidState \<lparr>bf_repo = ''o/r'', bf_installationId = intToString 1,
     bf_prs = [(prKey samplePr, \<lparr>bt_lastCommentId = 5, bt_lastReactionId = 9, bt_totals = sampleTotals, bt_completed = True\<rparr>)]\<rparr>"

definition sampleRef :: PrRef where
  "sampleRef = \<lparr>pr_platform = Github, pr_owner = ''o'', pr_repo = ''r'', pr_number = 0, pr_headSha = None\<rparr>"

definition sampleBfCtx :: "HistoryInput list ProcessPrCtx" where
  "sampleBfCtx = backfillCtx sampleBackfill (sampleBackfillOpts\<lparr>bk_dryRun := True\<rparr>) sampleRef"

lemma sampleBfCtx_sel:
  "px_dryRun sampleBfCtx" "px_octokit sampleBfCtx = sampleOctokit" "px_botLogin sampleBfCtx = Some ''bot''"
  "px_fingerprint sampleBfCtx = (\<lambda>_. ''ab'')" "repoFull sampleBfCtx = ''o/r''"
  "bo_listPrs sampleOctokit o' r' p = Inr [samplePr]" "bo_listReviewComments sampleOctokit o' r' n p = Inr [sampleBfComment]"
  "bo_listReactions sampleOctokit o' r' n p = Inr [\<lparr>bx_id = 9, bx_content = ''-1'', bx_login = Some ''ann'', bx_createdAt = 0\<rparr>]"
  by (simp_all add: sampleBfCtx_def backfillCtx_def sampleBackfill_def sampleBackfillOpts_def sampleOctokit_def repoFull_def sampleRef_def)

lemma pagedLoop_last_page:
  "fetch page = Inr items \<Longrightarrow> items \<noteq> [] \<Longrightarrow> length items < n \<Longrightarrow> body items s = Some (Inr stop, s') \<Longrightarrow>
     pagedLoop n fetch body page s = Some (Inr (), s')"
  by (subst pagedLoop.simps) simp

lemma sample_fingerprint: "rx_find EMBEDDED_FINGERPRINT ([], []) = None"
  by (simp add: rx_find.simps EMBEDDED_FINGERPRINT_def one_char_def)

lemma sample_repo: "parseGithubRepo ''o/r'' = Some sampleRef"
  by (simp add: parseGithubRepo_def sampleRef_def noSlashSpace_def isSpace_def)

lemma sample_reactions:
  "pagedLoop PAGE_SIZE (bo_listReactions (px_octokit sampleBfCtx) o' r' i) (forEach (reactionStep sampleBfCtx samplePr (0, 0) sampleBfComment fp)) 1
     \<lparr>pn_totals = zeroTotals, pn_lastCommentId = 0, pn_lastReactionId = 0, pn_writer = w\<rparr> =
   Some (Inr (), \<lparr>pn_totals = sampleTotals, pn_lastCommentId = 0, pn_lastReactionId = 9, pn_writer = w\<rparr>)"
  by (rule pagedLoop_last_page [where stop = False])
    (auto simp: sampleBfCtx_sel sampleBfComment_def PAGE_SIZE_def reactionStep_def mapReactionContent_def zeroTotals_def sampleTotals_def)

lemma sample_comment:
  "commentStep sampleBfCtx samplePr (0, 0) sampleBfComment
     \<lparr>pn_totals = zeroTotals, pn_lastCommentId = 0, pn_lastReactionId = 0, pn_writer = w\<rparr> =
   Some (Inr (), \<lparr>pn_totals = sampleTotals, pn_lastCommentId = 5, pn_lastReactionId = 9, pn_writer = w\<rparr>)"
proof -
  have "resolveBackfillFingerprint (px_fingerprint sampleBfCtx) sampleBfComment = Some ''ab''"
    by (simp add: resolveBackfillFingerprint_def sampleBfCtx_sel sample_fingerprint sampleBfComment_def)
  moreover have "isBotComment sampleBfComment (px_botLogin sampleBfCtx)" "bc_id sampleBfComment = 5"
    by (simp_all add: isBotComment_def sampleBfCtx_sel sampleBfComment_def)
  ultimately show ?thesis by (simp add: commentStep_def sample_reactions [simplified])
qed

lemma sample_pr:
  "processPr sampleBfCtx samplePr None w =
     Some (Inr (), \<lparr>pn_totals = sampleTotals, pn_lastCommentId = 5, pn_lastReactionId = 9, pn_writer = w\<rparr>)"
  unfolding processPr_def Let_def
  by (rule pagedLoop_last_page [where stop = False]) (auto simp: sampleBfCtx_sel PAGE_SIZE_def sample_comment)

lemma sample_dry_run:
  "feedbackBackfillCommand sampleBackfill (sampleBackfillOpts\<lparr>bk_dryRun := True\<rparr>) NoFile [] =
     Some (Inr \<lparr>bd_status = BackfillDryRun, bd_totals = sampleTotals\<rparr>, sampleAfter, [])"
proof -
  let ?st = "emptyState ''o/r'' 1"
  have "prPage sampleBfCtx True None [samplePr] \<lparr>bb_state = ?st, bb_file = NoFile, bb_totals = zeroTotals, bb_writer = newWriter []\<rparr> =
      Some (Inr False, \<lparr>bb_state = ?st\<lparr>bf_prs := [(prKey samplePr, \<lparr>bt_lastCommentId = 5, bt_lastReactionId = 9, bt_totals = sampleTotals, bt_completed = True\<rparr>)]\<rparr>,
        bb_file = sampleAfter, bb_totals = sampleTotals, bb_writer = newWriter []\<rparr>)"
    by (simp add: crossesSince_def prStep_def Let_def sample_pr prAfter_def prDone_def emptyState_def sampleAfter_def addTotals_def zeroTotals_def sampleTotals_def)
  then have loop: "pagedLoop PAGE_SIZE (bo_listPrs (px_octokit sampleBfCtx) (px_owner sampleBfCtx) (px_repo sampleBfCtx)) (prPage sampleBfCtx True None) 1
      \<lparr>bb_state = ?st, bb_file = NoFile, bb_totals = zeroTotals, bb_writer = newWriter []\<rparr> =
      Some (Inr (), \<lparr>bb_state = ?st\<lparr>bf_prs := [(prKey samplePr, \<lparr>bt_lastCommentId = 5, bt_lastReactionId = 9, bt_totals = sampleTotals, bt_completed = True\<rparr>)]\<rparr>,
        bb_file = sampleAfter, bb_totals = sampleTotals, bb_writer = newWriter []\<rparr>)"
    by (intro pagedLoop_last_page) (auto simp: sampleBfCtx_sel PAGE_SIZE_def)
  have "backfillWalk sampleBackfill (sampleBackfillOpts\<lparr>bk_dryRun := True\<rparr>) sampleRef None NoFile [] =
      Some (Inr \<lparr>bd_status = BackfillDryRun, bd_totals = sampleTotals\<rparr>, sampleAfter, [])"
    unfolding backfillWalk_def Let_def sampleBfCtx_def [symmetric]
    using loop by (simp add: sampleBackfillOpts_def loadStateFile_def sampleBfCtx_sel CodecommitVcs.orEmpty_def resultBind_def newWriter_def)
  then show ?thesis
    by (simp add: feedbackBackfillCommand_def sampleBackfillOpts_def sample_repo badRate_def firstEnv_def)
qed

lemma dry_run_consumes_backfill_witness:
  "feedbackBackfillCommand sampleBackfill (sampleBackfillOpts\<lparr>bk_dryRun := False\<rparr>) sampleAfter [] =
     Some (Inr \<lparr>bd_status = BackfillOk, bd_totals = sampleTotals\<rparr>, sampleAfter, [])"
  using dry_run_consumes_backfill [OF _ _ sample_dry_run]
  by (simp add: sampleBackfillOpts_def CodecommitVcs.orEmpty_def firstEnv_def)

end
