(* ===== verification/Operator.thy ===== *)
theory Operator
  imports AuditLog Cost FeedbackProps Backfill
begin

text \<open>
  The maintenance commands over the audit log, the cost ledger and the suppression rules:
  \<open>audit export\<close>, \<open>audit prune\<close>, \<open>suppression list\<close> and \<open>suppression remove\<close>
  (\<open>cli/src/commands\<close>).  The compression, the number format of a cost and the writing of the
  export are parameters; the files written are logged.
\<close>

section \<open>\<open>audit export\<close>\<close>

datatype AuditCommandStatus = AuditOk | AuditDryRun | AuditConfigError | AuditInvalidArgs | AuditChainBreak

record AuditExportOpts =
  ao_installationId :: int
  ao_since :: string
  ao_until :: "string option"
  ao_output :: string
  ao_env :: "string \<Rightarrow> string option"

record AuditExportResult =
  ax_status :: AuditCommandStatus
  ax_auditRows :: nat
  ax_costRows :: nat
  ax_path :: "string option"

record OperatorDb =
  od_audit :: AuditTable
  od_cost :: Ledger

record ExportDeps =
  xd_newDate :: "string \<Rightarrow> Date option"
  xd_sha256 :: "string \<Rightarrow> string"
  xd_showNumber :: "rat \<Rightarrow> string"
  xd_gzip :: "string \<Rightarrow> string vres"
  xd_write :: "string \<Rightarrow> string \<Rightarrow> unit vres"

definition noExport :: "AuditCommandStatus \<Rightarrow> AuditExportResult" where
  "noExport status = \<lparr>ax_status = status, ax_auditRows = 0, ax_costRows = 0, ax_path = None\<rparr>"

text \<open>A row as an object: its members already rendered, in the order of the export types.\<close>

definition jsonLine :: "(string \<times> string) list \<Rightarrow> string" where
  "jsonLine ms = ''{'' @ joinWith '','' (map (\<lambda>(k, v). jsonQuote k @ '':'' @ v) ms) @ ''}''"

definition jsonBigint :: "int \<Rightarrow> string" where "jsonBigint n = jsonQuote (intToString n)"

definition auditExportRow :: "AuditLogRow \<Rightarrow> (string \<times> string) list" where
  "auditExportRow r =
     [(''kind'', jsonQuote ''audit''), (''id'', jsonBigint (al_id r)), (''ts'', jsonQuote (toISOString (cl_ts r))),
      (''installationId'', (case af_installationId r of None \<Rightarrow> ''null'' | Some i \<Rightarrow> jsonBigint i)),
      (''prId'', stringify (jsonOpt JStr (af_prId r))), (''event'', jsonQuote (af_event r)),
      (''model'', stringify (jsonOpt JStr (af_model r))), (''inputTokens'', stringify (jsonOpt JNum (af_inputTokens r))),
      (''outputTokens'', stringify (jsonOpt JNum (af_outputTokens r))), (''prevHash'', stringify (jsonOpt JStr (cl_prevHash r))),
      (''hash'', jsonQuote (cl_hash r))]"

definition ledgerPhaseName :: "CostLedgerPhase \<Rightarrow> string" where
  "ledgerPhaseName p = (case p of InjectionDetect \<Rightarrow> ''injection_detect'' | ReviewMain \<Rightarrow> ''review_main'' | ReviewRetry \<Rightarrow> ''review_retry'')"

definition ledgerStatusName :: "CostLedgerStatus \<Rightarrow> string" where
  "ledgerStatusName s = (case s of CostLedgerStatus.Success \<Rightarrow> ''success'' | CostLedgerStatus.Failed \<Rightarrow> ''failed'' | CostLedgerStatus.Cancelled \<Rightarrow> ''cancelled'' | CostExceeded \<Rightarrow> ''cost_exceeded'')"

definition costExportRow :: "(rat \<Rightarrow> string) \<Rightarrow> CostLedgerRow \<Rightarrow> (string \<times> string) list" where
  "costExportRow showNumber r =
     (let i = cl_input r; tokens = (\<lambda>n. intToString (case n of None \<Rightarrow> 0 | Some k \<Rightarrow> k))
      in [(''kind'', jsonQuote ''cost''), (''id'', jsonBigint (cl_id r)), (''installationId'', jsonBigint (ri_installationId i)),
          (''jobId'', jsonQuote (ri_jobId i)), (''provider'', jsonQuote (ri_provider i)), (''model'', jsonQuote (ri_model i)),
          (''callPhase'', jsonQuote (ledgerPhaseName (ri_callPhase i))), (''inputTokens'', intToString (ri_inputTokens i)),
          (''outputTokens'', intToString (ri_outputTokens i)), (''cacheReadTokens'', tokens (ri_cacheReadTokens i)),
          (''cacheCreationTokens'', tokens (ri_cacheCreationTokens i)), (''costUsd'', showNumber (ri_costUsd i)),
          (''status'', jsonQuote (ledgerStatusName (ri_status i))), (''createdAt'', jsonQuote (toISOString (cl_createdAt r)))])"

definition exportPayload :: "(rat \<Rightarrow> string) \<Rightarrow> AuditLogRow list \<Rightarrow> CostLedgerRow list \<Rightarrow> string" where
  "exportPayload showNumber auditRows costRows =
     (let lines = map (\<lambda>r. jsonLine (auditExportRow r)) auditRows @ map (\<lambda>r. jsonLine (costExportRow showNumber r)) costRows
      in joinWith [LF] lines @ (if 0 < length lines then [LF] else []))"

definition exportRows :: "ExportDeps \<Rightarrow> AuditExportOpts \<Rightarrow> Date \<Rightarrow> Date option \<Rightarrow> OperatorDb \<Rightarrow> AuditExportResult vres \<times> (string \<times> string) list" where
  "exportRows deps opts since until db =
     (let auditRows = loadAuditLogForExport (od_audit db) (ao_installationId opts) since until;
          costRows = loadCostLedgerForExport (od_cost db) (ao_installationId opts) since until
      in if 0 < length auditRows \<and> \<not> cr_ok (verifyAuditChainSegment (xd_sha256 deps) (map toLink auditRows))
         then (Inr \<lparr>ax_status = AuditChainBreak, ax_auditRows = length auditRows, ax_costRows = length costRows, ax_path = None\<rparr>, [])
         else (case xd_gzip deps (exportPayload (xd_showNumber deps) auditRows costRows) of
                 Inl e \<Rightarrow> (Inl e, [])
               | Inr buf \<Rightarrow>
                   (resultBind (xd_write deps (ao_output opts) buf) (\<lambda>_. Inr
                      \<lparr>ax_status = AuditOk, ax_auditRows = length auditRows, ax_costRows = length costRows, ax_path = Some (ao_output opts)\<rparr>),
                    [(ao_output opts, buf)])))"

definition auditExportCommand :: "ExportDeps \<Rightarrow> AuditExportOpts \<Rightarrow> OperatorDb \<Rightarrow> AuditExportResult vres \<times> (string \<times> string) list" where
  "auditExportCommand deps opts db =
     (case parseIsoDate (xd_newDate deps) (ao_since opts) of
        None \<Rightarrow> (Inr (noExport AuditInvalidArgs), [])
      | Some since \<Rightarrow>
          (let until = Option.bind (ao_until opts) (parseIsoDate (xd_newDate deps))
           in if ao_until opts \<noteq> None \<and> until = None then (Inr (noExport AuditInvalidArgs), [])
              else if firstEnv (ao_env opts) ''DATABASE_URL'' ''REVIEW_AGENT_DATABASE_URL'' = [] then (Inr (noExport AuditConfigError), [])
              else exportRows deps opts since until db))"

section \<open>\<open>audit prune\<close>\<close>

record AuditPruneOpts =
  ap_before :: string
  ap_confirm :: bool
  ap_env :: "string \<Rightarrow> string option"

record AuditPruneResult =
  au_status :: AuditCommandStatus
  au_auditDeleted :: nat
  au_costDeleted :: nat
  au_anchorId :: "int option"
  au_anchorHash :: "string option"

definition nothingPruned :: "AuditCommandStatus \<Rightarrow> AuditPruneResult" where
  "nothingPruned status = \<lparr>au_status = status, au_auditDeleted = 0, au_costDeleted = 0, au_anchorId = None, au_anchorHash = None\<rparr>"

definition auditPruneCommand :: "(string \<Rightarrow> Date option) \<Rightarrow> (string \<Rightarrow> string) \<Rightarrow> AuditPruneOpts \<Rightarrow> OperatorDb \<Rightarrow> AuditPruneResult \<times> OperatorDb" where
  "auditPruneCommand newDate sha opts db =
     (case parseIsoDate newDate (ap_before opts) of
        None \<Rightarrow> (nothingPruned AuditInvalidArgs, db)
      | Some before \<Rightarrow>
          if firstEnv (ap_env opts) ''DATABASE_URL'' ''REVIEW_AGENT_DATABASE_URL'' = [] then (nothingPruned AuditConfigError, db)
          else if \<not> ap_confirm opts then (nothingPruned AuditDryRun, db)
          else (case pruneAuditLog (od_audit db) before of
                  (a, audit) \<Rightarrow>
                    (case pruneCostLedger (od_cost db) before of
                       (costDeleted, cost) \<Rightarrow>
                         (\<lparr>au_status = (if vr_ok (verifyAuditChainSegmentFromDb sha audit None) then AuditOk else AuditChainBreak),
                           au_auditDeleted = pa_deleted a, au_costDeleted = costDeleted, au_anchorId = pa_anchorId a,
                           au_anchorHash = pa_anchorHash a\<rparr>,
                          \<lparr>od_audit = audit, od_cost = cost\<rparr>))))"

section \<open>\<open>suppression list\<close> and \<open>suppression remove\<close>\<close>

datatype SuppressionListResult = ListConfigError | Listed nat
datatype SuppressionRemoveResult = RemoveConfigError | RemoveOk | RemoveNotFound

text \<open>The lines printed for the rules; a rule without a tag is listed as unknown.\<close>

definition suppressionLine :: "ReviewHistoryRow \<Rightarrow> string" where
  "suppressionLine row =
     ''  ID '' @ intToString (rh_id row) @ ''  fingerprint: '' @
     (case extractFingerprint (rh_factText row) of None \<Rightarrow> ''(unknown)'' | Some fp \<Rightarrow> fp) @ ''  created: '' @ toISOString (rh_createdAt row) @
     ''  expires: '' @ toISOString (rh_expiresAt row) @ [LF]"

definition suppressionListCommand :: "(string \<Rightarrow> string option) \<Rightarrow> int \<Rightarrow> string \<Rightarrow> Date \<Rightarrow> ReviewHistory \<Rightarrow> SuppressionListResult \<times> string list" where
  "suppressionListCommand env installationId repo now t =
     (if firstEnv env ''DATABASE_URL'' ''REVIEW_AGENT_DATABASE_URL'' = [] then (ListConfigError, [])
      else let rows = loadActiveSuppressionRules installationId repo now t
           in (Listed (length rows), map suppressionLine rows))"

definition suppressionRemoveCommand :: "(string \<Rightarrow> string option) \<Rightarrow> int \<Rightarrow> string \<Rightarrow> int \<Rightarrow> ReviewHistory \<Rightarrow> SuppressionRemoveResult \<times> ReviewHistory" where
  "suppressionRemoveCommand env installationId repo ruleId t =
     (if firstEnv env ''DATABASE_URL'' ''REVIEW_AGENT_DATABASE_URL'' = [] then (RemoveConfigError, t)
      else case deleteSuppressionRule ruleId installationId repo t of
             (deleted, t') \<Rightarrow> (if deleted then RemoveOk else RemoveNotFound, t'))"

section \<open>The commands and the tables\<close>

text \<open>\<open>audit prune\<close> never breaks the chain: on a log written by appends, under a role that
  bypasses row-level security, and prunes it does not report a break, the log it leaves verifies, and without \<open>--confirm\<close> nothing is deleted.\<close>

theorem prune_command_keeps_chain:
  "case auditPruneCommand newDate sha opts \<lparr>od_audit = runOps sha ops, od_cost = ledger\<rparr> of (r, db) \<Rightarrow>
     vr_ok (verifyAuditChainSegmentFromDb sha (od_audit db) None) \<and>
     (case au_status r of AuditChainBreak \<Rightarrow> False
        | AuditOk \<Rightarrow> ap_confirm opts
        | _ \<Rightarrow> db = \<lparr>od_audit = runOps sha ops, od_cost = ledger\<rparr>)"
proof -
  have ok: "vr_ok (verifyAuditChainSegmentFromDb sha (runOps sha ops') None)" for ops'
    by (rule segment_vr_ok) (simp_all add: runOps_segment)
  have "vr_ok (verifyAuditChainSegmentFromDb sha (snd (pruneAuditLog (runOps sha ops) before)) None)" for before
    using ok [of "ops @ [Inr before]"] by (simp add: runOps_def)
  then show ?thesis
    using ok [of ops] by (simp add: auditPruneCommand_def nothingPruned_def split: option.split prod.split) (metis snd_conv)
qed

text \<open>An export breaks on an intact log.  Written by connections that bypass row-level security
  the chain runs across installations, and the export checks the slice of one: where two rows that follow each other in the slice do not in the chain,
  the command reports a broken chain and writes nothing, for every digest that tells the two hashed
  texts apart.\<close>

theorem export_refuses_shared_log:
  assumes "loadAuditLogForExport (od_audit db) (ao_installationId opts) since until = pre @ x # y # post"
    and "cl_hash y = sha (h @ rowPayload (toLink y))" "h \<noteq> cl_hash x"
    and "inj_on sha {h @ rowPayload (toLink y), cl_hash x @ rowPayload (toLink y)}"
    and "parseIsoDate (xd_newDate deps) (ao_since opts) = Some since"
    and "(case ao_until opts of None \<Rightarrow> until = None | Some u \<Rightarrow> parseIsoDate (xd_newDate deps) u = until \<and> until \<noteq> None)"
    and "firstEnv (ao_env opts) ''DATABASE_URL'' ''REVIEW_AGENT_DATABASE_URL'' \<noteq> []" "xd_sha256 deps = sha"
  shows "case auditExportCommand deps opts db of (r, written) \<Rightarrow>
      written = [] \<and> (case r of Inr res \<Rightarrow> ax_status res = AuditChainBreak | Inl _ \<Rightarrow> False)"
proof -
  let ?rows = "pre @ x # y # post"
  have "h @ rowPayload (toLink y) \<noteq> cl_hash x @ rowPayload (toLink y)" using assms(3) by simp
  then have "cl_hash y \<noteq> sha (cl_hash x @ rowPayload (toLink y))" using assms(2,4) by (auto simp: inj_on_def)
  then have "\<not> chained sha p (map toLink ?rows)" for p by (simp add: chained_append)
  then have "\<not> cr_ok (verifyAuditChainSegment sha (map toLink ?rows))" by (simp add: verifyAuditChainSegment_ok)
  moreover have "Option.bind (ao_until opts) (parseIsoDate (xd_newDate deps)) = until" "ao_until opts \<noteq> None \<and> until = None \<longleftrightarrow> False"
    using assms(6) by (auto split: option.splits)
  ultimately show ?thesis
    using assms(1,5,7,8) by (auto simp: auditExportCommand_def exportRows_def)
qed

text \<open>Removing a suppression rule does not bring the finding back: as long as a rejection of
  it is among the fifty newest rows, the reviews after the removal do not post it either.\<close>

theorem removed_rule_still_mutes:
  assumes "suppressionRemoveCommand env (ec_installationId ec) repo ruleId t = (RemoveOk, t')"
    and "repo = normalizeRepoKey (rj_prRepo job) (ec_installationId ec)"
    and "x \<in> set (activeRows (ec_installationId ec) repo now t)" "rh_factType x = RejectedFinding"
    and "extractFingerprint (rh_factText x) = Some f"
    and "wiredTo now t' ec deps" "length (activeRows (ec_installationId ec) repo now t') \<le> MAX_LEARNED_FACTS"
  shows "case fst (runReviewInner renv job provider deps) of Inl _ \<Rightarrow> True
    | Inr r \<Rightarrow> f \<notin> c_fingerprint ` set (rr_comments r)"
proof -
  have "x \<in> set (activeRows (ec_installationId ec) repo now t')"
    using assms(1,3,4) by (auto simp: suppressionRemoveCommand_def deleteSuppressionRule_def deleteWhere_def activeRows_def Let_def split: if_splits)
  then obtain facts rejected where "loadHistory job deps = Inr (facts, rejected)" "f \<in> set rejected"
    using rejection_loaded [OF assms(6)] assms(2,4,5,7) by blast
  moreover obtain suppressed where "loadSuppressions job deps = Inr suppressed" using suppressions_load [OF assms(6)] by blast
  ultimately show ?thesis by (rule rejected_not_posted)
qed

section \<open>Examples\<close>

text \<open>Two rows of installation 1 with one of installation 2 between them.\<close>

definition sharedEvent :: "int \<Rightarrow> AuditEvent" where
  "sharedEvent i = \<lparr>af_installationId = Some i, af_prId = None, af_event = ''review'', af_model = None,
     af_inputTokens = None, af_outputTokens = None, ae_ts = None\<rparr>"

definition sharedRow :: "int \<Rightarrow> int \<Rightarrow> string \<Rightarrow> AuditLogRow" where
  "sharedRow n i p = newAuditLogRow n (appendAuditRow (\<lambda>x. x) (if p = [] then None else Some p) (sharedEvent i) 0)"

definition sharedLog :: AuditTable where
  "sharedLog = (let x = sharedRow 1 1 []; m = sharedRow 2 2 (cl_hash x) in \<lparr>at_rows = [x, m, sharedRow 3 1 (cl_hash m)], at_nextId = 4\<rparr>)"

lemma canonicalPayload_ne: "canonicalPayload ev ts \<noteq> []"
  by (simp add: canonicalPayload_def)

lemma sharedRow_sel:
  "al_id (sharedRow n i p) = n" "af_installationId (sharedRow n i p) = Some i" "cl_ts (sharedRow n i p) = 0"
  "cl_hash (sharedRow n i p) = (if p = [] then AUDIT_GENESIS_HASH else p) @ rowPayload (toLink (sharedRow n i p))"
  by (simp_all add: sharedRow_def new_row_hash new_row_payload)
    (simp_all add: newAuditLogRow_def appendAuditRow_def Let_def sharedEvent_def AuditFields.defs)

lemma rowPayload_ne: "rowPayload r \<noteq> []"
  by (simp add: rowPayload_def canonicalPayload_ne)

lemma sharedRow_hash_ne: "cl_hash (sharedRow n i p) \<noteq> []"
  by (simp add: sharedRow_sel(4) rowPayload_ne)

lemma sharedLog_export:
  "loadAuditLogForExport sharedLog 1 0 None =
     [] @ sharedRow 1 1 [] # sharedRow 3 1 (cl_hash (sharedRow 2 2 (cl_hash (sharedRow 1 1 [])))) # []"
  by (simp add: loadAuditLogForExport_def sharedLog_def Let_def sharedRow_sel(1-3))

definition sampleExport :: ExportDeps where
  "sampleExport = \<lparr>xd_newDate = (\<lambda>_. Some 0), xd_sha256 = (\<lambda>x. x), xd_showNumber = (\<lambda>_. ''0''), xd_gzip = Inr, xd_write = (\<lambda>_ _. Inr ())\<rparr>"

definition sampleExportOpts :: AuditExportOpts where
  "sampleExportOpts = \<lparr>ao_installationId = 1, ao_since = ''2026-01-01'', ao_until = None, ao_output = ''x.gz'', ao_env = (\<lambda>_. Some ''url'')\<rparr>"

lemma sample_since: "parseIsoDate (\<lambda>_. Some 0) ''2026-01-01'' = Some 0"
  by (simp add: parseIsoDate_def dateShape_def isDigit_def)

lemma export_refuses_shared_log_witness:
  "case auditExportCommand sampleExport sampleExportOpts \<lparr>od_audit = sharedLog, od_cost = emptyLedger\<rparr> of (r, written) \<Rightarrow>
      written = [] \<and> (case r of Inr res \<Rightarrow> ax_status res = AuditChainBreak | Inl _ \<Rightarrow> False)"
proof -
  let ?x = "sharedRow 1 1 []"
  let ?m = "sharedRow 2 2 (cl_hash ?x)"
  have "cl_hash (sharedRow 3 1 (cl_hash ?m)) = (\<lambda>x. x) (cl_hash ?m @ rowPayload (toLink (sharedRow 3 1 (cl_hash ?m))))"
    by (simp add: sharedRow_sel(4) [of 3] sharedRow_hash_ne)
  moreover have "cl_hash ?m \<noteq> cl_hash ?x"
    by (simp add: sharedRow_sel(4) [of 2] sharedRow_hash_ne rowPayload_ne)
  ultimately show ?thesis
    by (rule export_refuses_shared_log [where pre = "[]" and post = "[]" and since = 0 and until = None and sha = "\<lambda>x. x", rotated])
      (simp_all add: sharedLog_export [simplified] sampleExport_def sampleExportOpts_def sample_since firstEnv_def)
qed

text \<open>A finding rejected once, with its rule.\<close>

definition ruledHistory :: ReviewHistory where
  "ruledHistory = snd (createSuppressionRule 2 1 (normalizeRepoKey (rj_prRepo (sampleJob 10)) 1) ''ab12'' ''rejected''
     (createReviewHistoryWriter 1 \<lparr>hi_installationId = 1, hi_repo = normalizeRepoKey (rj_prRepo (sampleJob 10)) 1, hi_factType = RejectedFinding,
        hi_factText = fpTag ''ab12''\<rparr> emptyHistory))"

definition unruledHistory :: ReviewHistory where
  "unruledHistory = snd (deleteSuppressionRule 2 1 (normalizeRepoKey (rj_prRepo (sampleJob 10)) 1) ruledHistory)"

lemmas ruled_defs = ruledHistory_def createSuppressionRule_def createReviewHistoryWriter_def emptyHistory_def HISTORY_TTL_MS_def

lemma removed_rule_still_mutes_witness:
  "case fst (runReviewInner (sampleEnv\<lparr>env_fingerprint := \<lambda>_. ''ab12''\<rparr>) (sampleJob 10) (sampleProvider 1 sampleOutput) (rejectedDeps unruledHistory)) of
     Inl _ \<Rightarrow> True | Inr r \<Rightarrow> ''ab12'' \<notin> c_fingerprint ` set (rr_comments r)"
proof (rule removed_rule_still_mutes)
  let ?ec = "\<lparr>ec_installationId = 1, ec_prNumber = 7, ec_headSha = []\<rparr>"
  let ?row = "\<lparr>rh_id = 1, rh_installationId = 1, rh_repo = normalizeRepoKey (rj_prRepo (sampleJob 10)) 1, rh_factType = RejectedFinding,
     rh_factText = fpTag ''ab12'', rh_createdAt = 1, rh_expiresAt = 1 + HISTORY_TTL_MS\<rparr>"
  show "suppressionRemoveCommand (\<lambda>_. Some ''url'') (ec_installationId ?ec) (normalizeRepoKey (rj_prRepo (sampleJob 10)) 1) 2 ruledHistory = (RemoveOk, unruledHistory)"
    by (simp add: suppressionRemoveCommand_def firstEnv_def unruledHistory_def deleteSuppressionRule_def ruled_defs Let_def)
  show "normalizeRepoKey (rj_prRepo (sampleJob 10)) 1 = normalizeRepoKey (rj_prRepo (sampleJob 10)) (ec_installationId ?ec)" by simp
  show "?row \<in> set (activeRows (ec_installationId ?ec) (normalizeRepoKey (rj_prRepo (sampleJob 10)) 1) 5 ruledHistory)"
    by (simp add: activeRows_def ruled_defs)
  show "extractFingerprint (rh_factText ?row) = Some ''ab12''"
    using extract_tag [of "''ab12''" "[]"] by (simp add: okFp_def isFpHexC_def)
  show "wiredTo 5 unruledHistory ?ec (rejectedDeps unruledHistory)" by (simp add: wiredTo_def rejectedDeps_def)
  show "length (activeRows (ec_installationId ?ec) (normalizeRepoKey (rj_prRepo (sampleJob 10)) 1) 5 unruledHistory) \<le> MAX_LEARNED_FACTS"
    by (simp add: activeRows_def unruledHistory_def deleteSuppressionRule_def deleteWhere_def ruled_defs Let_def MAX_LEARNED_FACTS_def)
qed simp

end
