(* ===== verification/Injection.thy ===== *)
theory Injection
  imports Presets Vcs
begin

text \<open>
  The detector of prompt injection (\<open>runner/src/security/injection-detector.ts\<close>,
  \<open>injection-detector-policy.ts\<close>): one classification for every untrusted block, behind a
  cache, and the redaction of the blocks found to be injections.  The classifier is a parameter: what
  it answers at its n-th call to a text and a model (the fixed prompt is part of it), which need not
  be the same answer twice.  The cache is an interface over a state, and the cache in memory its
  instance; the clock is a parameter, by the number of the reading.
\<close>

section \<open>The policy\<close>

record InjectionDetectorPolicy =
  ij_enabled :: bool
  ij_warning :: string

definition INJECTION_DETECTOR_OPT_OUT_ENV :: string where
  "INJECTION_DETECTOR_OPT_OUT_ENV = ''REVIEW_AGENT_DISABLE_INJECTION_DETECTOR''"

definition resolveInjectionDetectorPolicy :: "(string \<Rightarrow> string option) \<Rightarrow> InjectionDetectorPolicy" where
  "resolveInjectionDetectorPolicy env =
     (let value = env INJECTION_DETECTOR_OPT_OUT_ENV
      in if value = Some ''1'' \<or> value = Some ''true''
         then \<lparr>ij_enabled = False,
           ij_warning = ''WARNING: '' @ INJECTION_DETECTOR_OPT_OUT_ENV @ ''=1 is set. '' @
             ''The LLM-based injection detector (spec '' @ [CHR 0xA7] @ ''7.3 #3) is disabled. '' @
             ''Pattern-based heuristics still run, but sophisticated prompt '' @
             ''injection in PR bodies / commit messages / file content WILL '' @
             ''reach the main review LLM. Re-enable in production by unsetting '' @
             ''this env var.''\<rparr>
         else \<lparr>ij_enabled = True, ij_warning = []\<rparr>)"

section \<open>Verdicts\<close>

datatype InjectionVerdict = VerdictSafe | VerdictSuspicious | VerdictInjection

definition INJECTION_VERDICTS :: "(string \<times> InjectionVerdict) list" where
  "INJECTION_VERDICTS = [(''safe'', VerdictSafe), (''suspicious'', VerdictSuspicious), (''injection'', VerdictInjection)]"

record VerdictAnswer =
  va_verdict :: InjectionVerdict
  va_reason :: string

text \<open>The strict schema: no other key, at most 200 characters of reason, none when it is missing.\<close>

definition InjectionVerdictSchema :: "json \<Rightarrow> VerdictAnswer option" where
  "InjectionVerdictSchema raw =
     (case raw of
        JObj ms \<Rightarrow>
          (let m = map_of ms;
               verdict = (case m ''verdict'' of Some (JStr s) \<Rightarrow> map_of INJECTION_VERDICTS s | _ \<Rightarrow> None);
               reason = (case m ''reason'' of None \<Rightarrow> Some [] | Some (JStr s) \<Rightarrow> if length s \<le> 200 then Some s else None | _ \<Rightarrow> None)
           in if list_all (\<lambda>k. k = ''verdict'' \<or> k = ''reason'') (map fst ms)
              then (case (verdict, reason) of (Some v, Some r) \<Rightarrow> Some \<lparr>va_verdict = v, va_reason = r\<rparr> | _ \<Rightarrow> None)
              else None)
      | _ \<Rightarrow> None)"

section \<open>The cache\<close>

record 'c InjectionDetectorCache =
  ic_get :: "string \<Rightarrow> 'c \<Rightarrow> VerdictAnswer option \<times> 'c"
  ic_set :: "string \<Rightarrow> VerdictAnswer \<Rightarrow> 'c \<Rightarrow> 'c"

definition DETECTOR_TTL_MS :: int where "DETECTOR_TTL_MS = 24 * 60 * 60 * 1000"

record DetectorEntries =
  de_entries :: "(string \<times> VerdictAnswer \<times> int) list"
  de_reads :: nat

text \<open>An entry that is missing is answeredBy without a look at the clock.\<close>

definition memoryGet :: "(nat \<Rightarrow> int) \<Rightarrow> string \<Rightarrow> DetectorEntries \<Rightarrow> VerdictAnswer option \<times> DetectorEntries" where
  "memoryGet now key c =
     (case map_of (de_entries c) key of
        None \<Rightarrow> (None, c)
      | Some (value, expires) \<Rightarrow>
          (if expires \<le> now (de_reads c) then None else Some value, c\<lparr>de_reads := de_reads c + 1\<rparr>))"

definition memorySet :: "int \<Rightarrow> (nat \<Rightarrow> int) \<Rightarrow> string \<Rightarrow> VerdictAnswer \<Rightarrow> DetectorEntries \<Rightarrow> DetectorEntries" where
  "memorySet ttl now key value c =
     c\<lparr>de_entries := AList.update key (value, now (de_reads c) + ttl) (de_entries c), de_reads := de_reads c + 1\<rparr>"

definition createInMemoryDetectorCache :: "int option \<Rightarrow> (nat \<Rightarrow> int) \<Rightarrow> DetectorEntries InjectionDetectorCache" where
  "createInMemoryDetectorCache ttlMs now =
     (let ttl = (case ttlMs of None \<Rightarrow> DETECTOR_TTL_MS | Some t \<Rightarrow> t)
      in \<lparr>ic_get = memoryGet now, ic_set = memorySet ttl now\<rparr>)"

definition emptyDetectorCache :: DetectorEntries where
  "emptyDetectorCache = \<lparr>de_entries = [], de_reads = 0\<rparr>"

section \<open>Classification\<close>

record UntrustedBlock =
  ub_id :: string
  ub_text :: string

record ClassifiedBlock = UntrustedBlock +
  kb_verdict :: InjectionVerdict
  kb_reason :: string
  kb_cached :: bool

record VerdictEvent =
  ve_blockId :: string
  ve_verdict :: InjectionVerdict
  ve_reason :: string
  ve_cached :: bool

record 'c InjectionDetectorDeps =
  in_classifier :: "nat \<Rightarrow> string \<Rightarrow> string \<Rightarrow> json vres"
  in_model :: string
  in_cache :: "'c InjectionDetectorCache option"
  in_sha256 :: "string \<Rightarrow> string"

text \<open>What a run has done: the calls of the classifier, the cache and the events given out.\<close>

record 'c DetectorRun =
  dr_calls :: nat
  dr_cache :: 'c
  dr_events :: "VerdictEvent list"

definition makeCacheKey :: "(string \<Rightarrow> string) \<Rightarrow> string \<Rightarrow> string \<Rightarrow> string" where
  "makeCacheKey sha model text' = model @ '':'' @ sha text'"

definition classified :: "UntrustedBlock \<Rightarrow> VerdictAnswer \<Rightarrow> bool \<Rightarrow> ClassifiedBlock" where
  "classified block v cached = UntrustedBlock.extend block (ClassifiedBlock.fields (va_verdict v) (va_reason v) cached)"

definition verdictEvent :: "UntrustedBlock \<Rightarrow> VerdictAnswer \<Rightarrow> bool \<Rightarrow> VerdictEvent" where
  "verdictEvent block v cached =
     \<lparr>ve_blockId = ub_id block, ve_verdict = va_verdict v, ve_reason = va_reason v, ve_cached = cached\<rparr>"

text \<open>One block.\<close>

definition classifyBlock :: "'c InjectionDetectorDeps \<Rightarrow> UntrustedBlock \<Rightarrow> 'c DetectorRun \<Rightarrow> ClassifiedBlock vres \<times> 'c DetectorRun" where
  "classifyBlock deps block st =
     (let key = makeCacheKey (in_sha256 deps) (in_model deps) (ub_text block)
      in case (case in_cache deps of None \<Rightarrow> (None, dr_cache st) | Some c \<Rightarrow> ic_get c key (dr_cache st)) of
           (Some v, cache) \<Rightarrow>
             (Inr (classified block v True), st\<lparr>dr_cache := cache, dr_events := dr_events st @ [verdictEvent block v True]\<rparr>)
         | (None, cache) \<Rightarrow>
             (let st' = st\<lparr>dr_cache := cache, dr_calls := dr_calls st + 1\<rparr>
              in case in_classifier deps (dr_calls st) (ub_text block) (in_model deps) of
                   Inl e \<Rightarrow> (Inl e, st')
                 | Inr raw \<Rightarrow>
                     (case InjectionVerdictSchema raw of
                        None \<Rightarrow> (Inl (jsError ''ZodError''), st')
                      | Some v \<Rightarrow>
                          (Inr (classified block v False),
                           st'\<lparr>dr_cache := (case in_cache deps of None \<Rightarrow> cache | Some c \<Rightarrow> ic_set c key v cache),
                               dr_events := dr_events st @ [verdictEvent block v False]\<rparr>))))"

fun classifyForInjection :: "'c InjectionDetectorDeps \<Rightarrow> UntrustedBlock list \<Rightarrow> 'c DetectorRun \<Rightarrow> ClassifiedBlock list vres \<times> 'c DetectorRun" where
  "classifyForInjection deps [] st = (Inr [], st)"
| "classifyForInjection deps (block # bs) st =
     (case classifyBlock deps block st of
        (Inl e, st') \<Rightarrow> (Inl e, st')
      | (Inr c, st') \<Rightarrow>
          (case classifyForInjection deps bs st' of
             (Inl e, st'') \<Rightarrow> (Inl e, st'')
           | (Inr cs, st'') \<Rightarrow> (Inr (c # cs), st'')))"

section \<open>Redaction\<close>

definition INJECTION_REDACTION_PLACEHOLDER :: string where
  "INJECTION_REDACTION_PLACEHOLDER = ''[content removed: prompt injection detected]''"

record RedactionResult =
  re_blocks :: "UntrustedBlock list"
  re_redactedIds :: "string list"
  re_summaryWarning :: "string option"

fun redactLoop :: "ClassifiedBlock list \<Rightarrow> UntrustedBlock list \<Rightarrow> string list \<Rightarrow> UntrustedBlock list \<times> string list" where
  "redactLoop [] bs redactedIds = (bs, redactedIds)"
| "redactLoop (c # cs) bs redactedIds =
     (if kb_verdict c = VerdictInjection
      then redactLoop cs (bs @ [\<lparr>ub_id = ub_id c, ub_text = INJECTION_REDACTION_PLACEHOLDER\<rparr>]) (redactedIds @ [ub_id c])
      else redactLoop cs (bs @ [\<lparr>ub_id = ub_id c, ub_text = ub_text c\<rparr>]) redactedIds)"

definition redactInjectionBlocks :: "ClassifiedBlock list \<Rightarrow> RedactionResult" where
  "redactInjectionBlocks cs =
     (let (bs, redactedIds) = redactLoop cs [] []
      in if redactedIds = [] then \<lparr>re_blocks = bs, re_redactedIds = redactedIds, re_summaryWarning = None\<rparr>
         else (let tick = [CHR 0x60]; list' = joinWith '', '' (map (\<lambda>i. tick @ i @ tick) redactedIds)
               in \<lparr>re_blocks = bs, re_redactedIds = redactedIds,
                    re_summaryWarning = Some (''Prompt injection detected and redacted in '' @ digitsOf (length redactedIds) @
                      '' block(s): '' @ list' @ ''. '' @
                      ''The main review proceeded against the redacted content. '' @
                      ''See '' @ tick @ ''docs/security/byok.md'' @ tick @ '' and SECURITY.md for the threat model.'')\<rparr>))"

section \<open>What a cache promises\<close>

text \<open>
  \<open>holds c k v\<close>: the cache may answer \<open>v\<close> for the key \<open>k\<close>.  A cache answers what it
  holds, and holds what was set.
\<close>

locale verdict_cache =
  fixes get :: "string \<Rightarrow> 'c \<Rightarrow> VerdictAnswer option \<times> 'c"
    and set' :: "string \<Rightarrow> VerdictAnswer \<Rightarrow> 'c \<Rightarrow> 'c"
    and holds :: "'c \<Rightarrow> string \<Rightarrow> VerdictAnswer \<Rightarrow> bool"
    and new :: 'c
  assumes new_holds: "\<not> holds new k v"
    and get_holds: "get k c = (Some v, c') \<Longrightarrow> holds c k v"
    and get_keeps: "get k c = (r, c') \<Longrightarrow> holds c' k' v' \<Longrightarrow> holds c k' v'"
    and set_holds: "holds (set' k v c) k' v' \<Longrightarrow> (k' = k \<and> v' = v) \<or> holds c k' v'"
begin

abbreviation cached :: "'c InjectionDetectorDeps \<Rightarrow> 'c InjectionDetectorDeps" where
  "cached deps \<equiv> deps\<lparr>in_cache := Some \<lparr>ic_get = get, ic_set = set'\<rparr>\<rparr>"

text \<open>An answer the classifier gave to a text.\<close>

abbreviation answeredBy :: "'c InjectionDetectorDeps \<Rightarrow> string \<Rightarrow> VerdictAnswer \<Rightarrow> bool" where
  "answeredBy deps x v \<equiv>
     \<exists>n raw. in_classifier deps n x (in_model deps) = Inr raw \<and> InjectionVerdictSchema raw = Some v"

abbreviation sound :: "'c InjectionDetectorDeps \<Rightarrow> string set \<Rightarrow> 'c \<Rightarrow> bool" where
  "sound deps T c \<equiv> \<forall>x\<in>T. \<forall>v. holds c (makeCacheKey (in_sha256 deps) (in_model deps) x) v \<longrightarrow> answeredBy deps x v"

lemma classifyBlock_sound:
  assumes "classifyBlock (cached deps) block st = (r, st')" "inj_on (in_sha256 deps) T" "ub_text block \<in> T" "sound deps T (dr_cache st)"
  shows "sound deps T (dr_cache st')"
    and "r = Inr c \<Longrightarrow> \<exists>v fresh. c = classified block v fresh \<and> answeredBy deps (ub_text block) v"
proof -
  let ?key = "makeCacheKey (in_sha256 deps) (in_model deps)"
  have key: "?key x = ?key y \<longleftrightarrow> x = y" if "x \<in> T" "y \<in> T" for x y
    using assms(2) that by (auto simp: makeCacheKey_def dest: inj_onD)
  obtain hit cache where g: "get (?key (ub_text block)) (dr_cache st) = (hit, cache)" by fastforce
  have keep: "sound deps T cache" using assms(4) get_keeps [OF g] by blast
  have "sound deps T (dr_cache st') \<and> (r = Inr c \<longrightarrow> (\<exists>v fresh. c = classified block v fresh \<and> answeredBy deps (ub_text block) v))"
  proof (cases hit)
    case (Some v)
    then have "answeredBy deps (ub_text block) v" using get_holds g assms(3,4) by blast
    then show ?thesis using assms(1) g Some keep by (auto simp: classifyBlock_def)
  next
    case None
    show ?thesis
    proof (cases "in_classifier deps (dr_calls st) (ub_text block) (in_model deps)")
      case (Inl e)
      then show ?thesis using assms(1) g None keep by (auto simp: classifyBlock_def Let_def)
    next
      case (Inr raw)
      show ?thesis
      proof (cases "InjectionVerdictSchema raw")
        case no: None
        then show ?thesis using assms(1) g None Inr keep by (auto simp: classifyBlock_def Let_def)
      next
        case (Some v)
        have ans: "answeredBy deps (ub_text block) v" using Inr Some by blast
        have "sound deps T (set' (?key (ub_text block)) v cache)"
          using set_holds [of "?key (ub_text block)" v cache] keep ans key [OF _ assms(3)] by metis
        then show ?thesis using assms(1) g None Inr Some ans by (auto simp: classifyBlock_def Let_def)
      qed
    qed
  qed
  then show "sound deps T (dr_cache st')" "r = Inr c \<Longrightarrow> \<exists>v fresh. c = classified block v fresh \<and> answeredBy deps (ub_text block) v"
    by simp_all
qed

text \<open>Every classified block carries an answer the classifier gave to its own text.\<close>

lemma classify_answered:
  assumes "classifyForInjection (cached deps) bs st = (Inr cs, st')" "inj_on (in_sha256 deps) T" "ub_text ` set bs \<subseteq> T" "sound deps T (dr_cache st)"
  shows "list_all2 (\<lambda>b c. \<exists>v fresh. c = classified b v fresh \<and> answeredBy deps (ub_text b) v) bs cs"
  using assms(1,3,4)
proof (induction bs arbitrary: st cs)
  case (Cons b bs)
  obtain c st1 cs' where c: "classifyBlock (cached deps) b st = (Inr c, st1)"
    and rest: "classifyForInjection (cached deps) bs st1 = (Inr cs', st')" "cs = c # cs'"
    using Cons.prems(1) by (auto split: prod.splits sum.splits)
  show ?case
    using classifyBlock_sound [OF c assms(2) _ Cons.prems(3)] Cons.IH [OF rest(1)] Cons.prems(2) rest(2) by auto
qed simp

end

interpretation memory: verdict_cache "memoryGet now" "memorySet ttl now"
    "\<lambda>c k v. \<exists>t. map_of (de_entries c) k = Some (v, t)" emptyDetectorCache for ttl now
  by unfold_locales
    (auto simp: memoryGet_def memorySet_def emptyDetectorCache_def update_conv' split: option.splits if_splits)

section \<open>What is forwarded\<close>

definition forwarded :: "ClassifiedBlock \<Rightarrow> UntrustedBlock" where
  "forwarded c = \<lparr>ub_id = ub_id c, ub_text = (if kb_verdict c = VerdictInjection then INJECTION_REDACTION_PLACEHOLDER else ub_text c)\<rparr>"

lemma redactLoop_exact:
  "redactLoop cs bs ids = (bs @ map forwarded cs, ids @ map ub_id (filter (\<lambda>c. kb_verdict c = VerdictInjection) cs))"
  by (induction cs arbitrary: bs ids) (simp_all add: forwarded_def)

lemma redact_sel:
  "re_blocks (redactInjectionBlocks cs) = map forwarded cs"
  "re_redactedIds (redactInjectionBlocks cs) = map ub_id (filter (\<lambda>c. kb_verdict c = VerdictInjection) cs)"
  "re_summaryWarning (redactInjectionBlocks cs) = None \<longleftrightarrow> re_redactedIds (redactInjectionBlocks cs) = []"
  by (simp_all add: redactInjectionBlocks_def redactLoop_exact Let_def)

text \<open>The model is told of a block what the classifier, at one of its calls, let through.\<close>

definition clearedFor :: "'c InjectionDetectorDeps \<Rightarrow> UntrustedBlock \<Rightarrow> UntrustedBlock \<Rightarrow> bool" where
  "clearedFor deps b f =
     (ub_id f = ub_id b \<and>
      (\<exists>n raw v. in_classifier deps n (ub_text b) (in_model deps) = Inr raw \<and> InjectionVerdictSchema raw = Some v \<and>
        ub_text f = (if va_verdict v = VerdictInjection then INJECTION_REDACTION_PLACEHOLDER else ub_text b)))"

lemma forwarded_classified:
  "forwarded (classified b v fresh) =
     \<lparr>ub_id = ub_id b, ub_text = (if va_verdict v = VerdictInjection then INJECTION_REDACTION_PLACEHOLDER else ub_text b)\<rparr>"
  by (simp add: forwarded_def classified_def UntrustedBlock.extend_def ClassifiedBlock.fields_def)

lemma clearedFor_classified:
  assumes "in_classifier deps n (ub_text b) (in_model deps) = Inr raw" "InjectionVerdictSchema raw = Some v"
  shows "clearedFor deps b (forwarded (classified b v fresh))"
  unfolding clearedFor_def forwarded_classified
  by (intro conjI exI [of _ n] exI [of _ raw] exI [of _ v]) (simp_all add: assms)

lemma makeMemory: "createInMemoryDetectorCache ttlMs now =
    \<lparr>ic_get = memoryGet now, ic_set = memorySet (case ttlMs of None \<Rightarrow> DETECTOR_TTL_MS | Some t \<Rightarrow> t) now\<rparr>"
  by (simp add: createInMemoryDetectorCache_def)

text \<open>C39: whatever the cache answers, a block is forwarded in its place and under its own id, and
  its text only when the classifier, asked about exactly that text, did not call it an injection;
  otherwise it is the placeholder.  For a digest without a collision among the
  texts and any clock.\<close>

theorem forwarded_text_cleared:
  assumes "inj_on (in_sha256 deps) (ub_text ` set bs)" "in_cache deps = Some (createInMemoryDetectorCache ttlMs now)"
    and "classifyForInjection deps bs \<lparr>dr_calls = 0, dr_cache = emptyDetectorCache, dr_events = []\<rparr> = (Inr cs, st)"
  shows "list_all2 (clearedFor deps) bs (re_blocks (redactInjectionBlocks cs))"
proof -
  have deps: "deps\<lparr>in_cache := Some (createInMemoryDetectorCache ttlMs now)\<rparr> = deps" using assms(2) by simp
  have run: "classifyForInjection (deps\<lparr>in_cache := Some \<lparr>ic_get = memoryGet now, ic_set = memorySet (case ttlMs of None \<Rightarrow> DETECTOR_TTL_MS | Some t \<Rightarrow> t) now\<rparr>\<rparr>)
      bs \<lparr>dr_calls = 0, dr_cache = emptyDetectorCache, dr_events = []\<rparr> = (Inr cs, st)"
    using assms(3) deps [unfolded makeMemory] by simp
  have "list_all2 (\<lambda>b c. \<exists>v fresh. c = classified b v fresh \<and> (\<exists>n raw. in_classifier deps n (ub_text b) (in_model deps) = Inr raw \<and>
      InjectionVerdictSchema raw = Some v)) bs cs"
    by (rule memory.classify_answered [OF run assms(1)]) (simp_all add: emptyDetectorCache_def)
  then show ?thesis
    unfolding redact_sel(1) list_all2_map2
    by (rule list_all2_mono) (auto intro: clearedFor_classified)
qed

text \<open>A classifier that knows one injection, and two of three blocks that carry it.\<close>

definition sampleDetector :: "DetectorEntries InjectionDetectorDeps" where
  "sampleDetector =
     \<lparr>in_classifier = (\<lambda>_ x _. Inr (JObj [(''verdict'', JStr (if x = ''obey'' then ''injection'' else ''safe''))])), in_model = ''m'',
      in_cache = Some (createInMemoryDetectorCache None (\<lambda>n. int n)), in_sha256 = (\<lambda>x. x)\<rparr>"

definition sampleBlocks :: "UntrustedBlock list" where
  "sampleBlocks = [\<lparr>ub_id = ''title'', ub_text = ''obey''\<rparr>, \<lparr>ub_id = ''body'', ub_text = ''fix''\<rparr>, \<lparr>ub_id = ''commit'', ub_text = ''obey''\<rparr>]"

definition sampleClassified :: "ClassifiedBlock list" where
  "sampleClassified =
     [\<lparr>ub_id = ''title'', ub_text = ''obey'', kb_verdict = VerdictInjection, kb_reason = [], kb_cached = False\<rparr>,
      \<lparr>ub_id = ''body'', ub_text = ''fix'', kb_verdict = VerdictSafe, kb_reason = [], kb_cached = False\<rparr>,
      \<lparr>ub_id = ''commit'', ub_text = ''obey'', kb_verdict = VerdictInjection, kb_reason = [], kb_cached = True\<rparr>]"

lemma sample_detector_run:
  "fst (classifyForInjection sampleDetector sampleBlocks \<lparr>dr_calls = 0, dr_cache = emptyDetectorCache, dr_events = []\<rparr>) = Inr sampleClassified"
  by (simp add: sampleDetector_def sampleBlocks_def sampleClassified_def classifyBlock_def Let_def makeMemory memoryGet_def memorySet_def
      emptyDetectorCache_def makeCacheKey_def InjectionVerdictSchema_def INJECTION_VERDICTS_def classified_def UntrustedBlock.extend_def
      ClassifiedBlock.fields_def DETECTOR_TTL_MS_def verdictEvent_def)

lemma forwarded_text_cleared_witness:
  "list_all2 (clearedFor sampleDetector) sampleBlocks
     [\<lparr>ub_id = ''title'', ub_text = INJECTION_REDACTION_PLACEHOLDER\<rparr>, \<lparr>ub_id = ''body'', ub_text = ''fix''\<rparr>,
      \<lparr>ub_id = ''commit'', ub_text = INJECTION_REDACTION_PLACEHOLDER\<rparr>]"
proof -
  obtain st where "classifyForInjection sampleDetector sampleBlocks \<lparr>dr_calls = 0, dr_cache = emptyDetectorCache, dr_events = []\<rparr> = (Inr sampleClassified, st)"
    using sample_detector_run by (metis prod.collapse)
  moreover have "inj_on (in_sha256 sampleDetector) (ub_text ` set sampleBlocks)" "in_cache sampleDetector = Some (createInMemoryDetectorCache None (\<lambda>n. int n))"
    by (simp_all add: sampleDetector_def)
  ultimately have "list_all2 (clearedFor sampleDetector) sampleBlocks (re_blocks (redactInjectionBlocks sampleClassified))"
    by (rule forwarded_text_cleared [rotated 2])
  then show ?thesis by (simp add: redact_sel sampleClassified_def forwarded_def)
qed

end
