(* ===== verification/WorkspacePaths.thy ===== *)
theory WorkspacePaths
  imports Tools
begin

text \<open>
  The paths a workspace may hold (\<open>server/src/workspace.ts\<close>): the deny list it keeps in step with
  that of the tools, and the check of a path.
\<close>

section \<open>Paths\<close>

definition WS_DENY_PATTERNS :: "rx list" where
  "WS_DENY_PATTERNS =
     [rx_seq [segStart, rx_str ''.env'', Opt (Seq (Lit (CHR ''.'')) (Star rx_dot)), Eol],
      rx_seq [segStart, rx_strI ''secret'', Opt (LitI (CHR ''s'')), segEnd],
      rx_seq [segStart, rx_strI ''private'', segEnd],
      rx_seq [segStart, rx_strI ''credential'', Opt (LitI (CHR ''s'')), segEnd],
      rx_seq [Lit (CHR ''.''), rx_alts [rx_strI ''key'', rx_strI ''pem'', rx_strI ''p12'', rx_strI ''pfx''], Eol],
      rx_seq [rx_strI ''credentials'', Star rx_dot, rx_strI ''.json'', Eol],
      rx_seq [rx_strI ''service-account'', Star rx_dot, rx_strI ''.json'', Eol],
      rx_seq [Bol, rx_str ''.aws/credentials'', Eol]]"

definition WS_TRAVERSAL :: rx where "WS_TRAVERSAL = rx_seq [segStart, rx_str DOTDOT, segEnd]"

definition pathIsAllowed :: "string \<Rightarrow> bool" where
  "pathIsAllowed rel =
     (if rel = [] then False
      else if startsWith rel ''/'' then False
      else if startsWith rel ''~'' then False
      else if rx_test WS_TRAVERSAL rel then False
      else if NUL \<in> set rel then False
      else \<not> list_ex (\<lambda>p. rx_test p rel) WS_DENY_PATTERNS)"

text \<open>The two deny lists the sources keep in step.\<close>

lemma deny_lists_agree: "WS_DENY_PATTERNS = DENY_PATTERNS"
  by (simp add: WS_DENY_PATTERNS_def DENY_PATTERNS_def)

lemma allowed_not_denied: "pathIsAllowed p \<Longrightarrow> \<not> denied DENY_PATTERNS p"
  by (simp add: pathIsAllowed_def denied_def deny_lists_agree split: if_splits)

text \<open>Two denied files and the one beside them.\<close>

lemma sample_allowed: "pathIsAllowed ''src/a.ts'' \<and> \<not> pathIsAllowed ''.env'' \<and> \<not> pathIsAllowed ''src/.env''"
  by code_simp

end
