(* ===== verification/Workspace.thy ===== *)
theory Workspace
  imports WorkspacePaths GithubVcs ConfigSchema
begin

text \<open>
  The workspace of a job (\<open>server/src/workspace.ts\<close>): a temporary directory, filled by a
  sparse clone or file by file through the contents API, and removed when filling it fails.  The file
  system is the list of the operations performed so far; what it answers to the next one is a
  parameter, so that every operation may fail at any time.
\<close>

section \<open>Directories\<close>

text \<open>A set keeps the order in which its members were first added.\<close>

definition parentDir :: "string \<Rightarrow> string" where
  "parentDir p = (case lastIndexOfC p SLASH of Some idx \<Rightarrow> take idx p | None \<Rightarrow> ''/'')"

fun addParents :: "string list \<Rightarrow> string list \<Rightarrow> string list" where
  "addParents [] dirs = dirs"
| "addParents (p # ps) dirs = addParents ps (if parentDir p \<in> set dirs then dirs else dirs @ [parentDir p])"

definition uniqueParentDirs :: "string list \<Rightarrow> string list" where
  "uniqueParentDirs paths = addParents paths []"

section \<open>The file system\<close>

datatype WorkspaceOp =
    OpMkdtemp string
  | OpMkdir string
  | OpWriteFile string string
  | OpRm string
  | OpClone PrRef string CloneOpts

record ProvisionWorkspaceDeps =
  ws_mkdtemp :: "WorkspaceOp list \<Rightarrow> string \<Rightarrow> string vres"
  ws_perform :: "WorkspaceOp list \<Rightarrow> WorkspaceOp \<Rightarrow> unit vres"
  ws_tmpdir :: string

text \<open>The part of the VCS interface that the provisioning uses beside its platform and capabilities.\<close>

record ProvisionWorkspaceInput =
  wi_strategy :: WorkspaceStrategy
  wi_vcs :: VCS
  wi_getFile :: "PrRef \<Rightarrow> string \<Rightarrow> string \<Rightarrow> string vres"
  wi_ref :: PrRef
  wi_headSha :: string
  wi_diff :: Diff
  wi_cloneHints :: "(bool option \<times> bool option) option"

record WorkspaceHandle =
  wh_dir :: string
  wh_cleaned :: bool

definition performOp :: "ProvisionWorkspaceDeps \<Rightarrow> WorkspaceOp \<Rightarrow> WorkspaceOp list \<Rightarrow> unit vres \<times> WorkspaceOp list" where
  "performOp deps o' ops = (ws_perform deps ops o', ops @ [o'])"

text \<open>A handle of the strategy \<open>none\<close> is already clean: it has nothing to remove.\<close>

definition cleanupWorkspace :: "ProvisionWorkspaceDeps \<Rightarrow> WorkspaceHandle \<Rightarrow> WorkspaceOp list \<Rightarrow> unit vres \<times> WorkspaceHandle \<times> WorkspaceOp list" where
  "cleanupWorkspace deps h ops =
     (if wh_cleaned h then (Inr (), h, ops)
      else (case performOp deps (OpRm (wh_dir h)) ops of (r, ops') \<Rightarrow> (r, h\<lparr>wh_cleaned := True\<rparr>, ops')))"

section \<open>Filling the workspace\<close>

definition hinted :: "bool option \<Rightarrow> bool" where "hinted b = (b = Some True)"

definition sparseOpts :: "ProvisionWorkspaceInput \<Rightarrow> CloneOpts" where
  "sparseOpts inp =
     (let sparsePaths = uniqueParentDirs (map dq_path (filter (\<lambda>f. pathIsAllowed (dq_path f)) (dd_files (wi_diff inp))))
      in \<lparr>co_depth = Some 1, co_filter = Some ''blob:none'',
          co_sparsePaths = (if 0 < length sparsePaths then Some sparsePaths else None),
          co_submodules = (case wi_cloneHints inp of Some (sub, _) \<Rightarrow> hinted sub | None \<Rightarrow> False),
          co_lfs = (case wi_cloneHints inp of Some (_, lfs) \<Rightarrow> hinted lfs | None \<Rightarrow> False)\<rparr>)"

definition sparseClone :: "ProvisionWorkspaceDeps \<Rightarrow> ProvisionWorkspaceInput \<Rightarrow> string \<Rightarrow> WorkspaceOp list \<Rightarrow> unit vres \<times> WorkspaceOp list" where
  "sparseClone deps inp dir ops =
     (if \<not> cap_clone (vc_capabilities (wi_vcs inp))
      then (Inl (jsError ''workspace strategy sparse-clone requires VCS clone capability''), ops)
      else performOp deps (OpClone (wi_ref inp) dir (sparseOpts inp)) ops)"

fun fetchFiles :: "ProvisionWorkspaceDeps \<Rightarrow> ProvisionWorkspaceInput \<Rightarrow> string \<Rightarrow> DiffFile list \<Rightarrow> WorkspaceOp list \<Rightarrow> unit vres \<times> WorkspaceOp list" where
  "fetchFiles deps inp dir [] ops = (Inr (), ops)"
| "fetchFiles deps inp dir (file # files) ops =
     (if dq_status file = Removed \<or> \<not> pathIsAllowed (dq_path file) then fetchFiles deps inp dir files ops
      else (case wi_getFile inp (wi_ref inp) (dq_path file) (wi_headSha inp) of
              Inl e \<Rightarrow> (Inl e, ops)
            | Inr buf \<Rightarrow>
                (let dest = pathJoin [dir, dq_path file]
                 in case performOp deps (OpMkdir (dirname dest)) ops of
                      (Inl e, ops') \<Rightarrow> (Inl e, ops')
                    | (Inr _, ops') \<Rightarrow>
                        (case performOp deps (OpWriteFile dest buf) ops' of
                           (Inl e, ops'') \<Rightarrow> (Inl e, ops'')
                         | (Inr _, ops'') \<Rightarrow> fetchFiles deps inp dir files ops''))))"

definition contentsApiFetch :: "ProvisionWorkspaceDeps \<Rightarrow> ProvisionWorkspaceInput \<Rightarrow> string \<Rightarrow> WorkspaceOp list \<Rightarrow> unit vres \<times> WorkspaceOp list" where
  "contentsApiFetch deps inp dir ops = fetchFiles deps inp dir (dd_files (wi_diff inp)) ops"

definition fillWorkspace :: "ProvisionWorkspaceDeps \<Rightarrow> ProvisionWorkspaceInput \<Rightarrow> string \<Rightarrow> WorkspaceOp list \<Rightarrow> unit vres \<times> WorkspaceOp list" where
  "fillWorkspace deps inp dir ops =
     (if wi_strategy inp = SparseClone then sparseClone deps inp dir ops else contentsApiFetch deps inp dir ops)"

text \<open>An error of the removal itself takes the place of the one that caused it.\<close>

definition provisionWorkspace :: "ProvisionWorkspaceDeps \<Rightarrow> ProvisionWorkspaceInput \<Rightarrow> WorkspaceOp list \<Rightarrow> WorkspaceHandle vres \<times> WorkspaceOp list" where
  "provisionWorkspace deps inp ops =
     (if wi_strategy inp = NoWorkspace then (Inr \<lparr>wh_dir = [], wh_cleaned = True\<rparr>, ops)
      else (let template = pathJoin [ws_tmpdir deps, ''review-agent-ws-'']
            in case ws_mkdtemp deps ops template of
                 Inl e \<Rightarrow> (Inl e, ops @ [OpMkdtemp template])
               | Inr dir \<Rightarrow>
                   (let h = \<lparr>wh_dir = dir, wh_cleaned = False\<rparr>
                    in case fillWorkspace deps inp dir (ops @ [OpMkdtemp template]) of
                         (Inr _, ops') \<Rightarrow> (Inr h, ops')
                       | (Inl err, ops') \<Rightarrow>
                           (case cleanupWorkspace deps h ops' of
                              (Inl e, _, ops'') \<Rightarrow> (Inl e, ops'')
                            | (Inr _, _, ops'') \<Rightarrow> (Inl err, ops'')))))"

section \<open>Lemmas\<close>

lemma addParents_set: "set (addParents ps dirs) = parentDir ` set ps \<union> set dirs"
  by (induction ps arbitrary: dirs) auto

lemma addParents_distinct: "distinct dirs \<Longrightarrow> distinct (addParents ps dirs)"
  by (induction ps arbitrary: dirs) auto

lemma uniqueParentDirs_set: "set (uniqueParentDirs ps) = parentDir ` set ps" "distinct (uniqueParentDirs ps)"
  by (simp_all add: uniqueParentDirs_def addParents_set addParents_distinct)

lemma joinSegs_segments: "joinSegs (segments p) = p"
  by (simp add: joinSegs_def segments_def join_split)

lemma pathJoin_relative:
  assumes "normal W" "normal r" "r \<noteq> []"
  shows "pathJoin [absPath W, joinSegs r] = absPath (W @ r)"
proof -
  have ne: "joinSegs r \<noteq> []" using joinSegs_empty [OF assms(2)] assms(3) by simp
  have j: "joinSegs [absPath W, joinSegs r] = absPath W @ SLASH # joinSegs r" by (simp add: joinSegs_def)
  have seg: "segments (absPath W @ SLASH # joinSegs r) = segments (absPath W) @ r"
    unfolding segments_slash by (simp add: segments_join assms(2,3))
  have "normSegs False [] (segments (absPath W) @ r) = W @ r"
  proof (cases "W = []")
    case True
    then show ?thesis using normSegs_normal [OF assms(2)] by (simp add: absPath_def segments_slash0 segments_Nil)
  next
    case False
    then have "segments (absPath W) = [] # W" using assms(1) by (simp add: absPath_def segments_slash0 segments_join)
    then show ?thesis using normSegs_normal [of "W @ r" False "[]"] assms by simp
  qed
  moreover have "\<not> endsWith (absPath W @ SLASH # joinSegs r) [SLASH]"
  proof
    assume "endsWith (absPath W @ SLASH # joinSegs r) [SLASH]"
    then obtain x where "absPath W @ SLASH # joinSegs r = x @ [SLASH]" by (auto simp: endsWith_iff_append)
    then have "last (joinSegs r) = SLASH" using ne by (metis last_appendR last_snoc list.distinct(1) last_ConsR)
    moreover have "joinSegs r = butlast (joinSegs r) @ [last (joinSegs r)]" using ne by simp
    ultimately have "segments (joinSegs r) = segments (butlast (joinSegs r)) @ [[]]"
      by (metis segments_slash segments_Nil)
    then have "[] \<in> set r" using assms(2,3) by (metis segments_join in_set_conv_decomp)
    then show False using assms(2) by (auto simp: normalSeg_def list_all_iff)
  qed
  moreover have "isAbsolute (absPath W @ SLASH # joinSegs r)" by (simp add: absPath_def isAbsolute_def)
  moreover have "joinSegs (W @ r) \<noteq> []" using joinSegs_empty [of "W @ r"] assms by simp
  ultimately show ?thesis
    using seg j ne by (simp add: pathJoin_def pathNormalize_def absPath_def Let_def)
qed

text \<open>What may happen in a workspace at \<open>W\<close>.\<close>

definition fetched :: "ProvisionWorkspaceInput \<Rightarrow> string list \<Rightarrow> string \<Rightarrow> string list \<Rightarrow> bool" where
  "fetched inp W buf r =
     list_ex (\<lambda>f. dq_path f = joinSegs r \<and> dq_status f \<noteq> Removed \<and> pathIsAllowed (dq_path f) \<and>
       wi_getFile inp (wi_ref inp) (dq_path f) (wi_headSha inp) = Inr buf) (dd_files (wi_diff inp))"

fun opConfined :: "ProvisionWorkspaceInput \<Rightarrow> string list \<Rightarrow> WorkspaceOp \<Rightarrow> bool" where
  "opConfined inp W (OpMkdtemp _) = True"
| "opConfined inp W (OpMkdir d) = (\<exists>buf r. fetched inp W buf r \<and> d = dirname (absPath (W @ r)))"
| "opConfined inp W (OpWriteFile dest buf) =
     (\<exists>r. fetched inp W buf r \<and> normal r \<and> dest = absPath (W @ r) \<and> \<not> denied DENY_PATTERNS (joinSegs r))"
| "opConfined inp W (OpRm d) = (d = absPath W)"
| "opConfined inp W (OpClone ref d opts) = (d = absPath W \<and> ref = wi_ref inp \<and> cap_clone (vc_capabilities (wi_vcs inp)))"

lemma fetchFiles_confined:
  assumes "normal W" "set files \<subseteq> set (dd_files (wi_diff inp))" "list_all (\<lambda>f. normal (segments (dq_path f))) files"
    and "list_all (opConfined inp W) ops"
  shows "list_all (opConfined inp W) (snd (fetchFiles deps inp (absPath W) files ops))"
  using assms(2-)
proof (induction files arbitrary: ops)
  case (Cons f fs)
  show ?case
  proof (cases "dq_status f = Removed \<or> \<not> pathIsAllowed (dq_path f)")
    case False
    let ?r = "segments (dq_path f)"
    have r: "normal ?r" "joinSegs ?r = dq_path f" "?r \<noteq> []"
      using Cons.prems(2) by (simp_all add: joinSegs_segments) (simp add: segments_def)
    have dest: "pathJoin [absPath W, dq_path f] = absPath (W @ ?r)"
      using pathJoin_relative [OF assms(1) r(1,3)] r(2) by simp
    show ?thesis
    proof (cases "wi_getFile inp (wi_ref inp) (dq_path f) (wi_headSha inp)")
      case (Inr buf)
      then have f: "fetched inp W buf ?r"
        using False Cons.prems(1) r(2) by (auto simp: fetched_def list_ex_iff)
      moreover have "\<not> denied DENY_PATTERNS (joinSegs ?r)" using allowed_not_denied False r(2) by simp
      ultimately have "opConfined inp W (OpWriteFile (absPath (W @ ?r)) buf)" "opConfined inp W (OpMkdir (dirname (absPath (W @ ?r))))"
        using r(1) by (simp_all) blast+
      then show ?thesis using Cons False Inr dest by (simp add: performOp_def Let_def split: sum.split)
    qed (use Cons.prems False in simp)
  qed (use Cons in simp)
qed simp

lemma fill_confined:
  assumes "normal W" "list_all (\<lambda>f. normal (segments (dq_path f))) (dd_files (wi_diff inp))" "list_all (opConfined inp W) ops"
  shows "list_all (opConfined inp W) (snd (fillWorkspace deps inp (absPath W) ops))"
  using assms fetchFiles_confined [OF assms(1) subset_refl assms(2,3)]
  by (simp add: fillWorkspace_def sparseClone_def contentsApiFetch_def performOp_def)

lemma fetchFiles_no_rm: "OpRm d \<notin> set ops \<Longrightarrow> OpRm d \<notin> set (snd (fetchFiles deps inp dir files ops))"
proof (induction files arbitrary: ops)
  case (Cons f fs)
  let ?dest = "pathJoin [dir, dq_path f]"
  have "OpRm d \<notin> set (snd (fetchFiles deps inp dir fs ops))"
    "OpRm d \<notin> set (snd (fetchFiles deps inp dir fs (ops @ [OpMkdir (dirname ?dest), OpWriteFile ?dest buf])))" for buf
    using Cons.IH Cons.prems by simp_all
  then show ?case using Cons.prems by (simp add: performOp_def Let_def split: sum.split)
qed simp

lemma fill_no_rm: "OpRm d \<notin> set ops \<Longrightarrow> OpRm d \<notin> set (snd (fillWorkspace deps inp dir ops))"
  by (auto simp: fillWorkspace_def sparseClone_def contentsApiFetch_def performOp_def fetchFiles_no_rm)


definition sampleWorkspace :: ProvisionWorkspaceDeps where
  "sampleWorkspace = \<lparr>ws_mkdtemp = (\<lambda>_ _. Inr (absPath [''tmp'', ''ws1''])), ws_perform = (\<lambda>_ _. Inr ()), ws_tmpdir = ''/tmp''\<rparr>"

text \<open>
  The parents of the allowed files are what a sparse clone asks for, so a denied file beside an
  allowed one is in a directory that is checked out.
\<close>

lemma sparse_clone_takes_siblings:
  assumes "f \<in> set (dd_files (wi_diff inp))" "pathIsAllowed (dq_path f)" "parentDir p = parentDir (dq_path f)"
  shows "\<exists>dirs. co_sparsePaths (sparseOpts inp) = Some dirs \<and> parentDir p \<in> set dirs"
proof -
  let ?ps = "map dq_path (filter (\<lambda>f. pathIsAllowed (dq_path f)) (dd_files (wi_diff inp)))"
  have "parentDir p \<in> set (uniqueParentDirs ?ps)" using assms by (auto simp: uniqueParentDirs_set)
  then show ?thesis by (auto simp: sparseOpts_def Let_def)
qed

lemma sparse_clone_takes_denied:
  "\<not> pathIsAllowed ''src/.env'' \<and> pathIsAllowed ''src/a.ts'' \<and> parentDir ''src/.env'' = parentDir ''src/a.ts''"
  by (simp add: sample_allowed parentDir_def lastIndexOfC_def)

definition sampleProvision :: ProvisionWorkspaceInput where
  "sampleProvision =
     \<lparr>wi_strategy = ContentsApi,
      wi_vcs = \<lparr>vc_platform = Github,
        vc_capabilities = \<lparr>cap_clone = True, cap_stateComment = Native, cap_approvalEvent = ApprovalGithub, cap_commitMessages = True,
          cap_conversationReply = True\<rparr>,
        vc_getPR = (\<lambda>_. Inl (jsError ''x'')), vc_getDiff = (\<lambda>_ _. Inl (jsError ''x'')), vc_getExistingComments = (\<lambda>_. Inr []),
        vc_getStateComment = (\<lambda>_. Inr None), vc_postReview = (\<lambda>_ _ _. Inr ()), vc_postSummary = (\<lambda>_ _. Inr []),
        vc_upsertStateComment = (\<lambda>_ _ _. Inr ())\<rparr>,
      wi_getFile = (\<lambda>_ _ _. Inr ''let x = 1''),
      wi_ref = \<lparr>pr_platform = Github, pr_owner = ''o'', pr_repo = ''r'', pr_number = 1, pr_headSha = None\<rparr>, wi_headSha = ''c0ffee'',
      wi_diff = \<lparr>dd_baseSha = ''b'', dd_headSha = ''c0ffee'',
        dd_files = map (\<lambda>(p, st). \<lparr>dq_path = p, dq_previousPath = None, dq_status = st, dq_additions = 1, dq_deletions = 0, dq_patch = None\<rparr>)
          [(''.env'', Added), (''src/a.ts'', Modified), (''src/b.ts'', Removed)]\<rparr>,
      wi_cloneHints = None\<rparr>"

lemma sample_paths:
  "normal (segments ''src/a.ts'') \<and> normal (segments ''src/b.ts'') \<and> normal (segments ''.env'') \<and>
   pathJoin [absPath [''tmp'', ''ws1''], ''src/a.ts''] = ''/tmp/ws1/src/a.ts'' \<and> dirname ''/tmp/ws1/src/a.ts'' = ''/tmp/ws1/src''"
  by code_simp

lemma sample_provisioned:
  "provisionWorkspace sampleWorkspace sampleProvision [] =
     (Inr \<lparr>wh_dir = absPath [''tmp'', ''ws1''], wh_cleaned = False\<rparr>,
      [OpMkdtemp (pathJoin [''/tmp'', ''review-agent-ws-'']), OpMkdir ''/tmp/ws1/src'', OpWriteFile ''/tmp/ws1/src/a.ts'' ''let x = 1''])"
  by (simp add: provisionWorkspace_def sampleWorkspace_def sampleProvision_def fillWorkspace_def contentsApiFetch_def performOp_def Let_def
      sample_allowed sample_paths)


end
